(* ===== verification/Prelude.thy ===== *)
theory Prelude
  imports Main "HOL-Library.Word" "HOL-Library.Char_ord" "HOL-Library.List_Lexorder"
begin

text \<open>
  Shared vocabulary of the development: the status codes and the result type of
  \<^verbatim>\<open>include/rbfsafe/result.h\<close>, the byte and machine-word types, and the small
  lemmas on results, lists and sorted lists that the component theories rest on.

  A C++ \<open>Result<T>\<close> is a sum: \<open>Inl\<close> carries the \<open>Error\<close>, \<open>Inr\<close> the value.
  \<open>Result<void>\<close> is the same with \<open>unit\<close>. The early returns
  \<open>if (!x) return x.error();\<close> of the code are the monadic bind of that sum.
\<close>

section \<open>Words, bytes and strings\<close>

type_synonym u8 = "8 word"
type_synonym u32 = "32 word"
type_synonym u64 = "64 word"

section \<open>Status codes, errors and results\<close>

datatype status_code =
    Ok
  | InvalidArgument
  | DimensionMismatch
  | ResourceLimit
  | IdentityMismatch
  | IncompatibleFormat
  | CorruptData
  | IoError
  | Cancelled
  | InternalError

record error =
  code :: status_code
  message :: string
  context_of :: string

definition describe :: "error \<Rightarrow> string" where
  "describe e = (if context_of e = [] then message e
                 else message e @ '' ['' @ context_of e @ '']'')"

type_synonym 'a result = "error + 'a"

definition failure :: "status_code \<Rightarrow> string \<Rightarrow> string \<Rightarrow> 'a result" where
  "failure c m x = Inl \<lparr>code = c, message = m, context_of = x\<rparr>"

definition success :: "'a \<Rightarrow> 'a result" where
  "success = Inr"

definition has_value :: "'a result \<Rightarrow> bool" where
  "has_value r = (case r of Inl _ \<Rightarrow> False | Inr _ \<Rightarrow> True)"

definition rbind :: "'a result \<Rightarrow> ('a \<Rightarrow> 'b result) \<Rightarrow> 'b result" where
  "rbind r f = (case r of Inl e \<Rightarrow> Inl e | Inr x \<Rightarrow> f x)"

text \<open>A guard \<open>if (bad) return failure(...);\<close> that lets the rest run otherwise.\<close>

definition reject :: "bool \<Rightarrow> status_code \<Rightarrow> string \<Rightarrow> string \<Rightarrow> unit result" where
  "reject bad c m x = (if bad then failure c m x else Inr ())"

named_theorems result_simps \<open>unfolding of results, binds and guards\<close>

lemma rbind_simps [simp]:
  "rbind (Inl e) f = Inl e"
  "rbind (Inr x) f = f x"
  by (simp_all add: rbind_def)

lemma has_value_simps [simp]:
  "has_value (Inr x)"
  "\<not> has_value (Inl e)"
  by (simp_all add: has_value_def)

lemma has_value_failure [simp]: "\<not> has_value (failure c m x)"
  by (simp add: failure_def)

lemma failure_neq_Inr [simp]:
  "failure c m x \<noteq> Inr y"
  "Inr y \<noteq> failure c m x"
  by (simp_all add: failure_def)

lemma has_value_iff: "has_value r \<longleftrightarrow> (\<exists>x. r = Inr x)"
  by (cases r) auto

lemma rbind_eq_Inr [result_simps]:
  "rbind r f = Inr y \<longleftrightarrow> (\<exists>x. r = Inr x \<and> f x = Inr y)"
  by (cases r) auto

lemma rbind_failure [simp]: "rbind (failure c m x) f = failure c m x"
  by (simp add: failure_def)

lemma reject_eq_Inr [result_simps]: "reject bad c m x = Inr u \<longleftrightarrow> \<not> bad"
  by (simp add: reject_def)

lemma reject_simps [simp]:
  "reject True c m x = failure c m x"
  "reject False c m x = Inr ()"
  by (simp_all add: reject_def)

lemma rbind_reject: "rbind (reject bad c m x) f = (if bad then failure c m x else f ())"
  by simp

lemma has_value_rbind [result_simps]:
  "has_value (rbind r f) \<longleftrightarrow> (\<exists>x. r = Inr x \<and> has_value (f x))"
  by (cases r) auto

lemma has_value_reject [result_simps, simp]: "has_value (reject bad c m x) \<longleftrightarrow> \<not> bad"
  by (simp add: reject_def)

section \<open>Sorting\<close>

text \<open>
  \<open>std::sort\<close> with a comparator, as insertion sort. The code sorts only where elements the
  comparator does not separate are equal or are rejected right after, so the unstable order
  of \<open>std::sort\<close> is not observable.
\<close>

fun insert_by :: "('a \<Rightarrow> 'a \<Rightarrow> bool) \<Rightarrow> 'a \<Rightarrow> 'a list \<Rightarrow> 'a list" where
  "insert_by lt x [] = [x]"
| "insert_by lt x (y # ys) = (if lt y x then y # insert_by lt x ys else x # y # ys)"

definition sort_by :: "('a \<Rightarrow> 'a \<Rightarrow> bool) \<Rightarrow> 'a list \<Rightarrow> 'a list" where
  "sort_by lt xs = foldr (insert_by lt) xs []"

lemma sort_by_simps [simp]:
  "sort_by lt [] = []" "sort_by lt (x # xs) = insert_by lt x (sort_by lt xs)"
  by (simp_all add: sort_by_def)

lemma set_insert_by [simp]: "set (insert_by lt x xs) = insert x (set xs)"
  by (induction xs) auto

lemma set_sort_by [simp]: "set (sort_by lt xs) = set xs"
  by (induction xs) simp_all

lemma length_insert_by [simp]: "length (insert_by lt x xs) = Suc (length xs)"
  by (induction xs) simp_all

lemma length_sort_by [simp]: "length (sort_by lt xs) = length xs"
  by (induction xs) simp_all

lemma distinct_insert_by: "distinct (map k (insert_by lt x xs)) \<longleftrightarrow> k x \<notin> k ` set xs \<and> distinct (map k xs)"
  by (induction xs) auto

lemma distinct_sort_by: "distinct (map k (sort_by lt xs)) \<longleftrightarrow> distinct (map k xs)"
  by (induction xs) (auto simp: distinct_insert_by)

lemma insert_by_sorted:
  assumes "transp (\<lambda>x y. \<not> lt y x)" and "\<And>x y. lt x y \<Longrightarrow> \<not> lt y x"
  shows "sorted_wrt (\<lambda>x y. \<not> lt y x) xs \<Longrightarrow> sorted_wrt (\<lambda>x y. \<not> lt y x) (insert_by lt x xs)"
proof (induction xs)
  case (Cons y ys)
  show ?case
  proof (cases "lt y x")
    case True
    with Cons assms(2) show ?thesis by auto
  next
    case False
    have "\<not> lt z x" if "z \<in> set ys" for z
    proof -
      have "\<not> lt z y" using that Cons.prems by simp
      with False assms(1) show ?thesis unfolding transp_def by blast
    qed
    with False Cons.prems show ?thesis by simp
  qed
qed simp

lemma sort_by_sorted:
  assumes "transp (\<lambda>x y. \<not> lt y x)" and "\<And>x y. lt x y \<Longrightarrow> \<not> lt y x"
  shows "sorted_wrt (\<lambda>x y. \<not> lt y x) (sort_by lt xs)"
  by (induction xs) (simp_all add: insert_by_sorted [OF assms])

lemma insert_by_id:
  "\<forall>y\<in>set xs. \<not> lt y x \<Longrightarrow> insert_by lt x xs = x # xs"
  by (cases xs) simp_all

lemma sort_by_id: "sorted_wrt (\<lambda>x y. \<not> lt y x) xs \<Longrightarrow> sort_by lt xs = xs"
  by (induction xs) (simp_all add: insert_by_id)

lemma sort_by_wrt:
  assumes "\<And>x y. lt x y \<longleftrightarrow> (k x :: 'k :: linorder) < k y"
  shows "sorted_wrt (\<lambda>x y. \<not> lt y x) (sort_by lt xs)"
  by (rule sort_by_sorted) (auto simp: assms transp_def)

lemma sort_by_key:
  assumes "\<And>x y. lt x y \<longleftrightarrow> (k x :: 'k :: linorder) < k y"
  shows "sorted (map k (sort_by lt xs))"
  using sort_by_wrt [of lt k xs, OF assms] by (simp add: assms sorted_wrt_map not_less)

lemma sorted_sort_by_id:
  assumes "\<And>x y. lt x y \<longleftrightarrow> (k x :: 'k :: linorder) < k y" "sorted (map k xs)"
  shows "sort_by lt xs = xs"
  using assms by (intro sort_by_id) (simp add: sorted_wrt_map not_less)

lemma sort_by_unique:
  assumes "\<And>x y. lt x y \<longleftrightarrow> (k x :: 'k :: linorder) < k y"
    and "sorted_wrt (<) (map k ys)" "set xs = set ys" "distinct xs"
  shows "sort_by lt xs = ys"
proof -
  have s: "sorted (map k ys)" "distinct (map k ys)" using assms(2) by (auto simp: strict_sorted_iff)
  have sx: "sorted (map k (sort_by lt xs))" by (rule sort_by_key) (rule assms(1))
  have inj: "inj_on k (set ys)" using s(2) by (simp add: distinct_map)
  have "distinct (map k (sort_by lt xs))" using inj assms(3,4) by (simp add: distinct_sort_by) (simp add: distinct_map)
  then show ?thesis
    by (intro map_sorted_distinct_set_unique [where f = k]) (use s sx inj assms(3) in simp_all)
qed

text \<open>\<open>std::sort\<close> followed by \<open>erase(unique)\<close> on strings.\<close>

definition sort_unique :: "'a :: linorder list \<Rightarrow> 'a list" where
  "sort_unique xs = remdups_adj (sort xs)"

lemma set_sort_unique [simp]: "set (sort_unique xs) = set xs"
  by (simp add: sort_unique_def)

lemma sort_unique_sorted: "sorted_wrt (<) (sort_unique xs)"
proof -
  have "sorted ys \<Longrightarrow> distinct (remdups_adj ys)" for ys :: "'a list"
    by (induction ys rule: remdups_adj.induct) auto
  then show ?thesis by (simp add: sort_unique_def strict_sorted_iff)
qed

lemma sort_unique_id: "sorted_wrt (<) xs \<Longrightarrow> sort_unique xs = xs"
  by (simp add: sort_unique_def strict_sorted_iff sorted_sort_id remdups_adj_distinct)

lemma length_sort_unique: "length (sort_unique xs) \<le> length xs"
  using remdups_adj_length [of "sort xs"] by (simp add: sort_unique_def)

text \<open>\<open>std::includes\<close> of two sorted ranges.\<close>

fun std_includes :: "'a :: linorder list \<Rightarrow> 'a list \<Rightarrow> bool" where
  "std_includes xs [] = True"
| "std_includes [] (r # rs) = False"
| "std_includes (x # xs) (r # rs) =
     (if r < x then False
      else if x < r then std_includes xs (r # rs)
      else std_includes xs rs)"

lemma std_includes_iff:
  "sorted_wrt (<) xs \<Longrightarrow> sorted_wrt (<) rs \<Longrightarrow> std_includes xs rs \<longleftrightarrow> set rs \<subseteq> set xs"
proof (induction xs rs rule: std_includes.induct)
  case (3 x xs r rs)
  consider "r < x" | "x < r" | "x = r" by (rule linorder_cases)
  then show ?case
  proof cases
    case 3
    then have "x \<notin> set rs" using "3.prems" by auto
    with 3 "3.IH" "3.prems" show ?thesis by auto
  qed (use 3 in \<open>auto dest: order.asym\<close>)
qed auto

text \<open>\<open>std::lower_bound\<close> on a range sorted by \<open>f\<close>: the number of elements below the key.\<close>

definition lower_bound :: "('a \<Rightarrow> 'k :: linorder) \<Rightarrow> 'a list \<Rightarrow> 'k \<Rightarrow> nat" where
  "lower_bound f xs k = length (takeWhile (\<lambda>x. f x < k) xs)"

definition lookup_sorted :: "('a \<Rightarrow> 'k :: linorder) \<Rightarrow> 'a list \<Rightarrow> 'k \<Rightarrow> 'a option" where
  "lookup_sorted f xs k =
     (let p = lower_bound f xs k
      in if p < length xs \<and> f (xs ! p) = k then Some (xs ! p) else None)"

definition insert_at :: "nat \<Rightarrow> 'a \<Rightarrow> 'a list \<Rightarrow> 'a list" where
  "insert_at p x xs = take p xs @ x # drop p xs"

lemma lower_bound_le: "lower_bound f xs k \<le> length xs"
  by (simp add: lower_bound_def length_takeWhile_le)

lemma lower_bound_split:
  assumes "sorted_wrt (\<lambda>x y. f x < f y) xs"
  shows "\<forall>x\<in>set (take (lower_bound f xs k) xs). f x < k"
    and "\<forall>x\<in>set (drop (lower_bound f xs k) xs). k \<le> f x"
proof -
  have "take (lower_bound f xs k) xs = takeWhile (\<lambda>x. f x < k) xs"
    unfolding lower_bound_def by (metis takeWhile_eq_take)
  then show "\<forall>x\<in>set (take (lower_bound f xs k) xs). f x < k"
    by (auto dest: set_takeWhileD)
  have d: "drop (lower_bound f xs k) xs = dropWhile (\<lambda>x. f x < k) xs"
    unfolding lower_bound_def by (metis dropWhile_eq_drop)
  show "\<forall>x\<in>set (drop (lower_bound f xs k) xs). k \<le> f x"
  proof (cases "dropWhile (\<lambda>x. f x < k) xs")
    case (Cons y ys)
    then have "\<not> f y < k" by (metis hd_dropWhile list.distinct(1) list.sel(1))
    moreover have "sorted_wrt (\<lambda>x y. f x < f y) (y # ys)"
      using assms by (metis Cons d sorted_wrt_drop)
    ultimately show ?thesis by (auto simp: d Cons intro: less_imp_le order.strict_trans1)
  next
    case Nil
    then show ?thesis by (simp only: d) simp
  qed
qed

lemma lookup_sorted_Some:
  assumes "sorted_wrt (\<lambda>x y. f x < f y) xs"
  shows "lookup_sorted f xs k = Some x \<longleftrightarrow> x \<in> set xs \<and> f x = k"
proof
  assume "lookup_sorted f xs k = Some x"
  then show "x \<in> set xs \<and> f x = k"
    by (auto simp: lookup_sorted_def Let_def split: if_splits dest: nth_mem)
next
  assume x: "x \<in> set xs \<and> f x = k"
  let ?p = "lower_bound f xs k"
  note split = lower_bound_split [OF assms, of k]
  have "x \<in> set (take ?p xs) \<or> x \<in> set (drop ?p xs)" using x by (metis Un_iff append_take_drop_id set_append)
  with split(1) x have "x \<in> set (drop ?p xs)" by auto
  then obtain y ys where d: "drop ?p xs = y # ys" by (cases "drop ?p xs") auto
  then have p: "?p < length xs" "xs ! ?p = y"
    by (metis drop_all list.distinct(1) not_le, metis drop_all hd_drop_conv_nth list.distinct(1) list.sel(1) not_le)
  have "sorted_wrt (\<lambda>x y. f x < f y) (y # ys)" using assms by (metis d sorted_wrt_drop)
  moreover have "x \<in> set (y # ys)" using \<open>x \<in> set (drop ?p xs)\<close> d by simp
  moreover have "k \<le> f y" using split(2) d by simp
  ultimately have "x = y" using x by auto
  with p x show "lookup_sorted f xs k = Some x" by (simp add: lookup_sorted_def)
qed

lemma lookup_sorted_None:
  assumes "sorted_wrt (\<lambda>x y. f x < f y) xs"
  shows "lookup_sorted f xs k = None \<longleftrightarrow> (\<forall>x\<in>set xs. f x \<noteq> k)"
  using lookup_sorted_Some [OF assms, of k] by (metis not_None_eq)

lemma set_insert_at [simp]: "set (insert_at p x xs) = insert x (set xs)"
proof -
  have "set (insert_at p x xs) = insert x (set (take p xs) \<union> set (drop p xs))" by (auto simp: insert_at_def)
  also have "set (take p xs) \<union> set (drop p xs) = set xs" by (metis append_take_drop_id set_append)
  finally show ?thesis .
qed

lemma length_insert_at [simp]: "length (insert_at p x xs) = Suc (length xs)"
  by (simp add: insert_at_def)

lemma sorted_insert_at:
  assumes "sorted_wrt (\<lambda>x y. f x < f y) xs" and "lookup_sorted f xs (f x) = None"
  shows "sorted_wrt (\<lambda>x y. f x < f y) (insert_at (lower_bound f xs (f x)) x xs)"
proof -
  let ?p = "lower_bound f xs (f x)"
  note split = lower_bound_split [OF assms(1), of "f x"]
  have ne: "\<forall>y\<in>set xs. f y \<noteq> f x" using assms lookup_sorted_None by blast
  have "sorted_wrt (\<lambda>x y. f x < f y) (take ?p xs @ drop ?p xs)" using assms(1) by simp
  then have "sorted_wrt (\<lambda>x y. f x < f y) (take ?p xs)" "sorted_wrt (\<lambda>x y. f x < f y) (drop ?p xs)"
      "\<forall>a\<in>set (take ?p xs). \<forall>b\<in>set (drop ?p xs). f a < f b"
    unfolding sorted_wrt_append by blast+
  moreover have "\<forall>b\<in>set (drop ?p xs). f x < f b"
    using split(2) ne by (metis in_set_dropD order_le_imp_less_or_eq)
  ultimately show ?thesis using split(1) by (simp add: insert_at_def sorted_wrt_append)
qed

section \<open>Sequences of writes\<close>

text \<open>A property of every state that a sequence of writes goes through.\<close>

fun always :: "('s \<Rightarrow> 'w \<Rightarrow> 's) \<Rightarrow> ('s \<Rightarrow> bool) \<Rightarrow> 's \<Rightarrow> 'w list \<Rightarrow> bool" where
  "always app P s [] = P s"
| "always app P s (w # ws) = (P s \<and> always app P (app s w) ws)"

lemma always_take: "always app P s ws \<Longrightarrow> P (foldl app s (take k ws))"
proof (induction ws arbitrary: s k)
  case (Cons w ws)
  then show ?case by (cases k) auto
qed simp

lemma always_append: "always app P s (vs @ ws) \<longleftrightarrow> always app P s vs \<and> always app P (foldl app s vs) ws"
  by (induction vs arbitrary: s) (auto, (case_tac ws; simp))

section \<open>Append-only histories\<close>

text \<open>
  The contract the histories of the library share (safety memory, fleet archive, execution
  ledger, transparency log): every accepted operation keeps the state valid and only
  appends to the recorded entries. What clients rely on is proved once here.
\<close>

locale append_only =
  fixes step :: "'s \<Rightarrow> 's \<Rightarrow> bool" and inv :: "'s \<Rightarrow> bool" and entries :: "'s \<Rightarrow> 'e list"
  assumes step_inv: "inv s \<Longrightarrow> step s t \<Longrightarrow> inv t"
    and step_appends: "inv s \<Longrightarrow> step s t \<Longrightarrow> \<exists>new. entries t = entries s @ new"
begin

lemma reach_inv: "step\<^sup>*\<^sup>* s t \<Longrightarrow> inv s \<Longrightarrow> inv t"
  by (induction rule: rtranclp_induct) (auto intro: step_inv)

lemma reach_appends: "step\<^sup>*\<^sup>* s t \<Longrightarrow> inv s \<Longrightarrow> \<exists>new. entries t = entries s @ new"
proof (induction rule: rtranclp_induct)
  case (step t u)
  then obtain new where "entries t = entries s @ new" by blast
  moreover obtain new' where "entries u = entries t @ new'"
    using step step_appends reach_inv by blast
  ultimately show ?case by simp
qed simp

lemma reach_entry:
  assumes "step\<^sup>*\<^sup>* s t" "inv s" "i < length (entries s)"
  shows "i < length (entries t) \<and> entries t ! i = entries s ! i"
  using reach_appends [OF assms(1,2)] assms(3) by (auto simp: nth_append)

lemma reach_length: "step\<^sup>*\<^sup>* s t \<Longrightarrow> inv s \<Longrightarrow> length (entries s) \<le> length (entries t)"
  using reach_appends by fastforce

end

end
