(* ===== verification/Sha256.thy ===== *)
theory Sha256
  imports Prelude
begin

unbundle bit_operations_syntax

text \<open>
  \<^verbatim>\<open>src/sha256.cpp\<close>: the streaming SHA-256 class, its hexadecimal digest, HMAC and the
  constant-time comparison. Words are \<open>32 word\<close>, bytes \<open>8 word\<close>, the byte counter a
  \<open>64 word\<close> that wraps as \<open>std::uint64_t\<close> does.
\<close>

section \<open>Constants and rounds\<close>

text \<open>The table of the source, which writes it in hexadecimal, in decimal here.\<close>

definition kRoundConstants :: "u32 list" where
  "kRoundConstants =
    [1116352408, 1899447441, 3049323471, 3921009573, 961987163, 1508970993,
     2453635748, 2870763221, 3624381080, 310598401, 607225278, 1426881987,
     1925078388, 2162078206, 2614888103, 3248222580, 3835390401, 4022224774,
     264347078, 604807628, 770255983, 1249150122, 1555081692, 1996064986,
     2554220882, 2821834349, 2952996808, 3210313671, 3336571891, 3584528711,
     113926993, 338241895, 666307205, 773529912, 1294757372, 1396182291,
     1695183700, 1986661051, 2177026350, 2456956037, 2730485921, 2820302411,
     3259730800, 3345764771, 3516065817, 3600352804, 4094571909, 275423344,
     430227734, 506948616, 659060556, 883997877, 958139571, 1322822218,
     1537002063, 1747873779, 1955562222, 2024104815, 2227730452, 2361852424,
     2428436474, 2756734187, 3204031479, 3329325298]"

definition rotate_right :: "u32 \<Rightarrow> nat \<Rightarrow> u32" where
  "rotate_right value count = drop_bit count value OR push_bit (32 - count) value"

datatype working = Working
  (wa: u32) (wb: u32) (wc: u32) (wd: u32) (we: u32) (wf: u32) (wg: u32) (wh: u32)

definition initial_state :: working where
  "initial_state = Working 0x6a09e667 0xbb67ae85 0x3c6ef372 0xa54ff53a
                           0x510e527f 0x9b05688c 0x1f83d9ab 0x5be0cd19"

fun be_word :: "u8 list \<Rightarrow> u32" where
  "be_word [b0, b1, b2, b3] =
     push_bit 24 (ucast b0) OR push_bit 16 (ucast b1) OR push_bit 8 (ucast b2) OR ucast b3"
| "be_word _ = 0"

definition block_words :: "u8 list \<Rightarrow> u32 list" where
  "block_words block = map (\<lambda>i. be_word (take 4 (drop (4 * i) block))) [0..<16]"

definition schedule_word :: "u32 list \<Rightarrow> nat \<Rightarrow> u32" where
  "schedule_word w index =
     (let x = w ! (index - 15); y = w ! (index - 2);
          s0 = rotate_right x 7 XOR rotate_right x 18 XOR drop_bit 3 x;
          s1 = rotate_right y 17 XOR rotate_right y 19 XOR drop_bit 10 y
      in w ! (index - 16) + s0 + w ! (index - 7) + s1)"

definition message_schedule :: "u8 list \<Rightarrow> u32 list" where
  "message_schedule block = foldl (\<lambda>w index. w @ [schedule_word w index]) (block_words block) [16..<64]"

fun round_step :: "working \<Rightarrow> u32 \<times> u32 \<Rightarrow> working" where
  "round_step (Working a b c d e f g h) (k, w) =
     (let sum1 = rotate_right e 6 XOR rotate_right e 11 XOR rotate_right e 25;
          ch = (e AND f) XOR ((NOT e) AND g);
          temporary1 = h + sum1 + ch + k + w;
          sum0 = rotate_right a 2 XOR rotate_right a 13 XOR rotate_right a 22;
          majority = (a AND b) XOR (a AND c) XOR (b AND c);
          temporary2 = sum0 + majority
      in Working (temporary1 + temporary2) a b c (d + temporary1) e f g)"

fun add_working :: "working \<Rightarrow> working \<Rightarrow> working" where
  "add_working (Working a b c d e f g h) (Working a' b' c' d' e' f' g' h') =
     Working (a + a') (b + b') (c + c') (d + d') (e + e') (f + f') (g + g') (h + h')"

definition transform :: "working \<Rightarrow> u8 list \<Rightarrow> working" where
  "transform st block =
     add_working st (foldl round_step st (zip kRoundConstants (message_schedule block)))"


section \<open>The streaming class\<close>

text \<open>
  \<open>class Sha256\<close>: \<open>buffer\<close> holds the first \<open>buffer_size_\<close> bytes of \<open>buffer_\<close>
  (the bytes behind them are never read).
\<close>

record sha_state =
  hash_state :: working
  buffer :: "u8 list"
  byte_count :: u64

definition sha_init :: sha_state where
  "sha_init = \<lparr>hash_state = initial_state, buffer = [], byte_count = 0\<rparr>"

definition update_byte :: "sha_state \<Rightarrow> u8 \<Rightarrow> sha_state" where
  "update_byte s byte =
     (let s' = s\<lparr>buffer := buffer s @ [byte], byte_count := byte_count s + 1\<rparr>
      in if length (buffer s') = 64
         then s'\<lparr>hash_state := transform (hash_state s') (buffer s'), buffer := []\<rparr>
         else s')"

definition update :: "sha_state \<Rightarrow> u8 list \<Rightarrow> sha_state" where
  "update s input = foldl update_byte s input"

definition be_bytes64 :: "u64 \<Rightarrow> u8 list" where
  "be_bytes64 n = map (\<lambda>shift. ucast (drop_bit shift n AND 0xff)) [56, 48, 40, 32, 24, 16, 8, 0]"

definition be_bytes32 :: "u32 \<Rightarrow> u8 list" where
  "be_bytes32 n = map (\<lambda>shift. ucast (drop_bit shift n AND 0xff)) [24, 16, 8, 0]"

fun digest_bytes :: "working \<Rightarrow> u8 list" where
  "digest_bytes (Working a b c d e f g h) = concat (map be_bytes32 [a, b, c, d, e, f, g, h])"

definition finish :: "sha_state \<Rightarrow> u8 list" where
  "finish s =
     (let bit_count = byte_count s * 8;
          b1 = buffer s @ [0x80];
          (st2, b2) = (if length b1 > 56
                       then (transform (hash_state s) (b1 @ replicate (64 - length b1) 0), [])
                       else (hash_state s, b1));
          b3 = b2 @ replicate (56 - length b2) 0 @ be_bytes64 bit_count
      in digest_bytes (transform st2 b3))"

section \<open>Hexadecimal text\<close>

definition hex_digit :: "nat \<Rightarrow> char" where
  "hex_digit n = (if n < 10 then char_of (48 + n) else char_of (87 + n))"

definition hex_byte :: "u8 \<Rightarrow> string" where
  "hex_byte b = [hex_digit (unat b div 16), hex_digit (unat b mod 16)]"

definition hex_digest :: "u8 list \<Rightarrow> string" where
  "hex_digest digest = concat (map hex_byte digest)"

definition byte_of_char :: "char \<Rightarrow> u8" where
  "byte_of_char c = word_of_nat (of_char c)"

definition as_bytes :: "string \<Rightarrow> u8 list" where
  "as_bytes text = map byte_of_char text"

definition sha256_bytes :: "u8 list \<Rightarrow> string" where
  "sha256_bytes bytes = hex_digest (finish (update sha_init bytes))"

definition sha256 :: "string \<Rightarrow> string" where
  "sha256 text = sha256_bytes (as_bytes text)"

text \<open>
  \<open>sha256_file\<close> reads a file through a 64 KiB buffer. A file that cannot be opened is
  \<open>None\<close>; an open one is the contents that arrive, in the blocks \<open>read\<close> delivers, and whether
  reading reached the end of the file.
\<close>

function read_blocks :: "nat \<Rightarrow> 'a list \<Rightarrow> 'a list list" where
  "read_blocks n xs = (if xs = [] \<or> n = 0 then [] else take n xs # read_blocks n (drop n xs))"
  by pat_completeness auto
termination
  by (relation "measure (\<lambda>(n, xs). length xs)") (auto simp: not_le)

declare read_blocks.simps [simp del]

definition sha256_file :: "string \<Rightarrow> (u8 list \<times> bool) option \<Rightarrow> string result" where
  "sha256_file path file =
     (case file of
        None \<Rightarrow> failure IoError ''failed to open file for hashing'' path
      | Some (contents, read_ok) \<Rightarrow>
          (let state = foldl update sha_init (read_blocks (64 * 1024) contents)
           in if \<not> read_ok then failure IoError ''failed while hashing file'' path
              else Inr (hex_digest (finish state))))"

definition hmac_sha256 :: "u8 list \<Rightarrow> u8 list \<Rightarrow> string" where
  "hmac_sha256 key msg =
     (let key_block =
            (if length key > 64 then finish (update sha_init key) @ replicate 32 0
             else key @ replicate (64 - length key) 0);
          inner_pad = map (\<lambda>b. b XOR 0x36) key_block;
          outer_pad = map (\<lambda>b. b XOR 0x5c) key_block;
          inner_digest = finish (update (update sha_init inner_pad) msg)
      in hex_digest (finish (update (update sha_init outer_pad) inner_digest)))"

definition char_at_or_0 :: "string \<Rightarrow> nat \<Rightarrow> nat" where
  "char_at_or_0 s i = (if i < length s then of_char (s ! i) else 0)"

definition constant_time_equal :: "string \<Rightarrow> string \<Rightarrow> bool" where
  "constant_time_equal first second =
     (foldl (\<lambda>difference index. difference OR (char_at_or_0 first index XOR char_at_or_0 second index))
            (length first XOR length second)
            [0..<max (length first) (length second)] = 0)"


section \<open>Streaming against the one-shot specification\<close>

text \<open>
  \<open>absorb\<close> consumes a whole byte string block by block: it is what the byte-wise
  \<open>update\<close> of the code computes, in closed form.
\<close>

function absorb :: "working \<Rightarrow> u8 list \<Rightarrow> working \<times> u8 list" where
  "absorb st xs = (if length xs < 64 then (st, xs) else absorb (transform st (take 64 xs)) (drop 64 xs))"
  by pat_completeness auto
termination
  by (relation "measure (\<lambda>(st, xs). length xs)") auto

declare absorb.simps [simp del]

lemma absorb_short: "length xs < 64 \<Longrightarrow> absorb st xs = (st, xs)"
  by (simp add: absorb.simps)

lemma absorb_block: "length b = 64 \<Longrightarrow> absorb st (b @ xs) = absorb (transform st b) xs"
  by (simp add: absorb.simps [of st "b @ xs"])

lemma absorb_append: "absorb st xs = (st', r) \<Longrightarrow> absorb st (xs @ ys) = absorb st' (r @ ys)"
proof (induction st xs rule: absorb.induct)
  case (1 st xs)
  show ?case
  proof (cases "length xs < 64")
    case True
    with "1.prems" show ?thesis by (simp add: absorb_short)
  next
    case False
    with "1.prems" have "absorb (transform st (take 64 xs)) (drop 64 xs) = (st', r)"
      by (simp add: absorb.simps [of st xs])
    with False "1.IH" have "absorb (transform st (take 64 xs)) (drop 64 xs @ ys) = absorb st' (r @ ys)"
      by blast
    with False show ?thesis
      by (subst absorb.simps) simp
  qed
qed

lemma absorb_rest_short: "length (snd (absorb st xs)) < 64"
  by (induction st xs rule: absorb.induct) (subst absorb.simps, simp)

lemma update_absorb:
  assumes "length (buffer s) < 64"
  shows "update s xs = (case absorb (hash_state s) (buffer s @ xs) of
           (st, r) \<Rightarrow> \<lparr>hash_state = st, buffer = r, byte_count = byte_count s + of_nat (length xs)\<rparr>)"
  using assms
proof (induction xs arbitrary: s)
  case Nil
  then show ?case by (simp add: update_def absorb_short)
next
  case (Cons x xs)
  let ?t = "update_byte s x"
  have t: "length (buffer ?t) < 64"
    and b: "byte_count ?t = byte_count s + 1"
    and a: "absorb (hash_state s) (buffer s @ x # xs) = absorb (hash_state ?t) (buffer ?t @ xs)"
    using Cons.prems absorb_block [of "buffer s @ [x]"]
    by (auto simp: update_byte_def Let_def)
  have "update s (x # xs) = update ?t xs" by (simp add: update_def)
  also have "\<dots> = (case absorb (hash_state s) (buffer s @ x # xs) of
      (st, r) \<Rightarrow> \<lparr>hash_state = st, buffer = r, byte_count = byte_count ?t + of_nat (length xs)\<rparr>)"
    using Cons.IH [OF t] by (simp add: a)
  finally show ?case by (simp add: b add.assoc)
qed

lemma update_append: "update s (xs @ ys) = update (update s xs) ys"
  by (simp add: update_def)

lemma read_blocks_concat: "0 < n \<Longrightarrow> concat (read_blocks n xs) = xs"
  by (induction n xs rule: read_blocks.induct) (subst read_blocks.simps, simp)

lemma foldl_update_blocks: "foldl update s bs = update s (concat bs)"
  by (induction bs arbitrary: s) (simp_all add: update_append update_def)

lemma fst_absorb_blocks:
  "64 dvd length xs \<Longrightarrow> fst (absorb st xs) = foldl transform st (read_blocks 64 xs)"
proof (induction st xs rule: absorb.induct)
  case (1 st xs)
  show ?case
  proof (cases "length xs < 64")
    case True
    with "1.prems" have "xs = []" by (auto elim: dvdE)
    then show ?thesis by (simp add: absorb_short read_blocks.simps)
  next
    case False
    with "1.prems" have "64 dvd length (drop 64 xs)" by (simp add: dvd_diff_nat)
    with False "1.IH" have "fst (absorb (transform st (take 64 xs)) (drop 64 xs))
        = foldl transform (transform st (take 64 xs)) (read_blocks 64 (drop 64 xs))"
      by blast
    moreover from False have "xs \<noteq> []" by auto
    ultimately show ?thesis using False
      by (simp add: absorb.simps [of st xs] read_blocks.simps [of 64 xs])
  qed
qed

text \<open>
  The specification (FIPS 180-4, sections 5.1.1 and 6.2): pad the message to a multiple of
  64 bytes with \<open>0x80\<close>, the least number of zero bytes and the 64-bit bit count, and
  fold the compression function over its blocks.
\<close>

definition fips_pad :: "u8 list \<Rightarrow> u8 list" where
  "fips_pad m = m @ [0x80] @ replicate ((119 - length m mod 64) mod 64) 0
                  @ be_bytes64 (of_nat (length m) * 8)"

definition fips_sha256 :: "u8 list \<Rightarrow> u8 list" where
  "fips_sha256 m = digest_bytes (foldl transform initial_state (read_blocks 64 (fips_pad m)))"

lemma length_be_bytes64 [simp]: "length (be_bytes64 n) = 8"
  by (simp add: be_bytes64_def)

lemma length_be_bytes32 [simp]: "length (be_bytes32 n) = 4"
  by (simp add: be_bytes32_def)

lemma length_digest_bytes [simp]: "length (digest_bytes w) = 32"
  by (cases w) simp

lemma length_finish [simp]: "length (finish s) = 32"
  by (simp add: finish_def Let_def split: prod.split)

lemma pad_count:
  fixes n :: nat
  assumes "n < 64"
  shows "(119 - n) mod 64 = (if n < 56 then 55 - n else 119 - n)"
proof (cases "n < 56")
  case True
  then have "119 - n = 64 + (55 - n)" by simp
  then have "(119 - n) mod 64 = (55 - n) mod 64" by (simp only: mod_add_self1)
  with True show ?thesis by simp
next
  case False
  with assms show ?thesis by simp
qed

lemma finish_absorb:
  assumes r: "length (buffer s) < 64"
  shows "finish s = digest_bytes (fst (absorb (hash_state s)
           (buffer s @ [0x80] @ replicate ((119 - length (buffer s)) mod 64) 0
              @ be_bytes64 (byte_count s * 8))))"
proof (cases "length (buffer s) < 56")
  case True
  let ?b = "buffer s @ [0x80] @ replicate (55 - length (buffer s)) 0 @ be_bytes64 (byte_count s * 8)"
  have "length ?b = 64" using True by simp
  then have "absorb (hash_state s) (?b @ []) = absorb (transform (hash_state s) ?b) []"
    by (rule absorb_block)
  with True show ?thesis
    by (simp add: finish_def Let_def pad_count [OF r] absorb_short)
next
  case False
  let ?n = "length (buffer s)"
  let ?b = "buffer s @ [0x80] @ replicate (63 - ?n) 0"
  let ?c = "replicate 56 0 @ be_bytes64 (byte_count s * 8)"
  have b: "length ?b = 64" and c: "length ?c = 64" using False r by simp_all
  have "replicate (119 - ?n) (0::u8) = replicate (63 - ?n) 0 @ replicate 56 0"
    using r by (simp flip: replicate_add)
  moreover have "absorb (hash_state s) (?b @ ?c @ []) = (transform (transform (hash_state s) ?b) ?c, [])"
    using absorb_block [OF b, of "hash_state s" "?c @ []"] absorb_block [OF c, of _ "[]"]
    by (simp add: absorb_short)
  ultimately show ?thesis using False r
    by (simp add: finish_def Let_def pad_count [OF r])
qed

lemma absorb_rest_length: "length (snd (absorb st xs)) = length xs mod 64"
proof (induction st xs rule: absorb.induct)
  case (1 st xs)
  then show ?case by (subst absorb.simps) (simp add: le_mod_geq)
qed

lemma length_fips_pad: "64 dvd length (fips_pad m)"
proof -
  let ?r = "length m mod 64"
  have r: "?r < 64" by simp
  have "64 dvd ?r + 9 + (119 - ?r) mod 64"
    using r by (auto simp: pad_count [OF r])
  then have "64 dvd 64 * (length m div 64) + (?r + 9 + (119 - ?r) mod 64)"
    by (rule dvd_add [OF dvd_triv_left])
  also have "64 * (length m div 64) + (?r + 9 + (119 - ?r) mod 64) = length m + 9 + (119 - ?r) mod 64"
    by (simp flip: add.assoc)
  finally show ?thesis by (simp add: fips_pad_def add.assoc)
qed

lemma finish_update_fips: "finish (update sha_init m) = fips_sha256 m"
proof -
  obtain st r where a: "absorb initial_state m = (st, r)" by force
  then have r: "length r = length m mod 64" using absorb_rest_length [of initial_state m] by simp
  have u: "update sha_init m = \<lparr>hash_state = st, buffer = r, byte_count = of_nat (length m)\<rparr>"
    using update_absorb [of sha_init m] a by (simp add: sha_init_def)
  let ?p = "[0x80] @ replicate ((119 - length m mod 64) mod 64) 0 @ be_bytes64 (of_nat (length m) * 8)"
  have "finish (update sha_init m) = digest_bytes (fst (absorb st (r @ ?p)))"
    using finish_absorb [of "update sha_init m"] by (simp add: u r)
  also have "absorb st (r @ ?p) = absorb initial_state (m @ ?p)"
    using absorb_append [OF a] by simp
  also have "fst (absorb initial_state (m @ ?p)) = foldl transform initial_state (read_blocks 64 (fips_pad m))"
    using fst_absorb_blocks [OF length_fips_pad] by (simp add: fips_pad_def)
  finally show ?thesis by (simp add: fips_sha256_def)
qed

lemma length_fips [simp]: "length (fips_sha256 m) = 32"
  by (simp add: fips_sha256_def)

text \<open>RFC 2104: a long key is hashed, a short one padded with zeros.\<close>

lemma hmac_rfc2104:
  "hmac_sha256 k m =
     (let kb = (if length k > 64 then fips_sha256 k else k);
          block = kb @ replicate (64 - length kb) 0
      in hex_digest (fips_sha256 (map (\<lambda>b. b XOR 0x5c) block @ fips_sha256 (map (\<lambda>b. b XOR 0x36) block @ m))))"
  by (simp add: hmac_sha256_def Let_def finish_update_fips update_append [symmetric])

lemma sha256_bytes_fips: "sha256_bytes m = hex_digest (fips_sha256 m)"
  by (simp add: sha256_bytes_def finish_update_fips)

section \<open>Shape of a digest\<close>

definition is_hex_char :: "char \<Rightarrow> bool" where
  "is_hex_char c \<longleftrightarrow> (CHR ''0'' \<le> c \<and> c \<le> CHR ''9'') \<or> (CHR ''a'' \<le> c \<and> c \<le> CHR ''f'')"

lemma hex_digit_is_hex: "n < 16 \<Longrightarrow> is_hex_char (hex_digit n)"
proof -
  assume "n < 16"
  then have "n \<in> set [0..<16]" by simp
  moreover have "list_all (\<lambda>n. is_hex_char (hex_digit n)) [0..<16]" by code_simp
  ultimately show ?thesis by (simp only: list_all_iff)
qed

lemma unat_u8_less [simp]: "unat (b :: u8) < 256"
proof -
  have "unat b < 2 ^ LENGTH(8)" by (rule unsigned_less)
  then show ?thesis by simp
qed

lemma hex_byte_is_hex: "c \<in> set (hex_byte b) \<Longrightarrow> is_hex_char c"
  using unat_u8_less [of b] by (auto simp: hex_byte_def less_mult_imp_div_less intro!: hex_digit_is_hex)

lemma length_hex_byte [simp]: "length (hex_byte b) = 2"
  by (simp add: hex_byte_def)

lemma length_hex_digest [simp]: "length (hex_digest ds) = 2 * length ds"
  by (induction ds) (simp_all add: hex_digest_def)

lemma hex_digest_is_hex: "c \<in> set (hex_digest ds) \<Longrightarrow> is_hex_char c"
  by (auto simp: hex_digest_def dest: hex_byte_is_hex)

lemma length_sha256 [simp]: "length (sha256 t) = 64" "length (sha256_bytes b) = 64"
  by (simp_all add: sha256_def sha256_bytes_def)

lemma sha256_is_hex: "c \<in> set (sha256 t) \<Longrightarrow> is_hex_char c"
  by (auto simp: sha256_def sha256_bytes_def dest: hex_digest_is_hex)

lemma sha256_nonempty [simp]: "sha256 t \<noteq> []"
  using length_sha256(1) [of t] by force

section \<open>Constant-time comparison\<close>

lemma or_eq_0_nat: "(a :: nat) OR b = 0 \<longleftrightarrow> a = 0 \<and> b = 0"
  by (simp add: or_eq_0_iff)

lemma xor_eq_0_nat: "(a :: nat) XOR b = 0 \<longleftrightarrow> a = b"
  by (metis bit.xor_self xor.assoc xor.left_neutral xor.right_neutral xor_nat_def)

lemma foldl_or_eq_0:
  "foldl (\<lambda>d i. d OR f i) (d::nat) is = 0 \<longleftrightarrow> d = 0 \<and> (\<forall>i\<in>set is. f i = 0)"
  by (induction "is" arbitrary: d) (auto simp: or_eq_0_nat)

lemma constant_time_equal_eq: "constant_time_equal s t \<longleftrightarrow> s = t"
proof
  assume "constant_time_equal s t"
  then have len: "length s = length t"
    and pt: "\<And>i. i < length s \<Longrightarrow> char_at_or_0 s i = char_at_or_0 t i"
    by (auto simp: constant_time_equal_def foldl_or_eq_0 xor_eq_0_nat)
  then have "s ! i = t ! i" if "i < length s" for i
    using that len pt [OF that] by (simp add: char_at_or_0_def of_char_eq_iff)
  with len show "s = t" by (simp add: list_eq_iff_nth_eq)
next
  assume "s = t"
  then show "constant_time_equal s t"
    by (simp only: constant_time_equal_def foldl_or_eq_0 xor_eq_0_nat) simp
qed

end
