(* ===== verification/Text.thy ===== *)
theory Text
  imports Sha256
begin

text \<open>
  Text codecs and validators the components share: the hexadecimal codec of
  \<^verbatim>\<open>src/identity.cpp\<close>, the digest and identifier validators of
  \<^verbatim>\<open>src/certificate.cpp\<close> and \<^verbatim>\<open>src/memory.cpp\<close>, and the parts of the standard
  library they use: \<open>std::to_string\<close> and \<open>std::from_chars\<close> on \<open>std::uint64_t\<close>.
\<close>

section \<open>Decimal text\<close>

definition digit_char :: "nat \<Rightarrow> char" where
  "digit_char n = char_of (48 + n)"

definition digit_val :: "char \<Rightarrow> nat" where
  "digit_val c = of_char c - 48"

definition is_digit :: "char \<Rightarrow> bool" where
  "is_digit c \<longleftrightarrow> CHR ''0'' \<le> c \<and> c \<le> CHR ''9''"

fun decimal :: "nat \<Rightarrow> string" where
  "decimal n = (if n < 10 then [digit_char n] else decimal (n div 10) @ [digit_char (n mod 10)])"

declare decimal.simps [simp del]

definition dec_val :: "string \<Rightarrow> nat" where
  "dec_val s = foldl (\<lambda>a c. a * 10 + digit_val c) 0 s"

definition to_string :: "u64 \<Rightarrow> string" where
  "to_string n = decimal (unat n)"

definition to_string32 :: "u32 \<Rightarrow> string" where
  "to_string32 n = decimal (unat n)"

text \<open>
  \<open>std::from_chars(begin, end, result)\<close> into a \<open>std::uint64_t\<close>, together with the
  test every caller makes that it succeeded and consumed the whole range.
\<close>

definition from_chars :: "string \<Rightarrow> u64 option" where
  "from_chars s = (if s \<noteq> [] \<and> list_all is_digit s \<and> dec_val s < 2 ^ 64
                   then Some (of_nat (dec_val s)) else None)"

lemma of_char_digit_char: "n < 10 \<Longrightarrow> of_char (digit_char n) = 48 + n"
  by (simp add: digit_char_def)

lemma is_digit_of_char: "is_digit c \<longleftrightarrow> 48 \<le> (of_char c :: nat) \<and> (of_char c :: nat) \<le> 57"
  by (simp add: is_digit_def less_eq_char_def)

lemma is_digit_digit_char: "n < 10 \<Longrightarrow> is_digit (digit_char n)"
  by (simp add: is_digit_of_char of_char_digit_char)

lemma digit_val_digit_char [simp]: "n < 10 \<Longrightarrow> digit_val (digit_char n) = n"
  by (simp add: digit_val_def of_char_digit_char)

lemma digit_val_less: "is_digit c \<Longrightarrow> digit_val c < 10"
  by (auto simp: digit_val_def is_digit_of_char)

lemma dec_val_Nil [simp]: "dec_val [] = 0"
  by (simp add: dec_val_def)

lemma dec_val_snoc [simp]: "dec_val (s @ [c]) = dec_val s * 10 + digit_val c"
  by (simp add: dec_val_def)

lemma dec_val_append: "dec_val (s @ t) = dec_val s * 10 ^ length t + dec_val t"
proof (induction t rule: rev_induct)
  case (snoc c t)
  have "dec_val (s @ t @ [c]) = dec_val (s @ t) * 10 + digit_val c"
    using dec_val_snoc [of "s @ t" c] by simp
  with snoc show ?case by (simp add: algebra_simps)
qed simp

lemma decimal_val [simp]: "dec_val (decimal n) = n"
proof (induction n rule: decimal.induct)
  case (1 n)
  then show ?case by (subst decimal.simps) (simp add: dec_val_def)
qed

lemma decimal_nonempty [simp]: "decimal n \<noteq> []"
  by (subst decimal.simps) simp

lemma decimal_digits: "list_all is_digit (decimal n)"
proof (induction n rule: decimal.induct)
  case (1 n)
  then show ?case by (subst decimal.simps) (simp add: is_digit_digit_char)
qed

lemma decimal_inj: "decimal m = decimal n \<Longrightarrow> m = n"
  by (metis decimal_val)

lemma to_string_inj [simp]: "to_string m = to_string n \<longleftrightarrow> m = n"
  by (auto simp: to_string_def word_unat_eq_iff dest: decimal_inj)

lemma to_string32_inj [simp]: "to_string32 m = to_string32 n \<longleftrightarrow> m = n"
  by (auto simp: to_string32_def word_unat_eq_iff dest: decimal_inj)

lemma to_string_nonempty [simp]: "to_string n \<noteq> []"
  by (simp add: to_string_def)

lemma unat_u64_less [simp]: "unat (n :: u64) < 2 ^ 64"
proof -
  have "unat n < 2 ^ LENGTH(64)" by (rule unsigned_less)
  then show ?thesis by simp
qed

lemma unat_u64_of_nat: "n < 2 ^ 64 \<Longrightarrow> unat (of_nat n :: u64) = n"
  by (simp add: unat_of_nat)

lemma from_chars_to_string: "from_chars (to_string n) = Some n"
  using unat_u64_less [of n] by (simp add: from_chars_def to_string_def decimal_digits)

text \<open>A bound on the length of decimal text.\<close>

lemma length_decimal: "n < 10 ^ k \<Longrightarrow> 0 < k \<Longrightarrow> length (decimal n) \<le> k"
proof (induction n arbitrary: k rule: decimal.induct)
  case (1 n)
  show ?case
  proof (cases "n < 10")
    case True
    with "1.prems" show ?thesis by (subst decimal.simps) simp
  next
    case False
    from "1.prems" obtain j where k: "k = Suc j" by (cases k) auto
    from False "1.prems" k have "0 < j" by (cases j) auto
    moreover from "1.prems" k have "n div 10 < 10 ^ j"
      by (simp add: less_mult_imp_div_less mult.commute)
    ultimately have "length (decimal (n div 10)) \<le> j" using "1.IH" [OF False] by blast
    with False k show ?thesis by (subst decimal.simps) simp
  qed
qed

lemma length_to_string: "length (to_string n) \<le> 20"
  unfolding to_string_def
  by (rule length_decimal) (use unat_u64_less [of n] in auto)

section \<open>Hexadecimal text\<close>

definition encode_hex :: "u8 list \<Rightarrow> string" where
  "encode_hex bytes = concat (map hex_byte bytes)"

definition nibble :: "char \<Rightarrow> int" where
  "nibble c = (if CHR ''0'' \<le> c \<and> c \<le> CHR ''9'' then of_char c - 48
               else if CHR ''a'' \<le> c \<and> c \<le> CHR ''f'' then of_char c - 97 + 10
               else -1)"

fun decode_pairs :: "string \<Rightarrow> u8 list result" where
  "decode_pairs (h # l # rest) =
     (if nibble h < 0 \<or> nibble l < 0
      then failure CorruptData ''hexadecimal byte string contains an invalid character'' []
      else rbind (decode_pairs rest) (\<lambda>bs. Inr (word_of_int (nibble h * 16 + nibble l) # bs)))"
| "decode_pairs _ = Inr []"

definition decode_hex :: "string \<Rightarrow> nat \<Rightarrow> u8 list result" where
  "decode_hex text expected_bytes =
     (if length text \<noteq> expected_bytes * 2
      then failure CorruptData ''hexadecimal byte string has invalid length'' []
      else decode_pairs text)"

lemma nibble_hex_digit: "n < 16 \<Longrightarrow> nibble (hex_digit n) = int n"
proof -
  assume "n < 16"
  then have "n \<in> set [0..<16]" by simp
  moreover have "list_all (\<lambda>n. nibble (hex_digit n) = int n) [0..<16]" by code_simp
  ultimately show ?thesis by (simp only: list_all_iff)
qed

lemma decode_pairs_encode: "decode_pairs (encode_hex bs) = Inr bs"
proof (induction bs)
  case (Cons b bs)
  have d: "unat b div 16 < 16" and m: "unat b mod 16 < 16"
    using unat_u8_less [of b] by (simp_all add: less_mult_imp_div_less)
  have "word_of_int (int (unat b div 16) * 16 + int (unat b mod 16)) = b"
  proof -
    have "int (unat b div 16) * 16 + int (unat b mod 16) = int (unat b)"
      by (metis div_mult_mod_eq of_nat_add of_nat_mult of_nat_numeral)
    then show ?thesis by simp
  qed
  with Cons show ?case
    by (simp add: encode_hex_def hex_byte_def nibble_hex_digit [OF d] nibble_hex_digit [OF m])
qed (simp add: encode_hex_def)

lemma length_encode_hex [simp]: "length (encode_hex bs) = 2 * length bs"
  by (induction bs) (simp_all add: encode_hex_def)

lemma decode_encode_hex: "length bs = n \<Longrightarrow> decode_hex (encode_hex bs) n = Inr bs"
  by (simp add: decode_hex_def decode_pairs_encode)

lemma encode_hex_inj: "encode_hex a = encode_hex b \<Longrightarrow> a = b"
  by (metis decode_pairs_encode sum.inject(2))

lemma encode_hex_is_hex: "c \<in> set (encode_hex bs) \<Longrightarrow> is_hex_char c"
  by (auto simp: encode_hex_def dest: hex_byte_is_hex)

section \<open>Digests and identifiers\<close>

definition valid_sha256 :: "string \<Rightarrow> bool" where
  "valid_sha256 digest \<longleftrightarrow> length digest = 64 \<and>
     list_all (\<lambda>v. (CHR ''0'' \<le> v \<and> v \<le> CHR ''9'') \<or> (CHR ''a'' \<le> v \<and> v \<le> CHR ''f'')) digest"

lemma valid_sha256_iff: "valid_sha256 d \<longleftrightarrow> length d = 64 \<and> (\<forall>c\<in>set d. is_hex_char c)"
  by (simp add: valid_sha256_def is_hex_char_def list_all_iff)

lemma valid_sha256_sha256 [simp, intro]: "valid_sha256 (sha256 t)"
  by (simp add: valid_sha256_iff sha256_is_hex)

lemma valid_sha256_nonempty [simp]: "\<not> valid_sha256 []"
  by (simp add: valid_sha256_def)

lemma valid_sha256_length: "valid_sha256 d \<Longrightarrow> length d = 64"
  by (simp add: valid_sha256_def)

text \<open>Both control-character tests of the code compare the byte as an unsigned char.\<close>

definition contains_control_character :: "string \<Rightarrow> bool" where
  "contains_control_character value =
     list_ex (\<lambda>c. (of_char c :: nat) < 0x20 \<or> (of_char c :: nat) = 0x7f) value"

definition is_hex_tag :: "string \<Rightarrow> nat \<Rightarrow> bool" where
  "is_hex_tag tag bytes \<longleftrightarrow> length tag = bytes * 2 \<and>
     list_all (\<lambda>v. is_digit v \<or> (CHR ''a'' \<le> v \<and> v \<le> CHR ''f'')) tag"

lemma is_hex_tag_encode: "length bs = n \<Longrightarrow> is_hex_tag (encode_hex bs) n"
  using encode_hex_is_hex [of _ bs]
  by (auto simp: is_hex_tag_def list_all_iff is_hex_char_def is_digit_def)

text \<open>Two strings with the same digest are equal, or they are a concrete collision.\<close>

definition sha256_collision :: "string \<Rightarrow> string \<Rightarrow> bool" where
  "sha256_collision s t \<longleftrightarrow> s \<noteq> t \<and> sha256 s = sha256 t"

lemma sha256_eq_cases: "sha256 s = sha256 t \<Longrightarrow> s = t \<or> sha256_collision s t"
  by (auto simp: sha256_collision_def)

end
