(* ===== verification/Binary64.thy ===== *)
theory Binary64
  imports Complex_Main Text
begin

text \<open>
  The C++ type \<open>double\<close>, as IEEE 754 binary64: a 64-bit pattern, the exact rational a
  finite pattern stands for, round-to-nearest-even, the comparisons and the arithmetic the
  sources use, and the two conversions of the standard library the JSON writer and reader
  rest on: \<open>ostream << setprecision(17)\<close> (the \<open>%.17g\<close> format) and \<open>strtod\<close>.

  The magnitude of a pattern (its low 63 bits, as a number) orders the finite values;
  \<open>scaled\<close> is the value of a magnitude in units of the smallest subnormal, \<open>2 ^ -1074\<close>.
\<close>

section \<open>Patterns\<close>

text \<open>The weight of the sign bit and of the implicit leading bit of a significand.\<close>

definition sign_bit :: nat where
  "sign_bit = 2 ^ 63"

definition hidden_bit :: nat where
  "hidden_bit = 2 ^ 52"

datatype f64 = F64 (f64_bits: u64)

definition neg :: "f64 \<Rightarrow> bool" where
  "neg x \<longleftrightarrow> sign_bit \<le> unat (f64_bits x)"

definition mag :: "f64 \<Rightarrow> nat" where
  "mag x = unat (f64_bits x) mod sign_bit"

definition mk_f64 :: "bool \<Rightarrow> nat \<Rightarrow> f64" where
  "mk_f64 s m = F64 (of_nat ((if s then sign_bit else 0) + m))"

definition inf_mag :: nat where
  "inf_mag = 0x7ff * hidden_bit"

definition isfinite :: "f64 \<Rightarrow> bool" where
  "isfinite x \<longleftrightarrow> mag x < inf_mag"

definition isnan :: "f64 \<Rightarrow> bool" where
  "isnan x \<longleftrightarrow> inf_mag < mag x"

definition isinf :: "f64 \<Rightarrow> bool" where
  "isinf x \<longleftrightarrow> mag x = inf_mag"

definition f64_nan :: f64 where
  "f64_nan = F64 0x7ff8000000000000"

definition f64_inf :: f64 where
  "f64_inf = mk_f64 False inf_mag"

definition f64_zero :: f64 where
  "f64_zero = F64 0"

lemma sign_bit_pos [simp]: "0 < sign_bit"
  by (simp add: sign_bit_def)

lemma hidden_bit_pos [simp]: "0 < hidden_bit"
  by (simp add: hidden_bit_def)

lemma unat_less_sign: "unat (w :: u64) < 2 * sign_bit"
  using unat_u64_less [of w] by (simp add: sign_bit_def)

lemma inf_mag_less_sign: "inf_mag < sign_bit"
  by (simp add: inf_mag_def sign_bit_def hidden_bit_def)

lemma mag_less [simp]: "mag x < sign_bit"
  by (simp add: mag_def)

lemma bits_split: "unat (f64_bits x) = (if neg x then sign_bit else 0) + mag x"
proof (cases "neg x")
  case True
  then have "unat (f64_bits x) = sign_bit + (unat (f64_bits x) - sign_bit)"
    by (simp add: neg_def)
  moreover have "unat (f64_bits x) - sign_bit < sign_bit"
    using unat_less_sign [of "f64_bits x"] by simp
  ultimately have "unat (f64_bits x) mod sign_bit = unat (f64_bits x) - sign_bit"
    by (metis mod_add_self1 mod_less)
  with True show ?thesis by (simp add: mag_def neg_def)
next
  case False
  then show ?thesis by (simp add: mag_def neg_def)
qed

lemma mk_f64_neg_mag [simp]: "mk_f64 (neg x) (mag x) = x"
proof -
  have "of_nat (unat (f64_bits x)) = f64_bits x" by simp
  then show ?thesis by (simp only: bits_split mk_f64_def f64.collapse)
qed

lemma unat_mk:
  assumes "m < sign_bit"
  shows "unat (f64_bits (mk_f64 s m)) = (if s then sign_bit else 0) + m"
proof -
  have "(if s then sign_bit else 0) + m < 2 ^ LENGTH(64)"
    using assms by (simp add: sign_bit_def)
  then show ?thesis by (simp only: mk_f64_def f64.sel unat_of_nat take_bit_eq_mod mod_less)
qed

lemma mag_mk [simp]: "m < sign_bit \<Longrightarrow> mag (mk_f64 s m) = m"
  by (simp add: mag_def unat_mk)

lemma neg_mk [simp]: "m < sign_bit \<Longrightarrow> neg (mk_f64 s m) = s"
  by (simp add: neg_def unat_mk)

lemma f64_eqI:
  assumes "neg x = neg y" and "mag x = mag y"
  shows "x = y"
proof -
  have "mk_f64 (neg x) (mag x) = mk_f64 (neg y) (mag y)" by (simp only: assms)
  then show ?thesis by (simp only: mk_f64_neg_mag)
qed

section \<open>Values\<close>

definition scaled :: "nat \<Rightarrow> nat" where
  "scaled m = (let e = m div hidden_bit; f = m mod hidden_bit
               in if e = 0 then f else (hidden_bit + f) * 2 ^ (e - 1))"

definition ulp_min :: rat where
  "ulp_min = 1 / 2 ^ 1074"

definition magnitude :: "f64 \<Rightarrow> rat" where
  "magnitude x = of_nat (scaled (mag x)) * ulp_min"

definition val :: "f64 \<Rightarrow> rat" where
  "val x = (if neg x then - magnitude x else magnitude x)"

text \<open>
  Every magnitude lies in a binade: \<open>m = k * 2 ^ 52 + q\<close> has the value \<open>q * 2 ^ k\<close>.
\<close>

lemma scaled_binade:
  assumes "k = 0 \<or> hidden_bit \<le> q" and "q \<le> 2 * hidden_bit"
  shows "scaled (k * hidden_bit + q) = q * 2 ^ k"
proof -
  consider "q < hidden_bit" "k = 0" | f where "q = hidden_bit + f" "f < hidden_bit"
    | "q = 2 * hidden_bit"
    using assms by (metis le_Suc_ex less_le nat_add_left_cancel_less mult_2 not_le)
  then show ?thesis
  proof cases
    case 1
    then show ?thesis by (simp add: scaled_def)
  next
    case (2 f)
    then have "k * hidden_bit + q = f + (k + 1) * hidden_bit" by simp
    with 2 show ?thesis by (simp add: scaled_def Let_def)
  next
    case 3
    then have "k * hidden_bit + q = (k + 2) * hidden_bit" by simp
    with 3 show ?thesis by (simp add: scaled_def Let_def)
  qed
qed

lemma mag_binade:
  obtains k q where "m = k * hidden_bit + q" and "k = 0 \<or> hidden_bit \<le> q" and "q < 2 * hidden_bit"
proof (cases "m < hidden_bit")
  case True
  then show ?thesis using that [of 0 m] by simp
next
  case False
  let ?e = "m div hidden_bit"
  have "0 < ?e" using False by (simp add: div_greater_zero_iff)
  then obtain k where k: "?e = Suc k" using gr0_implies_Suc by blast
  have "m = ?e * hidden_bit + m mod hidden_bit" by simp
  then have "m = k * hidden_bit + (hidden_bit + m mod hidden_bit)" by (simp add: k)
  moreover have "hidden_bit + m mod hidden_bit < 2 * hidden_bit" by simp
  ultimately show ?thesis using that [of k "hidden_bit + m mod hidden_bit"] by simp
qed

lemma scaled_strict_mono: "m < n \<Longrightarrow> scaled m < scaled n"
proof -
  have step: "scaled m < scaled (Suc m)" for m
  proof -
    obtain k q where m: "m = k * hidden_bit + q" and k: "k = 0 \<or> hidden_bit \<le> q"
      and q: "q < 2 * hidden_bit"
      by (rule mag_binade)
    then have "scaled m = q * 2 ^ k" by (simp add: scaled_binade)
    moreover have "scaled (k * hidden_bit + Suc q) = Suc q * 2 ^ k"
      by (rule scaled_binade) (use k q in auto)
    ultimately show ?thesis using m by simp
  qed
  then show "m < n \<Longrightarrow> scaled m < scaled n" by (rule lift_Suc_mono_less)
qed

lemma scaled_less_iff [simp]: "scaled m < scaled n \<longleftrightarrow> m < n"
  by (metis linorder_neqE_nat order_less_imp_not_less scaled_strict_mono)

lemma scaled_eq_iff [simp]: "scaled m = scaled n \<longleftrightarrow> m = n"
  by (metis linorder_neqE_nat order_less_irrefl scaled_strict_mono)

lemma scaled_le_iff [simp]: "scaled m \<le> scaled n \<longleftrightarrow> m \<le> n"
  by (simp flip: not_less)

lemma scaled_0 [simp]: "scaled 0 = 0"
  by (simp add: scaled_def)

lemma scaled_pos_iff [simp]: "0 < scaled m \<longleftrightarrow> 0 < m"
  using scaled_less_iff [of 0 m] by simp

lemma ulp_min_pos [simp]: "0 < ulp_min"
  by (simp add: ulp_min_def)

section \<open>Comparisons\<close>

text \<open>
  C++ \<open><\<close>, \<open><=\<close> and \<open>==\<close>: false on a NaN, and the two zeros are equal. The signed
  magnitude orders all other values.
\<close>

definition order_key :: "f64 \<Rightarrow> int" where
  "order_key x = (if neg x then - int (mag x) else int (mag x))"

definition f64_lt :: "f64 \<Rightarrow> f64 \<Rightarrow> bool" where
  "f64_lt x y \<longleftrightarrow> \<not> isnan x \<and> \<not> isnan y \<and> order_key x < order_key y"

definition f64_le :: "f64 \<Rightarrow> f64 \<Rightarrow> bool" where
  "f64_le x y \<longleftrightarrow> \<not> isnan x \<and> \<not> isnan y \<and> order_key x \<le> order_key y"

definition f64_eq :: "f64 \<Rightarrow> f64 \<Rightarrow> bool" where
  "f64_eq x y \<longleftrightarrow> \<not> isnan x \<and> \<not> isnan y \<and> order_key x = order_key y"

definition scaled_key :: "f64 \<Rightarrow> int" where
  "scaled_key x = (if neg x then - int (scaled (mag x)) else int (scaled (mag x)))"

lemma val_scaled_key: "val x = of_int (scaled_key x) * ulp_min"
  by (simp add: val_def magnitude_def scaled_key_def)

lemma scaled_key_less_iff: "scaled_key x < scaled_key y \<longleftrightarrow> order_key x < order_key y"
proof -
  have p: "0 \<le> int (scaled n)" "0 \<le> int n" for n by simp_all
  have z: "int (scaled n) = 0 \<longleftrightarrow> int n = 0" for n using scaled_eq_iff [of n 0] by simp
  show ?thesis
  proof (cases "neg x"; cases "neg y")
    assume "neg x" "\<not> neg y"
    then show ?thesis
      using p [of "mag x"] p [of "mag y"] z [of "mag x"] z [of "mag y"]
      by (simp add: scaled_key_def order_key_def) linarith
  next
    assume "\<not> neg x" "neg y"
    then show ?thesis
      using p [of "mag x"] p [of "mag y"] by (simp add: scaled_key_def order_key_def)
  qed (simp_all add: scaled_key_def order_key_def)
qed

lemma val_less_iff: "val x < val y \<longleftrightarrow> order_key x < order_key y"
  by (simp add: val_scaled_key scaled_key_less_iff)

lemma f64_lt_val: "isfinite x \<Longrightarrow> isfinite y \<Longrightarrow> f64_lt x y \<longleftrightarrow> val x < val y"
  by (simp add: f64_lt_def val_less_iff isnan_def isfinite_def)

lemma f64_le_val: "isfinite x \<Longrightarrow> isfinite y \<Longrightarrow> f64_le x y \<longleftrightarrow> val x \<le> val y"
  by (simp add: f64_le_def isnan_def isfinite_def flip: not_less) (simp add: val_less_iff)


section \<open>Rounding\<close>

text \<open>
  Round to nearest, ties to even. \<open>binade\<close> counts how often the scaled value has to be
  halved until it fits the 53 bits of a significand.
\<close>

definition round_half_even :: "rat \<Rightarrow> int" where
  "round_half_even q =
     (let n = \<lfloor>q\<rfloor>; d = q - of_int n
      in if d < 1 / 2 then n else if 1 / 2 < d then n + 1 else if even n then n else n + 1)"

function binade :: "nat \<Rightarrow> nat" where
  "binade n = (if n < 2 * hidden_bit then 0 else Suc (binade (n div 2)))"
  by pat_completeness auto
termination
proof (relation "measure id")
  fix n :: nat
  assume "\<not> n < 2 * hidden_bit"
  moreover have "0 < 2 * hidden_bit" by simp
  ultimately have "0 < n" by linarith
  then show "(n div 2, n) \<in> measure id" by simp
qed simp

declare binade.simps [simp del]

definition round_scaled :: "rat \<Rightarrow> nat" where
  "round_scaled t =
     (let k = binade (nat \<lfloor>t\<rfloor>)
      in min inf_mag (k * hidden_bit + nat (round_half_even (t / 2 ^ k))))"

definition round_f64 :: "bool \<Rightarrow> rat \<Rightarrow> f64" where
  "round_f64 s r = mk_f64 s (round_scaled (\<bar>r\<bar> / ulp_min))"

lemma round_half_even_eqI: "\<bar>q - of_int z\<bar> < 1 / 2 \<Longrightarrow> round_half_even q = z"
proof -
  assume a: "\<bar>q - of_int z\<bar> < 1 / 2"
  show ?thesis
  proof (cases "of_int z \<le> q")
    case True
    with a have "\<lfloor>q\<rfloor> = z" by (intro floor_unique) (auto simp: abs_less_iff)
    with a True show ?thesis by (simp add: round_half_even_def Let_def)
  next
    case False
    with a have "\<lfloor>q\<rfloor> = z - 1" by (intro floor_unique) (auto simp: abs_less_iff)
    with a False show ?thesis by (simp add: round_half_even_def Let_def abs_less_iff)
  qed
qed

lemma round_half_even_error: "\<bar>q - of_int (round_half_even q)\<bar> \<le> 1 / 2"
proof -
  have "of_int \<lfloor>q\<rfloor> \<le> q" and "q < of_int \<lfloor>q\<rfloor> + 1" by linarith+
  then show ?thesis by (auto simp: round_half_even_def Let_def abs_le_iff)
qed

lemma binade_unique:
  assumes "n < 2 * hidden_bit * 2 ^ k" and "k = 0 \<or> hidden_bit * 2 ^ k \<le> n"
  shows "binade n = k"
  using assms
proof (induction k arbitrary: n)
  case 0
  then show ?case by (simp add: binade.simps)
next
  case (Suc k)
  have "2 * hidden_bit \<le> hidden_bit * 2 ^ Suc k" by simp
  with Suc.prems(2) have big: "\<not> n < 2 * hidden_bit" by linarith
  have "n div 2 < 2 * hidden_bit * 2 ^ k"
    using Suc.prems(1) by (simp add: less_mult_imp_div_less)
  moreover have "hidden_bit * 2 ^ k \<le> n div 2"
    using Suc.prems(2) by (simp add: less_eq_div_iff_mult_less_eq)
  ultimately have "binade (n div 2) = k" by (intro Suc.IH) auto
  with big show ?case by (subst binade.simps) simp
qed

lemma binade_rat:
  assumes "0 \<le> t" and "t < of_nat (2 * hidden_bit * 2 ^ k)"
    and "k = 0 \<or> of_nat (hidden_bit * 2 ^ k) \<le> t"
  shows "binade (nat \<lfloor>t\<rfloor>) = k"
proof (rule binade_unique)
  have "\<lfloor>t\<rfloor> < int (2 * hidden_bit * 2 ^ k)"
    using assms(2) by (simp only: floor_less_iff of_int_of_nat_eq)
  with assms(1) show "nat \<lfloor>t\<rfloor> < 2 * hidden_bit * 2 ^ k" by (simp only: nat_less_iff zero_le_floor)
  show "k = 0 \<or> hidden_bit * 2 ^ k \<le> nat \<lfloor>t\<rfloor>"
  proof (cases "k = 0")
    case False
    with assms(3) have "int (hidden_bit * 2 ^ k) \<le> \<lfloor>t\<rfloor>"
      by (simp only: le_floor_iff of_int_of_nat_eq simp_thms)
    then show ?thesis by linarith
  qed simp
qed

text \<open>
  The rounding recovers a magnitude from every value closer to it than a quarter of the
  spacing above it, relative to the significand. This is all a decimal round trip needs.
\<close>

lemma round_scaled_near:
  assumes m: "m = k * hidden_bit + q" and k: "k = 0 \<or> hidden_bit \<le> q" and q: "q < 2 * hidden_bit"
    and fin: "m < inf_mag" and t: "0 \<le> t"
    and near: "\<bar>t / 2 ^ k - of_nat q\<bar> \<le> of_nat q * e" and e: "0 \<le> e" "e * of_nat (4 * hidden_bit) < 1"
  shows "round_scaled t = m"
proof -
  have eq: "of_nat q * e < 1 / 2"
  proof -
    have "of_nat q * e \<le> of_nat (2 * hidden_bit) * e"
      using q e(1) by (intro mult_right_mono) (simp_all only: of_nat_le_iff less_imp_le)
    with e(2) show ?thesis by (simp add: algebra_simps)
  qed
  have q1: "(of_nat q :: rat) + 1 \<le> of_nat (2 * hidden_bit)"
    using q by (metis Suc_leI of_nat_Suc of_nat_le_iff add.commute)
  have up: "t < of_nat (2 * hidden_bit * 2 ^ k)"
  proof -
    have "t / 2 ^ k < of_nat (2 * hidden_bit)" using near eq q1 by (simp only: abs_le_iff) linarith
    then show ?thesis by (simp add: pos_divide_less_eq)
  qed
  show ?thesis
  proof (cases "k = 0 \<or> of_nat (hidden_bit * 2 ^ k) \<le> t")
    case True
    have "binade (nat \<lfloor>t\<rfloor>) = k" by (rule binade_rat [OF t up True])
    moreover have "round_half_even (t / 2 ^ k) = int q"
      by (rule round_half_even_eqI) (use near eq in simp)
    ultimately show ?thesis using m fin by (simp add: round_scaled_def)
  next
    case False
    then obtain j where j: "k = Suc j" by (cases k) auto
    have low: "t / 2 ^ k < of_nat hidden_bit"
      using False by (simp add: pos_divide_less_eq not_le)
    have qh: "q = hidden_bit"
    proof (rule ccontr)
      assume "q \<noteq> hidden_bit"
      with k False have "of_nat (Suc hidden_bit) \<le> (of_nat q :: rat)" by (simp only: of_nat_le_iff) auto
      with low near eq show False by (simp add: abs_le_iff)
    qed
    have tj: "t / 2 ^ j = 2 * (t / 2 ^ k)" by (simp add: j)
    have eh: "of_nat hidden_bit * e < 1 / 4" using e(2) by (simp add: algebra_simps)
    have n2: "\<bar>t / 2 ^ j - of_nat (2 * hidden_bit)\<bar> < 1 / 2"
    proof -
      have "\<bar>t / 2 ^ k - of_nat hidden_bit\<bar> < 1 / 4" using near eh by (simp only: qh)
      then have "\<bar>2 * (t / 2 ^ k - of_nat hidden_bit)\<bar> < 1 / 2" by (simp only: abs_mult) simp
      then show ?thesis by (simp only: tj right_diff_distrib of_nat_mult of_nat_numeral)
    qed
    have upj: "t < of_nat (2 * hidden_bit * 2 ^ j)"
      using False by (simp add: j not_le)
    have "of_nat hidden_bit + 1 / 2 \<le> (of_nat (2 * hidden_bit) :: rat)"
      by (simp add: hidden_bit_def)
    with n2 have "of_nat hidden_bit \<le> t / 2 ^ j" by (simp only: abs_less_iff) linarith
    then have lowj: "j = 0 \<or> of_nat (hidden_bit * 2 ^ j) \<le> t" by (simp add: pos_le_divide_eq)
    have "binade (nat \<lfloor>t\<rfloor>) = j" by (rule binade_rat [OF t upj lowj])
    moreover have "round_half_even (t / 2 ^ j) = int (2 * hidden_bit)"
      by (rule round_half_even_eqI) (use n2 in simp)
    moreover have "j * hidden_bit + 2 * hidden_bit = m" by (simp add: m j qh)
    ultimately show ?thesis using fin by (simp add: round_scaled_def)
  qed
qed

lemma round_scaled_less_sign: "round_scaled t < sign_bit"
  using inf_mag_less_sign by (simp add: round_scaled_def Let_def min_def)

lemma round_scaled_exact: "m < inf_mag \<Longrightarrow> round_scaled (of_nat (scaled m)) = m"
proof -
  assume fin: "m < inf_mag"
  obtain k q where m: "m = k * hidden_bit + q" and k: "k = 0 \<or> hidden_bit \<le> q"
    and q: "q < 2 * hidden_bit" by (rule mag_binade)
  then have "scaled m = q * 2 ^ k" by (simp add: scaled_binade)
  then show ?thesis
    by (intro round_scaled_near [OF m k q fin, where e = 0]) simp_all
qed

lemma round_f64_val: "isfinite x \<Longrightarrow> round_f64 (neg x) (val x) = x"
proof -
  assume "isfinite x"
  then have "round_scaled (of_nat (scaled (mag x))) = mag x"
    by (intro round_scaled_exact) (simp add: isfinite_def)
  moreover have "\<bar>val x\<bar> / ulp_min = of_nat (scaled (mag x))"
    by (simp add: val_def magnitude_def abs_mult ulp_min_def)
  ultimately show ?thesis by (simp add: round_f64_def)
qed

section \<open>Arithmetic\<close>

text \<open>
  Exact result, rounded once. A result of exactly zero takes the sign IEEE 754 gives it; a
  NaN result is the canonical quiet NaN (its payload is nowhere observed).
\<close>

definition f64_neg :: "f64 \<Rightarrow> f64" where
  "f64_neg x = mk_f64 (\<not> neg x) (mag x)"

definition f64_add :: "f64 \<Rightarrow> f64 \<Rightarrow> f64" where
  "f64_add x y =
     (if isnan x \<or> isnan y then f64_nan
      else if isinf x then (if isinf y \<and> neg x \<noteq> neg y then f64_nan else x)
      else if isinf y then y
      else (let r = val x + val y
            in if r = 0 then mk_f64 (neg x \<and> neg y) 0 else round_f64 (r < 0) r))"

definition f64_sub :: "f64 \<Rightarrow> f64 \<Rightarrow> f64" where
  "f64_sub x y = (if isnan y then f64_nan else f64_add x (f64_neg y))"

definition f64_mul :: "f64 \<Rightarrow> f64 \<Rightarrow> f64" where
  "f64_mul x y =
     (if isnan x \<or> isnan y then f64_nan
      else if isinf x \<or> isinf y
        then (if mag x = 0 \<or> mag y = 0 then f64_nan else mk_f64 (neg x \<noteq> neg y) inf_mag)
      else round_f64 (neg x \<noteq> neg y) (val x * val y))"

definition f64_div :: "f64 \<Rightarrow> f64 \<Rightarrow> f64" where
  "f64_div x y =
     (if isnan x \<or> isnan y \<or> (isinf x \<and> isinf y) \<or> (mag x = 0 \<and> mag y = 0) then f64_nan
      else if isinf x \<or> mag y = 0 then mk_f64 (neg x \<noteq> neg y) inf_mag
      else if isinf y then mk_f64 (neg x \<noteq> neg y) 0
      else round_f64 (neg x \<noteq> neg y) (val x / val y))"

text \<open>\<open>std::max(a, b)\<close> is \<open>a < b ? b : a\<close>, \<open>std::min(a, b)\<close> is \<open>b < a ? b : a\<close>.\<close>

definition f64_max :: "f64 \<Rightarrow> f64 \<Rightarrow> f64" where
  "f64_max a b = (if f64_lt a b then b else a)"

definition f64_min :: "f64 \<Rightarrow> f64 \<Rightarrow> f64" where
  "f64_min a b = (if f64_lt b a then b else a)"

text \<open>\<open>static_cast<double>\<close> of an unsigned integer.\<close>

definition f64_of_nat :: "nat \<Rightarrow> f64" where
  "f64_of_nat n = round_f64 False (of_nat n)"

text \<open>Integers up to \<open>2 ^ 53\<close> are exact.\<close>

lemma normalize_nat:
  assumes "0 < n" "n < 2 * hidden_bit"
  obtains j where "j \<le> 52" "hidden_bit \<le> n * 2 ^ j" "n * 2 ^ j < 2 * hidden_bit"
proof -
  have "\<exists>j\<le>i. hidden_bit \<le> n * 2 ^ j \<and> n * 2 ^ j < 2 * hidden_bit"
    if "hidden_bit \<le> n * 2 ^ i" for i
    using that
  proof (induction i)
    case 0
    then show ?case using assms(2) by simp
  next
    case (Suc i)
    show ?case
    proof (cases "hidden_bit \<le> n * 2 ^ i")
      case True
      then show ?thesis using Suc.IH le_SucI by blast
    next
      case False
      then show ?thesis using Suc.prems by (intro exI [of _ "Suc i"]) simp
    qed
  qed
  moreover have "hidden_bit \<le> n * 2 ^ 52" using assms(1) by (simp only: hidden_bit_def) simp
  ultimately show ?thesis using that by blast
qed

lemma f64_of_nat_exact:
  assumes "n < 2 * hidden_bit"
  shows "isfinite (f64_of_nat n)" and "val (f64_of_nat n) = of_nat n" and "\<not> neg (f64_of_nat n)"
proof -
  have "\<exists>m. m < inf_mag \<and> (of_nat (scaled m) :: rat) = of_nat n / ulp_min"
  proof (cases "n = 0")
    case True
    have "0 < inf_mag" by (simp add: inf_mag_def)
    with True show ?thesis by (intro exI [of _ 0]) simp
  next
    case False
    then obtain j where j: "j \<le> 52" "hidden_bit \<le> n * 2 ^ j" "n * 2 ^ j < 2 * hidden_bit"
      using assms normalize_nat [of n] by auto
    let ?k = "1074 - j"
    let ?m = "?k * hidden_bit + n * 2 ^ j"
    have "scaled ?m = n * 2 ^ j * 2 ^ ?k" using j by (intro scaled_binade) auto
    also have "\<dots> = n * 2 ^ (j + ?k)" by (simp only: power_add mult.assoc)
    also have "j + ?k = 1074" using j(1) by simp
    finally have "(of_nat (scaled ?m) :: rat) = of_nat n / ulp_min" by (simp add: ulp_min_def)
    moreover have "?m < (1074 + 2) * hidden_bit"
    proof -
      have "?k * hidden_bit \<le> 1074 * hidden_bit" by (intro mult_right_mono) simp_all
      with j(3) show ?thesis unfolding add_mult_distrib by linarith
    qed
    moreover have "(1074 + 2) * hidden_bit \<le> inf_mag" by (simp add: inf_mag_def)
    ultimately show ?thesis by (intro exI [of _ ?m]) linarith
  qed
  then obtain m where m: "m < inf_mag" "(of_nat (scaled m) :: rat) = of_nat n / ulp_min" by blast
  have f: "f64_of_nat n = mk_f64 False m"
    using round_scaled_exact [OF m(1)] by (simp add: f64_of_nat_def round_f64_def m(2))
  have ms: "m < sign_bit" using m(1) inf_mag_less_sign by linarith
  show "isfinite (f64_of_nat n)" using m(1) by (simp add: f isfinite_def mag_mk [OF ms])
  show "\<not> neg (f64_of_nat n)" by (simp add: f neg_mk [OF ms])
  show "val (f64_of_nat n) = of_nat n"
    by (simp add: val_def magnitude_def f mag_mk [OF ms] neg_mk [OF ms] m(2) less_imp_neq [OF ulp_min_pos, symmetric])
qed

lemma f64_of_nat_inj:
  "m < 2 * hidden_bit \<Longrightarrow> n < 2 * hidden_bit \<Longrightarrow> f64_of_nat m = f64_of_nat n \<Longrightarrow> m = n"
  by (metis f64_of_nat_exact(2) of_nat_eq_iff)

section \<open>Square root\<close>

text \<open>
  \<open>std::sqrt\<close> is correctly rounded. The integer square root of the value scaled by
  \<open>4 ^ 600\<close> has at least 63 significant bits for every positive double; with the inexact
  tail kept as one half of a unit it rounds as the exact root does.
\<close>

fun isqrt :: "nat \<Rightarrow> nat" where
  "isqrt n = (if n = 0 then 0
              else let r = 2 * isqrt (n div 4) in if (r + 1) * (r + 1) \<le> n then r + 1 else r)"

declare isqrt.simps [simp del]

lemma isqrt_correct: "isqrt n * isqrt n \<le> n \<and> n < (isqrt n + 1) * (isqrt n + 1)"
proof (induction n rule: isqrt.induct)
  case (1 n)
  show ?case
  proof (cases "n = 0")
    case True
    then show ?thesis by (simp add: isqrt.simps)
  next
    case False
    let ?q = "isqrt (n div 4)"
    have IH: "?q * ?q \<le> n div 4" "n div 4 < (?q + 1) * (?q + 1)" using "1.IH" [OF False] by simp_all
    have lo: "4 * (?q * ?q) \<le> n" using IH(1) by linarith
    have hi: "n < 4 * ((?q + 1) * (?q + 1))" using IH(2) by linarith
    show ?thesis using False lo hi by (subst (1 2 3 4) isqrt.simps) (simp add: Let_def algebra_simps)
  qed
qed

definition f64_sqrt :: "f64 \<Rightarrow> f64" where
  "f64_sqrt x =
     (if isnan x then f64_nan
      else if mag x = 0 then x
      else if neg x then f64_nan
      else if isinf x then x
      else (let v = val x * 4 ^ 600; s = isqrt (nat \<lfloor>v\<rfloor>)
            in round_f64 False ((if of_nat (s * s) = v then of_nat s else of_nat s + 1 / 2) / 2 ^ 600)))"

end
