(* ===== verification/Float_Text.thy ===== *)
theory Float_Text
  imports Binary64
begin

text \<open>
  Doubles as decimal text: the \<open>%.17g\<close> format that \<open>std::setprecision(max_digits10)\<close>
  selects, \<open>strtod\<close> on the number tokens of JSON, and the proof that reading what was
  written gives back the same bits for every finite double.
\<close>

section \<open>Significant digits\<close>

definition floor_log10 :: "rat \<Rightarrow> int" where
  "floor_log10 r =
     (if 1 \<le> r then int (length (decimal (nat \<lfloor>r\<rfloor>))) - 1
      else - int (length (decimal (nat (\<lceil>1 / r\<rceil> - 1)))))"

text \<open>The 17 significant digits and the decimal exponent of a positive value.\<close>

definition sig17 :: "rat \<Rightarrow> nat \<times> int" where
  "sig17 r =
     (let x = floor_log10 r; d = nat (round_half_even (r / 10 powi (x - 16)))
      in if d = 10 ^ 17 then (10 ^ 16, x + 1) else (d, x))"

lemma decimal_length_bounds:
  "0 < n \<Longrightarrow> 10 ^ (length (decimal n) - 1) \<le> n \<and> n < 10 ^ length (decimal n)"
proof (induction n rule: decimal.induct)
  case (1 n)
  show ?case
  proof (cases "n < 10")
    case True
    with "1.prems" show ?thesis by (subst (1 2) decimal.simps) simp
  next
    case False
    let ?l = "length (decimal (n div 10))"
    have IH: "10 ^ (?l - 1) \<le> n div 10" "n div 10 < 10 ^ ?l"
      using "1.IH" [OF False] False by (simp_all add: div_greater_zero_iff)
    have l: "length (decimal n) = Suc ?l" using False by (subst decimal.simps) simp
    have "0 < ?l" by simp
    then have "(10::nat) ^ ?l = 10 * 10 ^ (?l - 1)" by (metis Suc_pred' power_Suc)
    with IH(1) have "10 ^ ?l \<le> n" by (simp add: less_eq_div_iff_mult_less_eq)
    moreover have "n < 10 ^ Suc ?l" using IH(2) by (simp add: div_less_iff_less_mult)
    ultimately show ?thesis by (simp add: l)
  qed
qed

lemma powi_int_minus_1:
  assumes "0 < l"
  shows "(10::rat) powi (int l - 1) = 10 ^ (l - 1)"
proof -
  have "int l - 1 = int (l - 1)" using assms by simp
  then show ?thesis by (simp only: power_int_of_nat)
qed

lemma floor_log10_bounds:
  assumes "0 < r"
  shows "10 powi floor_log10 r \<le> r \<and> r < 10 powi (floor_log10 r + 1)"
proof (cases "1 \<le> r")
  case True
  let ?n = "nat \<lfloor>r\<rfloor>" let ?l = "length (decimal ?n)"
  have n: "0 < ?n" using True by simp
  have l: "0 < ?l" by simp
  note b = decimal_length_bounds [OF n]
  have "(10::rat) ^ (?l - 1) = of_nat (10 ^ (?l - 1))" by simp
  also have "\<dots> \<le> of_nat ?n" using b by (simp only: of_nat_le_iff)
  also have "\<dots> \<le> r" using True by simp
  finally have lo: "10 ^ (?l - 1) \<le> r" .
  have "of_nat ?n + 1 \<le> (of_nat (10 ^ ?l) :: rat)"
    using b by (metis Suc_leI add.commute of_nat_Suc of_nat_le_iff)
  moreover have "r < of_nat ?n + 1" using True by simp linarith
  ultimately have "r < of_nat (10 ^ ?l)" by linarith
  then have hi: "r < 10 ^ ?l" by simp
  show ?thesis using True lo hi powi_int_minus_1 [OF l] by (simp add: floor_log10_def)
next
  case False
  define y where "y = 1 / r"
  have y: "1 < y" using False assms by (simp add: y_def)
  let ?n = "nat (\<lceil>y\<rceil> - 1)" let ?l = "length (decimal ?n)"
  have c: "2 \<le> \<lceil>y\<rceil>" using y by linarith
  have n: "0 < ?n" using c by simp
  have l: "0 < ?l" by simp
  note b = decimal_length_bounds [OF n]
  have "of_nat ?n + 1 \<le> (of_nat (10 ^ ?l) :: rat)"
    using b by (metis Suc_leI add.commute of_nat_Suc of_nat_le_iff)
  moreover have "y \<le> of_nat ?n + 1" using c by simp
  ultimately have "y \<le> of_nat (10 ^ ?l)" by linarith
  then have hi: "y \<le> 10 ^ ?l" by simp
  have "(10::rat) ^ (?l - 1) = of_nat (10 ^ (?l - 1))" by simp
  also have "\<dots> \<le> of_nat ?n" using b by (simp only: of_nat_le_iff)
  also have "\<dots> < y" using c by simp linarith
  finally have lo: "10 ^ (?l - 1) < y" .
  have r: "r = 1 / y" by (simp add: y_def)
  have "1 / 10 ^ ?l \<le> r" unfolding r using y hi by (intro divide_left_mono) auto
  moreover have "r < 1 / 10 ^ (?l - 1)" unfolding r using y lo by (intro divide_strict_left_mono) auto
  moreover have "(10::rat) powi (- int ?l + 1) = 1 / 10 ^ (?l - 1)"
  proof -
    have "- int ?l + 1 = - (int ?l - 1)" by simp
    then show ?thesis
      by (simp only: power_int_minus powi_int_minus_1 [OF l] inverse_eq_divide)
  qed
  ultimately show ?thesis using False
    by (simp only: floor_log10_def y_def [symmetric] power_int_minus power_int_of_nat
        inverse_eq_divide if_False simp_thms)
qed

lemma sig17_bounds:
  assumes "0 < r" and "sig17 r = (d, x)"
  shows "10 ^ 16 \<le> d" and "d < 10 ^ 17"
    and "\<bar>of_nat d * 10 powi (x - 16) - r\<bar> \<le> r * (1 / (2 * 10 ^ 16))"
proof -
  define z where "z = floor_log10 r"
  define p :: rat where "p = 10 powi (z - 16)"
  define y where "y = r / p"
  define i where "i = round_half_even y"
  have p: "0 < p" by (simp add: p_def)
  have "10 powi z = 10 ^ 16 * p" and "10 powi (z + 1) = 10 ^ 17 * p"
    by (simp_all add: p_def power_int_diff power_int_add)
  with floor_log10_bounds [OF assms(1)] have "10 ^ 16 * p \<le> r" "r < 10 ^ 17 * p"
    by (simp_all only: z_def)
  then have y: "10 ^ 16 \<le> y" "y < 10 ^ 17"
    using p by (simp_all add: y_def pos_le_divide_eq pos_divide_less_eq)
  have e: "\<bar>y - of_int i\<bar> \<le> 1 / 2" unfolding i_def by (rule round_half_even_error)
  have "of_int (10 ^ 16) - 1 < (of_int i :: rat)" and "(of_int i :: rat) < of_int (10 ^ 17) + 1"
    using y e by (simp_all only: abs_le_iff of_int_power of_int_numeral) linarith+
  then have i: "10 ^ 16 \<le> i" "i \<le> 10 ^ 17" by linarith+
  have dx: "d = (if i = 10 ^ 17 then 10 ^ 16 else nat i)" "x = (if i = 10 ^ 17 then z + 1 else z)"
    using assms(2) i(1) by (auto simp: sig17_def Let_def z_def [symmetric] p_def [symmetric]
        y_def [symmetric] i_def [symmetric] nat_eq_iff split: if_splits)
  show "10 ^ 16 \<le> d" and "d < 10 ^ 17" using i by (auto simp: dx le_nat_iff nat_less_iff)
  have prod: "of_nat d * 10 powi (x - 16) = of_int i * p"
  proof (cases "i = 10 ^ 17")
    case True
    have "z + 1 - 16 = (z - 16) + 1" by simp
    moreover have "(10::rat) powi ((z - 16) + 1) = p * 10"
      unfolding p_def by (rule power_int_add_1) simp
    ultimately have "(10::rat) powi (z + 1 - 16) = p * 10" by simp
    with True show ?thesis by (simp add: dx)
  next
    case False
    with i(1) show ?thesis by (simp add: dx p_def)
  qed
  have r: "r = y * p" using p by (simp add: y_def)
  have "\<bar>of_nat d * 10 powi (x - 16) - r\<bar> = \<bar>(of_int i - y) * p\<bar>"
    by (simp only: prod r left_diff_distrib)
  also have "\<dots> = \<bar>y - of_int i\<bar> * p"
    by (simp only: abs_mult abs_of_pos [OF p] abs_minus_commute)
  also have "\<dots> \<le> (y * (1 / (2 * 10 ^ 16))) * p"
    using e y(1) p by (intro mult_right_mono) auto
  finally show "\<bar>of_nat d * 10 powi (x - 16) - r\<bar> \<le> r * (1 / (2 * 10 ^ 16))"
    by (simp add: r)
qed

text \<open>Seventeen digits identify a double.\<close>

lemma sig17_round:
  assumes fin: "isfinite x" and pos: "0 < mag x" and s: "sig17 (magnitude x) = (d, e)"
  shows "round_scaled (of_nat d * 10 powi (e - 16) / ulp_min) = mag x"
proof -
  obtain k q where m: "mag x = k * hidden_bit + q" and k: "k = 0 \<or> hidden_bit \<le> q"
    and q: "q < 2 * hidden_bit" by (rule mag_binade)
  then have sc: "scaled (mag x) = q * 2 ^ k" by (simp add: scaled_binade)
  have mpos: "0 < magnitude x" using pos by (simp add: magnitude_def)
  define c :: rat where "c = 1 / (2 * 10 ^ 16)"
  define t where "t = of_nat d * 10 powi (e - 16) / ulp_min"
  have "\<bar>of_nat d * 10 powi (e - 16) - magnitude x\<bar> \<le> magnitude x * c"
    unfolding c_def by (rule sig17_bounds(3) [OF mpos s])
  then have "\<bar>t * ulp_min - of_nat (q * 2 ^ k) * ulp_min\<bar> \<le> of_nat (q * 2 ^ k) * ulp_min * c"
    by (simp add: t_def magnitude_def sc less_imp_neq [OF ulp_min_pos, symmetric])
  moreover have "\<bar>t * ulp_min - of_nat (q * 2 ^ k) * ulp_min\<bar> = \<bar>t - of_nat (q * 2 ^ k)\<bar> * ulp_min"
    by (simp only: left_diff_distrib [symmetric] abs_mult abs_of_pos [OF ulp_min_pos])
  ultimately have "\<bar>t - of_nat (q * 2 ^ k)\<bar> * ulp_min \<le> (of_nat (q * 2 ^ k) * c) * ulp_min"
    by (simp only: mult_ac)
  then have "\<bar>t - of_nat (q * 2 ^ k)\<bar> \<le> of_nat (q * 2 ^ k) * c"
    by (simp only: mult_le_cancel_right_pos ulp_min_pos)
  then have "\<bar>t - of_nat q * 2 ^ k\<bar> / 2 ^ k \<le> of_nat q * 2 ^ k * c / 2 ^ k"
    by (intro divide_right_mono) simp_all
  moreover have "\<bar>t - of_nat q * 2 ^ k\<bar> / 2 ^ k = \<bar>t / 2 ^ k - of_nat q\<bar>"
  proof -
    have "t / 2 ^ k - of_nat q = (t - of_nat q * 2 ^ k) / 2 ^ k" by (simp add: diff_divide_distrib)
    then show ?thesis by (simp add: abs_divide)
  qed
  ultimately have near: "\<bar>t / 2 ^ k - of_nat q\<bar> \<le> of_nat q * c" by simp
  have t0: "0 \<le> t" by (simp add: t_def ulp_min_def)
  have "c * of_nat (4 * hidden_bit) < 1" by (simp add: c_def hidden_bit_def)
  then have "round_scaled t = mag x"
    using fin by (intro round_scaled_near [OF m k q _ t0 near]) (simp_all add: isfinite_def c_def)
  then show ?thesis by (simp add: t_def)
qed


section \<open>Writing\<close>

definition strip_zeros :: "string \<Rightarrow> string" where
  "strip_zeros s = rev (dropWhile (\<lambda>c. c = CHR ''0'') (rev s))"

definition exponent_text :: "int \<Rightarrow> string" where
  "exponent_text x = (let ds = decimal (nat \<bar>x\<bar>) in if length ds < 2 then CHR ''0'' # ds else ds)"

text \<open>
  A number token of JSON: sign, integer digits, fraction digits (no point when there are
  none) and an optional exponent (its sign and digits).
\<close>

definition number_token :: "bool \<Rightarrow> string \<Rightarrow> string \<Rightarrow> (bool \<times> string) option \<Rightarrow> string" where
  "number_token s ip fp ep =
     (if s then ''-'' else []) @ ip @ (if fp = [] then [] else CHR ''.'' # fp) @
     (case ep of None \<Rightarrow> [] | Some (en, ed) \<Rightarrow> CHR ''e'' # (if en then CHR ''-'' else CHR ''+'') # ed)"

definition format17 :: "f64 \<Rightarrow> string" where
  "format17 v =
     (if isnan v then (if neg v then ''-nan'' else ''nan'')
      else if isinf v then (if neg v then ''-inf'' else ''inf'')
      else if mag v = 0 then number_token (neg v) ''0'' [] None
      else (let (d, x) = sig17 (magnitude v); ds = decimal d
            in if x < -4 \<or> 17 \<le> x
                 then number_token (neg v) (take 1 ds) (strip_zeros (drop 1 ds))
                        (Some (x < 0, exponent_text x))
               else if x < 0
                 then number_token (neg v) ''0'' (strip_zeros (replicate (nat (- x - 1)) CHR ''0'' @ ds)) None
               else number_token (neg v) (take (nat x + 1) ds) (strip_zeros (drop (nat x + 1) ds)) None))"

section \<open>Reading\<close>

text \<open>
  \<open>strtod\<close> on decimal text: the value read and the unread rest. (It also accepts
  hexadecimal floats, infinities and NaNs; no JSON number token begins like one.)
\<close>

definition read_exponent :: "string \<Rightarrow> int \<times> string" where
  "read_exponent s =
     (case s of
        c # t \<Rightarrow>
          (if c = CHR ''e'' \<or> c = CHR ''E''
           then (let (en, u) = (case t of
                    b # v \<Rightarrow> (if b = CHR ''-'' then (True, v) else if b = CHR ''+'' then (False, v)
                              else (False, t))
                  | [] \<Rightarrow> (False, t));
                  ed = takeWhile is_digit u
                 in if ed = [] then (0, s)
                    else ((if en then - int (dec_val ed) else int (dec_val ed)), dropWhile is_digit u))
           else (0, s))
      | [] \<Rightarrow> (0, s))"

definition strtod :: "string \<Rightarrow> f64 \<times> string" where
  "strtod s =
     (let (sg, s1) = (case s of c # t \<Rightarrow> (if c = CHR ''-'' then (True, t) else (False, s)) | [] \<Rightarrow> (False, s));
          ip = takeWhile is_digit s1;
          s2 = dropWhile is_digit s1;
          (fp, s3) = (case s2 of
              c # t \<Rightarrow> (if c = CHR ''.'' then (takeWhile is_digit t, dropWhile is_digit t) else ([], s2))
            | [] \<Rightarrow> ([], s2));
          (e, rest) = read_exponent s3
      in (round_f64 sg (of_nat (dec_val (ip @ fp)) * 10 powi (e - int (length fp))), rest))"

section \<open>Round trip\<close>

definition all_digits :: "string \<Rightarrow> bool" where
  "all_digits s = list_all is_digit s"

lemma not_digit [simp]:
  "\<not> is_digit CHR ''-''" "\<not> is_digit CHR ''+''" "\<not> is_digit CHR ''.''"
  "\<not> is_digit CHR ''e''" "\<not> is_digit CHR ''E''"
  by (simp_all add: is_digit_of_char)

lemma is_digit_zero [simp]: "is_digit CHR ''0''"
  by (simp add: is_digit_of_char)

lemma all_digits_simps [simp]:
  "all_digits []" "all_digits (c # s) \<longleftrightarrow> is_digit c \<and> all_digits s"
  "all_digits (s @ t) \<longleftrightarrow> all_digits s \<and> all_digits t"
  by (simp_all add: all_digits_def)

lemma all_digits_decimal [simp]: "all_digits (decimal n)"
  by (simp add: all_digits_def decimal_digits)

lemma all_digits_replicate [simp]: "all_digits (replicate n CHR ''0'')"
  by (induction n) simp_all

lemma all_digits_take_drop: "all_digits s \<Longrightarrow> all_digits (take n s) \<and> all_digits (drop n s)"
  by (auto simp: all_digits_def list_all_iff dest: in_set_takeD in_set_dropD)

lemma takeWhile_digits: "all_digits s \<Longrightarrow> (t = [] \<or> \<not> is_digit (hd t)) \<Longrightarrow>
    takeWhile is_digit (s @ t) = s \<and> dropWhile is_digit (s @ t) = t"
  by (induction s) (cases t, auto)

lemma all_digits_while [simp]:
  "all_digits s \<Longrightarrow> takeWhile is_digit s = s" "all_digits s \<Longrightarrow> dropWhile is_digit s = []"
  by (simp_all add: all_digits_def list_all_iff)

lemma read_exponent_token:
  assumes "all_digits ed" "ed \<noteq> []"
  shows "read_exponent (CHR ''e'' # (if en then CHR ''-'' else CHR ''+'') # ed)
           = ((if en then - int (dec_val ed) else int (dec_val ed)), [])"
  using assms by (simp add: read_exponent_def Let_def)

definition exponent_value :: "(bool \<times> string) option \<Rightarrow> int" where
  "exponent_value ep = (case ep of None \<Rightarrow> 0 | Some (en, ed) \<Rightarrow> (if en then - int (dec_val ed) else int (dec_val ed)))"

definition token_ok :: "string \<Rightarrow> string \<Rightarrow> (bool \<times> string) option \<Rightarrow> bool" where
  "token_ok ip fp ep \<longleftrightarrow> ip \<noteq> [] \<and> all_digits ip \<and> (ip = ''0'' \<or> hd ip \<noteq> CHR ''0'') \<and> all_digits fp \<and>
     (case ep of None \<Rightarrow> True | Some (en, ed) \<Rightarrow> all_digits ed \<and> ed \<noteq> [])"

lemma strtod_token:
  assumes "token_ok ip fp ep"
  shows "strtod (number_token s ip fp ep) =
           (round_f64 s (of_nat (dec_val (ip @ fp)) * 10 powi (exponent_value ep - int (length fp))), [])"
proof -
  define tl1 where "tl1 = (case ep of None \<Rightarrow> []
      | Some (en, ed) \<Rightarrow> CHR ''e'' # (if en then CHR ''-'' else CHR ''+'') # ed)"
  define tl2 where "tl2 = (if fp = [] then [] else CHR ''.'' # fp) @ tl1"
  have t1: "tl1 = [] \<or> \<not> is_digit (hd tl1)" and t1': "tl1 = [] \<or> hd tl1 = CHR ''e''"
    by (auto simp: tl1_def split: option.splits)
  have t2: "tl2 = [] \<or> \<not> is_digit (hd tl2)" using t1 by (auto simp: tl2_def)
  from assms have ip: "ip \<noteq> []" "all_digits ip" and fp: "all_digits fp" by (simp_all add: token_ok_def)
  have e: "read_exponent tl1 = (exponent_value ep, [])"
  proof (cases ep)
    case None
    then show ?thesis by (simp add: tl1_def read_exponent_def exponent_value_def)
  next
    case (Some p)
    then show ?thesis using assms
      by (cases p) (simp add: tl1_def exponent_value_def token_ok_def read_exponent_token)
  qed
  have "hd ip \<noteq> CHR ''-''" using ip by (cases ip) auto
  then have sign: "(case number_token s ip fp ep of
        c # t \<Rightarrow> (if c = CHR ''-'' then (True, t) else (False, number_token s ip fp ep))
      | [] \<Rightarrow> (False, number_token s ip fp ep)) = (s, ip @ tl2)"
    using ip(1) by (cases ip) (auto simp: number_token_def tl1_def tl2_def)
  have frac: "(case tl2 of
        c # t \<Rightarrow> (if c = CHR ''.'' then (takeWhile is_digit t, dropWhile is_digit t) else ([], tl2))
      | [] \<Rightarrow> ([], tl2)) = (fp, tl1)"
  proof (cases "fp = []")
    case True
    then show ?thesis using t1' by (cases tl1) (auto simp: tl2_def)
  next
    case False
    then show ?thesis using takeWhile_digits [OF fp t1] by (simp add: tl2_def)
  qed
  show ?thesis
    using takeWhile_digits [OF ip(2) t2] by (simp add: strtod_def sign frac e)
qed


text \<open>Stripping trailing zeros of the fraction does not change the value.\<close>

lemma strip_zeros_append:
  obtains n where "s = strip_zeros s @ replicate n CHR ''0''"
proof -
  let ?t = "takeWhile (\<lambda>c. c = CHR ''0'') (rev s)"
  have "strip_zeros s @ rev ?t = rev (?t @ dropWhile (\<lambda>c. c = CHR ''0'') (rev s))"
    by (simp only: strip_zeros_def rev_append)
  also have "?t @ dropWhile (\<lambda>c. c = CHR ''0'') (rev s) = rev s" by (rule takeWhile_dropWhile_id)
  finally have "s = strip_zeros s @ rev ?t" by (simp only: rev_rev_ident)
  moreover have "\<forall>y\<in>set (rev ?t). y = CHR ''0''" by (auto dest: set_takeWhileD)
  then have "replicate (length (rev ?t)) CHR ''0'' = rev ?t" by (rule replicate_length_same)
  ultimately show ?thesis using that [of "length (rev ?t)"] by (simp only:)
qed

lemma dec_val_0 [simp]: "dec_val ''0'' = 0"
  by (simp add: dec_val_def digit_val_def)

lemma dec_val_zero_Cons [simp]: "dec_val (CHR ''0'' # s) = dec_val s"
  using dec_val_append [of "''0''" s] by simp

lemma dec_val_zeros: "dec_val (s @ replicate n CHR ''0'') = dec_val s * 10 ^ n"
proof (induction n)
  case (Suc n)
  have "dec_val (s @ replicate (Suc n) CHR ''0'') = dec_val ((s @ replicate n CHR ''0'') @ ''0'')"
    by (simp add: replicate_append_same)
  also have "\<dots> = dec_val (s @ replicate n CHR ''0'') * 10"
    by (simp only: dec_val_snoc) (simp add: digit_val_def)
  finally show ?case using Suc by simp
qed simp

lemma all_digits_strip: "all_digits s \<Longrightarrow> all_digits (strip_zeros s)"
  by (metis all_digits_simps(3) strip_zeros_append)

lemma fraction_value:
  "(of_nat (dec_val (ip @ strip_zeros fp)) :: rat) * 10 powi (e - int (length (strip_zeros fp)))
     = of_nat (dec_val (ip @ fp)) * 10 powi (e - int (length fp))"
proof -
  obtain n where n: "fp = strip_zeros fp @ replicate n CHR ''0''" by (rule strip_zeros_append)
  then have "ip @ fp = (ip @ strip_zeros fp) @ replicate n CHR ''0''" by simp
  then have v: "dec_val (ip @ fp) = dec_val (ip @ strip_zeros fp) * 10 ^ n"
    by (simp only: dec_val_zeros)
  have l: "int (length fp) = int (length (strip_zeros fp)) + int n"
    using n by (metis length_append length_replicate of_nat_add)
  have "(10::rat) powi (e - int (length (strip_zeros fp))) = 10 powi (int n + (e - int (length fp)))"
    by (simp add: l)
  also have "\<dots> = 10 ^ n * 10 powi (e - int (length fp))"
    by (subst power_int_add) simp_all
  finally show ?thesis by (simp add: v)
qed

lemma length_decimal_17:
  assumes "10 ^ 16 \<le> d" and "d < 10 ^ 17"
  shows "length (decimal d) = 17"
proof -
  let ?l = "length (decimal d)"
  have d: "0 < d" using assms(1) by (auto intro: ccontr)
  note b = decimal_length_bounds [OF d]
  have "(10::nat) ^ 16 < 10 ^ ?l" using assms(1) b by linarith
  then have "16 < ?l" by (simp only: power_strict_increasing_iff)
  moreover have "(10::nat) ^ (?l - 1) < 10 ^ 17" using assms(2) b by linarith
  then have "?l - 1 < 17" by (simp only: power_strict_increasing_iff)
  ultimately show ?thesis by linarith
qed

lemma decimal_hd: "0 < n \<Longrightarrow> hd (decimal n) \<noteq> CHR ''0''"
proof (induction n rule: decimal.induct)
  case (1 n)
  show ?case
  proof (cases "n < 10")
    case True
    have "of_char (digit_char n) = (48 + n :: nat)" using True by (rule of_char_digit_char)
    with "1.prems" have "digit_char n \<noteq> CHR ''0''" by auto
    with True show ?thesis by (subst decimal.simps) simp
  next
    case False
    with "1.IH" have "hd (decimal (n div 10)) \<noteq> CHR ''0''" by (simp add: div_greater_zero_iff)
    with False show ?thesis by (subst decimal.simps) simp
  qed
qed

lemma exponent_text_ok: "all_digits (exponent_text x) \<and> exponent_text x \<noteq> []
    \<and> dec_val (exponent_text x) = nat \<bar>x\<bar>"
proof -
  show ?thesis by (simp add: exponent_text_def Let_def)
qed

text \<open>The text of a finite double is a JSON number token, and it denotes 17 digits of it.\<close>

lemma format17_token:
  assumes "isfinite v"
  obtains ip fp ep where "format17 v = number_token (neg v) ip fp ep" and "token_ok ip fp ep"
    and "mag v = 0 \<Longrightarrow> dec_val (ip @ fp) = 0"
    and "\<And>d x. 0 < mag v \<Longrightarrow> sig17 (magnitude v) = (d, x) \<Longrightarrow>
           (of_nat (dec_val (ip @ fp)) :: rat) * 10 powi (exponent_value ep - int (length fp))
             = of_nat d * 10 powi (x - 16)"
proof (cases "mag v = 0")
  case True
  with assms have "format17 v = number_token (neg v) ''0'' [] None"
    by (simp add: format17_def isnan_def isinf_def isfinite_def)
  then show ?thesis using True that [of "''0''" "[]" None]
    by (simp add: token_ok_def dec_val_def digit_val_def)
next
  case False
  obtain d x where s: "sig17 (magnitude v) = (d, x)" by force
  have "0 < magnitude v" using False by (simp add: magnitude_def)
  note b = sig17_bounds [OF this s]
  let ?ds = "decimal d"
  have len: "length ?ds = 17" by (rule length_decimal_17 [OF b(1,2)])
  have "0 < d" using b(1) by (auto intro: ccontr)
  then have hd: "hd ?ds \<noteq> CHR ''0''" by (rule decimal_hd)
  have td: "all_digits (take n ?ds)" "all_digits (drop n ?ds)" for n
    using all_digits_take_drop [of ?ds n] by simp_all
  have ne: "hd (take (Suc n) ?ds) \<noteq> CHR ''0''" "take (Suc n) ?ds \<noteq> []" for n
    using hd by (cases ?ds; simp)+
  have fmt: "format17 v = (if x < -4 \<or> 17 \<le> x
         then number_token (neg v) (take 1 ?ds) (strip_zeros (drop 1 ?ds)) (Some (x < 0, exponent_text x))
       else if x < 0
         then number_token (neg v) ''0'' (strip_zeros (replicate (nat (- x - 1)) CHR ''0'' @ ?ds)) None
       else number_token (neg v) (take (nat x + 1) ?ds) (strip_zeros (drop (nat x + 1) ?ds)) None)"
    using False assms by (simp add: format17_def isnan_def isinf_def isfinite_def s Let_def)
  consider (sci) "x < -4 \<or> 17 \<le> x" | (small) "-4 \<le> x" "x < 0" | (fixed) "0 \<le> x" "x < 17" by linarith
  then show ?thesis
  proof cases
    case sci
    let ?ep = "Some (x < 0, exponent_text x)"
    have ev: "exponent_value ?ep = x" using exponent_text_ok [of x] by (simp add: exponent_value_def)
    have "token_ok (take 1 ?ds) (strip_zeros (drop 1 ?ds)) ?ep"
      using ne [of 0] td exponent_text_ok [of x] by (simp add: token_ok_def all_digits_strip)
    moreover have "(of_nat (dec_val (take 1 ?ds @ strip_zeros (drop 1 ?ds))) :: rat)
        * 10 powi (exponent_value ?ep - int (length (strip_zeros (drop 1 ?ds)))) = of_nat d * 10 powi (x - 16)"
      by (subst fraction_value) (simp add: ev len del: drop_append take_append)
    ultimately show ?thesis using False s fmt sci
      by (intro that [of "take 1 ?ds" "strip_zeros (drop 1 ?ds)" ?ep]) auto
  next
    case small
    let ?f = "replicate (nat (- x - 1)) CHR ''0'' @ ?ds"
    have "dec_val (''0'' @ ?f) = d"
      using dec_val_append [of "replicate (nat (- x - 1)) CHR ''0''" ?ds]
        dec_val_zeros [of "[]" "nat (- x - 1)"] by simp
    moreover have "- int (length ?f) = x - 16" using small by (simp add: len)
    ultimately have "(of_nat (dec_val (''0'' @ strip_zeros ?f)) :: rat)
        * 10 powi (exponent_value None - int (length (strip_zeros ?f))) = of_nat d * 10 powi (x - 16)"
      by (subst fraction_value) (simp only: exponent_value_def option.case diff_0)
    moreover have "token_ok ''0'' (strip_zeros ?f) None"
      by (simp add: token_ok_def all_digits_strip)
    ultimately show ?thesis using False s fmt small
      by (intro that [of "''0''" "strip_zeros ?f" None]) auto
  next
    case fixed
    let ?n = "nat x + 1"
    have "- int (length (drop ?n ?ds)) = x - 16" using fixed by (simp add: len)
    then have "(of_nat (dec_val (take ?n ?ds @ strip_zeros (drop ?n ?ds))) :: rat)
        * 10 powi (exponent_value None - int (length (strip_zeros (drop ?n ?ds)))) = of_nat d * 10 powi (x - 16)"
      by (subst fraction_value) (simp only: exponent_value_def option.case diff_0 append_take_drop_id decimal_val)
    moreover have "token_ok (take ?n ?ds) (strip_zeros (drop ?n ?ds)) None"
      using ne [of "nat x"] td by (simp add: token_ok_def all_digits_strip)
    ultimately show ?thesis using False s fmt fixed
      by (intro that [of "take ?n ?ds" "strip_zeros (drop ?n ?ds)" None]) auto
  qed
qed

lemma strtod_format17:
  assumes "isfinite v"
  shows "strtod (format17 v) = (v, [])"
proof -
  obtain ip fp ep where f: "format17 v = number_token (neg v) ip fp ep" and ok: "token_ok ip fp ep"
    and z: "mag v = 0 \<Longrightarrow> dec_val (ip @ fp) = 0"
    and p: "\<And>d x. 0 < mag v \<Longrightarrow> sig17 (magnitude v) = (d, x) \<Longrightarrow>
           (of_nat (dec_val (ip @ fp)) :: rat) * 10 powi (exponent_value ep - int (length fp))
             = of_nat d * 10 powi (x - 16)"
    using format17_token [OF assms] by blast
  let ?r = "(of_nat (dec_val (ip @ fp)) :: rat) * 10 powi (exponent_value ep - int (length fp))"
  have "round_scaled (\<bar>?r\<bar> / ulp_min) = mag v"
  proof (cases "mag v = 0")
    case True
    then show ?thesis using round_scaled_exact [of 0] by (simp add: z inf_mag_def)
  next
    case False
    obtain d x where s: "sig17 (magnitude v) = (d, x)" by force
    have "?r = of_nat d * 10 powi (x - 16)" using False s by (intro p) auto
    moreover have "0 \<le> of_nat d * (10::rat) powi (x - 16)" by simp
    ultimately show ?thesis using sig17_round [OF assms _ s] False by simp
  qed
  then have "round_f64 (neg v) ?r = v" by (simp add: round_f64_def)
  then show ?thesis by (simp only: f strtod_token [OF ok])
qed

end
