(* ===== verification/Json.thy ===== *)
theory Json
  imports Float_Text
begin

text \<open>
  \<^verbatim>\<open>src/json.cpp\<close> and \<^verbatim>\<open>src/internal/json.h\<close>: the JSON values, the writer
  \<open>Json::dump\<close> (compact and pretty), the recursive-descent \<open>Parser\<close> with its error
  positions and limits, and the two file helpers. A \<open>std::map\<close> object is the list of its
  entries in key order.

  The parser of the code holds an input and a position; here it holds the unread rest, and
  the length \<open>n\<close> of the whole input gives the position \<open>n - length rest\<close> its errors
  report. The recursion runs on fuel: \<open>length + 1\<close> is always enough
  (\<open>parse_fuel_enough\<close>), and running out is the only \<open>InternalError\<close>.
\<close>

section \<open>Values\<close>

datatype json =
    JNull
  | JBool bool
  | JNum f64
  | JStr string
  | JArr "json list"
  | JObj "(string \<times> json) list"

text \<open>\<open>std::map::emplace\<close>: insert in key order, keep the present entry of an equal key.\<close>

fun obj_emplace :: "string \<Rightarrow> 'a \<Rightarrow> (string \<times> 'a) list \<Rightarrow> (string \<times> 'a) list" where
  "obj_emplace k v [] = [(k, v)]"
| "obj_emplace k v ((k', v') # kvs) =
     (if k < k' then (k, v) # (k', v') # kvs
      else if k = k' then (k', v') # kvs
      else (k', v') # obj_emplace k v kvs)"

definition mk_object :: "(string \<times> 'a) list \<Rightarrow> (string \<times> 'a) list" where
  "mk_object kvs = foldl (\<lambda>kvs (k, v). obj_emplace k v kvs) [] kvs"

definition json_object :: "(string \<times> json) list \<Rightarrow> json" where
  "json_object kvs = JObj (mk_object kvs)"

definition json_find :: "json \<Rightarrow> string \<Rightarrow> json option" where
  "json_find j key = (case j of JObj kvs \<Rightarrow> map_of kvs key | _ \<Rightarrow> None)"

section \<open>Writing\<close>

definition hex4 :: "nat \<Rightarrow> string" where
  "hex4 v = [CHR ''0'', CHR ''0'', hex_digit (v div 16), hex_digit (v mod 16)]"

definition escape_char :: "char \<Rightarrow> string" where
  "escape_char c =
     (if c = CHR 0x22 then [CHR 0x5C, CHR 0x22]
      else if c = CHR 0x5C then [CHR 0x5C, CHR 0x5C]
      else if c = CHR 0x08 then [CHR 0x5C, CHR ''b'']
      else if c = CHR 0x0C then [CHR 0x5C, CHR ''f'']
      else if c = CHR 0x0A then [CHR 0x5C, CHR ''n'']
      else if c = CHR 0x0D then [CHR 0x5C, CHR ''r'']
      else if c = CHR 0x09 then [CHR 0x5C, CHR ''t'']
      else if (of_char c :: nat) < 0x20 then CHR 0x5C # CHR ''u'' # hex4 (of_char c)
      else [c])"

definition escape_json :: "string \<Rightarrow> string" where
  "escape_json input = CHR 0x22 # concat (map escape_char input) @ [CHR 0x22]"

definition indent :: "bool \<Rightarrow> nat \<Rightarrow> string" where
  "indent pretty level = (if pretty then replicate (level * 2) CHR '' '' else [])"

definition newline :: "bool \<Rightarrow> string" where
  "newline pretty = (if pretty then [CHR 0x0A] else [])"

definition separator :: "bool \<Rightarrow> string" where
  "separator pretty = (if pretty then '': '' else '':'')"

fun dump :: "bool \<Rightarrow> nat \<Rightarrow> json \<Rightarrow> string"
  and dump_items :: "bool \<Rightarrow> nat \<Rightarrow> json list \<Rightarrow> string"
  and dump_members :: "bool \<Rightarrow> nat \<Rightarrow> (string \<times> json) list \<Rightarrow> string" where
  "dump p d JNull = ''null''"
| "dump p d (JBool b) = (if b then ''true'' else ''false'')"
| "dump p d (JNum v) = format17 v"
| "dump p d (JStr s) = escape_json s"
| "dump p d (JArr xs) =
     ''['' @ (if xs \<noteq> [] then newline p else []) @ dump_items p d xs
       @ (if xs \<noteq> [] then indent p d else []) @ '']''"
| "dump p d (JObj kvs) =
     CHR 0x7B # (if kvs \<noteq> [] then newline p else []) @ dump_members p d kvs
       @ (if kvs \<noteq> [] then indent p d else []) @ [CHR 0x7D]"
| "dump_items p d [] = []"
| "dump_items p d (x # xs) =
     indent p (d + 1) @ dump p (d + 1) x @ (if xs \<noteq> [] then '','' else []) @ newline p
       @ dump_items p d xs"
| "dump_members p d [] = []"
| "dump_members p d ((k, v) # kvs) =
     indent p (d + 1) @ escape_json k @ separator p @ dump p (d + 1) v
       @ (if kvs \<noteq> [] then '','' else []) @ newline p @ dump_members p d kvs"

text \<open>\<open>json.dump(false)\<close>, the canonical text every identity of the library hashes.\<close>

definition canonical :: "json \<Rightarrow> string" where
  "canonical j = dump False 0 j"

section \<open>Reading\<close>

definition parse_fail :: "nat \<Rightarrow> string \<Rightarrow> string \<Rightarrow> 'a result" where
  "parse_fail n rest msg = failure CorruptData msg (''byte '' @ decimal (n - length rest))"

definition is_space :: "char \<Rightarrow> bool" where
  "is_space c \<longleftrightarrow> c = CHR '' '' \<or> c = CHR 0x0A \<or> c = CHR 0x0D \<or> c = CHR 0x09"

definition skip_space :: "string \<Rightarrow> string" where
  "skip_space s = dropWhile is_space s"

definition hex_value :: "char \<Rightarrow> nat option" where
  "hex_value c =
     (if CHR ''0'' \<le> c \<and> c \<le> CHR ''9'' then Some (of_char c - 48)
      else if CHR ''a'' \<le> c \<and> c \<le> CHR ''f'' then Some (of_char c - 97 + 10)
      else if CHR ''A'' \<le> c \<and> c \<le> CHR ''F'' then Some (of_char c - 65 + 10)
      else None)"

fun hex_code :: "nat \<Rightarrow> string \<Rightarrow> nat option" where
  "hex_code acc [] = Some acc"
| "hex_code acc (c # cs) =
     (case hex_value c of None \<Rightarrow> None | Some d \<Rightarrow> hex_code (acc * 16 + d) cs)"

text \<open>The bytes of a \<open>\u\<close> escape (each escape on its own: surrogates are not paired).\<close>

definition utf8 :: "nat \<Rightarrow> string" where
  "utf8 c = (if c \<le> 0x7f then [char_of c]
             else if c \<le> 0x7ff then [char_of (0xc0 + c div 64), char_of (0x80 + c mod 64)]
             else [char_of (0xe0 + c div 4096), char_of (0x80 + c div 64 mod 64), char_of (0x80 + c mod 64)])"

definition simple_escape :: "char \<Rightarrow> char option" where
  "simple_escape e =
     (if e = CHR 0x22 then Some CHR 0x22
      else if e = CHR 0x5C then Some CHR 0x5C
      else if e = CHR ''/'' then Some CHR ''/''
      else if e = CHR ''b'' then Some CHR 0x08
      else if e = CHR ''f'' then Some CHR 0x0C
      else if e = CHR ''n'' then Some CHR 0x0A
      else if e = CHR ''r'' then Some CHR 0x0D
      else if e = CHR ''t'' then Some CHR 0x09
      else None)"

definition string_fail :: "string \<Rightarrow> 'a result" where
  "string_fail msg = failure CorruptData msg []"

definition prepend :: "string \<Rightarrow> (string \<times> string) result \<Rightarrow> (string \<times> string) result" where
  "prepend cs r = rbind r (\<lambda>(output, rest). Inr (cs @ output, rest))"

fun string_body :: "string \<Rightarrow> (string \<times> string) result" where
  "string_body [] = string_fail ''unterminated JSON string''"
| "string_body (c # s) =
     (if c = CHR 0x22 then Inr ([], s)
      else if (of_char c :: nat) < 0x20 then string_fail ''control character in JSON string''
      else if c \<noteq> CHR 0x5C then prepend [c] (string_body s)
      else (case s of
          [] \<Rightarrow> string_fail ''truncated JSON escape''
        | e # t \<Rightarrow>
            (case simple_escape e of
               Some x \<Rightarrow> prepend [x] (string_body t)
             | None \<Rightarrow>
                 (if e \<noteq> CHR ''u'' then string_fail ''invalid JSON escape''
                  else (case t of
                      d1 # d2 # d3 # d4 # u \<Rightarrow>
                        (case hex_code 0 [d1, d2, d3, d4] of
                           None \<Rightarrow> string_fail ''invalid Unicode escape''
                         | Some c \<Rightarrow> prepend (utf8 c) (string_body u))
                    | _ \<Rightarrow> string_fail ''truncated Unicode escape'')))))"

definition parse_string :: "string \<Rightarrow> (string \<times> string) result" where
  "parse_string s =
     (case s of
        c # t \<Rightarrow> (if c = CHR 0x22 then string_body t else string_fail ''expected JSON string'')
      | [] \<Rightarrow> string_fail ''expected JSON string'')"

definition scan_integer :: "nat \<Rightarrow> string \<Rightarrow> (string \<times> string) result" where
  "scan_integer n s =
     (case s of
        [] \<Rightarrow> parse_fail n s ''truncated JSON number''
      | c # t \<Rightarrow>
          (if c = CHR ''0'' then Inr ([c], t)
           else if c < CHR ''1'' \<or> CHR ''9'' < c then parse_fail n s ''invalid JSON number''
           else Inr (takeWhile is_digit s, dropWhile is_digit s)))"

definition scan_fraction :: "nat \<Rightarrow> string \<Rightarrow> (string \<times> string) result" where
  "scan_fraction n s =
     (case s of
        c # t \<Rightarrow>
          (if c = CHR ''.''
           then (if takeWhile is_digit t = [] then parse_fail n t ''invalid JSON fraction''
                 else Inr (c # takeWhile is_digit t, dropWhile is_digit t))
           else Inr ([], s))
      | [] \<Rightarrow> Inr ([], s))"

definition scan_sign :: "string \<Rightarrow> string \<times> string" where
  "scan_sign s = (case s of c # t \<Rightarrow> (if c = CHR ''+'' \<or> c = CHR ''-'' then ([c], t) else ([], s))
                  | [] \<Rightarrow> ([], s))"

definition scan_exponent :: "nat \<Rightarrow> string \<Rightarrow> (string \<times> string) result" where
  "scan_exponent n s =
     (case s of
        c # t \<Rightarrow>
          (if c = CHR ''e'' \<or> c = CHR ''E''
           then (let (sg, u) = scan_sign t
                 in if takeWhile is_digit u = [] then parse_fail n u ''invalid JSON exponent''
                    else Inr (c # sg @ takeWhile is_digit u, dropWhile is_digit u))
           else Inr ([], s))
      | [] \<Rightarrow> Inr ([], s))"

definition parse_number :: "nat \<Rightarrow> string \<Rightarrow> (json \<times> string) result" where
  "parse_number n s =
     (let (sg, s1) = (case s of c # t \<Rightarrow> (if c = CHR ''-'' then ([c], t) else ([], s)) | [] \<Rightarrow> ([], s))
      in rbind (scan_integer n s1) (\<lambda>(ip, s2).
         rbind (scan_fraction n s2) (\<lambda>(fp, s3).
         rbind (scan_exponent n s3) (\<lambda>(ep, rest).
         let (number, unread) = strtod (sg @ ip @ fp @ ep)
         in if unread \<noteq> [] \<or> \<not> isfinite number then parse_fail n rest ''invalid finite JSON number''
            else Inr (JNum number, rest)))))"

abbreviation out_of_fuel :: "'a result" where
  "out_of_fuel \<equiv> failure InternalError ''out of fuel'' []"

type_synonym 'a parser = "string \<Rightarrow> ('a \<times> string) result"

text \<open>
  The loops of \<open>parse_array\<close> and \<open>parse_object\<close>, over the parser of their values
  (\<open>parse_value(depth)\<close> in the code); \<open>k\<close> is \<open>array.size()\<close>.
\<close>

primrec array_items :: "nat \<Rightarrow> json parser \<Rightarrow> nat \<Rightarrow> nat \<Rightarrow> json list parser" where
  "array_items 0 value_parser n k s = out_of_fuel"
| "array_items (Suc f) value_parser n k s =
     (if k \<ge> 10000000 then parse_fail n s ''JSON array exceeds resource limit''
      else rbind (value_parser s) (\<lambda>(v, r).
        case skip_space r of
          [] \<Rightarrow> parse_fail n [] ''unterminated JSON array''
        | d # r1 \<Rightarrow>
            (if d = CHR '']'' then Inr ([v], r1)
             else if d \<noteq> CHR '','' then parse_fail n r1 ''expected comma in JSON array''
             else rbind (array_items f value_parser n (k + 1) r1) (\<lambda>(vs, r2). Inr (v # vs, r2)))))"

definition parse_array :: "nat \<Rightarrow> json parser \<Rightarrow> nat \<Rightarrow> json parser" where
  "parse_array f value_parser n s =
     (let s1 = skip_space (tl s)
      in if s1 \<noteq> [] \<and> hd s1 = CHR '']'' then Inr (JArr [], tl s1)
         else rbind (array_items f value_parser n 0 s1) (\<lambda>(vs, rest). Inr (JArr vs, rest)))"

primrec object_members :: "nat \<Rightarrow> json parser \<Rightarrow> nat \<Rightarrow> (string \<times> json) list \<Rightarrow> json parser" where
  "object_members 0 value_parser n obj s = out_of_fuel"
| "object_members (Suc f) value_parser n obj s =
     rbind (parse_string (skip_space s)) (\<lambda>(k, r).
       case skip_space r of
         [] \<Rightarrow> parse_fail n [] ''expected colon in JSON object''
       | c # r1 \<Rightarrow>
           (if c \<noteq> CHR '':'' then parse_fail n r1 ''expected colon in JSON object''
            else rbind (value_parser r1) (\<lambda>(v, r2).
              if k \<in> fst ` set obj then parse_fail n r2 ''duplicate JSON object key''
              else (case skip_space r2 of
                  [] \<Rightarrow> parse_fail n [] ''unterminated JSON object''
                | d # r3 \<Rightarrow>
                    (if d = CHR 0x7D then Inr (JObj (obj_emplace k v obj), r3)
                     else if d \<noteq> CHR '','' then parse_fail n r3 ''expected comma in JSON object''
                     else object_members f value_parser n (obj_emplace k v obj) r3)))))"

definition parse_object :: "nat \<Rightarrow> json parser \<Rightarrow> nat \<Rightarrow> json parser" where
  "parse_object f value_parser n s =
     (let s1 = skip_space (tl s)
      in if s1 \<noteq> [] \<and> hd s1 = CHR 0x7D then Inr (JObj [], tl s1)
         else object_members f value_parser n [] s1)"

primrec parse_value :: "nat \<Rightarrow> nat \<Rightarrow> nat \<Rightarrow> json parser" where
  "parse_value 0 n depth s = out_of_fuel"
| "parse_value (Suc f) n depth s =
     (if depth > 64 then parse_fail n s ''JSON nesting is too deep''
      else (let s1 = skip_space s
            in case s1 of
                 [] \<Rightarrow> parse_fail n s1 ''unexpected end of JSON''
               | c # t \<Rightarrow>
                   (if c = CHR 0x7B then parse_object f (parse_value f n (depth + 1)) n s1
                    else if c = CHR ''['' then parse_array f (parse_value f n (depth + 1)) n s1
                    else if c = CHR 0x22
                      then rbind (parse_string s1) (\<lambda>(v, rest). Inr (JStr v, rest))
                    else if c = CHR ''t'' \<and> take 4 s1 = ''true'' then Inr (JBool True, drop 4 s1)
                    else if c = CHR ''f'' \<and> take 5 s1 = ''false'' then Inr (JBool False, drop 5 s1)
                    else if c = CHR ''n'' \<and> take 4 s1 = ''null'' then Inr (JNull, drop 4 s1)
                    else if c = CHR ''-'' \<or> is_digit c then parse_number n s1
                    else parse_fail n s1 ''unexpected JSON token'')))"

definition json_parse :: "string \<Rightarrow> json result" where
  "json_parse text =
     (let n = length text
      in rbind (parse_value (n + 1) n 0 (skip_space text)) (\<lambda>(v, r).
         let r1 = skip_space r
         in if r1 \<noteq> [] then parse_fail n r1 ''unexpected trailing JSON data'' else Inr v))"

text \<open>
  \<open>read_json_file\<close>: \<open>None\<close> is a file that cannot be opened, otherwise the contents and whether
  they could be read. Files above 64 MiB are refused.
\<close>

definition json_file_limit :: nat where
  "json_file_limit = 64 * 1024 * 1024"

definition read_json_file :: "string \<Rightarrow> (string \<times> bool) option \<Rightarrow> json result" where
  "read_json_file path file =
     (case file of
        None \<Rightarrow> failure IoError ''failed to open JSON file'' path
      | Some (contents, read_ok) \<Rightarrow>
          (if length contents > json_file_limit
           then failure ResourceLimit ''JSON file exceeds 64 MiB limit'' path
           else if \<not> read_ok \<and> length contents \<noteq> 0 then failure IoError ''failed to read JSON file'' path
           else (case json_parse contents of
               Inl e \<Rightarrow> Inl \<lparr>code = code e, message = message e, context_of = path @ '': '' @ context_of e\<rparr>
             | Inr j \<Rightarrow> Inr j)))"

end
