(* ===== verification/Json_Laws.thy ===== *)
theory Json_Laws
  imports Json
begin

text \<open>
  The laws of the JSON layer: reading back what \<open>Json::dump\<close> wrote gives the same value
  (compact or pretty, at any indentation), so the canonical text identifies the value; and
  the parser always returns, with a value or a \<open>CorruptData\<close> error.
\<close>

section \<open>Values the writer and the parser agree on\<close>

text \<open>
  \<open>json_ok h j\<close>: \<open>j\<close> nests at most \<open>h\<close> deep, its numbers are finite, its arrays keep the
  parser's limit and its objects are maps (strictly increasing keys).
\<close>

fun json_ok :: "nat \<Rightarrow> json \<Rightarrow> bool"
  and items_ok :: "nat \<Rightarrow> json list \<Rightarrow> bool"
  and members_ok :: "nat \<Rightarrow> (string \<times> json) list \<Rightarrow> bool" where
  "json_ok h JNull = True"
| "json_ok h (JBool b) = True"
| "json_ok h (JNum v) = isfinite v"
| "json_ok h (JStr s) = True"
| "json_ok h (JArr xs) = ((xs = [] \<or> 0 < h) \<and> length xs \<le> 10000000 \<and> items_ok (h - 1) xs)"
| "json_ok h (JObj kvs) = ((kvs = [] \<or> 0 < h) \<and> sorted_wrt (<) (map fst kvs) \<and> members_ok (h - 1) kvs)"
| "items_ok h [] = True"
| "items_ok h (x # xs) = (json_ok h x \<and> items_ok h xs)"
| "members_ok h [] = True"
| "members_ok h ((k, v) # kvs) = (json_ok h v \<and> members_ok h kvs)"

definition storable :: "json \<Rightarrow> bool" where
  "storable j = json_ok 64 j"

lemma items_ok_iff: "items_ok h xs \<longleftrightarrow> (\<forall>x\<in>set xs. json_ok h x)"
  by (induction xs) simp_all

lemma members_ok_iff: "members_ok h kvs \<longleftrightarrow> (\<forall>(k, v)\<in>set kvs. json_ok h v)"
  by (induction kvs) auto

section \<open>Objects\<close>

lemma obj_emplace_last:
  "\<forall>k'\<in>fst ` set obj. k' < k \<Longrightarrow> obj_emplace k v obj = obj @ [(k, v)]"
  by (induction k v obj rule: obj_emplace.induct) (auto dest: order.asym)

lemma foldl_obj_emplace_sorted:
  "sorted_wrt (<) (map fst (obj @ kvs)) \<Longrightarrow>
     foldl (\<lambda>kvs (k, v). obj_emplace k v kvs) obj kvs = obj @ kvs"
proof (induction kvs arbitrary: obj)
  case (Cons kv kvs)
  obtain k v where kv: "kv = (k, v)" by force
  have "obj_emplace k v obj = obj @ [(k, v)]"
    using Cons.prems by (intro obj_emplace_last) (auto simp: kv sorted_wrt_append)
  with Cons.IH [of "obj @ [(k, v)]"] Cons.prems show ?case by (simp add: kv)
qed simp

lemma mk_object_sorted: "sorted_wrt (<) (map fst kvs) \<Longrightarrow> mk_object kvs = kvs"
  using foldl_obj_emplace_sorted [of "[]" kvs] by (simp add: mk_object_def)

section \<open>Strings\<close>

lemma hex_value_hex_digit:
  assumes "n < 16"
  shows "hex_value (hex_digit n) = Some n"
proof -
  have "list_all (\<lambda>n. hex_value (hex_digit n) = Some n) [0..<16]" by code_simp
  moreover have "n \<in> set [0..<16]" using assms by simp
  ultimately show ?thesis by (simp only: list_all_iff)
qed

lemma hex_code_hex4:
  assumes "n < 256"
  shows "hex_code 0 (hex4 n) = Some n"
proof -
  have "hex_value CHR ''0'' = Some 0" by (simp add: hex_value_def)
  moreover have "n div 16 < 16" "n mod 16 < 16" using assms by (simp_all add: less_mult_imp_div_less)
  ultimately show ?thesis by (simp add: hex4_def hex_value_hex_digit)
qed

lemma string_body_escape:
  "string_body (escape_char c @ t) = prepend [c] (string_body t)"
proof -
  let ?n = "of_char c :: nat"
  have n: "?n < 256" using nat_of_char_less_256 [of c] by simp
  have u: "string_body (CHR 0x5C # CHR ''u'' # hex4 ?n @ t) = prepend (utf8 ?n) (string_body t)"
    using hex_code_hex4 [OF n] by (simp add: hex4_def simple_escape_def)
  have "?n < 0x20 \<Longrightarrow> utf8 ?n = [c]" by (simp add: utf8_def)
  with u show ?thesis
    by (simp add: escape_char_def simple_escape_def)
qed

lemma prepend_Inr [simp]: "prepend cs (Inr (output, rest)) = Inr (cs @ output, rest)"
  by (simp add: prepend_def)

lemma string_body_roundtrip:
  "string_body (concat (map escape_char s) @ CHR 0x22 # rest) = Inr (s, rest)"
  by (induction s) (simp_all add: string_body_escape)

lemma parse_string_roundtrip: "parse_string (escape_json s @ rest) = Inr (s, rest)"
  using string_body_roundtrip [of s rest] by (simp add: parse_string_def escape_json_def)

section \<open>Numbers\<close>

definition number_end :: "string \<Rightarrow> bool" where
  "number_end s \<longleftrightarrow> (case s of [] \<Rightarrow> True
     | c # _ \<Rightarrow> \<not> is_digit c \<and> c \<noteq> CHR ''.'' \<and> c \<noteq> CHR ''e'' \<and> c \<noteq> CHR ''E'')"

lemma digit_not_zero:
  assumes "is_digit c" and "c \<noteq> CHR ''0''"
  shows "\<not> c < CHR ''1''" and "\<not> CHR ''9'' < c"
proof -
  have "(of_char c :: nat) \<noteq> of_char CHR ''0''" using assms(2) by (simp only: of_char_eq_iff) simp
  then have "(of_char c :: nat) \<noteq> 48" by simp
  with assms(1) show "\<not> c < CHR ''1''" "\<not> CHR ''9'' < c"
    by (auto simp: is_digit_of_char less_char_def)
qed

lemma scan_integer_token:
  assumes "ip \<noteq> []" "all_digits ip" "ip = ''0'' \<or> hd ip \<noteq> CHR ''0''" "u = [] \<or> \<not> is_digit (hd u)"
  shows "scan_integer n (ip @ u) = Inr (ip, u)"
proof (cases "ip = ''0''")
  case True
  then show ?thesis by (simp add: scan_integer_def)
next
  case False
  from assms(1) obtain c t where ip: "ip = c # t" by (cases ip) auto
  have c: "is_digit c" "c \<noteq> CHR ''0''" using assms(2,3) False by (auto simp: ip)
  have "takeWhile is_digit (ip @ u) = ip \<and> dropWhile is_digit (ip @ u) = u"
    by (rule takeWhile_digits [OF assms(2,4)])
  then show ?thesis
    using c digit_not_zero [OF c] by (simp add: scan_integer_def ip)
qed

lemma scan_fraction_token:
  assumes "all_digits fp" "u = [] \<or> \<not> is_digit (hd u) \<and> hd u \<noteq> CHR ''.''"
  shows "scan_fraction n ((if fp = [] then [] else CHR ''.'' # fp) @ u)
           = Inr (if fp = [] then [] else CHR ''.'' # fp, u)"
proof (cases "fp = []")
  case True
  then show ?thesis using assms(2) by (cases u) (simp_all add: scan_fraction_def)
next
  case False
  have "takeWhile is_digit (fp @ u) = fp \<and> dropWhile is_digit (fp @ u) = u"
    using assms(2) by (intro takeWhile_digits [OF assms(1)]) auto
  with False show ?thesis by (simp add: scan_fraction_def)
qed

definition exponent_token :: "(bool \<times> string) option \<Rightarrow> string" where
  "exponent_token ep = (case ep of None \<Rightarrow> []
     | Some (en, ed) \<Rightarrow> CHR ''e'' # (if en then CHR ''-'' else CHR ''+'') # ed)"

lemma scan_exponent_token:
  assumes "case ep of None \<Rightarrow> True | Some (en, ed) \<Rightarrow> all_digits ed \<and> ed \<noteq> []" "number_end u"
  shows "scan_exponent n (exponent_token ep @ u) = Inr (exponent_token ep, u)"
proof (cases ep)
  case None
  then show ?thesis using assms(2)
    by (cases u) (simp_all add: scan_exponent_def exponent_token_def number_end_def)
next
  case (Some x)
  obtain en ed where x: "x = (en, ed)" by force
  with assms(1) Some have ed: "all_digits ed" "ed \<noteq> []" by simp_all
  have "takeWhile is_digit (ed @ u) = ed \<and> dropWhile is_digit (ed @ u) = u"
    using assms(2) by (intro takeWhile_digits [OF ed(1)]) (cases u; simp add: number_end_def)
  with ed show ?thesis
    by (simp add: Some x scan_exponent_def exponent_token_def scan_sign_def)
qed

lemma parse_number_token:
  assumes "token_ok ip fp ep" and st: "strtod (number_token s ip fp ep) = (v, [])" "isfinite v"
    and "number_end rest"
  shows "parse_number n (number_token s ip fp ep @ rest) = Inr (JNum v, rest)"
proof -
  let ?f = "if fp = [] then [] else CHR ''.'' # fp"
  let ?e = "exponent_token ep"
  have tok: "number_token s ip fp ep = (if s then ''-'' else []) @ ip @ ?f @ ?e"
    by (simp add: number_token_def exponent_token_def)
  have ok: "ip \<noteq> []" "all_digits ip" "ip = ''0'' \<or> hd ip \<noteq> CHR ''0''" "all_digits fp"
      "case ep of None \<Rightarrow> True | Some (en, ed) \<Rightarrow> all_digits ed \<and> ed \<noteq> []"
    using assms(1) by (simp_all add: token_ok_def)
  have e: "?e @ rest = [] \<or> \<not> is_digit (hd (?e @ rest)) \<and> hd (?e @ rest) \<noteq> CHR ''.''"
    using assms(4) by (cases ep; cases rest) (auto simp: exponent_token_def number_end_def)
  then have f: "?f @ ?e @ rest = [] \<or> \<not> is_digit (hd (?f @ ?e @ rest))" by auto
  have m: "ip = c # t \<Longrightarrow> c \<noteq> CHR ''-''" for c t using ok(2) by auto
  have "(case number_token s ip fp ep @ rest of
            c # t \<Rightarrow> (if c = CHR ''-'' then ([c], t) else ([], number_token s ip fp ep @ rest))
          | [] \<Rightarrow> ([], number_token s ip fp ep @ rest))
        = ((if s then ''-'' else []), ip @ ?f @ ?e @ rest)"
  proof -
    define q where "q = ?f @ ?e @ rest"
    have "number_token s ip fp ep @ rest = (if s then ''-'' else []) @ ip @ q"
      by (simp only: tok q_def append_assoc)
    moreover obtain c t where "ip = c # t" using ok(1) by (cases ip) auto
    ultimately show ?thesis using m by (cases s) (simp_all only: q_def [symmetric], simp_all)
  qed
  with scan_integer_token [OF ok(1-3) f] scan_fraction_token [OF ok(4) e]
    scan_exponent_token [OF ok(5) assms(4)] st
  show ?thesis by (simp only: parse_number_def Let_def prod.case rbind_simps tok [symmetric]) simp
qed

lemma format17_is_token:
  assumes "isfinite v"
  shows "\<exists>ip fp ep. format17 v = number_token (neg v) ip fp ep \<and> token_ok ip fp ep"
  by (rule format17_token [OF assms]) (intro exI conjI)

lemma parse_number_roundtrip:
  assumes "isfinite v" "number_end rest"
  shows "parse_number n (format17 v @ rest) = Inr (JNum v, rest)"
proof -
  obtain ip fp ep where f: "format17 v = number_token (neg v) ip fp ep" and ok: "token_ok ip fp ep"
    using format17_is_token [OF assms(1)] by blast
  show ?thesis using parse_number_token [OF ok _ assms] strtod_format17 [OF assms(1)] by (simp add: f)
qed

lemma format17_hd:
  assumes "isfinite v"
  shows "\<exists>c t. format17 v = c # t \<and> (c = CHR ''-'' \<or> is_digit c)"
proof -
  obtain ip fp ep where f: "format17 v = number_token (neg v) ip fp ep" and ok: "token_ok ip fp ep"
    using format17_is_token [OF assms] by blast
  from ok obtain c t where "ip = c # t" "is_digit c" by (cases ip) (simp_all add: token_ok_def)
  then show ?thesis by (cases "neg v") (simp_all add: f number_token_def)
qed

section \<open>White space\<close>

definition all_space :: "string \<Rightarrow> bool" where
  "all_space s \<longleftrightarrow> list_all is_space s"

lemma all_space_simps [simp]:
  "all_space []" "all_space (s @ t) \<longleftrightarrow> all_space s \<and> all_space t"
  "all_space (newline p)" "all_space (indent p d)"
  by (auto simp: all_space_def newline_def indent_def is_space_def list_all_iff)

lemma skip_space_append: "all_space w \<Longrightarrow> skip_space (w @ s) = skip_space s"
  by (induction w) (simp_all add: all_space_def skip_space_def)

lemma skip_space_Cons [simp]:
  "\<not> is_space c \<Longrightarrow> skip_space (c # s) = c # s"
  by (simp add: skip_space_def)

lemma skip_space_idem [simp]: "skip_space (skip_space s) = skip_space s"
  by (simp add: skip_space_def)

lemma not_space [simp]:
  "\<not> is_space CHR ''['' " "\<not> is_space CHR '']''" "\<not> is_space CHR '',''" "\<not> is_space CHR '':''"
  "\<not> is_space CHR 0x7B" "\<not> is_space CHR 0x7D" "\<not> is_space CHR 0x22" "\<not> is_space CHR ''-''"
  "\<not> is_space CHR ''t''" "\<not> is_space CHR ''f''" "\<not> is_space CHR ''n''"
  by (simp_all add: is_space_def)

lemma digit_not_space: "is_digit c \<Longrightarrow> \<not> is_space c"
  by (auto simp: is_space_def is_digit_of_char)

lemma number_end_space: "all_space w \<Longrightarrow> number_end s \<Longrightarrow> number_end (w @ s)"
  by (cases w) (auto simp: number_end_def all_space_def is_space_def is_digit_of_char)

lemma number_end_simps [simp]:
  "number_end []" "number_end (CHR '','' # s)" "number_end (CHR '']'' # s)" "number_end (CHR 0x7D # s)"
  by (simp_all add: number_end_def is_digit_of_char)

text \<open>The first byte of a value's text decides the branch the parser takes.\<close>

lemma dump_hd:
  assumes "json_ok h j"
  shows "\<exists>c t. dump p d j = c # t \<and> \<not> is_space c \<and> c \<noteq> CHR '']''"
proof (cases j)
  case (JNum v)
  with assms format17_hd [of v] digit_not_space show ?thesis by (auto simp: is_digit_of_char)
qed (auto simp: escape_json_def)

section \<open>Reading back what was written\<close>

lemma parse_value_skip: "all_space w \<Longrightarrow> d \<le> 64 \<Longrightarrow> parse_value f n d (w @ s) = parse_value f n d s"
  by (cases f) (simp_all add: skip_space_append)

lemma parse_value_number:
  assumes "isfinite v" "number_end rest" "d \<le> 64"
  shows "parse_value (Suc f) n d (format17 v @ rest) = Inr (JNum v, rest)"
proof -
  obtain c t where c: "format17 v = c # t" "c = CHR ''-'' \<or> is_digit c"
    using format17_hd [OF assms(1)] by blast
  have "\<not> is_space c" using c(2) digit_not_space by auto
  moreover have "c \<noteq> CHR 0x7B" "c \<noteq> CHR ''[''" "c \<noteq> CHR 0x22" "c \<noteq> CHR ''t''" "c \<noteq> CHR ''f''" "c \<noteq> CHR ''n''"
    using c(2) by (auto simp: is_digit_of_char)
  ultimately show ?thesis
    using parse_number_roundtrip [OF assms(1,2), of n] c assms(3) by simp
qed

lemma array_items_roundtrip:
  assumes vp: "\<And>x w rest. x \<in> set xs \<Longrightarrow> all_space w \<Longrightarrow> number_end rest \<Longrightarrow>
      vp (w @ dump p (d + 1) x @ rest) = Inr (x, rest)"
    and "xs \<noteq> []" "length xs \<le> g" "k + length xs \<le> 10000000" "all_space w" "all_space w'"
  shows "array_items g vp n k (w @ dump_items p d xs @ w' @ CHR '']'' # rest) = Inr (xs, rest)"
  using assms
proof (induction xs arbitrary: g k w)
  case (Cons x xs)
  from Cons.prems(3) obtain g' where g: "g = Suc g'" by (cases g) auto
  have k: "\<not> 10000000 \<le> k" using Cons.prems(4) by simp
  let ?wi = "w @ indent p (d + 1)"
  have wi: "all_space ?wi" using Cons.prems(5) by simp
  show ?case
  proof (cases "xs = []")
    case True
    let ?r = "(newline p @ w') @ CHR '']'' # rest"
    have sp: "all_space (newline p @ w')" using Cons.prems(6) by simp
    then have "number_end ?r" by (intro number_end_space) simp_all
    then have "vp (?wi @ dump p (d + 1) x @ ?r) = Inr (x, ?r)"
      by (intro Cons.prems(1) wi) simp_all
    moreover have "skip_space ?r = CHR '']'' # rest" using skip_space_append [OF sp] by simp
    ultimately show ?thesis using True k by (simp add: g)
  next
    case False
    let ?r = "newline p @ dump_items p d xs @ w' @ CHR '']'' # rest"
    have "vp (?wi @ dump p (d + 1) x @ CHR '','' # ?r) = Inr (x, CHR '','' # ?r)"
      by (intro Cons.prems(1) wi) simp_all
    moreover have "array_items g' vp n (k + 1) ?r = Inr (xs, rest)"
      using Cons.prems False by (intro Cons.IH) (simp_all add: g)
    ultimately show ?thesis using False k by (simp add: g)
  qed
qed simp

lemma object_members_step:
  assumes "parse_string (skip_space s) = Inr (k, CHR '':'' # r1)" "vp r1 = Inr (v, r2)"
    and "k \<notin> fst ` set obj" "skip_space r2 = c # r3" "c = CHR 0x7D \<or> c = CHR '',''"
  shows "object_members (Suc f) vp n obj s =
     (if c = CHR 0x7D then Inr (JObj (obj_emplace k v obj), r3)
      else object_members f vp n (obj_emplace k v obj) r3)"
  using assms by auto

lemma object_members_roundtrip:
  assumes vp: "\<And>k v w rest. (k, v) \<in> set kvs \<Longrightarrow> all_space w \<Longrightarrow> number_end rest \<Longrightarrow>
      vp (w @ dump p (d + 1) v @ rest) = Inr (v, rest)"
    and "kvs \<noteq> []" "length kvs \<le> g" "sorted_wrt (<) (map fst (obj @ kvs))" "all_space w" "all_space w'"
  shows "object_members g vp n obj (w @ dump_members p d kvs @ w' @ CHR 0x7D # rest)
           = Inr (JObj (obj @ kvs), rest)"
  using assms
proof (induction kvs arbitrary: g obj w)
  case (Cons kv kvs)
  from Cons.prems(3) obtain g' where g: "g = Suc g'" by (cases g) auto
  obtain k v where kv: "kv = (k, v)" by force
  have fresh: "\<forall>k'\<in>fst ` set obj. k' < k"
    using Cons.prems(4) by (auto simp: kv sorted_wrt_append)
  then have k: "k \<notin> fst ` set obj" "obj_emplace k v obj = obj @ [(k, v)]"
    by (auto simp: obj_emplace_last)
  let ?tl = "(if kvs \<noteq> [] then '','' else []) @ newline p @ dump_members p d kvs @ w' @ CHR 0x7D # rest"
  let ?ws = "if p then '' '' else []"
  have sep: "separator p = CHR '':'' # ?ws" by (simp add: separator_def)
  have written: "w @ dump_members p d (kv # kvs) @ w' @ CHR 0x7D # rest
      = (w @ indent p (d + 1)) @ escape_json k @ CHR '':'' # ?ws @ dump p (d + 1) v @ ?tl"
    by (simp add: kv sep)
  have "skip_space ((w @ indent p (d + 1)) @ escape_json k @ t) = escape_json k @ t" for t
    using Cons.prems(5) by (simp add: skip_space_append escape_json_def del: append_assoc)
  then have key_read: "parse_string (skip_space (w @ dump_members p d (kv # kvs) @ w' @ CHR 0x7D # rest))
      = Inr (k, CHR '':'' # ?ws @ dump p (d + 1) v @ ?tl)"
    by (simp only: written parse_string_roundtrip)
  have ws: "all_space ?ws" by (simp add: all_space_def is_space_def)
  have ne: "number_end ?tl"
    using Cons.prems(6) by (cases kvs) (auto intro!: number_end_space)
  have val_read: "vp (?ws @ dump p (d + 1) v @ ?tl) = Inr (v, ?tl)"
    using Cons.prems(1) [of k v, OF _ ws ne] by (simp add: kv)
  show ?case
  proof (cases "kvs = []")
    case True
    have "skip_space ((newline p @ w') @ CHR 0x7D # rest) = CHR 0x7D # rest"
      using Cons.prems(6) by (simp add: skip_space_append del: append_assoc)
    then have "skip_space ?tl = CHR 0x7D # rest" using True by simp
    from object_members_step [where vp = vp and f = g' and n = n, OF key_read val_read k(1) this]
    show ?thesis using True k(2) by (simp add: g kv)
  next
    case False
    have "object_members g' vp n (obj @ [(k, v)]) (newline p @ dump_members p d kvs @ w' @ CHR 0x7D # rest)
        = Inr (JObj ((obj @ [(k, v)]) @ kvs), rest)"
      using Cons.prems False by (intro Cons.IH) (auto simp: g kv)
    moreover have "skip_space ?tl = CHR '','' # newline p @ dump_members p d kvs @ w' @ CHR 0x7D # rest"
      using False by simp
    from object_members_step [where vp = vp and f = g' and n = n, OF key_read val_read k(1) this]
    have "object_members g vp n obj (w @ dump_members p d (kv # kvs) @ w' @ CHR 0x7D # rest)
        = object_members g' vp n (obj @ [(k, v)]) (newline p @ dump_members p d kvs @ w' @ CHR 0x7D # rest)"
      using k(2) by (simp only: g) simp
    ultimately show ?thesis by (simp add: kv)
  qed
qed simp

lemma dump_lengths:
  shows "0 < length (dump p d j)"
    and "length xs \<le> length (dump_items p d xs)" "x \<in> set xs \<Longrightarrow> length (dump p (d + 1) x) \<le> length (dump_items p d xs)"
    and "length kvs \<le> length (dump_members p d kvs)"
      "(k, v) \<in> set kvs \<Longrightarrow> length (dump p (d + 1) v) \<le> length (dump_members p d kvs)"
proof -
  show pos: "0 < length (dump p d j)" for d j
  proof (cases j)
    case (JNum v)
    then show ?thesis
      by (auto simp: format17_def number_token_def Let_def split: prod.splits)
  qed (auto simp: escape_json_def)
  show "length xs \<le> length (dump_items p d xs)"
  proof (induction xs)
    case (Cons x xs)
    then show ?case using pos [of "d + 1" x] by (simp add: Suc_le_eq trans_less_add1 add_strict_increasing2 split: if_splits)
  qed simp
  show "x \<in> set xs \<Longrightarrow> length (dump p (d + 1) x) \<le> length (dump_items p d xs)"
    by (induction xs) auto
  show "length kvs \<le> length (dump_members p d kvs)"
    by (induction kvs) (auto simp: escape_json_def)
  show "(k, v) \<in> set kvs \<Longrightarrow> length (dump p (d + 1) v) \<le> length (dump_members p d kvs)"
    by (induction kvs) auto
qed

lemma array_items_skip:
  assumes "vp (skip_space s) = vp s"
  shows "array_items g vp n 0 (skip_space s) = array_items g vp n 0 s"
  using assms by (cases g) simp_all

lemma object_members_skip: "object_members g vp n obj (skip_space s) = object_members g vp n obj s"
  by (cases g) simp_all

lemma parse_value_skip_space: "d \<le> 64 \<Longrightarrow> parse_value f n d (skip_space s) = parse_value f n d s"
proof -
  assume "d \<le> 64"
  then have "parse_value f n d (takeWhile is_space s @ skip_space s) = parse_value f n d (skip_space s)"
    by (intro parse_value_skip) (auto simp: all_space_def list_all_iff dest: set_takeWhileD)
  then show ?thesis by (simp add: skip_space_def)
qed

lemma parse_array_items:
  assumes "skip_space s = c # t" "c \<noteq> CHR '']''" "d \<le> 64"
  shows "parse_array f (parse_value f n d) n (b # s)
     = rbind (array_items f (parse_value f n d) n 0 s) (\<lambda>(vs, rest). Inr (JArr vs, rest))"
proof -
  have "array_items f (parse_value f n d) n 0 (skip_space s) = array_items f (parse_value f n d) n 0 s"
    by (rule array_items_skip) (rule parse_value_skip_space [OF assms(3)])
  with assms(1,2) show ?thesis by (simp add: parse_array_def)
qed

lemma parse_object_members:
  assumes "skip_space s = c # t" "c \<noteq> CHR 0x7D"
  shows "parse_object f vp n (b # s) = object_members f vp n [] s"
  using assms object_members_skip [of f vp n "[]" s] by (simp add: parse_object_def)

lemma parse_value_dump:
  "json_ok h j \<Longrightarrow> D + h \<le> 64 \<Longrightarrow> length (dump p d j) < f \<Longrightarrow> all_space w \<Longrightarrow> number_end rest \<Longrightarrow>
     parse_value f n D (w @ dump p d j @ rest) = Inr (j, rest)"
proof (induction f arbitrary: h D d j w rest)
  case (Suc f)
  have D: "D \<le> 64" using Suc.prems(2) by simp
  note skip = parse_value_skip [OF Suc.prems(4) D]
  show ?case
  proof (cases j)
    case (JNum v)
    then show ?thesis using Suc.prems D by (simp only: skip dump.simps parse_value_number json_ok.simps)
  next
    case (JStr s)
    have "parse_string (escape_json s @ rest) = Inr (s, rest)" by (rule parse_string_roundtrip)
    then show ?thesis using D by (simp only: skip) (simp add: JStr escape_json_def)
  next
    case (JArr xs)
    show ?thesis
    proof (cases "xs = []")
      case True
      then show ?thesis using D by (simp only: skip) (simp add: JArr parse_array_def)
    next
      case False
      obtain h' where h: "h = Suc h'" using Suc.prems(1) False by (cases h) (auto simp: JArr)
      let ?s = "newline p @ dump_items p d xs @ indent p d @ CHR '']'' # rest"
      have len: "length (dump_items p d xs) < f" "length xs \<le> f"
        using Suc.prems(3) dump_lengths(2) [of xs p d] by (simp_all add: JArr)
      have vp: "parse_value f n (D + 1) (w @ dump p (d + 1) x @ rest) = Inr (x, rest)"
        if "x \<in> set xs" "all_space w" "number_end rest" for x w rest
        using that Suc.prems(1,2) dump_lengths(3) [OF that(1), of p d] len(1)
        by (intro Suc.IH [of h']) (auto simp: JArr h items_ok_iff)
      have items: "array_items f (parse_value f n (D + 1)) n 0 ?s = Inr (xs, rest)"
        using Suc.prems(1) False len(2) by (intro array_items_roundtrip vp) (simp_all add: JArr)
      obtain x xs' where xs: "xs = x # xs'" using False by (cases xs) auto
      then obtain c t where "dump p (d + 1) x = c # t" "\<not> is_space c" "c \<noteq> CHR '']''"
        using dump_hd [of h' x p "d + 1"] Suc.prems(1) by (auto simp: JArr h)
      then have "\<exists>t'. skip_space ?s = c # t'" "c \<noteq> CHR '']''"
        by (simp_all add: xs skip_space_append)
      moreover have "D + 1 \<le> 64" using Suc.prems(2) by (simp add: h)
      ultimately have "parse_array f (parse_value f n (D + 1)) n (CHR ''['' # ?s) = Inr (JArr xs, rest)"
        using parse_array_items [of ?s c _ "D + 1" f n "CHR ''[''"] items by auto
      then show ?thesis using D False by (simp only: skip) (simp add: JArr)
    qed
  next
    case (JObj kvs)
    show ?thesis
    proof (cases "kvs = []")
      case True
      then show ?thesis using D by (simp only: skip) (simp add: JObj parse_object_def)
    next
      case False
      obtain h' where h: "h = Suc h'" using Suc.prems(1) False by (cases h) (auto simp: JObj)
      let ?s = "newline p @ dump_members p d kvs @ indent p d @ CHR 0x7D # rest"
      have len: "length (dump_members p d kvs) < f" "length kvs \<le> f"
        using Suc.prems(3) dump_lengths(4) [of kvs p d] by (simp_all add: JObj)
      have vp: "parse_value f n (D + 1) (w @ dump p (d + 1) v @ rest) = Inr (v, rest)"
        if "(k, v) \<in> set kvs" "all_space w" "number_end rest" for k v w rest
        using that Suc.prems(1,2) dump_lengths(5) [OF that(1), of p d] len(1)
        by (intro Suc.IH [of h']) (auto simp: JObj h members_ok_iff)
      have items: "object_members f (parse_value f n (D + 1)) n [] ?s = Inr (JObj ([] @ kvs), rest)"
        using Suc.prems(1) False len(2) by (intro object_members_roundtrip vp) (simp_all add: JObj)
      have "\<exists>t'. skip_space ?s = CHR 0x22 # t'"
        using False by (cases kvs) (auto simp: skip_space_append escape_json_def)
      then have "parse_object f (parse_value f n (D + 1)) n (CHR 0x7B # ?s) = Inr (JObj kvs, rest)"
        using parse_object_members [of ?s "CHR 0x22" _ f _ n "CHR 0x7B"] items by auto
      then show ?thesis using D False by (simp only: skip) (simp add: JObj)
    qed
  qed (use D in \<open>(simp only: skip), simp\<close>)+
qed simp

lemma json_parse_dump:
  assumes "storable j" "all_space w" "all_space w'"
  shows "json_parse (w @ dump p d j @ w') = Inr j"
proof -
  let ?t = "w @ dump p d j @ w'"
  have "number_end w'" using number_end_space [OF assms(3), of "[]"] by simp
  then have "parse_value (length ?t + 1) (length ?t) 0 ?t = Inr (j, w')"
    using assms by (intro parse_value_dump [of 64]) (simp_all add: storable_def)
  moreover have "skip_space w' = []" using skip_space_append [OF assms(3), of "[]"] by (simp add: skip_space_def)
  ultimately show ?thesis by (simp add: json_parse_def Let_def parse_value_skip_space)
qed

lemma json_parse_canonical: "storable j \<Longrightarrow> json_parse (canonical j) = Inr j"
  using json_parse_dump [of j "[]" "[]" False 0] by (simp add: canonical_def)

lemma canonical_inj: "storable a \<Longrightarrow> storable b \<Longrightarrow> canonical a = canonical b \<Longrightarrow> a = b"
  by (metis json_parse_canonical sum.inject(2))

section \<open>The parser always returns\<close>

text \<open>
  A parser consumes: what it leaves unread is shorter than its input; and with more fuel
  than input, its only error is \<open>CorruptData\<close> (never the \<open>InternalError\<close> of the fuel).
\<close>

definition consumed :: "nat \<Rightarrow> ('a \<times> string) result \<Rightarrow> bool" where
  "consumed n r = (case r of Inl e \<Rightarrow> code e = CorruptData | Inr (v, rest) \<Rightarrow> length rest < n)"

lemma consumed_simps [simp]:
  "consumed n (parse_fail k r m)" "consumed n (string_fail m)" "consumed n (Inr (v, r)) \<longleftrightarrow> length r < n"
  "consumed n (failure CorruptData m c)"
  by (simp_all add: consumed_def parse_fail_def string_fail_def failure_def)

lemma consumed_mono: "consumed m r \<Longrightarrow> m \<le> n \<Longrightarrow> consumed n r"
  by (auto simp: consumed_def split: sum.splits)

lemma consumed_rbind:
  assumes "consumed m r" "\<And>v s. r = Inr (v, s) \<Longrightarrow> length s < m \<Longrightarrow> consumed n (f (v, s))"
  shows "consumed n (rbind r f)"
proof (cases r)
  case (Inl e)
  with assms(1) show ?thesis by (simp add: consumed_def)
next
  case (Inr vs)
  obtain v s where "vs = (v, s)" by force
  with Inr assms show ?thesis by (simp add: consumed_def)
qed

lemma consumed_prepend: "consumed m r \<Longrightarrow> m \<le> n \<Longrightarrow> consumed n (prepend cs r)"
  unfolding prepend_def by (rule consumed_rbind) auto

lemma skip_space_length: "length (skip_space s) \<le> length s"
  by (simp add: skip_space_def length_dropWhile_le)

lemma skip_space_shorter: "skip_space s = c # t \<Longrightarrow> length t < length s"
  using skip_space_length [of s] by simp

lemma consumed_if:
  "(b \<Longrightarrow> consumed n x) \<Longrightarrow> (\<not> b \<Longrightarrow> consumed n y) \<Longrightarrow> consumed n (if b then x else y)"
  by simp

lemma consumed_case4:
  "(\<And>a b c d w. u = a # b # c # d # w \<Longrightarrow> consumed n (f a b c d w)) \<Longrightarrow> consumed n y \<Longrightarrow>
     consumed n (case u of a # b # c # d # w \<Rightarrow> f a b c d w | _ \<Rightarrow> y)"
  by (auto split: list.split)

lemma consumed_option:
  "(r = None \<Longrightarrow> consumed n y) \<Longrightarrow> (\<And>x. r = Some x \<Longrightarrow> consumed n (f x)) \<Longrightarrow>
     consumed n (case r of None \<Rightarrow> y | Some x \<Rightarrow> f x)"
  by (cases r) simp_all

lemma string_body_consumes: "consumed (length s) (string_body s)"
proof (induction s rule: length_induct)
  case (1 s)
  show ?case
  proof (cases s)
    case (Cons c t)
    have IH: "consumed (length t) (string_body u)" if "length u \<le> length t" for u
    proof -
      have "consumed (length u) (string_body u)" using 1 that by (simp add: Cons)
      then show ?thesis using that by (rule consumed_mono)
    qed
    have P: "consumed (Suc (length t)) (prepend cs (string_body u))" if "length u \<le> length t" for cs u
      by (rule consumed_prepend [OF IH [OF that]]) simp
    have E: "consumed (Suc (length t)) (case simple_escape e of Some x \<Rightarrow> prepend [x] (string_body u)
        | None \<Rightarrow> (if e \<noteq> CHR ''u'' then string_fail ''invalid JSON escape''
            else (case u of d1 # d2 # d3 # d4 # w \<Rightarrow>
                (case hex_code 0 [d1, d2, d3, d4] of None \<Rightarrow> string_fail ''invalid Unicode escape''
                 | Some c \<Rightarrow> prepend (utf8 c) (string_body w))
              | _ \<Rightarrow> string_fail ''truncated Unicode escape'')))" if "t = e # u" for e u
      by (intro consumed_option consumed_if consumed_case4 consumed_simps P) (simp_all add: that)
    have "consumed (Suc (length t)) (case t of [] \<Rightarrow> string_fail ''truncated JSON escape''
        | e # u \<Rightarrow> (case simple_escape e of Some x \<Rightarrow> prepend [x] (string_body u)
        | None \<Rightarrow> (if e \<noteq> CHR ''u'' then string_fail ''invalid JSON escape''
            else (case u of d1 # d2 # d3 # d4 # w \<Rightarrow>
                (case hex_code 0 [d1, d2, d3, d4] of None \<Rightarrow> string_fail ''invalid Unicode escape''
                 | Some c \<Rightarrow> prepend (utf8 c) (string_body w))
              | _ \<Rightarrow> string_fail ''truncated Unicode escape''))))"
      using E by (cases t) (simp_all only: list.case consumed_simps)
    then show ?thesis using P [OF order.refl] unfolding Cons string_body.simps list.size by simp
  qed simp
qed

lemma parse_string_consumes: "consumed (length s) (parse_string s)"
proof (cases s)
  case (Cons c t)
  then show ?thesis using consumed_mono [OF string_body_consumes [of t], of "length s"]
    by (simp add: parse_string_def)
qed (simp add: parse_string_def)

lemma dropWhile_shorter: "takeWhile P s \<noteq> [] \<Longrightarrow> length (dropWhile P s) < length s"
  by (cases s) (auto simp: le_imp_less_Suc length_dropWhile_le split: if_splits)

lemma scan_integer_consumes: "consumed (length s) (scan_integer n s)"
proof (cases s)
  case (Cons c t)
  have "\<not> c < CHR ''1'' \<Longrightarrow> \<not> CHR ''9'' < c \<Longrightarrow> is_digit c"
    by (auto simp: is_digit_of_char less_char_def)
  then show ?thesis by (auto simp: Cons scan_integer_def le_imp_less_Suc length_dropWhile_le)
qed (simp add: scan_integer_def)

lemma scan_fraction_consumes: "consumed (Suc (length s)) (scan_fraction n s)"
  using length_dropWhile_le [of is_digit "tl s"] by (cases s) (auto simp: scan_fraction_def)

lemma scan_sign_length: "scan_sign s = (sg, u) \<Longrightarrow> length u \<le> length s"
  by (auto simp: scan_sign_def split: list.splits if_splits)

lemma scan_exponent_consumes: "consumed (Suc (length s)) (scan_exponent n s)"
proof (cases s)
  case (Cons c t)
  obtain sg u where u: "scan_sign t = (sg, u)" by force
  have "length (dropWhile is_digit u) \<le> length t"
    using length_dropWhile_le [of is_digit u] scan_sign_length [OF u] by linarith
  then show ?thesis by (auto simp: Cons scan_exponent_def u le_imp_less_Suc intro: le_SucI)
qed (simp add: scan_exponent_def)

lemma parse_number_consumes: "consumed (length s) (parse_number n s)"
proof -
  obtain sg s1 where s1: "(case s of c # t \<Rightarrow> (if c = CHR ''-'' then ([c], t) else ([], s)) | [] \<Rightarrow> ([], s)) = (sg, s1)"
    by force
  then have len: "length s1 \<le> length s" by (auto split: list.splits if_splits)
  show ?thesis
    unfolding parse_number_def s1 Let_def prod.case
    by (rule consumed_rbind [OF scan_integer_consumes], simp only: prod.case,
        rule consumed_rbind [OF scan_fraction_consumes], simp only: prod.case,
        rule consumed_rbind [OF scan_exponent_consumes], use len in \<open>simp add: case_prod_beta\<close>)
qed

lemma array_items_consumes:
  assumes vp: "\<And>t. length t \<le> length s \<Longrightarrow> consumed (length t) (vp t)" and "length s < g"
  shows "consumed (length s) (array_items g vp n k s)"
  using assms
proof (induction g arbitrary: k s)
  case (Suc g)
  have "consumed (length s) (case skip_space r of [] \<Rightarrow> parse_fail n [] ''unterminated JSON array''
        | d # r1 \<Rightarrow> if d = CHR '']'' then Inr ([v], r1)
                   else if d \<noteq> CHR '','' then parse_fail n r1 ''expected comma in JSON array''
                   else rbind (array_items g vp n (k + 1) r1) (\<lambda>(vs, r2). Inr (v # vs, r2)))"
    if r: "length r < length s" for v r
  proof (cases "skip_space r")
    case (Cons d r1)
    then have "length r1 < length s" using skip_space_shorter [OF Cons] r by simp
    moreover from this have "consumed (length r1) (array_items g vp n (k + 1) r1)"
      using Suc.prems by (intro Suc.IH) auto
    ultimately show ?thesis by (auto simp: Cons intro: consumed_rbind)
  qed simp
  then have "consumed (length s) (rbind (vp s) (\<lambda>(v, r). case skip_space r of [] \<Rightarrow> parse_fail n [] ''unterminated JSON array''
        | d # r1 \<Rightarrow> if d = CHR '']'' then Inr ([v], r1)
                   else if d \<noteq> CHR '','' then parse_fail n r1 ''expected comma in JSON array''
                   else rbind (array_items g vp n (k + 1) r1) (\<lambda>(vs, r2). Inr (v # vs, r2))))"
    by (intro consumed_rbind [OF Suc.prems(1) [OF order.refl]]) (simp only: prod.case)
  then show ?case by (simp only: array_items.simps) simp
qed simp

lemma object_members_consumes:
  assumes vp: "\<And>t. length t \<le> length s \<Longrightarrow> consumed (length t) (vp t)" and "length s < g"
  shows "consumed (length s) (object_members g vp n obj s)"
  using assms
proof (induction g arbitrary: obj s)
  case (Suc g)
  have tail: "consumed (length s) (case skip_space r of [] \<Rightarrow> parse_fail n [] ''unterminated JSON object''
        | d # r3 \<Rightarrow> if d = CHR 0x7D then Inr (JObj (obj_emplace k v obj), r3)
                   else if d \<noteq> CHR '','' then parse_fail n r3 ''expected comma in JSON object''
                   else object_members g vp n (obj_emplace k v obj) r3)"
    if r: "length r < length s" for k v r
  proof (cases "skip_space r")
    case (Cons d r3)
    then have "length r3 < length s" using skip_space_shorter [OF Cons] r by simp
    moreover from this have "consumed (length r3) (object_members g vp n (obj_emplace k v obj) r3)"
      using Suc.prems by (intro Suc.IH) auto
    ultimately show ?thesis by (auto simp: Cons intro: consumed_mono)
  qed simp
  show ?case
    unfolding object_members.simps
  proof (rule consumed_rbind [OF parse_string_consumes], simp only: prod.case)
    fix k :: string and r :: string
    assume "length r < length (skip_space s)"
    then have r: "length r < length s" using skip_space_length [of s] by simp
    show "consumed (length s) (case skip_space r of [] \<Rightarrow> parse_fail n [] ''expected colon in JSON object''
        | c # r1 \<Rightarrow> if c \<noteq> CHR '':'' then parse_fail n r1 ''expected colon in JSON object''
           else rbind (vp r1) (\<lambda>(v, r2).
              if k \<in> fst ` set obj then parse_fail n r2 ''duplicate JSON object key''
              else (case skip_space r2 of [] \<Rightarrow> parse_fail n [] ''unterminated JSON object''
                | d # r3 \<Rightarrow> if d = CHR 0x7D then Inr (JObj (obj_emplace k v obj), r3)
                   else if d \<noteq> CHR '','' then parse_fail n r3 ''expected comma in JSON object''
                   else object_members g vp n (obj_emplace k v obj) r3)))"
    proof (cases "skip_space r")
      case (Cons c r1)
      then have r1: "length r1 < length s" using skip_space_shorter [OF Cons] r by simp
      then have "consumed (length r1) (vp r1)" by (intro Suc.prems(1)) simp
      then show ?thesis using r1 tail by (auto simp: Cons intro!: consumed_rbind [of "length r1"])
    qed simp
  qed
qed simp

lemma parse_value_consumes: "length s < f \<Longrightarrow> consumed (length s) (parse_value f n d s)"
proof (induction f arbitrary: s d)
  case (Suc f)
  show ?case
  proof (cases "skip_space s")
    case Nil
    then show ?thesis by (simp add: Let_def)
  next
    case (Cons c t)
    have len: "length (c # t) \<le> length s" using skip_space_length [of s] by (simp add: Cons)
    have sub: "consumed (length u) (parse_value f n (Suc d) u)" if "length u \<le> length t" for u
      using that len Suc.prems by (intro Suc.IH) simp
    have t: "length (skip_space t) \<le> length t" by (rule skip_space_length)
    have arr: "consumed (length s) (parse_array f (parse_value f n (d + 1)) n (c # t))"
      unfolding parse_array_def Let_def list.sel
      using t len Suc.prems
      by (cases "skip_space t")
        (auto intro!: consumed_rbind [OF array_items_consumes] sub)
    have obj: "consumed (length s) (parse_object f (parse_value f n (d + 1)) n (c # t))"
      unfolding parse_object_def Let_def list.sel
      using t len Suc.prems
      by (cases "skip_space t")
        (auto intro!: consumed_mono [OF object_members_consumes] sub)
    have str: "consumed (length s) (rbind (parse_string (c # t)) (\<lambda>(v, rest). Inr (JStr v, rest)))"
      by (rule consumed_rbind [OF parse_string_consumes]) (use len in simp)
    have num: "consumed (length s) (parse_number n (c # t))"
      by (rule consumed_mono [OF parse_number_consumes len])
    show ?thesis
      unfolding parse_value.simps Let_def Cons list.case
      by (intro consumed_if consumed_simps) (use arr obj str num len in simp_all)
  qed
qed simp

text \<open>The fuel of \<open>json_parse\<close> is enough: every failure is reported as corrupt data.\<close>

lemma parse_fuel_enough: "json_parse s = Inl e \<Longrightarrow> code e = CorruptData"
proof -
  assume e: "json_parse s = Inl e"
  have "consumed (length (skip_space s)) (parse_value (length s + 1) (length s) 0 (skip_space s))"
    using skip_space_length [of s] by (intro parse_value_consumes) simp
  with e show ?thesis
    by (auto simp: json_parse_def Let_def consumed_def parse_fail_def failure_def
        split: sum.splits if_splits prod.splits)
qed

end
