(* ===== verification/Binding.thy ===== *)
theory Binding
  imports Json_Laws
begin

text \<open>
  Two contracts that many components share. \<open>codec\<close>: a writer and a reader of one format,
  the reader undoing the writer. \<open>content_identity\<close>: an identity computed as the SHA-256
  digest of the canonical JSON of what it identifies; equal identities then mean equal
  contents, or an explicit pair of distinct texts with one digest. SHA-256 itself is
  modelled bit by bit, so no collision-freedom is assumed anywhere: a property that rests
  on it names the two colliding texts.
\<close>

section \<open>Codecs\<close>

locale codec =
  fixes enc :: "'a \<Rightarrow> 'b" and dec :: "'b \<Rightarrow> 'a option" and dom_ok :: "'a \<Rightarrow> bool"
  assumes dec_enc: "dom_ok x \<Longrightarrow> dec (enc x) = Some x"
begin

lemma enc_inj: "dom_ok x \<Longrightarrow> dom_ok y \<Longrightarrow> enc x = enc y \<Longrightarrow> x = y"
  by (metis dec_enc option.sel)

lemma enc_inj_on: "inj_on enc {x. dom_ok x}"
  by (auto intro!: inj_onI enc_inj)

end

definition result_option :: "'a result \<Rightarrow> 'a option" where
  "result_option r = (case r of Inl _ \<Rightarrow> None | Inr x \<Rightarrow> Some x)"

lemma result_option_simps [simp]: "result_option (Inr x) = Some x" "result_option (Inl e) = None"
  by (simp_all add: result_option_def)

interpretation u64_text: codec to_string from_chars "\<lambda>_. True"
  by unfold_locales (rule from_chars_to_string)

interpretation hex_text: codec encode_hex "\<lambda>t. result_option (decode_hex t (length t div 2))" "\<lambda>_. True"
  by unfold_locales (simp add: decode_encode_hex)

interpretation json_text: codec canonical "\<lambda>t. result_option (json_parse t)" storable
  by unfold_locales (simp add: json_parse_canonical)

interpretation f64_text: codec format17 "\<lambda>t. Some (fst (strtod t))" isfinite
  by unfold_locales (simp add: strtod_format17)

section \<open>Numbers inside identities\<close>

text \<open>Small integers (\<open>static_cast<int>\<close> of an enum, a schema number) as JSON numbers.\<close>

definition json_int :: "nat \<Rightarrow> json" where
  "json_int n = JNum (f64_of_nat n)"

lemma json_ok_int [simp]: "n < 2 * hidden_bit \<Longrightarrow> json_ok h (json_int n)"
  by (simp add: json_int_def f64_of_nat_exact)

lemma small_int [simp]: "n < 1000 \<Longrightarrow> n < 2 * hidden_bit"
  by (simp add: hidden_bit_def)

lemma json_int_inj:
  "m < 2 * hidden_bit \<Longrightarrow> n < 2 * hidden_bit \<Longrightarrow> json_int m = json_int n \<longleftrightarrow> m = n"
  by (auto simp: json_int_def dest: f64_of_nat_inj)

section \<open>Objects by their members\<close>

text \<open>The order in which the code adds members does not matter: lookup sees the first of a key.\<close>

lemma obj_emplace_sorted:
  "sorted_wrt (<) (map fst kvs) \<Longrightarrow> sorted_wrt (<) (map fst (obj_emplace k v kvs)) \<and>
     set (map fst (obj_emplace k v kvs)) = insert k (set (map fst kvs))"
proof (induction kvs)
  case (Cons x kvs)
  obtain k' v' where x: "x = (k', v')" by (cases x)
  have above: "\<forall>y\<in>set (map fst kvs). k' < y" and tail: "sorted_wrt (<) (map fst kvs)"
    using Cons.prems by (simp_all add: x)
  consider "k < k'" | "k = k'" | "k' < k" by (rule linorder_cases)
  then show ?case
  proof cases
    case 1
    then have "\<forall>y\<in>set (map fst kvs). k < y" using above less_trans [of k k'] by blast
    with 1 above tail show ?thesis by (simp add: x)
  next
    case 2
    with above tail show ?thesis by (simp add: x)
  next
    case 3
    then have "\<not> k < k'" "k \<noteq> k'" by simp_all
    moreover have "\<forall>y\<in>set (map fst (obj_emplace k v kvs)). k' < y"
      using Cons.IH [OF tail] above 3 by simp
    ultimately show ?thesis using Cons.IH [OF tail] 3 above by (simp add: x insert_commute)
  qed
qed simp

lemma map_of_obj_emplace:
  "map_of (obj_emplace k v kvs) i = (if i = k \<and> map_of kvs k = None then Some v else map_of kvs i)"
  if "sorted_wrt (<) (map fst kvs)"
  using that
proof (induction kvs)
  case (Cons x kvs)
  obtain k' v' where x: "x = (k', v')" by (cases x)
  have "k < k' \<Longrightarrow> map_of kvs k = None"
    using Cons.prems by (auto simp: x map_of_eq_None_iff)
  with Cons show ?case by (auto simp: x)
qed simp

lemma set_obj_emplace: "set (obj_emplace k v kvs) \<subseteq> insert (k, v) (set kvs)"
  by (induction kvs rule: obj_emplace.induct) auto

lemma foldl_emplace:
  "sorted_wrt (<) (map fst acc) \<Longrightarrow>
     sorted_wrt (<) (map fst (foldl (\<lambda>kvs (k, v). obj_emplace k v kvs) acc kvs)) \<and>
     map_of (foldl (\<lambda>kvs (k, v). obj_emplace k v kvs) acc kvs) i =
       (case map_of acc i of None \<Rightarrow> map_of kvs i | Some v \<Rightarrow> Some v) \<and>
     set (foldl (\<lambda>kvs (k, v). obj_emplace k v kvs) acc kvs) \<subseteq> set acc \<union> set kvs"
proof (induction kvs arbitrary: acc)
  case (Cons x kvs)
  obtain k v where x: "x = (k, v)" by (cases x)
  have s: "sorted_wrt (<) (map fst (obj_emplace k v acc))" 
    by (rule conjunct1 [OF obj_emplace_sorted [OF Cons.prems]])
  have step: "foldl (\<lambda>kvs (k, v). obj_emplace k v kvs) acc (x # kvs) =
      foldl (\<lambda>kvs (k, v). obj_emplace k v kvs) (obj_emplace k v acc) kvs" by (simp add: x)
  have m: "map_of (obj_emplace k v acc) i = (if i = k \<and> map_of acc k = None then Some v else map_of acc i)"
    using Cons.prems by (rule map_of_obj_emplace)
  have "(case map_of (obj_emplace k v acc) i of None \<Rightarrow> map_of kvs i | Some v \<Rightarrow> Some v) =
      (case map_of acc i of None \<Rightarrow> map_of (x # kvs) i | Some v \<Rightarrow> Some v)"
    unfolding m by (cases "map_of acc i"; cases "i = k") (simp_all add: x)
  moreover have "set (obj_emplace k v acc) \<union> set kvs \<subseteq> set acc \<union> set (x # kvs)"
    using set_obj_emplace [of k v acc] by (auto simp: x)
  ultimately show ?case using Cons.IH [OF s] unfolding step
    by (simp only: simp_thms) (elim conjE, erule subset_trans, assumption)
qed (simp split: option.split)

lemma json_find_object [simp]: "json_find (json_object kvs) k = map_of kvs k"
  using foldl_emplace [of "[]" kvs k] by (simp add: json_find_def json_object_def mk_object_def)

lemma json_ok_object:
  assumes "list_all (\<lambda>(k, v). json_ok h v) kvs"
  shows "json_ok (Suc h) (json_object kvs)"
proof -
  have "set (mk_object kvs) \<subseteq> set kvs" "sorted_wrt (<) (map fst (mk_object kvs))"
    using foldl_emplace [of "[]" kvs] by (simp_all add: mk_object_def)
  with assms show ?thesis unfolding json_object_def list_all_iff
    by (simp add: members_ok_iff) blast
qed

lemma json_objectD: "json_object kvs = json_object kvs' \<Longrightarrow> map_of kvs k = map_of kvs' k"
  by (metis json_find_object)

section \<open>Identities\<close>

text \<open>An identity behind a domain line; with the empty line it is the plain digest below.\<close>

locale tagged_identity =
  fixes tag :: string and identity :: "'a \<Rightarrow> string" and content :: "'a \<Rightarrow> json" and good :: "'a \<Rightarrow> bool"
  assumes tagged_eq: "identity x = sha256 (tag @ canonical (content x))"
    and tagged_storable: "good x \<Longrightarrow> storable (content x)"
begin

lemma tagged_valid: "valid_sha256 (identity x)"
  by (simp add: tagged_eq)

lemma tagged_binds:
  assumes "good x" "good y" "identity x = identity y"
  shows "content x = content y \<or> sha256_collision (tag @ canonical (content x)) (tag @ canonical (content y))"
  using sha256_eq_cases [of "tag @ canonical (content x)" "tag @ canonical (content y)"]
    canonical_inj tagged_storable assms by (auto simp: tagged_eq)

lemma tagged_cong: "content x = content y \<Longrightarrow> identity x = identity y"
  by (simp add: tagged_eq)

end

locale content_identity =
  fixes identity :: "'a \<Rightarrow> string" and content :: "'a \<Rightarrow> json" and good :: "'a \<Rightarrow> bool"
  assumes identity_eq: "identity x = sha256 (canonical (content x))"
    and content_storable: "good x \<Longrightarrow> storable (content x)"
begin

lemma identity_valid: "valid_sha256 (identity x)"
  by (simp add: identity_eq)

lemma identity_binds:
  assumes "good x" "good y" "identity x = identity y"
  shows "content x = content y \<or> sha256_collision (canonical (content x)) (canonical (content y))"
proof -
  have "canonical (content x) = canonical (content y) \<or>
      sha256_collision (canonical (content x)) (canonical (content y))"
    using assms(3) unfolding identity_eq by (rule sha256_eq_cases)
  with canonical_inj content_storable assms(1,2) show ?thesis by blast
qed

lemma identity_cong: "content x = content y \<Longrightarrow> identity x = identity y"
  by (simp add: identity_eq)

end

text \<open>The plain digest is the tagged one with nothing before the text.\<close>

sublocale content_identity \<subseteq> untagged: tagged_identity "[]" identity content good
  by unfold_locales (simp_all add: identity_eq content_storable)

end
