(* ===== verification/Memory.thy ===== *)
theory Memory
  imports Binding "HOL-Library.AList"
begin

text \<open>
  The safety memory of \<^verbatim>\<open>include/rbfsafe/memory.h\<close> and \<^verbatim>\<open>src/memory.cpp\<close>: artifacts
  sorted by identity, the append-only event log, the lifecycle of an artifact, reuse
  assessment, and the replay check \<open>SafetyMemory::valid\<close>. Operations take the memory and
  return the new memory with their result; on an error they return no new memory.

  \<open>std::vector\<close> is a list, \<open>std::size_t\<close> a natural number, \<open>std::uint64_t\<close> a 64-bit word.
  An enum has exactly its enumerators (the decoders range-check before they cast), so its
  range checks compare the underlying code.
\<close>

section \<open>Enumerations\<close>

datatype evidence_level = Unknown | PointChecked | CertifiedRegion | CertifiedConnectivity | RuntimeExecutable

fun evidence_code :: "evidence_level \<Rightarrow> nat" where
  "evidence_code Unknown = 0"
| "evidence_code PointChecked = 1"
| "evidence_code CertifiedRegion = 2"
| "evidence_code CertifiedConnectivity = 3"
| "evidence_code RuntimeExecutable = 4"

lemma evidence_code_inj [simp]: "evidence_code a = evidence_code b \<longleftrightarrow> a = b"
  by (cases a; cases b) simp_all

instantiation evidence_level :: linorder
begin

definition less_eq_evidence_level :: "evidence_level \<Rightarrow> evidence_level \<Rightarrow> bool" where
  "a \<le> b \<longleftrightarrow> evidence_code a \<le> evidence_code b"

definition less_evidence_level :: "evidence_level \<Rightarrow> evidence_level \<Rightarrow> bool" where
  "a < b \<longleftrightarrow> evidence_code a < evidence_code b"

instance
  by standard (auto simp: less_eq_evidence_level_def less_evidence_level_def)

end

datatype artifact_type =
  SafeAtlas | RegionDatabase | SafeCorridor | TrajectoryAudit | PolicyFeedback | RuntimeTrace | FleetSchedule

fun artifact_type_code :: "artifact_type \<Rightarrow> nat" where
  "artifact_type_code SafeAtlas = 0"
| "artifact_type_code RegionDatabase = 1"
| "artifact_type_code SafeCorridor = 2"
| "artifact_type_code TrajectoryAudit = 3"
| "artifact_type_code PolicyFeedback = 4"
| "artifact_type_code RuntimeTrace = 5"
| "artifact_type_code FleetSchedule = 6"

datatype artifact_state = Active | Stale | Quarantined | Retired

fun artifact_state_code :: "artifact_state \<Rightarrow> nat" where
  "artifact_state_code Active = 0"
| "artifact_state_code Stale = 1"
| "artifact_state_code Quarantined = 2"
| "artifact_state_code Retired = 3"

datatype event_type = Registered | StateTransition | ReuseRecorded | SceneInvalidated

fun event_type_code :: "event_type \<Rightarrow> nat" where
  "event_type_code Registered = 0"
| "event_type_code StateTransition = 1"
| "event_type_code ReuseRecorded = 2"
| "event_type_code SceneInvalidated = 3"

datatype reuse_disposition = Direct | RequiresRevalidation | Ineligible

fun reuse_disposition_code :: "reuse_disposition \<Rightarrow> nat" where
  "reuse_disposition_code Direct = 0"
| "reuse_disposition_code RequiresRevalidation = 1"
| "reuse_disposition_code Ineligible = 2"

instantiation reuse_disposition :: linorder
begin

definition less_eq_reuse_disposition :: "reuse_disposition \<Rightarrow> reuse_disposition \<Rightarrow> bool" where
  "a \<le> b \<longleftrightarrow> reuse_disposition_code a \<le> reuse_disposition_code b"

definition less_reuse_disposition :: "reuse_disposition \<Rightarrow> reuse_disposition \<Rightarrow> bool" where
  "a < b \<longleftrightarrow> reuse_disposition_code a < reuse_disposition_code b"

lemma reuse_disposition_code_inj: "reuse_disposition_code a = reuse_disposition_code b \<Longrightarrow> a = b"
  by (cases a; cases b) simp_all

instance
  by standard (auto simp: less_eq_reuse_disposition_def less_reuse_disposition_def
      dest: reuse_disposition_code_inj)

end

lemma artifact_type_code_inj [simp]: "artifact_type_code a = artifact_type_code b \<longleftrightarrow> a = b"
  by (cases a; cases b) simp_all

lemma artifact_state_code_inj [simp]: "artifact_state_code a = artifact_state_code b \<longleftrightarrow> a = b"
  by (cases a; cases b) simp_all

lemma event_type_code_inj [simp]: "event_type_code a = event_type_code b \<longleftrightarrow> a = b"
  by (cases a; cases b) simp_all

lemma evidence_code_le: "evidence_code v \<le> 4"
  by (cases v) simp_all

lemma artifact_type_code_le: "artifact_type_code a \<le> 6"
  by (cases a) simp_all

lemma artifact_state_code_le: "artifact_state_code c \<le> 3"
  by (cases c) simp_all

lemma event_type_code_le: "event_type_code e \<le> 3"
  by (cases e) simp_all

lemmas enum_code_bounds [simp] =
  evidence_code_le artifact_type_code_le artifact_state_code_le event_type_code_le

lemma enum_code_small [simp]:
  "evidence_code v < 2 * hidden_bit" "artifact_type_code a < 2 * hidden_bit"
  "artifact_state_code c < 2 * hidden_bit" "event_type_code e < 2 * hidden_bit"
  by (rule small_int, rule order.strict_trans1 [OF evidence_code_le], simp)
    (rule small_int, rule order.strict_trans1 [OF artifact_type_code_le], simp,
     rule small_int, rule order.strict_trans1 [OF artifact_state_code_le], simp,
     rule small_int, rule order.strict_trans1 [OF event_type_code_le], simp)

definition valid_artifact_type :: "artifact_type \<Rightarrow> bool" where
  "valid_artifact_type t \<longleftrightarrow> artifact_type_code t \<le> artifact_type_code FleetSchedule"

definition valid_artifact_state :: "artifact_state \<Rightarrow> bool" where
  "valid_artifact_state s \<longleftrightarrow> artifact_state_code s \<le> artifact_state_code Retired"

definition valid_event_type :: "event_type \<Rightarrow> bool" where
  "valid_event_type e \<longleftrightarrow> event_type_code e \<le> event_type_code SceneInvalidated"

definition valid_evidence :: "evidence_level \<Rightarrow> bool" where
  "valid_evidence v \<longleftrightarrow> Unknown \<le> v \<and> v \<le> RuntimeExecutable"

lemma valid_enums [simp]:
  "valid_artifact_type t" "valid_artifact_state s" "valid_event_type e" "valid_evidence v"
  by (simp_all add: valid_artifact_type_def valid_artifact_state_def valid_event_type_def
      valid_evidence_def less_eq_evidence_level_def)

definition artifact_type_name :: "artifact_type \<Rightarrow> string" where
  "artifact_type_name t = (case t of
      SafeAtlas \<Rightarrow> ''safe_atlas'' | RegionDatabase \<Rightarrow> ''region_database''
    | SafeCorridor \<Rightarrow> ''safe_corridor'' | TrajectoryAudit \<Rightarrow> ''trajectory_audit''
    | PolicyFeedback \<Rightarrow> ''policy_feedback'' | RuntimeTrace \<Rightarrow> ''runtime_trace''
    | FleetSchedule \<Rightarrow> ''fleet_schedule'')"

definition artifact_state_name :: "artifact_state \<Rightarrow> string" where
  "artifact_state_name s = (case s of
      Active \<Rightarrow> ''active'' | Stale \<Rightarrow> ''stale'' | Quarantined \<Rightarrow> ''quarantined'' | Retired \<Rightarrow> ''retired'')"

definition event_type_name :: "event_type \<Rightarrow> string" where
  "event_type_name e = (case e of
      Registered \<Rightarrow> ''registered'' | StateTransition \<Rightarrow> ''state_transition''
    | ReuseRecorded \<Rightarrow> ''reuse_recorded'' | SceneInvalidated \<Rightarrow> ''scene_invalidated'')"

definition reuse_disposition_name :: "reuse_disposition \<Rightarrow> string" where
  "reuse_disposition_name d = (case d of
      Direct \<Rightarrow> ''direct'' | RequiresRevalidation \<Rightarrow> ''requires_revalidation'' | Ineligible \<Rightarrow> ''ineligible'')"

section \<open>Records\<close>

record artifact_input =
  in_type :: artifact_type
  in_deployment :: string
  in_robot :: string
  in_scene :: string
  in_task :: string
  in_content :: string
  in_locator :: string
  in_evidence :: evidence_level
  in_tags :: "string list"

record memory_artifact =
  art_id :: string
  art_type :: artifact_type
  art_state :: artifact_state
  art_deployment :: string
  art_robot :: string
  art_scene :: string
  art_task :: string
  art_content :: string
  art_locator :: string
  art_evidence :: evidence_level
  art_tags :: "string list"
  art_generation :: u64
  art_sequence :: u64

record memory_event =
  ev_id :: string
  ev_sequence :: u64
  ev_type :: event_type
  ev_artifact :: string
  ev_previous :: artifact_state
  ev_current :: artifact_state
  ev_task :: string
  ev_detail :: string

record reuse_query =
  q_deployment :: string
  q_robot :: string
  q_scene :: string
  q_task :: string
  q_type :: "artifact_type option"
  q_evidence :: evidence_level
  q_tags :: "string list"
  q_same_task :: bool
  q_revalidation :: bool
  q_maximum :: nat

record reuse_candidate =
  cand_artifact :: memory_artifact
  cand_disposition :: reuse_disposition
  cand_cross_task :: bool
  cand_reason :: string

record safety_memory =
  artifacts :: "memory_artifact list"
  events :: "memory_event list"
  next_sequence :: u64

definition empty_memory :: safety_memory where
  "empty_memory = \<lparr>artifacts = [], events = [], next_sequence = 1\<rparr>"

section \<open>Validation of the parts\<close>

definition kMaximumIdentifierBytes :: nat where "kMaximumIdentifierBytes = 256"
definition kMaximumLocatorBytes :: nat where "kMaximumLocatorBytes = 4096"
definition kMaximumDetailBytes :: nat where "kMaximumDetailBytes = 4096"
definition kMaximumTags :: nat where "kMaximumTags = 64"
definition kMaximumTagBytes :: nat where "kMaximumTagBytes = 128"

definition valid_identifier :: "string \<Rightarrow> bool" where
  "valid_identifier v \<longleftrightarrow> v \<noteq> [] \<and> length v \<le> kMaximumIdentifierBytes \<and> \<not> contains_control_character v"

definition bad_detail :: "string \<Rightarrow> bool" where
  "bad_detail d \<longleftrightarrow> d = [] \<or> length d > kMaximumDetailBytes \<or> contains_control_character d"

definition normalize_tags :: "string list \<Rightarrow> string list result" where
  "normalize_tags tags =
     (if length tags > kMaximumTags
      then failure ResourceLimit ''memory artifact has too many tags'' []
      else if list_ex (\<lambda>t. t = [] \<or> length t > kMaximumTagBytes \<or> contains_control_character t) tags
      then failure InvalidArgument ''memory artifact tag is invalid'' []
      else Inr (sort_unique tags))"

definition artifact_identity_json :: "memory_artifact \<Rightarrow> json" where
  "artifact_identity_json a = json_object
     [(''content_digest'', JStr (art_content a)), (''deployment_id'', JStr (art_deployment a)),
      (''evidence'', json_int (evidence_code (art_evidence a))), (''locator'', JStr (art_locator a)),
      (''robot_digest'', JStr (art_robot a)), (''scene_digest'', JStr (art_scene a)),
      (''tags'', JArr (map JStr (art_tags a))), (''task_id'', JStr (art_task a)),
      (''type'', json_int (artifact_type_code (art_type a)))]"

definition event_identity_json :: "memory_event \<Rightarrow> json" where
  "event_identity_json e = json_object
     [(''artifact_id'', JStr (ev_artifact e)),
      (''current_state'', json_int (artifact_state_code (ev_current e))),
      (''detail'', JStr (ev_detail e)),
      (''previous_state'', json_int (artifact_state_code (ev_previous e))),
      (''sequence'', JStr (to_string (ev_sequence e))),
      (''task_id'', JStr (ev_task e)),
      (''type'', json_int (event_type_code (ev_type e)))]"

definition memory_artifact_identity :: "memory_artifact \<Rightarrow> string" where
  "memory_artifact_identity a = sha256 (canonical (artifact_identity_json a))"

definition memory_event_identity :: "memory_event \<Rightarrow> string" where
  "memory_event_identity e = sha256 (canonical (event_identity_json e))"

definition validate_memory_artifact :: "memory_artifact \<Rightarrow> unit result" where
  "validate_memory_artifact a =
     rbind (normalize_tags (art_tags a)) (\<lambda>tags.
       if tags \<noteq> art_tags a \<or> \<not> valid_sha256 (art_id a) \<or> \<not> valid_artifact_type (art_type a) \<or>
          \<not> valid_artifact_state (art_state a) \<or> \<not> valid_identifier (art_deployment a) \<or>
          \<not> valid_sha256 (art_robot a) \<or> \<not> valid_sha256 (art_scene a) \<or>
          \<not> valid_identifier (art_task a) \<or> \<not> valid_sha256 (art_content a) \<or>
          art_locator a = [] \<or> length (art_locator a) > kMaximumLocatorBytes \<or>
          contains_control_character (art_locator a) \<or> \<not> valid_evidence (art_evidence a) \<or>
          art_generation a = 0 \<or> art_sequence a = 0
       then failure InvalidArgument ''memory artifact is invalid'' (art_id a)
       else if memory_artifact_identity a \<noteq> art_id a
       then failure IdentityMismatch ''memory artifact identity does not match its content'' (art_id a)
       else Inr ())"

definition changes_state :: "event_type \<Rightarrow> bool" where
  "changes_state t \<longleftrightarrow> t = StateTransition \<or> t = SceneInvalidated"

definition validate_memory_event :: "memory_event \<Rightarrow> unit result" where
  "validate_memory_event e =
     (if \<not> valid_sha256 (ev_id e) \<or> ev_sequence e = 0 \<or> \<not> valid_event_type (ev_type e) \<or>
         \<not> valid_sha256 (ev_artifact e) \<or> \<not> valid_artifact_state (ev_previous e) \<or>
         \<not> valid_artifact_state (ev_current e) \<or> \<not> valid_identifier (ev_task e) \<or> bad_detail (ev_detail e)
      then failure InvalidArgument ''memory event is invalid'' (ev_id e)
      else if (changes_state (ev_type e) \<and> ev_previous e = ev_current e) \<or>
              (\<not> changes_state (ev_type e) \<and> ev_previous e \<noteq> ev_current e)
      then failure InvalidArgument ''memory event state transition is inconsistent'' (ev_id e)
      else if memory_event_identity e \<noteq> ev_id e
      then failure IdentityMismatch ''memory event identity does not match its content'' (ev_id e)
      else Inr ())"

definition transition_allowed :: "artifact_state \<Rightarrow> artifact_state \<Rightarrow> bool" where
  "transition_allowed from_state to =
     (if from_state = Active then to = Stale \<or> to = Quarantined \<or> to = Retired
      else if from_state = Stale then to = Quarantined \<or> to = Retired
      else from_state = Quarantined \<and> to = Retired)"

section \<open>Operations\<close>

definition find_artifact :: "memory_artifact list \<Rightarrow> string \<Rightarrow> memory_artifact option" where
  "find_artifact arts i = lookup_sorted art_id arts i"

definition make_event ::
  "u64 \<Rightarrow> event_type \<Rightarrow> memory_artifact \<Rightarrow> artifact_state \<Rightarrow> string \<Rightarrow> string \<Rightarrow> memory_event" where
  "make_event seq t a previous task detail =
     (let e = \<lparr>ev_id = [], ev_sequence = seq, ev_type = t, ev_artifact = art_id a,
               ev_previous = previous, ev_current = art_state a, ev_task = task, ev_detail = detail\<rparr>
      in e\<lparr>ev_id := memory_event_identity e\<rparr>)"

definition new_artifact :: "artifact_input \<Rightarrow> string list \<Rightarrow> u64 \<Rightarrow> memory_artifact" where
  "new_artifact i tags seq =
     (let a = \<lparr>art_id = [], art_type = in_type i, art_state = Active, art_deployment = in_deployment i,
               art_robot = in_robot i, art_scene = in_scene i, art_task = in_task i,
               art_content = in_content i, art_locator = in_locator i, art_evidence = in_evidence i,
               art_tags = tags, art_generation = 1, art_sequence = seq\<rparr>
      in a\<lparr>art_id := memory_artifact_identity a\<rparr>)"

definition register_artifact ::
  "safety_memory \<Rightarrow> artifact_input \<Rightarrow> nat \<Rightarrow> nat \<Rightarrow> (safety_memory \<times> memory_artifact) result" where
  "register_artifact m i maximum_artifacts maximum_events =
     (if maximum_artifacts = 0 \<or> maximum_events = 0
      then failure InvalidArgument ''safety memory limits must be positive'' []
      else rbind (normalize_tags (in_tags i)) (\<lambda>tags.
        let a = new_artifact i tags (next_sequence m)
        in rbind (validate_memory_artifact a) (\<lambda>_.
          case find_artifact (artifacts m) (art_id a) of
            Some present \<Rightarrow> Inr (m, present)
          | None \<Rightarrow>
              (if length (artifacts m) \<ge> maximum_artifacts \<or> length (events m) \<ge> maximum_events
               then failure ResourceLimit ''safety memory registration exceeds configured limits'' []
               else Inr (m\<lparr>artifacts := insert_at (lower_bound art_id (artifacts m) (art_id a)) a (artifacts m),
                           events := events m @ [make_event (next_sequence m) Registered a Active
                                                   (art_task a) ''registered''],
                           next_sequence := next_sequence m + 1\<rparr>, a)))))"

definition transition ::
  "safety_memory \<Rightarrow> string \<Rightarrow> u64 \<Rightarrow> artifact_state \<Rightarrow> string \<Rightarrow> nat \<Rightarrow> (safety_memory \<times> memory_artifact) result" where
  "transition m i expected_generation target detail maximum_events =
     (if \<not> valid_sha256 i \<or> \<not> valid_artifact_state target \<or> bad_detail detail \<or> maximum_events = 0
      then failure InvalidArgument ''memory transition request is invalid'' []
      else (case find_artifact (artifacts m) i of
          None \<Rightarrow> failure InvalidArgument ''memory artifact does not exist'' i
        | Some a \<Rightarrow>
            (if art_generation a \<noteq> expected_generation
             then failure IdentityMismatch ''memory artifact generation does not match'' i
             else if \<not> transition_allowed (art_state a) target
             then failure InvalidArgument ''memory artifact state transition is not allowed'' i
             else if length (events m) \<ge> maximum_events
             then failure ResourceLimit ''safety memory event limit reached'' []
             else (let a' = a\<lparr>art_state := target, art_generation := art_generation a + 1\<rparr>
                   in Inr (m\<lparr>artifacts := (artifacts m)[lower_bound art_id (artifacts m) i := a'],
                             events := events m @ [make_event (next_sequence m) StateTransition a'
                                                     (art_state a) (art_task a) detail],
                             next_sequence := next_sequence m + 1\<rparr>, a')))))"

definition scene_matches :: "string \<Rightarrow> string \<Rightarrow> memory_artifact \<Rightarrow> bool" where
  "scene_matches deployment scene a \<longleftrightarrow>
     art_state a = Active \<and> art_deployment a = deployment \<and> art_scene a = scene"

definition invalidated :: "memory_artifact \<Rightarrow> memory_artifact" where
  "invalidated a = a\<lparr>art_state := Stale, art_generation := art_generation a + 1\<rparr>"

text \<open>The loop of \<open>invalidate_scene\<close> over the artifacts: new artifacts, new events, next sequence.\<close>

fun invalidate_loop ::
  "string \<Rightarrow> string \<Rightarrow> string \<Rightarrow> memory_artifact list \<Rightarrow> u64 \<Rightarrow>
     memory_artifact list \<times> memory_event list \<times> u64" where
  "invalidate_loop deployment scene detail [] seq = ([], [], seq)"
| "invalidate_loop deployment scene detail (a # arts) seq =
     (if \<not> scene_matches deployment scene a
      then (let (arts', evs, seq') = invalidate_loop deployment scene detail arts seq in (a # arts', evs, seq'))
      else (let a' = invalidated a;
                e = make_event seq SceneInvalidated a' (art_state a) (art_task a) detail;
                (arts', evs, seq') = invalidate_loop deployment scene detail arts (seq + 1)
            in (a' # arts', e # evs, seq')))"

definition invalidate_scene ::
  "safety_memory \<Rightarrow> string \<Rightarrow> string \<Rightarrow> string \<Rightarrow> nat \<Rightarrow> (safety_memory \<times> nat) result" where
  "invalidate_scene m deployment scene detail maximum_events =
     (if \<not> valid_identifier deployment \<or> \<not> valid_sha256 scene \<or> bad_detail detail \<or> maximum_events = 0
      then failure InvalidArgument ''scene invalidation request is invalid'' []
      else (let count = length (filter (scene_matches deployment scene) (artifacts m))
            in if count > maximum_events - min maximum_events (length (events m))
               then failure ResourceLimit ''scene invalidation exceeds event limit'' []
               else (let (arts, evs, seq) =
                            invalidate_loop deployment scene detail (artifacts m) (next_sequence m)
                     in Inr (m\<lparr>artifacts := arts, events := events m @ evs, next_sequence := seq\<rparr>, count))))"

definition artifact_lookup :: "safety_memory \<Rightarrow> string \<Rightarrow> memory_artifact option result" where
  "artifact_lookup m i =
     (if \<not> valid_sha256 i then failure InvalidArgument ''memory artifact ID is invalid'' []
      else Inr (find_artifact (artifacts m) i))"

definition validate_reuse_query :: "reuse_query \<Rightarrow> unit result" where
  "validate_reuse_query q =
     (if \<not> valid_identifier (q_deployment q) \<or> \<not> valid_sha256 (q_robot q) \<or> \<not> valid_sha256 (q_scene q) \<or>
         \<not> valid_identifier (q_task q) \<or> \<not> valid_evidence (q_evidence q) \<or> q_maximum q = 0 \<or>
         (case q_type q of None \<Rightarrow> False | Some t \<Rightarrow> \<not> valid_artifact_type t)
      then failure InvalidArgument ''memory reuse query is invalid'' []
      else rbind (normalize_tags (q_tags q)) (\<lambda>_. Inr ()))"

definition assess :: "memory_artifact \<Rightarrow> reuse_query \<Rightarrow> reuse_candidate" where
  "assess a q =
     (let cross = art_task a \<noteq> q_task q;
          candidate = (\<lambda>d r. \<lparr>cand_artifact = a, cand_disposition = d, cand_cross_task = cross, cand_reason = r\<rparr>)
      in if art_deployment a \<noteq> q_deployment q then candidate Ineligible ''deployment identity does not match''
         else if art_robot a \<noteq> q_robot q then candidate Ineligible ''robot identity does not match''
         else if (case q_type q of None \<Rightarrow> False | Some t \<Rightarrow> art_type a \<noteq> t)
           then candidate Ineligible ''artifact type does not match''
         else if \<not> q_same_task q \<and> \<not> cross then candidate Ineligible ''same-task artifacts are excluded''
         else if art_evidence a < q_evidence q
           then candidate Ineligible ''artifact evidence is below the requested minimum''
         else if \<not> std_includes (art_tags a) (sort_unique (q_tags q))
           then candidate Ineligible ''artifact tags do not satisfy the query''
         else if art_state a = Quarantined \<or> art_state a = Retired
           then candidate Ineligible ''artifact lifecycle state forbids reuse''
         else if art_state a = Stale then candidate RequiresRevalidation ''artifact is stale''
         else if art_scene a \<noteq> q_scene q then candidate RequiresRevalidation ''scene identity changed''
         else candidate Direct (if cross then ''exact identities permit cross-task reuse''
                                else ''exact identities permit reuse''))"

definition assess_reuse :: "safety_memory \<Rightarrow> string \<Rightarrow> reuse_query \<Rightarrow> reuse_candidate result" where
  "assess_reuse m i q =
     rbind (validate_reuse_query q) (\<lambda>_.
     rbind (artifact_lookup m i) (\<lambda>found.
       case found of
         None \<Rightarrow> failure InvalidArgument ''memory artifact does not exist'' i
       | Some a \<Rightarrow> Inr (assess a q)))"

definition reusable :: "reuse_query \<Rightarrow> reuse_candidate \<Rightarrow> bool" where
  "reusable q c \<longleftrightarrow> cand_disposition c = Direct \<or>
     (q_revalidation q \<and> cand_disposition c = RequiresRevalidation)"

definition candidate_less :: "reuse_candidate \<Rightarrow> reuse_candidate \<Rightarrow> bool" where
  "candidate_less c d =
     (if cand_disposition c \<noteq> cand_disposition d then cand_disposition c < cand_disposition d
      else if cand_cross_task c \<noteq> cand_cross_task d then \<not> cand_cross_task c
      else if art_evidence (cand_artifact c) \<noteq> art_evidence (cand_artifact d)
        then art_evidence (cand_artifact d) < art_evidence (cand_artifact c)
      else if art_task (cand_artifact c) \<noteq> art_task (cand_artifact d)
        then art_task (cand_artifact c) < art_task (cand_artifact d)
      else art_id (cand_artifact c) < art_id (cand_artifact d))"

definition query_reuse :: "safety_memory \<Rightarrow> reuse_query \<Rightarrow> reuse_candidate list result" where
  "query_reuse m q =
     rbind (validate_reuse_query q) (\<lambda>_.
       let found = filter (reusable q) (map (\<lambda>a. assess a q) (artifacts m))
       in if length found > q_maximum q
          then failure ResourceLimit ''memory reuse result count exceeds configured limit'' []
          else Inr (sort_by candidate_less found))"

definition record_reuse :: "safety_memory \<Rightarrow> string \<Rightarrow> reuse_query \<Rightarrow> string \<Rightarrow> nat \<Rightarrow> safety_memory result" where
  "record_reuse m i q detail maximum_events =
     rbind (assess_reuse m i q) (\<lambda>c.
       if cand_disposition c \<noteq> Direct
       then failure IdentityMismatch ''only direct-reuse artifacts can be recorded'' i
       else if bad_detail detail \<or> maximum_events = 0
       then failure InvalidArgument ''reuse audit detail is invalid'' []
       else if length (events m) \<ge> maximum_events
       then failure ResourceLimit ''safety memory event limit reached'' []
       else (let source = cand_artifact c
             in Inr (m\<lparr>events := events m @ [make_event (next_sequence m) ReuseRecorded source
                                               (art_state source) (q_task q) detail],
                       next_sequence := next_sequence m + 1\<rparr>)))"

record memory_summary =
  sum_artifacts :: nat
  sum_active :: nat
  sum_stale :: nat
  sum_quarantined :: nat
  sum_retired :: nat
  sum_events :: nat
  sum_reuses :: nat

definition state_count :: "artifact_state \<Rightarrow> memory_artifact list \<Rightarrow> nat" where
  "state_count s arts = length (filter (\<lambda>a. art_state a = s) arts)"

definition memory_summary_of :: "safety_memory \<Rightarrow> memory_summary" where
  "memory_summary_of m =
     \<lparr>sum_artifacts = length (artifacts m), sum_active = state_count Active (artifacts m),
      sum_stale = state_count Stale (artifacts m), sum_quarantined = state_count Quarantined (artifacts m),
      sum_retired = state_count Retired (artifacts m), sum_events = length (events m),
      sum_reuses = length (filter (\<lambda>e. ev_type e = ReuseRecorded) (events m))\<rparr>"

section \<open>The replay check\<close>

text \<open>
  The two maps of \<open>SafetyMemory::valid\<close> (state and generation by artifact) always have the
  same keys; they are one association list of pairs here.
\<close>

type_synonym replay = "(string \<times> artifact_state \<times> u64) list"

fun ids_sorted :: "string \<Rightarrow> memory_artifact list \<Rightarrow> bool" where
  "ids_sorted previous [] = True"
| "ids_sorted previous (a # arts) =
     (validate_memory_artifact a = Inr () \<and> \<not> (previous \<noteq> [] \<and> art_id a \<le> previous) \<and>
      ids_sorted (art_id a) arts)"

definition replay_event :: "memory_artifact list \<Rightarrow> replay \<Rightarrow> memory_event \<Rightarrow> replay option" where
  "replay_event arts r e =
     (case find_artifact arts (ev_artifact e) of
        None \<Rightarrow> None
      | Some stored \<Rightarrow>
          (if ev_type e = Registered
           then (if map_of r (ev_artifact e) \<noteq> None \<or> ev_previous e \<noteq> Active \<or> ev_current e \<noteq> Active \<or>
                    art_sequence stored \<noteq> ev_sequence e \<or> ev_task e \<noteq> art_task stored \<or>
                    ev_detail e \<noteq> ''registered''
                 then None else Some (AList.update (ev_artifact e) (Active, 1) r))
           else (case map_of r (ev_artifact e) of
               None \<Rightarrow> None
             | Some (s, g) \<Rightarrow>
                 (if s \<noteq> ev_previous e then None
                  else if ev_type e = ReuseRecorded then (if ev_current e \<noteq> s then None else Some r)
                  else if ev_task e \<noteq> art_task stored \<or> \<not> transition_allowed s (ev_current e) then None
                  else Some (AList.update (ev_artifact e) (ev_current e, g + 1) r)))))"

fun replay_events :: "memory_artifact list \<Rightarrow> memory_event list \<Rightarrow> u64 \<Rightarrow> string list \<Rightarrow> replay \<Rightarrow>
    (u64 \<times> replay) option" where
  "replay_events arts [] expected ids r = Some (expected, r)"
| "replay_events arts (e # es) expected ids r =
     (if validate_memory_event e \<noteq> Inr () \<or> ev_sequence e \<noteq> expected \<or> ev_id e \<in> set ids then None
      else (case replay_event arts r e of
          None \<Rightarrow> None
        | Some r' \<Rightarrow> replay_events arts es (expected + 1) (ev_id e # ids) r'))"

definition memory_valid :: "safety_memory \<Rightarrow> bool" where
  "memory_valid m \<longleftrightarrow>
     \<not> (next_sequence m = 0 \<or> length (artifacts m) > 1000000 \<or> length (events m) > 4000000) \<and>
     ids_sorted [] (artifacts m) \<and>
     (case replay_events (artifacts m) (events m) 1 [] [] of
        None \<Rightarrow> False
      | Some (expected, r) \<Rightarrow>
          next_sequence m = expected \<and> length r = length (artifacts m) \<and>
          list_all (\<lambda>a. map_of r (art_id a) = Some (art_state a, art_generation a)) (artifacts m))"

definition safety_memory_identity_json :: "safety_memory \<Rightarrow> json" where
  "safety_memory_identity_json m = json_object
     [(''artifacts'', JArr (map (\<lambda>a. json_object
          [(''generation'', JStr (to_string (art_generation a))), (''id'', JStr (art_id a)),
           (''registered_sequence'', JStr (to_string (art_sequence a))),
           (''state'', json_int (artifact_state_code (art_state a)))]) (artifacts m))),
      (''events'', JArr (map (\<lambda>e. JStr (ev_id e)) (events m))),
      (''format'', JStr ''rbfsafe-safety-memory-identity''),
      (''next_sequence'', JStr (to_string (next_sequence m))),
      (''schema'', json_int 1)]"

definition memory_identity :: "safety_memory \<Rightarrow> string" where
  "memory_identity m = sha256 (canonical (safety_memory_identity_json m))"

end
