(* ===== verification/Memory_Laws.thy ===== *)
theory Memory_Laws
  imports Memory "HOL-Library.Product_Lexorder"
begin

text \<open>
  The laws of the safety memory: what the identities bind, how an artifact moves through
  its lifecycle, and that every accepted operation keeps the replay check true and only
  appends to the event log.
\<close>

section \<open>What the identities bind\<close>

lemma json_object_sorted: "sorted_wrt (<) (map fst kvs) \<Longrightarrow> json_object kvs = JObj kvs"
  by (simp add: json_object_def mk_object_sorted)

lemma artifact_keys: "sorted_wrt (<) [''content_digest'', ''deployment_id'', ''evidence'', ''locator'',
    ''robot_digest'', ''scene_digest'', ''tags'', ''task_id'', ''type'']"
  by code_simp

lemma event_keys: "sorted_wrt (<) [''artifact_id'', ''current_state'', ''detail'', ''previous_state'',
    ''sequence'', ''task_id'', ''type'']"
  by code_simp

lemma artifact_identity_json_eq: "artifact_identity_json a = JObj
     [(''content_digest'', JStr (art_content a)), (''deployment_id'', JStr (art_deployment a)),
      (''evidence'', json_int (evidence_code (art_evidence a))), (''locator'', JStr (art_locator a)),
      (''robot_digest'', JStr (art_robot a)), (''scene_digest'', JStr (art_scene a)),
      (''tags'', JArr (map JStr (art_tags a))), (''task_id'', JStr (art_task a)),
      (''type'', json_int (artifact_type_code (art_type a)))]"
  unfolding artifact_identity_json_def
  by (rule json_object_sorted) (simp only: list.map fst_conv artifact_keys)

lemma event_identity_json_eq: "event_identity_json e = JObj
     [(''artifact_id'', JStr (ev_artifact e)),
      (''current_state'', json_int (artifact_state_code (ev_current e))),
      (''detail'', JStr (ev_detail e)),
      (''previous_state'', json_int (artifact_state_code (ev_previous e))),
      (''sequence'', JStr (to_string (ev_sequence e))),
      (''task_id'', JStr (ev_task e)),
      (''type'', json_int (event_type_code (ev_type e)))]"
  unfolding event_identity_json_def
  by (rule json_object_sorted) (simp only: list.map fst_conv event_keys)

lemma storable_event: "storable (event_identity_json e)"
  unfolding event_identity_json_eq storable_def json_ok.simps
  by (simp only: list.map fst_conv event_keys) simp

lemma items_ok_strings [simp]: "items_ok h (map JStr xs)"
  by (simp add: items_ok_iff)

lemma storable_artifact: "length (art_tags a) \<le> kMaximumTags \<Longrightarrow> storable (artifact_identity_json a)"
  unfolding artifact_identity_json_eq storable_def json_ok.simps
  by (simp only: list.map fst_conv artifact_keys) (simp add: kMaximumTags_def)

interpretation event_identity: content_identity memory_event_identity event_identity_json "\<lambda>_. True"
  by unfold_locales (simp_all add: memory_event_identity_def storable_event)

interpretation artifact_identity: content_identity memory_artifact_identity artifact_identity_json
    "\<lambda>a. length (art_tags a) \<le> kMaximumTags"
  by unfold_locales (simp_all add: memory_artifact_identity_def storable_artifact)

lemma map_JStr_inj: "map JStr xs = map JStr ys \<Longrightarrow> xs = ys"
  by (metis inj_map_eq_map injI json.inject(3))

lemma event_content_inj:
  "event_identity_json e = event_identity_json f \<longleftrightarrow>
     ev_artifact e = ev_artifact f \<and> ev_current e = ev_current f \<and> ev_detail e = ev_detail f \<and>
     ev_previous e = ev_previous f \<and> ev_sequence e = ev_sequence f \<and> ev_task e = ev_task f \<and>
     ev_type e = ev_type f"
  by (auto simp: event_identity_json_eq json_int_inj)

lemma artifact_content_inj:
  "artifact_identity_json a = artifact_identity_json b \<longleftrightarrow>
     art_content a = art_content b \<and> art_deployment a = art_deployment b \<and> art_evidence a = art_evidence b \<and>
     art_locator a = art_locator b \<and> art_robot a = art_robot b \<and> art_scene a = art_scene b \<and>
     art_tags a = art_tags b \<and> art_task a = art_task b \<and> art_type a = art_type b"
  by (auto simp: artifact_identity_json_eq json_int_inj dest: map_JStr_inj)

lemma event_identity_id [simp]: "memory_event_identity (e\<lparr>ev_id := x\<rparr>) = memory_event_identity e"
  by (simp add: memory_event_identity_def event_identity_json_def)

lemma artifact_identity_update [simp]:
  "memory_artifact_identity (a\<lparr>art_id := x\<rparr>) = memory_artifact_identity a"
  "memory_artifact_identity (a\<lparr>art_state := s\<rparr>) = memory_artifact_identity a"
  "memory_artifact_identity (a\<lparr>art_generation := g\<rparr>) = memory_artifact_identity a"
  by (simp_all add: memory_artifact_identity_def artifact_identity_json_def)

section \<open>Tags and parts\<close>

lemma normalize_tags_Inr:
  "normalize_tags ts = Inr us \<Longrightarrow> us = sort_unique ts \<and> length ts \<le> kMaximumTags"
  by (auto simp: normalize_tags_def split: if_splits)

lemma normalize_tags_idem: "normalize_tags ts = Inr us \<Longrightarrow> normalize_tags us = Inr us"
  using sort_unique_id [OF sort_unique_sorted [of ts]] length_sort_unique [of ts]
  by (auto simp: normalize_tags_def list_ex_iff split: if_splits)

lemma make_event_simps [simp]:
  "ev_sequence (make_event s t a p k d) = s" "ev_type (make_event s t a p k d) = t"
  "ev_artifact (make_event s t a p k d) = art_id a" "ev_previous (make_event s t a p k d) = p"
  "ev_current (make_event s t a p k d) = art_state a" "ev_task (make_event s t a p k d) = k"
  "ev_detail (make_event s t a p k d) = d"
  "memory_event_identity (make_event s t a p k d) = ev_id (make_event s t a p k d)"
  by (simp_all add: make_event_def Let_def) (simp add: memory_event_identity_def event_identity_json_def)

lemma valid_make_event:
  "validate_memory_event (make_event s t a p k d) = Inr () \<longleftrightarrow>
     s \<noteq> 0 \<and> valid_sha256 (art_id a) \<and> valid_identifier k \<and> \<not> bad_detail d \<and>
     (changes_state t \<longleftrightarrow> p \<noteq> art_state a)"
proof -
  have "valid_sha256 (ev_id (make_event s t a p k d))"
    by (metis make_event_simps(8) event_identity.identity_valid)
  then show ?thesis by (auto simp: validate_memory_event_def)
qed

lemma valid_artifactD:
  assumes "validate_memory_artifact a = Inr ()"
  shows "valid_sha256 (art_id a)" "valid_identifier (art_task a)" "valid_identifier (art_deployment a)"
    "art_generation a \<noteq> 0" "memory_artifact_identity a = art_id a" "sorted_wrt (<) (art_tags a)"
    "length (art_tags a) \<le> kMaximumTags"
proof -
  obtain tags where t: "normalize_tags (art_tags a) = Inr tags"
    using assms by (auto simp: validate_memory_artifact_def rbind_eq_Inr)
  with assms have "tags = art_tags a" by (auto simp: validate_memory_artifact_def split: if_splits)
  with normalize_tags_Inr [OF t] sort_unique_sorted [of "art_tags a"]
  show "sorted_wrt (<) (art_tags a)" "length (art_tags a) \<le> kMaximumTags" by simp_all
qed (use assms in \<open>auto simp: validate_memory_artifact_def rbind_eq_Inr split: if_splits\<close>)

lemma valid_artifact_update:
  "validate_memory_artifact a = Inr () \<Longrightarrow> g \<noteq> 0 \<Longrightarrow>
     validate_memory_artifact (a\<lparr>art_state := s, art_generation := g\<rparr>) = Inr ()"
  by (auto simp: validate_memory_artifact_def rbind_eq_Inr split: if_splits)

section \<open>The lifecycle\<close>

lemma transition_allowed_code:
  "transition_allowed s t \<longleftrightarrow> artifact_state_code s < artifact_state_code t"
  by (cases s; cases t) (simp_all add: transition_allowed_def)

lemma transition_allowed_neq: "transition_allowed s t \<Longrightarrow> s \<noteq> t"
  by (auto simp: transition_allowed_code)

section \<open>Sorted artifact lists\<close>

lemma ids_sorted_iff:
  "ids_sorted previous arts \<longleftrightarrow> (\<forall>a\<in>set arts. validate_memory_artifact a = Inr ()) \<and>
     sorted_wrt (\<lambda>a b. art_id a < art_id b) arts \<and> (previous \<noteq> [] \<longrightarrow> (\<forall>a\<in>set arts. previous < art_id a))"
proof (induction arts arbitrary: previous)
  case (Cons a arts)
  have "validate_memory_artifact a = Inr () \<Longrightarrow> art_id a \<noteq> []"
    using valid_artifactD(1) [of a] valid_sha256_nonempty by metis
  then show ?case by (auto simp: Cons.IH not_le dest: order.strict_trans)
qed simp

definition by_id :: "memory_artifact list \<Rightarrow> bool" where
  "by_id arts \<longleftrightarrow> sorted_wrt (\<lambda>a b. art_id a < art_id b) arts"

lemma find_artifact_Some: "by_id arts \<Longrightarrow> find_artifact arts i = Some a \<longleftrightarrow> a \<in> set arts \<and> art_id a = i"
  unfolding by_id_def find_artifact_def by (rule lookup_sorted_Some)

lemma find_artifact_None: "by_id arts \<Longrightarrow> find_artifact arts i = None \<longleftrightarrow> (\<forall>a\<in>set arts. art_id a \<noteq> i)"
  unfolding by_id_def find_artifact_def by (rule lookup_sorted_None)

lemma find_artifact_position:
  "find_artifact arts i = Some a \<Longrightarrow>
     lower_bound art_id arts i < length arts \<and> arts ! lower_bound art_id arts i = a"
  by (auto simp: find_artifact_def lookup_sorted_def Let_def split: if_splits)

lemma by_id_inj: "by_id arts \<Longrightarrow> a \<in> set arts \<Longrightarrow> b \<in> set arts \<Longrightarrow> art_id a = art_id b \<Longrightarrow> a = b"
  using find_artifact_Some by (metis option.inject)

lemma by_id_distinct: "by_id arts \<Longrightarrow> distinct (map art_id arts)"
proof -
  assume "by_id arts"
  then have "sorted_wrt (<) (map art_id arts)" by (simp add: by_id_def sorted_wrt_map)
  then show ?thesis by (simp add: strict_sorted_iff)
qed

lemma by_id_update:
  assumes "by_id (xs @ a # ys)" "art_id a' = art_id a"
  shows "by_id (xs @ a' # ys)"
  using assms by (auto simp: by_id_def sorted_wrt_append)

section \<open>Replay\<close>

lemma replay_events_append:
  "replay_events arts (es @ [e]) x ids r =
     (case replay_events arts es x ids r of None \<Rightarrow> None
      | Some (x', r') \<Rightarrow>
          (if validate_memory_event e \<noteq> Inr () \<or> ev_sequence e \<noteq> x' \<or> ev_id e \<in> set ids \<union> ev_id ` set es
           then None
           else (case replay_event arts r' e of None \<Rightarrow> None | Some r'' \<Rightarrow> Some (x' + 1, r''))))"
  by (induction es arbitrary: x ids r) (auto split: option.splits)

lemma replay_events_next:
  "replay_events arts es x ids r = Some (x', r') \<Longrightarrow> x' = x + of_nat (length es)"
proof (induction es arbitrary: x ids r)
  case (Cons e es)
  then obtain r1 where "replay_events arts es (x + 1) (ev_id e # ids) r1 = Some (x', r')"
    by (auto split: if_splits option.splits)
  from Cons.IH [OF this] show ?case by simp
qed simp

lemma replay_events_sequence:
  "replay_events arts es x ids r = Some (x', r') \<Longrightarrow> k < length es \<Longrightarrow>
     ev_sequence (es ! k) = x + of_nat k \<and> ev_id (es ! k) = memory_event_identity (es ! k)"
proof (induction es arbitrary: x ids r k)
  case (Cons e es)
  then obtain r1 where e: "validate_memory_event e = Inr ()" "ev_sequence e = x"
      and r1: "replay_events arts es (x + 1) (ev_id e # ids) r1 = Some (x', r')"
    by (auto split: if_splits option.splits)
  show ?case
  proof (cases k)
    case 0
    with e show ?thesis by (auto simp: validate_memory_event_def split: if_splits)
  next
    case (Suc j)
    with Cons.IH [OF r1, of j] Cons.prems(2) show ?thesis by simp
  qed
qed simp

text \<open>The maps of the replay: distinct keys, and a generation bounded by the lifecycle rank.\<close>

definition replay_ok :: "replay \<Rightarrow> bool" where
  "replay_ok r \<longleftrightarrow> distinct (map fst r) \<and>
     (\<forall>i s g. map_of r i = Some (s, g) \<longrightarrow> 0 < unat g \<and> unat g \<le> 1 + artifact_state_code s)"

lemma unat_suc: "unat (g :: u64) \<le> 4 \<Longrightarrow> unat (g + 1) = unat g + 1"
  by (simp add: unat_word_ariths)

lemma replay_ok_event:
  assumes "replay_ok r" "replay_event arts r e = Some r'"
  shows "replay_ok r'"
proof -
  note split = assms(2) [unfolded replay_event_def]
  consider (reg) "r' = AList.update (ev_artifact e) (Active, 1) r" | (same) "r' = r"
    | (move) s g where "map_of r (ev_artifact e) = Some (s, g)" "transition_allowed s (ev_current e)"
        "r' = AList.update (ev_artifact e) (ev_current e, g + 1) r"
    using split by (auto split: option.splits if_splits)
  then show ?thesis
  proof cases
    case reg
    then show ?thesis using assms(1) by (auto simp: replay_ok_def distinct_update update_conv')
  next
    case move
    then have g: "0 < unat g" "unat g \<le> 1 + artifact_state_code s"
      using assms(1) by (auto simp: replay_ok_def)
    have "unat g \<le> 4" using g(2) artifact_state_code_le [of s] by linarith
    then have "unat (g + 1) = unat g + 1" by (rule unat_suc)
    then have "0 < unat (g + 1) \<and> unat (g + 1) \<le> 1 + artifact_state_code (ev_current e)"
      using g move(2) by (simp add: transition_allowed_code)
    then show ?thesis using assms(1) move(3) by (auto simp: replay_ok_def distinct_update update_conv')
  qed (use assms in simp)
qed

lemma replay_ok_events:
  "replay_events arts es x ids r = Some (x', r') \<Longrightarrow> replay_ok r \<Longrightarrow> replay_ok r'"
  by (induction es arbitrary: x ids r) (auto split: if_splits option.splits dest: replay_ok_event)

lemma replay_ok_Nil [simp]: "replay_ok []"
  by (simp add: replay_ok_def)

text \<open>The replay only looks at the task and the registration sequence of a stored artifact.\<close>

definition extends :: "memory_artifact list \<Rightarrow> memory_artifact list \<Rightarrow> bool" where
  "extends arts arts' \<longleftrightarrow> (\<forall>i a. find_artifact arts i = Some a \<longrightarrow>
     (\<exists>a'. find_artifact arts' i = Some a' \<and> art_task a' = art_task a \<and> art_sequence a' = art_sequence a))"

lemma replay_event_extends:
  assumes "extends arts arts'" "replay_event arts r e = Some r'"
  shows "replay_event arts' r e = Some r'"
proof -
  obtain a where a: "find_artifact arts (ev_artifact e) = Some a"
    using assms(2) by (auto simp: replay_event_def split: option.splits)
  then obtain a' where a': "find_artifact arts' (ev_artifact e) = Some a'" "art_task a' = art_task a"
      "art_sequence a' = art_sequence a"
    using assms(1) unfolding extends_def by blast
  have "replay_event arts' r e = replay_event arts r e"
    by (simp only: replay_event_def a a' option.case)
  with assms(2) show ?thesis by simp
qed

lemma replay_events_extends:
  "extends arts arts' \<Longrightarrow> replay_events arts es x ids r = Some y \<Longrightarrow> replay_events arts' es x ids r = Some y"
  by (induction es arbitrary: x ids r) (auto split: if_splits option.splits dest: replay_event_extends)

section \<open>The invariant\<close>

definition same_content :: "memory_event \<Rightarrow> memory_event \<Rightarrow> bool" where
  "same_content e f \<longleftrightarrow> sha256_collision (canonical (event_identity_json e)) (canonical (event_identity_json f))"

text \<open>Two recorded events whose different contents have the same SHA-256 digest.\<close>

definition events_collide :: "memory_event list \<Rightarrow> bool" where
  "events_collide es \<longleftrightarrow> list_ex (\<lambda>e. list_ex (same_content e) es) es"

lemma events_collide_mono: "events_collide es \<Longrightarrow> set es \<subseteq> set fs \<Longrightarrow> events_collide fs"
  unfolding events_collide_def list_ex_iff by blast

text \<open>The replay check without the size limits.\<close>

definition replays :: "safety_memory \<Rightarrow> replay \<Rightarrow> bool" where
  "replays m r \<longleftrightarrow> (\<forall>a\<in>set (artifacts m). validate_memory_artifact a = Inr ()) \<and> by_id (artifacts m) \<and>
     replay_events (artifacts m) (events m) 1 [] [] = Some (next_sequence m, r) \<and>
     length r = length (artifacts m) \<and>
     (\<forall>a\<in>set (artifacts m). map_of r (art_id a) = Some (art_state a, art_generation a))"

lemma memory_valid_iff:
  "memory_valid m \<longleftrightarrow> (\<exists>r. replays m r) \<and> next_sequence m \<noteq> 0 \<and>
     length (artifacts m) \<le> 1000000 \<and> length (events m) \<le> 4000000"
  by (auto simp: memory_valid_def replays_def ids_sorted_iff by_id_def list_all_iff split: option.splits)

lemma replays_ok: "replays m r \<Longrightarrow> replay_ok r"
  unfolding replays_def using replay_ok_events [OF _ replay_ok_Nil] by blast

lemma replays_next: "replays m r \<Longrightarrow> next_sequence m = 1 + of_nat (length (events m))"
  unfolding replays_def using replay_events_next by blast

lemma replays_keys:
  assumes "replays m r"
  shows "map_of r i \<noteq> None \<longleftrightarrow> i \<in> art_id ` set (artifacts m)"
proof -
  let ?ids = "art_id ` set (artifacts m)"
  have "distinct (map fst r)" using replays_ok [OF assms] by (simp add: replay_ok_def)
  then have "card (fst ` set r) = length r" using distinct_card by fastforce
  moreover have "distinct (map art_id (artifacts m))" using assms by (simp add: replays_def by_id_distinct)
  then have "card ?ids = length (artifacts m)" using distinct_card by fastforce
  moreover have "?ids \<subseteq> fst ` set r"
    using assms by (force simp: replays_def dest: map_of_SomeD)
  ultimately have "?ids = fst ` set r"
    using assms by (intro card_subset_eq) (simp_all add: replays_def)
  then show ?thesis by (simp add: map_of_eq_None_iff)
qed

text \<open>An event with the next sequence number is new, or collides with a recorded one.\<close>

lemma fresh_event:
  assumes "replays m r" "length (events m) < 2 ^ 32"
    and "ev_sequence e = next_sequence m" "ev_id e = memory_event_identity e"
    and "ev_id e \<in> ev_id ` set (events m)"
  shows "\<exists>f\<in>set (events m). same_content f e"
proof -
  obtain k where k: "k < length (events m)" "ev_id (events m ! k) = ev_id e"
    using assms(5) by (metis (mono_tags) imageE in_set_conv_nth)
  have re: "replay_events (artifacts m) (events m) 1 [] [] = Some (next_sequence m, r)"
    using assms(1) by (simp add: replays_def)
  note s = replay_events_sequence [OF re k(1)]
  have "(of_nat k :: u64) \<noteq> of_nat (length (events m))"
  proof -
    have "unat (of_nat k :: u64) = k" "unat (of_nat (length (events m)) :: u64) = length (events m)"
      using k(1) assms(2) by (simp_all add: unat_u64_of_nat)
    with k(1) show ?thesis by auto
  qed
  then have "ev_sequence (events m ! k) \<noteq> ev_sequence e"
    using s assms(3) replays_next [OF assms(1)] by simp
  then have "event_identity_json (events m ! k) \<noteq> event_identity_json e" by (auto simp: event_content_inj)
  moreover have "memory_event_identity (events m ! k) = memory_event_identity e" using s k(2) assms(4) by simp
  ultimately have "same_content (events m ! k) e"
    using event_identity.identity_binds [of "events m ! k" e] by (simp add: same_content_def)
  with k(1) show ?thesis by (meson nth_mem)
qed

lemma fresh_or_collide:
  assumes "replays m r" "length (events m) < 2 ^ 32"
    and "ev_sequence e = next_sequence m" "ev_id e = memory_event_identity e"
    and "\<not> events_collide (events m @ [e])"
  shows "ev_id e \<notin> ev_id ` set (events m)"
  using fresh_event [OF assms(1-4)] assms(5) by (auto simp: events_collide_def list_ex_iff)

text \<open>Appending one event: how the replay of a memory extends.\<close>

lemma replay_append:
  assumes "replays m r" "extends (artifacts m) arts"
    and "validate_memory_event e = Inr ()" "ev_sequence e = next_sequence m"
    and "ev_id e \<notin> ev_id ` set (events m)" "replay_event arts r e = Some r'"
  shows "replay_events arts (events m @ [e]) 1 [] [] = Some (next_sequence m + 1, r')"
proof -
  have "replay_events (artifacts m) (events m) 1 [] [] = Some (next_sequence m, r)"
    using assms(1) by (simp add: replays_def)
  then have "replay_events arts (events m) 1 [] [] = Some (next_sequence m, r)"
    by (rule replay_events_extends [OF assms(2)])
  with assms(3-6) show ?thesis by (simp add: replay_events_append)
qed

lemma extends_insert:
  assumes "by_id arts" "by_id arts'" "set arts \<subseteq> set arts'"
  shows "extends arts arts'"
  unfolding extends_def using assms by (metis find_artifact_Some subsetD)

lemma extends_update:
  assumes "by_id (xs @ a # ys)" "art_id a' = art_id a" "art_task a' = art_task a"
    "art_sequence a' = art_sequence a"
  shows "extends (xs @ a # ys) (xs @ a' # ys)"
  unfolding extends_def
proof (intro allI impI)
  fix i b assume "find_artifact (xs @ a # ys) i = Some b"
  then have b: "b \<in> set (xs @ a # ys)" "art_id b = i" by (simp_all add: find_artifact_Some [OF assms(1)])
  let ?b = "if b = a then a' else b"
  have "?b \<in> set (xs @ a' # ys)" "art_id ?b = i" using b assms(2) by auto
  then have "find_artifact (xs @ a' # ys) i = Some ?b"
    by (simp only: find_artifact_Some [OF by_id_update [OF assms(1,2)]])
  moreover have "art_task ?b = art_task b" "art_sequence ?b = art_sequence b" using assms(3,4) by auto
  ultimately show "\<exists>c. find_artifact (xs @ a' # ys) i = Some c \<and> art_task c = art_task b \<and>
      art_sequence c = art_sequence b" by blast
qed

section \<open>Every operation keeps the memory valid\<close>

lemma replay_count: "distinct (map fst (r :: replay)) \<Longrightarrow> map_of r i = None \<Longrightarrow>
    length (AList.update i v r) = Suc (length r)"
proof -
  assume "distinct (map fst r)" "map_of r i = None"
  moreover from this have "i \<notin> fst ` set r" by (simp add: map_of_eq_None_iff)
  then have "AList.update i v r = r @ [(i, v)]" by (induction r) auto
  ultimately show ?thesis by simp
qed

lemma replay_count_present: "map_of (r :: replay) i \<noteq> None \<Longrightarrow> length (AList.update i v r) = length r"
  by (induction r) (auto split: if_splits)

lemma next_nonzero: "length (events m) < 2 ^ 32 \<Longrightarrow> (1 :: u64) + of_nat (length (events m)) \<noteq> 0"
proof -
  assume "length (events m) < 2 ^ 32"
  then have "unat (of_nat (Suc (length (events m))) :: u64) = Suc (length (events m))"
    by (intro unat_u64_of_nat) simp
  then show ?thesis by (metis nat.simps(3) of_nat_Suc unat_0)
qed

text \<open>One state change: an artifact in place, with the event that records it.\<close>

lemma replays_change:
  assumes r: "replays m r" and arts: "artifacts m = xs @ a # ys"
    and t: "transition_allowed (art_state a) target" "changes_state t" "\<not> bad_detail detail"
    and a': "a' = a\<lparr>art_state := target, art_generation := art_generation a + 1\<rparr>"
    and e: "e = make_event (next_sequence m) t a' (art_state a) (art_task a) detail"
    and len: "length (events m) < 2 ^ 32" and fresh: "ev_id e \<notin> ev_id ` set (events m)"
  shows "\<exists>r'. replays (m\<lparr>artifacts := xs @ a' # ys, events := events m @ [e],
      next_sequence := next_sequence m + 1\<rparr>) r'"
proof -
  have a: "a \<in> set (artifacts m)" by (simp add: arts)
  have va: "validate_memory_artifact a = Inr ()" and srt: "by_id (xs @ a # ys)"
    and ma: "map_of r (art_id a) = Some (art_state a, art_generation a)"
    using r a unfolding replays_def arts by blast+
  have g: "0 < unat (art_generation a)" "unat (art_generation a) \<le> 1 + artifact_state_code (art_state a)"
    using replays_ok [OF r] ma by (auto simp: replay_ok_def)
  have "unat (art_generation a) \<le> 4" using g(2) artifact_state_code_le [of "art_state a"] by linarith
  then have "unat (art_generation a + 1) = unat (art_generation a) + 1" by (rule unat_suc)
  then have g': "art_generation a + 1 \<noteq> 0" by (metis add_is_0 one_neq_zero unat_0)
  have va': "validate_memory_artifact a' = Inr ()" unfolding a' by (rule valid_artifact_update [OF va g'])
  have id': "art_id a' = art_id a" "art_task a' = art_task a" "art_sequence a' = art_sequence a"
    "art_state a' = target" by (simp_all add: a')
  let ?r = "AList.update (art_id a) (target, art_generation a + 1) r"
  have srt': "by_id (xs @ a' # ys)" by (rule by_id_update [OF srt id'(1)])
  have find: "find_artifact (xs @ a' # ys) (art_id a) = Some a'"
    using find_artifact_Some [OF srt'] id'(1) by simp
  have seq: "next_sequence m \<noteq> 0" using next_nonzero [OF len] replays_next [OF r] by simp
  have "replay_event (xs @ a' # ys) r e = Some ?r"
    using t ma find by (auto simp: replay_event_def e id' changes_state_def)
  moreover have "validate_memory_event e = Inr ()"
    using valid_artifactD [OF va] t seq transition_allowed_neq [OF t(1)] by (simp add: e valid_make_event id')
  moreover have "extends (artifacts m) (xs @ a' # ys)"
    unfolding arts by (rule extends_update [OF srt id'(1-3)])
  ultimately have "replay_events (xs @ a' # ys) (events m @ [e]) 1 [] [] = Some (next_sequence m + 1, ?r)"
    using fresh by (intro replay_append [OF r]) (simp_all add: e)
  moreover have "length ?r = length (artifacts m)"
    using ma replay_count_present [of r "art_id a"] r by (simp add: replays_def)
  moreover have "map_of ?r (art_id b) = Some (art_state b, art_generation b)" if "b \<in> set (xs @ a' # ys)" for b
  proof (cases "b = a'")
    case True
    then show ?thesis by (simp add: update_conv' id') (simp add: a')
  next
    case False
    with that have b: "b \<in> set (artifacts m)" by (auto simp: arts)
    moreover have "art_id b \<noteq> art_id a"
      using by_id_inj [OF srt', of b a'] that False id'(1) by auto
    ultimately show ?thesis using r by (simp add: update_conv' replays_def)
  qed
  ultimately have "replays (m\<lparr>artifacts := xs @ a' # ys, events := events m @ [e],
      next_sequence := next_sequence m + 1\<rparr>) ?r"
    using r va' srt' by (auto simp: replays_def arts)
  then show ?thesis by blast
qed

lemma replays_register:
  assumes r: "replays m r" and a: "validate_memory_artifact a = Inr ()" "art_state a = Active"
      "art_generation a = 1" "art_sequence a = next_sequence m"
    and new: "find_artifact (artifacts m) (art_id a) = None"
    and e: "e = make_event (next_sequence m) Registered a Active (art_task a) ''registered''"
    and len: "length (events m) < 2 ^ 32" and fresh: "ev_id e \<notin> ev_id ` set (events m)"
  shows "\<exists>r'. replays (m\<lparr>artifacts := insert_at (lower_bound art_id (artifacts m) (art_id a)) a (artifacts m),
      events := events m @ [e], next_sequence := next_sequence m + 1\<rparr>) r'"
proof -
  let ?arts = "insert_at (lower_bound art_id (artifacts m) (art_id a)) a (artifacts m)"
  have srt: "by_id (artifacts m)" using r by (simp add: replays_def)
  have srt': "by_id ?arts"
    using sorted_insert_at [of art_id "artifacts m" a] srt new by (simp add: by_id_def find_artifact_def)
  let ?r = "AList.update (art_id a) (Active, 1) r"
  have none: "map_of r (art_id a) = None"
    using replays_keys [OF r, of "art_id a"] new find_artifact_None [OF srt] by (auto simp: image_iff)
  have find: "find_artifact ?arts (art_id a) = Some a" using find_artifact_Some [OF srt'] by simp
  have seq: "next_sequence m \<noteq> 0" using next_nonzero [OF len] replays_next [OF r] by simp
  have "replay_event ?arts r e = Some ?r"
    using find none a by (simp add: replay_event_def e)
  moreover have "\<not> bad_detail ''registered''" by code_simp
  then have "validate_memory_event e = Inr ()"
    using valid_artifactD [OF a(1)] seq a(2) by (simp add: e valid_make_event changes_state_def)
  moreover have "extends (artifacts m) ?arts" by (rule extends_insert [OF srt srt']) auto
  ultimately have "replay_events ?arts (events m @ [e]) 1 [] [] = Some (next_sequence m + 1, ?r)"
    using fresh by (intro replay_append [OF r]) (simp_all add: e)
  moreover have "length ?r = length ?arts"
    using replays_ok [OF r] none r by (simp add: replay_count replay_ok_def replays_def)
  moreover have "map_of ?r (art_id b) = Some (art_state b, art_generation b)" if "b \<in> set ?arts" for b
  proof (cases "b = a")
    case True
    then show ?thesis using a by (simp add: update_conv')
  next
    case False
    with that have b: "b \<in> set (artifacts m)" by auto
    moreover have "art_id b \<noteq> art_id a" using find_artifact_None [OF srt] new b by auto
    ultimately show ?thesis using r by (simp add: update_conv' replays_def)
  qed
  ultimately have "replays (m\<lparr>artifacts := ?arts, events := events m @ [e],
      next_sequence := next_sequence m + 1\<rparr>) ?r"
    using r a(1) srt' by (auto simp: replays_def)
  then show ?thesis by blast
qed

lemma replays_reuse:
  assumes r: "replays m r" and a: "a \<in> set (artifacts m)"
    and task: "valid_identifier task" and d: "\<not> bad_detail detail"
    and e: "e = make_event (next_sequence m) ReuseRecorded a (art_state a) task detail"
    and len: "length (events m) < 2 ^ 32" and fresh: "ev_id e \<notin> ev_id ` set (events m)"
  shows "replays (m\<lparr>events := events m @ [e], next_sequence := next_sequence m + 1\<rparr>) r"
proof -
  have srt: "by_id (artifacts m)" and va: "validate_memory_artifact a = Inr ()"
    and ma: "map_of r (art_id a) = Some (art_state a, art_generation a)"
    using r a by (auto simp: replays_def)
  have seq: "next_sequence m \<noteq> 0" using next_nonzero [OF len] replays_next [OF r] by simp
  have find: "find_artifact (artifacts m) (art_id a) = Some a" using find_artifact_Some [OF srt] a by simp
  have "replay_event (artifacts m) r e = Some r" using find ma by (simp add: replay_event_def e)
  moreover have "validate_memory_event e = Inr ()"
    using valid_artifactD [OF va] seq task d by (simp add: e valid_make_event changes_state_def)
  moreover have "extends (artifacts m) (artifacts m)" by (rule extends_insert [OF srt srt]) simp
  ultimately have "replay_events (artifacts m) (events m @ [e]) 1 [] [] = Some (next_sequence m + 1, r)"
    using fresh by (intro replay_append [OF r]) (simp_all add: e)
  then show ?thesis using r by (simp add: replays_def)
qed

lemma replays_invalidate:
  assumes "replays m r" "artifacts m = pre @ arts" "\<not> bad_detail detail"
    and "invalidate_loop deployment scene detail arts (next_sequence m) = (arts', evs, seq')"
    and "length (events m) + length arts < 2 ^ 32" "\<not> events_collide (events m @ evs)"
  shows "\<exists>r'. replays (m\<lparr>artifacts := pre @ arts', events := events m @ evs, next_sequence := seq'\<rparr>) r'"
  using assms
proof (induction arts arbitrary: m r pre arts' evs seq')
  case Nil
  then have "m\<lparr>artifacts := pre @ arts', events := events m @ evs, next_sequence := seq'\<rparr> = m"
    by (cases m) simp
  with Nil.prems(1) show ?case by auto
next
  case (Cons a arts)
  show ?case
  proof (cases "scene_matches deployment scene a")
    case False
    then obtain arts1 where l: "invalidate_loop deployment scene detail arts (next_sequence m) = (arts1, evs, seq')"
        "arts' = a # arts1"
      using Cons.prems(4) by (auto split: prod.splits)
    from Cons.IH [OF Cons.prems(1) _ Cons.prems(3) l(1) _ Cons.prems(6), of "pre @ [a]"] Cons.prems(2,5) l(2)
    show ?thesis by simp
  next
    case True
    let ?a = "invalidated a"
    let ?e = "make_event (next_sequence m) SceneInvalidated ?a (art_state a) (art_task a) detail"
    from True obtain arts1 evs1 where
      l: "invalidate_loop deployment scene detail arts (next_sequence m + 1) = (arts1, evs1, seq')"
        "arts' = ?a # arts1" "evs = ?e # evs1"
      using Cons.prems(4) by (auto simp: Let_def split: prod.splits)
    have len: "length (events m) < 2 ^ 32" using Cons.prems(5) by simp
    have nc: "\<not> events_collide (events m @ [?e])"
      using Cons.prems(6) events_collide_mono [of "events m @ [?e]" "events m @ evs"] l(3) by auto
    have fresh: "ev_id ?e \<notin> ev_id ` set (events m)"
      by (rule fresh_or_collide [OF Cons.prems(1) len _ _ nc]) simp_all
    have t: "transition_allowed (art_state a) Stale"
      using True by (simp add: scene_matches_def transition_allowed_def)
    let ?m = "m\<lparr>artifacts := pre @ ?a # arts, events := events m @ [?e], next_sequence := next_sequence m + 1\<rparr>"
    obtain r1 where r1: "replays ?m r1"
      using replays_change [OF Cons.prems(1,2) t _ Cons.prems(3) invalidated_def refl len fresh]
      by (auto simp: changes_state_def)
    have "\<exists>r'. replays (?m\<lparr>artifacts := (pre @ [?a]) @ arts1, events := events ?m @ evs1, next_sequence := seq'\<rparr>) r'"
      by (rule Cons.IH [OF r1]) (use Cons.prems l in simp_all)
    then show ?thesis by (simp add: l)
  qed
qed

lemma invalidate_loop_length:
  "invalidate_loop deployment scene detail arts seq = (arts', evs, seq') \<Longrightarrow>
     length arts' = length arts \<and> length evs = length (filter (scene_matches deployment scene) arts)"
  by (induction arts arbitrary: seq arts' evs) (auto simp: Let_def split: prod.splits if_splits)

section \<open>Steps and reachable memories\<close>

text \<open>
  One accepted operation, with limits no larger than those of the replay check. The step
  also says that the recorded events have no SHA-256 collision.
\<close>

inductive memory_step :: "safety_memory \<Rightarrow> safety_memory \<Rightarrow> bool" where
  step_register: "register_artifact m i na ne = Inr (m', a) \<Longrightarrow> na \<le> 1000000 \<Longrightarrow> ne \<le> 4000000 \<Longrightarrow>
     \<not> events_collide (events m') \<Longrightarrow> memory_step m m'"
| step_transition: "transition m i g target detail ne = Inr (m', a) \<Longrightarrow> ne \<le> 4000000 \<Longrightarrow>
     \<not> events_collide (events m') \<Longrightarrow> memory_step m m'"
| step_invalidate: "invalidate_scene m deployment scene detail ne = Inr (m', k) \<Longrightarrow> ne \<le> 4000000 \<Longrightarrow>
     \<not> events_collide (events m') \<Longrightarrow> memory_step m m'"
| step_reuse: "record_reuse m i q detail ne = Inr m' \<Longrightarrow> ne \<le> 4000000 \<Longrightarrow>
     \<not> events_collide (events m') \<Longrightarrow> memory_step m m'"

inductive_cases memory_stepE: "memory_step m m'"

lemma new_artifact_simps [simp]:
  "art_state (new_artifact i tags seq) = Active" "art_generation (new_artifact i tags seq) = 1"
  "art_sequence (new_artifact i tags seq) = seq" "art_tags (new_artifact i tags seq) = tags"
  "art_task (new_artifact i tags seq) = in_task i"
  by (simp_all add: new_artifact_def Let_def)

lemma register_cases:
  assumes "register_artifact m i na ne = Inr (m', a)"
  obtains (present) "m' = m" "find_artifact (artifacts m) (art_id a) = Some a"
  | (added) tags where "normalize_tags (in_tags i) = Inr tags" "a = new_artifact i tags (next_sequence m)"
      "validate_memory_artifact a = Inr ()" "find_artifact (artifacts m) (art_id a) = None"
      "length (artifacts m) < na" "length (events m) < ne"
      "m' = m\<lparr>artifacts := insert_at (lower_bound art_id (artifacts m) (art_id a)) a (artifacts m),
         events := events m @ [make_event (next_sequence m) Registered a Active (art_task a) ''registered''],
         next_sequence := next_sequence m + 1\<rparr>"
proof -
  obtain tags where tags: "normalize_tags (in_tags i) = Inr tags"
    and v: "validate_memory_artifact (new_artifact i tags (next_sequence m)) = Inr ()"
    using assms by (auto simp: register_artifact_def rbind_eq_Inr Let_def split: if_splits)
  have lim: "\<not> (na = 0 \<or> ne = 0)" using assms by (auto simp: register_artifact_def split: if_splits)
  note reg = assms [unfolded register_artifact_def if_not_P [OF lim] tags rbind_simps Let_def v]
  show thesis
  proof (cases "find_artifact (artifacts m) (art_id (new_artifact i tags (next_sequence m)))")
    case None
    then show thesis using reg tags v by (intro added [of tags]) (auto split: if_splits)
  next
    case (Some p)
    then have "art_id p = art_id (new_artifact i tags (next_sequence m))"
      by (auto simp: find_artifact_def lookup_sorted_def Let_def split: if_splits)
    with Some reg show thesis by (intro present) auto
  qed
qed

lemma transition_cases:
  assumes "transition m i g target detail ne = Inr (m', a')"
  obtains a where "find_artifact (artifacts m) i = Some a" "art_generation a = g"
    "transition_allowed (art_state a) target" "length (events m) < ne" "\<not> bad_detail detail"
    "a' = a\<lparr>art_state := target, art_generation := art_generation a + 1\<rparr>"
    "m' = m\<lparr>artifacts := (artifacts m)[lower_bound art_id (artifacts m) i := a'],
       events := events m @ [make_event (next_sequence m) StateTransition a' (art_state a) (art_task a) detail],
       next_sequence := next_sequence m + 1\<rparr>"
  using assms by (auto simp: transition_def Let_def split: if_splits option.splits)

lemma reuse_cases:
  assumes "record_reuse m i q detail ne = Inr m'"
  obtains a where "find_artifact (artifacts m) i = Some a" "valid_identifier (q_task q)"
    "cand_disposition (assess a q) = Direct" "\<not> bad_detail detail" "length (events m) < ne"
    "m' = m\<lparr>events := events m @ [make_event (next_sequence m) ReuseRecorded a (art_state a) (q_task q) detail],
       next_sequence := next_sequence m + 1\<rparr>"
proof -
  obtain a where a: "find_artifact (artifacts m) i = Some a" "validate_reuse_query q = Inr ()"
      "assess_reuse m i q = Inr (assess a q)"
    using assms by (auto simp: record_reuse_def assess_reuse_def artifact_lookup_def rbind_eq_Inr
        split: if_splits option.splits)
  have "cand_artifact (assess a q) = a" by (simp add: assess_def Let_def)
  moreover have "valid_identifier (q_task q)"
    using a(2) by (auto simp: validate_reuse_query_def split: if_splits)
  ultimately show thesis using that [of a] assms a
    by (auto simp: record_reuse_def Let_def split: if_splits)
qed

lemma memory_valid_replays: "memory_valid m \<Longrightarrow> \<exists>r. replays m r"
  by (simp add: memory_valid_iff)

lemma memory_validI:
  assumes "replays m r" "length (artifacts m) \<le> 1000000" "length (events m) \<le> 4000000"
  shows "memory_valid m"
  using assms next_nonzero [of m] replays_next [OF assms(1)] by (auto simp: memory_valid_iff)

lemma valid_length: "memory_valid m \<Longrightarrow> length (events m) < 2 ^ 32"
  by (simp add: memory_valid_iff)

lemma by_id_split:
  assumes "by_id arts" "find_artifact arts i = Some a"
  obtains xs ys where "arts = xs @ a # ys" "arts[lower_bound art_id arts i := b] = xs @ b # ys"
proof -
  let ?p = "lower_bound art_id arts i"
  have p: "?p < length arts" "arts ! ?p = a" using find_artifact_position [OF assms(2)] by simp_all
  then have "arts = take ?p arts @ a # drop (Suc ?p) arts" by (metis id_take_nth_drop)
  moreover have "arts[?p := b] = take ?p arts @ b # drop (Suc ?p) arts"
    using p(1) by (rule upd_conv_take_nth_drop)
  ultimately show thesis by (rule that)
qed

lemma register_valid:
  assumes "memory_valid m" "register_artifact m i na ne = Inr (m', a)" "na \<le> 1000000" "ne \<le> 4000000"
    and "\<not> events_collide (events m')"
  shows "memory_valid m'"
  using assms(2)
proof (cases rule: register_cases)
  case present
  with assms(1) show ?thesis by simp
next
  case (added tags)
  obtain r where r: "replays m r" using memory_valid_replays [OF assms(1)] by blast
  let ?e = "make_event (next_sequence m) Registered a Active (art_task a) ''registered''"
  have fresh: "ev_id ?e \<notin> ev_id ` set (events m)"
    using assms(5) by (intro fresh_or_collide [OF r valid_length [OF assms(1)]]) (simp_all add: added(7))
  obtain r' where "replays m' r'"
    unfolding added(7)
    using replays_register [OF r added(3) _ _ _ added(4) refl valid_length [OF assms(1)] fresh]
    by (auto simp: added(2))
  then show ?thesis using assms(3,4) added(5-7) by (intro memory_validI) simp_all
qed

lemma transition_valid:
  assumes "memory_valid m" "transition m i g target detail ne = Inr (m', a')" "ne \<le> 4000000"
    and "\<not> events_collide (events m')"
  shows "memory_valid m'"
  using assms(2)
proof (cases rule: transition_cases)
  case (1 a)
  obtain r where r: "replays m r" using memory_valid_replays [OF assms(1)] by blast
  then have "by_id (artifacts m)" by (simp add: replays_def)
  then obtain xs ys where xy: "artifacts m = xs @ a # ys"
      "(artifacts m)[lower_bound art_id (artifacts m) i := a'] = xs @ a' # ys"
    using by_id_split [OF _ 1(1)] by metis
  let ?e = "make_event (next_sequence m) StateTransition a' (art_state a) (art_task a) detail"
  have fresh: "ev_id ?e \<notin> ev_id ` set (events m)"
    using assms(4) by (intro fresh_or_collide [OF r valid_length [OF assms(1)]]) (simp_all add: 1(7))
  obtain r' where "replays m' r'"
    unfolding 1(7) xy(2)
    using replays_change [OF r xy(1) 1(3) _ 1(5,6) refl valid_length [OF assms(1)] fresh]
    by (auto simp: changes_state_def)
  moreover have "length (artifacts m') = length (artifacts m)" by (simp add: 1(7))
  ultimately show ?thesis using assms(1,3) 1(4,7) by (intro memory_validI) (simp_all add: memory_valid_iff)
qed

lemma invalidate_valid:
  assumes "memory_valid m" "invalidate_scene m deployment scene detail ne = Inr (m', k)" "ne \<le> 4000000"
    and "\<not> events_collide (events m')"
  shows "memory_valid m'"
proof -
  obtain r where r: "replays m r" using memory_valid_replays [OF assms(1)] by blast
  obtain arts' evs seq' where l: "invalidate_loop deployment scene detail (artifacts m) (next_sequence m) = (arts', evs, seq')"
    by (metis prod_cases3)
  have m': "m' = m\<lparr>artifacts := [] @ arts', events := events m @ evs, next_sequence := seq'\<rparr>"
    and d: "\<not> bad_detail detail"
    and c: "length (filter (scene_matches deployment scene) (artifacts m)) \<le> ne - min ne (length (events m))"
    using assms(2) l by (auto simp: invalidate_scene_def Let_def split: if_splits)
  note len = invalidate_loop_length [OF l]
  obtain r' where "replays m' r'"
    unfolding m'
    using replays_invalidate [OF r _ d l, of "[]"] assms(1,4) by (auto simp: m' memory_valid_iff)
  moreover have "length (events m') \<le> max ne (length (events m))" using c len by (simp add: m')
  ultimately show ?thesis using assms(1,3) len by (intro memory_validI) (auto simp: m' memory_valid_iff)
qed

lemma reuse_valid:
  assumes "memory_valid m" "record_reuse m i q detail ne = Inr m'" "ne \<le> 4000000"
    and "\<not> events_collide (events m')"
  shows "memory_valid m'"
  using assms(2)
proof (cases rule: reuse_cases)
  case (1 a)
  obtain r where r: "replays m r" using memory_valid_replays [OF assms(1)] by blast
  then have "a \<in> set (artifacts m)" using find_artifact_Some 1(1) by (auto simp: replays_def)
  let ?e = "make_event (next_sequence m) ReuseRecorded a (art_state a) (q_task q) detail"
  have fresh: "ev_id ?e \<notin> ev_id ` set (events m)"
    using assms(4) by (intro fresh_or_collide [OF r valid_length [OF assms(1)]]) (simp_all add: 1(6))
  have "replays m' r"
    unfolding 1(6)
    by (rule replays_reuse [OF r \<open>a \<in> set (artifacts m)\<close> 1(2,4) refl valid_length [OF assms(1)] fresh])
  then show ?thesis using assms(1,3) 1(5,6) by (intro memory_validI) (simp_all add: memory_valid_iff)
qed

lemma memory_step_valid: "memory_valid m \<Longrightarrow> memory_step m m' \<Longrightarrow> memory_valid m'"
  by (erule memory_stepE) (auto intro: register_valid transition_valid invalidate_valid reuse_valid)

lemma memory_step_appends: "memory_step m m' \<Longrightarrow> \<exists>new. events m' = events m @ new"
proof (erule memory_stepE)
  fix i na ne a assume "register_artifact m i na ne = Inr (m', a)"
  then show ?thesis by (cases rule: register_cases) simp_all
next
  fix i g target detail ne a assume "transition m i g target detail ne = Inr (m', a)"
  then show ?thesis by (cases rule: transition_cases) simp
next
  fix deployment scene detail ne k assume "invalidate_scene m deployment scene detail ne = Inr (m', k)"
  then show ?thesis by (auto simp: invalidate_scene_def Let_def split: if_splits prod.splits)
next
  fix i q detail ne assume "record_reuse m i q detail ne = Inr m'"
  then show ?thesis by (cases rule: reuse_cases) simp
qed

interpretation memory_log: append_only memory_step memory_valid events
  by unfold_locales (auto intro: memory_step_valid memory_step_appends)

lemma empty_memory_valid: "memory_valid empty_memory"
  by (simp add: memory_valid_def empty_memory_def)

section \<open>Generations\<close>

lemma generation_bound:
  assumes "memory_valid m" "a \<in> set (artifacts m)"
  shows "0 < unat (art_generation a)" "unat (art_generation a) \<le> 1 + artifact_state_code (art_state a)"
proof -
  obtain r where r: "replays m r" using memory_valid_replays [OF assms(1)] by blast
  then have "map_of r (art_id a) = Some (art_state a, art_generation a)" using assms(2) by (simp add: replays_def)
  with replays_ok [OF r] show "0 < unat (art_generation a)"
    "unat (art_generation a) \<le> 1 + artifact_state_code (art_state a)" by (auto simp: replay_ok_def)
qed

section \<open>The event log determines the artifacts' state\<close>

definition lifecycle_of :: "memory_event list \<Rightarrow> string \<Rightarrow> artifact_state" where
  "lifecycle_of es i = foldl (\<lambda>s e. if ev_artifact e = i then ev_current e else s) Active es"

lemma replay_event_map:
  "replay_event arts r e = Some r' \<Longrightarrow>
     fst (the (map_of r' (ev_artifact e))) = ev_current e \<and> map_of r' (ev_artifact e) \<noteq> None \<and>
     (\<forall>i. i \<noteq> ev_artifact e \<longrightarrow> map_of r' i = map_of r i)"
  by (auto simp: replay_event_def update_conv' split: option.splits if_splits)

lemma replay_lifecycle:
  "replay_events arts es x ids r = Some (x', r') \<Longrightarrow> map_of r' i = Some (s, g) \<Longrightarrow>
     (case map_of r i of None \<Rightarrow> s = lifecycle_of es i
      | Some (s0, _) \<Rightarrow> s = foldl (\<lambda>s e. if ev_artifact e = i then ev_current e else s) s0 es)"
proof (induction es arbitrary: x ids r)
  case Nil
  then show ?case by simp
next
  case (Cons e es)
  then obtain r1 where r1: "replay_event arts r e = Some r1"
      "replay_events arts es (x + 1) (ev_id e # ids) r1 = Some (x', r')"
    by (auto split: if_splits option.splits)
  note m = replay_event_map [OF r1(1)]
  note IH = Cons.IH [OF r1(2) Cons.prems(2)]
  show ?case
  proof (cases "ev_artifact e = i")
    case True
    with m obtain g1 where "map_of r1 i = Some (ev_current e, g1)" by auto
    with IH True show ?thesis by (auto simp: lifecycle_of_def split: option.splits)
  next
    case False
    with m have "map_of r1 i = map_of r i" by auto
    with IH False show ?thesis by (auto simp: lifecycle_of_def split: option.splits)
  qed
qed

lemma state_from_events:
  assumes "memory_valid m" "a \<in> set (artifacts m)"
  shows "art_state a = lifecycle_of (events m) (art_id a)"
proof -
  obtain r where r: "replays m r" using memory_valid_replays [OF assms(1)] by blast
  then have "replay_events (artifacts m) (events m) 1 [] [] = Some (next_sequence m, r)"
      "map_of r (art_id a) = Some (art_state a, art_generation a)" using assms(2) by (simp_all add: replays_def)
  from replay_lifecycle [OF this] show ?thesis by simp
qed

section \<open>Reuse\<close>

lemma assess_Direct_iff:
  assumes "sorted_wrt (<) (art_tags a)"
  shows "cand_disposition (assess a q) = Direct \<longleftrightarrow>
     art_deployment a = q_deployment q \<and> art_robot a = q_robot q \<and> art_scene a = q_scene q \<and>
     art_state a = Active \<and> q_evidence q \<le> art_evidence a \<and> set (q_tags q) \<subseteq> set (art_tags a) \<and>
     (\<forall>t. q_type q = Some t \<longrightarrow> art_type a = t) \<and> (q_same_task q \<or> art_task a \<noteq> q_task q)"
  using std_includes_iff [OF assms sort_unique_sorted [of "q_tags q"]]
  by (cases "art_state a") (auto simp: assess_def Let_def not_less split: option.splits)

lemma invalidate_loop_artifacts:
  "invalidate_loop deployment scene detail arts seq = (arts', evs, seq') \<Longrightarrow>
     arts' = map (\<lambda>a. if scene_matches deployment scene a then invalidated a else a) arts"
  by (induction arts arbitrary: seq arts' evs) (auto simp: Let_def split: prod.splits if_splits)

lemma invalidate_scene_artifacts:
  "invalidate_scene m deployment scene detail ne = Inr (m', k) \<Longrightarrow>
     artifacts m' = map (\<lambda>a. if scene_matches deployment scene a then invalidated a else a) (artifacts m) \<and>
     k = length (filter (scene_matches deployment scene) (artifacts m)) \<and>
     length (events m') = length (events m) + k"
  using invalidate_loop_artifacts invalidate_loop_length
  by (fastforce simp: invalidate_scene_def Let_def split: if_splits prod.splits)

definition candidate_key :: "reuse_candidate \<Rightarrow> nat \<times> bool \<times> nat \<times> string \<times> string" where
  "candidate_key c = (reuse_disposition_code (cand_disposition c), cand_cross_task c,
     4 - evidence_code (art_evidence (cand_artifact c)), art_task (cand_artifact c), art_id (cand_artifact c))"

lemma lex_less: "((a :: 'a :: linorder), (b :: 'b :: linorder)) < (c, d) \<longleftrightarrow> (if a \<noteq> c then a < c else b < d)"
  by auto

lemma candidate_less_key: "candidate_less c d \<longleftrightarrow> candidate_key c < candidate_key d"
proof -
  have ev: "4 - evidence_code x < 4 - evidence_code y \<longleftrightarrow> evidence_code y < evidence_code x" for x y
    using evidence_code_le [of x] evidence_code_le [of y] by linarith
  have ev': "4 - evidence_code x = 4 - evidence_code y \<longleftrightarrow> x = y" for x y
    using evidence_code_le [of x] evidence_code_le [of y] evidence_code_inj [of x y] by linarith
  have d: "reuse_disposition_code x = reuse_disposition_code y \<longleftrightarrow> x = y" for x y
    using reuse_disposition_code_inj by blast
  show ?thesis
    unfolding candidate_less_def candidate_key_def lex_less ev ev' d
      less_evidence_level_def less_reuse_disposition_def
    by auto
qed

lemma query_reuse_Inr:
  assumes "query_reuse m q = Inr cs"
  shows "set cs = {c. \<exists>a\<in>set (artifacts m). c = assess a q \<and> reusable q c}"
    and "sorted (map candidate_key cs)" and "length cs \<le> q_maximum q"
proof -
  let ?found = "filter (reusable q) (map (\<lambda>a. assess a q) (artifacts m))"
  have cs: "cs = sort_by candidate_less ?found" "length ?found \<le> q_maximum q"
    using assms by (auto simp: query_reuse_def rbind_eq_Inr Let_def split: if_splits)
  show "sorted (map candidate_key cs)"
    unfolding cs by (rule sort_by_key) (rule candidate_less_key)
  show "set cs = {c. \<exists>a\<in>set (artifacts m). c = assess a q \<and> reusable q c}" by (auto simp: cs)
  show "length cs \<le> q_maximum q" using cs by simp
qed

text \<open>What registration returns carries the content of the input, or names a collision.\<close>

lemma valid_artifact_of_memory:
  "memory_valid m \<Longrightarrow> a \<in> set (artifacts m) \<Longrightarrow> validate_memory_artifact a = Inr ()"
  by (auto simp: memory_valid_def ids_sorted_iff)

lemma register_content:
  assumes "memory_valid m" "register_artifact m i na ne = Inr (m', a)"
  shows "artifact_identity_json a = artifact_identity_json (new_artifact i (sort_unique (in_tags i)) (next_sequence m))
     \<or> sha256_collision (canonical (artifact_identity_json a))
          (canonical (artifact_identity_json (new_artifact i (sort_unique (in_tags i)) (next_sequence m))))"
  using assms(2)
proof (cases rule: register_cases)
  case (added tags)
  with normalize_tags_Inr [OF added(1)] show ?thesis by simp
next
  case present
  let ?b = "new_artifact i (sort_unique (in_tags i)) (next_sequence m)"
  obtain tags where t: "normalize_tags (in_tags i) = Inr tags"
    using assms(2) by (auto simp: register_artifact_def rbind_eq_Inr split: if_splits)
  then have tags: "tags = sort_unique (in_tags i)" "length (art_tags ?b) \<le> kMaximumTags"
    using normalize_tags_Inr [OF t] length_sort_unique [of "in_tags i"] by simp_all
  have srt: "by_id (artifacts m)" using memory_valid_replays [OF assms(1)] by (auto simp: replays_def)
  have a: "a \<in> set (artifacts m)" using present(2) find_artifact_Some [OF srt] by simp
  note v = valid_artifactD [OF valid_artifact_of_memory [OF assms(1) a]]
  have "art_id a = art_id ?b"
    using assms(2) t tags srt
    by (auto simp: register_artifact_def rbind_eq_Inr Let_def find_artifact_Some split: if_splits option.splits)
  moreover have "memory_artifact_identity ?b = art_id ?b"
    by (simp add: new_artifact_def Let_def) (simp add: memory_artifact_identity_def artifact_identity_json_def)
  ultimately show ?thesis
    using artifact_identity.identity_binds [of a ?b] v tags by simp
qed

end
