(* ===== verification/Json_Fields.thy ===== *)
theory Json_Fields
  imports Binding
begin

text \<open>
  The helpers with which the persistence files read a JSON record field by field. Each file of
  the code declares its own \<open>string_field\<close>, \<open>size_field\<close> and \<open>decimal_field\<close>; they differ in
  their messages and limits, which are arguments here.
\<close>

section \<open>Fields\<close>

definition is_object :: "json \<Rightarrow> bool" where
  "is_object j = (case j of JObj kvs \<Rightarrow> True | _ \<Rightarrow> False)"

lemma is_object_object [simp]: "is_object (json_object kvs)"
  by (simp add: is_object_def json_object_def)

definition string_field :: "string \<Rightarrow> string \<Rightarrow> nat \<Rightarrow> bool \<Rightarrow> json \<Rightarrow> string \<Rightarrow> string result" where
  "string_field no_object invalid maximum allow_empty j k =
     (if \<not> is_object j then failure CorruptData no_object []
      else (case json_find j k of
          Some (JStr s) \<Rightarrow>
            (if length s > maximum \<or> (\<not> allow_empty \<and> s = []) then failure CorruptData invalid k else Inr s)
        | _ \<Rightarrow> failure CorruptData invalid k))"

text \<open>\<open>std::floor(v) == v\<close> for a finite \<open>v\<close>, and \<open>static_cast<std::size_t>(v)\<close> for \<open>v \<ge> 0\<close>.\<close>

definition is_whole :: "f64 \<Rightarrow> bool" where
  "is_whole v \<longleftrightarrow> isfinite v \<and> of_int \<lfloor>val v\<rfloor> = val v"

definition truncate :: "f64 \<Rightarrow> nat" where
  "truncate v = nat \<lfloor>val v\<rfloor>"

definition integer_field :: "string \<Rightarrow> string \<Rightarrow> json \<Rightarrow> string \<Rightarrow> nat \<Rightarrow> nat result" where
  "integer_field no_object invalid j k maximum =
     (if \<not> is_object j then failure CorruptData no_object []
      else (case json_find j k of
          Some (JNum v) \<Rightarrow>
            (if \<not> isfinite v \<or> f64_lt v f64_zero \<or> \<not> is_whole v \<or> f64_lt (f64_of_nat maximum) v
             then failure CorruptData invalid k else Inr (truncate v))
        | _ \<Rightarrow> failure CorruptData invalid k))"

definition size_field :: "json \<Rightarrow> string \<Rightarrow> nat \<Rightarrow> nat result" where
  "size_field = integer_field ''expected JSON object'' ''invalid numeric field''"

definition bool_field :: "string \<Rightarrow> string \<Rightarrow> json \<Rightarrow> string \<Rightarrow> bool result" where
  "bool_field no_object invalid j k =
     (if \<not> is_object j then failure CorruptData no_object []
      else (case json_find j k of
          Some (JBool b) \<Rightarrow> Inr b
        | _ \<Rightarrow> failure CorruptData invalid k))"

definition decimal_of :: "string \<Rightarrow> string \<Rightarrow> string \<Rightarrow> u64 result" where
  "decimal_of invalid k text =
     (case from_chars text of None \<Rightarrow> failure CorruptData invalid k | Some n \<Rightarrow> Inr n)"

text \<open>
  A decoder reads all of its fields and reports one error for the record if any is missing.
\<close>

definition or_fail :: "'a result \<Rightarrow> 'b result \<Rightarrow> ('a \<Rightarrow> 'b result) \<Rightarrow> 'b result" where
  "or_fail r incomplete f = (case r of Inl _ \<Rightarrow> incomplete | Inr x \<Rightarrow> f x)"

lemma or_fail_simps [simp]: "or_fail (Inr x) d f = f x" "or_fail (Inl e) d f = d"
  by (simp_all add: or_fail_def)

lemma or_fail_failure [simp]: "or_fail (failure c m x) d f = d"
  by (simp add: failure_def)

lemma or_fail_Inr: "d = Inl e \<Longrightarrow> or_fail r d f = Inr y \<longleftrightarrow> (\<exists>x. r = Inr x \<and> f x = Inr y)"
  by (cases r) simp_all

section \<open>Reading what was written\<close>

named_theorems field_simps_of

lemma string_field_written [field_simps_of]:
  "map_of kvs k = Some (JStr s) \<Longrightarrow> length s \<le> n \<Longrightarrow> b \<or> s \<noteq> [] \<Longrightarrow>
     string_field m1 m2 n b (json_object kvs) k = Inr s"
  by (simp add: string_field_def)

lemma floor_of_nat_rat [simp]: "\<lfloor>(of_nat n :: rat)\<rfloor> = int n"
  by (simp add: floor_of_nat)

lemma integer_field_written [field_simps_of]:
  assumes "map_of kvs k = Some (JNum (f64_of_nat n))" "n \<le> maximum" "maximum < 2 * hidden_bit"
  shows "integer_field m1 m2 (json_object kvs) k maximum = Inr n"
proof -
  have n: "n < 2 * hidden_bit" using assms by simp
  note f = f64_of_nat_exact [OF n] and g = f64_of_nat_exact [OF assms(3)]
  have z: "isfinite f64_zero" "val f64_zero = 0"
    by (simp_all add: isfinite_def f64_zero_def mag_def inf_mag_def val_def magnitude_def)
  have "\<not> f64_lt (f64_of_nat n) f64_zero" "\<not> f64_lt (f64_of_nat maximum) (f64_of_nat n)"
    using assms(2) by (simp_all add: f64_lt_val f g z)
  then show ?thesis using assms(1) by (simp add: integer_field_def is_whole_def truncate_def f)
qed

lemma integer_field_int [field_simps_of]:
  "map_of kvs k = Some (json_int n) \<Longrightarrow> n \<le> maximum \<Longrightarrow> maximum < 2 * hidden_bit \<Longrightarrow>
     integer_field m1 m2 (json_object kvs) k maximum = Inr n"
  unfolding json_int_def by (rule integer_field_written)

lemma size_field_written [field_simps_of]:
  "map_of kvs k = Some (JNum (f64_of_nat n)) \<Longrightarrow> n \<le> maximum \<Longrightarrow> maximum < 2 * hidden_bit \<Longrightarrow>
     size_field (json_object kvs) k maximum = Inr n"
  unfolding size_field_def by (rule integer_field_written)

lemma bool_field_written [field_simps_of]:
  "map_of kvs k = Some (JBool b) \<Longrightarrow> bool_field m1 m2 (json_object kvs) k = Inr b"
  by (simp add: bool_field_def)

lemma size_field_int [field_simps_of]:
  "map_of kvs k = Some (json_int n) \<Longrightarrow> n \<le> maximum \<Longrightarrow> maximum < 2 * hidden_bit \<Longrightarrow>
     size_field (json_object kvs) k maximum = Inr n"
  unfolding json_int_def by (rule size_field_written)

lemma decimal_of_written [simp]: "decimal_of m k (to_string n) = Inr n"
  by (simp add: decimal_of_def from_chars_to_string)

end
