(* ===== verification/Memory_File.thy ===== *)
theory Memory_File
  imports Memory_Laws Json_Fields
begin

text \<open>
  \<^verbatim>\<open>src/memory_persistence.cpp\<close>: a safety memory as a directory of two files, the payload
  \<^verbatim>\<open>memory.json\<close> and a manifest with its counts and digest. Files are read as the function
  \<open>read\<close> from a name to the contents and whether they could be read, \<open>None\<close> for a file that
  does not exist. The steps of a save that touch the disk succeed or fail as \<open>io\<close> says.
\<close>

section \<open>Writing\<close>

definition kMaximumStringBytes :: nat where "kMaximumStringBytes = 4096"
definition kMaximumExactJsonInteger :: nat where "kMaximumExactJsonInteger = 9007199254740991"

definition memory_artifact_json :: "memory_artifact \<Rightarrow> json" where
  "memory_artifact_json a = json_object
     [(''content_digest'', JStr (art_content a)), (''deployment_id'', JStr (art_deployment a)),
      (''evidence'', json_int (evidence_code (art_evidence a))),
      (''generation'', JStr (to_string (art_generation a))), (''id'', JStr (art_id a)),
      (''locator'', JStr (art_locator a)), (''registered_sequence'', JStr (to_string (art_sequence a))),
      (''robot_digest'', JStr (art_robot a)), (''scene_digest'', JStr (art_scene a)),
      (''state'', json_int (artifact_state_code (art_state a))), (''tags'', JArr (map JStr (art_tags a))),
      (''task_id'', JStr (art_task a)), (''type'', json_int (artifact_type_code (art_type a)))]"

definition memory_event_json :: "memory_event \<Rightarrow> json" where
  "memory_event_json e = json_object
     [(''artifact_id'', JStr (ev_artifact e)),
      (''current_state'', json_int (artifact_state_code (ev_current e))), (''detail'', JStr (ev_detail e)),
      (''id'', JStr (ev_id e)), (''previous_state'', json_int (artifact_state_code (ev_previous e))),
      (''sequence'', JStr (to_string (ev_sequence e))), (''task_id'', JStr (ev_task e)),
      (''type'', json_int (event_type_code (ev_type e)))]"

definition memory_payload_json :: "safety_memory \<Rightarrow> json" where
  "memory_payload_json m = json_object
     [(''artifacts'', JArr (map memory_artifact_json (artifacts m))),
      (''events'', JArr (map memory_event_json (events m))),
      (''format'', JStr ''rbfsafe-safety-memory-records''),
      (''next_sequence'', JStr (to_string (next_sequence m))), (''schema'', json_int 1)]"

definition memory_payload :: "safety_memory \<Rightarrow> string" where
  "memory_payload m = dump True 0 (memory_payload_json m) @ [CHR 0x0A]"

definition memory_manifest_json :: "string \<Rightarrow> safety_memory \<Rightarrow> json" where
  "memory_manifest_json version m = json_object
     [(''artifacts'', JNum (f64_of_nat (length (artifacts m)))), (''events'', JNum (f64_of_nat (length (events m)))),
      (''format'', JStr ''rbfsafe-safety-memory''), (''library_version'', JStr version),
      (''payload_sha256'', JStr (sha256 (memory_payload m))), (''schema'', json_int 1)]"

definition memory_manifest :: "string \<Rightarrow> safety_memory \<Rightarrow> string" where
  "memory_manifest version m = dump True 0 (memory_manifest_json version m) @ [CHR 0x0A]"

section \<open>Saving\<close>

record memory_directory =
  md_manifest :: string
  md_payload :: string

datatype save_step =
    InspectDestination | CreateParent | CreateTemporary | WriteFile string | StageExisting
  | PublishTemporary | RestoreExisting

text \<open>
  \<open>publish_directory\<close> and \<open>save_safety_memory_directory\<close>. The destination holds \<open>existing\<close>;
  the result is that of the call and what the destination holds afterwards. The temporary and
  backup directories have names of their own and are not part of the destination. \<open>io\<close> gives
  \<open>None\<close> for a step that succeeds and its error otherwise.
\<close>

definition publish_directory ::
  "(save_step \<Rightarrow> error option) \<Rightarrow> memory_directory \<Rightarrow> memory_directory option \<Rightarrow>
     unit result \<times> memory_directory option" where
  "publish_directory io temporary existing =
     (if existing \<noteq> None \<and> io StageExisting \<noteq> None
      then (failure IoError ''failed to stage existing safety memory'' [], existing)
      else if io PublishTemporary \<noteq> None
      then (failure IoError ''failed to publish safety memory'' [],
            if io RestoreExisting = None then existing else None)
      else (Inr (), Some temporary))"

definition no_specific_directory :: "string \<Rightarrow> bool" where
  "no_specific_directory d \<longleftrightarrow> list_all (\<lambda>c. c = CHR ''/'') d"

definition save_safety_memory ::
  "string \<Rightarrow> (save_step \<Rightarrow> error option) \<Rightarrow> safety_memory \<Rightarrow> string \<Rightarrow> bool \<Rightarrow> memory_directory option \<Rightarrow>
     unit result \<times> memory_directory option" where
  "save_safety_memory version io m directory overwrite existing =
     (if \<not> memory_valid m then (failure InvalidArgument ''cannot save invalid safety memory'' [], existing)
      else if no_specific_directory directory
      then (failure InvalidArgument ''safety memory destination must be a specific directory'' [], existing)
      else if io InspectDestination \<noteq> None
      then (failure IoError ''failed to inspect safety memory destination'' [], existing)
      else if existing \<noteq> None \<and> \<not> overwrite
      then (failure IoError ''safety memory destination already exists'' [], existing)
      else if CHR ''/'' \<in> set directory \<and> io CreateParent \<noteq> None
      then (failure IoError ''failed to create safety memory parent directory'' [], existing)
      else if io CreateTemporary \<noteq> None
      then (failure IoError ''failed to create safety memory temporary directory'' [], existing)
      else (case io (WriteFile ''memory.json'') of
          Some e \<Rightarrow> (Inl e, existing)
        | None \<Rightarrow> (case io (WriteFile ''manifest.json'') of
              Some e \<Rightarrow> (Inl e, existing)
            | None \<Rightarrow> publish_directory io
                \<lparr>md_manifest = memory_manifest version m, md_payload = memory_payload m\<rparr> existing)))"

section \<open>Reading\<close>

abbreviation "memory_string \<equiv>
  string_field ''expected JSON object'' ''missing or invalid string field'' kMaximumStringBytes"

definition decimal_field :: "json \<Rightarrow> string \<Rightarrow> u64 result" where
  "decimal_field j k = rbind (memory_string True j k) (\<lambda>text.
     if text = [] then failure CorruptData ''invalid decimal field'' k
     else decimal_of ''invalid decimal field'' k text)"

fun read_tags :: "json list \<Rightarrow> string list result" where
  "read_tags [] = Inr []"
| "read_tags (t # ts) =
     (case t of
        JStr s \<Rightarrow> (if s = [] \<or> length s > kMaximumStringBytes then failure CorruptData ''memory tag is invalid'' []
                   else rbind (read_tags ts) (\<lambda>rest. Inr (s # rest)))
      | _ \<Rightarrow> failure CorruptData ''memory tag is invalid'' [])"

definition tags_field :: "json \<Rightarrow> string list result" where
  "tags_field j =
     (case json_find j ''tags'' of
        Some (JArr ts) \<Rightarrow>
          (if length ts > kMaximumTags then failure CorruptData ''memory tags are invalid'' [] else read_tags ts)
      | _ \<Rightarrow> failure CorruptData ''memory tags are invalid'' [])"

definition artifact_type_of :: "nat \<Rightarrow> artifact_type" where
  "artifact_type_of n = [SafeAtlas, RegionDatabase, SafeCorridor, TrajectoryAudit, PolicyFeedback,
     RuntimeTrace, FleetSchedule] ! n"

definition artifact_state_of :: "nat \<Rightarrow> artifact_state" where
  "artifact_state_of n = [Active, Stale, Quarantined, Retired] ! n"

definition event_type_of :: "nat \<Rightarrow> event_type" where
  "event_type_of n = [Registered, StateTransition, ReuseRecorded, SceneInvalidated] ! n"

definition evidence_of :: "nat \<Rightarrow> evidence_level" where
  "evidence_of n = [Unknown, PointChecked, CertifiedRegion, CertifiedConnectivity, RuntimeExecutable] ! n"

definition corrupt :: "error \<Rightarrow> 'a result" where
  "corrupt e = failure CorruptData (message e) (context_of e)"

definition decode_artifact :: "json \<Rightarrow> memory_artifact result" where
  "decode_artifact j =
     (let bad = failure CorruptData ''memory artifact record is incomplete'' [] in
      or_fail (memory_string False j ''id'') bad (\<lambda>i.
      or_fail (size_field j ''type'' (artifact_type_code FleetSchedule)) bad (\<lambda>t.
      or_fail (size_field j ''state'' (artifact_state_code Retired)) bad (\<lambda>s.
      or_fail (memory_string False j ''deployment_id'') bad (\<lambda>deployment.
      or_fail (memory_string False j ''robot_digest'') bad (\<lambda>robot.
      or_fail (memory_string False j ''scene_digest'') bad (\<lambda>scene.
      or_fail (memory_string False j ''task_id'') bad (\<lambda>task.
      or_fail (memory_string False j ''content_digest'') bad (\<lambda>content.
      or_fail (memory_string False j ''locator'') bad (\<lambda>locator.
      or_fail (size_field j ''evidence'' (evidence_code RuntimeExecutable)) bad (\<lambda>evidence.
      or_fail (tags_field j) bad (\<lambda>tags.
      or_fail (decimal_field j ''generation'') bad (\<lambda>generation.
      or_fail (decimal_field j ''registered_sequence'') bad (\<lambda>seq.
        let a = \<lparr>art_id = i, art_type = artifact_type_of t, art_state = artifact_state_of s,
                 art_deployment = deployment, art_robot = robot, art_scene = scene, art_task = task,
                 art_content = content, art_locator = locator, art_evidence = evidence_of evidence,
                 art_tags = tags, art_generation = generation, art_sequence = seq\<rparr>
        in case validate_memory_artifact a of Inl e \<Rightarrow> corrupt e | Inr _ \<Rightarrow> Inr a))))))))))))))"

definition decode_event :: "json \<Rightarrow> memory_event result" where
  "decode_event j =
     (let bad = failure CorruptData ''memory event record is incomplete'' [] in
      or_fail (memory_string False j ''id'') bad (\<lambda>i.
      or_fail (decimal_field j ''sequence'') bad (\<lambda>seq.
      or_fail (size_field j ''type'' (event_type_code SceneInvalidated)) bad (\<lambda>t.
      or_fail (memory_string False j ''artifact_id'') bad (\<lambda>artifact.
      or_fail (size_field j ''previous_state'' (artifact_state_code Retired)) bad (\<lambda>previous.
      or_fail (size_field j ''current_state'' (artifact_state_code Retired)) bad (\<lambda>current.
      or_fail (memory_string False j ''task_id'') bad (\<lambda>task.
      or_fail (memory_string False j ''detail'') bad (\<lambda>detail.
        let e = \<lparr>ev_id = i, ev_sequence = seq, ev_type = event_type_of t, ev_artifact = artifact,
                 ev_previous = artifact_state_of previous, ev_current = artifact_state_of current,
                 ev_task = task, ev_detail = detail\<rparr>
        in case validate_memory_event e of Inl e \<Rightarrow> corrupt e | Inr _ \<Rightarrow> Inr e)))))))))"

fun decode_all :: "(json \<Rightarrow> 'a result) \<Rightarrow> json list \<Rightarrow> 'a list result" where
  "decode_all d [] = Inr []"
| "decode_all d (j # js) = rbind (d j) (\<lambda>x. rbind (decode_all d js) (\<lambda>xs. Inr (x # xs)))"

record load_options =
  ld_maximum_artifacts :: nat
  ld_maximum_events :: nat
  ld_maximum_payload :: nat

definition in_directory :: "string \<Rightarrow> string \<Rightarrow> string" where
  "in_directory d f = d @ ''/'' @ f"

text \<open>The second half of the load, on the parsed payload and the counts of the manifest.\<close>

definition decode_memory :: "json \<Rightarrow> nat \<Rightarrow> nat \<Rightarrow> safety_memory result" where
  "decode_memory payload artifacts_count events_count =
     (let bad = failure CorruptData ''safety memory payload metadata is inconsistent'' [] in
      or_fail (memory_string False payload ''format'') bad (\<lambda>format.
      or_fail (size_field payload ''schema'' 1000) bad (\<lambda>schema.
      or_fail (decimal_field payload ''next_sequence'') bad (\<lambda>next_seq.
        if format \<noteq> ''rbfsafe-safety-memory-records'' \<or> schema \<noteq> 1 then bad
        else (case (json_find payload ''artifacts'', json_find payload ''events'') of
            (Some (JArr arts), Some (JArr evs)) \<Rightarrow>
              (if length arts \<noteq> artifacts_count \<or> length evs \<noteq> events_count then bad
               else rbind (decode_all decode_artifact arts) (\<lambda>arts.
                 rbind (decode_all decode_event evs) (\<lambda>evs.
                   let m = \<lparr>artifacts = arts, events = evs, next_sequence = next_seq\<rparr>
                   in if \<not> memory_valid m
                      then failure CorruptData ''safety memory history is inconsistent'' [] else Inr m)))
          | _ \<Rightarrow> bad)))))"

definition load_safety_memory ::
  "load_options \<Rightarrow> string \<Rightarrow> (string \<Rightarrow> (string \<times> bool) option) \<Rightarrow> safety_memory result" where
  "load_safety_memory opts directory read =
     (if ld_maximum_artifacts opts = 0 \<or> ld_maximum_events opts = 0 \<or> ld_maximum_payload opts = 0
      then failure InvalidArgument ''safety memory load limits must be positive'' []
      else rbind (read_json_file (in_directory directory ''manifest.json'') (read ''manifest.json'')) (\<lambda>manifest.
        let bad = failure CorruptData ''safety memory manifest is incomplete'' [] in
        or_fail (memory_string False manifest ''format'') bad (\<lambda>format.
        or_fail (size_field manifest ''schema'' 1000) bad (\<lambda>schema.
        or_fail (size_field manifest ''artifacts'' kMaximumExactJsonInteger) bad (\<lambda>artifacts_count.
        or_fail (size_field manifest ''events'' kMaximumExactJsonInteger) bad (\<lambda>events_count.
        or_fail (memory_string False manifest ''payload_sha256'') bad (\<lambda>checksum.
          if format \<noteq> ''rbfsafe-safety-memory'' \<or> schema \<noteq> 1
          then failure IncompatibleFormat ''unsupported safety memory schema'' []
          else if \<not> valid_sha256 checksum
          then failure CorruptData ''safety memory checksum is invalid'' []
          else if artifacts_count > ld_maximum_artifacts opts \<or> events_count > ld_maximum_events opts
          then failure ResourceLimit ''safety memory record count exceeds limit'' []
          else (case read ''memory.json'' of
              None \<Rightarrow> failure IoError ''failed to inspect safety memory payload'' []
            | Some (text, ok) \<Rightarrow>
                if length text > ld_maximum_payload opts
                then failure ResourceLimit ''safety memory payload exceeds size limit'' []
                else rbind (sha256_file (in_directory directory ''memory.json'') (Some (as_bytes text, ok))) (\<lambda>actual.
                  if actual \<noteq> checksum
                  then failure CorruptData ''safety memory payload checksum mismatch'' []
                  else rbind (read_json_file (in_directory directory ''memory.json'') (Some (text, ok))) (\<lambda>payload.
                    decode_memory payload artifacts_count events_count))))))))))"

text \<open>Reading a directory as it was saved.\<close>

definition read_directory :: "memory_directory \<Rightarrow> string \<Rightarrow> (string \<times> bool) option" where
  "read_directory d f =
     (if f = ''manifest.json'' then Some (md_manifest d, True)
      else if f = ''memory.json'' then Some (md_payload d, True) else None)"

end
