(* ===== verification/Memory_File_Laws.thy ===== *)
theory Memory_File_Laws
  imports Memory_File
begin

text \<open>
  Saving and loading a safety memory: a valid memory within the limits of the load comes back
  as it was, and a save leaves at the destination what was there, the whole new directory, or,
  when publishing and restoring both fail, nothing.
\<close>

section \<open>One record\<close>

lemma enum_round_trips [simp]:
  "artifact_type_of (artifact_type_code t) = t" "artifact_state_of (artifact_state_code s) = s"
  "event_type_of (event_type_code e) = e" "evidence_of (evidence_code v) = v"
  by ((cases t; simp add: artifact_type_of_def), (cases s; simp add: artifact_state_of_def),
      (cases e; simp add: event_type_of_def), (cases v; simp add: evidence_of_def))

lemma record_eta [simp]:
  "\<lparr>art_id = art_id a, art_type = art_type a, art_state = art_state a, art_deployment = art_deployment a,
     art_robot = art_robot a, art_scene = art_scene a, art_task = art_task a, art_content = art_content a,
     art_locator = art_locator a, art_evidence = art_evidence a, art_tags = art_tags a,
     art_generation = art_generation a, art_sequence = art_sequence a\<rparr> = a"
  "\<lparr>ev_id = ev_id e, ev_sequence = ev_sequence e, ev_type = ev_type e, ev_artifact = ev_artifact e,
     ev_previous = ev_previous e, ev_current = ev_current e, ev_task = ev_task e, ev_detail = ev_detail e\<rparr> = e"
  "\<lparr>artifacts = artifacts m, events = events m, next_sequence = next_sequence m\<rparr> = m"
  by simp_all

lemma read_tags_written:
  "\<forall>t\<in>set ts. t \<noteq> [] \<and> length t \<le> kMaximumStringBytes \<Longrightarrow> read_tags (map JStr ts) = Inr ts"
  by (induction ts) auto

lemma decimal_field_written [field_simps_of]:
  "map_of kvs k = Some (JStr (to_string n)) \<Longrightarrow> decimal_field (json_object kvs) k = Inr n"
  using length_to_string [of n] by (simp add: decimal_field_def string_field_written kMaximumStringBytes_def)

lemma tags_field_written:
  "map_of kvs ''tags'' = Some (JArr (map JStr ts)) \<Longrightarrow> length ts \<le> kMaximumTags \<Longrightarrow>
     \<forall>t\<in>set ts. t \<noteq> [] \<and> length t \<le> kMaximumStringBytes \<Longrightarrow> tags_field (json_object kvs) = Inr ts"
  by (simp add: tags_field_def read_tags_written)

lemma normalized_tags:
  "normalize_tags ts = Inr ts' \<Longrightarrow> length ts \<le> kMaximumTags \<and> (\<forall>t\<in>set ts. t \<noteq> [] \<and> length t \<le> kMaximumTagBytes)"
  by (auto simp: normalize_tags_def list_ex_iff not_less split: if_splits)

lemma identifier_fits: "valid_identifier s \<Longrightarrow> s \<noteq> [] \<and> length s \<le> kMaximumStringBytes"
  by (simp add: valid_identifier_def kMaximumIdentifierBytes_def kMaximumStringBytes_def)

lemma digest_fits: "valid_sha256 s \<Longrightarrow> s \<noteq> [] \<and> length s \<le> kMaximumStringBytes"
  using valid_sha256_length [of s] by (auto simp: kMaximumStringBytes_def)

lemma enum_below [simp]:
  "artifact_type_code t \<le> artifact_type_code FleetSchedule" "artifact_state_code s \<le> artifact_state_code Retired"
  "event_type_code e \<le> event_type_code SceneInvalidated" "evidence_code v \<le> evidence_code RuntimeExecutable"
  by ((cases t; simp), (cases s; simp), (cases e; simp), (cases v; simp))

lemma decode_artifact_written:
  assumes "validate_memory_artifact a = Inr ()"
  shows "decode_artifact (memory_artifact_json a) = Inr a"
proof -
  have t: "normalize_tags (art_tags a) = Inr (art_tags a)"
    and ids: "valid_sha256 (art_id a)" "valid_identifier (art_deployment a)" "valid_sha256 (art_robot a)"
      "valid_sha256 (art_scene a)" "valid_identifier (art_task a)" "valid_sha256 (art_content a)"
    and l: "art_locator a \<noteq> []" "length (art_locator a) \<le> kMaximumLocatorBytes"
    using assms by (auto simp: validate_memory_artifact_def rbind_eq_Inr not_less split: if_splits)
  note fits = digest_fits [OF ids(1)] identifier_fits [OF ids(2)] digest_fits [OF ids(3)] digest_fits [OF ids(4)]
    identifier_fits [OF ids(5)] digest_fits [OF ids(6)]
  have tags: "length (art_tags a) \<le> kMaximumTags" "\<forall>t\<in>set (art_tags a). t \<noteq> [] \<and> length t \<le> kMaximumStringBytes"
    using normalized_tags [OF t] by (auto simp: kMaximumTagBytes_def kMaximumStringBytes_def)
  have loc: "length (art_locator a) \<le> kMaximumStringBytes"
    using l by (simp add: kMaximumLocatorBytes_def kMaximumStringBytes_def)
  show ?thesis
    unfolding decode_artifact_def memory_artifact_json_def Let_def
    using fits tags l(1) loc assms
    by (simp add: field_simps_of tags_field_written del: artifact_type_code.simps artifact_state_code.simps
        evidence_code.simps cong: sum.case_cong)
qed

lemma decode_event_written:
  assumes "validate_memory_event e = Inr ()"
  shows "decode_event (memory_event_json e) = Inr e"
proof -
  have ids: "valid_sha256 (ev_id e)" "valid_sha256 (ev_artifact e)" "valid_identifier (ev_task e)"
    and d: "ev_detail e \<noteq> []" "length (ev_detail e) \<le> kMaximumStringBytes"
    using assms by (auto simp: validate_memory_event_def bad_detail_def kMaximumDetailBytes_def
        kMaximumStringBytes_def split: if_splits)
  note fits = digest_fits [OF ids(1)] digest_fits [OF ids(2)] identifier_fits [OF ids(3)]
  show ?thesis
    unfolding decode_event_def memory_event_json_def Let_def
    using fits d assms
    by (simp add: field_simps_of del: event_type_code.simps artifact_state_code.simps cong: sum.case_cong)
qed

lemma decode_all_written:
  "\<forall>x\<in>set xs. d (enc x) = Inr x \<Longrightarrow> decode_all d (map enc xs) = Inr xs"
  by (induction xs) simp_all

interpretation artifact_record: codec memory_artifact_json "\<lambda>j. result_option (decode_artifact j)"
    "\<lambda>a. validate_memory_artifact a = Inr ()"
  by unfold_locales (simp add: decode_artifact_written)

interpretation event_record: codec memory_event_json "\<lambda>j. result_option (decode_event j)"
    "\<lambda>e. validate_memory_event e = Inr ()"
  by unfold_locales (simp add: decode_event_written)

section \<open>The whole memory\<close>

lemma json_ok_strings [simp]: "length ts \<le> 10000000 \<Longrightarrow> 0 < h \<Longrightarrow> json_ok h (JArr (map JStr ts))"
  by (simp add: items_ok_iff)

lemma json_ok_artifact: "length (art_tags a) \<le> kMaximumTags \<Longrightarrow> json_ok (Suc (Suc h)) (memory_artifact_json a)"
  unfolding memory_artifact_json_def by (intro json_ok_object) (simp add: kMaximumTags_def items_ok_iff)

lemma json_ok_event: "json_ok (Suc h) (memory_event_json e)"
  unfolding memory_event_json_def by (intro json_ok_object) simp

lemma schema_bound [simp]: "1000 < 2 * hidden_bit"
  by (simp add: hidden_bit_def)

lemma memory_valid_events:
  "replay_events arts es x ids r = Some y \<Longrightarrow> e \<in> set es \<Longrightarrow> validate_memory_event e = Inr ()"
  by (induction es arbitrary: x ids r) (auto split: if_splits option.splits)

lemma valid_parts:
  assumes "memory_valid m"
  shows "\<forall>a\<in>set (artifacts m). validate_memory_artifact a = Inr ()" "\<forall>e\<in>set (events m). validate_memory_event e = Inr ()"
    "length (artifacts m) \<le> 1000000" "length (events m) \<le> 4000000"
  using assms valid_artifact_of_memory memory_valid_events
  by (auto simp: memory_valid_iff replays_def)

lemma storable_payload:
  assumes "memory_valid m"
  shows "storable (memory_payload_json m)"
proof -
  have "\<forall>a\<in>set (artifacts m). json_ok (Suc (Suc 60)) (memory_artifact_json a)"
    using valid_parts(1) [OF assms] valid_artifactD by (blast intro: json_ok_artifact)
  moreover have "\<forall>e\<in>set (events m). json_ok (Suc 61) (memory_event_json e)" using json_ok_event by blast
  ultimately have "json_ok (Suc 63) (memory_payload_json m)"
    unfolding memory_payload_json_def using valid_parts(3,4) [OF assms]
    by (intro json_ok_object) (simp add: items_ok_iff)
  then show ?thesis by (simp add: storable_def eval_nat_numeral)
qed

lemma storable_manifest:
  assumes "memory_valid m"
  shows "storable (memory_manifest_json version m)"
proof -
  have "isfinite (f64_of_nat (length (artifacts m)))" "isfinite (f64_of_nat (length (events m)))"
    using valid_parts(3,4) [OF assms] by (auto intro!: f64_of_nat_exact(1) simp: hidden_bit_def)
  then have "json_ok (Suc 63) (memory_manifest_json version m)"
    unfolding memory_manifest_json_def by (intro json_ok_object) simp
  then show ?thesis by (simp add: storable_def eval_nat_numeral)
qed

lemma parse_written: "storable j \<Longrightarrow> json_parse (dump True 0 j @ [CHR 0x0A]) = Inr j"
  using json_parse_dump [of j "[]" "[CHR 0x0A]" True 0] by (simp add: all_space_def is_space_def)

lemma read_written:
  "storable j \<Longrightarrow> length (dump True 0 j @ [CHR 0x0A]) \<le> json_file_limit \<Longrightarrow>
     read_json_file path (Some (dump True 0 j @ [CHR 0x0A], True)) = Inr j"
  by (simp add: read_json_file_def parse_written del: append_assoc length_append)

lemma hash_written: "sha256_file path (Some (as_bytes text, True)) = Inr (sha256 text)"
  by (simp add: sha256_file_def sha256_def sha256_bytes_def foldl_update_blocks read_blocks_concat)

lemma decode_memory_written:
  assumes "memory_valid m"
  shows "decode_memory (memory_payload_json m) (length (artifacts m)) (length (events m)) = Inr m"
proof -
  have "decode_all decode_artifact (map memory_artifact_json (artifacts m)) = Inr (artifacts m)"
    "decode_all decode_event (map memory_event_json (events m)) = Inr (events m)"
    using valid_parts(1,2) [OF assms] by (simp_all add: decode_all_written decode_artifact_written decode_event_written)
  then show ?thesis
    unfolding decode_memory_def memory_payload_json_def Let_def using assms
    by (simp add: field_simps_of kMaximumStringBytes_def cong: if_cong)
qed

definition loadable :: "load_options \<Rightarrow> string \<Rightarrow> safety_memory \<Rightarrow> bool" where
  "loadable opts version m \<longleftrightarrow> 0 < ld_maximum_artifacts opts \<and> 0 < ld_maximum_events opts \<and>
     length (artifacts m) \<le> ld_maximum_artifacts opts \<and> length (events m) \<le> ld_maximum_events opts \<and>
     length (memory_payload m) \<le> ld_maximum_payload opts \<and> length (memory_payload m) \<le> json_file_limit \<and>
     length (memory_manifest version m) \<le> json_file_limit"

definition saved_directory :: "string \<Rightarrow> safety_memory \<Rightarrow> memory_directory" where
  "saved_directory version m = \<lparr>md_manifest = memory_manifest version m, md_payload = memory_payload m\<rparr>"

theorem load_saved:
  assumes "memory_valid m" "loadable opts version m"
  shows "load_safety_memory opts d (read_directory (saved_directory version m)) = Inr m"
proof -
  have man: "read_json_file p (Some (memory_manifest version m, True)) = Inr (memory_manifest_json version m)"
    and pay: "read_json_file p (Some (memory_payload m, True)) = Inr (memory_payload_json m)" for p
    using assms read_written [OF storable_manifest [OF assms(1)]] read_written [OF storable_payload [OF assms(1)]]
    by (simp_all add: loadable_def memory_manifest_def memory_payload_def)
  have ne: "0 < length (memory_payload m)" by (simp add: memory_payload_def)
  have room: "0 < ld_maximum_payload opts" 
    using ne assms(2) by (auto simp only: loadable_def intro: less_le_trans)
  have counts: "length (artifacts m) \<le> kMaximumExactJsonInteger" "length (events m) \<le> kMaximumExactJsonInteger"
    "kMaximumExactJsonInteger < 2 * hidden_bit"
    using valid_parts(3,4) [OF assms(1)] by (simp_all add: kMaximumExactJsonInteger_def hidden_bit_def)
  have "size_field (memory_manifest_json version m) ''artifacts'' kMaximumExactJsonInteger = Inr (length (artifacts m))"
    "size_field (memory_manifest_json version m) ''events'' kMaximumExactJsonInteger = Inr (length (events m))"
    "size_field (memory_manifest_json version m) ''schema'' 1000 = Inr 1"
    "memory_string False (memory_manifest_json version m) ''format'' = Inr ''rbfsafe-safety-memory''"
    "memory_string False (memory_manifest_json version m) ''payload_sha256'' = Inr (sha256 (memory_payload m))"
    unfolding memory_manifest_json_def using counts
    by (simp_all add: field_simps_of kMaximumStringBytes_def)
  with man [of "in_directory d ''manifest.json''"] pay [of "in_directory d ''memory.json''"] assms(2) room show ?thesis
    by (simp add: load_safety_memory_def read_directory_def saved_directory_def loadable_def hash_written
        decode_memory_written [OF assms(1)] Let_def)
qed

section \<open>What a save leaves behind\<close>

lemma save_outcomes:
  assumes "save_safety_memory version io m d overwrite existing = (r, after)"
  shows "after = existing \<or> after = Some (saved_directory version m) \<or>
     (after = None \<and> io PublishTemporary \<noteq> None \<and> io RestoreExisting \<noteq> None)"
    and "r = Inr () \<longleftrightarrow> memory_valid m \<and> \<not> no_specific_directory d \<and> (existing = None \<or> overwrite) \<and>
      io InspectDestination = None \<and> (CHR ''/'' \<in> set d \<longrightarrow> io CreateParent = None) \<and> io CreateTemporary = None \<and>
      io (WriteFile ''memory.json'') = None \<and> io (WriteFile ''manifest.json'') = None \<and>
      (existing \<noteq> None \<longrightarrow> io StageExisting = None) \<and> io PublishTemporary = None"
    and "r = Inr () \<Longrightarrow> after = Some (saved_directory version m)"
  using assms
  by (auto simp: save_safety_memory_def publish_directory_def saved_directory_def split: if_splits option.splits)

end
