(* ===== verification/Memory_Store.thy ===== *)
theory Memory_Store
  imports Memory_File_Laws
begin

text \<open>
  \<^verbatim>\<open>src/memory_store.cpp\<close>: the revisioned store of safety memories. The directory of a store is
  the record \<open>store_directory\<close>: the root manifest, the entries of \<^verbatim>\<open>commits/\<close> (name and contents,
  no contents for what is not a regular file) in the order the file system lists them, the
  revisions, and whether the writer lock is held. Reading what exists does not fail. The
  steps that write succeed or fail as \<open>io\<close> says, and each operation gives the list of its
  writes, so that what a crash leaves behind is a prefix of that list applied.
\<close>

section \<open>Records\<close>

definition kMaximumMetadataStringBytes :: nat where "kMaximumMetadataStringBytes = 4096"

record revision_info =
  ri_sequence :: u64
  ri_id :: string
  ri_parent :: string
  ri_memory :: string

record store_options =
  so_maximum_revisions :: nat
  so_maximum_metadata :: nat
  so_load :: load_options

record memory_store =
  ms_directory :: string
  ms_current :: string
  ms_revisions :: "revision_info list"
  ms_options :: store_options

record store_directory =
  sd_manifest :: "string option"
  sd_commits :: "(string \<times> string option) list option"
  sd_revisions :: "(string \<times> memory_directory) list"
  sd_locked :: bool

definition safety_memory_revision_json :: "revision_info \<Rightarrow> json" where
  "safety_memory_revision_json r = json_object
     [(''format'', JStr ''rbfsafe-safety-memory-revision''), (''memory_id'', JStr (ri_memory r)),
      (''parent_id'', JStr (ri_parent r)), (''schema'', json_int 1),
      (''sequence'', JStr (to_string (ri_sequence r)))]"

definition safety_memory_revision_identity :: "revision_info \<Rightarrow> string" where
  "safety_memory_revision_identity r = sha256 (canonical (safety_memory_revision_json r))"

text \<open>Members of the payloads; a document adds the digest of the payload and the library version.\<close>

definition root_payload :: "string \<Rightarrow> (string \<times> json) list" where
  "root_payload root_id = [(''format'', JStr ''rbfsafe-safety-memory-store''), (''root_revision_id'', JStr root_id),
     (''schema'', json_int 1)]"

definition commit_payload :: "revision_info \<Rightarrow> (string \<times> json) list" where
  "commit_payload r = [(''format'', JStr ''rbfsafe-safety-memory-commit''), (''id'', JStr (ri_id r)),
     (''memory_id'', JStr (ri_memory r)), (''parent_id'', JStr (ri_parent r)), (''schema'', json_int 1),
     (''sequence'', JStr (to_string (ri_sequence r)))]"

definition store_document :: "string \<Rightarrow> (string \<times> json) list \<Rightarrow> json" where
  "store_document version payload = json_object (payload @
     [(''identity'', JStr (sha256 (canonical (json_object payload)))), (''library_version'', JStr version)])"

definition document_text :: "json \<Rightarrow> string" where
  "document_text j = dump True 0 j @ [CHR 0x0A]"

definition root_document :: "string \<Rightarrow> string \<Rightarrow> json" where
  "root_document version root_id = store_document version (root_payload root_id)"

definition commit_document :: "string \<Rightarrow> revision_info \<Rightarrow> json" where
  "commit_document version r = store_document version (commit_payload r)"

definition sequence_filename :: "u64 \<Rightarrow> string \<Rightarrow> string" where
  "sequence_filename seq i =
     (let digits = to_string seq in replicate (20 - length digits) CHR ''0'' @ digits @ ''-'' @ i @ ''.json'')"

definition commit_filename :: "revision_info \<Rightarrow> string" where
  "commit_filename r = sequence_filename (ri_sequence r) (ri_id r)"

section \<open>Reading a store\<close>

abbreviation "store_string \<equiv>
  string_field ''memory-store record is not an object'' ''memory-store string field is invalid''
    kMaximumMetadataStringBytes"

definition store_decimal :: "json \<Rightarrow> string \<Rightarrow> u64 result" where
  "store_decimal j k = rbind (store_string False j k) (decimal_of ''memory-store decimal field is invalid'' k)"

definition read_bounded_json :: "string \<Rightarrow> string option \<Rightarrow> nat \<Rightarrow> json result" where
  "read_bounded_json path file maximum =
     (case file of
        None \<Rightarrow> failure IoError ''failed to inspect memory-store metadata'' path
      | Some text \<Rightarrow>
          (if length text > maximum
           then failure ResourceLimit ''memory-store metadata exceeds configured limit'' path
           else read_json_file path (Some (text, True))))"

definition require_schema :: "json \<Rightarrow> string \<Rightarrow> unit result" where
  "require_schema j expected =
     (let bad = failure IncompatibleFormat ''unsupported safety-memory store format'' [] in
      or_fail (store_string False j ''format'') bad (\<lambda>format.
        case json_find j ''schema'' of
          Some (JNum v) \<Rightarrow>
            (if format \<noteq> expected \<or> \<not> f64_eq v (f64_of_nat 1) then bad
             else rbind (store_string False j ''library_version'') (\<lambda>_. Inr ()))
        | _ \<Rightarrow> bad))"

definition validate_revision :: "revision_info \<Rightarrow> unit result" where
  "validate_revision r =
     (let first = (ri_sequence r = 0 \<and> ri_parent r = []);
          derived = (ri_sequence r > 0 \<and> valid_sha256 (ri_parent r))
      in if (\<not> first \<and> \<not> derived) \<or> \<not> valid_sha256 (ri_id r) \<or> \<not> valid_sha256 (ri_memory r) \<or>
            safety_memory_revision_identity r \<noteq> ri_id r
         then failure CorruptData ''safety-memory revision identity is invalid'' (ri_id r)
         else Inr ())"

definition decode_commit :: "json \<Rightarrow> revision_info result" where
  "decode_commit j =
     rbind (require_schema j ''rbfsafe-safety-memory-commit'') (\<lambda>_.
       let bad = failure CorruptData ''safety-memory commit is incomplete'' [] in
       or_fail (store_decimal j ''sequence'') bad (\<lambda>seq.
       or_fail (store_string False j ''id'') bad (\<lambda>i.
       or_fail (store_string True j ''parent_id'') bad (\<lambda>parent.
       or_fail (store_string False j ''memory_id'') bad (\<lambda>memory.
       or_fail (store_string False j ''identity'') bad (\<lambda>identity.
         let r = \<lparr>ri_sequence = seq, ri_id = i, ri_parent = parent, ri_memory = memory\<rparr>
         in rbind (validate_revision r) (\<lambda>_.
              if \<not> valid_sha256 identity \<or> identity \<noteq> sha256 (canonical (json_object (commit_payload r)))
              then failure CorruptData ''safety-memory commit checksum is invalid'' (ri_id r)
              else Inr r)))))))"

definition validate_store_root :: "json \<Rightarrow> string result" where
  "validate_store_root j =
     rbind (require_schema j ''rbfsafe-safety-memory-store'') (\<lambda>_.
       let bad = failure CorruptData ''safety-memory store root manifest is invalid'' [] in
       or_fail (store_string False j ''root_revision_id'') bad (\<lambda>root_id.
       or_fail (store_string False j ''identity'') bad (\<lambda>identity.
         if \<not> valid_sha256 root_id \<or> \<not> valid_sha256 identity \<or>
            identity \<noteq> sha256 (canonical (json_object (root_payload root_id)))
         then bad else Inr root_id)))"

definition has_json_extension :: "string \<Rightarrow> bool" where
  "has_json_extension name \<longleftrightarrow> length name > 5 \<and> drop (length name - 5) name = ''.json''"

definition contains_text :: "string \<Rightarrow> string \<Rightarrow> bool" where
  "contains_text s t \<longleftrightarrow> list_ex (\<lambda>i. take (length t) (drop i s) = t) [0..<length s + 1]"

text \<open>The loop over the entries of \<^verbatim>\<open>commits/\<close>; \<open>n\<close> commits were decoded before.\<close>

fun decode_entries ::
  "store_options \<Rightarrow> string \<Rightarrow> nat \<Rightarrow> (string \<times> string option) list \<Rightarrow> (string \<times> revision_info) list result" where
  "decode_entries opts path n [] = Inr []"
| "decode_entries opts path n ((name, file) # rest) =
     (if file \<noteq> None \<and> has_json_extension name
      then (if n \<ge> so_maximum_revisions opts
            then failure ResourceLimit ''memory-store revision count exceeds limit'' []
            else rbind (read_bounded_json (in_directory path name) file (so_maximum_metadata opts)) (\<lambda>document.
              rbind (decode_commit document) (\<lambda>r.
                rbind (decode_entries opts path (n + 1) rest) (\<lambda>rs. Inr ((name, r) # rs)))))
      else if \<not> contains_text name ''.tmp-''
      then failure CorruptData ''unexpected memory-store commit entry'' name
      else decode_entries opts path n rest)"

definition commit_less :: "string \<times> revision_info \<Rightarrow> string \<times> revision_info \<Rightarrow> bool" where
  "commit_less a b =
     (if ri_sequence (snd a) \<noteq> ri_sequence (snd b) then ri_sequence (snd a) < ri_sequence (snd b)
      else ri_id (snd a) < ri_id (snd b))"

fun check_chain ::
  "store_directory \<Rightarrow> string \<Rightarrow> nat \<Rightarrow> string \<Rightarrow> (string \<times> revision_info) list \<Rightarrow> unit result" where
  "check_chain sd root_id i parent [] = Inr ()"
| "check_chain sd root_id i parent ((name, r) # rest) =
     (if ri_sequence r \<noteq> of_nat i \<or> name \<noteq> commit_filename r \<or>
         (i = 0 \<and> (ri_id r \<noteq> root_id \<or> ri_parent r \<noteq> [])) \<or> (i \<noteq> 0 \<and> ri_parent r \<noteq> parent)
      then failure CorruptData ''memory-store commit chain is invalid'' (ri_id r)
      else if map_of (sd_revisions sd) (ri_id r) = None
      then failure CorruptData ''memory-store revision payload is missing'' (ri_id r)
      else check_chain sd root_id (i + 1) (ri_id r) rest)"

definition revision_path :: "string \<Rightarrow> string \<Rightarrow> string" where
  "revision_path directory i = in_directory (in_directory directory ''revisions'') i"

definition load_directory :: "load_options \<Rightarrow> string \<Rightarrow> memory_directory option \<Rightarrow> safety_memory result" where
  "load_directory opts path d =
     load_safety_memory opts path (case d of None \<Rightarrow> (\<lambda>_. None) | Some d \<Rightarrow> read_directory d)"

definition load_revision :: "store_directory \<Rightarrow> memory_store \<Rightarrow> string \<Rightarrow> safety_memory result" where
  "load_revision sd s i =
     (if \<not> valid_sha256 i then failure InvalidArgument ''memory-store revision ID is invalid'' []
      else (case find (\<lambda>r. ri_id r = i) (ms_revisions s) of
          None \<Rightarrow> failure InvalidArgument ''memory-store revision is not registered'' i
        | Some r \<Rightarrow>
            rbind (load_directory (so_load (ms_options s)) (revision_path (ms_directory s) i)
                     (map_of (sd_revisions sd) i)) (\<lambda>m.
              if memory_identity m \<noteq> ri_memory r
              then failure CorruptData ''memory-store revision payload identity mismatch'' i
              else Inr m)))"

definition load_current :: "store_directory \<Rightarrow> memory_store \<Rightarrow> safety_memory result" where
  "load_current sd s =
     (if ms_revisions s = [] \<or> ms_current s = []
      then failure InvalidArgument ''memory-store object is not initialized'' []
      else load_revision sd s (ms_current s))"

definition open_store :: "store_options \<Rightarrow> string \<Rightarrow> store_directory \<Rightarrow> memory_store result" where
  "open_store opts directory sd =
     (if directory = [] \<or> so_maximum_revisions opts = 0 \<or> so_maximum_metadata opts = 0 \<or>
         ld_maximum_artifacts (so_load opts) = 0 \<or> ld_maximum_events (so_load opts) = 0 \<or>
         ld_maximum_payload (so_load opts) = 0
      then failure InvalidArgument ''memory-store open options are invalid'' []
      else rbind (read_bounded_json (in_directory directory ''manifest.json'') (sd_manifest sd)
                    (so_maximum_metadata opts)) (\<lambda>document.
        rbind (validate_store_root document) (\<lambda>root_id.
          case sd_commits sd of
            None \<Rightarrow> failure CorruptData ''memory-store commits directory is missing'' []
          | Some entries \<Rightarrow>
              rbind (decode_entries opts (in_directory directory ''commits'') 0 entries) (\<lambda>decoded.
                if decoded = [] then failure CorruptData ''memory store contains no commits'' []
                else (let rs = sort_by commit_less decoded
                      in rbind (check_chain sd root_id 0 [] rs) (\<lambda>_.
                           let s = \<lparr>ms_directory = directory, ms_current = ri_id (snd (last rs)),
                                    ms_revisions = map snd rs, ms_options = opts\<rparr>
                           in rbind (load_current sd s) (\<lambda>_. Inr s)))))))"

section \<open>Writing a store\<close>

datatype store_step =
    InspectStore | CreateStoreParent | CreateStoreTemporary | SaveMemory save_step | WriteRoot | WriteCommit
  | PublishStore | AcquireLock | InspectCommit | RenameCommit

definition next_revision :: "u64 \<Rightarrow> string \<Rightarrow> string \<Rightarrow> revision_info" where
  "next_revision seq parent memory =
     (let r = \<lparr>ri_sequence = seq, ri_id = [], ri_parent = parent, ri_memory = memory\<rparr>
      in r\<lparr>ri_id := safety_memory_revision_identity r\<rparr>)"

definition parent_path :: "string \<Rightarrow> string" where
  "parent_path d =
     (let p = rev (dropWhile (\<lambda>c. c = CHR ''/'') (dropWhile (\<lambda>c. c \<noteq> CHR ''/'') (rev d)))
      in if p = [] \<and> CHR ''/'' \<in> set d then ''/'' else p)"

definition create_store ::
  "string \<Rightarrow> (store_step \<Rightarrow> error option) \<Rightarrow> string \<Rightarrow> string \<Rightarrow> store_options \<Rightarrow> safety_memory \<Rightarrow>
     store_directory option \<Rightarrow> (memory_store result \<times> store_directory option)" where
  "create_store version io directory temporary default_options m existing =
     (if no_specific_directory directory \<or> \<not> memory_valid m
      then (failure InvalidArgument ''memory-store creation input is invalid'' [], existing)
      else if existing \<noteq> None
      then (failure IoError ''memory-store destination already exists'' directory, existing)
      else if io InspectStore \<noteq> None
      then (failure IoError ''failed to inspect memory-store destination'' directory, existing)
      else if CHR ''/'' \<in> set directory \<and> io CreateStoreParent \<noteq> None
      then (failure IoError ''failed to create memory-store parent'' (parent_path directory), existing)
      else if io CreateStoreTemporary \<noteq> None
      then (failure IoError ''failed to create temporary memory store'' [], existing)
      else (let r = next_revision 0 [] (memory_identity m)
            in case save_safety_memory version (\<lambda>step. io (SaveMemory step)) m
                      (revision_path temporary (ri_id r)) False None of
                 (Inl e, _) \<Rightarrow> (Inl e, existing)
               | (Inr _, saved) \<Rightarrow>
                   (case io WriteRoot of Some e \<Rightarrow> (Inl e, existing)
                    | None \<Rightarrow> (case io WriteCommit of Some e \<Rightarrow> (Inl e, existing)
                      | None \<Rightarrow>
                          (if io PublishStore \<noteq> None
                           then (failure IoError ''failed to publish safety-memory store'' [], existing)
                           else (Inr \<lparr>ms_directory = directory, ms_current = ri_id r, ms_revisions = [r],
                                      ms_options = default_options\<rparr>,
                                 Some \<lparr>sd_manifest = Some (document_text (root_document version (ri_id r))),
                                       sd_commits = Some [(commit_filename r,
                                          Some (document_text (commit_document version r)))],
                                       sd_revisions = [(ri_id r, the saved)], sd_locked = False\<rparr>))))))"

datatype disk_write =
    SetLock bool
  | AddRevision string memory_directory
  | AddEntry string string
  | RemoveEntry string
  | RenameEntry string string

fun apply_write :: "store_directory \<Rightarrow> disk_write \<Rightarrow> store_directory" where
  "apply_write sd (SetLock b) = sd\<lparr>sd_locked := b\<rparr>"
| "apply_write sd (AddRevision i d) = sd\<lparr>sd_revisions := sd_revisions sd @ [(i, d)]\<rparr>"
| "apply_write sd (AddEntry name text) =
     sd\<lparr>sd_commits := map_option (\<lambda>es. es @ [(name, Some text)]) (sd_commits sd)\<rparr>"
| "apply_write sd (RemoveEntry name) =
     sd\<lparr>sd_commits := map_option (filter (\<lambda>e. fst e \<noteq> name)) (sd_commits sd)\<rparr>"
| "apply_write sd (RenameEntry old new) =
     sd\<lparr>sd_commits := map_option (map (\<lambda>(n, file). (if n = old then new else n, file))) (sd_commits sd)\<rparr>"

text \<open>
  \<open>write_immutable_file\<close> in \<^verbatim>\<open>commits/\<close>: the result and the writes. \<open>temporary\<close> is the name
  with the suffix \<open>unique_sibling\<close> gives it.
\<close>

definition write_immutable_file ::
  "(store_step \<Rightarrow> error option) \<Rightarrow> string \<Rightarrow> store_directory \<Rightarrow> string \<Rightarrow> string \<Rightarrow> string \<Rightarrow>
     unit result \<times> disk_write list" where
  "write_immutable_file io directory sd name temporary text =
     (let path = in_directory (in_directory directory ''commits'') name
      in if name \<in> fst ` set (case sd_commits sd of None \<Rightarrow> [] | Some es \<Rightarrow> es)
         then (failure IdentityMismatch ''immutable memory-store record already exists'' path, [])
         else (case io WriteCommit of
             Some e \<Rightarrow> (Inl e, [AddEntry temporary text])
           | None \<Rightarrow>
               (if io RenameCommit \<noteq> None
                then (failure IoError ''failed to publish immutable memory-store record'' path,
                      [AddEntry temporary text, RemoveEntry temporary])
                else (Inr (), [AddEntry temporary text, RenameEntry temporary name]))))"

text \<open>The name \<open>unique_sibling\<close> gives a file that is still written; \<open>nonce\<close> stands for the clock.\<close>

definition temporary_name :: "revision_info \<Rightarrow> string \<Rightarrow> string" where
  "temporary_name r nonce = commit_filename r @ ''.tmp-'' @ nonce"

text \<open>
  \<open>SafetyMemoryStore::publish\<close>: the result, the new store with the revision, and the writes.
  The lock is released on every way out.
\<close>

definition publish_revision ::
  "string \<Rightarrow> string \<Rightarrow> (store_step \<Rightarrow> error option) \<Rightarrow> memory_store \<Rightarrow> store_directory \<Rightarrow> safety_memory \<Rightarrow>
     string \<Rightarrow> nat \<Rightarrow> memory_store \<Rightarrow> (memory_store \<times> revision_info) result \<times> disk_write list" where
  "publish_revision version nonce io s sd m expected maximum fresh =
     (if ms_current fresh \<noteq> expected
      then (failure IdentityMismatch ''memory-store current revision changed'' (ms_current fresh), [])
      else if ri_memory (last (ms_revisions fresh)) = memory_identity m
      then (Inr (fresh, last (ms_revisions fresh)), [])
      else if length (ms_revisions fresh) \<ge> min maximum (so_maximum_revisions (ms_options s))
      then (failure ResourceLimit ''memory-store revision limit reached'' [], [])
      else if ri_sequence (last (ms_revisions fresh)) = - 1
      then (failure ResourceLimit ''memory-store sequence is exhausted'' [], [])
      else (let r = next_revision (ri_sequence (last (ms_revisions fresh)) + 1) (ms_current fresh) (memory_identity m);
                path = revision_path (ms_directory s) (ri_id r);
                name = commit_filename r;
                (saved, writes) =
                  (case map_of (sd_revisions sd) (ri_id r) of
                     Some d \<Rightarrow>
                       (case load_directory (so_load (ms_options s)) path (Some d) of
                          Inl _ \<Rightarrow> (failure CorruptData ''orphan memory-store revision is inconsistent'' (ri_id r), [])
                        | Inr orphan \<Rightarrow>
                            (if memory_identity orphan \<noteq> ri_memory r
                             then (failure CorruptData ''orphan memory-store revision is inconsistent'' (ri_id r), [])
                             else (Inr (), [])))
                   | None \<Rightarrow>
                       (case save_safety_memory version (\<lambda>step. io (SaveMemory step)) m path False None of
                          (Inl e, _) \<Rightarrow> (Inl e, [])
                        | (Inr _, d) \<Rightarrow> (Inr (), [AddRevision (ri_id r) (the d)])))
            in case saved of
                 Inl e \<Rightarrow> (Inl e, writes)
               | Inr _ \<Rightarrow>
                   (case write_immutable_file io (ms_directory s) sd name (temporary_name r nonce)
                           (document_text (commit_document version r)) of
                      (Inl e, more_writes) \<Rightarrow> (Inl e, writes @ more_writes)
                    | (Inr _, more_writes) \<Rightarrow>
                        (Inr (fresh\<lparr>ms_revisions := ms_revisions fresh @ [r], ms_current := ri_id r\<rparr>, r),
                         writes @ more_writes))))"

definition publish_memory ::
  "string \<Rightarrow> string \<Rightarrow> (store_step \<Rightarrow> error option) \<Rightarrow> memory_store \<Rightarrow> store_directory \<Rightarrow> safety_memory \<Rightarrow>
     string \<Rightarrow> nat \<Rightarrow> (memory_store \<times> revision_info) result \<times> disk_write list" where
  "publish_memory version nonce io s sd m expected maximum =
     (let lock_path = in_directory (ms_directory s) ''.writer-lock''
      in if \<not> memory_valid m \<or> \<not> valid_sha256 expected \<or> maximum = 0
         then (failure InvalidArgument ''memory-store publish request is invalid'' [], [])
         else if io AcquireLock \<noteq> None
         then (failure IoError ''failed to acquire safety-memory store writer lock'' lock_path, [])
         else if sd_locked sd
         then (failure ResourceLimit ''safety-memory store writer lock is already held'' lock_path, [])
         else (let held = apply_write sd (SetLock True)
               in case open_store (ms_options s) (ms_directory s) held of
                    Inl e \<Rightarrow> (Inl e, [SetLock True, SetLock False])
                  | Inr fresh \<Rightarrow>
                      (let (r, writes) = publish_revision version nonce io s held m expected maximum fresh
                       in (r, SetLock True # writes @ [SetLock False]))))"

end
