(* ===== verification/Memory_Store_Laws.thy ===== *)
theory Memory_Store_Laws
  imports Memory_Store
begin

text \<open>
  The store refines a list of memories: \<open>represents\<close> says that a directory holds the chain of
  commits of such a list, opening the directory then gives that chain, every revision loads
  the memory it was published with, and each write of a publication, at whatever point a crash
  cuts it off, leaves the directory of the old list or of the extended one.
\<close>

section \<open>Revisions\<close>

lemma next_revision_simps [simp]:
  "ri_sequence (next_revision seq parent memory) = seq" "ri_parent (next_revision seq parent memory) = parent"
  "ri_memory (next_revision seq parent memory) = memory"
  "safety_memory_revision_identity (next_revision seq parent memory) = ri_id (next_revision seq parent memory)"
  "valid_sha256 (ri_id (next_revision seq parent memory))"
  by (simp_all add: next_revision_def Let_def safety_memory_revision_identity_def)
    (simp add: safety_memory_revision_json_def)

fun revisions_from :: "u64 \<Rightarrow> string \<Rightarrow> safety_memory list \<Rightarrow> revision_info list" where
  "revisions_from seq parent [] = []"
| "revisions_from seq parent (m # ms) =
     (let r = next_revision seq parent (memory_identity m) in r # revisions_from (seq + 1) (ri_id r) ms)"

abbreviation chain :: "safety_memory list \<Rightarrow> revision_info list" where
  "chain ms \<equiv> revisions_from 0 [] ms"

lemma length_revisions_from [simp]: "length (revisions_from seq parent ms) = length ms"
  by (induction ms arbitrary: seq parent) (simp_all add: Let_def)

lemma revisions_from_Nil [simp]: "revisions_from seq parent ms = [] \<longleftrightarrow> ms = []"
  by (metis length_revisions_from length_0_conv)

lemma revisions_from_append:
  "revisions_from seq parent (ms @ [m]) = revisions_from seq parent ms @
     [next_revision (seq + of_nat (length ms))
        (if ms = [] then parent else ri_id (last (revisions_from seq parent ms))) (memory_identity m)]"
  by (induction ms arbitrary: seq parent) (auto simp: Let_def add.assoc)

lemma revisions_from_sequence:
  "k < length ms \<Longrightarrow> ri_sequence (revisions_from seq parent ms ! k) = seq + of_nat k"
proof (induction ms arbitrary: seq parent k)
  case (Cons m ms)
  then show ?case by (cases k) (simp_all add: Let_def add.assoc add.commute)
qed simp

lemma revisions_from_memory: "map ri_memory (revisions_from seq parent ms) = map memory_identity ms"
  by (induction ms arbitrary: seq parent) (simp_all add: Let_def)

lemma valid_memory_identity [simp]: "valid_sha256 (memory_identity m)"
  by (simp add: memory_identity_def)

definition revision_ok :: "revision_info \<Rightarrow> bool" where
  "revision_ok r \<longleftrightarrow> validate_revision r = Inr ()"

lemma revisions_ok:
  "unat seq + length ms \<le> 2 ^ 64 \<Longrightarrow> (seq = 0 \<and> parent = []) \<or> (seq \<noteq> 0 \<and> valid_sha256 parent) \<Longrightarrow>
     r \<in> set (revisions_from seq parent ms) \<Longrightarrow> revision_ok r"
proof (induction ms arbitrary: seq parent)
  case (Cons m ms)
  let ?r = "next_revision seq parent (memory_identity m)"
  have r: "revision_ok ?r" using Cons.prems(2) by (auto simp: revision_ok_def validate_revision_def word_neq_0_conv)
  have "revision_ok r" if "r \<in> set (revisions_from (seq + 1) (ri_id ?r) ms)" "ms \<noteq> []"
  proof (rule Cons.IH [OF _ _ that(1)])
    have lt: "unat seq + 1 < 2 ^ 64" using Cons.prems(1) that(2) by (cases ms) simp_all
    then have s: "unat (seq + 1) = unat seq + 1" by (simp add: unat_word_ariths)
    then show "unat (seq + 1) + length ms \<le> 2 ^ 64" using Cons.prems(1) by simp
    have "seq + 1 \<noteq> 0" using s by auto
    then show "(seq + 1 = 0 \<and> ri_id ?r = []) \<or> (seq + 1 \<noteq> 0 \<and> valid_sha256 (ri_id ?r))" by simp
  qed
  with r Cons.prems(3) show ?case by (cases "ms = []") (auto simp: Let_def)
qed simp

lemma chain_ok: "length ms \<le> 2 ^ 64 \<Longrightarrow> r \<in> set (chain ms) \<Longrightarrow> revision_ok r"
  by (rule revisions_ok [of 0]) simp_all

section \<open>Documents\<close>

definition version_ok :: "string \<Rightarrow> bool" where
  "version_ok version \<longleftrightarrow> version \<noteq> [] \<and> length version \<le> kMaximumMetadataStringBytes"

lemma digest_text [simp]: "valid_sha256 s \<Longrightarrow> s \<noteq> []" "valid_sha256 s \<Longrightarrow> length s \<le> kMaximumMetadataStringBytes"
  using valid_sha256_length [of s] by (auto simp: kMaximumMetadataStringBytes_def)

lemma store_digest:
  "map_of kvs k = Some (JStr s) \<Longrightarrow> valid_sha256 s \<Longrightarrow> store_string b (json_object kvs) k = Inr s"
  by (rule string_field_written) simp_all

lemma store_decimal_written:
  assumes "map_of kvs k = Some (JStr (to_string n))"
  shows "store_decimal (json_object kvs) k = Inr n"
proof -
  have "length (to_string n) \<le> kMaximumMetadataStringBytes"
    using length_to_string [of n] by (simp add: kMaximumMetadataStringBytes_def)
  then show ?thesis by (simp add: store_decimal_def string_field_written [OF assms])
qed

lemma one_equal [simp]: "f64_eq (f64_of_nat (Suc 0)) (f64_of_nat (Suc 0))"
proof -
  have "isfinite (f64_of_nat (Suc 0))" by (rule f64_of_nat_exact) (simp add: hidden_bit_def)
  then show ?thesis by (auto simp: f64_eq_def isfinite_def isnan_def)
qed

lemma storable_document:
  assumes "list_all (\<lambda>(k, v). json_ok 63 v) payload"
  shows "storable (store_document version payload)"
proof -
  have "json_ok (Suc 63) (store_document version payload)"
    unfolding store_document_def by (intro json_ok_object) (use assms in simp)
  then show ?thesis by (simp add: storable_def eval_nat_numeral)
qed

lemma storable_documents: "storable (root_document version i)" "storable (commit_document version r)"
  unfolding root_document_def commit_document_def
  by (rule storable_document; simp add: root_payload_def commit_payload_def)+

lemma require_schema_written:
  assumes "version_ok version" "map_of payload ''format'' = Some (JStr format)" "map_of payload ''schema'' = Some (json_int 1)"
    "map_of payload ''library_version'' = None" "format \<noteq> []" "length format \<le> kMaximumMetadataStringBytes"
  shows "require_schema (store_document version payload) format = Inr ()"
proof -
  have "store_string False (store_document version payload) ''library_version'' = Inr version"
    "store_string False (store_document version payload) ''format'' = Inr format"
    "json_find (store_document version payload) ''schema'' = Some (JNum (f64_of_nat (Suc 0)))"
    unfolding store_document_def using assms
    by (simp_all add: field_simps_of version_ok_def map_add_def json_int_def)
  then show ?thesis by (simp add: require_schema_def Let_def)
qed

lemma decode_commit_written:
  assumes "version_ok version" "revision_ok r"
  shows "decode_commit (commit_document version r) = Inr r"
proof -
  have ids: "valid_sha256 (ri_id r)" "valid_sha256 (ri_memory r)" "ri_parent r = [] \<or> valid_sha256 (ri_parent r)"
    and ok: "validate_revision r = Inr ()"
    using assms(2) by (auto simp: revision_ok_def validate_revision_def Let_def split: if_splits)
  have s: "require_schema (commit_document version r) ''rbfsafe-safety-memory-commit'' = Inr ()"
    unfolding commit_document_def
    by (rule require_schema_written [OF assms(1)]) (simp_all add: commit_payload_def kMaximumMetadataStringBytes_def)
  have p: "length (ri_parent r) \<le> kMaximumMetadataStringBytes" using ids(3) by auto
  have f: "store_string False (commit_document version r) ''id'' = Inr (ri_id r)"
    "store_string False (commit_document version r) ''memory_id'' = Inr (ri_memory r)"
    "store_string True (commit_document version r) ''parent_id'' = Inr (ri_parent r)"
    "store_string False (commit_document version r) ''identity'' = Inr (sha256 (canonical (json_object (commit_payload r))))"
    "store_decimal (commit_document version r) ''sequence'' = Inr (ri_sequence r)"
    unfolding commit_document_def store_document_def commit_payload_def
    using ids(1,2) p by (simp_all add: store_digest store_decimal_written string_field_written)
  have eta: "\<lparr>ri_sequence = ri_sequence r, ri_id = ri_id r, ri_parent = ri_parent r, ri_memory = ri_memory r\<rparr> = r" by simp
  show ?thesis by (simp add: decode_commit_def s f Let_def eta ok del: revision_info.surjective)
qed

lemma validate_store_root_written:
  assumes "version_ok version" "valid_sha256 i"
  shows "validate_store_root (root_document version i) = Inr i"
proof -
  have s: "require_schema (root_document version i) ''rbfsafe-safety-memory-store'' = Inr ()"
    unfolding root_document_def
    by (rule require_schema_written [OF assms(1)]) (simp_all add: root_payload_def kMaximumMetadataStringBytes_def)
  have f: "store_string False (root_document version i) ''root_revision_id'' = Inr i"
    "store_string False (root_document version i) ''identity'' = Inr (sha256 (canonical (json_object (root_payload i))))"
    unfolding root_document_def store_document_def root_payload_def
    using assms(2) by (simp_all add: store_digest)
  show ?thesis using assms(2) by (simp add: validate_store_root_def s f Let_def)
qed

definition text_fits :: "store_options \<Rightarrow> json \<Rightarrow> bool" where
  "text_fits opts j \<longleftrightarrow> length (document_text j) \<le> so_maximum_metadata opts \<and> length (document_text j) \<le> json_file_limit"

lemma read_document:
  "storable j \<Longrightarrow> text_fits opts j \<Longrightarrow> read_bounded_json path (Some (document_text j)) (so_maximum_metadata opts) = Inr j"
  by (simp add: read_bounded_json_def text_fits_def document_text_def read_written del: append_assoc length_append)

section \<open>Commit files\<close>

definition commit_entry :: "string \<Rightarrow> revision_info \<Rightarrow> string \<times> string option" where
  "commit_entry version r = (commit_filename r, Some (document_text (commit_document version r)))"

lemma commit_extension [simp]: "has_json_extension (commit_filename r)"
  by (simp add: has_json_extension_def commit_filename_def sequence_filename_def Let_def)

definition is_commit :: "string \<times> string option \<Rightarrow> bool" where
  "is_commit e \<longleftrightarrow> snd e \<noteq> None \<and> has_json_extension (fst e)"

definition is_junk :: "string \<times> string option \<Rightarrow> bool" where
  "is_junk e \<longleftrightarrow> \<not> is_commit e \<and> contains_text (fst e) ''.tmp-''"

lemma commit_entry_is_commit [simp]: "is_commit (commit_entry version r)"
  by (simp add: is_commit_def commit_entry_def)

lemma commit_entry_inj:
  assumes "version_ok version" "revision_ok r" "revision_ok r'" "commit_entry version r = commit_entry version r'"
  shows "r = r'"
proof -
  have "commit_document version r = commit_document version r'"
  proof -
    have "document_text (commit_document version r) = document_text (commit_document version r')"
      using assms(4) by (simp add: commit_entry_def)
    from arg_cong [where f = json_parse, OF this]
    have "Inr (commit_document version r) = (Inr (commit_document version r') :: json result)"
      by (simp only: document_text_def parse_written [OF storable_documents(2)])
    then show ?thesis by simp
  qed
  from arg_cong [where f = decode_commit, OF this] show ?thesis
    by (simp only: decode_commit_written [OF assms(1,2)] decode_commit_written [OF assms(1,3)] sum.inject)
qed

lemma decode_entries_written:
  assumes "version_ok version" "\<forall>r\<in>R. revision_ok r \<and> text_fits opts (commit_document version r)"
    and "\<forall>e\<in>set es. is_junk e \<or> e \<in> commit_entry version ` R"
    and "n + length (filter is_commit es) \<le> so_maximum_revisions opts"
  shows "\<exists>ds. decode_entries opts path n es = Inr ds \<and> filter is_commit es = map (commit_entry version) (map snd ds) \<and>
     (\<forall>d\<in>set ds. fst d = commit_filename (snd d) \<and> snd d \<in> R)"
  using assms(3,4)
proof (induction es arbitrary: n)
  case (Cons e es)
  obtain name content where e: "e = (name, content)" by (cases e)
  show ?case
  proof (cases "is_commit e")
    case True
    then obtain r where r: "r \<in> R" "e = commit_entry version r" using Cons.prems(1) by (auto simp: is_junk_def)
    obtain ds where ds: "decode_entries opts path (n + 1) es = Inr ds" "filter is_commit es = map (commit_entry version) (map snd ds)"
      "\<forall>d\<in>set ds. fst d = commit_filename (snd d) \<and> snd d \<in> R"
      using Cons.IH [of "n + 1"] Cons.prems True by auto
    have c: "decode_commit (commit_document version r) = Inr r" using decode_commit_written [OF assms(1)] assms(2) r(1) by blast
    have "decode_entries opts path n (e # es) = Inr ((commit_filename r, r) # ds)"
      using r(1) assms(2) Cons.prems(2) True ds(1) c read_document [OF storable_documents(2)]
      by (simp add: r(2) commit_entry_def)
    then show ?thesis using ds r True by (intro exI [of _ "(commit_filename r, r) # ds"]) simp
  next
    case False
    then have "contains_text name ''.tmp-''" using Cons.prems(1) by (auto simp: e is_junk_def)
    with Cons.IH [of n] Cons.prems False show ?thesis by (auto simp: e is_commit_def)
  qed
qed simp

section \<open>The directory of a list of memories\<close>

definition entries_hold :: "string \<Rightarrow> revision_info list \<Rightarrow> (string \<times> string option) list \<Rightarrow> bool" where
  "entries_hold version rs es \<longleftrightarrow> (\<forall>e\<in>set es. is_commit e \<or> is_junk e) \<and> distinct (filter is_commit es) \<and>
     set (filter is_commit es) = commit_entry version ` set rs"

definition represents :: "string \<Rightarrow> store_options \<Rightarrow> store_directory \<Rightarrow> safety_memory list \<Rightarrow> bool" where
  "represents version opts sd ms \<longleftrightarrow> version_ok version \<and> ms \<noteq> [] \<and> length ms \<le> so_maximum_revisions opts \<and>
     length ms < 2 ^ 64 \<and> (\<forall>m\<in>set ms. memory_valid m \<and> loadable (so_load opts) version m) \<and>
     distinct (map ri_id (chain ms)) \<and> (\<forall>r\<in>set (chain ms). text_fits opts (commit_document version r)) \<and>
     text_fits opts (root_document version (ri_id (hd (chain ms)))) \<and>
     sd_manifest sd = Some (document_text (root_document version (ri_id (hd (chain ms))))) \<and>
     (\<exists>es. sd_commits sd = Some es \<and> entries_hold version (chain ms) es) \<and>
     (\<forall>k<length ms. map_of (sd_revisions sd) (ri_id (chain ms ! k)) = Some (saved_directory version (ms ! k)))"

definition commit_key :: "string \<times> revision_info \<Rightarrow> u64 \<times> string" where
  "commit_key d = (ri_sequence (snd d), ri_id (snd d))"

lemma commit_less_key: "commit_less a b \<longleftrightarrow> commit_key a < commit_key b"
  by (auto simp: commit_less_def commit_key_def less_prod_def)

definition named :: "revision_info list \<Rightarrow> (string \<times> revision_info) list" where
  "named rs = map (\<lambda>r. (commit_filename r, r)) rs"

lemma chain_sequence:
  assumes "k < length ms" "length ms < 2 ^ 64"
  shows "ri_sequence (chain ms ! k) = of_nat k" "unat (ri_sequence (chain ms ! k)) = k"
  using revisions_from_sequence [OF assms(1), of 0 "[]"] assms by (simp_all add: unat_u64_of_nat)

lemma chain_sorted:
  assumes "length ms < 2 ^ 64"
  shows "sorted_wrt (<) (map commit_key (named (chain ms)))"
proof -
  have "ri_sequence (chain ms ! i) < ri_sequence (chain ms ! j)" if "i < j" "j < length ms" for i j
    using chain_sequence(2) [of i ms] chain_sequence(2) [of j ms] that assms by (simp add: word_less_nat_alt)
  then show ?thesis
    by (auto simp: sorted_wrt_iff_nth_less commit_key_def named_def less_prod_def)
qed

lemma sort_decoded:
  assumes "length ms < 2 ^ 64" "set ds = set (named (chain ms))" "distinct ds"
  shows "sort_by commit_less ds = named (chain ms)"
  using chain_sorted [OF assms(1)] assms(2,3) by (rule sort_by_unique [OF commit_less_key])

lemma check_chain_named:
  "\<forall>r\<in>set (revisions_from seq parent ms). map_of (sd_revisions sd) (ri_id r) \<noteq> None \<Longrightarrow> seq = of_nat i \<Longrightarrow>
     i = 0 \<longrightarrow> parent = [] \<and> root_id = ri_id (hd (revisions_from seq parent ms)) \<Longrightarrow>
     check_chain sd root_id i parent (named (revisions_from seq parent ms)) = Inr ()"
proof (induction ms arbitrary: seq parent i)
  case (Cons m ms)
  have "check_chain sd root_id (i + 1) (ri_id (next_revision seq parent (memory_identity m)))
      (named (revisions_from (seq + 1) (ri_id (next_revision seq parent (memory_identity m))) ms)) = Inr ()"
    using Cons.prems by (intro Cons.IH) (auto simp: Let_def)
  with Cons.prems show ?case by (auto simp: Let_def named_def)
qed (simp add: named_def)

lemma decode_represented:
  assumes "represents version opts sd ms" "sd_commits sd = Some es"
  shows "\<exists>ds. decode_entries opts path 0 es = Inr ds \<and> sort_by commit_less ds = named (chain ms)"
proof -
  have v: "version_ok version" and len: "length ms < 2 ^ 64" "length ms \<le> so_maximum_revisions opts"
    and fit: "\<forall>r\<in>set (chain ms). text_fits opts (commit_document version r)"
    and e: "entries_hold version (chain ms) es"
    using assms by (auto simp: represents_def)
  have ok: "\<forall>r\<in>set (chain ms). revision_ok r" using chain_ok less_imp_le [OF len(1)] by blast
  have inj: "inj_on (commit_entry version) (set (chain ms))"
    using commit_entry_inj [OF v] ok by (auto intro: inj_onI)
  have fd: "distinct (filter is_commit es)" "set (filter is_commit es) = commit_entry version ` set (chain ms)"
    using e by (simp_all add: entries_hold_def)
  have "length (filter is_commit es) = card (set (filter is_commit es))" using distinct_card [OF fd(1)] by simp
  also have "\<dots> = card (commit_entry version ` set (chain ms))" by (simp only: fd(2))
  also have "\<dots> \<le> card (set (chain ms))" by (rule card_image_le) simp
  also have "\<dots> \<le> length ms" using card_length [of "chain ms"] by simp
  finally have cnt: "0 + length (filter is_commit es) \<le> so_maximum_revisions opts" using len(2) by simp
  have "\<forall>e\<in>set es. is_junk e \<or> e \<in> commit_entry version ` set (chain ms)"
  proof
    fix x assume x: "x \<in> set es"
    show "is_junk x \<or> x \<in> commit_entry version ` set (chain ms)"
    proof (cases "is_commit x")
      case True
      then have "x \<in> set (filter is_commit es)" using x by simp
      then show ?thesis by (simp only: fd(2)) simp
    qed (use e x in \<open>auto simp: entries_hold_def\<close>)
  qed
  from decode_entries_written [OF v _ this cnt, of path] ok fit obtain ds where
    ds: "decode_entries opts path 0 es = Inr ds" "filter is_commit es = map (commit_entry version) (map snd ds)"
      "\<forall>d\<in>set ds. fst d = commit_filename (snd d) \<and> snd d \<in> set (chain ms)" by auto
  have dd: "distinct (map (commit_entry version) (map snd ds))" using fd(1) ds(2) by simp
  have "commit_entry version ` set (map snd ds) = commit_entry version ` set (chain ms)"
    using fd(2) ds(2) by (metis set_map)
  then have "set (map snd ds) = set (chain ms)"
    using inj_on_image_eq_iff [OF inj, of "set (map snd ds)" "set (chain ms)"] ds(3) by auto
  then have "(\<lambda>r. (commit_filename r, r)) ` set (map snd ds) = set (named (chain ms))"
    by (simp only: named_def set_map)
  moreover have "map (\<lambda>r. (commit_filename r, r)) (map snd ds) = ds"
    unfolding map_map by (rule map_idI) (use ds(3) in \<open>simp add: prod_eq_iff\<close>)
  ultimately have "set ds = set (named (chain ms))" by (metis set_map)
  moreover have "distinct ds" using dd unfolding distinct_map by blast
  ultimately show ?thesis using sort_decoded [OF len(1)] ds(1) by blast
qed

section \<open>Opening and loading\<close>

definition store_of :: "store_options \<Rightarrow> string \<Rightarrow> safety_memory list \<Rightarrow> memory_store" where
  "store_of opts d ms = \<lparr>ms_directory = d, ms_current = ri_id (last (chain ms)), ms_revisions = chain ms,
     ms_options = opts\<rparr>"

lemma revisions_identified: "r \<in> set (revisions_from seq parent ms) \<Longrightarrow> valid_sha256 (ri_id r)"
  by (induction ms arbitrary: seq parent) (auto simp: Let_def)

lemma find_distinct:
  "distinct (map f xs) \<Longrightarrow> k < length xs \<Longrightarrow> find (\<lambda>x. f x = f (xs ! k)) xs = Some (xs ! k)"
proof (induction xs arbitrary: k)
  case (Cons x xs)
  then show ?case
  proof (cases k)
    case (Suc j)
    with Cons.prems have "f x \<noteq> f (xs ! j)" by (auto simp: image_iff dest: nth_mem)
    with Cons Suc show ?thesis by simp
  qed simp
qed simp

lemma load_represented:
  assumes "represents version opts sd ms" "k < length ms"
  shows "load_revision sd (store_of opts d ms) (ri_id (chain ms ! k)) = Inr (ms ! k)"
proof -
  have r: "memory_valid (ms ! k)" "loadable (so_load opts) version (ms ! k)" "distinct (map ri_id (chain ms))"
    "map_of (sd_revisions sd) (ri_id (chain ms ! k)) = Some (saved_directory version (ms ! k))"
    using assms by (simp_all add: represents_def)
  have "ri_memory (chain ms ! k) = map ri_memory (chain ms) ! k" using assms(2) by simp
  also have "\<dots> = memory_identity (ms ! k)" unfolding revisions_from_memory using assms(2) by simp
  finally have m: "ri_memory (chain ms ! k) = memory_identity (ms ! k)" .
  have "chain ms ! k \<in> set (chain ms)" using assms(2) by simp
  then have i: "valid_sha256 (ri_id (chain ms ! k))" by (rule revisions_identified)
  show ?thesis
    using find_distinct [OF r(3), of k] assms(2) r(4) i m load_saved [OF r(1,2)]
    by (simp add: load_revision_def store_of_def load_directory_def)
qed

lemma represents_limits:
  assumes "represents version opts sd ms"
  shows "0 < so_maximum_revisions opts" "0 < so_maximum_metadata opts" "0 < ld_maximum_artifacts (so_load opts)"
    "0 < ld_maximum_events (so_load opts)" "0 < ld_maximum_payload (so_load opts)"
proof -
  have "ms \<noteq> []" using assms by (simp add: represents_def)
  then obtain m where m: "m \<in> set ms" using hd_in_set by blast
  with assms have l: "loadable (so_load opts) version m" by (simp add: represents_def)
  then show "0 < ld_maximum_artifacts (so_load opts)" "0 < ld_maximum_events (so_load opts)"
    by (simp_all add: loadable_def)
  have "0 < length (memory_payload m)" by (simp add: memory_payload_def)
  with l show "0 < ld_maximum_payload (so_load opts)" by (auto simp only: loadable_def intro: less_le_trans)
  have "0 < length ms" using m by auto
  with assms show "0 < so_maximum_revisions opts" by (auto simp only: represents_def intro: less_le_trans)
  have "0 < length (document_text (root_document version (ri_id (hd (chain ms)))))" by (simp add: document_text_def)
  with assms show "0 < so_maximum_metadata opts"
    by (auto simp only: represents_def text_fits_def intro: less_le_trans)
qed

theorem open_represents:
  assumes "represents version opts sd ms" "d \<noteq> []"
  shows "open_store opts d sd = Inr (store_of opts d ms)"
proof -
  let ?root = "ri_id (hd (chain ms))"
  have v: "version_ok version" and ne: "ms \<noteq> []" and fit: "text_fits opts (root_document version ?root)"
    and man: "sd_manifest sd = Some (document_text (root_document version ?root))"
    using assms(1) by (simp_all add: represents_def)
  obtain es where es: "sd_commits sd = Some es" using assms(1) by (auto simp: represents_def)
  have "hd (chain ms) \<in> set (chain ms)" using ne by simp
  then have root: "valid_sha256 ?root" by (rule revisions_identified)
  obtain ds where ds: "decode_entries opts (in_directory d ''commits'') 0 es = Inr ds"
    "sort_by commit_less ds = named (chain ms)"
    using decode_represented [OF assms(1) es] by blast
  have dne: "ds \<noteq> []" using ds(2) ne by (auto simp: named_def)
  have "\<forall>r\<in>set (chain ms). map_of (sd_revisions sd) (ri_id r) \<noteq> None"
    using assms(1) by (auto simp: represents_def in_set_conv_nth)
  then have chk: "check_chain sd ?root 0 [] (named (chain ms)) = Inr ()"
    by (rule check_chain_named) simp_all
  have shape: "\<lparr>ms_directory = d, ms_current = ri_id (snd (last (named (chain ms)))),
      ms_revisions = map snd (named (chain ms)), ms_options = opts\<rparr> = store_of opts d ms"
    using ne by (simp add: store_of_def named_def last_map comp_def)
  have last: "last (chain ms) = chain ms ! (length ms - 1)" "length ms - 1 < length ms"
    using ne by (simp_all add: last_conv_nth)
  have "load_current sd (store_of opts d ms) = Inr (ms ! (length ms - 1))"
    using load_represented [OF assms(1) last(2), of d] ne revisions_identified [of "last (chain ms)" 0 "[]" ms]
    by (simp add: load_current_def store_of_def last(1))
  then show ?thesis
    using assms(2) represents_limits [OF assms(1)] dne
    by (simp add: open_store_def man read_document [OF storable_documents(1) fit]
        validate_store_root_written [OF v root] es ds chk Let_def shape)
qed

section \<open>Names of commit files\<close>

lemma padded_value: "dec_val (replicate n CHR ''0'' @ s) = dec_val s"
  by (induction n) simp_all

lemma sequence_filename_sequence:
  assumes "sequence_filename m i = sequence_filename n j"
  shows "m = n"
proof -
  let ?pad = "\<lambda>n :: u64. replicate (20 - length (to_string n)) CHR ''0'' @ to_string n"
  have pad: "length (?pad n) = 20" for n using length_to_string [of n] by simp
  have "take 20 (sequence_filename n x) = ?pad n" for n x
    unfolding sequence_filename_def Let_def append_assoc [symmetric]
    by (subst take_append) (use pad [of n] in simp)
  with assms have "?pad m = ?pad n" by metis
  then have "dec_val (to_string m) = dec_val (to_string n)" by (metis padded_value)
  then show ?thesis by (simp add: to_string_def word_unat_eq_iff)
qed

lemma commit_filename_sequence: "commit_filename r = commit_filename r' \<Longrightarrow> ri_sequence r = ri_sequence r'"
  unfolding commit_filename_def by (rule sequence_filename_sequence)

lemma sequence_extension [simp]: "has_json_extension (sequence_filename n i)"
  by (simp add: has_json_extension_def sequence_filename_def Let_def)

lemma temporary_is_junk:
  assumes "list_all is_digit nonce"
  shows "is_junk (temporary_name r nonce, content)"
proof -
  let ?t = "temporary_name r nonce"
  have "contains_text ?t ''.tmp-''"
    unfolding contains_text_def list_ex_iff
    by (rule bexI [of _ "length (commit_filename r)"]) (simp_all add: temporary_name_def)
  moreover have "last ?t \<noteq> CHR ''n''"
  proof (cases "nonce = []")
    case False
    then have "is_digit (last nonce)" using assms by (simp add: list_all_iff)
    moreover have "\<not> is_digit CHR ''n''" by code_simp
    ultimately show ?thesis using False by (auto simp: temporary_name_def)
  qed (simp add: temporary_name_def)
  then have "\<not> has_json_extension ?t"
    by (metis has_json_extension_def append_take_drop_id last_append list.simps(3) last.simps)
  ultimately show ?thesis by (simp add: is_junk_def is_commit_def)
qed

section \<open>What each write does\<close>

lemma represents_lock [simp]: "represents version opts (sd\<lparr>sd_locked := b\<rparr>) ms = represents version opts sd ms"
  by (simp add: represents_def)

lemma represents_add_revision:
  "represents version opts sd ms \<Longrightarrow> represents version opts (sd\<lparr>sd_revisions := sd_revisions sd @ [x]\<rparr>) ms"
  by (simp add: represents_def map_add_def)

lemma represents_commits:
  "represents version opts sd ms \<Longrightarrow> entries_hold version (chain ms) es \<Longrightarrow>
     represents version opts (sd\<lparr>sd_commits := Some es\<rparr>) ms"
  by (simp add: represents_def)

lemma entries_add_junk: "entries_hold version rs es \<Longrightarrow> is_junk e \<Longrightarrow> entries_hold version rs (es @ [e])"
  by (auto simp: entries_hold_def is_junk_def)

lemma entries_add_commit:
  assumes "entries_hold version rs es" "commit_entry version r \<notin> commit_entry version ` set rs"
  shows "entries_hold version (rs @ [r]) (es @ [commit_entry version r])"
proof -
  have "filter is_commit (es @ [commit_entry version r]) = filter is_commit es @ [commit_entry version r]" by simp
  with assms show ?thesis unfolding entries_hold_def by (simp del: filter_append set_filter)
qed

definition new_revision :: "safety_memory list \<Rightarrow> safety_memory \<Rightarrow> revision_info" where
  "new_revision ms m = next_revision (of_nat (length ms)) (ri_id (last (chain ms))) (memory_identity m)"

lemma chain_append: "ms \<noteq> [] \<Longrightarrow> chain (ms @ [m]) = chain ms @ [new_revision ms m]"
  by (simp add: revisions_from_append new_revision_def)

text \<open>A memory that fits the limits and whose revision identity is not that of something else.\<close>

definition admissible :: "string \<Rightarrow> store_options \<Rightarrow> store_directory \<Rightarrow> safety_memory list \<Rightarrow> safety_memory \<Rightarrow> bool" where
  "admissible version opts sd ms m \<longleftrightarrow> memory_valid m \<and> loadable (so_load opts) version m \<and>
     text_fits opts (commit_document version (new_revision ms m)) \<and> length ms + 1 < 2 ^ 64 \<and>
     ri_id (new_revision ms m) \<notin> ri_id ` set (chain ms) \<and>
     (\<forall>d. map_of (sd_revisions sd) (ri_id (new_revision ms m)) = Some d \<longrightarrow> d = saved_directory version m)"

lemma represents_extend:
  assumes "represents version opts sd ms" "admissible version opts sd' ms m" "length ms < so_maximum_revisions opts"
    and "sd_commits sd = Some es"
    and "map_of (sd_revisions sd) (ri_id (new_revision ms m)) = Some (saved_directory version m)"
  shows "represents version opts (sd\<lparr>sd_commits := Some (es @ [commit_entry version (new_revision ms m)])\<rparr>) (ms @ [m])"
proof -
  let ?r = "new_revision ms m"
  have ne: "ms \<noteq> []" and len: "length ms < 2 ^ 64" and e: "entries_hold version (chain ms) es"
    using assms(1,4) by (auto simp: represents_def)
  have "ri_sequence r \<noteq> ri_sequence ?r" if r: "r \<in> set (chain ms)" for r
  proof -
    obtain k where k: "k < length ms" "r = chain ms ! k" using r by (auto simp: in_set_conv_nth)
    have "unat (ri_sequence ?r) = length ms" using len by (simp add: new_revision_def unat_u64_of_nat)
    with chain_sequence(2) [OF k(1) len] k show ?thesis by auto
  qed
  then have "commit_entry version ?r \<notin> commit_entry version ` set (chain ms)"
  proof (intro notI, elim imageE)
    fix r assume "commit_entry version ?r = commit_entry version r" "r \<in> set (chain ms)"
    moreover from this(1) have "commit_filename r = commit_filename ?r" by (simp only: commit_entry_def prod.inject)
    ultimately show False
      using \<open>\<And>r. r \<in> set (chain ms) \<Longrightarrow> ri_sequence r \<noteq> ri_sequence ?r\<close> commit_filename_sequence by blast
  qed
  then have "entries_hold version (chain (ms @ [m])) (es @ [commit_entry version ?r])"
    unfolding chain_append [OF ne] by (rule entries_add_commit [OF e])
  moreover have "map_of (sd_revisions sd) (ri_id (chain (ms @ [m]) ! k)) = Some (saved_directory version ((ms @ [m]) ! k))"
    if "k < length (ms @ [m])" for k
    using that assms(1,5) by (auto simp: represents_def chain_append [OF ne] nth_append less_Suc_eq)
  moreover have "hd (chain (ms @ [m])) = hd (chain ms)" using ne by (simp add: chain_append [OF ne])
  ultimately show ?thesis
    using assms(1-3) by (auto simp: represents_def admissible_def chain_append [OF ne])
qed

section \<open>Writing a commit\<close>

text \<open>The steps a directory of \<open>ms\<close> goes through while \<open>m\<close> is published.\<close>

definition either :: "string \<Rightarrow> store_options \<Rightarrow> safety_memory list \<Rightarrow> safety_memory \<Rightarrow> store_directory \<Rightarrow> bool" where
  "either version opts ms m sd \<longleftrightarrow> represents version opts sd ms \<or> represents version opts sd (ms @ [m])"

lemma write_immutable_states:
  assumes "write_immutable_file io d sd (commit_filename r) (temporary_name r nonce)
      (document_text (commit_document version r)) = (res, ws)"
    and "represents version opts sd ms" "admissible version opts sd' ms m" "length ms < so_maximum_revisions opts"
    and "r = new_revision ms m" "map_of (sd_revisions sd) (ri_id r) = Some (saved_directory version m)"
    and "list_all is_digit nonce" "sd_commits sd = Some es" "temporary_name r nonce \<notin> fst ` set es"
  shows "always apply_write (either version opts ms m) sd ws"
    and "represents version opts (foldl apply_write sd ws) (case res of Inr _ \<Rightarrow> ms @ [m] | Inl _ \<Rightarrow> ms)"
proof -
  let ?text = "Some (document_text (commit_document version r))" and ?tmp = "temporary_name r nonce"
  have e: "entries_hold version (chain ms) es" using assms(2,8) by (auto simp: represents_def)
  have junk: "is_junk (?tmp, ?text)" using assms(7) by (rule temporary_is_junk)
  have added: "represents version opts (sd\<lparr>sd_commits := Some (es @ [(?tmp, ?text)])\<rparr>) ms"
    using assms(2) entries_add_junk [OF e junk] by (rule represents_commits)
  have removed: "filter (\<lambda>e. fst e \<noteq> ?tmp) es = es"
    unfolding filter_id_conv using assms(9) by (metis imageI)
  have renamed: "map (\<lambda>(n, file). (if n = ?tmp then commit_filename r else n, file)) es = es"
  proof (rule map_idI)
    fix x assume "x \<in> set es"
    then have "fst x \<noteq> ?tmp" using assms(9) by (metis imageI)
    then show "(\<lambda>(n, file). (if n = ?tmp then commit_filename r else n, file)) x = x" by (cases x) simp
  qed
  have extended: "represents version opts (sd\<lparr>sd_commits := Some (es @ [(commit_filename r, ?text)])\<rparr>) (ms @ [m])"
    using represents_extend [OF assms(2,3,4,8)] assms(5,6) by (simp add: commit_entry_def)
  have restored: "represents version opts (sd\<lparr>sd_commits := Some es\<rparr>) ms"
    using assms(2) e by (rule represents_commits)
  show "always apply_write (either version opts ms m) sd ws"
    "represents version opts (foldl apply_write sd ws) (case res of Inr _ \<Rightarrow> ms @ [m] | Inl _ \<Rightarrow> ms)"
    using assms(1,2) added extended restored
    by (auto simp: write_immutable_file_def either_def assms(8) removed renamed failure_def Let_def
        split: if_splits option.splits)
qed

lemma store_of_extend:
  assumes "ms \<noteq> []"
  shows "(store_of opts d ms)\<lparr>ms_revisions := chain ms @ [new_revision ms m],
     ms_current := ri_id (new_revision ms m)\<rparr> = store_of opts d (ms @ [m])"
  by (simp add: store_of_def chain_append [OF assms])

definition fresh_name :: "store_directory \<Rightarrow> safety_memory list \<Rightarrow> safety_memory \<Rightarrow> string \<Rightarrow> bool" where
  "fresh_name sd ms m nonce \<longleftrightarrow> list_all is_digit nonce \<and>
     (\<forall>es. sd_commits sd = Some es \<longrightarrow> temporary_name (new_revision ms m) nonce \<notin> fst ` set es)"

lemma orphan_accepted:
  assumes "admissible version opts sd ms m" "map_of (sd_revisions sd) (ri_id (new_revision ms m)) = Some d"
  shows "d = saved_directory version m" "load_directory (so_load opts) path (Some d) = Inr m"
  using assms load_saved [of m "so_load opts" version] by (auto simp: admissible_def load_directory_def)

lemma last_revision:
  assumes "ms \<noteq> []" "length ms < 2 ^ 64"
  shows "ri_memory (last (chain ms)) = memory_identity (last ms)"
    and "ri_sequence (last (chain ms)) + 1 = of_nat (length ms)"
    and "next_revision (ri_sequence (last (chain ms)) + 1) (ri_id (last (chain ms))) (memory_identity m) =
      new_revision ms m"
    and "ri_sequence (last (chain ms)) \<noteq> - 1"
proof -
  have "ri_memory (last (chain ms)) = last (map ri_memory (chain ms))" using assms(1) by (simp add: last_map)
  then show "ri_memory (last (chain ms)) = memory_identity (last ms)"
    unfolding revisions_from_memory using assms(1) by (simp add: last_map)
  have "last (chain ms) = chain ms ! (length ms - 1)" using assms(1) by (simp add: last_conv_nth)
  then have "ri_sequence (last (chain ms)) = of_nat (length ms - 1)"
    using chain_sequence(1) [of "length ms - 1" ms] assms by simp
  then show s: "ri_sequence (last (chain ms)) + 1 = of_nat (length ms)"
    using assms(1) by (cases ms) (simp_all add: add.commute)
  then show "next_revision (ri_sequence (last (chain ms)) + 1) (ri_id (last (chain ms))) (memory_identity m) =
      new_revision ms m"
    by (simp add: new_revision_def)
  have "unat (of_nat (length ms) :: u64) = length ms" using assms(2) by (rule unat_u64_of_nat)
  then have "(of_nat (length ms) :: u64) \<noteq> 0" using assms(1) by auto
  then show "ri_sequence (last (chain ms)) \<noteq> - 1" using s by auto
qed

lemma publish_revision_states:
  assumes p: "publish_revision version nonce io s sd m expected maximum (store_of opts d ms) = (res, ws)"
    and s: "ms_options s = opts" "ms_directory s = d"
    and r: "represents version opts sd ms" "admissible version opts sd ms m" "fresh_name sd ms m nonce"
  shows "always apply_write (either version opts ms m) sd ws \<and>
    (case res of Inl _ \<Rightarrow> represents version opts (foldl apply_write sd ws) ms
     | Inr (s', _) \<Rightarrow> (ws = [] \<and> s' = store_of opts d ms \<and> memory_identity m = memory_identity (last ms)) \<or>
        (s' = store_of opts d (ms @ [m]) \<and> represents version opts (foldl apply_write sd ws) (ms @ [m])))"
proof -
  let ?r = "new_revision ms m"
  have ne: "ms \<noteq> []" and len: "length ms < 2 ^ 64" using r(1) by (auto simp: represents_def)
  obtain es where es: "sd_commits sd = Some es" using r(1) by (auto simp: represents_def)
  have ei: "either version opts ms m sd" using r(1) by (simp add: either_def)
  note lm = last_revision(1) [OF ne len] and nr = last_revision(3) [OF ne len]
  have written: "always apply_write (either version opts ms m) sd1 vs \<and>
      represents version opts (foldl apply_write sd1 vs) (case wres of Inr _ \<Rightarrow> ms @ [m] | Inl _ \<Rightarrow> ms)"
    if w: "write_immutable_file io d sd (commit_filename ?r) (temporary_name ?r nonce)
        (document_text (commit_document version ?r)) = (wres, vs)"
      and sd1: "represents version opts sd1 ms" "sd_commits sd1 = sd_commits sd"
        "map_of (sd_revisions sd1) (ri_id ?r) = Some (saved_directory version m)"
      and lt: "length ms < so_maximum_revisions opts" for sd1 wres vs
  proof -
    have w1: "write_immutable_file io d sd1 (commit_filename ?r) (temporary_name ?r nonce)
        (document_text (commit_document version ?r)) = (wres, vs)"
      using w by (simp add: write_immutable_file_def sd1(2))
    have "sd_commits sd1 = Some es" "list_all is_digit nonce" "temporary_name ?r nonce \<notin> fst ` set es"
      using r(3) es sd1(2) by (simp_all add: fresh_name_def)
    with write_immutable_states [OF w1 sd1(1) r(2) lt refl sd1(3)] show ?thesis by blast
  qed
  show ?thesis
  proof (cases "expected = ri_id (last (chain ms)) \<and> memory_identity (last ms) \<noteq> memory_identity m \<and>
      length ms < min maximum (so_maximum_revisions opts) \<and> ri_sequence (last (chain ms)) \<noteq> - 1")
    case False
    then show ?thesis using p ei r(1) by (auto simp: publish_revision_def store_of_def lm s failure_def split: if_splits)
  next
    case True
    obtain wres vs where w: "write_immutable_file io d sd (commit_filename ?r) (temporary_name ?r nonce)
        (document_text (commit_document version ?r)) = (wres, vs)" by force
    have guards: "ms_current (store_of opts d ms) = expected" "ms_revisions (store_of opts d ms) = chain ms"
      using True by (simp_all add: store_of_def)
    show ?thesis
    proof (cases "map_of (sd_revisions sd) (ri_id ?r)")
      case (Some x)
      note orphan = orphan_accepted [OF r(2) Some]
      have "represents version opts (foldl apply_write sd vs) (case wres of Inr _ \<Rightarrow> ms @ [m] | Inl _ \<Rightarrow> ms)"
        "always apply_write (either version opts ms m) sd vs"
        using written [OF w r(1) refl] Some orphan(1) True by simp_all
      moreover have "ri_memory ?r = memory_identity m" by (simp add: new_revision_def)
      ultimately show ?thesis
        using p True store_of_extend [OF ne, where m = m]
        by (auto simp: publish_revision_def guards lm s nr Let_def Some orphan(2) w split: sum.splits)
    next
      case None
      obtain sres after where sv: "save_safety_memory version (\<lambda>step. io (SaveMemory step)) m (revision_path d (ri_id ?r)) False None
          = (sres, after)" by force
      show ?thesis
      proof (cases sres)
        case (Inl e)
        then show ?thesis using p True ei r(1)
          by (auto simp: publish_revision_def guards lm s nr Let_def None sv)
      next
        case (Inr u)
        then have after: "after = Some (saved_directory version m)" using save_outcomes(3) [OF sv] by simp
        let ?sd1 = "apply_write sd (AddRevision (ri_id ?r) (saved_directory version m))"
        have r1: "represents version opts ?sd1 ms" using r(1) by (simp add: represents_add_revision)
        have "map_of (sd_revisions ?sd1) (ri_id ?r) = Some (saved_directory version m)"
          using None by (simp add: map_add_def)
        then have "represents version opts (foldl apply_write ?sd1 vs) (case wres of Inr _ \<Rightarrow> ms @ [m] | Inl _ \<Rightarrow> ms)"
          "always apply_write (either version opts ms m) ?sd1 vs"
          using written [OF w r1] True by simp_all
        then show ?thesis
          using p True ei store_of_extend [OF ne, where m = m]
          by (auto simp: publish_revision_def guards lm s nr Let_def None sv Inr after w split: sum.splits)
      qed
    qed
  qed
qed

section \<open>Publishing\<close>

text \<open>
  What a publication needs: the memory fits, no older revision has the identity and the memory of
  the new one (they differ in sequence and parent, so that would be a collision of SHA-256), and a
  revision directory that is there without its commit holds the memory.
\<close>

definition publishable :: "string \<Rightarrow> store_options \<Rightarrow> store_directory \<Rightarrow> safety_memory list \<Rightarrow> safety_memory \<Rightarrow> bool" where
  "publishable version opts sd ms m \<longleftrightarrow> memory_valid m \<and> loadable (so_load opts) version m \<and>
     text_fits opts (commit_document version (new_revision ms m)) \<and> length ms + 1 < 2 ^ 64 \<and>
     list_all (\<lambda>r. ri_id r = ri_id (new_revision ms m) \<longrightarrow> ri_memory r \<noteq> memory_identity m) (butlast (chain ms)) \<and>
     (ri_id (new_revision ms m) \<notin> ri_id ` set (chain ms) \<longrightarrow>
        (\<forall>d. map_of (sd_revisions sd) (ri_id (new_revision ms m)) = Some d \<longrightarrow> d = saved_directory version m))"

lemma publishable_fresh:
  "publishable version opts sd ms m \<Longrightarrow> ri_id (new_revision ms m) \<notin> ri_id ` set (chain ms) \<Longrightarrow>
     admissible version opts sd ms m"
  by (simp add: publishable_def admissible_def)

lemma publishable_lock [simp]:
  "publishable version opts (sd\<lparr>sd_locked := b\<rparr>) ms m = publishable version opts sd ms m"
  by (simp add: publishable_def)

lemma publish_clash:
  assumes s: "ms_options s = opts" "ms_directory s = d"
    and r: "represents version opts sd ms" "publishable version opts sd ms m"
    and clash: "ri_id (new_revision ms m) \<in> ri_id ` set (chain ms)"
    and go: "memory_identity m \<noteq> memory_identity (last ms)" "expected = ri_id (last (chain ms))"
      "length ms < min maximum (so_maximum_revisions opts)"
  shows "publish_revision version nonce io s sd m expected maximum (store_of opts d ms) =
    (failure CorruptData ''orphan memory-store revision is inconsistent'' (ri_id (new_revision ms m)), [])"
proof -
  let ?r = "new_revision ms m"
  have ne: "ms \<noteq> []" and len: "length ms < 2 ^ 64" using r(1) by (auto simp: represents_def)
  note lr = last_revision [OF ne len]
  obtain k where k: "k < length ms" "ri_id (chain ms ! k) = ri_id ?r"
    using clash by (auto simp: in_set_conv_nth)
  have held: "map_of (sd_revisions sd) (ri_id ?r) = Some (saved_directory version (ms ! k))"
    and fits: "memory_valid (ms ! k)" "loadable (so_load opts) version (ms ! k)"
    using r(1) k by (auto simp: represents_def)
  have "memory_identity (ms ! k) = map ri_memory (chain ms) ! k"
    unfolding revisions_from_memory using k(1) by simp
  then have mk: "memory_identity (ms ! k) = ri_memory (chain ms ! k)" using k(1) by simp
  have other: "memory_identity (ms ! k) \<noteq> memory_identity m"
  proof (cases "k = length ms - 1")
    case True
    then show ?thesis using go(1) ne by (simp add: last_conv_nth)
  next
    case False
    then have "chain ms ! k \<in> set (butlast (chain ms))"
      using k(1) by (auto simp: in_set_conv_nth nth_butlast intro!: exI [of _ k])
    then show ?thesis using r(2) k(2) mk by (auto simp: publishable_def list_all_iff)
  qed
  have load: "load_directory (so_load opts) p (Some (saved_directory version (ms ! k))) = Inr (ms ! k)" for p
    using load_saved [OF fits] by (simp add: load_directory_def)
  have mem: "ri_memory ?r = memory_identity m" by (simp add: new_revision_def)
  have guards: "ms_current (store_of opts d ms) = expected" "ms_revisions (store_of opts d ms) = chain ms"
    using go(2) by (simp_all add: store_of_def)
  show ?thesis
    using go held load other mem by (simp add: publish_revision_def guards lr(1,3,4) s Let_def failure_def not_le)
qed

lemma admissible_lock [simp]: "admissible version opts (sd\<lparr>sd_locked := b\<rparr>) ms m = admissible version opts sd ms m"
  by (simp add: admissible_def)

lemma fresh_name_lock [simp]: "fresh_name (sd\<lparr>sd_locked := b\<rparr>) ms m nonce = fresh_name sd ms m nonce"
  by (simp add: fresh_name_def)

lemma either_lock [simp]: "either version opts ms m (sd\<lparr>sd_locked := b\<rparr>) = either version opts ms m sd"
  by (simp add: either_def)

lemma publish_idle:
  assumes p: "publish_revision version nonce io s sd m expected maximum (store_of opts d ms) = (res, ws)"
    and s: "ms_options s = opts" and ne: "ms \<noteq> []" "length ms < 2 ^ 64"
    and stop: "\<not> (expected = ri_id (last (chain ms)) \<and> memory_identity (last ms) \<noteq> memory_identity m \<and>
      length ms < min maximum (so_maximum_revisions opts))"
  shows "ws = [] \<and> (case res of Inl _ \<Rightarrow> True
    | Inr (s', r) \<Rightarrow> s' = store_of opts d ms \<and> memory_identity m = memory_identity (last ms))"
  using p stop by (auto simp: publish_revision_def store_of_def last_revision(1) [OF ne] s failure_def split: if_splits)

lemma publish_memory_states:
  assumes p: "publish_memory version nonce io s sd m expected maximum = (res, ws)"
    and s: "ms_options s = opts" "ms_directory s = d" "d \<noteq> []"
    and r: "represents version opts sd ms" "publishable version opts sd ms m" "fresh_name sd ms m nonce"
  shows "always apply_write (either version opts ms m) sd ws \<and>
    (case res of Inl _ \<Rightarrow> represents version opts (foldl apply_write sd ws) ms
     | Inr (s', _) \<Rightarrow>
        (s' = store_of opts d ms \<and> memory_identity m = memory_identity (last ms) \<and>
           represents version opts (foldl apply_write sd ws) ms) \<or>
        (s' = store_of opts d (ms @ [m]) \<and> represents version opts (foldl apply_write sd ws) (ms @ [m])))"
proof -
  have e: "either version opts ms m sd" using r(1) by (simp add: either_def)
  let ?held = "sd\<lparr>sd_locked := True\<rparr>"
  show ?thesis
  proof (cases "memory_valid m \<and> valid_sha256 expected \<and> maximum \<noteq> 0 \<and> io AcquireLock = None \<and> \<not> sd_locked sd")
    case False
    then show ?thesis using p e r(1) by (auto simp: publish_memory_def failure_def Let_def split: if_splits)
  next
    case True
    obtain pres vs where w: "publish_revision version nonce io s ?held m expected maximum (store_of opts d ms) = (pres, vs)"
      by force
    have o: "open_store opts d ?held = Inr (store_of opts d ms)"
      using open_represents [of version opts ?held ms d] r(1) s(3) by simp
    have res: "res = pres" "ws = SetLock True # vs @ [SetLock False]"
      using p True by (auto simp: publish_memory_def Let_def s(1,2) o w)
    have st: "always apply_write (either version opts ms m) ?held vs \<and>
        (case pres of Inl _ \<Rightarrow> represents version opts (foldl apply_write ?held vs) ms
         | Inr (s', _) \<Rightarrow> (vs = [] \<and> s' = store_of opts d ms \<and> memory_identity m = memory_identity (last ms)) \<or>
            (s' = store_of opts d (ms @ [m]) \<and> represents version opts (foldl apply_write ?held vs) (ms @ [m])))"
    proof (cases "ri_id (new_revision ms m) \<in> ri_id ` set (chain ms) \<and> memory_identity m \<noteq> memory_identity (last ms) \<and>
        expected = ri_id (last (chain ms)) \<and> length ms < min maximum (so_maximum_revisions opts)")
      case True
      then have "publish_revision version nonce io s ?held m expected maximum (store_of opts d ms) =
          (failure CorruptData ''orphan memory-store revision is inconsistent'' (ri_id (new_revision ms m)), [])"
        using r by (intro publish_clash [OF s(1,2)]) auto
      with w have "pres = failure CorruptData ''orphan memory-store revision is inconsistent'' (ri_id (new_revision ms m))"
          "vs = []" by simp_all
      then show ?thesis using r(1) e by (simp add: failure_def)
    next
      case False
      show ?thesis
      proof (cases "ri_id (new_revision ms m) \<in> ri_id ` set (chain ms)")
        case True
        have "ms \<noteq> []" "length ms < 2 ^ 64" using r(1) by (auto simp: represents_def)
        from publish_idle [OF w s(1) this] True False show ?thesis using e r(1) by (auto split: sum.splits)
      qed (use publish_revision_states [OF w s(1,2)] publishable_fresh r in simp)
    qed
    have "either version opts ms m (foldl apply_write ?held vs)"
      using always_take [of apply_write "either version opts ms m" ?held vs "length vs"] st by simp
    with st e have "always apply_write (either version opts ms m) sd ws" by (simp add: res(2) always_append)
    moreover have "case res of Inl _ \<Rightarrow> represents version opts (foldl apply_write sd ws) ms
     | Inr (s', _) \<Rightarrow>
        (s' = store_of opts d ms \<and> memory_identity m = memory_identity (last ms) \<and>
           represents version opts (foldl apply_write sd ws) ms) \<or>
        (s' = store_of opts d (ms @ [m]) \<and> represents version opts (foldl apply_write sd ws) (ms @ [m]))"
      using st r(1) by (auto simp: res split: sum.splits)
    ultimately show ?thesis ..
  qed
qed

end
