(* ===== verification/Memory_Store_History.thy ===== *)
theory Memory_Store_History
  imports Memory_Store_Laws
begin

text \<open>
  What the writer and the readers of a store rely on: a created store holds its first memory,
  a publication that meets no failure appends exactly one revision, a crash leaves the old
  history or the extended one, no run of publications and crashes loses or changes a revision,
  and whatever a directory holds, a store that opens is a chain of identified revisions.
\<close>

section \<open>What a directory holds\<close>

definition store_contents ::
  "store_options \<Rightarrow> string \<Rightarrow> store_directory \<Rightarrow> (revision_info \<times> safety_memory result) list" where
  "store_contents opts d sd =
     (case open_store opts d sd of
        Inl _ \<Rightarrow> []
      | Inr s \<Rightarrow> map (\<lambda>r. (r, load_revision sd s (ri_id r))) (ms_revisions s))"

lemma contents_represented:
  assumes "represents version opts sd ms" "d \<noteq> []"
  shows "store_contents opts d sd = zip (chain ms) (map Inr ms)"
proof -
  have "ms_revisions (store_of opts d ms) = chain ms" by (simp add: store_of_def)
  then have c: "store_contents opts d sd = map (\<lambda>r. (r, load_revision sd (store_of opts d ms) (ri_id r))) (chain ms)"
    by (simp add: store_contents_def open_represents [OF assms])
  show ?thesis unfolding c by (rule nth_equalityI) (simp_all add: load_represented [OF assms(1)])
qed

lemma contents_extended:
  assumes "ms \<noteq> []"
  shows "zip (chain (ms @ [m])) (map Inr (ms @ [m])) = zip (chain ms) (map Inr ms) @ [(new_revision ms m, Inr m)]"
  by (simp add: chain_append [OF assms])

section \<open>Creating a store\<close>

lemma create_outcomes:
  assumes "create_store version io directory temporary default_options m existing = (res, after)"
  shows "res = Inl e \<Longrightarrow> after = existing"
    and "res = Inr s \<Longrightarrow> existing = None \<and> memory_valid m \<and> s = store_of default_options directory [m] \<and>
      after = Some \<lparr>sd_manifest = Some (document_text (root_document version (ri_id (hd (chain [m]))))),
        sd_commits = Some [commit_entry version (hd (chain [m]))],
        sd_revisions = [(ri_id (hd (chain [m])), saved_directory version m)], sd_locked = False\<rparr>"
proof -
  let ?r = "next_revision 0 [] (memory_identity m)"
  obtain sres saved where sv: "save_safety_memory version (\<lambda>step. io (SaveMemory step)) m
      (revision_path temporary (ri_id ?r)) False None = (sres, saved)" by force
  have saved: "saved = Some (saved_directory version m)" if "sres = Inr ()"
    using save_outcomes(3) [OF sv that] .
  show "res = Inl e \<Longrightarrow> after = existing"
    using assms by (auto simp: create_store_def Let_def sv failure_def split: if_splits sum.splits option.splits)
  show "existing = None \<and> memory_valid m \<and> s = store_of default_options directory [m] \<and>
      after = Some \<lparr>sd_manifest = Some (document_text (root_document version (ri_id (hd (chain [m]))))),
        sd_commits = Some [commit_entry version (hd (chain [m]))],
        sd_revisions = [(ri_id (hd (chain [m])), saved_directory version m)], sd_locked = False\<rparr>"
    if "res = Inr s"
    using assms that saved
    by (auto simp: create_store_def Let_def sv failure_def store_of_def commit_entry_def split: if_splits sum.splits option.splits)
qed

text \<open>A first memory that fits the limits of the readers.\<close>

definition startable :: "string \<Rightarrow> store_options \<Rightarrow> safety_memory \<Rightarrow> bool" where
  "startable version opts m \<longleftrightarrow> version_ok version \<and> memory_valid m \<and> loadable (so_load opts) version m \<and>
     0 < so_maximum_revisions opts \<and> text_fits opts (commit_document version (hd (chain [m]))) \<and>
     text_fits opts (root_document version (ri_id (hd (chain [m]))))"

lemma create_represents:
  assumes "create_store version io directory temporary default_options m existing = (Inr s, after)"
    and "startable version opts m"
  shows "\<exists>sd. after = Some sd \<and> represents version opts sd [m]"
  using create_outcomes(2) [OF assms(1) refl] assms(2)
  by (auto simp: represents_def startable_def entries_hold_def Let_def)

section \<open>Publications and crashes\<close>

lemma contains_chars: "contains_text s t \<Longrightarrow> set t \<subseteq> set s"
  unfolding contains_text_def list_ex_iff by (metis set_drop_subset set_take_subset subset_trans)

lemma commit_filename_chars:
  assumes "valid_sha256 (ri_id r)"
  shows "CHR ''t'' \<notin> set (commit_filename r)"
proof -
  have "\<not> is_digit (CHR ''t'')" "\<not> is_hex_char (CHR ''t'')" by (simp_all add: is_digit_def is_hex_char_def less_eq_char_def)
  with assms decimal_digits [of "unat (ri_sequence r)"]
  have "CHR ''t'' \<notin> set (to_string (ri_sequence r))" "CHR ''t'' \<notin> set (ri_id r)"
    by (auto simp: valid_sha256_iff to_string_def list_all_iff)
  then show ?thesis by (auto simp: commit_filename_def sequence_filename_def Let_def)
qed

lemma commit_name_free:
  assumes "represents version opts sd ms" "sd_commits sd = Some es" "length ms + 1 < 2 ^ 64"
  shows "commit_filename (new_revision ms m) \<notin> fst ` set es"
proof
  let ?r = "new_revision ms m"
  assume "commit_filename ?r \<in> fst ` set es"
  then obtain e where e: "e \<in> set es" "fst e = commit_filename ?r" by fastforce
  have h: "entries_hold version (chain ms) es" using assms(1,2) by (auto simp: represents_def)
  show False
  proof (cases "is_commit e")
    case True
    with e(1) h have "e \<in> commit_entry version ` set (chain ms)" by (auto simp: entries_hold_def)
    then obtain r where r: "r \<in> set (chain ms)" "e = commit_entry version r" by blast
    then obtain k where k: "k < length ms" "r = chain ms ! k" by (auto simp: in_set_conv_nth)
    have "ri_sequence r = ri_sequence ?r"
      using r(2) e(2) by (intro commit_filename_sequence) (simp add: commit_entry_def)
    then have "of_nat k = (of_nat (length ms) :: u64)"
      using revisions_from_sequence [of k ms 0 "[]"] k by (simp add: new_revision_def)
    then show False using k(1) assms(3) by (simp add: word_of_nat_eq_iff take_bit_nat_eq_self)
  next
    case False
    with e(1) h have "contains_text (fst e) ''.tmp-''" by (auto simp: entries_hold_def is_junk_def)
    then have "CHR ''t'' \<in> set (commit_filename ?r)" using contains_chars e(2) by fastforce
    moreover have "valid_sha256 (ri_id ?r)" by (simp add: new_revision_def)
    ultimately show False using commit_filename_chars by blast
  qed
qed

lemma revision_path_specific: "valid_sha256 i \<Longrightarrow> \<not> no_specific_directory (revision_path d i)"
  by (auto simp: no_specific_directory_def revision_path_def in_directory_def)

text \<open>
  The specification a publication of \<open>m\<close> on the list \<open>ms\<close> implements: a memory that is current
  already changes nothing, a new one is appended. (The second case is a collision of SHA-256.)
\<close>

definition publish_spec ::
  "store_options \<Rightarrow> string \<Rightarrow> safety_memory list \<Rightarrow> safety_memory \<Rightarrow> (memory_store \<times> revision_info) result" where
  "publish_spec opts d ms m =
     (if memory_identity m = memory_identity (last ms) then Inr (store_of opts d ms, last (chain ms))
      else if ri_id (new_revision ms m) \<in> ri_id ` set (chain ms)
      then failure CorruptData ''orphan memory-store revision is inconsistent'' (ri_id (new_revision ms m))
      else Inr (store_of opts d (ms @ [m]), new_revision ms m))"

lemma publish_meets_spec:
  assumes s: "ms_options s = opts" "ms_directory s = d" "d \<noteq> []" and io: "\<forall>step. io step = None" "\<not> sd_locked sd"
    and r: "represents version opts sd ms" "publishable version opts sd ms m" "list_all is_digit nonce"
    and e: "expected = ri_id (last (chain ms))"
    and l: "length ms < maximum" "length ms < so_maximum_revisions opts"
  shows "\<exists>ws. publish_memory version nonce io s sd m expected maximum =
    (publish_spec opts d ms m, ws)"
proof -
  let ?held = "sd\<lparr>sd_locked := True\<rparr>" and ?r = "new_revision ms m"
  have ne: "ms \<noteq> []" and lm: "length ms + 1 < 2 ^ 64" and mv: "memory_valid m"
    using r(1,2) by (auto simp: represents_def publishable_def)
  obtain es where es: "sd_commits sd = Some es" using r(1) by (auto simp: represents_def)
  have o: "open_store opts d ?held = Inr (store_of opts d ms)"
    using open_represents [of version opts ?held ms d] r(1) s(3) by simp
  have free: "commit_filename ?r \<notin> fst ` set es" using commit_name_free [OF r(1) es lm] .
  have len: "length ms < 2 ^ 64" using lm by simp
  note lr = last_revision [OF ne len]
  have guards: "ms_current (store_of opts d ms) = expected" "ms_revisions (store_of opts d ms) = chain ms"
    using e by (simp_all add: store_of_def)
  have ok: "valid_sha256 expected" using revisions_identified [of "last (chain ms)" 0 "[]" ms] ne by (simp add: e)
  have w: "\<exists>vs. write_immutable_file io d ?held (commit_filename ?r) (temporary_name ?r nonce) content = (Inr (), vs)" for content
    using free by (simp add: write_immutable_file_def Let_def es io)
  have revision: "\<exists>ws. publish_revision version nonce io s ?held m expected maximum (store_of opts d ms) =
      (Inr (store_of opts d (ms @ [m]), ?r), ws)"
    if new: "memory_identity m \<noteq> memory_identity (last ms)" and adm: "admissible version opts sd ms m"
  proof (cases "map_of (sd_revisions ?held) (ri_id ?r)")
    case (Some x)
    have "admissible version opts ?held ms m" using adm by simp
    note orphan = orphan_accepted [OF this Some]
    have "ri_memory ?r = memory_identity m" by (simp add: new_revision_def)
    then show ?thesis
      using w [of "document_text (commit_document version ?r)"] e l io new store_of_extend [OF ne, where m = m] Some orphan(2)
      by (auto simp: publish_revision_def guards lr(1,3,4) s Let_def)
  next
    case None
    obtain after where "save_safety_memory version (\<lambda>step. io (SaveMemory step)) m (revision_path d (ri_id ?r)) False None
        = (Inr (), after)"
      using save_outcomes(2) [of version "\<lambda>step. io (SaveMemory step)" m "revision_path d (ri_id ?r)" False None]
        mv revision_path_specific [of "ri_id ?r" d]
      by (cases "save_safety_memory version (\<lambda>step. io (SaveMemory step)) m (revision_path d (ri_id ?r)) False None")
        (simp add: io new_revision_def)
    then show ?thesis
      using w [of "document_text (commit_document version ?r)"] e l io new store_of_extend [OF ne, where m = m] None
      by (auto simp: publish_revision_def guards lr(1,3,4) s Let_def)
  qed
  have "\<exists>ws. publish_revision version nonce io s ?held m expected maximum (store_of opts d ms) = (publish_spec opts d ms m, ws)"
  proof -
    consider (idle) "memory_identity m = memory_identity (last ms)"
      | (clash) "memory_identity m \<noteq> memory_identity (last ms)" "ri_id ?r \<in> ri_id ` set (chain ms)"
      | (new) "memory_identity m \<noteq> memory_identity (last ms)" "ri_id ?r \<notin> ri_id ` set (chain ms)" by blast
    then show ?thesis
    proof cases
      case idle
      then show ?thesis using e by (simp add: publish_revision_def publish_spec_def guards lr(1))
    next
      case clash
      then have "publish_revision version nonce io s ?held m expected maximum (store_of opts d ms) =
          (publish_spec opts d ms m, [])"
        using publish_clash [OF s(1,2), of version ?held ms m] r(1,2) e l by (simp add: publish_spec_def)
      then show ?thesis by blast
    next
      case new
      then show ?thesis using revision publishable_fresh [OF r(2)] by (simp add: publish_spec_def)
    qed
  qed
  then show ?thesis
    using mv ok l(1) by (auto simp: publish_memory_def Let_def io s(1,2) o)
qed

lemma publish_crash:
  assumes "publish_memory version nonce io s sd m expected maximum = (res, ws)"
    and "ms_options s = opts" "ms_directory s = d" "d \<noteq> []"
    and "represents version opts sd ms" "publishable version opts sd ms m" "fresh_name sd ms m nonce"
  shows "\<exists>ms'\<in>{ms, ms @ [m]}. represents version opts (foldl apply_write sd (take k ws)) ms'"
  using always_take publish_memory_states [OF assms] by (fastforce simp: either_def)

lemma publish_refines:
  assumes "ms_options s = opts" "ms_directory s = d" "d \<noteq> []" "\<forall>step. io step = None" "\<not> sd_locked sd"
    and "represents version opts sd ms" "publishable version opts sd ms m" "fresh_name sd ms m nonce"
    and "expected = ri_id (last (chain ms))" "length ms < maximum" "length ms < so_maximum_revisions opts"
  shows "\<exists>ws. publish_memory version nonce io s sd m expected maximum = (publish_spec opts d ms m, ws) \<and>
     open_store opts d (foldl apply_write sd ws) =
       Inr (case publish_spec opts d ms m of Inl _ \<Rightarrow> store_of opts d ms | Inr (s', _) \<Rightarrow> s')"
proof -
  have "list_all is_digit nonce" using assms(8) by (simp add: fresh_name_def)
  then obtain ws where p: "publish_memory version nonce io s sd m expected maximum = (publish_spec opts d ms m, ws)"
    using publish_meets_spec [OF assms(1-7) _ assms(9-11)] by blast
  have "open_store opts d (foldl apply_write sd ws) =
      Inr (case publish_spec opts d ms m of Inl _ \<Rightarrow> store_of opts d ms | Inr (s', _) \<Rightarrow> s')"
    using publish_memory_states [OF p assms(1-3,6-8)] open_represents [OF _ assms(3)]
    by (auto split: sum.splits)
  with p show ?thesis by blast
qed

section \<open>Runs of publications and crashes\<close>

text \<open>
  A handle publishes, the machine stops after the first \<open>k\<close> writes (or after all of them), and the
  lock is as the crash or an operator leaves it.
\<close>

inductive store_run :: "string \<Rightarrow> store_options \<Rightarrow> string \<Rightarrow> store_directory \<Rightarrow> store_directory \<Rightarrow> bool"
  for version opts d where
  published: "publish_memory version nonce io s sd m expected maximum = (res, ws) \<Longrightarrow>
     ms_options s = opts \<Longrightarrow> ms_directory s = d \<Longrightarrow> represents version opts sd ms \<Longrightarrow>
     publishable version opts sd ms m \<Longrightarrow> fresh_name sd ms m nonce \<Longrightarrow>
     store_run version opts d sd ((foldl apply_write sd (take k ws))\<lparr>sd_locked := b\<rparr>)"

inductive_cases store_runE: "store_run version opts d sd sd'"

definition store_inv :: "string \<Rightarrow> store_options \<Rightarrow> string \<Rightarrow> store_directory \<Rightarrow> bool" where
  "store_inv version opts d sd \<longleftrightarrow> d \<noteq> [] \<and> (\<exists>ms. represents version opts sd ms)"

lemma store_run_cases:
  assumes "store_run version opts d sd sd'" "d \<noteq> []"
  obtains ms m where "represents version opts sd ms" "represents version opts sd' ms \<or> represents version opts sd' (ms @ [m])"
  using assms by (elim store_runE) (use publish_crash in fastforce)

interpretation stored_history: append_only "store_run version opts d" "store_inv version opts d" "store_contents opts d"
  for version opts d
proof
  fix sd sd' assume i: "store_inv version opts d sd" and "store_run version opts d sd sd'"
  then obtain ms m where r: "represents version opts sd ms"
      "represents version opts sd' ms \<or> represents version opts sd' (ms @ [m])"
    using store_run_cases unfolding store_inv_def by blast
  have d: "d \<noteq> []" and ne: "ms \<noteq> []" using i r(1) by (auto simp: store_inv_def represents_def)
  show "store_inv version opts d sd'" using r(2) d by (auto simp: store_inv_def)
  show "\<exists>new. store_contents opts d sd' = store_contents opts d sd @ new"
    using r(2)
  proof
    assume "represents version opts sd' (ms @ [m])"
    from contents_represented [OF this d] show ?thesis
      unfolding contents_represented [OF r(1) d] contents_extended [OF ne] by blast
  qed (simp add: contents_represented [OF r(1) d] contents_represented [OF _ d])
qed

section \<open>What an opened store guarantees\<close>

lemma decode_commit_ok: "decode_commit j = Inr r \<Longrightarrow> revision_ok r"
  by (auto simp: decode_commit_def or_fail_def revision_ok_def Let_def failure_def result_simps split: sum.splits if_splits)

lemma decode_entries_ok:
  assumes "decode_entries opts path n es = Inr ds"
  shows "list_all (\<lambda>d. revision_ok (snd d)) ds" "ds = [] \<or> n + length ds \<le> so_maximum_revisions opts"
  using assms
  by (induction opts path n es arbitrary: ds rule: decode_entries.induct)
    (auto split: if_splits sum.splits simp: result_simps dest: decode_commit_ok)

lemma check_chain_ok:
  assumes "check_chain sd root_id i parent rs = Inr ()" "k < length rs"
  shows "ri_sequence (snd (rs ! k)) = of_nat (i + k)" "fst (rs ! k) = commit_filename (snd (rs ! k))"
    and "ri_parent (snd (rs ! k)) = (if i + k = 0 then [] else if k = 0 then parent else ri_id (snd (rs ! (k - 1))))"
    and "i + k = 0 \<Longrightarrow> ri_id (snd (rs ! k)) = root_id"
  using assms
  by (induction sd root_id i parent rs arbitrary: k rule: check_chain.induct)
    (auto simp: failure_def nth_Cons split: if_splits nat.splits)

text \<open>The revisions of a store that was opened, whatever the directory it was opened on held.\<close>

definition chained :: "revision_info list \<Rightarrow> bool" where
  "chained rs \<longleftrightarrow> list_all (\<lambda>k. ri_sequence (rs ! k) = of_nat k \<and>
     ri_parent (rs ! k) = (if k = 0 then [] else ri_id (rs ! (k - 1))) \<and>
     ri_id (rs ! k) = safety_memory_revision_identity (rs ! k)) [0..<length rs]"

lemma revision_ok_identity: "revision_ok r \<Longrightarrow> ri_id r = safety_memory_revision_identity r"
  by (simp add: revision_ok_def validate_revision_def failure_def Let_def split: if_splits)

lemma open_sound:
  assumes "open_store opts d sd = Inr s"
  shows "chained (ms_revisions s)" "ms_revisions s \<noteq> []" "length (ms_revisions s) \<le> so_maximum_revisions opts"
    and "ms_current s = ri_id (last (ms_revisions s))" "ms_options s = opts" "ms_directory s = d"
    and "\<exists>m r. load_current sd s = Inr m \<and> r \<in> set (ms_revisions s) \<and> ri_id r = ms_current s \<and>
      memory_identity m = ri_memory r"
proof -
  obtain root_id es ds where e: "decode_entries opts (in_directory d ''commits'') 0 es = Inr ds" "ds \<noteq> []"
      "check_chain sd root_id 0 [] (sort_by commit_less ds) = Inr ()"
    and s: "s = \<lparr>ms_directory = d, ms_current = ri_id (snd (last (sort_by commit_less ds))),
        ms_revisions = map snd (sort_by commit_less ds), ms_options = opts\<rparr>"
    and l: "\<exists>m. load_current sd s = Inr m"
    using assms by (auto simp: open_store_def failure_def Let_def result_simps split: if_splits option.splits)
  let ?rs = "sort_by commit_less ds"
  have ne: "?rs \<noteq> []" using e(2) by (metis length_sort_by length_0_conv)
  have ok: "revision_ok (snd x)" if "x \<in> set ?rs" for x
    using decode_entries_ok(1) [OF e(1)] that by (auto simp: list_all_iff)
  have "ri_sequence (snd (?rs ! k)) = of_nat k \<and>
      ri_parent (snd (?rs ! k)) = (if k = 0 then [] else ri_id (snd (?rs ! (k - 1)))) \<and>
      ri_id (snd (?rs ! k)) = safety_memory_revision_identity (snd (?rs ! k))" if "k < length ?rs" for k
    using check_chain_ok(1,3) [OF e(3) that] revision_ok_identity [OF ok [OF nth_mem [OF that]]] by simp
  then show "chained (ms_revisions s)" by (simp add: chained_def s list_all_iff)
  show "ms_revisions s \<noteq> []" "ms_current s = ri_id (last (ms_revisions s))" "ms_options s = opts" "ms_directory s = d"
    using ne by (simp_all add: s last_map)
  show "length (ms_revisions s) \<le> so_maximum_revisions opts" using decode_entries_ok(2) [OF e(1)] e(2) by (simp add: s)
  obtain m where m: "load_current sd s = Inr m" using l by blast
  then obtain r where "find (\<lambda>r. ri_id r = ms_current s) (ms_revisions s) = Some r" "memory_identity m = ri_memory r"
    by (auto simp: load_current_def load_revision_def failure_def result_simps split: if_splits option.splits)
  then show "\<exists>m r. load_current sd s = Inr m \<and> r \<in> set (ms_revisions s) \<and> ri_id r = ms_current s \<and>
      memory_identity m = ri_memory r"
    using m by (auto simp: find_Some_iff intro!: bexI [of _ r] exI [of _ r])
qed

end
