(* ===== verification/Memory_Example.thy ===== *)
theory Memory_Example
  imports Memory_Laws
begin

text \<open>
  A concrete safety memory with one registered artifact, and the queries on it. The digests
  are the SHA-256 of short texts, kept as such.
\<close>

definition demo_input :: artifact_input where
  "demo_input = \<lparr>in_type = SafeAtlas, in_deployment = ''arm'', in_robot = sha256 ''robot'',
     in_scene = sha256 ''scene'', in_task = ''pick'', in_content = sha256 ''atlas'',
     in_locator = ''atlas.bin'', in_evidence = CertifiedRegion, in_tags = [''shelf'']\<rparr>"

definition demo_artifact :: memory_artifact where
  "demo_artifact = new_artifact demo_input [''shelf''] 1"

definition demo_event :: memory_event where
  "demo_event = make_event 1 Registered demo_artifact Active ''pick'' ''registered''"

definition demo_memory :: safety_memory where
  "demo_memory = \<lparr>artifacts = [demo_artifact], events = [demo_event], next_sequence = 2\<rparr>"

definition demo_query :: reuse_query where
  "demo_query = \<lparr>q_deployment = ''arm'', q_robot = sha256 ''robot'', q_scene = sha256 ''scene'',
     q_task = ''place'', q_type = None, q_evidence = PointChecked, q_tags = [''shelf''],
     q_same_task = True, q_revalidation = False, q_maximum = 10\<rparr>"

lemma demo_texts:
  "valid_identifier ''arm''" "valid_identifier ''pick''" "valid_identifier ''place''"
  "\<not> contains_control_character ''atlas.bin''" "normalize_tags [''shelf''] = Inr [''shelf'']"
  "\<not> bad_detail ''registered''" "\<not> bad_detail ''moved''"
  by code_simp+

lemma demo_artifact_fields [simp]:
  "art_state demo_artifact = Active" "art_generation demo_artifact = 1" "art_sequence demo_artifact = 1"
  "art_deployment demo_artifact = ''arm''" "art_robot demo_artifact = sha256 ''robot''"
  "art_scene demo_artifact = sha256 ''scene''" "art_task demo_artifact = ''pick''"
  "art_content demo_artifact = sha256 ''atlas''" "art_locator demo_artifact = ''atlas.bin''"
  "art_evidence demo_artifact = CertifiedRegion" "art_tags demo_artifact = [''shelf'']"
  "art_type demo_artifact = SafeAtlas"
  by (simp_all add: demo_artifact_def new_artifact_def demo_input_def Let_def)

lemma demo_artifact_id: "memory_artifact_identity demo_artifact = art_id demo_artifact"
  by (simp add: demo_artifact_def new_artifact_def Let_def)
    (simp add: memory_artifact_identity_def artifact_identity_json_def)

lemma demo_artifact_digest: "valid_sha256 (art_id demo_artifact)"
  by (metis demo_artifact_id memory_artifact_identity_def valid_sha256_sha256)

lemma demo_artifact_valid: "validate_memory_artifact demo_artifact = Inr ()"
  by (simp add: validate_memory_artifact_def demo_texts demo_artifact_digest demo_artifact_id kMaximumLocatorBytes_def)

lemma demo_register: "register_artifact empty_memory demo_input 10 10 = Inr (demo_memory, demo_artifact)"
proof -
  have t: "normalize_tags (in_tags demo_input) = Inr [''shelf'']" by (simp add: demo_input_def demo_texts)
  have "new_artifact demo_input [''shelf''] (next_sequence empty_memory) = demo_artifact"
    by (simp add: demo_artifact_def empty_memory_def)
  then show ?thesis
    using demo_artifact_valid
    by (simp add: register_artifact_def t find_artifact_def lookup_sorted_def lower_bound_def insert_at_def
        Let_def) (simp add: empty_memory_def demo_memory_def demo_event_def)
qed

lemma demo_no_collision: "\<not> events_collide (events demo_memory)"
  by (simp add: events_collide_def demo_memory_def same_content_def sha256_collision_def)

lemma demo_step: "memory_step empty_memory demo_memory"
  by (rule step_register [OF demo_register _ _ demo_no_collision]) simp_all

lemma demo_memory_valid: "memory_valid demo_memory"
  by (rule memory_step_valid [OF empty_memory_valid demo_step])

lemma demo_find: "find_artifact (artifacts demo_memory) (art_id demo_artifact) = Some demo_artifact"
  by (simp add: demo_memory_def find_artifact_def lookup_sorted_def lower_bound_def)

lemma demo_direct: "cand_disposition (assess demo_artifact demo_query) = Direct"
proof -
  have "sorted_wrt (<) (art_tags demo_artifact)" by simp
  then show ?thesis
    by (simp add: assess_Direct_iff demo_query_def less_eq_evidence_level_def)
qed

lemma demo_query_answered: "\<exists>cs. query_reuse demo_memory demo_query = Inr cs"
  by (simp add: query_reuse_def validate_reuse_query_def demo_query_def demo_texts demo_memory_def Let_def)

lemma demo_transition:
  "\<exists>m'. transition demo_memory (art_id demo_artifact) 1 Quarantined ''moved'' 10
      = Inr (m', demo_artifact\<lparr>art_state := Quarantined, art_generation := 2\<rparr>)"
  by (simp add: transition_def demo_find demo_texts demo_artifact_digest transition_allowed_def Let_def)
    (simp add: demo_memory_def)

lemma demo_scene_matches: "scene_matches ''arm'' (sha256 ''scene'') demo_artifact"
  by (simp add: scene_matches_def)

lemma demo_invalidate: "\<exists>m'. invalidate_scene demo_memory ''arm'' (sha256 ''scene'') ''moved'' 10 = Inr (m', 1)"
  by (simp add: invalidate_scene_def demo_texts demo_scene_matches demo_memory_def Let_def)

end
