(* ===== verification/Json_Size.thy ===== *)
theory Json_Size
  imports Json_Laws Binding
begin

text \<open>
  Bounds on the length of written documents: every byte is escaped to at most six, a small
  whole number has at most 24 characters, and each level indents by two. The readers of the
  library refuse files over a limit, so the bounds say which documents they accept.
\<close>

lemma strip_zeros_length: "length (strip_zeros s) \<le> length s"
  using length_dropWhile_le [of _ "rev s"] by (simp add: strip_zeros_def)

lemma whole_exponent:
  assumes "0 < n" "n < 2 * hidden_bit" "sig17 (of_nat n) = (d, x)"
  shows "0 \<le> x" "x < 17"
proof -
  have "n < 10 ^ 16" using assms(2) by (simp add: hidden_bit_def)
  then have "length (decimal n) \<le> 16" by (rule length_decimal) simp
  moreover have "0 < length (decimal n)" by simp
  moreover have "floor_log10 (of_nat n) = int (length (decimal n)) - 1"
    using assms(1) by (simp add: floor_log10_def)
  ultimately have "0 \<le> floor_log10 (of_nat n :: rat)" "floor_log10 (of_nat n :: rat) < 16" by linarith+
  moreover have "x = floor_log10 (of_nat n) \<or> x = floor_log10 (of_nat n) + 1"
    using assms(3) by (auto simp: sig17_def Let_def split: if_splits)
  ultimately show "0 \<le> x" "x < 17" by auto
qed

lemma length_format17_whole:
  assumes "n < 2 * hidden_bit"
  shows "length (format17 (f64_of_nat n)) \<le> 24"
proof (cases "n = 0")
  case True
  have "mag (f64_of_nat n) = 0"
    using f64_of_nat_exact [OF assms] True less_imp_neq [OF ulp_min_pos] scaled_pos_iff
    by (simp add: val_def magnitude_def less_imp_neq [OF ulp_min_pos, symmetric]) (metis neq0_conv scaled_pos_iff)
  then show ?thesis
    using f64_of_nat_exact(1) [OF assms]
    by (simp add: format17_def isfinite_def isnan_def isinf_def number_token_def)
next
  case False
  have m: "magnitude (f64_of_nat n) = of_nat n" using f64_of_nat_exact [OF assms] by (simp add: val_def)
  have mag: "mag (f64_of_nat n) \<noteq> 0"
  proof
    assume "mag (f64_of_nat n) = 0"
    with m False show False by (simp add: magnitude_def)
  qed
  obtain d x where s: "sig17 (of_nat n :: rat) = (d, x)" by force
  have x: "0 \<le> x" "x < 17" using whole_exponent [OF _ assms s] False by simp_all
  have "(0 :: rat) < of_nat n" using False by simp
  then have len: "length (decimal d) = 17" using sig17_bounds(1,2) [OF _ s] by (intro length_decimal_17)
  have nx: "nat x < 17" using x by simp
  then have "nat x + length (strip_zeros (drop (Suc (nat x)) (decimal d))) \<le> 17"
    using strip_zeros_length [of "drop (Suc (nat x)) (decimal d)"] len by simp
  then show ?thesis
    using x nx mag f64_of_nat_exact(1) [OF assms]
    by (simp add: format17_def isfinite_def isnan_def isinf_def m s Let_def number_token_def len)
qed

lemma length_escape_char: "length (escape_char c) \<le> 6"
  by (simp add: escape_char_def hex4_def)

lemma length_escape_json: "length (escape_json s) \<le> 6 * length s + 2"
proof -
  have "length (concat (map escape_char s)) \<le> 6 * length s"
    by (induction s) (use length_escape_char in \<open>auto intro: add_mono\<close>)
  then show ?thesis by (simp add: escape_json_def)
qed

fun short_numbers :: "json \<Rightarrow> bool" where
  "short_numbers (JNum v) = (length (format17 v) \<le> 24)"
| "short_numbers (JArr xs) = list_all short_numbers xs"
| "short_numbers (JObj kvs) = list_all (\<lambda>(k, v). short_numbers v) kvs"
| "short_numbers j = True"

fun text_bound :: "nat \<Rightarrow> json \<Rightarrow> nat" where
  "text_bound d (JStr s) = 6 * length s + 2"
| "text_bound d (JArr xs) = 2 * d + 3 + sum_list (map (\<lambda>x. 2 * d + 4 + text_bound (d + 1) x) xs)"
| "text_bound d (JObj kvs) =
     2 * d + 3 + sum_list (map (\<lambda>(k, v). 2 * d + 8 + 6 * length k + text_bound (d + 1) v) kvs)"
| "text_bound d j = 24"

lemma length_dump:
  "short_numbers j \<Longrightarrow> length (dump True d j) \<le> text_bound d j"
  "list_all short_numbers xs \<Longrightarrow>
     length (dump_items True d xs) \<le> sum_list (map (\<lambda>x. 2 * d + 4 + text_bound (d + 1) x) xs)"
  "list_all (\<lambda>(k, v). short_numbers v) kvs \<Longrightarrow>
     length (dump_members True d kvs) \<le>
       sum_list (map (\<lambda>(k, v). 2 * d + 8 + 6 * length k + text_bound (d + 1) v) kvs)"
proof (induction "True" d j and "True" d xs and "True" d kvs rule: dump_dump_items_dump_members.induct)
  case (4 d s)
  then show ?case using length_escape_json [of s] by simp
next
  case (10 d k v kvs)
  then show ?case using length_escape_json [of k] by (simp add: indent_def newline_def separator_def)
qed (simp_all add: indent_def newline_def)

end
