(* ===== verification/Memory_Store_Example.thy ===== *)
theory Memory_Store_Example
  imports Memory_Store_History Memory_Example Json_Size
begin

text \<open>
  A store created with the empty memory, to which the memory with one artifact is published.
  The documents are far below the limits of the readers.
\<close>

definition demo_options :: store_options where
  "demo_options = \<lparr>so_maximum_revisions = 10, so_maximum_metadata = 65536,
     so_load = \<lparr>ld_maximum_artifacts = 10, ld_maximum_events = 10, ld_maximum_payload = 1048576\<rparr>\<rparr>"

definition demo_store :: store_directory where
  "demo_store =
     (let r = next_revision 0 [] (memory_identity empty_memory)
      in \<lparr>sd_manifest = Some (document_text (root_document ''1.0'' (ri_id r))),
          sd_commits = Some [commit_entry ''1.0'' r],
          sd_revisions = [(ri_id r, saved_directory ''1.0'' empty_memory)], sd_locked = False\<rparr>)"

lemma digest_length [simp]: "length (sha256 t) = 64"
  by (rule valid_sha256_length) simp

lemma revision_lengths [simp]:
  "length (ri_id (next_revision n p m)) = 64" "length (memory_identity m') = 64"
  by (rule valid_sha256_length, simp)+

lemma bound_limits: "65536 \<le> json_file_limit"
  by (simp add: json_file_limit_def)

lemma short_int: "n < 2 * hidden_bit \<Longrightarrow> short_numbers (json_int n)"
  by (simp add: json_int_def length_format17_whole)

lemma document_fits:
  assumes "short_numbers j" "text_bound 0 j < 65536"
  shows "text_fits demo_options j"
  using length_dump(1) [OF assms(1), of 0] assms(2) bound_limits
  by (simp add: text_fits_def document_text_def demo_options_def)

lemma root_fits: "length i = 64 \<Longrightarrow> text_fits demo_options (root_document ''1.0'' i)"
  by (rule document_fits)
    (simp_all add: root_document_def store_document_def root_payload_def json_object_def mk_object_def short_int
      json_int_def length_format17_whole hidden_bit_def)

lemma commit_fits:
  assumes "length (ri_id r) = 64" "length (ri_memory r) = 64" "length (ri_parent r) \<le> 64"
  shows "text_fits demo_options (commit_document ''1.0'' r)"
  using assms length_to_string [of "ri_sequence r"]
  by (intro document_fits)
    (simp_all add: commit_document_def store_document_def commit_payload_def json_object_def mk_object_def
      json_int_def length_format17_whole hidden_bit_def)

lemma manifest_fits:
  assumes "length (artifacts m) \<le> 10" "length (events m) \<le> 10"
  shows "length (memory_manifest ''1.0'' m) \<le> json_file_limit"
proof -
  have n: "length (artifacts m) < 2 * hidden_bit" "length (events m) < 2 * hidden_bit" "1 < 2 * hidden_bit"
    using assms by (simp_all add: hidden_bit_def)
  have "short_numbers (memory_manifest_json ''1.0'' m)" "text_bound 0 (memory_manifest_json ''1.0'' m) < 65536"
    using n by (simp_all add: memory_manifest_json_def json_object_def mk_object_def json_int_def length_format17_whole)
  from document_fits [OF this] show ?thesis by (simp add: text_fits_def document_text_def memory_manifest_def)
qed

lemma payload_fits:
  assumes "text_fits demo_options (memory_payload_json m)" "length (artifacts m) \<le> 10" "length (events m) \<le> 10"
  shows "loadable (so_load demo_options) ''1.0'' m"
  using assms manifest_fits [OF assms(2,3)]
  by (simp add: loadable_def demo_options_def memory_payload_def text_fits_def document_text_def)

lemma to_string_short: "6 * length (to_string n) \<le> 120"
  using length_to_string [of n] by simp

lemma demo_ids [simp]: "length (art_id demo_artifact) = 64" "length (ev_id demo_event) = 64"
  by (rule valid_sha256_length [OF demo_artifact_digest])
    (simp add: demo_event_def make_event_def Let_def memory_event_identity_def)

lemma demo_event_fields [simp]:
  "ev_artifact demo_event = art_id demo_artifact" "ev_current demo_event = Active" "ev_previous demo_event = Active"
  "ev_type demo_event = Registered" "ev_task demo_event = ''pick''" "ev_detail demo_event = ''registered''"
  "ev_sequence demo_event = 1"
  by (simp_all add: demo_event_def make_event_def Let_def)

lemma code_bound: "c < 2 * hidden_bit \<Longrightarrow> short_numbers (json_int c) \<and> text_bound d (json_int c) = 24"
  by (simp add: json_int_def length_format17_whole)

lemma payload_bounds:
  "text_fits demo_options (memory_payload_json empty_memory)" "text_fits demo_options (memory_payload_json demo_memory)"
proof -
  show "text_fits demo_options (memory_payload_json empty_memory)"
    using to_string_short [of 1] by (intro document_fits)
      (simp_all add: memory_payload_json_def json_object_def mk_object_def code_bound hidden_bit_def empty_memory_def)
  show "text_fits demo_options (memory_payload_json demo_memory)"
    using to_string_short [of 1] to_string_short [of 2] by (intro document_fits)
      (simp_all add: memory_payload_json_def json_object_def mk_object_def code_bound hidden_bit_def
        demo_memory_def memory_artifact_json_def memory_event_json_def evidence_code.simps)
qed

lemma demo_version: "version_ok ''1.0''"
  by (simp add: version_ok_def kMaximumMetadataStringBytes_def)

lemma demo_loadable:
  "loadable (so_load demo_options) ''1.0'' empty_memory" "loadable (so_load demo_options) ''1.0'' demo_memory"
  using payload_fits payload_bounds by (simp_all add: empty_memory_def demo_memory_def)

lemma demo_startable: "startable ''1.0'' demo_options empty_memory"
  using demo_loadable root_fits commit_fits
  by (simp add: startable_def demo_version empty_memory_valid Let_def) (simp add: demo_options_def)

lemma demo_created:
  "create_store ''1.0'' (\<lambda>_. None) ''/store'' ''/store.tmp-1'' demo_options empty_memory None =
     (Inr (store_of demo_options ''/store'' [empty_memory]), Some demo_store)"
proof -
  let ?r = "next_revision 0 [] (memory_identity empty_memory)"
  have "\<not> no_specific_directory (revision_path ''/store.tmp-1'' (ri_id ?r))" by (rule revision_path_specific) simp
  moreover obtain res after where sv: "save_safety_memory ''1.0'' (\<lambda>_. None) empty_memory
      (revision_path ''/store.tmp-1'' (ri_id ?r)) False None = (res, after)" by force
  ultimately have "res = Inr ()" "after = Some (saved_directory ''1.0'' empty_memory)"
    using save_outcomes(2,3) [OF sv] empty_memory_valid by simp_all
  then show ?thesis
    using sv by (simp add: create_store_def no_specific_directory_def empty_memory_valid Let_def demo_store_def
        store_of_def commit_entry_def)
qed

lemma demo_represents: "represents ''1.0'' demo_options demo_store [empty_memory]"
  using demo_startable
  by (auto simp: represents_def startable_def demo_store_def entries_hold_def Let_def)

lemma demo_publishable: "publishable ''1.0'' demo_options demo_store [empty_memory] demo_memory"
  using demo_loadable(2) demo_memory_valid commit_fits
  by (simp add: publishable_def new_revision_def Let_def demo_store_def)

lemma demo_fresh_name: "fresh_name demo_store [empty_memory] demo_memory ''7''"
proof -
  let ?r = "next_revision 0 [] (memory_identity empty_memory)"
  have "CHR ''t'' \<notin> set (commit_filename ?r)" by (rule commit_filename_chars) simp
  moreover have "CHR ''t'' \<in> set (temporary_name r n)" for r n by (simp add: temporary_name_def)
  ultimately have "temporary_name r n \<noteq> commit_filename ?r" for r n by metis
  then show ?thesis by (simp add: fresh_name_def demo_store_def Let_def commit_entry_def is_digit_def)
qed

definition demo_writes :: "disk_write list" where
  "demo_writes = snd (publish_memory ''1.0'' ''7'' (\<lambda>_. None) (store_of demo_options ''/store'' [empty_memory]) demo_store
     demo_memory (ri_id (last (chain [empty_memory]))) 10)"

lemma demo_publish:
  "publish_memory ''1.0'' ''7'' (\<lambda>_. None) (store_of demo_options ''/store'' [empty_memory]) demo_store
     demo_memory (ri_id (last (chain [empty_memory]))) 10 =
   (fst (publish_memory ''1.0'' ''7'' (\<lambda>_. None) (store_of demo_options ''/store'' [empty_memory]) demo_store
     demo_memory (ri_id (last (chain [empty_memory]))) 10), demo_writes)"
  by (simp add: demo_writes_def)

lemma demo_handle:
  "ms_options (store_of demo_options ''/store'' ms) = demo_options"
  "ms_directory (store_of demo_options ''/store'' ms) = ''/store''" "''/store'' \<noteq> []"
  "\<not> sd_locked demo_store" "Suc 0 < so_maximum_revisions demo_options"
  by (simp_all add: store_of_def demo_store_def demo_options_def Let_def)

lemma demo_store_inv: "store_inv ''1.0'' demo_options ''/store'' demo_store"
  using demo_represents by (auto simp: store_inv_def)

lemma demo_run:
  "store_run ''1.0'' demo_options ''/store'' demo_store
     ((foldl apply_write demo_store (take k demo_writes))\<lparr>sd_locked := b\<rparr>)"
  by (rule published [OF demo_publish _ _ demo_represents demo_publishable demo_fresh_name])
    (simp_all add: demo_handle)

lemma demo_saved:
  "save_safety_memory ''1.0'' (\<lambda>_. None) demo_memory ''/memory'' False None =
     (Inr (), Some (saved_directory ''1.0'' demo_memory))"
  by (simp add: save_safety_memory_def publish_directory_def saved_directory_def demo_memory_valid no_specific_directory_def)

definition demo_full_disk :: "save_step \<Rightarrow> error option" where
  "demo_full_disk step =
     (if step = WriteFile ''manifest.json'' then Some \<lparr>code = IoError, message = ''disk full'', context_of = []\<rparr> else None)"

lemma demo_save_refused:
  "save_safety_memory ''1.0'' demo_full_disk demo_memory ''/memory'' True (Some (saved_directory ''1.0'' empty_memory)) =
     (Inl \<lparr>code = IoError, message = ''disk full'', context_of = []\<rparr>,
      snd (save_safety_memory ''1.0'' demo_full_disk demo_memory ''/memory'' True
        (Some (saved_directory ''1.0'' empty_memory))))"
  by (simp add: save_safety_memory_def demo_memory_valid no_specific_directory_def demo_full_disk_def)

end
