(* ===== verification/Types.thy ===== *)
theory Types
  imports Binary64 Text
begin

text \<open>
  The geometric value types of \<^verbatim>\<open>include/rbfsafe/types.h\<close> on binary64 numbers, with the
  guarantees their predicates give about the real points they denote.
\<close>

section \<open>Intervals and configuration-space boxes\<close>

record interval =
  lower :: f64
  upper :: f64

definition interval_valid :: "interval \<Rightarrow> bool" where
  "interval_valid i \<longleftrightarrow> isfinite (lower i) \<and> isfinite (upper i) \<and> f64_le (lower i) (upper i)"

definition interval_width :: "interval \<Rightarrow> f64" where
  "interval_width i = f64_sub (upper i) (lower i)"

definition f64_half :: f64 where
  "f64_half = F64 0x3fe0000000000000"

definition interval_center :: "interval \<Rightarrow> f64" where
  "interval_center i = f64_mul f64_half (f64_add (lower i) (upper i))"

definition interval_contains :: "interval \<Rightarrow> f64 \<Rightarrow> f64 \<Rightarrow> bool" where
  "interval_contains i v tolerance \<longleftrightarrow>
     f64_le (f64_sub (lower i) tolerance) v \<and> f64_le v (f64_add (upper i) tolerance)"

definition interval_overlaps :: "interval \<Rightarrow> interval \<Rightarrow> f64 \<Rightarrow> bool" where
  "interval_overlaps i j tolerance \<longleftrightarrow>
     f64_le (lower i) (f64_add (upper j) tolerance) \<and> f64_le (lower j) (f64_add (upper i) tolerance)"

definition interval_eq :: "interval \<Rightarrow> interval \<Rightarrow> bool" where
  "interval_eq i j \<longleftrightarrow> f64_eq (lower i) (lower j) \<and> f64_eq (upper i) (upper j)"

type_synonym cspace_aabb = "interval list"

definition cspace_valid :: "cspace_aabb \<Rightarrow> bool" where
  "cspace_valid axes \<longleftrightarrow> axes \<noteq> [] \<and> list_all interval_valid axes"

definition cspace_contains :: "cspace_aabb \<Rightarrow> f64 list \<Rightarrow> f64 \<Rightarrow> bool" where
  "cspace_contains axes q tolerance \<longleftrightarrow> length q = length axes \<and>
     list_all (\<lambda>(i, v). interval_contains i v tolerance) (zip axes q)"

definition cspace_overlaps :: "cspace_aabb \<Rightarrow> cspace_aabb \<Rightarrow> f64 \<Rightarrow> bool" where
  "cspace_overlaps a b tolerance \<longleftrightarrow> length b = length a \<and>
     list_all (\<lambda>(i, j). interval_overlaps i j tolerance) (zip a b)"

definition f64_one :: f64 where
  "f64_one = F64 0x3ff0000000000000"

definition cspace_volume :: "cspace_aabb \<Rightarrow> f64" where
  "cspace_volume axes = (if \<not> cspace_valid axes then f64_zero
     else foldl (\<lambda>r i. f64_mul r (interval_width i)) f64_one axes)"

definition cspace_center :: "cspace_aabb \<Rightarrow> f64 list" where
  "cspace_center axes = map interval_center axes"

definition validate_configuration :: "f64 list \<Rightarrow> nat \<Rightarrow> string \<Rightarrow> unit result" where
  "validate_configuration q expected_dimension ctx =
     (if length q \<noteq> expected_dimension
      then failure DimensionMismatch ''configuration dimension does not match robot'' ctx
      else if list_ex (\<lambda>v. \<not> isfinite v) q
      then failure InvalidArgument ''configuration contains a non-finite value'' ctx
      else Inr ())"

section \<open>Workspace boxes\<close>

datatype vec3 = Vec3 f64 f64 f64

fun axes3 :: "vec3 \<Rightarrow> f64 list" where
  "axes3 (Vec3 x y z) = [x, y, z]"

record workspace_aabb =
  box_lower :: vec3
  box_upper :: vec3

text \<open>The loop over the three axes visits the lower and upper bounds in pairs.\<close>

definition box_axes :: "workspace_aabb \<Rightarrow> (f64 \<times> f64) list" where
  "box_axes b = zip (axes3 (box_lower b)) (axes3 (box_upper b))"

definition workspace_valid :: "workspace_aabb \<Rightarrow> bool" where
  "workspace_valid b = list_all (\<lambda>(l, u). \<not> (\<not> isfinite l \<or> \<not> isfinite u \<or> f64_lt u l)) (box_axes b)"

definition workspace_overlaps :: "workspace_aabb \<Rightarrow> workspace_aabb \<Rightarrow> f64 \<Rightarrow> bool" where
  "workspace_overlaps a b tolerance =
     list_all (\<lambda>((l, u), (ol, ou)). \<not> (f64_lt (f64_add ou tolerance) l \<or> f64_lt (f64_add u tolerance) ol))
       (zip (box_axes a) (box_axes b))"

definition axis_separation :: "f64 \<times> f64 \<Rightarrow> f64 \<times> f64 \<Rightarrow> f64" where
  "axis_separation a b =
     (let (l, u) = a; (ol, ou) = b
      in if f64_lt u ol then f64_sub ol u else if f64_lt ou l then f64_sub l ou else f64_zero)"

definition distance_lower_bound :: "workspace_aabb \<Rightarrow> workspace_aabb \<Rightarrow> f64" where
  "distance_lower_bound a b =
     f64_sqrt (foldl (\<lambda>squared (x, y). let s = axis_separation x y in f64_add squared (f64_mul s s))
                 f64_zero (zip (box_axes a) (box_axes b)))"

definition contains_box :: "workspace_aabb \<Rightarrow> workspace_aabb \<Rightarrow> bool" where
  "contains_box outer inner =
     list_all (\<lambda>((ol, ou), (il, iu)). \<not> (f64_lt il ol \<or> f64_lt ou iu)) (zip (box_axes outer) (box_axes inner))"

section \<open>The points of a box\<close>

fun in_axes :: "(f64 \<times> f64) list \<Rightarrow> rat list \<Rightarrow> bool" where
  "in_axes [] [] = True"
| "in_axes ((l, u) # axes) (x # xs) = (val l \<le> x \<and> x \<le> val u \<and> in_axes axes xs)"
| "in_axes _ _ = False"

definition in_box :: "workspace_aabb \<Rightarrow> rat list \<Rightarrow> bool" where
  "in_box b p = in_axes (box_axes b) p"

lemma f64_add_zero:
  assumes "isfinite x"
  shows "isfinite (f64_add x f64_zero)" and "val (f64_add x f64_zero) = val x"
proof -
  have z: "mag f64_zero = 0" "\<not> neg f64_zero" by (simp_all add: f64_zero_def mag_def neg_def)
  have pos: "0 < inf_mag" by (simp add: inf_mag_def)
  have fin: "\<not> isnan x" "\<not> isinf x" using assms by (simp_all add: isfinite_def isnan_def isinf_def)
  have fz: "\<not> isnan f64_zero" "\<not> isinf f64_zero" "val f64_zero = 0" using pos z
    by (simp_all add: isnan_def isinf_def val_def magnitude_def)
  have add: "f64_add x f64_zero = (if val x = 0 then mk_f64 (neg x \<and> neg f64_zero) 0
      else round_f64 (val x < 0) (val x))"
    using fin fz by (simp add: f64_add_def Let_def)
  show "isfinite (f64_add x f64_zero)" "val (f64_add x f64_zero) = val x"
  proof (atomize (full), cases "val x = 0")
    case True
    then show "isfinite (f64_add x f64_zero) \<and> val (f64_add x f64_zero) = val x"
      using z pos by (simp add: add isfinite_def val_def magnitude_def)
  next
    case False
    then have "0 < magnitude x" by (auto simp: val_def magnitude_def split: if_splits)
    then have "(val x < 0) = neg x" by (simp add: val_def)
    then have "f64_add x f64_zero = x" using False add round_f64_val [OF assms] by simp
    with assms show "isfinite (f64_add x f64_zero) \<and> val (f64_add x f64_zero) = val x" by simp
  qed
qed

lemma axes_disjoint:
  assumes "list_all (\<lambda>(l, u). isfinite l \<and> isfinite u) as" "list_all (\<lambda>(l, u). isfinite l \<and> isfinite u) bs"
    and "\<not> list_all (\<lambda>((l, u), (ol, ou)). \<not> (f64_lt (f64_add ou f64_zero) l \<or> f64_lt (f64_add u f64_zero) ol)) (zip as bs)"
    and "in_axes as p" "in_axes bs p"
  shows False
  using assms
proof (induction as p arbitrary: bs rule: in_axes.induct)
  case (2 l u as x xs)
  then obtain ol ou bs' where bs: "bs = (ol, ou) # bs'" by (cases bs) auto
  have "f64_lt (f64_add ou f64_zero) l \<longleftrightarrow> val ou < val l" "f64_lt (f64_add u f64_zero) ol \<longleftrightarrow> val u < val ol"
    using "2.prems"(1,2) by (simp_all add: bs f64_lt_val f64_add_zero)
  moreover have "val l \<le> x" "x \<le> val u" "val ol \<le> x" "x \<le> val ou"
    using "2.prems"(4,5) by (simp_all add: bs)
  ultimately show False using "2.IH" [of bs'] "2.prems" by (auto simp: bs)
qed (auto elim: in_axes.elims)

lemma workspace_valid_finite:
  "workspace_valid b \<Longrightarrow> list_all (\<lambda>(l, u). isfinite l \<and> isfinite u) (box_axes b)"
  by (auto simp: workspace_valid_def list_all_iff)

text \<open>Boxes that do not overlap at tolerance zero have no point in common.\<close>

lemma not_overlaps_disjoint:
  assumes "workspace_valid a" "workspace_valid b" "\<not> workspace_overlaps a b f64_zero"
  shows "\<not> (in_box a p \<and> in_box b p)"
  using axes_disjoint [OF workspace_valid_finite [OF assms(1)] workspace_valid_finite [OF assms(2)]] assms(3)
  unfolding workspace_overlaps_def in_box_def by blast

lemma contains_box_points:
  assumes "workspace_valid a" "workspace_valid b" "contains_box a b" "in_box b p"
  shows "in_box a p"
proof -
  have "list_all (\<lambda>((ol, ou), (il, iu)). \<not> (f64_lt il ol \<or> f64_lt ou iu)) (zip as bs) \<Longrightarrow>
      list_all (\<lambda>(l, u). isfinite l \<and> isfinite u) as \<Longrightarrow> list_all (\<lambda>(l, u). isfinite l \<and> isfinite u) bs \<Longrightarrow>
      length as = length bs \<Longrightarrow> in_axes bs p \<Longrightarrow> in_axes as p" for as bs
  proof (induction bs p arbitrary: as rule: in_axes.induct)
    case (2 l u bs x xs)
    then obtain al au as' where as: "as = (al, au) # as'" by (cases as) auto
    have "val al \<le> val l" "val u \<le> val au"
      using "2.prems" by (simp_all add: as f64_lt_val not_less)
    with "2.IH" [of as'] "2.prems" show ?case by (auto simp: as)
  qed auto
  moreover have "length (box_axes a) = length (box_axes b)"
    by (cases "box_lower a"; cases "box_upper a"; cases "box_lower b"; cases "box_upper b") (simp add: box_axes_def)
  ultimately show ?thesis
    using assms workspace_valid_finite unfolding in_box_def contains_box_def by blast
qed

end
