(* ===== verification/Fleet.thy ===== *)
theory Fleet
  imports Memory_Laws Types "HOL-Library.Product_Lexorder"
begin

text \<open>
  Multi-robot coordination of \<^verbatim>\<open>src/memory.cpp\<close>: fleet snapshots, reservations,
  \<open>analyze_fleet_schedule\<close> and its independent re-check \<open>validate_fleet_schedule_report\<close>,
  and the versioned archive of \<^verbatim>\<open>src/fleet_schedule_archive.cpp\<close>.

  The cancellation token is a function \<open>cancelled\<close> of the number of times it was polled
  before. The span of reservations is a list.
\<close>

section \<open>Data\<close>

record fleet_member =
  mem_deployment :: string
  mem_robot :: string
  mem_envelope :: workspace_aabb

record fleet_snapshot =
  snap_id :: string
  snap_fleet :: string
  snap_scene :: string
  snap_members :: "fleet_member list"

record fleet_reservation =
  res_id :: string
  res_deployment :: string
  res_source :: string
  res_occupancy :: workspace_aabb
  res_begin :: u64
  res_end :: u64
  res_margin :: f64

datatype conflict_reason = DuplicateRobotWindow | WorkspaceOverlap | SeparationMarginViolated

fun conflict_reason_code :: "conflict_reason \<Rightarrow> nat" where
  "conflict_reason_code DuplicateRobotWindow = 0"
| "conflict_reason_code WorkspaceOverlap = 1"
| "conflict_reason_code SeparationMarginViolated = 2"

definition conflict_reason_name :: "conflict_reason \<Rightarrow> string" where
  "conflict_reason_name r = (case r of
      DuplicateRobotWindow \<Rightarrow> ''duplicate_robot_window'' | WorkspaceOverlap \<Rightarrow> ''workspace_overlap''
    | SeparationMarginViolated \<Rightarrow> ''separation_margin_violated'')"

record fleet_conflict =
  con_first :: string
  con_second :: string
  con_reason :: conflict_reason
  con_clearance :: f64
  con_margin :: f64

datatype schedule_status = ConflictFreeUnderDeclaredEnvelopes | Conflicted

fun schedule_status_code :: "schedule_status \<Rightarrow> nat" where
  "schedule_status_code ConflictFreeUnderDeclaredEnvelopes = 0"
| "schedule_status_code Conflicted = 1"

definition schedule_status_name :: "schedule_status \<Rightarrow> string" where
  "schedule_status_name s = (case s of
      ConflictFreeUnderDeclaredEnvelopes \<Rightarrow> ''conflict_free_under_declared_envelopes''
    | Conflicted \<Rightarrow> ''conflicted'')"

record fleet_report =
  rep_id :: string
  rep_snapshot :: string
  rep_status :: schedule_status
  rep_reservations :: "fleet_reservation list"
  rep_conflicts :: "fleet_conflict list"
  rep_pairs :: nat

definition kMaximumFleetMembers :: nat where "kMaximumFleetMembers = 10000"

section \<open>Identities\<close>

definition workspace_aabb_json :: "workspace_aabb \<Rightarrow> json" where
  "workspace_aabb_json b = json_object
     [(''lower'', JArr (map JNum (axes3 (box_lower b)))), (''upper'', JArr (map JNum (axes3 (box_upper b))))]"

definition fleet_snapshot_json :: "fleet_snapshot \<Rightarrow> json" where
  "fleet_snapshot_json f = json_object
     [(''fleet_id'', JStr (snap_fleet f)),
      (''members'', JArr (map (\<lambda>m. json_object
          [(''deployment_id'', JStr (mem_deployment m)),
           (''operating_envelope'', workspace_aabb_json (mem_envelope m)),
           (''robot_digest'', JStr (mem_robot m))]) (snap_members f))),
      (''scene_digest'', JStr (snap_scene f))]"

definition fleet_snapshot_identity :: "fleet_snapshot \<Rightarrow> string" where
  "fleet_snapshot_identity f = sha256 (canonical (fleet_snapshot_json f))"

definition fleet_reservation_json :: "fleet_snapshot \<Rightarrow> fleet_reservation \<Rightarrow> json" where
  "fleet_reservation_json f r = json_object
     [(''begin_tick'', JStr (to_string (res_begin r))), (''deployment_id'', JStr (res_deployment r)),
      (''end_tick'', JStr (to_string (res_end r))), (''fleet_snapshot_id'', JStr (snap_id f)),
      (''occupancy'', workspace_aabb_json (res_occupancy r)), (''separation_margin'', JNum (res_margin r)),
      (''source_artifact_id'', JStr (res_source r))]"

definition fleet_reservation_identity :: "fleet_snapshot \<Rightarrow> fleet_reservation \<Rightarrow> string" where
  "fleet_reservation_identity f r = sha256 (canonical (fleet_reservation_json f r))"

definition fleet_schedule_json :: "fleet_report \<Rightarrow> json" where
  "fleet_schedule_json p = json_object
     [(''conflicts'', JArr (map (\<lambda>c. json_object
          [(''clearance_lower_bound'', JNum (con_clearance c)), (''first_reservation_id'', JStr (con_first c)),
           (''reason'', json_int (conflict_reason_code (con_reason c))), (''required_margin'', JNum (con_margin c)),
           (''second_reservation_id'', JStr (con_second c))]) (rep_conflicts p))),
      (''fleet_snapshot_id'', JStr (rep_snapshot p)),
      (''pair_evaluations'', JStr (decimal (rep_pairs p))),
      (''reservations'', JArr (map (\<lambda>r. JStr (res_id r)) (rep_reservations p))),
      (''status'', json_int (schedule_status_code (rep_status p)))]"

definition fleet_schedule_identity :: "fleet_report \<Rightarrow> string" where
  "fleet_schedule_identity p = sha256 (canonical (fleet_schedule_json p))"

section \<open>Snapshots\<close>

definition find_member :: "fleet_snapshot \<Rightarrow> string \<Rightarrow> fleet_member option" where
  "find_member f d = lookup_sorted mem_deployment (snap_members f) d"

fun members_valid :: "string \<Rightarrow> fleet_member list \<Rightarrow> bool" where
  "members_valid previous [] = True"
| "members_valid previous (m # ms) =
     (\<not> (\<not> valid_identifier (mem_deployment m) \<or> \<not> valid_sha256 (mem_robot m) \<or>
         \<not> workspace_valid (mem_envelope m) \<or> (previous \<noteq> [] \<and> mem_deployment m \<le> previous)) \<and>
      members_valid (mem_deployment m) ms)"

definition valid_fleet_snapshot :: "fleet_snapshot \<Rightarrow> bool" where
  "valid_fleet_snapshot f \<longleftrightarrow>
     \<not> (\<not> valid_identifier (snap_fleet f) \<or> \<not> valid_sha256 (snap_scene f) \<or> snap_members f = [] \<or>
        length (snap_members f) > kMaximumFleetMembers \<or> \<not> valid_sha256 (snap_id f)) \<and>
     members_valid [] (snap_members f) \<and> fleet_snapshot_identity f = snap_id f"

definition member_bad :: "fleet_member list \<Rightarrow> nat \<Rightarrow> bool" where
  "member_bad ms i \<longleftrightarrow> \<not> valid_identifier (mem_deployment (ms ! i)) \<or> \<not> valid_sha256 (mem_robot (ms ! i)) \<or>
     \<not> workspace_valid (mem_envelope (ms ! i)) \<or>
     (i \<noteq> 0 \<and> mem_deployment (ms ! (i - 1)) = mem_deployment (ms ! i))"

definition make_fleet_snapshot :: "string \<Rightarrow> string \<Rightarrow> fleet_member list \<Rightarrow> fleet_snapshot result" where
  "make_fleet_snapshot fleet scene members =
     (if \<not> valid_identifier fleet \<or> \<not> valid_sha256 scene \<or> members = [] \<or>
         length members > kMaximumFleetMembers
      then failure InvalidArgument ''fleet snapshot input is invalid'' []
      else (let ms = sort_by (\<lambda>a b. mem_deployment a < mem_deployment b) members
            in if list_ex (member_bad ms) [0..<length ms]
               then failure InvalidArgument ''fleet member is invalid or duplicated'' []
               else (let f = \<lparr>snap_id = [], snap_fleet = fleet, snap_scene = scene, snap_members = ms\<rparr>
                     in Inr (f\<lparr>snap_id := fleet_snapshot_identity f\<rparr>))))"

section \<open>Reservations\<close>

definition time_overlaps :: "fleet_reservation \<Rightarrow> fleet_reservation \<Rightarrow> bool" where
  "time_overlaps a b \<longleftrightarrow> res_begin a < res_end b \<and> res_begin b < res_end a"

definition source_type_supports_reservation :: "artifact_type \<Rightarrow> bool" where
  "source_type_supports_reservation t \<longleftrightarrow>
     t = SafeAtlas \<or> t = RegionDatabase \<or> t = SafeCorridor \<or> t = TrajectoryAudit"

definition source_incompatible :: "fleet_snapshot \<Rightarrow> fleet_member \<Rightarrow> string \<Rightarrow> memory_artifact \<Rightarrow> bool" where
  "source_incompatible f member deployment a \<longleftrightarrow>
     art_state a \<noteq> Active \<or> art_deployment a \<noteq> deployment \<or> art_robot a \<noteq> mem_robot member \<or>
     art_scene a \<noteq> snap_scene f \<or> art_evidence a < CertifiedRegion \<or>
     \<not> source_type_supports_reservation (art_type a)"

definition bad_window :: "fleet_member \<Rightarrow> workspace_aabb \<Rightarrow> u64 \<Rightarrow> u64 \<Rightarrow> f64 \<Rightarrow> bool" where
  "bad_window member occupancy begin_tick end_tick margin \<longleftrightarrow>
     \<not> workspace_valid occupancy \<or> \<not> contains_box (mem_envelope member) occupancy \<or>
     end_tick \<le> begin_tick \<or> \<not> isfinite margin \<or> f64_lt margin f64_zero"

definition make_fleet_reservation ::
  "fleet_snapshot \<Rightarrow> safety_memory \<Rightarrow> string \<Rightarrow> string \<Rightarrow> workspace_aabb \<Rightarrow> u64 \<Rightarrow> u64 \<Rightarrow> f64 \<Rightarrow>
     fleet_reservation result" where
  "make_fleet_reservation f memory deployment source occupancy begin_tick end_tick margin =
     (if \<not> valid_fleet_snapshot f then failure InvalidArgument ''fleet snapshot is invalid'' []
      else (case find_member f deployment of
          None \<Rightarrow> failure IdentityMismatch ''deployment is not a fleet member'' deployment
        | Some member \<Rightarrow>
            (if bad_window member occupancy begin_tick end_tick margin
             then failure InvalidArgument ''fleet reservation geometry or time window is invalid'' []
             else rbind (artifact_lookup memory source) (\<lambda>found.
               case found of
                 None \<Rightarrow> failure InvalidArgument ''fleet reservation source artifact does not exist'' []
               | Some a \<Rightarrow>
                   (if source_incompatible f member deployment a
                    then failure IdentityMismatch
                           ''fleet reservation source is inactive, incompatible, or insufficiently certified'' source
                    else (let r = \<lparr>res_id = [], res_deployment = deployment, res_source = source,
                                   res_occupancy = occupancy, res_begin = begin_tick, res_end = end_tick,
                                   res_margin = margin\<rparr>
                          in Inr (r\<lparr>res_id := fleet_reservation_identity f r\<rparr>)))))))"

definition reservation_less :: "fleet_reservation \<Rightarrow> fleet_reservation \<Rightarrow> bool" where
  "reservation_less a b =
     (if res_begin a \<noteq> res_begin b then res_begin a < res_begin b
      else if res_end a \<noteq> res_end b then res_end a < res_end b
      else res_id a < res_id b)"

section \<open>Schedule analysis\<close>

text \<open>The conflict of a pair whose windows overlap, if it has one.\<close>

definition pair_conflict :: "fleet_reservation \<Rightarrow> fleet_reservation \<Rightarrow> fleet_conflict list" where
  "pair_conflict a b =
     (let clearance = distance_lower_bound (res_occupancy a) (res_occupancy b);
          margin = f64_max (res_margin a) (res_margin b);
          conflict = (\<lambda>reason. [\<lparr>con_first = res_id a, con_second = res_id b, con_reason = reason,
                                 con_clearance = clearance, con_margin = margin\<rparr>])
      in if res_deployment a = res_deployment b then conflict DuplicateRobotWindow
         else if workspace_overlaps (res_occupancy a) (res_occupancy b) f64_zero then conflict WorkspaceOverlap
         else if f64_lt clearance margin then conflict SeparationMarginViolated
         else [])"

definition bad_reservation :: "fleet_snapshot \<Rightarrow> string list \<Rightarrow> fleet_reservation \<Rightarrow> bool" where
  "bad_reservation f seen r =
     (case find_member f (res_deployment r) of
        None \<Rightarrow> True
      | Some member \<Rightarrow> \<not> valid_sha256 (res_source r) \<or>
          bad_window member (res_occupancy r) (res_begin r) (res_end r) (res_margin r) \<or>
          fleet_reservation_identity f r \<noteq> res_id r \<or> res_id r \<in> set seen)"

definition cancelled_failure :: "'a result" where
  "cancelled_failure = failure Cancelled ''fleet schedule analysis cancelled'' []"

fun check_reservations ::
  "(nat \<Rightarrow> bool) \<Rightarrow> fleet_snapshot \<Rightarrow> safety_memory \<Rightarrow> string list \<Rightarrow> fleet_reservation list \<Rightarrow> unit result" where
  "check_reservations cancelled f memory seen [] = Inr ()"
| "check_reservations cancelled f memory seen (r # rs) =
     (if cancelled (1 + length seen) then cancelled_failure
      else if bad_reservation f seen r
      then failure InvalidArgument ''fleet reservation is invalid or duplicated'' []
      else rbind (artifact_lookup memory (res_source r)) (\<lambda>found.
        if (case (found, find_member f (res_deployment r)) of
              (Some a, Some member) \<Rightarrow> source_incompatible f member (res_deployment r) a
            | _ \<Rightarrow> True)
        then failure IdentityMismatch ''fleet reservation source is no longer active and compatible'' (res_source r)
        else check_reservations cancelled f memory (res_id r # seen) rs))"

text \<open>The two loops over pairs; \<open>n\<close> polls were made before the first pair.\<close>

fun analyze_inner ::
  "(nat \<Rightarrow> bool) \<Rightarrow> nat \<Rightarrow> nat \<Rightarrow> fleet_reservation \<Rightarrow> fleet_reservation list \<Rightarrow> nat \<times> fleet_conflict list \<Rightarrow>
     (nat \<times> fleet_conflict list) result" where
  "analyze_inner cancelled n limit first [] acc = Inr acc"
| "analyze_inner cancelled n limit first (second # rest) acc =
     (if res_end first \<le> res_begin second then Inr acc
      else if \<not> time_overlaps first second then analyze_inner cancelled n limit first rest acc
      else if cancelled (n + fst acc) then cancelled_failure
      else if fst acc \<ge> limit then failure ResourceLimit ''fleet pair-evaluation limit reached'' []
      else analyze_inner cancelled n limit first rest (fst acc + 1, snd acc @ pair_conflict first second))"

fun analyze_outer ::
  "(nat \<Rightarrow> bool) \<Rightarrow> nat \<Rightarrow> nat \<Rightarrow> fleet_reservation list \<Rightarrow> nat \<times> fleet_conflict list \<Rightarrow>
     (nat \<times> fleet_conflict list) result" where
  "analyze_outer cancelled n limit [] acc = Inr acc"
| "analyze_outer cancelled n limit (first # rest) acc =
     rbind (analyze_inner cancelled n limit first rest acc) (analyze_outer cancelled n limit rest)"

definition analyze_fleet_schedule ::
  "fleet_snapshot \<Rightarrow> safety_memory \<Rightarrow> fleet_reservation list \<Rightarrow> nat \<Rightarrow> nat \<Rightarrow> (nat \<Rightarrow> bool) \<Rightarrow> fleet_report result" where
  "analyze_fleet_schedule f memory reservations maximum_reservations maximum_pairs cancelled =
     (if \<not> valid_fleet_snapshot f then failure InvalidArgument ''fleet snapshot is invalid'' []
      else if maximum_reservations = 0 \<or> maximum_pairs = 0
      then failure InvalidArgument ''fleet schedule limits must be positive'' []
      else if length reservations > maximum_reservations
      then failure ResourceLimit ''fleet reservation count exceeds limit'' []
      else if cancelled 0 then cancelled_failure
      else (let rs = sort_by reservation_less reservations
            in rbind (check_reservations cancelled f memory [] rs) (\<lambda>_.
               rbind (analyze_outer cancelled (1 + length rs) maximum_pairs rs (0, [])) (\<lambda>(pairs, conflicts).
                 let p = \<lparr>rep_id = [], rep_snapshot = snap_id f,
                          rep_status = (if conflicts = [] then ConflictFreeUnderDeclaredEnvelopes else Conflicted),
                          rep_reservations = rs, rep_conflicts = conflicts, rep_pairs = pairs\<rparr>
                 in Inr (p\<lparr>rep_id := fleet_schedule_identity p\<rparr>)))))"

section \<open>Re-checking a report\<close>

definition report_reservation_bad ::
  "fleet_snapshot \<Rightarrow> string list \<Rightarrow> fleet_reservation option \<Rightarrow> fleet_reservation \<Rightarrow> bool" where
  "report_reservation_bad f seen previous r \<longleftrightarrow>
     bad_reservation f seen r \<or> \<not> valid_sha256 (res_id r) \<or>
     (case previous of None \<Rightarrow> False | Some q \<Rightarrow> reservation_less r q)"

fun report_reservations ::
  "fleet_snapshot \<Rightarrow> string list \<Rightarrow> fleet_reservation option \<Rightarrow> fleet_reservation list \<Rightarrow> unit result" where
  "report_reservations f seen previous [] = Inr ()"
| "report_reservations f seen previous (r # rs) =
     (if report_reservation_bad f seen previous r
      then failure InvalidArgument ''fleet schedule reservation is invalid'' (res_id r)
      else report_reservations f (res_id r # seen) (Some r) rs)"

definition conflict_differs :: "fleet_conflict \<Rightarrow> fleet_conflict \<Rightarrow> bool" where
  "conflict_differs a e \<longleftrightarrow> con_first a \<noteq> con_first e \<or> con_second a \<noteq> con_second e \<or>
     con_reason a \<noteq> con_reason e \<or> \<not> f64_eq (con_clearance a) (con_clearance e) \<or>
     \<not> f64_eq (con_margin a) (con_margin e)"

text \<open>The state of the re-check: pairs counted so far and the conflicts not yet matched.\<close>

fun recheck_inner ::
  "string \<Rightarrow> nat \<Rightarrow> fleet_reservation \<Rightarrow> fleet_reservation list \<Rightarrow> nat \<times> fleet_conflict list \<Rightarrow>
     (nat \<times> fleet_conflict list) result" where
  "recheck_inner report_id limit first [] acc = Inr acc"
| "recheck_inner report_id limit first (second # rest) acc =
     (if res_end first \<le> res_begin second then Inr acc
      else if \<not> time_overlaps first second then recheck_inner report_id limit first rest acc
      else if fst acc \<ge> limit
      then failure ResourceLimit ''fleet schedule pair count exceeds validation limit'' []
      else (case pair_conflict first second of
          [] \<Rightarrow> recheck_inner report_id limit first rest (fst acc + 1, snd acc)
        | expected # _ \<Rightarrow>
            (case snd acc of
               [] \<Rightarrow> failure InvalidArgument ''fleet schedule conflict list is incomplete'' report_id
             | actual # remaining \<Rightarrow>
                 (if conflict_differs actual expected
                  then failure InvalidArgument ''fleet schedule conflict content is inconsistent'' report_id
                  else recheck_inner report_id limit first rest (fst acc + 1, remaining)))))"

fun recheck_outer ::
  "string \<Rightarrow> nat \<Rightarrow> fleet_reservation list \<Rightarrow> nat \<times> fleet_conflict list \<Rightarrow> (nat \<times> fleet_conflict list) result" where
  "recheck_outer report_id limit [] acc = Inr acc"
| "recheck_outer report_id limit (first # rest) acc =
     rbind (recheck_inner report_id limit first rest acc) (recheck_outer report_id limit rest)"

definition validate_fleet_schedule_report :: "fleet_snapshot \<Rightarrow> fleet_report \<Rightarrow> nat \<Rightarrow> unit result" where
  "validate_fleet_schedule_report f p maximum_pairs =
     (if \<not> valid_fleet_snapshot f \<or> maximum_pairs = 0 \<or> rep_snapshot p \<noteq> snap_id f \<or> \<not> valid_sha256 (rep_id p) \<or>
         (rep_status p \<noteq> ConflictFreeUnderDeclaredEnvelopes \<and> rep_status p \<noteq> Conflicted) \<or>
         rep_pairs p > maximum_pairs
      then failure InvalidArgument ''fleet schedule report metadata is invalid'' (rep_id p)
      else rbind (report_reservations f [] None (rep_reservations p)) (\<lambda>_.
        rbind (recheck_outer (rep_id p) maximum_pairs (rep_reservations p) (0, rep_conflicts p)) (\<lambda>(pairs, left).
          if pairs \<noteq> rep_pairs p \<or> left \<noteq> [] \<or>
             rep_status p \<noteq> (if rep_conflicts p = [] then ConflictFreeUnderDeclaredEnvelopes else Conflicted) \<or>
             fleet_schedule_identity p \<noteq> rep_id p
          then failure IdentityMismatch ''fleet schedule report identity or derived values are invalid'' (rep_id p)
          else Inr ())))"

section \<open>The archive\<close>

record fleet_version =
  ver_sequence :: u64
  ver_id :: string
  ver_parent :: string
  ver_memory :: string
  ver_fleet :: fleet_snapshot
  ver_report :: fleet_report

record fleet_archive =
  arch_fleet :: string
  arch_current :: string
  arch_versions :: "fleet_version list"

definition fleet_version_json :: "fleet_version \<Rightarrow> json" where
  "fleet_version_json v = json_object
     [(''fleet_snapshot_id'', JStr (snap_id (ver_fleet v))), (''memory_id'', JStr (ver_memory v)),
      (''parent_id'', JStr (ver_parent v)), (''report_id'', JStr (rep_id (ver_report v))),
      (''sequence'', JStr (to_string (ver_sequence v)))]"

definition fleet_schedule_version_identity :: "fleet_version \<Rightarrow> string" where
  "fleet_schedule_version_identity v = sha256 (canonical (fleet_version_json v))"

definition create_archive :: "string \<Rightarrow> fleet_archive result" where
  "create_archive fleet =
     (if \<not> valid_identifier fleet then failure InvalidArgument ''fleet archive ID is invalid'' []
      else Inr \<lparr>arch_fleet = fleet, arch_current = [], arch_versions = []\<rparr>)"

fun versions_valid :: "string \<Rightarrow> nat \<Rightarrow> string \<Rightarrow> string list \<Rightarrow> fleet_version list \<Rightarrow> bool" where
  "versions_valid fleet i parent ids [] = True"
| "versions_valid fleet i parent ids (v # vs) =
     (\<not> (ver_sequence v \<noteq> of_nat i \<or> ver_parent v \<noteq> parent \<or> snap_fleet (ver_fleet v) \<noteq> fleet \<or>
         rep_snapshot (ver_report v) \<noteq> snap_id (ver_fleet v) \<or> \<not> valid_sha256 (ver_id v) \<or>
         \<not> valid_sha256 (ver_memory v) \<or> fleet_schedule_version_identity v \<noteq> ver_id v \<or> ver_id v \<in> set ids) \<and>
      validate_fleet_schedule_report (ver_fleet v) (ver_report v) (max (rep_pairs (ver_report v)) 1) = Inr () \<and>
      versions_valid fleet (i + 1) (ver_id v) (ver_id v # ids) vs)"

definition archive_valid :: "fleet_archive \<Rightarrow> bool" where
  "archive_valid a \<longleftrightarrow>
     \<not> (\<not> valid_identifier (arch_fleet a) \<or> (arch_versions a = []) \<noteq> (arch_current a = [])) \<and>
     versions_valid (arch_fleet a) 0 [] [] (arch_versions a) \<and>
     (arch_versions a = [] \<or> arch_current a = ver_id (last (arch_versions a)))"

definition current_version :: "fleet_archive \<Rightarrow> fleet_version result" where
  "current_version a =
     (if arch_versions a = [] then failure InvalidArgument ''fleet schedule archive has no versions'' []
      else Inr (last (arch_versions a)))"

definition find_version :: "fleet_archive \<Rightarrow> string \<Rightarrow> fleet_version result" where
  "find_version a i =
     (if \<not> valid_sha256 i then failure InvalidArgument ''fleet schedule version ID is invalid'' []
      else (case find (\<lambda>v. ver_id v = i) (arch_versions a) of
          None \<Rightarrow> failure InvalidArgument ''fleet schedule version is not registered'' i
        | Some v \<Rightarrow> Inr v))"

definition publish_schedule ::
  "fleet_archive \<Rightarrow> fleet_snapshot \<Rightarrow> safety_memory \<Rightarrow> fleet_reservation list \<Rightarrow> string \<Rightarrow> nat \<Rightarrow> nat \<Rightarrow>
     (nat \<Rightarrow> bool) \<Rightarrow> nat \<Rightarrow> (fleet_archive \<times> fleet_version) result" where
  "publish_schedule a f memory reservations expected maximum_reservations maximum_pairs cancelled maximum_versions =
     (if \<not> archive_valid a \<or> maximum_versions = 0 \<or> snap_fleet f \<noteq> arch_fleet a
      then failure InvalidArgument ''fleet schedule publication input is invalid'' []
      else if arch_versions a = [] \<and> expected \<noteq> []
      then failure IdentityMismatch ''empty fleet archive requires an empty expected head'' []
      else if arch_versions a \<noteq> [] \<and> (\<not> valid_sha256 expected \<or> expected \<noteq> arch_current a)
      then failure IdentityMismatch ''fleet schedule archive head changed'' (arch_current a)
      else rbind (analyze_fleet_schedule f memory reservations maximum_reservations maximum_pairs cancelled) (\<lambda>p.
        if arch_versions a \<noteq> [] \<and> ver_memory (last (arch_versions a)) = memory_identity memory \<and>
           snap_id (ver_fleet (last (arch_versions a))) = snap_id f \<and>
           rep_id (ver_report (last (arch_versions a))) = rep_id p
        then Inr (a, last (arch_versions a))
        else if length (arch_versions a) \<ge> maximum_versions \<or> length (arch_versions a) \<ge> 2 ^ 64 - 1
        then failure ResourceLimit ''fleet schedule archive version limit reached'' []
        else (let v0 = \<lparr>ver_sequence = of_nat (length (arch_versions a)), ver_id = [],
                        ver_parent = arch_current a, ver_memory = memory_identity memory,
                        ver_fleet = f, ver_report = p\<rparr>;
                  v = v0\<lparr>ver_id := fleet_schedule_version_identity v0\<rparr>
              in Inr (a\<lparr>arch_versions := arch_versions a @ [v], arch_current := ver_id v\<rparr>, v))))"

definition verify_version ::
  "fleet_archive \<Rightarrow> string \<Rightarrow> fleet_snapshot \<Rightarrow> safety_memory \<Rightarrow> nat \<Rightarrow> nat \<Rightarrow> (nat \<Rightarrow> bool) \<Rightarrow> fleet_report result" where
  "verify_version a i f memory maximum_reservations maximum_pairs cancelled =
     rbind (find_version a i) (\<lambda>stored.
       if \<not> valid_fleet_snapshot f \<or> snap_id f \<noteq> snap_id (ver_fleet stored) \<or>
          memory_identity memory \<noteq> ver_memory stored
       then failure IdentityMismatch
              ''fleet schedule version is incompatible with the supplied fleet or memory'' i
       else rbind (analyze_fleet_schedule f memory (rep_reservations (ver_report stored))
                     maximum_reservations maximum_pairs cancelled) (\<lambda>replayed.
         if rep_id replayed \<noteq> rep_id (ver_report stored)
         then failure CorruptData ''fleet schedule replay differs from stored report'' i
         else Inr replayed))"

end
