(* ===== verification/Fleet_Laws.thy ===== *)
theory Fleet_Laws
  imports Fleet
begin

text \<open>
  What a fleet schedule report means: the sorted sweep finds every pair of reservations
  whose windows overlap, a conflict-free report separates those pairs in space, the
  independent re-check accepts what the analysis produced, and the archive only grows.
\<close>

section \<open>The sweep\<close>

fun window_pairs :: "fleet_reservation list \<Rightarrow> (fleet_reservation \<times> fleet_reservation) list" where
  "window_pairs [] = []"
| "window_pairs (r # rs) = map (Pair r) (filter (time_overlaps r) rs) @ window_pairs rs"

definition conflicts_of :: "(fleet_reservation \<times> fleet_reservation) list \<Rightarrow> fleet_conflict list" where
  "conflicts_of ps = concat (map (\<lambda>(a, b). pair_conflict a b) ps)"

lemma conflicts_of_simps [simp]:
  "conflicts_of [] = []" "conflicts_of ((a, b) # ps) = pair_conflict a b @ conflicts_of ps"
  "conflicts_of (ps @ qs) = conflicts_of ps @ conflicts_of qs"
  by (simp_all add: conflicts_of_def)

lemma window_pairs_nth:
  "i < j \<Longrightarrow> j < length rs \<Longrightarrow> time_overlaps (rs ! i) (rs ! j) \<Longrightarrow> (rs ! i, rs ! j) \<in> set (window_pairs rs)"
proof (induction rs arbitrary: i j)
  case (Cons r rs)
  then obtain j' where j: "j = Suc j'" by (cases j) auto
  with Cons show ?case by (cases i) auto
qed simp

lemma window_pairs_set:
  "(a, b) \<in> set (window_pairs rs) \<Longrightarrow> a \<in> set rs \<and> b \<in> set rs \<and> time_overlaps a b"
  by (induction rs) auto

lemma sweep_break:
  assumes "sorted (map res_begin (s # rest))" "res_end r \<le> res_begin s"
  shows "filter (time_overlaps r) (s # rest) = []"
  using assms by (auto simp: filter_empty_conv time_overlaps_def not_less intro: order.trans)

lemma analyze_inner_pairs:
  "analyze_inner c n limit r rest acc = Inr acc' \<Longrightarrow> sorted (map res_begin rest) \<Longrightarrow>
     acc' = (fst acc + length (filter (time_overlaps r) rest),
             snd acc @ conflicts_of (map (Pair r) (filter (time_overlaps r) rest)))"
proof (induction rest arbitrary: acc)
  case (Cons s rest)
  show ?case
  proof (cases "res_end r \<le> res_begin s")
    case True
    with sweep_break [OF Cons.prems(2) True] Cons.prems(1) show ?thesis by (simp only: analyze_inner.simps) simp
  next
    case False
    have srt: "sorted (map res_begin rest)" using Cons.prems(2) by simp
    show ?thesis
      using Cons.prems(1) False Cons.IH [OF _ srt, of acc]
        Cons.IH [OF _ srt, of "(fst acc + 1, snd acc @ pair_conflict r s)"]
      by (auto simp: cancelled_failure_def split: if_splits)
  qed
qed simp

lemma analyze_outer_pairs:
  "analyze_outer c n limit rs acc = Inr acc' \<Longrightarrow> sorted (map res_begin rs) \<Longrightarrow>
     acc' = (fst acc + length (window_pairs rs), snd acc @ conflicts_of (window_pairs rs))"
proof (induction rs arbitrary: acc)
  case (Cons r rs)
  then obtain acc1 where a: "analyze_inner c n limit r rs acc = Inr acc1" "analyze_outer c n limit rs acc1 = Inr acc'"
    by (auto simp: rbind_eq_Inr)
  from Cons.prems(2) have s: "sorted (map res_begin rs)" by simp
  from Cons.IH [OF a(2) s] analyze_inner_pairs [OF a(1) s] show ?case by simp
qed simp

lemma reservation_less_key:
  "reservation_less a b \<longleftrightarrow> (res_begin a, res_end a, res_id a) < (res_begin b, res_end b, res_id b)"
  by (auto simp: reservation_less_def less_prod_def)

lemma sorted_reservations:
  "sorted (map (\<lambda>r. (res_begin r, res_end r, res_id r)) (sort_by reservation_less rs))"
  by (rule sort_by_key) (rule reservation_less_key)

lemma sorted_begins: "sorted (map (\<lambda>r. (res_begin r, res_end r, res_id r)) rs) \<Longrightarrow> sorted (map res_begin rs)"
  by (induction rs) (auto simp: less_eq_prod_def)

lemma analyze_cases:
  assumes "analyze_fleet_schedule f memory reservations mr mp c = Inr p"
  obtains "valid_fleet_snapshot f" "length reservations \<le> mr" "mp \<noteq> 0"
    "rep_reservations p = sort_by reservation_less reservations"
    "check_reservations c f memory [] (rep_reservations p) = Inr ()"
    "rep_pairs p = length (window_pairs (rep_reservations p))"
    "rep_conflicts p = conflicts_of (window_pairs (rep_reservations p))"
    "rep_status p = (if rep_conflicts p = [] then ConflictFreeUnderDeclaredEnvelopes else Conflicted)"
    "rep_snapshot p = snap_id f" "rep_id p = fleet_schedule_identity p"
proof -
  let ?rs = "sort_by reservation_less reservations"
  obtain pairs conflicts where o: "analyze_outer c (1 + length ?rs) mp ?rs (0, []) = Inr (pairs, conflicts)"
    and chk: "check_reservations c f memory [] ?rs = Inr ()"
    using assms by (auto simp: analyze_fleet_schedule_def cancelled_failure_def rbind_eq_Inr Let_def split: if_splits)
  have g: "valid_fleet_snapshot f" "length reservations \<le> mr" "mp \<noteq> 0"
    using assms by (auto simp: analyze_fleet_schedule_def split: if_splits)
  have "sorted (map res_begin ?rs)" by (rule sorted_begins) (rule sorted_reservations)
  then have pc: "pairs = length (window_pairs ?rs)" "conflicts = conflicts_of (window_pairs ?rs)"
    using analyze_outer_pairs [OF o] by simp_all
  have p: "p = (let p = \<lparr>rep_id = [], rep_snapshot = snap_id f,
      rep_status = (if conflicts = [] then ConflictFreeUnderDeclaredEnvelopes else Conflicted),
      rep_reservations = ?rs, rep_conflicts = conflicts, rep_pairs = pairs\<rparr>
      in p\<lparr>rep_id := fleet_schedule_identity p\<rparr>)"
    using assms o chk by (auto simp: analyze_fleet_schedule_def cancelled_failure_def Let_def split: if_splits)
  have "rep_id p = fleet_schedule_identity p"
    by (simp add: p Let_def fleet_schedule_identity_def fleet_schedule_json_def)
  then show thesis using g chk pc by (intro that) (simp_all add: p Let_def)
qed

section \<open>What a reservation of a report satisfies\<close>

lemma check_reservations_all:
  "check_reservations c f memory seen rs = Inr () \<Longrightarrow>
     (\<forall>r\<in>set rs. \<exists>member a. find_member f (res_deployment r) = Some member \<and>
        \<not> bad_window member (res_occupancy r) (res_begin r) (res_end r) (res_margin r) \<and>
        fleet_reservation_identity f r = res_id r \<and>
        artifact_lookup memory (res_source r) = Inr (Some a) \<and>
        \<not> source_incompatible f member (res_deployment r) a) \<and>
     distinct (map res_id rs) \<and> set seen \<inter> res_id ` set rs = {}"
proof (induction rs arbitrary: seen)
  case (Cons r rs)
  obtain member where member: "find_member f (res_deployment r) = Some member"
    and ok: "\<not> bad_reservation f seen r"
    using Cons.prems by (auto simp: bad_reservation_def cancelled_failure_def split: if_splits option.splits)
  obtain found where found: "artifact_lookup memory (res_source r) = Inr found"
    using Cons.prems ok by (auto simp: cancelled_failure_def rbind_eq_Inr split: if_splits)
  have rest: "check_reservations c f memory (res_id r # seen) rs = Inr ()"
    and a: "\<exists>a. found = Some a \<and> \<not> source_incompatible f member (res_deployment r) a"
    using Cons.prems ok member found by (auto simp: cancelled_failure_def split: if_splits option.splits)
  have "\<not> bad_window member (res_occupancy r) (res_begin r) (res_end r) (res_margin r)"
      "fleet_reservation_identity f r = res_id r" "res_id r \<notin> set seen"
    using ok member by (simp_all add: bad_reservation_def)
  with Cons.IH [OF rest] a found member show ?case by auto
qed simp

section \<open>Numbers that stay numbers\<close>

lemma round_scaled_le: "round_scaled t \<le> inf_mag"
  by (simp add: round_scaled_def Let_def)

lemma round_f64_props: "\<not> isnan (round_f64 s r)" "neg (round_f64 s r) = s"
  using round_scaled_le round_scaled_less_sign by (simp_all add: round_f64_def isnan_def not_less)

definition non_negative :: "f64 \<Rightarrow> bool" where
  "non_negative x \<longleftrightarrow> \<not> isnan x \<and> \<not> neg x"

lemma zero_props [simp]: "mag f64_zero = 0" "\<not> neg f64_zero" "\<not> isnan f64_zero" "\<not> isinf f64_zero" "isfinite f64_zero"
proof -
  show m: "mag f64_zero = 0" "\<not> neg f64_zero" by (simp_all add: f64_zero_def mag_def neg_def)
  have "0 < inf_mag" by (simp add: inf_mag_def)
  with m show "\<not> isnan f64_zero" "\<not> isinf f64_zero" "isfinite f64_zero"
    by (simp_all add: isnan_def isinf_def isfinite_def)
qed

lemma inf_mag_sign [simp]: "mag (mk_f64 s inf_mag) = inf_mag" "neg (mk_f64 s inf_mag) = s"
  using inf_mag_less_sign by simp_all

lemma add_non_negative: "non_negative x \<Longrightarrow> non_negative y \<Longrightarrow> non_negative (f64_add x y)"
proof -
  assume x: "non_negative x" and y: "non_negative y"
  have "0 \<le> val x" "0 \<le> val y" using x y by (simp_all add: non_negative_def val_def magnitude_def less_imp_le)
  then have "\<not> val x + val y < 0" by simp
  moreover have "\<not> isnan (mk_f64 False 0)" by (simp add: isnan_def)
  ultimately show ?thesis using x y
    by (auto simp: non_negative_def f64_add_def Let_def round_f64_props)
qed

lemma square_non_negative: "\<not> isnan x \<Longrightarrow> non_negative (f64_mul x x)"
proof -
  assume x: "\<not> isnan x"
  have "0 < inf_mag" by (simp add: inf_mag_def)
  then have "isinf x \<Longrightarrow> mag x \<noteq> 0" by (simp add: isinf_def)
  moreover have "\<not> isnan (mk_f64 False inf_mag)" by (simp add: isnan_def)
  ultimately show ?thesis using x by (auto simp: non_negative_def f64_mul_def round_f64_props)
qed

lemma sub_finite_not_nan: "isfinite x \<Longrightarrow> isfinite y \<Longrightarrow> \<not> isnan (f64_sub x y)"
proof -
  assume x: "isfinite x" and y: "isfinite y"
  have "mag (f64_neg y) = mag y" by (simp add: f64_neg_def)
  with x y have "\<not> isnan x" "\<not> isinf x" "\<not> isnan (f64_neg y)" "\<not> isinf (f64_neg y)" "\<not> isnan y"
    by (simp_all add: isfinite_def isnan_def isinf_def)
  then show ?thesis by (auto simp: f64_sub_def f64_add_def Let_def round_f64_props) (simp add: isnan_def)
qed

lemma sqrt_not_nan: "non_negative x \<Longrightarrow> \<not> isnan (f64_sqrt x)"
  by (auto simp: non_negative_def f64_sqrt_def Let_def round_f64_props)

lemma separation_not_nan:
  assumes "isfinite l" "isfinite u" "isfinite ol" "isfinite ou"
  shows "\<not> isnan (axis_separation (l, u) (ol, ou))"
  using assms by (auto simp: axis_separation_def Let_def sub_finite_not_nan)

lemma distance_not_nan:
  assumes "workspace_valid a" "workspace_valid b"
  shows "\<not> isnan (distance_lower_bound a b)"
proof -
  let ?f = "\<lambda>squared (x, y). let s = axis_separation x y in f64_add squared (f64_mul s s)"
  have "non_negative q \<Longrightarrow> list_all (\<lambda>(l, u). isfinite l \<and> isfinite u) as \<Longrightarrow>
      list_all (\<lambda>(l, u). isfinite l \<and> isfinite u) bs \<Longrightarrow> non_negative (foldl ?f q (zip as bs))" for q as bs
  proof (induction as arbitrary: q bs)
    case (Cons x as)
    show ?case
    proof (cases bs)
      case (Cons y bs')
      with Cons.prems have "\<not> isnan (axis_separation x y)" by (cases x; cases y) (simp add: separation_not_nan)
      then have "non_negative (?f q (x, y))"
        using Cons.prems(1) by (simp add: Let_def add_non_negative square_non_negative)
      then have "non_negative (foldl ?f (?f q (x, y)) (zip as bs'))"
        using Cons.prems Cons by (intro Cons.IH) simp_all
      then show ?thesis by (simp add: Cons)
    qed (use Cons.prems in simp)
  qed simp
  moreover have "non_negative f64_zero" by (simp add: non_negative_def)
  ultimately show ?thesis
    using assms workspace_valid_finite unfolding distance_lower_bound_def by (intro sqrt_not_nan) blast
qed

lemma f64_eq_refl: "\<not> isnan x \<Longrightarrow> f64_eq x x"
  by (simp add: f64_eq_def)

lemma max_not_nan: "isfinite x \<Longrightarrow> isfinite y \<Longrightarrow> \<not> isnan (f64_max x y)"
  by (simp add: f64_max_def isfinite_def isnan_def)

section \<open>The re-check accepts what the analysis produced\<close>

lemma pair_conflict_cases:
  "pair_conflict a b = [] \<or> (\<exists>reason. pair_conflict a b = [\<lparr>con_first = res_id a, con_second = res_id b,
     con_reason = reason, con_clearance = distance_lower_bound (res_occupancy a) (res_occupancy b),
     con_margin = f64_max (res_margin a) (res_margin b)\<rparr>])"
  by (auto simp: pair_conflict_def Let_def)

definition plain_reservation :: "fleet_reservation \<Rightarrow> bool" where
  "plain_reservation r \<longleftrightarrow> workspace_valid (res_occupancy r) \<and> isfinite (res_margin r)"

lemma conflict_not_differs:
  assumes "plain_reservation a" "plain_reservation b" "c \<in> set (pair_conflict a b)"
  shows "\<not> conflict_differs c c"
  using pair_conflict_cases [of a b] assms distance_not_nan max_not_nan
  by (auto simp: conflict_differs_def plain_reservation_def f64_eq_refl)

lemma recheck_inner_accepts:
  "sorted (map res_begin rest) \<Longrightarrow> plain_reservation r \<Longrightarrow> list_all plain_reservation rest \<Longrightarrow>
     k + length (filter (time_overlaps r) rest) \<le> limit \<Longrightarrow>
     recheck_inner i limit r rest (k, conflicts_of (map (Pair r) (filter (time_overlaps r) rest)) @ cs)
       = Inr (k + length (filter (time_overlaps r) rest), cs)"
proof (induction rest arbitrary: k)
  case (Cons s rest)
  show ?case
  proof (cases "res_end r \<le> res_begin s")
    case True
    with sweep_break [OF Cons.prems(1) True] show ?thesis by (simp only: recheck_inner.simps) simp
  next
    case False
    show ?thesis
    proof (cases "time_overlaps r s")
      case True
      let ?cs = "conflicts_of (map (Pair r) (filter (time_overlaps r) rest)) @ cs"
      have IH: "recheck_inner i limit r rest (Suc k, ?cs) = Inr (Suc k + length (filter (time_overlaps r) rest), cs)"
        using Cons.prems True by (intro Cons.IH) simp_all
      have plain: "plain_reservation r" "plain_reservation s" using Cons.prems by simp_all
      show ?thesis
      proof (cases "pair_conflict r s")
        case Nil
        with IH True False Cons.prems(4) show ?thesis by simp
      next
        case (Cons c cs')
        then have cs': "pair_conflict r s = [c]" using pair_conflict_cases [of r s] by auto
        then have "\<not> conflict_differs c c" using conflict_not_differs [OF plain] by simp
        with IH True False Cons.prems(4) cs' \<open>k + length (filter (time_overlaps r) (s # rest)) \<le> limit\<close>
        show ?thesis by simp
      qed
    next
      case False
      with Cons \<open>\<not> res_end r \<le> res_begin s\<close> show ?thesis by simp
    qed
  qed
qed simp

lemma recheck_outer_accepts:
  "sorted (map res_begin rs) \<Longrightarrow> list_all plain_reservation rs \<Longrightarrow> k + length (window_pairs rs) \<le> limit \<Longrightarrow>
     recheck_outer i limit rs (k, conflicts_of (window_pairs rs)) = Inr (k + length (window_pairs rs), [])"
proof (induction rs arbitrary: k)
  case (Cons r rs)
  have "recheck_inner i limit r rs (k, conflicts_of (map (Pair r) (filter (time_overlaps r) rs)) @
      conflicts_of (window_pairs rs)) = Inr (k + length (filter (time_overlaps r) rs), conflicts_of (window_pairs rs))"
    using Cons.prems by (intro recheck_inner_accepts) simp_all
  moreover have "recheck_outer i limit rs (k + length (filter (time_overlaps r) rs), conflicts_of (window_pairs rs))
      = Inr (k + length (filter (time_overlaps r) rs) + length (window_pairs rs), [])"
    using Cons.prems by (intro Cons.IH) simp_all
  ultimately show ?case by simp
qed simp

lemma report_reservations_accepts:
  "(\<forall>r\<in>set rs. \<exists>member. find_member f (res_deployment r) = Some member \<and>
       \<not> bad_window member (res_occupancy r) (res_begin r) (res_end r) (res_margin r) \<and>
       fleet_reservation_identity f r = res_id r \<and> valid_sha256 (res_source r)) \<Longrightarrow>
   distinct (map res_id rs) \<Longrightarrow> set seen \<inter> res_id ` set rs = {} \<Longrightarrow>
   sorted_wrt (\<lambda>a b. \<not> reservation_less b a) (case previous of None \<Rightarrow> rs | Some q \<Rightarrow> q # rs) \<Longrightarrow>
     report_reservations f seen previous rs = Inr ()"
proof (induction rs arbitrary: seen previous)
  case (Cons r rs)
  have "valid_sha256 (res_id r)" if "fleet_reservation_identity f r = res_id r"
    using that by (metis fleet_reservation_identity_def valid_sha256_sha256)
  with Cons.prems have "\<not> report_reservation_bad f seen previous r"
    by (auto simp: report_reservation_bad_def bad_reservation_def split: option.splits)
  moreover have "report_reservations f (res_id r # seen) (Some r) rs = Inr ()"
    using Cons.prems by (intro Cons.IH) (auto split: option.splits)
  ultimately show ?case by simp
qed simp

lemma analyze_rechecks:
  assumes "analyze_fleet_schedule f memory reservations mr mp c = Inr p"
  shows "validate_fleet_schedule_report f p (max (rep_pairs p) 1) = Inr ()"
  using assms
proof (cases rule: analyze_cases)
  case 1
  let ?rs = "rep_reservations p"
  note all = check_reservations_all [OF 1(5)]
  have srt: "sorted_wrt (\<lambda>a b. \<not> reservation_less b a) ?rs"
    unfolding 1(4) by (rule sort_by_wrt) (rule reservation_less_key)
  have begins: "sorted (map res_begin ?rs)" unfolding 1(4) by (rule sorted_begins) (rule sorted_reservations)
  have plain: "list_all plain_reservation ?rs"
    using all by (auto simp: list_all_iff plain_reservation_def bad_window_def)
  have src: "valid_sha256 (res_source r)" if "r \<in> set ?rs" for r
    using all that by (fastforce simp: artifact_lookup_def split: if_splits)
  have "\<forall>r\<in>set ?rs. \<exists>member. find_member f (res_deployment r) = Some member \<and>
       \<not> bad_window member (res_occupancy r) (res_begin r) (res_end r) (res_margin r) \<and>
       fleet_reservation_identity f r = res_id r \<and> valid_sha256 (res_source r)"
    using all src by blast
  then have rr: "report_reservations f [] None ?rs = Inr ()"
    by (rule report_reservations_accepts) (use all srt in simp_all)
  have oo: "recheck_outer (rep_id p) (max (rep_pairs p) 1) ?rs (0, rep_conflicts p) = Inr (rep_pairs p, [])"
    using recheck_outer_accepts [OF begins plain, of 0 "max (rep_pairs p) 1" "rep_id p"] 1(6,7) by simp
  have "valid_sha256 (rep_id p)" by (metis 1(10) fleet_schedule_identity_def valid_sha256_sha256)
  moreover have "rep_status p = ConflictFreeUnderDeclaredEnvelopes \<or> rep_status p = Conflicted"
    by (cases "rep_status p") simp_all
  ultimately show ?thesis using 1 rr oo by (auto simp: validate_fleet_schedule_report_def)
qed

section \<open>What a conflict-free report guarantees\<close>

definition separated :: "fleet_reservation \<Rightarrow> fleet_reservation \<Rightarrow> bool" where
  "separated a b \<longleftrightarrow> res_deployment a \<noteq> res_deployment b \<and>
     \<not> workspace_overlaps (res_occupancy a) (res_occupancy b) f64_zero \<and>
     \<not> f64_lt (distance_lower_bound (res_occupancy a) (res_occupancy b)) (f64_max (res_margin a) (res_margin b))"

lemma pair_conflict_Nil: "pair_conflict a b = [] \<longleftrightarrow> separated a b"
  by (auto simp: pair_conflict_def separated_def Let_def)

lemma conflict_free_separated:
  assumes "analyze_fleet_schedule f memory reservations mr mp c = Inr p"
    and "rep_status p = ConflictFreeUnderDeclaredEnvelopes"
    and "i < j" "j < length (rep_reservations p)"
    and "time_overlaps (rep_reservations p ! i) (rep_reservations p ! j)"
  shows "separated (rep_reservations p ! i) (rep_reservations p ! j)"
  using assms(1)
proof (cases rule: analyze_cases)
  case 1
  then have "conflicts_of (window_pairs (rep_reservations p)) = []"
    using assms(2) by (metis schedule_status.distinct(1))
  moreover have "(rep_reservations p ! i, rep_reservations p ! j) \<in> set (window_pairs (rep_reservations p))"
    by (rule window_pairs_nth) (use assms in simp_all)
  ultimately have "pair_conflict (rep_reservations p ! i) (rep_reservations p ! j) = []"
    by (force simp: conflicts_of_def)
  then show ?thesis by (simp add: pair_conflict_Nil)
qed

lemma separated_points:
  assumes "separated a b" "workspace_valid (res_occupancy a)" "workspace_valid (res_occupancy b)"
  shows "\<not> (in_box (res_occupancy a) p \<and> in_box (res_occupancy b) p)"
  using assms not_overlaps_disjoint by (simp add: separated_def)

lemma analyze_occupancy_valid:
  assumes "analyze_fleet_schedule f memory reservations mr mp c = Inr p" "r \<in> set (rep_reservations p)"
  shows "workspace_valid (res_occupancy r)"
  using assms(1)
proof (cases rule: analyze_cases)
  case 1
  show ?thesis using check_reservations_all [OF 1(5)] assms(2) by (auto simp: bad_window_def)
qed

section \<open>Snapshots and reservations\<close>

lemma members_valid_iff:
  "members_valid previous ms \<longleftrightarrow> (\<forall>m\<in>set ms. valid_identifier (mem_deployment m) \<and> valid_sha256 (mem_robot m) \<and>
      workspace_valid (mem_envelope m)) \<and>
     sorted_wrt (\<lambda>a b. mem_deployment a < mem_deployment b) ms \<and>
     (previous \<noteq> [] \<longrightarrow> (\<forall>m\<in>set ms. previous < mem_deployment m))"
proof (induction ms arbitrary: previous)
  case (Cons m ms)
  have "valid_identifier (mem_deployment m) \<Longrightarrow> mem_deployment m \<noteq> []" by (simp add: valid_identifier_def)
  then show ?case by (auto simp: Cons.IH not_le dest: order.strict_trans)
qed simp

lemma strictly_sorted_if:
  assumes "sorted (map k ms)" "\<And>i. 0 < i \<Longrightarrow> i < length ms \<Longrightarrow> k (ms ! (i - 1)) \<noteq> (k (ms ! i) :: 'b :: linorder)"
  shows "sorted_wrt (\<lambda>a b. k a < k b) ms"
  using assms
proof (induction ms)
  case (Cons m ms)
  have srt: "sorted_wrt (\<lambda>a b. k a < k b) ms"
  proof (rule Cons.IH)
    show "sorted (map k ms)" using Cons.prems(1) by simp
    show "k (ms ! (i - 1)) \<noteq> k (ms ! i)" if "0 < i" "i < length ms" for i
      using Cons.prems(2) [of "Suc i"] that by simp
  qed
  moreover have "k m < k x" if "x \<in> set ms" for x
  proof -
    obtain y ys where ms: "ms = y # ys" using \<open>x \<in> set ms\<close> by (cases ms) auto
    have "k m \<noteq> k y" using Cons.prems(2) [of 1] by (simp add: ms)
    moreover have "k m \<le> k y" using Cons.prems(1) by (simp add: ms)
    ultimately have "k m < k y" by simp
    with srt that show ?thesis by (auto simp: ms)
  qed
  ultimately show ?case by simp
qed simp

lemma make_fleet_snapshot_valid:
  assumes "make_fleet_snapshot fleet scene members = Inr f"
  shows "valid_fleet_snapshot f" "snap_fleet f = fleet" "snap_scene f = scene" "set (snap_members f) = set members"
proof -
  let ?ms = "sort_by (\<lambda>a b. mem_deployment a < mem_deployment b) members"
  let ?f = "\<lparr>snap_id = [], snap_fleet = fleet, snap_scene = scene, snap_members = ?ms\<rparr>"
  have g: "valid_identifier fleet" "valid_sha256 scene" "members \<noteq> []" "length members \<le> kMaximumFleetMembers"
    and bad: "\<not> list_ex (member_bad ?ms) [0..<length ?ms]" and f: "f = ?f\<lparr>snap_id := fleet_snapshot_identity ?f\<rparr>"
    using assms by (auto simp: make_fleet_snapshot_def Let_def split: if_splits)
  show "snap_fleet f = fleet" "snap_scene f = scene" "set (snap_members f) = set members" by (simp_all add: f)
  have i: "fleet_snapshot_identity f = snap_id f" by (simp add: f fleet_snapshot_identity_def fleet_snapshot_json_def)
  have ok: "\<not> member_bad ?ms i" if "i < length ?ms" for i using bad that by (simp add: list_ex_iff)
  have "sorted (map mem_deployment ?ms)" by (rule sort_by_key) simp
  then have "sorted_wrt (\<lambda>a b. mem_deployment a < mem_deployment b) ?ms"
  proof (rule strictly_sorted_if)
    show "mem_deployment (?ms ! (i - 1)) \<noteq> mem_deployment (?ms ! i)" if "0 < i" "i < length ?ms" for i
      using ok [OF that(2)] that(1) by (simp add: member_bad_def)
  qed
  moreover have "\<forall>m\<in>set ?ms. valid_identifier (mem_deployment m) \<and> valid_sha256 (mem_robot m) \<and> workspace_valid (mem_envelope m)"
    using ok unfolding all_set_conv_all_nth by (auto simp: member_bad_def)
  ultimately have "members_valid [] ?ms" by (simp only: members_valid_iff) simp
  moreover have "valid_sha256 (snap_id f)" by (simp add: f fleet_snapshot_identity_def)
  moreover have "?ms \<noteq> []" using g(3) by (metis length_0_conv length_sort_by)
  ultimately show "valid_fleet_snapshot f" using g i by (simp add: valid_fleet_snapshot_def f)
qed

lemma reservation_identity_id [simp]:
  "fleet_reservation_identity f (r\<lparr>res_id := x\<rparr>) = fleet_reservation_identity f r"
  by (simp add: fleet_reservation_identity_def fleet_reservation_json_def)

lemma make_reservation_cases:
  assumes "make_fleet_reservation f memory deployment source occupancy b e margin = Inr r"
  obtains member a where "valid_fleet_snapshot f" "find_member f deployment = Some member"
    "\<not> bad_window member occupancy b e margin" "artifact_lookup memory source = Inr (Some a)"
    "\<not> source_incompatible f member deployment a"
    "res_deployment r = deployment" "res_source r = source" "res_occupancy r = occupancy"
    "res_begin r = b" "res_end r = e" "res_margin r = margin" "fleet_reservation_identity f r = res_id r"
proof -
  obtain member where m: "valid_fleet_snapshot f" "find_member f deployment = Some member"
      "\<not> bad_window member occupancy b e margin"
    using assms by (auto simp: make_fleet_reservation_def split: if_splits option.splits)
  obtain a where a: "artifact_lookup memory source = Inr (Some a)" "\<not> source_incompatible f member deployment a"
    using assms m by (auto simp: make_fleet_reservation_def rbind_eq_Inr split: if_splits option.splits)
  show thesis using m a assms
    by (intro that [of member a]) (auto simp: make_fleet_reservation_def Let_def fleet_reservation_identity_def
        fleet_reservation_json_def)
qed

text \<open>A reservation the memory granted is accepted by the analysis of that memory.\<close>

lemma make_reservation_analyzes:
  assumes "make_fleet_reservation f memory deployment source occupancy b e margin = Inr r" "mp \<noteq> 0"
  shows "\<exists>p. analyze_fleet_schedule f memory [r] 1 mp (\<lambda>_. False) = Inr p \<and>
      rep_status p = ConflictFreeUnderDeclaredEnvelopes"
  using assms(1)
proof (cases rule: make_reservation_cases)
  case (1 member a)
  have src: "valid_sha256 source" using 1(4) by (auto simp: artifact_lookup_def split: if_splits)
  have "check_reservations (\<lambda>_. False) f memory [] [r] = Inr ()"
    using 1 src by (simp add: bad_reservation_def)
  then show ?thesis using 1(1) assms(2) by (simp add: analyze_fleet_schedule_def Let_def)
qed

section \<open>The analysis returns a report\<close>

lemma analyze_inner_succeeds:
  "fst acc + length (filter (time_overlaps r) rest) \<le> limit \<Longrightarrow> \<exists>acc'. analyze_inner (\<lambda>_. False) n limit r rest acc = Inr acc'"
  by (induction rest arbitrary: acc) auto

lemma analyze_outer_succeeds:
  "fst acc + length (window_pairs rs) \<le> limit \<Longrightarrow> sorted (map res_begin rs) \<Longrightarrow>
     \<exists>acc'. analyze_outer (\<lambda>_. False) n limit rs acc = Inr acc'"
proof (induction rs arbitrary: acc)
  case (Cons r rs)
  have s: "sorted (map res_begin rs)" using Cons.prems(2) by simp
  obtain acc1 where a: "analyze_inner (\<lambda>_. False) n limit r rs acc = Inr acc1"
    using analyze_inner_succeeds [of acc r rs limit n] Cons.prems(1) by auto
  have "fst acc1 + length (window_pairs rs) \<le> limit"
    using analyze_inner_pairs [OF a s] Cons.prems(1) by simp
  with Cons.IH [OF _ s] show ?case by (simp add: a)
qed simp

definition granted :: "fleet_snapshot \<Rightarrow> safety_memory \<Rightarrow> fleet_reservation \<Rightarrow> bool" where
  "granted f memory r \<longleftrightarrow> make_fleet_reservation f memory (res_deployment r) (res_source r) (res_occupancy r)
     (res_begin r) (res_end r) (res_margin r) = Inr r"

lemma make_reservation_granted:
  "make_fleet_reservation f memory deployment source occupancy b e margin = Inr r \<Longrightarrow> granted f memory r"
  by (frule make_reservation_cases) (auto simp: granted_def)

lemma check_reservations_accepts:
  "\<forall>r\<in>set rs. granted f memory r \<Longrightarrow> distinct (map res_id rs) \<Longrightarrow> set seen \<inter> res_id ` set rs = {} \<Longrightarrow>
     check_reservations (\<lambda>_. False) f memory seen rs = Inr ()"
proof (induction rs arbitrary: seen)
  case (Cons r rs)
  have "granted f memory r" using Cons.prems(1) by simp
  then have g: "make_fleet_reservation f memory (res_deployment r) (res_source r) (res_occupancy r)
      (res_begin r) (res_end r) (res_margin r) = Inr r" by (simp add: granted_def)
  from g show ?case
  proof (cases rule: make_reservation_cases)
    case (1 member a)
    have src: "valid_sha256 (res_source r)" using 1(4) by (auto simp: artifact_lookup_def split: if_splits)
    have "check_reservations (\<lambda>_. False) f memory (res_id r # seen) rs = Inr ()"
      using Cons.prems by (intro Cons.IH) auto
    then show ?thesis using 1 src Cons.prems(3) by (simp add: bad_reservation_def)
  qed
qed simp

theorem analyze_accepts:
  assumes f: "valid_fleet_snapshot f" and all: "\<forall>r\<in>set rs. granted f memory r" and d: "distinct (map res_id rs)"
    and lim: "length rs \<le> mr" "0 < mr" "0 < mp" "length (window_pairs (sort_by reservation_less rs)) \<le> mp"
  shows "\<exists>p. analyze_fleet_schedule f memory rs mr mp (\<lambda>_. False) = Inr p"
proof -
  let ?rs = "sort_by reservation_less rs"
  have "distinct (map res_id ?rs)" using d by (simp add: distinct_sort_by)
  then have "check_reservations (\<lambda>_. False) f memory [] ?rs = Inr ()"
    using all by (intro check_reservations_accepts) simp_all
  moreover have "sorted (map res_begin ?rs)" by (rule sorted_begins) (rule sorted_reservations)
  then obtain acc where "analyze_outer (\<lambda>_. False) (1 + length ?rs) mp ?rs (0, []) = Inr acc"
    using analyze_outer_succeeds [of "(0, [])" ?rs mp "1 + length ?rs"] lim(4) by auto
  ultimately show ?thesis using f lim by (cases acc) (simp add: analyze_fleet_schedule_def Let_def)
qed

section \<open>The archive\<close>

lemma versions_valid_append:
  "versions_valid fleet i parent ids (vs @ [v]) \<longleftrightarrow> versions_valid fleet i parent ids vs \<and>
     versions_valid fleet (i + length vs) (if vs = [] then parent else ver_id (last vs))
       (rev (map ver_id vs) @ ids) [v]"
  by (induction vs arbitrary: i parent ids) auto

lemma versions_valid_nth:
  "versions_valid fleet i parent ids vs \<Longrightarrow> k < length vs \<Longrightarrow>
     ver_sequence (vs ! k) = of_nat (i + k) \<and> fleet_schedule_version_identity (vs ! k) = ver_id (vs ! k)"
proof (induction vs arbitrary: i parent ids k)
  case (Cons v vs)
  have v: "ver_sequence v = of_nat i" "fleet_schedule_version_identity v = ver_id v"
    and vs: "versions_valid fleet (i + 1) (ver_id v) (ver_id v # ids) vs"
    using Cons.prems(1) by simp_all
  show ?case
  proof (cases k)
    case (Suc j)
    with Cons.IH [OF vs, of j] Cons.prems(2) show ?thesis by simp
  qed (use v in simp)
qed simp

lemma version_keys: "sorted_wrt (<) [''fleet_snapshot_id'', ''memory_id'', ''parent_id'', ''report_id'', ''sequence'']"
  by code_simp

lemma fleet_version_json_eq: "fleet_version_json v = JObj
     [(''fleet_snapshot_id'', JStr (snap_id (ver_fleet v))), (''memory_id'', JStr (ver_memory v)),
      (''parent_id'', JStr (ver_parent v)), (''report_id'', JStr (rep_id (ver_report v))),
      (''sequence'', JStr (to_string (ver_sequence v)))]"
  unfolding fleet_version_json_def by (rule json_object_sorted) (simp only: list.map fst_conv version_keys)

lemma storable_version: "storable (fleet_version_json v)"
  unfolding fleet_version_json_eq storable_def json_ok.simps
  by (simp only: list.map fst_conv version_keys) simp

interpretation version_identity: content_identity fleet_schedule_version_identity fleet_version_json "\<lambda>_. True"
  by unfold_locales (simp_all add: fleet_schedule_version_identity_def storable_version)

definition versions_collide :: "fleet_version list \<Rightarrow> bool" where
  "versions_collide vs \<longleftrightarrow> list_ex (\<lambda>v. list_ex (\<lambda>w.
     sha256_collision (canonical (fleet_version_json v)) (canonical (fleet_version_json w))) vs) vs"

lemma publish_cases:
  assumes "publish_schedule a f memory rs expected mr mp c mv = Inr (a', v)"
  obtains (same) "a' = a" "arch_versions a \<noteq> []" "v = last (arch_versions a)"
  | (added) p where "archive_valid a" "snap_fleet f = arch_fleet a"
      "analyze_fleet_schedule f memory rs mr mp c = Inr p"
      "arch_versions a = [] \<or> expected = arch_current a"
      "length (arch_versions a) < mv" "length (arch_versions a) < 2 ^ 64 - 1"
      "ver_sequence v = of_nat (length (arch_versions a))" "ver_parent v = arch_current a"
      "ver_memory v = memory_identity memory" "ver_fleet v = f" "ver_report v = p"
      "ver_id v = fleet_schedule_version_identity v"
      "a' = a\<lparr>arch_versions := arch_versions a @ [v], arch_current := ver_id v\<rparr>"
proof -
  have g: "archive_valid a" "snap_fleet f = arch_fleet a" "arch_versions a = [] \<or> expected = arch_current a"
    using assms by (auto simp: publish_schedule_def split: if_splits)
  obtain p where p: "analyze_fleet_schedule f memory rs mr mp c = Inr p"
    using assms by (auto simp: publish_schedule_def rbind_eq_Inr split: if_splits)
  show thesis
  proof (cases "arch_versions a \<noteq> [] \<and> ver_memory (last (arch_versions a)) = memory_identity memory \<and>
           snap_id (ver_fleet (last (arch_versions a))) = snap_id f \<and>
           rep_id (ver_report (last (arch_versions a))) = rep_id p")
    case True
    then show thesis using assms p by (intro same) (auto simp: publish_schedule_def split: if_splits)
  next
    case False
    let ?v0 = "\<lparr>ver_sequence = of_nat (length (arch_versions a)), ver_id = [], ver_parent = arch_current a,
      ver_memory = memory_identity memory, ver_fleet = f, ver_report = p\<rparr>"
    have l: "length (arch_versions a) < mv" "length (arch_versions a) < 2 ^ 64 - 1"
      and v: "v = ?v0\<lparr>ver_id := fleet_schedule_version_identity ?v0\<rparr>"
      and a': "a' = a\<lparr>arch_versions := arch_versions a @ [v], arch_current := ver_id v\<rparr>"
      using assms p False by (auto simp: publish_schedule_def Let_def split: if_splits)
    show thesis by (rule added [OF g(1,2) p g(3) l _ _ _ _ _ _ a'])
        (simp_all add: v fleet_schedule_version_identity_def fleet_version_json_def)
  qed
qed

lemma publish_valid:
  assumes "archive_valid a" "publish_schedule a f memory rs expected mr mp c mv = Inr (a', v)"
    and "\<not> versions_collide (arch_versions a')"
  shows "archive_valid a'"
  using assms(2)
proof (cases rule: publish_cases)
  case same
  with assms(1) show ?thesis by simp
next
  case (added p)
  let ?vs = "arch_versions a"
  have vv: "versions_valid (arch_fleet a) 0 [] [] ?vs" using assms(1) by (simp add: archive_valid_def)
  have fresh: "ver_id v \<notin> ver_id ` set ?vs"
  proof
    assume "ver_id v \<in> ver_id ` set ?vs"
    then obtain k where k: "k < length ?vs" "ver_id (?vs ! k) = ver_id v" by (metis (mono_tags) imageE in_set_conv_nth)
    note n = versions_valid_nth [OF vv k(1)]
    have "(of_nat k :: u64) \<noteq> of_nat (length ?vs)"
      using k(1) added(6) unat_u64_of_nat [of k] unat_u64_of_nat [of "length ?vs"] by auto
    then have "fleet_version_json (?vs ! k) \<noteq> fleet_version_json v"
      using n added(7) by (simp add: fleet_version_json_eq)
    then have "sha256_collision (canonical (fleet_version_json (?vs ! k))) (canonical (fleet_version_json v))"
      using version_identity.identity_binds [of "?vs ! k" v] n k(2) added(12) by simp
    then have "versions_collide (arch_versions a')"
      using k(1) by (fastforce simp: versions_collide_def list_ex_iff added(13))
    with assms(3) show False by simp
  qed
  note rc = analyze_rechecks [OF added(3)]
  have snap: "rep_snapshot p = snap_id f" using added(3) by (cases rule: analyze_cases)
  have cur: "arch_current a = (if ?vs = [] then [] else ver_id (last ?vs))"
    using assms(1) by (auto simp: archive_valid_def)
  have sha: "valid_sha256 (memory_identity memory)" "valid_sha256 (ver_id v)"
    by (simp_all add: memory_identity_def added(12) fleet_schedule_version_identity_def)
  have "versions_valid (arch_fleet a) (length ?vs) (arch_current a) (rev (map ver_id ?vs) @ []) [v]"
    using added(2,7-12) fresh rc snap sha by simp
  then have "versions_valid (arch_fleet a) 0 [] [] (?vs @ [v])"
    using vv cur by (simp only: versions_valid_append) auto
  moreover have "ver_id v \<noteq> []" using sha(2) valid_sha256_nonempty by metis
  ultimately show ?thesis using assms(1) by (simp add: archive_valid_def added(13))
qed

inductive archive_step :: "fleet_archive \<Rightarrow> fleet_archive \<Rightarrow> bool" where
  archive_publish: "publish_schedule a f memory rs expected mr mp c mv = Inr (a', v) \<Longrightarrow>
     \<not> versions_collide (arch_versions a') \<Longrightarrow> archive_step a a'"

inductive_cases archive_stepE: "archive_step a a'"

interpretation archive_log: append_only archive_step archive_valid arch_versions
proof
  show "archive_valid a \<Longrightarrow> archive_step a a' \<Longrightarrow> archive_valid a'" for a a'
    by (erule archive_stepE) (rule publish_valid)
  show "archive_valid a \<Longrightarrow> archive_step a a' \<Longrightarrow> \<exists>new. arch_versions a' = arch_versions a @ new" for a a'
    by (erule archive_stepE, erule publish_cases) simp_all
qed

end
