(* ===== verification/Fleet_Margin.thy ===== *)
theory Fleet_Margin
  imports Fleet_Laws
begin

text \<open>
  The separation margin of a fleet schedule is compared with a distance that was rounded to
  nearest. This theory works out one pair of boxes where the rounding hides a violated
  margin.
\<close>

section \<open>The margin is compared with a rounded distance\<close>

text \<open>
  \<open>distance_lower_bound\<close> rounds to nearest, so it is not a lower bound: two boxes at
  distance \<open>1 - 2 ^ -60\<close> get the bound 1, and a required margin of 1 is accepted.
\<close>

definition tiny :: f64 where
  "tiny = F64 0x3c30000000000000"

lemma power_mag:
  assumes "mag x = (k + 1) * hidden_bit" "\<not> neg x"
  shows "val x = 2 ^ (52 + k) * ulp_min"
proof -
  have "scaled (k * hidden_bit + hidden_bit) = hidden_bit * 2 ^ k" by (rule scaled_binade) simp_all
  moreover have "(k + 1) * hidden_bit = k * hidden_bit + hidden_bit" by simp
  ultimately have "scaled (mag x) = hidden_bit * 2 ^ k" by (simp only: assms(1))
  then show ?thesis using assms(2) by (simp add: val_def magnitude_def hidden_bit_def power_add)
qed

lemma one_mag: "mag f64_one = (1022 + 1) * hidden_bit" "\<not> neg f64_one"
  by (simp_all add: mag_def neg_def f64_one_def sign_bit_def hidden_bit_def)

lemma tiny_mag: "mag tiny = (962 + 1) * hidden_bit" "\<not> neg tiny"
  by (simp_all add: mag_def neg_def tiny_def sign_bit_def hidden_bit_def)

lemma power_ulp: "n + k = 1074 \<Longrightarrow> (2 :: rat) ^ n * ulp_min = 1 / 2 ^ k"
proof -
  assume "n + k = 1074"
  then have "(2 :: rat) ^ 1074 = 2 ^ n * 2 ^ k" by (metis power_add)
  then have "(2 :: rat) ^ n * (1 / 2 ^ 1074) = 2 ^ n * (1 / (2 ^ n * 2 ^ k))" by (rule arg_cong)
  also have "\<dots> = 1 / 2 ^ k" by simp
  finally show ?thesis by (simp only: ulp_min_def)
qed

lemma one_val: "val f64_one = 1"
  using power_mag [OF one_mag] power_ulp [of 1074 0] by simp

lemma tiny_val: "val tiny = 1 / 2 ^ 60"
  using power_mag [OF tiny_mag] power_ulp [of 1014 60] by simp

lemma finite_mag: "m < 2047 \<Longrightarrow> mag x = m * hidden_bit \<Longrightarrow> isfinite x"
  by (simp add: isfinite_def inf_mag_def)

lemma one_finite: "isfinite f64_one" and tiny_finite: "isfinite tiny"
  by (rule finite_mag [OF _ one_mag(1)], simp, rule finite_mag [OF _ tiny_mag(1)], simp)

lemma round_one:
  assumes "\<bar>r - 1\<bar> \<le> 1 / 2 ^ 60"
  shows "round_f64 False r = f64_one"
proof -
  have r: "0 \<le> r"
  proof -
    have "(1 :: rat) / 2 ^ 60 \<le> 1" by simp
    with assms show ?thesis by linarith
  qed
  let ?t = "r / ulp_min"
  have t: "?t / 2 ^ 1022 = r * 2 ^ 52"
    using power_ulp [of 1022 52] ulp_min_pos by (simp add: field_simps)
  have "round_scaled ?t = mag f64_one"
  proof (rule round_scaled_near [where k = 1022 and q = hidden_bit and e = "1 / 2 ^ 60"])
    show "mag f64_one = 1022 * hidden_bit + hidden_bit" using one_mag by simp
    show "mag f64_one < inf_mag" using one_finite by (simp add: isfinite_def)
    show "0 \<le> ?t" using r by (simp add: less_imp_le)
    have h: "(of_nat hidden_bit :: rat) = 2 ^ 52" by (simp add: hidden_bit_def)
    have "\<bar>?t / 2 ^ 1022 - of_nat hidden_bit\<bar> = \<bar>r - 1\<bar> * 2 ^ 52"
    proof -
      have "?t / 2 ^ 1022 - of_nat hidden_bit = (r - 1) * 2 ^ 52" by (simp only: t h left_diff_distrib mult_1_left)
      then show ?thesis by (simp only: abs_mult) simp
    qed
    also have "\<dots> \<le> 1 / 2 ^ 60 * 2 ^ 52" using assms by (rule mult_right_mono) simp
    finally show "\<bar>?t / 2 ^ 1022 - of_nat hidden_bit\<bar> \<le> of_nat hidden_bit * (1 / 2 ^ 60)" by (simp only: h) simp
    show "1 / 2 ^ 60 * of_nat (4 * hidden_bit) < (1 :: rat)" by (simp add: hidden_bit_def)
  qed simp_all
  moreover have "\<bar>r\<bar> = r" using r by simp
  ultimately have "round_f64 False r = mk_f64 (neg f64_one) (mag f64_one)"
    using one_mag(2) by (simp only: round_f64_def)
  then show ?thesis by (simp only: mk_f64_neg_mag)
qed

lemma sqrt_one: "f64_sqrt f64_one = f64_one"
proof -
  have sq: "isqrt (n * n) = n" for n
  proof -
    have "isqrt (n * n) * isqrt (n * n) \<le> n * n" "n * n < (isqrt (n * n) + 1) * (isqrt (n * n) + 1)"
      using isqrt_correct [of "n * n"] by simp_all
    moreover have "n < isqrt (n * n) \<Longrightarrow> n * n < isqrt (n * n) * isqrt (n * n)"
      by (rule mult_strict_mono) simp_all
    moreover have "isqrt (n * n) + 1 \<le> n \<Longrightarrow> (isqrt (n * n) + 1) * (isqrt (n * n) + 1) \<le> n * n"
      by (rule mult_le_mono)
    ultimately have "\<not> n < isqrt (n * n)" "\<not> isqrt (n * n) + 1 \<le> n" by linarith+
    then show ?thesis by simp
  qed
  have fin: "\<not> isnan f64_one" "\<not> isinf f64_one" "mag f64_one \<noteq> 0"
    using one_finite one_mag by (simp_all add: isfinite_def isnan_def isinf_def)
  have "(4 :: nat) ^ 600 = 2 ^ 600 * 2 ^ 600" by (simp only: power_mult_distrib [symmetric]) simp
  then have i: "isqrt (4 ^ 600) = 2 ^ 600" by (simp only: sq)
  have v: "val f64_one * 4 ^ 600 = of_nat (4 ^ 600)" by (simp only: one_val of_nat_power of_nat_numeral mult_1_left)
  have "nat \<lfloor>(of_nat (4 ^ 600) :: rat)\<rfloor> = 4 ^ 600" by (simp only: floor_of_nat nat_int)
  moreover have "(of_nat (2 ^ 600 * 2 ^ 600) :: rat) = of_nat (4 ^ 600)"
    using \<open>4 ^ 600 = 2 ^ 600 * 2 ^ 600\<close> by (rule arg_cong [OF sym])
  moreover have "(of_nat (2 ^ 600) :: rat) / 2 ^ 600 = 1" by (simp only: of_nat_power of_nat_numeral) simp
  ultimately have "f64_sqrt f64_one = round_f64 False 1"
    unfolding f64_sqrt_def Let_def using fin one_mag(2) by (simp only: if_False if_True v i simp_thms)
  also have "\<dots> = f64_one" by (rule round_one) simp
  finally show ?thesis .
qed

lemma sub_tiny: "f64_sub f64_one tiny = f64_one"
proof -
  have m: "mag (f64_neg tiny) = mag tiny" "neg (f64_neg tiny)"
    using tiny_mag(2) by (simp_all add: f64_neg_def)
  then have nv: "val (f64_neg tiny) = - (1 / 2 ^ 60)" using tiny_val tiny_mag(2) by (simp add: val_def magnitude_def)
  have fin: "\<not> isnan f64_one" "\<not> isinf f64_one" "\<not> isnan tiny" "\<not> isnan (f64_neg tiny)" "\<not> isinf (f64_neg tiny)"
    using one_finite tiny_finite m by (simp_all add: isfinite_def isnan_def isinf_def)
  have r: "1 + - (1 / 2 ^ 60 :: rat) \<noteq> 0" "\<not> 1 + - (1 / 2 ^ 60 :: rat) < 0" by simp_all
  have "f64_sub f64_one tiny = round_f64 False (1 + - (1 / 2 ^ 60))"
    using fin r by (simp only: f64_sub_def f64_add_def Let_def one_val nv if_False simp_thms)
  also have "\<dots> = f64_one" by (rule round_one) simp
  finally show ?thesis .
qed

definition near_box :: workspace_aabb where
  "near_box = \<lparr>box_lower = Vec3 f64_zero f64_zero f64_zero, box_upper = Vec3 tiny f64_one f64_one\<rparr>"

definition far_box :: workspace_aabb where
  "far_box = \<lparr>box_lower = Vec3 f64_one f64_zero f64_zero, box_upper = Vec3 f64_one f64_one f64_one\<rparr>"

lemma zero_val: "val f64_zero = 0"
  by (simp add: val_def magnitude_def)

lemma mk_zero: "mk_f64 False 0 = f64_zero"
  by (simp add: mk_f64_def f64_zero_def)

lemma plain_numbers:
  "\<not> isnan f64_one" "\<not> isinf f64_one" "\<not> isnan f64_zero" "\<not> isinf f64_zero" "\<not> neg f64_one"
  using one_finite one_mag by (simp_all add: isfinite_def isnan_def isinf_def)

lemma round_zero: "round_f64 False 0 = f64_zero"
proof -
  have "0 < inf_mag" by (simp add: inf_mag_def)
  from round_scaled_exact [OF this] show ?thesis by (simp add: round_f64_def mk_zero)
qed

lemma unit_arithmetic:
  "f64_mul f64_zero f64_zero = f64_zero" "f64_mul f64_one f64_one = f64_one"
  "f64_add f64_zero f64_one = f64_one" "f64_add f64_one f64_zero = f64_one"
  using round_one [of 1] plain_numbers
  by (simp_all add: f64_mul_def f64_add_def zero_val one_val round_zero Let_def)

lemma order_facts:
  "f64_lt tiny f64_one" "\<not> f64_lt f64_one f64_zero" "\<not> f64_lt f64_zero f64_zero"
  using tiny_finite one_finite by (simp_all add: f64_lt_val tiny_val one_val zero_val)

lemma bound_is_one: "distance_lower_bound near_box far_box = f64_one"
  by (simp add: distance_lower_bound_def near_box_def far_box_def box_axes_def axis_separation_def
      order_facts sub_tiny unit_arithmetic sqrt_one)

lemma boxes_apart: "\<not> workspace_overlaps near_box far_box f64_zero"
proof -
  have "f64_lt (f64_add tiny f64_zero) f64_one"
    using tiny_finite one_finite by (simp add: f64_lt_val f64_add_zero tiny_val one_val)
  then show ?thesis by (simp add: workspace_overlaps_def near_box_def far_box_def box_axes_def)
qed

text \<open>The points \<open>(2 ^ -60, 0, 0)\<close> and \<open>(1, 0, 0)\<close> of the two boxes.\<close>

lemma close_points: "in_box near_box [1 / 2 ^ 60, 0, 0]" "in_box far_box [1, 0, 0]"
  by (simp_all add: in_box_def near_box_def far_box_def box_axes_def zero_val one_val tiny_val)

text \<open>Two reservations of the same window with those boxes and a required margin of 1.\<close>

definition near_reservation :: fleet_reservation where
  "near_reservation = \<lparr>res_id = ''a'', res_deployment = ''arm-a'', res_source = [], res_occupancy = near_box,
     res_begin = 0, res_end = 10, res_margin = f64_one\<rparr>"

definition far_reservation :: fleet_reservation where
  "far_reservation = \<lparr>res_id = ''b'', res_deployment = ''arm-b'', res_source = [], res_occupancy = far_box,
     res_begin = 0, res_end = 10, res_margin = f64_one\<rparr>"

lemma margin_accepted: "pair_conflict near_reservation far_reservation = []"
proof -
  have "\<not> f64_lt f64_one f64_one" by (simp add: f64_lt_def)
  then show ?thesis
    by (simp add: pair_conflict_Nil separated_def near_reservation_def far_reservation_def
        bound_is_one boxes_apart f64_max_def)
qed

end
