(* ===== verification/Fleet_Example.thy ===== *)
theory Fleet_Example
  imports Fleet_Margin
begin

text \<open>
  A fleet of two arms in a unit box, a memory that holds a certified atlas for each, and a
  reservation of each arm for the same window with a required margin of 1.
\<close>

definition unit_box :: workspace_aabb where
  "unit_box = \<lparr>box_lower = Vec3 f64_zero f64_zero f64_zero, box_upper = Vec3 f64_one f64_one f64_one\<rparr>"

definition demo_members :: "fleet_member list" where
  "demo_members = [\<lparr>mem_deployment = ''arm'', mem_robot = sha256 ''robot'', mem_envelope = unit_box\<rparr>,
     \<lparr>mem_deployment = ''crane'', mem_robot = sha256 ''robot'', mem_envelope = unit_box\<rparr>]"

definition demo_fleet :: fleet_snapshot where
  "demo_fleet = projr (make_fleet_snapshot ''cell'' (sha256 ''scene'') demo_members)"

definition atlas :: "string \<Rightarrow> char \<Rightarrow> memory_artifact" where
  "atlas d c = \<lparr>art_id = replicate 64 c, art_type = SafeAtlas, art_state = Active, art_deployment = d,
     art_robot = sha256 ''robot'', art_scene = sha256 ''scene'', art_task = ''pick'', art_content = sha256 ''atlas'',
     art_locator = [], art_evidence = CertifiedRegion, art_tags = [], art_generation = 1, art_sequence = 1\<rparr>"

definition cell_memory :: safety_memory where
  "cell_memory = \<lparr>artifacts = [atlas ''arm'' CHR ''1'', atlas ''crane'' CHR ''2''], events = [], next_sequence = 1\<rparr>"

definition arm_reservation :: fleet_reservation where
  "arm_reservation = projr (make_fleet_reservation demo_fleet cell_memory ''arm'' (replicate 64 CHR ''1'') near_box 0 10 f64_one)"

definition crane_reservation :: fleet_reservation where
  "crane_reservation = projr (make_fleet_reservation demo_fleet cell_memory ''crane'' (replicate 64 CHR ''2'') far_box 5 9 f64_one)"

lemma demo_names: "valid_identifier ''cell''" "valid_identifier ''arm''" "valid_identifier ''crane''"
  "\<not> ''crane'' < ''arm''" "''arm'' < ''crane''"
  by code_simp+

lemma source_digests: "valid_sha256 (replicate 64 CHR ''1'')" "valid_sha256 (replicate 64 CHR ''2'')"
  "replicate 64 CHR ''1'' < replicate 64 CHR ''2''"
  by code_simp+

lemma tiny_lt: "\<not> f64_lt tiny f64_zero" "\<not> f64_lt f64_one tiny" "\<not> f64_lt f64_one f64_one"
  using tiny_finite one_finite by (simp_all add: f64_lt_val tiny_val one_val zero_val)

lemma zero_finite: "isfinite f64_zero"
  using plain_numbers by (simp add: isfinite_def isnan_def isinf_def)

lemma unit_boxes: "workspace_valid unit_box" "workspace_valid near_box" "workspace_valid far_box"
  "contains_box unit_box near_box" "contains_box unit_box far_box"
  by (simp_all add: workspace_valid_def contains_box_def box_axes_def unit_box_def near_box_def far_box_def
      order_facts tiny_lt tiny_finite one_finite zero_finite)

lemma demo_fleet_made: "make_fleet_snapshot ''cell'' (sha256 ''scene'') demo_members = Inr demo_fleet"
proof -
  have "sort_by (\<lambda>a b. mem_deployment a < mem_deployment b) demo_members = demo_members"
    by (simp add: demo_members_def demo_names)
  moreover have "\<not> list_ex (member_bad demo_members) [0..<length demo_members]"
    by (simp add: demo_members_def member_bad_def upt_rec demo_names unit_boxes)
  moreover have "demo_members \<noteq> []" "length demo_members \<le> kMaximumFleetMembers"
    by (simp_all add: demo_members_def kMaximumFleetMembers_def)
  ultimately show ?thesis
    by (simp add: demo_fleet_def make_fleet_snapshot_def demo_names Let_def)
qed

lemma demo_fleet_valid: "valid_fleet_snapshot demo_fleet"
  by (rule make_fleet_snapshot_valid [OF demo_fleet_made])

lemma demo_fleet_fields: "snap_members demo_fleet = demo_members" "snap_scene demo_fleet = sha256 ''scene''"
proof -
  have "sort_by (\<lambda>a b. mem_deployment a < mem_deployment b) demo_members = demo_members"
    by (simp add: demo_members_def demo_names)
  then obtain i where d: "demo_fleet = \<lparr>snap_id = i, snap_fleet = ''cell'', snap_scene = sha256 ''scene'',
      snap_members = demo_members\<rparr>"
    using demo_fleet_made by (simp add: make_fleet_snapshot_def Let_def split: if_splits) metis
  show "snap_members demo_fleet = demo_members" "snap_scene demo_fleet = sha256 ''scene''" unfolding d by simp_all
qed

lemma demo_lookups:
  "find_member demo_fleet ''arm'' = Some (demo_members ! 0)"
  "find_member demo_fleet ''crane'' = Some (demo_members ! 1)"
  "artifact_lookup cell_memory (replicate 64 CHR ''1'') = Inr (Some (atlas ''arm'' CHR ''1''))"
  "artifact_lookup cell_memory (replicate 64 CHR ''2'') = Inr (Some (atlas ''crane'' CHR ''2''))"
  using source_digests
  by (simp_all add: find_member_def lookup_sorted_def lower_bound_def demo_fleet_fields demo_members_def demo_names
      artifact_lookup_def find_artifact_def cell_memory_def atlas_def del: replicate.simps replicate_Suc)

lemma one_margin: "isfinite f64_one" "\<not> f64_lt f64_one f64_zero"
  by (simp_all add: one_finite order_facts)

lemma reservations_made:
  "make_fleet_reservation demo_fleet cell_memory ''arm'' (replicate 64 CHR ''1'') near_box 0 10 f64_one = Inr arm_reservation"
  "make_fleet_reservation demo_fleet cell_memory ''crane'' (replicate 64 CHR ''2'') far_box 5 9 f64_one = Inr crane_reservation"
  unfolding arm_reservation_def crane_reservation_def make_fleet_reservation_def demo_lookups option.case rbind_simps
  by (simp_all add: demo_fleet_valid bad_window_def unit_boxes one_margin source_incompatible_def
      demo_members_def demo_fleet_fields atlas_def source_type_supports_reservation_def Let_def)

lemma reservation_fields:
  "res_deployment arm_reservation = ''arm''" "res_occupancy arm_reservation = near_box" "res_begin arm_reservation = 0"
  "res_end arm_reservation = 10" "res_margin arm_reservation = f64_one"
  "res_deployment crane_reservation = ''crane''" "res_occupancy crane_reservation = far_box" "res_begin crane_reservation = 5"
  "res_end crane_reservation = 9" "res_margin crane_reservation = f64_one"
  using reservations_made by (auto elim!: make_reservation_cases)

text \<open>
  The two reservations, unless their digests are the same, which no proof here excludes:
  then the first one alone.
\<close>

definition demo_schedule :: "fleet_reservation list" where
  "demo_schedule = (if res_id arm_reservation = res_id crane_reservation then [arm_reservation]
     else [arm_reservation, crane_reservation])"

definition demo_report :: fleet_report where
  "demo_report = projr (analyze_fleet_schedule demo_fleet cell_memory demo_schedule 10 10 (\<lambda>_. False))"

lemma demo_schedule_sorted: "sort_by reservation_less demo_schedule = demo_schedule"
  by (simp add: demo_schedule_def reservation_less_def reservation_fields)

lemma demo_granted: "\<forall>r\<in>set demo_schedule. granted demo_fleet cell_memory r"
  using reservations_made [THEN make_reservation_granted] by (simp add: demo_schedule_def)

lemma demo_pairs: "conflicts_of (window_pairs demo_schedule) = []" "length (window_pairs demo_schedule) \<le> 1"
  by (simp_all add: demo_schedule_def pair_conflict_Nil separated_def reservation_fields bound_is_one boxes_apart
      f64_max_def tiny_lt)

lemma demo_analyzed: "analyze_fleet_schedule demo_fleet cell_memory demo_schedule 10 10 (\<lambda>_. False) = Inr demo_report"
proof -
  have "distinct (map res_id demo_schedule)" "length demo_schedule \<le> 10" by (simp_all add: demo_schedule_def)
  then obtain p where "analyze_fleet_schedule demo_fleet cell_memory demo_schedule 10 10 (\<lambda>_. False) = Inr p"
    using analyze_accepts [OF demo_fleet_valid demo_granted, of 10 10] demo_pairs demo_schedule_sorted by auto
  then show ?thesis by (simp add: demo_report_def)
qed

lemma demo_report_free: "rep_status demo_report = ConflictFreeUnderDeclaredEnvelopes"
  "rep_reservations demo_report = demo_schedule"
  using demo_analyzed by (auto elim!: analyze_cases simp: demo_schedule_sorted demo_pairs)

definition empty_archive :: fleet_archive where
  "empty_archive = \<lparr>arch_fleet = ''cell'', arch_current = [], arch_versions = []\<rparr>"

definition demo_archive :: fleet_archive where
  "demo_archive = fst (projr (publish_schedule empty_archive demo_fleet cell_memory demo_schedule [] 10 10 (\<lambda>_. False) 5))"

lemma empty_archive_valid: "archive_valid empty_archive"
  by (simp add: archive_valid_def empty_archive_def demo_names)

lemma demo_archive_step: "archive_step empty_archive demo_archive"
proof -
  have f: "snap_fleet demo_fleet = ''cell''" using make_fleet_snapshot_valid(2) [OF demo_fleet_made] .
  obtain a v where p: "publish_schedule empty_archive demo_fleet cell_memory demo_schedule [] 10 10 (\<lambda>_. False) 5 = Inr (a, v)"
    "arch_versions a = [v]"
    using empty_archive_valid f demo_analyzed by (simp add: publish_schedule_def empty_archive_def Let_def)
  then have "demo_archive = a" by (simp add: demo_archive_def)
  moreover have "\<not> versions_collide (arch_versions a)"
    by (simp add: p(2) versions_collide_def sha256_collision_def)
  ultimately show ?thesis using p(1) by (auto intro: archive_publish)
qed

end
