(* ===== verification/Merkle.thy ===== *)
theory Merkle
  imports Text
begin

text \<open>
  The Merkle tree of \<^verbatim>\<open>src/transparency.cpp\<close>: leaf and node hashes, the root computed
  level by level, the incremental frontier (one subtree hash per level, empty where the
  size has no such power of two), and the inclusion path.

  The frontier \<open>std::array<std::string, 64>\<close> is a list of 64 strings. Tree sizes inside the
  frontier computation are natural numbers: its guard refuses every size that would leave
  64 bits. The verifier of an inclusion path keeps its 64-bit words, where the width may
  wrap.
\<close>

section \<open>Hashes\<close>

definition node_text :: "string \<Rightarrow> string \<Rightarrow> string" where
  "node_text left right = ''rbfsafe-transparency-merkle-node-v1'' @ [CHR 0x0A] @ left @ right"

definition merkle_node_hash :: "string \<Rightarrow> string \<Rightarrow> string" where
  "merkle_node_hash left right = sha256 (node_text left right)"

definition leaf_text :: "string \<Rightarrow> string" where
  "leaf_text leaf_id = ''rbfsafe-transparency-merkle-leaf-v1'' @ [CHR 0x0A] @ leaf_id"

definition transparency_leaf_hash :: "string \<Rightarrow> string" where
  "transparency_leaf_hash leaf_id = sha256 (leaf_text leaf_id)"

section \<open>The root, level by level\<close>

fun next_level :: "string list \<Rightarrow> string list" where
  "next_level (x # y # rest) = merkle_node_hash x y # next_level rest"
| "next_level [x] = [x]"
| "next_level [] = []"

lemma length_next_level [simp]: "length (next_level xs) = (length xs + 1) div 2"
  by (induction xs rule: next_level.induct) simp_all

function climb :: "string list \<Rightarrow> string" where
  "climb level = (if length level > 1 then climb (next_level level) else hd level)"
  by pat_completeness auto
termination by (relation "measure length") auto

declare climb.simps [simp del]

definition merkle_root :: "string list \<Rightarrow> string" where
  "merkle_root ordered_leaf_ids =
     (if ordered_leaf_ids = [] then [] else climb (map transparency_leaf_hash ordered_leaf_ids))"

section \<open>The frontier\<close>

definition empty_frontier :: "string list" where
  "empty_frontier = replicate 64 []"

definition absorb_subtree :: "string \<Rightarrow> string \<Rightarrow> string" where
  "absorb_subtree root subtree =
     (if subtree = [] then root else if root = [] then subtree else merkle_node_hash subtree root)"

definition frontier_root :: "string list \<Rightarrow> string" where
  "frontier_root frontier = foldl absorb_subtree [] frontier"

text \<open>The carry loop of an append, with the check and the store after it.\<close>

function carry :: "string list \<Rightarrow> nat \<Rightarrow> string \<Rightarrow> nat \<Rightarrow> string \<times> string list" where
  "carry frontier level subtree occupied =
     (if odd occupied
      then (if level \<ge> length frontier \<or> frontier ! level = [] then ([], frontier)
            else carry (frontier[level := []]) (level + 1) (merkle_node_hash (frontier ! level) subtree)
                   (occupied div 2))
      else (if level \<ge> length frontier \<or> frontier ! level \<noteq> [] then ([], frontier)
            else (frontier_root (frontier[level := subtree]), frontier[level := subtree])))"
  by pat_completeness auto
termination by (relation "measure (\<lambda>(frontier, level, subtree, occupied). occupied)") (auto elim: oddE)

declare carry.simps [simp del]

definition append_merkle_subtree :: "string list \<Rightarrow> string \<Rightarrow> nat \<Rightarrow> nat \<Rightarrow> string \<times> string list" where
  "append_merkle_subtree frontier subtree_hash subtree_level previous_tree_size =
     (if \<not> valid_sha256 subtree_hash \<or> subtree_level \<ge> length frontier then ([], frontier)
      else (let subtree_size = 2 ^ subtree_level
            in if previous_tree_size mod subtree_size \<noteq> 0 \<or> previous_tree_size > 2 ^ 64 - 1 - subtree_size
               then ([], frontier)
               else carry frontier subtree_level subtree_hash (previous_tree_size div subtree_size)))"

definition append_merkle_leaf :: "string list \<Rightarrow> string \<Rightarrow> nat \<Rightarrow> string \<times> string list" where
  "append_merkle_leaf frontier leaf_id previous_tree_size =
     (if \<not> valid_sha256 leaf_id then ([], frontier)
      else append_merkle_subtree frontier (transparency_leaf_hash leaf_id) 0 previous_tree_size)"

section \<open>Inclusion paths\<close>

text \<open>The siblings \<open>inclusion_proof\<close> collects while it climbs.\<close>

function sibling_path :: "string list \<Rightarrow> nat \<Rightarrow> string list" where
  "sibling_path level index =
     (if length level > 1
      then (if odd index then [level ! (index - 1)]
            else if index + 1 < length level then [level ! (index + 1)] else [])
           @ sibling_path (next_level level) (index div 2)
      else [])"
  by pat_completeness auto
termination by (relation "measure (\<lambda>(level, index). length level)") auto

declare sibling_path.simps [simp del]

lemma half_width: "(1 :: u64) < w \<Longrightarrow> unat ((w + 1) div 2) < unat w"
proof -
  assume "1 < w"
  then have w: "1 < unat w" by (simp add: word_less_nat_alt)
  have "unat (w + 1) \<le> unat w + 1" by (simp add: unat_word_ariths)
  then have "unat ((w + 1) div 2) \<le> (unat w + 1) div 2" by (simp add: unat_div_distrib div_le_mono)
  with w show ?thesis by linarith
qed

text \<open>
  The loop of the verifier: \<open>None\<close> is a truncated proof, otherwise the hash reached and the
  siblings left over. \<open>width + 1\<close> wraps at \<open>2 ^ 64 - 1\<close>.
\<close>

function path_hash :: "u64 \<Rightarrow> u64 \<Rightarrow> string \<Rightarrow> string list \<Rightarrow> (string \<times> string list) option" where
  "path_hash index width hash siblings =
     (if width > 1
      then (if odd (unat index)
            then (case siblings of
                    [] \<Rightarrow> None
                  | s # rest \<Rightarrow> path_hash (index div 2) ((width + 1) div 2) (merkle_node_hash s hash) rest)
            else if index + 1 < width
            then (case siblings of
                    [] \<Rightarrow> None
                  | s # rest \<Rightarrow> path_hash (index div 2) ((width + 1) div 2) (merkle_node_hash hash s) rest)
            else path_hash (index div 2) ((width + 1) div 2) hash siblings)
      else Some (hash, siblings))"
  by pat_completeness auto

termination by (relation "measure (\<lambda>(index, width, hash, siblings). unat width)") (auto simp: half_width)

declare path_hash.simps [simp del]

end
