(* ===== verification/Ed25519.thy ===== *)
theory Ed25519
  imports Text
begin

text \<open>
  The signature wrappers of \<^verbatim>\<open>src/identity.cpp\<close>. The curve arithmetic is the vendored
  Monocypher library, which the sources only call: its entry points are the record
  \<open>ed25519\<close>, an argument of every definition that signs or verifies. \<open>ed_check\<close> is
  \<open>crypto_ed25519_check(...) == 0\<close>, and \<open>ed_key_pair\<close> gives the secret key of 64 bytes and the
  public key of 32 bytes of a seed.
\<close>

datatype algorithm = HmacSha256 | Ed25519

fun algorithm_code :: "algorithm \<Rightarrow> nat" where
  "algorithm_code HmacSha256 = 0"
| "algorithm_code Ed25519 = 1"

lemma algorithm_code_inj [simp]: "algorithm_code a = algorithm_code b \<longleftrightarrow> a = b"
  by (cases a; cases b) simp_all

lemma algorithm_code_small [simp]: "algorithm_code a < 1000"
  by (cases a) simp_all

definition kEd25519PublicKeyBytes :: nat where "kEd25519PublicKeyBytes = 32"
definition kEd25519SecretKeyBytes :: nat where "kEd25519SecretKeyBytes = 64"
definition kEd25519SeedBytes :: nat where "kEd25519SeedBytes = 32"
definition kEd25519SignatureBytes :: nat where "kEd25519SignatureBytes = 64"

record ed25519 =
  ed_sign :: "u8 list \<Rightarrow> string \<Rightarrow> u8 list"
  ed_check :: "u8 list \<Rightarrow> u8 list \<Rightarrow> string \<Rightarrow> bool"
  ed_key_pair :: "u8 list \<Rightarrow> u8 list \<times> u8 list"

definition ed25519_key_pair_from_seed :: "ed25519 \<Rightarrow> u8 list \<Rightarrow> (u8 list \<times> u8 list) result" where
  "ed25519_key_pair_from_seed c seed =
     (if length seed \<noteq> kEd25519SeedBytes
      then failure InvalidArgument ''Ed25519 seed must contain exactly 32 bytes'' []
      else Inr (ed_key_pair c seed))"

definition ed25519_sign :: "ed25519 \<Rightarrow> string \<Rightarrow> u8 list \<Rightarrow> u8 list result" where
  "ed25519_sign c text secret_key =
     (if length secret_key \<noteq> kEd25519SecretKeyBytes
      then failure InvalidArgument ''Ed25519 secret key must contain exactly 64 bytes'' []
      else Inr (ed_sign c secret_key text))"

definition ed25519_verify :: "ed25519 \<Rightarrow> string \<Rightarrow> u8 list \<Rightarrow> u8 list \<Rightarrow> unit result" where
  "ed25519_verify c text signature public_key =
     (if length signature \<noteq> kEd25519SignatureBytes \<or> length public_key \<noteq> kEd25519PublicKeyBytes
      then failure InvalidArgument ''Ed25519 signature or public key has invalid length'' []
      else if \<not> ed_check c signature public_key text
      then failure IdentityMismatch ''Ed25519 signature verification failed'' []
      else Inr ())"

lemma ed25519_verify_iff:
  "ed25519_verify c text s k = Inr () \<longleftrightarrow> length s = 64 \<and> length k = 32 \<and> ed_check c s k text"
  by (auto simp: ed25519_verify_def kEd25519SignatureBytes_def kEd25519PublicKeyBytes_def)

text \<open>A secret key whose signatures verify under a public key.\<close>

definition honest_signer :: "ed25519 \<Rightarrow> u8 list \<Rightarrow> u8 list \<Rightarrow> bool" where
  "honest_signer c secret public_key \<longleftrightarrow> length secret = 64 \<and> length public_key = 32 \<and>
     (\<forall>text. length (ed_sign c secret text) = 64 \<and> ed_check c (ed_sign c secret text) public_key text)"

end
