(* ===== verification/Runtime_Records.thy ===== *)
theory Runtime_Records
  imports Ed25519 Binding
begin

text \<open>
  What the signed records of the library share: the text of identifiers, the texts that are hashed
  and signed, and the runtime snapshot and monitor state of \<^verbatim>\<open>include/rbfsafe/deployment.h\<close> and
  \<^verbatim>\<open>include/rbfsafe/execution.h\<close>.
\<close>

section \<open>Shared checks\<close>

definition valid_text :: "string \<Rightarrow> bool" where
  "valid_text v \<longleftrightarrow> v \<noteq> [] \<and> length v \<le> 256 \<and>
     list_all (\<lambda>c. (of_char c :: nat) \<ge> 0x20 \<and> (of_char c :: nat) \<noteq> 0x7f) v"

definition identity_text :: "string \<Rightarrow> json \<Rightarrow> string" where
  "identity_text domain j = domain @ [CHR 0x0A] @ canonical j"

definition with_id :: "bool \<Rightarrow> string \<Rightarrow> (string \<times> json) list" where
  "with_id include i = (if include then [(''id'', JStr i)] else [])"

definition with_tag :: "bool \<Rightarrow> string \<Rightarrow> (string \<times> json) list" where
  "with_tag include t = (if include then [(''authentication_tag'', JStr t)] else [])"

section \<open>Runtime snapshots\<close>

datatype monitor_state = ArmedCertifiedSequence | Disarmed | Fault

fun monitor_state_code :: "monitor_state \<Rightarrow> nat" where
  "monitor_state_code ArmedCertifiedSequence = 0"
| "monitor_state_code Disarmed = 1"
| "monitor_state_code Fault = 2"

definition valid_monitor_state :: "monitor_state \<Rightarrow> bool" where
  "valid_monitor_state s \<longleftrightarrow> s = ArmedCertifiedSequence \<or> s = Disarmed \<or> s = Fault"

record runtime_snapshot =
  rs_deployment :: string
  rs_robot :: string
  rs_controller :: string
  rs_platform :: string
  rs_runtime :: string
  rs_observation_age :: u64
  rs_command_latency :: u64
  rs_control_period :: u64
  rs_missed_cycles :: u32
  rs_monitor_active :: bool
  rs_fail_closed :: bool
  rs_authenticated :: bool

definition runtime_snapshot_json :: "runtime_snapshot \<Rightarrow> json" where
  "runtime_snapshot_json s = json_object
     [(''authenticated_artifacts'', JBool (rs_authenticated s)),
      (''command_latency_ns'', JStr (to_string (rs_command_latency s))),
      (''consecutive_missed_cycles'', JStr (to_string32 (rs_missed_cycles s))),
      (''controller_digest'', JStr (rs_controller s)),
      (''control_period_ns'', JStr (to_string (rs_control_period s))),
      (''deployment_id'', JStr (rs_deployment s)),
      (''fail_closed_transport_active'', JBool (rs_fail_closed s)),
      (''observation_age_ns'', JStr (to_string (rs_observation_age s))),
      (''platform_digest'', JStr (rs_platform s)), (''robot_digest'', JStr (rs_robot s)),
      (''runtime_digest'', JStr (rs_runtime s)), (''runtime_monitor_active'', JBool (rs_monitor_active s))]"

definition valid_deployment_runtime_snapshot :: "runtime_snapshot \<Rightarrow> bool" where
  "valid_deployment_runtime_snapshot s \<longleftrightarrow>
     valid_text (rs_deployment s) \<and> valid_sha256 (rs_robot s) \<and> valid_sha256 (rs_controller s) \<and>
     valid_sha256 (rs_platform s) \<and> valid_sha256 (rs_runtime s) \<and> rs_control_period s > 0"

end
