(* ===== verification/Transparency.thy ===== *)
theory Transparency
  imports Merkle Runtime_Records
begin

text \<open>
  The transparency log of \<^verbatim>\<open>src/transparency.cpp\<close> and \<^verbatim>\<open>include/rbfsafe/transparency.h\<close>:
  deployment anchors and attested runtime observations as leaves, a signed checkpoint after
  each leaf, the records that chain them, and the inclusion, consistency and compact
  consistency proofs with their verifiers.

  Every identity is the SHA-256 digest of a domain line and the canonical JSON of the
  object without its own \<open>id\<close>; a signed message is the JSON without \<open>id\<close> and
  \<open>authentication_tag\<close>.
\<close>

section \<open>Limits\<close>

definition kMaximumAttestations :: nat where "kMaximumAttestations = 100000"

section \<open>Deployment anchors\<close>

record deployment_anchor =
  da_schema :: u32
  da_id :: string
  da_deployment :: string
  da_profile :: string
  da_approval :: string
  da_robot :: string
  da_controller :: string
  da_platform :: string
  da_runtime :: string
  da_trust_root :: string
  da_trust_checkpoint :: string
  da_trust_bundle :: string
  da_trust_sequence :: u64
  da_trust_head :: string

definition deployment_anchor_json :: "deployment_anchor \<Rightarrow> bool \<Rightarrow> json" where
  "deployment_anchor_json a include_id = json_object
     ([(''approval_set_id'', JStr (da_approval a)), (''controller_digest'', JStr (da_controller a)),
       (''deployment_id'', JStr (da_deployment a)), (''platform_digest'', JStr (da_platform a)),
       (''reviewed_profile_id'', JStr (da_profile a)), (''robot_digest'', JStr (da_robot a)),
       (''runtime_digest'', JStr (da_runtime a)), (''storage_schema'', JStr (to_string32 (da_schema a))),
       (''trust_bundle_id'', JStr (da_trust_bundle a)),
       (''trust_bundle_sequence'', JStr (to_string (da_trust_sequence a))),
       (''trust_checkpoint_id'', JStr (da_trust_checkpoint a)),
       (''trust_head_record_id'', JStr (da_trust_head a)),
       (''trust_root_bundle_id'', JStr (da_trust_root a))] @ with_id include_id (da_id a))"

definition deployment_transparency_anchor_identity :: "deployment_anchor \<Rightarrow> string" where
  "deployment_transparency_anchor_identity a =
     sha256 (identity_text ''rbfsafe-deployment-transparency-anchor-identity-v1'' (deployment_anchor_json a False))"

definition deployment_anchor_valid :: "deployment_anchor \<Rightarrow> bool" where
  "deployment_anchor_valid a \<longleftrightarrow>
     da_schema a = 1 \<and> valid_sha256 (da_id a) \<and> valid_text (da_deployment a) \<and>
     valid_sha256 (da_profile a) \<and> valid_sha256 (da_approval a) \<and> valid_sha256 (da_robot a) \<and>
     valid_sha256 (da_controller a) \<and> valid_sha256 (da_platform a) \<and> valid_sha256 (da_runtime a) \<and>
     valid_sha256 (da_trust_root a) \<and> valid_sha256 (da_trust_checkpoint a) \<and>
     valid_sha256 (da_trust_bundle a) \<and> da_trust_sequence a > 0 \<and> valid_sha256 (da_trust_head a) \<and>
     da_id a = deployment_transparency_anchor_identity a"

section \<open>Runtime observations\<close>

record observation =
  ob_schema :: u32
  ob_id :: string
  ob_session :: string
  ob_ledger :: string
  ob_ledger_record :: string
  ob_authorization :: string
  ob_command_sequence :: string
  ob_command_index :: u64
  ob_command_digest :: string
  ob_runtime :: runtime_snapshot
  ob_sequence :: u64
  ob_observed :: u64
  ob_monitor :: monitor_state
  ob_configuration :: string

definition independent_observation_json :: "observation \<Rightarrow> bool \<Rightarrow> json" where
  "independent_observation_json b include_id = json_object
     ([(''authorization_id'', JStr (ob_authorization b)), (''command_digest'', JStr (ob_command_digest b)),
       (''command_index'', JStr (to_string (ob_command_index b))),
       (''command_sequence_id'', JStr (ob_command_sequence b)),
       (''configuration_digest'', JStr (ob_configuration b)), (''ledger_id'', JStr (ob_ledger b)),
       (''ledger_record_id'', JStr (ob_ledger_record b)),
       (''monitor_state'', json_int (monitor_state_code (ob_monitor b))),
       (''observation_sequence'', JStr (to_string (ob_sequence b))),
       (''observed_monotonic_ns'', JStr (to_string (ob_observed b))),
       (''runtime'', runtime_snapshot_json (ob_runtime b)), (''session_id'', JStr (ob_session b)),
       (''storage_schema'', JStr (to_string32 (ob_schema b)))] @ with_id include_id (ob_id b))"

definition independent_runtime_observation_identity :: "observation \<Rightarrow> string" where
  "independent_runtime_observation_identity b =
     sha256 (identity_text ''rbfsafe-independent-runtime-observation-identity-v1'' (independent_observation_json b False))"

definition observation_valid :: "observation \<Rightarrow> bool" where
  "observation_valid b \<longleftrightarrow>
     ob_schema b = 1 \<and> valid_sha256 (ob_id b) \<and> valid_sha256 (ob_session b) \<and>
     valid_sha256 (ob_ledger b) \<and> valid_sha256 (ob_ledger_record b) \<and>
     valid_sha256 (ob_authorization b) \<and> valid_sha256 (ob_command_sequence b) \<and>
     valid_sha256 (ob_command_digest b) \<and> valid_deployment_runtime_snapshot (ob_runtime b) \<and>
     ob_sequence b > 0 \<and> ob_observed b > 0 \<and> valid_monitor_state (ob_monitor b) \<and>
     valid_sha256 (ob_configuration b) \<and> ob_id b = independent_runtime_observation_identity b"

section \<open>Attestations of an observation\<close>

record attestation =
  ra_schema :: u32
  ra_id :: string
  ra_observation :: string
  ra_service :: string
  ra_key :: string
  ra_algorithm :: algorithm
  ra_tag :: string

record observation_policy =
  rp_minimum :: u32
  rp_distinct :: bool
  rp_exclude_controller :: bool

record attestation_set =
  as_schema :: u32
  as_id :: string
  as_observation :: observation
  as_policy :: observation_policy
  as_attestations :: "attestation list"

definition runtime_policy_json :: "observation_policy \<Rightarrow> json" where
  "runtime_policy_json p = json_object
     [(''exclude_controller_service'', JBool (rp_exclude_controller p)),
      (''minimum_attestations'', JStr (to_string32 (rp_minimum p))),
      (''require_distinct_services'', JBool (rp_distinct p))]"

definition runtime_attestation_json :: "attestation \<Rightarrow> bool \<Rightarrow> bool \<Rightarrow> json" where
  "runtime_attestation_json a include_id include_tag = json_object
     ([(''algorithm'', json_int (algorithm_code (ra_algorithm a))),
       (''observation_id'', JStr (ra_observation a)), (''source_key_id'', JStr (ra_key a)),
       (''source_service_id'', JStr (ra_service a)),
       (''storage_schema'', JStr (to_string32 (ra_schema a)))]
      @ with_tag include_tag (ra_tag a) @ with_id include_id (ra_id a))"

definition runtime_attestation_set_json :: "attestation_set \<Rightarrow> bool \<Rightarrow> json" where
  "runtime_attestation_set_json s include_id = json_object
     ([(''attestations'', JArr (map (\<lambda>a. runtime_attestation_json a True True) (as_attestations s))),
       (''observation'', independent_observation_json (as_observation s) True),
       (''policy'', runtime_policy_json (as_policy s)),
       (''storage_schema'', JStr (to_string32 (as_schema s)))] @ with_id include_id (as_id s))"

definition runtime_observation_attestation_message :: "attestation \<Rightarrow> string" where
  "runtime_observation_attestation_message a =
     identity_text ''rbfsafe-runtime-observation-attestation-signature-v1'' (runtime_attestation_json a False False)"

definition runtime_observation_attestation_identity :: "attestation \<Rightarrow> string" where
  "runtime_observation_attestation_identity a =
     sha256 (identity_text ''rbfsafe-runtime-observation-attestation-identity-v1'' (runtime_attestation_json a False True))"

definition runtime_observation_attestation_set_identity :: "attestation_set \<Rightarrow> string" where
  "runtime_observation_attestation_set_identity s =
     sha256 (identity_text ''rbfsafe-runtime-observation-attestation-set-identity-v1'' (runtime_attestation_set_json s False))"

definition attestation_valid :: "attestation \<Rightarrow> bool" where
  "attestation_valid a \<longleftrightarrow>
     ra_schema a = 1 \<and> valid_sha256 (ra_id a) \<and> valid_sha256 (ra_observation a) \<and>
     valid_text (ra_service a) \<and> valid_sha256 (ra_key a) \<and> ra_algorithm a = Ed25519 \<and>
     is_hex_tag (ra_tag a) kEd25519SignatureBytes \<and> ra_id a = runtime_observation_attestation_identity a"

definition valid_runtime_observation_policy :: "observation_policy \<Rightarrow> bool" where
  "valid_runtime_observation_policy p \<longleftrightarrow> rp_minimum p > 0 \<and> unat (rp_minimum p) \<le> kMaximumAttestations"

definition attestation_less :: "attestation \<Rightarrow> attestation \<Rightarrow> bool" where
  "attestation_less a b \<longleftrightarrow> ra_service a < ra_service b \<or> (ra_service a = ra_service b \<and> ra_key a < ra_key b)"

text \<open>The loop of \<open>RuntimeObservationAttestationSet::valid\<close>; the first argument is the attestation before.\<close>

fun attestations_in_order :: "attestation_set \<Rightarrow> attestation option \<Rightarrow> attestation list \<Rightarrow> bool" where
  "attestations_in_order s previous [] = True"
| "attestations_in_order s previous (a # rest) =
     (if \<not> attestation_valid a \<or> ra_observation a \<noteq> ob_id (as_observation s) \<or>
         (case previous of None \<Rightarrow> False | Some p \<Rightarrow> \<not> attestation_less p a)
      then False
      else if rp_distinct (as_policy s) \<and> (case previous of None \<Rightarrow> False | Some p \<Rightarrow> ra_service p = ra_service a)
      then False
      else attestations_in_order s (Some a) rest)"

definition attestation_set_valid :: "attestation_set \<Rightarrow> bool" where
  "attestation_set_valid s =
     (if as_schema s \<noteq> 1 \<or> \<not> valid_sha256 (as_id s) \<or> \<not> observation_valid (as_observation s) \<or>
         \<not> valid_runtime_observation_policy (as_policy s) \<or>
         length (as_attestations s) < unat (rp_minimum (as_policy s)) \<or>
         length (as_attestations s) > kMaximumAttestations \<or>
         as_id s \<noteq> runtime_observation_attestation_set_identity s
      then False
      else attestations_in_order s None (as_attestations s))"

definition sign_runtime_observation ::
  "ed25519 \<Rightarrow> observation \<Rightarrow> string \<Rightarrow> string \<Rightarrow> u8 list \<Rightarrow> attestation result" where
  "sign_runtime_observation c b source_service_id source_key_id secret_key =
     (if \<not> observation_valid b \<or> \<not> valid_text source_service_id \<or> \<not> valid_sha256 source_key_id \<or>
         length secret_key \<noteq> kEd25519SecretKeyBytes
      then failure InvalidArgument ''runtime observation signing input is invalid'' []
      else (let a = \<lparr>ra_schema = 1, ra_id = [], ra_observation = ob_id b, ra_service = source_service_id,
                    ra_key = source_key_id, ra_algorithm = Ed25519, ra_tag = []\<rparr>
        in rbind (ed25519_sign c (runtime_observation_attestation_message a) secret_key) (\<lambda>signature.
          let a = a\<lparr>ra_tag := encode_hex signature\<rparr>;
              a = a\<lparr>ra_id := runtime_observation_attestation_identity a\<rparr>
          in if \<not> attestation_valid a
             then failure InternalError ''constructed runtime observation attestation is invalid'' []
             else Inr a)))"

text \<open>
  The quorum policy, with the controller's service of the session. The two sets are the
  services and the (service, key) pairs seen so far.
\<close>

fun check_sources ::
  "string \<Rightarrow> observation_policy \<Rightarrow> string list \<Rightarrow> (string \<times> string) list \<Rightarrow> attestation list \<Rightarrow> unit result" where
  "check_sources controller p services keys [] = Inr ()"
| "check_sources controller p services keys (a # rest) =
     (if (ra_service a, ra_key a) \<in> set keys
      then failure IdentityMismatch ''runtime observation contains a duplicate source key'' (ra_key a)
      else if rp_distinct p \<and> ra_service a \<in> set services
      then failure IdentityMismatch ''runtime observation sources are not service-distinct'' (ra_service a)
      else if rp_exclude_controller p \<and> ra_service a = controller
      then failure IdentityMismatch ''controller service cannot attest an independent runtime observation'' (ra_service a)
      else check_sources controller p (ra_service a # services) ((ra_service a, ra_key a) # keys) rest)"

definition validate_attestation_set_policy :: "string \<Rightarrow> attestation_set \<Rightarrow> unit result" where
  "validate_attestation_set_policy controller s =
     (if length (as_attestations s) < unat (rp_minimum (as_policy s))
      then failure IdentityMismatch ''runtime observation attestation quorum is not satisfied'' (as_id s)
      else check_sources controller (as_policy s) [] [] (as_attestations s))"

end
