(* ===== verification/Transparency_Log.thy ===== *)
theory Transparency_Log
  imports Transparency
begin

text \<open>
  The log itself: identity, leaves, signed checkpoints, records, proofs, the verifiers a
  client runs, and the operations of \<^verbatim>\<open>class TransparencyLog\<close>.

  The directory a log lives in is the disk: what \<open>TransparencyLog::open\<close> reads back under
  the write lock is the argument \<open>fresh\<close> of \<open>publish_leaf\<close>, the outcome of the lock and
  of the record-file append are \<open>lock\<close> and \<open>appended\<close>.
\<close>

section \<open>Identity of a log\<close>

record log_identity =
  ti_schema :: u32
  ti_id :: string
  ti_namespace :: string
  ti_service :: string
  ti_key :: string
  ti_public_key :: "u8 list"

definition transparency_identity_json :: "log_identity \<Rightarrow> bool \<Rightarrow> json" where
  "transparency_identity_json i include_id = json_object
     ([(''log_namespace'', JStr (ti_namespace i)), (''signer_key_id'', JStr (ti_key i)),
       (''signer_public_key'', JStr (encode_hex (ti_public_key i))),
       (''signer_service_id'', JStr (ti_service i)),
       (''storage_schema'', JStr (to_string32 (ti_schema i)))] @ with_id include_id (ti_id i))"

definition transparency_log_identity_value :: "log_identity \<Rightarrow> string" where
  "transparency_log_identity_value i =
     sha256 (identity_text ''rbfsafe-transparency-log-identity-v1'' (transparency_identity_json i False))"

definition log_identity_valid :: "log_identity \<Rightarrow> bool" where
  "log_identity_valid i \<longleftrightarrow>
     ti_schema i = 1 \<and> valid_sha256 (ti_id i) \<and> valid_text (ti_namespace i) \<and>
     valid_text (ti_service i) \<and> valid_sha256 (ti_key i) \<and> ti_id i = transparency_log_identity_value i"

definition create_log_identity :: "string \<Rightarrow> string \<Rightarrow> string \<Rightarrow> u8 list \<Rightarrow> log_identity result" where
  "create_log_identity namespace service signer_key public_key =
     (if \<not> valid_text namespace \<or> \<not> valid_text service \<or> \<not> valid_sha256 signer_key \<or>
         length public_key \<noteq> kEd25519PublicKeyBytes
      then failure InvalidArgument ''transparency-log identity input is invalid'' []
      else (let i = \<lparr>ti_schema = 1, ti_id = [], ti_namespace = namespace, ti_service = service,
                     ti_key = signer_key, ti_public_key = public_key\<rparr>;
                i = i\<lparr>ti_id := transparency_log_identity_value i\<rparr>
            in if \<not> log_identity_valid i
               then failure InternalError ''constructed transparency-log identity is invalid'' []
               else Inr i))"

section \<open>Leaves, checkpoints and records\<close>

datatype leaf_kind = DeploymentAnchor | RuntimeObservation

fun leaf_kind_code :: "leaf_kind \<Rightarrow> nat" where
  "leaf_kind_code DeploymentAnchor = 0"
| "leaf_kind_code RuntimeObservation = 1"

definition valid_leaf_kind :: "leaf_kind \<Rightarrow> bool" where
  "valid_leaf_kind k \<longleftrightarrow> k = DeploymentAnchor \<or> k = RuntimeObservation"

definition transparency_leaf_kind_name :: "leaf_kind \<Rightarrow> string" where
  "transparency_leaf_kind_name k =
     (case k of DeploymentAnchor \<Rightarrow> ''deployment_anchor'' | RuntimeObservation \<Rightarrow> ''runtime_observation'')"

record log_leaf =
  lf_schema :: u32
  lf_index :: u64
  lf_id :: string
  lf_log :: string
  lf_kind :: leaf_kind
  lf_anchor :: "deployment_anchor option"
  lf_observation :: "attestation_set option"

record checkpoint =
  cp_schema :: u32
  cp_id :: string
  cp_log :: string
  cp_size :: u64
  cp_root :: string
  cp_previous :: string
  cp_service :: string
  cp_key :: string
  cp_algorithm :: algorithm
  cp_tag :: string

record log_record =
  rc_schema :: u32
  rc_sequence :: u64
  rc_id :: string
  rc_parent :: string
  rc_log :: string
  rc_leaf :: log_leaf
  rc_checkpoint :: checkpoint

definition transparency_leaf_json :: "log_leaf \<Rightarrow> bool \<Rightarrow> json" where
  "transparency_leaf_json l include_id = json_object
     ([(''deployment_anchor'', case lf_anchor l of Some a \<Rightarrow> deployment_anchor_json a True | None \<Rightarrow> JNull),
       (''index'', JStr (to_string (lf_index l))),
       (''kind'', json_int (leaf_kind_code (lf_kind l))),
       (''log_id'', JStr (lf_log l)),
       (''runtime_observation'',
          case lf_observation l of Some s \<Rightarrow> runtime_attestation_set_json s True | None \<Rightarrow> JNull),
       (''storage_schema'', JStr (to_string32 (lf_schema l)))] @ with_id include_id (lf_id l))"

definition transparency_checkpoint_json :: "checkpoint \<Rightarrow> bool \<Rightarrow> bool \<Rightarrow> json" where
  "transparency_checkpoint_json c include_id include_tag = json_object
     ([(''algorithm'', json_int (algorithm_code (cp_algorithm c))), (''log_id'', JStr (cp_log c)),
       (''previous_checkpoint_id'', JStr (cp_previous c)), (''root_hash'', JStr (cp_root c)),
       (''signer_key_id'', JStr (cp_key c)), (''signer_service_id'', JStr (cp_service c)),
       (''storage_schema'', JStr (to_string32 (cp_schema c))),
       (''tree_size'', JStr (to_string (cp_size c)))]
      @ with_tag include_tag (cp_tag c) @ with_id include_id (cp_id c))"

definition transparency_record_json :: "log_record \<Rightarrow> bool \<Rightarrow> json" where
  "transparency_record_json r include_id = json_object
     ([(''checkpoint'', transparency_checkpoint_json (rc_checkpoint r) True True),
       (''leaf'', transparency_leaf_json (rc_leaf r) True), (''log_id'', JStr (rc_log r)),
       (''parent_id'', JStr (rc_parent r)), (''sequence'', JStr (to_string (rc_sequence r))),
       (''storage_schema'', JStr (to_string32 (rc_schema r)))] @ with_id include_id (rc_id r))"

definition transparency_log_leaf_identity :: "log_leaf \<Rightarrow> string" where
  "transparency_log_leaf_identity l =
     sha256 (identity_text ''rbfsafe-transparency-log-leaf-identity-v1'' (transparency_leaf_json l False))"

definition transparency_log_checkpoint_message :: "checkpoint \<Rightarrow> string" where
  "transparency_log_checkpoint_message c =
     identity_text ''rbfsafe-transparency-log-checkpoint-signature-v1'' (transparency_checkpoint_json c False False)"

definition transparency_log_checkpoint_identity :: "checkpoint \<Rightarrow> string" where
  "transparency_log_checkpoint_identity c =
     sha256 (identity_text ''rbfsafe-transparency-log-checkpoint-identity-v1'' (transparency_checkpoint_json c False True))"

definition transparency_log_record_identity :: "log_record \<Rightarrow> string" where
  "transparency_log_record_identity r =
     sha256 (identity_text ''rbfsafe-transparency-log-record-identity-v1'' (transparency_record_json r False))"

definition leaf_valid :: "log_leaf \<Rightarrow> bool" where
  "leaf_valid l =
     (let payload_valid =
        (lf_kind l = DeploymentAnchor \<and>
           (case lf_anchor l of Some a \<Rightarrow> deployment_anchor_valid a | None \<Rightarrow> False) \<and> lf_observation l = None) \<or>
        (lf_kind l = RuntimeObservation \<and>
           (case lf_observation l of Some s \<Rightarrow> attestation_set_valid s | None \<Rightarrow> False) \<and> lf_anchor l = None)
      in lf_schema l = 1 \<and> valid_sha256 (lf_id l) \<and> valid_sha256 (lf_log l) \<and>
         valid_leaf_kind (lf_kind l) \<and> payload_valid \<and> lf_id l = transparency_log_leaf_identity l)"

definition checkpoint_valid :: "checkpoint \<Rightarrow> bool" where
  "checkpoint_valid c \<longleftrightarrow>
     cp_schema c = 1 \<and> valid_sha256 (cp_id c) \<and> valid_sha256 (cp_log c) \<and> cp_size c > 0 \<and>
     valid_sha256 (cp_root c) \<and>
     (if cp_size c = 1 then cp_previous c = [] else valid_sha256 (cp_previous c)) \<and>
     valid_text (cp_service c) \<and> valid_sha256 (cp_key c) \<and> cp_algorithm c = Ed25519 \<and>
     is_hex_tag (cp_tag c) kEd25519SignatureBytes \<and> cp_id c = transparency_log_checkpoint_identity c"

definition record_valid :: "log_record \<Rightarrow> bool" where
  "record_valid r \<longleftrightarrow>
     rc_schema r = 1 \<and> valid_sha256 (rc_id r) \<and> valid_sha256 (rc_log r) \<and>
     (if rc_sequence r = 0 then rc_parent r = [] else valid_sha256 (rc_parent r)) \<and>
     leaf_valid (rc_leaf r) \<and> checkpoint_valid (rc_checkpoint r) \<and>
     lf_index (rc_leaf r) = rc_sequence r \<and> lf_log (rc_leaf r) = rc_log r \<and>
     cp_log (rc_checkpoint r) = rc_log r \<and> cp_size (rc_checkpoint r) = rc_sequence r + 1 \<and>
     rc_id r = transparency_log_record_identity r"

section \<open>Signed checkpoints\<close>

definition verify_transparency_log_checkpoint :: "ed25519 \<Rightarrow> log_identity \<Rightarrow> checkpoint \<Rightarrow> unit result" where
  "verify_transparency_log_checkpoint c i cp =
     (if \<not> log_identity_valid i \<or> \<not> checkpoint_valid cp
      then failure InvalidArgument ''transparency checkpoint verification input is invalid'' []
      else if cp_log cp \<noteq> ti_id i \<or> cp_service cp \<noteq> ti_service i \<or> cp_key cp \<noteq> ti_key i
      then failure IdentityMismatch ''transparency checkpoint signer or log identity mismatch'' (cp_id cp)
      else rbind (decode_hex (cp_tag cp) kEd25519SignatureBytes) (\<lambda>signature.
        ed25519_verify c (transparency_log_checkpoint_message cp) signature (ti_public_key i)))"

definition sign_checkpoint :: "ed25519 \<Rightarrow> log_identity \<Rightarrow> checkpoint \<Rightarrow> u8 list \<Rightarrow> checkpoint result" where
  "sign_checkpoint c i cp secret_key =
     (if \<not> log_identity_valid i \<or> cp_log cp \<noteq> ti_id i \<or> length secret_key \<noteq> kEd25519SecretKeyBytes
      then failure InvalidArgument ''transparency checkpoint signing input is invalid'' []
      else (let cp = cp\<lparr>cp_service := ti_service i, cp_key := ti_key i, cp_algorithm := Ed25519\<rparr>
        in rbind (ed25519_sign c (transparency_log_checkpoint_message cp) secret_key) (\<lambda>signature.
          let cp = cp\<lparr>cp_tag := encode_hex signature\<rparr>;
              cp = cp\<lparr>cp_id := transparency_log_checkpoint_identity cp\<rparr>
          in rbind (verify_transparency_log_checkpoint c i cp) (\<lambda>_. Inr cp))))"

section \<open>Proofs\<close>

record inclusion_proof =
  ip_schema :: u32
  ip_id :: string
  ip_log :: string
  ip_checkpoint :: string
  ip_leaf :: string
  ip_index :: u64
  ip_size :: u64
  ip_root :: string
  ip_siblings :: "string list"

definition inclusion_proof_json :: "inclusion_proof \<Rightarrow> bool \<Rightarrow> json" where
  "inclusion_proof_json p include_id = json_object
     ([(''checkpoint_id'', JStr (ip_checkpoint p)), (''leaf_id'', JStr (ip_leaf p)),
       (''leaf_index'', JStr (to_string (ip_index p))), (''log_id'', JStr (ip_log p)),
       (''root_hash'', JStr (ip_root p)), (''sibling_hashes'', JArr (map JStr (ip_siblings p))),
       (''storage_schema'', JStr (to_string32 (ip_schema p))),
       (''tree_size'', JStr (to_string (ip_size p)))] @ with_id include_id (ip_id p))"

definition transparency_inclusion_proof_identity :: "inclusion_proof \<Rightarrow> string" where
  "transparency_inclusion_proof_identity p =
     sha256 (identity_text ''rbfsafe-transparency-inclusion-proof-identity-v1'' (inclusion_proof_json p False))"

definition inclusion_proof_valid :: "inclusion_proof \<Rightarrow> bool" where
  "inclusion_proof_valid p =
     (if ip_schema p \<noteq> 1 \<or> \<not> valid_sha256 (ip_id p) \<or> \<not> valid_sha256 (ip_log p) \<or>
         \<not> valid_sha256 (ip_checkpoint p) \<or> \<not> valid_sha256 (ip_leaf p) \<or> ip_size p = 0 \<or>
         ip_index p \<ge> ip_size p \<or> \<not> valid_sha256 (ip_root p) \<or> length (ip_siblings p) > 64 \<or>
         ip_id p \<noteq> transparency_inclusion_proof_identity p
      then False
      else list_all valid_sha256 (ip_siblings p))"

definition verify_transparency_inclusion ::
  "ed25519 \<Rightarrow> log_identity \<Rightarrow> checkpoint \<Rightarrow> log_leaf \<Rightarrow> inclusion_proof \<Rightarrow> unit result" where
  "verify_transparency_inclusion c i cp l p =
     (if \<not> log_identity_valid i \<or> \<not> checkpoint_valid cp \<or> \<not> leaf_valid l \<or> \<not> inclusion_proof_valid p
      then failure InvalidArgument ''transparency inclusion verification input is invalid'' []
      else rbind (verify_transparency_log_checkpoint c i cp) (\<lambda>_.
        if lf_log l \<noteq> ti_id i \<or> ip_log p \<noteq> ti_id i \<or> ip_checkpoint p \<noteq> cp_id cp \<or>
           ip_leaf p \<noteq> lf_id l \<or> ip_index p \<noteq> lf_index l \<or> ip_size p \<noteq> cp_size cp \<or> ip_root p \<noteq> cp_root cp
        then failure IdentityMismatch ''transparency inclusion proof binding mismatch'' (ip_id p)
        else (case path_hash (ip_index p) (ip_size p) (transparency_leaf_hash (lf_id l)) (ip_siblings p) of
                None \<Rightarrow> failure CorruptData ''transparency inclusion proof is truncated'' (ip_id p)
              | Some (hash, rest) \<Rightarrow>
                  if rest \<noteq> [] \<or> hash \<noteq> cp_root cp
                  then failure IdentityMismatch ''transparency inclusion proof root mismatch'' (ip_id p)
                  else Inr ())))"

record consistency_witness =
  cw_schema :: u32
  cw_id :: string
  cw_log :: string
  cw_old_checkpoint :: string
  cw_new_checkpoint :: string
  cw_old_size :: u64
  cw_new_size :: u64
  cw_old_root :: string
  cw_new_root :: string
  cw_leaves :: "string list"

definition consistency_witness_json :: "consistency_witness \<Rightarrow> bool \<Rightarrow> json" where
  "consistency_witness_json w include_id = json_object
     ([(''log_id'', JStr (cw_log w)), (''new_checkpoint_id'', JStr (cw_new_checkpoint w)),
       (''new_root_hash'', JStr (cw_new_root w)), (''new_tree_size'', JStr (to_string (cw_new_size w))),
       (''old_checkpoint_id'', JStr (cw_old_checkpoint w)), (''old_root_hash'', JStr (cw_old_root w)),
       (''old_tree_size'', JStr (to_string (cw_old_size w))),
       (''ordered_leaf_ids'', JArr (map JStr (cw_leaves w))),
       (''storage_schema'', JStr (to_string32 (cw_schema w)))] @ with_id include_id (cw_id w))"

definition transparency_consistency_witness_identity :: "consistency_witness \<Rightarrow> string" where
  "transparency_consistency_witness_identity w =
     sha256 (identity_text ''rbfsafe-transparency-consistency-witness-identity-v1'' (consistency_witness_json w False))"

definition consistency_witness_valid :: "consistency_witness \<Rightarrow> bool" where
  "consistency_witness_valid w =
     (if cw_schema w \<noteq> 1 \<or> \<not> valid_sha256 (cw_id w) \<or> \<not> valid_sha256 (cw_log w) \<or>
         \<not> valid_sha256 (cw_old_checkpoint w) \<or> \<not> valid_sha256 (cw_new_checkpoint w) \<or>
         cw_old_size w = 0 \<or> cw_old_size w \<ge> cw_new_size w \<or> length (cw_leaves w) \<noteq> unat (cw_new_size w) \<or>
         \<not> valid_sha256 (cw_old_root w) \<or> \<not> valid_sha256 (cw_new_root w) \<or>
         cw_id w \<noteq> transparency_consistency_witness_identity w
      then False
      else list_all valid_sha256 (cw_leaves w))"

definition verify_transparency_consistency ::
  "ed25519 \<Rightarrow> log_identity \<Rightarrow> checkpoint \<Rightarrow> checkpoint \<Rightarrow> consistency_witness \<Rightarrow> unit result" where
  "verify_transparency_consistency c i old new w =
     (if \<not> log_identity_valid i \<or> \<not> checkpoint_valid old \<or> \<not> checkpoint_valid new \<or> \<not> consistency_witness_valid w
      then failure InvalidArgument ''transparency consistency verification input is invalid'' []
      else rbind (verify_transparency_log_checkpoint c i old) (\<lambda>_.
        rbind (verify_transparency_log_checkpoint c i new) (\<lambda>_.
          if cw_log w \<noteq> ti_id i \<or> cw_old_checkpoint w \<noteq> cp_id old \<or> cw_new_checkpoint w \<noteq> cp_id new \<or>
             cw_old_size w \<noteq> cp_size old \<or> cw_new_size w \<noteq> cp_size new \<or>
             cw_old_root w \<noteq> cp_root old \<or> cw_new_root w \<noteq> cp_root new
          then failure IdentityMismatch ''transparency consistency witness binding mismatch'' (cw_id w)
          else if merkle_root (take (unat (cw_old_size w)) (cw_leaves w)) \<noteq> cp_root old \<or>
                  merkle_root (cw_leaves w) \<noteq> cp_root new
          then failure IdentityMismatch ''transparency consistency witness root mismatch'' (cw_id w)
          else Inr ())))"

end
