(* ===== verification/Transparency_State.thy ===== *)
theory Transparency_State
  imports Transparency_Log
begin

unbundle bit_operations_syntax

text \<open>
  Compact consistency proofs, and the log with its operations: the validity check that
  replays the whole log, publication, and the proofs a log produces. Sizes and positions of
  the record vector are natural numbers; the 64-bit fields of records and proofs are words.
\<close>

section \<open>Compact consistency\<close>

record merkle_subtree =
  ms_level :: u8
  ms_hash :: string

definition subtree_valid :: "merkle_subtree \<Rightarrow> bool" where
  "subtree_valid s \<longleftrightarrow> ms_level s < 64 \<and> valid_sha256 (ms_hash s)"

record compact_proof =
  cc_schema :: u32
  cc_id :: string
  cc_log :: string
  cc_old_checkpoint :: string
  cc_new_checkpoint :: string
  cc_old_size :: u64
  cc_new_size :: u64
  cc_old_root :: string
  cc_new_root :: string
  cc_frontier :: "merkle_subtree list"
  cc_appended :: "merkle_subtree list"

definition merkle_subtree_json :: "merkle_subtree \<Rightarrow> json" where
  "merkle_subtree_json s = json_object
     [(''hash'', JStr (ms_hash s)), (''level'', JStr (decimal (unat (ms_level s))))]"

definition compact_consistency_proof_json :: "compact_proof \<Rightarrow> bool \<Rightarrow> json" where
  "compact_consistency_proof_json p include_id = json_object
     ([(''appended_subtrees'', JArr (map merkle_subtree_json (cc_appended p))), (''log_id'', JStr (cc_log p)),
       (''new_checkpoint_id'', JStr (cc_new_checkpoint p)), (''new_root_hash'', JStr (cc_new_root p)),
       (''new_tree_size'', JStr (to_string (cc_new_size p))),
       (''old_checkpoint_id'', JStr (cc_old_checkpoint p)),
       (''old_frontier'', JArr (map merkle_subtree_json (cc_frontier p))),
       (''old_root_hash'', JStr (cc_old_root p)), (''old_tree_size'', JStr (to_string (cc_old_size p))),
       (''storage_schema'', JStr (to_string32 (cc_schema p)))] @ with_id include_id (cc_id p))"

definition transparency_compact_consistency_proof_identity :: "compact_proof \<Rightarrow> string" where
  "transparency_compact_consistency_proof_identity p =
     sha256 (identity_text ''rbfsafe-transparency-compact-consistency-proof-identity-v1''
       (compact_consistency_proof_json p False))"

fun frontier_matches :: "u64 \<Rightarrow> nat list \<Rightarrow> merkle_subtree list \<Rightarrow> bool" where
  "frontier_matches tree_size [] fs = (fs = [])"
| "frontier_matches tree_size (level # levels) fs =
     (if even (unat (drop_bit level tree_size)) then frontier_matches tree_size levels fs
      else (case fs of
              [] \<Rightarrow> False
            | f # rest \<Rightarrow> ms_level f = of_nat level \<and> subtree_valid f \<and> frontier_matches tree_size levels rest))"

definition subtree_size :: "merkle_subtree \<Rightarrow> u64" where
  "subtree_size s = push_bit (unat (ms_level s)) 1"

fun appended_fit :: "u64 \<Rightarrow> u64 \<Rightarrow> merkle_subtree list \<Rightarrow> bool" where
  "appended_fit represented new_size [] = (represented = new_size)"
| "appended_fit represented new_size (s # rest) =
     (if \<not> subtree_valid s then False
      else if represented AND (subtree_size s - 1) \<noteq> 0 \<or> represented > - 1 - subtree_size s then False
      else if represented + subtree_size s > new_size then False
      else appended_fit (represented + subtree_size s) new_size rest)"

definition compact_proof_valid :: "compact_proof \<Rightarrow> bool" where
  "compact_proof_valid p =
     (if cc_schema p \<noteq> 1 \<or> \<not> valid_sha256 (cc_id p) \<or> \<not> valid_sha256 (cc_log p) \<or>
         \<not> valid_sha256 (cc_old_checkpoint p) \<or> \<not> valid_sha256 (cc_new_checkpoint p) \<or>
         cc_old_size p = 0 \<or> cc_old_size p \<ge> cc_new_size p \<or> \<not> valid_sha256 (cc_old_root p) \<or>
         \<not> valid_sha256 (cc_new_root p) \<or> cc_frontier p = [] \<or> length (cc_frontier p) > 64 \<or>
         cc_appended p = [] \<or> length (cc_appended p) > 128 \<or>
         cc_id p \<noteq> transparency_compact_consistency_proof_identity p
      then False
      else if \<not> frontier_matches (cc_old_size p) [0..<64] (cc_frontier p) then False
      else appended_fit (cc_old_size p) (cc_new_size p) (cc_appended p))"

definition frontier_of_subtrees :: "merkle_subtree list \<Rightarrow> string list" where
  "frontier_of_subtrees fs = foldl (\<lambda>frontier s. frontier[unat (ms_level s) := ms_hash s]) empty_frontier fs"

fun append_subtrees :: "string list \<Rightarrow> u64 \<Rightarrow> string \<Rightarrow> merkle_subtree list \<Rightarrow> (u64 \<times> string) option" where
  "append_subtrees frontier represented reached [] = Some (represented, reached)"
| "append_subtrees frontier represented reached (s # rest) =
     (let (root, frontier) = append_merkle_subtree frontier (ms_hash s) (unat (ms_level s)) (unat represented)
      in if root = [] then None
         else append_subtrees frontier (represented + subtree_size s) root rest)"

definition verify_transparency_compact_consistency ::
  "ed25519 \<Rightarrow> log_identity \<Rightarrow> checkpoint \<Rightarrow> checkpoint \<Rightarrow> compact_proof \<Rightarrow> unit result" where
  "verify_transparency_compact_consistency c i old new p =
     (if \<not> log_identity_valid i \<or> \<not> checkpoint_valid old \<or> \<not> checkpoint_valid new \<or> \<not> compact_proof_valid p
      then failure InvalidArgument ''compact transparency consistency verification input is invalid'' []
      else rbind (verify_transparency_log_checkpoint c i old) (\<lambda>_.
        rbind (verify_transparency_log_checkpoint c i new) (\<lambda>_.
          if cc_log p \<noteq> ti_id i \<or> cc_old_checkpoint p \<noteq> cp_id old \<or> cc_new_checkpoint p \<noteq> cp_id new \<or>
             cc_old_size p \<noteq> cp_size old \<or> cc_new_size p \<noteq> cp_size new \<or>
             cc_old_root p \<noteq> cp_root old \<or> cc_new_root p \<noteq> cp_root new
          then failure IdentityMismatch ''compact transparency consistency proof binding mismatch'' (cc_id p)
          else if frontier_root (frontier_of_subtrees (cc_frontier p)) \<noteq> cp_root old
          then failure IdentityMismatch ''compact transparency consistency old frontier root mismatch'' (cc_id p)
          else (case append_subtrees (frontier_of_subtrees (cc_frontier p)) (cc_old_size p) (cp_root old)
                       (cc_appended p) of
                  None \<Rightarrow> failure CorruptData ''compact transparency consistency subtree sequence is invalid'' (cc_id p)
                | Some (represented, reached) \<Rightarrow>
                    if represented \<noteq> cc_new_size p \<or> reached \<noteq> cp_root new
                    then failure IdentityMismatch ''compact transparency consistency new root mismatch'' (cc_id p)
                    else Inr ()))))"

section \<open>The log\<close>

record log_options =
  lo_maximum_records :: nat
  lo_maximum_per_observation :: nat
  lo_maximum_total :: nat

record transparency_log =
  tl_directory :: string
  tl_identity :: log_identity
  tl_records :: "log_record list"
  tl_checkpoint_id :: string
  tl_root_hash :: string
  tl_frontier :: "string list"
  tl_options :: log_options

text \<open>
  The replay loop of \<open>TransparencyLog::valid\<close>; its result is the frontier reached, \<open>None\<close>
  where the code returns false.
\<close>

fun replay_records ::
  "ed25519 \<Rightarrow> log_identity \<Rightarrow> log_options \<Rightarrow> nat \<Rightarrow> string list \<Rightarrow> string \<Rightarrow> string \<Rightarrow> nat \<Rightarrow> log_record list
    \<Rightarrow> string list option" where
  "replay_records c i opts index frontier parent previous attested [] = Some frontier"
| "replay_records c i opts index frontier parent previous attested (r # rest) =
     (if \<not> record_valid r \<or> rc_sequence r \<noteq> of_nat index \<or> rc_parent r \<noteq> parent \<or> rc_log r \<noteq> ti_id i \<or>
         cp_previous (rc_checkpoint r) \<noteq> previous \<or>
         \<not> has_value (verify_transparency_log_checkpoint c i (rc_checkpoint r))
      then None
      else
        (let count = (case lf_observation (rc_leaf r) of None \<Rightarrow> 0 | Some s \<Rightarrow> length (as_attestations s))
         in if lf_observation (rc_leaf r) \<noteq> None \<and>
               (count > lo_maximum_per_observation opts \<or> attested > lo_maximum_total opts \<or>
                count > lo_maximum_total opts - attested)
            then None
            else (let (root, frontier) = append_merkle_leaf frontier (lf_id (rc_leaf r)) index
                  in if root = [] \<or> cp_root (rc_checkpoint r) \<noteq> root then None
                     else replay_records c i opts (index + 1) frontier (rc_id r) (cp_id (rc_checkpoint r))
                            (attested + count) rest)))"

definition log_valid :: "ed25519 \<Rightarrow> transparency_log \<Rightarrow> bool" where
  "log_valid c l =
     (if tl_directory l = [] \<or> \<not> log_identity_valid (tl_identity l) \<or>
         length (tl_records l) > lo_maximum_records (tl_options l)
      then False
      else if tl_records l = []
      then tl_checkpoint_id l = [] \<and> tl_root_hash l = [] \<and> list_all (\<lambda>h. h = []) (tl_frontier l)
      else (case replay_records c (tl_identity l) (tl_options l) 0 empty_frontier [] [] 0 (tl_records l) of
              None \<Rightarrow> False
            | Some frontier \<Rightarrow>
                tl_checkpoint_id l = cp_id (rc_checkpoint (last (tl_records l))) \<and>
                tl_root_hash l = cp_root (rc_checkpoint (last (tl_records l))) \<and>
                tl_frontier l = frontier))"

text \<open>The leaf, the checkpoint and the record that publication constructs.\<close>

definition placed_leaf :: "log_identity \<Rightarrow> nat \<Rightarrow> log_leaf \<Rightarrow> log_leaf" where
  "placed_leaf i index leaf =
     (let leaf = leaf\<lparr>lf_index := of_nat index, lf_log := ti_id i\<rparr>
      in leaf\<lparr>lf_id := transparency_log_leaf_identity leaf\<rparr>)"

definition unsigned_checkpoint :: "log_identity \<Rightarrow> u64 \<Rightarrow> string \<Rightarrow> string \<Rightarrow> checkpoint" where
  "unsigned_checkpoint i tree_size root_hash previous =
     \<lparr>cp_schema = 1, cp_id = [], cp_log = ti_id i, cp_size = tree_size, cp_root = root_hash, cp_previous = previous,
      cp_service = [], cp_key = [], cp_algorithm = Ed25519, cp_tag = []\<rparr>"

definition make_record :: "log_identity \<Rightarrow> string \<Rightarrow> log_leaf \<Rightarrow> checkpoint \<Rightarrow> log_record" where
  "make_record i parent l cp =
     (let r = \<lparr>rc_schema = 1, rc_sequence = lf_index l, rc_id = [], rc_parent = parent, rc_log = ti_id i,
               rc_leaf = l, rc_checkpoint = cp\<rparr>
      in r\<lparr>rc_id := transparency_log_record_identity r\<rparr>)"

definition publish_leaf ::
  "ed25519 \<Rightarrow> unit result \<Rightarrow> transparency_log result \<Rightarrow> (log_record \<Rightarrow> unit result) \<Rightarrow>
   transparency_log \<Rightarrow> log_leaf \<Rightarrow> u8 list \<Rightarrow> string \<Rightarrow> (transparency_log \<times> log_record) result" where
  "publish_leaf c lock fresh appended l leaf secret_key expected =
     (if \<not> log_valid c l
      then failure CorruptData ''open transparency log state is invalid'' []
      else if length secret_key \<noteq> kEd25519SecretKeyBytes
      then failure InvalidArgument ''transparency checkpoint signer secret key size is invalid'' []
      else if expected \<noteq> tl_checkpoint_id l
      then failure IdentityMismatch
             ''transparency publication expected checkpoint does not match the open log'' expected
      else rbind lock (\<lambda>_. rbind fresh (\<lambda>f.
        if tl_checkpoint_id f \<noteq> expected
        then failure IdentityMismatch ''transparency log changed after the caller observed its head'' (tl_checkpoint_id f)
        else if length (tl_records f) \<ge> lo_maximum_records (tl_options l)
        then failure ResourceLimit ''transparency log record limit reached'' []
        else
          (let leaf = placed_leaf (tl_identity l) (length (tl_records f)) leaf
           in if \<not> leaf_valid leaf
              then failure InvalidArgument ''transparency leaf payload is invalid'' []
              else (let (next_root, next_frontier) =
                          append_merkle_leaf (tl_frontier f) (lf_id leaf) (length (tl_records f))
                    in if next_root = []
                       then failure ResourceLimit ''transparency Merkle frontier cannot represent another leaf'' []
                       else rbind (sign_checkpoint c (tl_identity l)
                                     (unsigned_checkpoint (tl_identity l) (of_nat (length (tl_records f)) + 1)
                                        next_root (tl_checkpoint_id f)) secret_key) (\<lambda>cp.
                         let r = make_record (tl_identity l)
                                   (if tl_records f = [] then [] else rc_id (last (tl_records f))) leaf cp
                         in if \<not> record_valid r
                            then failure InternalError ''constructed transparency record is invalid'' []
                            else (let candidate = f\<lparr>tl_records := tl_records f @ [r],
                                        tl_checkpoint_id := cp_id cp, tl_root_hash := cp_root cp,
                                        tl_frontier := next_frontier\<rparr>
                                  in if \<not> log_valid c candidate
                                     then failure InternalError
                                            ''candidate transparency log failed complete validation'' []
                                     else rbind (appended r) (\<lambda>_. Inr (candidate, r)))))))))"

definition anchor_leaf :: "deployment_anchor \<Rightarrow> log_leaf" where
  "anchor_leaf a = \<lparr>lf_schema = 1, lf_index = 0, lf_id = [], lf_log = [], lf_kind = DeploymentAnchor,
     lf_anchor = Some a, lf_observation = None\<rparr>"

definition observation_leaf :: "attestation_set \<Rightarrow> log_leaf" where
  "observation_leaf s = \<lparr>lf_schema = 1, lf_index = 0, lf_id = [], lf_log = [], lf_kind = RuntimeObservation,
     lf_anchor = None, lf_observation = Some s\<rparr>"

definition publish_deployment_anchor ::
  "ed25519 \<Rightarrow> unit result \<Rightarrow> transparency_log result \<Rightarrow> (log_record \<Rightarrow> unit result) \<Rightarrow>
   transparency_log \<Rightarrow> deployment_anchor \<Rightarrow> u8 list \<Rightarrow> string \<Rightarrow> (transparency_log \<times> log_record) result" where
  "publish_deployment_anchor c lock fresh appended l a secret_key expected =
     (if \<not> deployment_anchor_valid a
      then failure InvalidArgument ''deployment transparency anchor is invalid'' []
      else publish_leaf c lock fresh appended l (anchor_leaf a) secret_key expected)"

definition publish_runtime_observation ::
  "ed25519 \<Rightarrow> unit result \<Rightarrow> transparency_log result \<Rightarrow> (log_record \<Rightarrow> unit result) \<Rightarrow>
   transparency_log \<Rightarrow> attestation_set \<Rightarrow> u8 list \<Rightarrow> string \<Rightarrow> (transparency_log \<times> log_record) result" where
  "publish_runtime_observation c lock fresh appended l s secret_key expected =
     (if \<not> attestation_set_valid s
      then failure InvalidArgument ''runtime observation attestation set is invalid'' []
      else publish_leaf c lock fresh appended l (observation_leaf s) secret_key expected)"

section \<open>Proofs a log produces\<close>

definition leaf_ids :: "transparency_log \<Rightarrow> string list" where
  "leaf_ids l = map (\<lambda>r. lf_id (rc_leaf r)) (tl_records l)"

definition make_inclusion_proof :: "transparency_log \<Rightarrow> u64 \<Rightarrow> inclusion_proof" where
  "make_inclusion_proof l leaf_index =
     (let p = \<lparr>ip_schema = 1, ip_id = [], ip_log = ti_id (tl_identity l), ip_checkpoint = tl_checkpoint_id l,
               ip_leaf = lf_id (rc_leaf (tl_records l ! unat leaf_index)), ip_index = leaf_index,
               ip_size = of_nat (length (tl_records l)), ip_root = tl_root_hash l,
               ip_siblings = sibling_path (map transparency_leaf_hash (leaf_ids l)) (unat leaf_index)\<rparr>
      in p\<lparr>ip_id := transparency_inclusion_proof_identity p\<rparr>)"

definition log_inclusion_proof :: "ed25519 \<Rightarrow> transparency_log \<Rightarrow> u64 \<Rightarrow> inclusion_proof result" where
  "log_inclusion_proof c l leaf_index =
     (if \<not> log_valid c l \<or> unat leaf_index \<ge> length (tl_records l)
      then failure InvalidArgument ''transparency inclusion leaf index is invalid'' []
      else (let p = make_inclusion_proof l leaf_index
            in rbind (verify_transparency_inclusion c (tl_identity l) (rc_checkpoint (last (tl_records l)))
                        (rc_leaf (tl_records l ! unat leaf_index)) p) (\<lambda>_. Inr p)))"

definition make_consistency_witness :: "transparency_log \<Rightarrow> u64 \<Rightarrow> consistency_witness" where
  "make_consistency_witness l old_size =
     (let old = rc_checkpoint (tl_records l ! (unat old_size - 1));
          new = rc_checkpoint (last (tl_records l));
          w = \<lparr>cw_schema = 1, cw_id = [], cw_log = ti_id (tl_identity l), cw_old_checkpoint = cp_id old,
               cw_new_checkpoint = cp_id new, cw_old_size = old_size,
               cw_new_size = of_nat (length (tl_records l)), cw_old_root = cp_root old,
               cw_new_root = cp_root new, cw_leaves = leaf_ids l\<rparr>
      in w\<lparr>cw_id := transparency_consistency_witness_identity w\<rparr>)"

definition log_consistency_witness :: "ed25519 \<Rightarrow> transparency_log \<Rightarrow> u64 \<Rightarrow> consistency_witness result" where
  "log_consistency_witness c l old_size =
     (if \<not> log_valid c l \<or> old_size = 0 \<or> unat old_size \<ge> length (tl_records l)
      then failure InvalidArgument ''transparency consistency old tree size is invalid'' []
      else (let w = make_consistency_witness l old_size
            in rbind (verify_transparency_consistency c (tl_identity l)
                        (rc_checkpoint (tl_records l ! (unat old_size - 1)))
                        (rc_checkpoint (last (tl_records l))) w) (\<lambda>_. Inr w)))"

fun append_leaves :: "string list \<Rightarrow> nat \<Rightarrow> string list \<Rightarrow> string list option" where
  "append_leaves frontier index [] = Some frontier"
| "append_leaves frontier index (i # rest) =
     (let (root, frontier) = append_merkle_leaf frontier i index
      in if root = [] then None else append_leaves frontier (index + 1) rest)"

definition subtrees_of_frontier :: "string list \<Rightarrow> merkle_subtree list" where
  "subtrees_of_frontier frontier =
     map (\<lambda>level. \<lparr>ms_level = of_nat level, ms_hash = frontier ! level\<rparr>)
       (filter (\<lambda>level. frontier ! level \<noteq> []) [0..<64])"

text \<open>The largest aligned subtree that starts at the cursor and fits in what remains.\<close>

function grow_level :: "nat \<Rightarrow> nat \<Rightarrow> nat \<Rightarrow> nat" where
  "grow_level cursor remaining level =
     (if level < 63
      then (if 2 ^ (level + 1) > remaining \<or> cursor mod 2 ^ (level + 1) \<noteq> 0 then level
            else grow_level cursor remaining (level + 1))
      else level)"
  by pat_completeness auto
termination by (relation "measure (\<lambda>(cursor, remaining, level). 63 - level)") auto

declare grow_level.simps [simp del]

function cover :: "string list \<Rightarrow> string list \<Rightarrow> nat \<Rightarrow> merkle_subtree list option" where
  "cover ids frontier cursor =
     (if cursor < length ids
      then (let level = grow_level cursor (length ids - cursor) 0;
                subtree_hash = merkle_root (take (2 ^ level) (drop cursor ids));
                (root, frontier) = append_merkle_subtree frontier subtree_hash level cursor
            in if subtree_hash = [] \<or> root = [] then None
               else map_option (\<lambda>rest. \<lparr>ms_level = of_nat level, ms_hash = subtree_hash\<rparr> # rest)
                      (cover ids frontier (cursor + 2 ^ level)))
      else Some [])"
  by pat_completeness auto
termination by (relation "measure (\<lambda>(ids, frontier, cursor). length ids - cursor)")
    (auto intro: diff_less_mono2)

declare cover.simps [simp del]

definition make_compact_proof ::
  "transparency_log \<Rightarrow> u64 \<Rightarrow> merkle_subtree list \<Rightarrow> merkle_subtree list \<Rightarrow> compact_proof" where
  "make_compact_proof l old_size old_frontier appended =
     (let old = rc_checkpoint (tl_records l ! (unat old_size - 1));
          new = rc_checkpoint (last (tl_records l));
          p = \<lparr>cc_schema = 1, cc_id = [], cc_log = ti_id (tl_identity l), cc_old_checkpoint = cp_id old,
               cc_new_checkpoint = cp_id new, cc_old_size = old_size,
               cc_new_size = of_nat (length (tl_records l)), cc_old_root = cp_root old,
               cc_new_root = cp_root new, cc_frontier = old_frontier, cc_appended = appended\<rparr>
      in p\<lparr>cc_id := transparency_compact_consistency_proof_identity p\<rparr>)"

definition log_compact_consistency_proof :: "ed25519 \<Rightarrow> transparency_log \<Rightarrow> u64 \<Rightarrow> compact_proof result" where
  "log_compact_consistency_proof c l old_size =
     (if \<not> log_valid c l \<or> old_size = 0 \<or> unat old_size \<ge> length (tl_records l)
      then failure InvalidArgument ''compact transparency consistency old tree size is invalid'' []
      else (case append_leaves empty_frontier 0 (take (unat old_size) (leaf_ids l)) of
              None \<Rightarrow> failure InternalError ''failed to reconstruct compact consistency old frontier'' []
            | Some frontier \<Rightarrow>
                (case cover (leaf_ids l) frontier (unat old_size) of
                   None \<Rightarrow> failure InternalError ''failed to construct compact consistency appended subtree'' []
                 | Some appended \<Rightarrow>
                     (let p = make_compact_proof l old_size (subtrees_of_frontier frontier) appended
                      in rbind (verify_transparency_compact_consistency c (tl_identity l)
                                  (rc_checkpoint (tl_records l ! (unat old_size - 1)))
                                  (rc_checkpoint (last (tl_records l))) p) (\<lambda>_. Inr p)))))"

section \<open>Audit\<close>

record audit_report =
  ar_id :: string
  ar_log :: string
  ar_checkpoint :: string
  ar_root :: string
  ar_records :: nat
  ar_anchors :: nat
  ar_observations :: nat

definition audit_report_json :: "audit_report \<Rightarrow> bool \<Rightarrow> json" where
  "audit_report_json r include_id = json_object
     ([(''current_checkpoint_id'', JStr (ar_checkpoint r)), (''current_root_hash'', JStr (ar_root r)),
       (''deployment_anchor_count'', JStr (decimal (ar_anchors r))), (''log_id'', JStr (ar_log r)),
       (''runtime_observation_count'', JStr (decimal (ar_observations r))),
       (''verified_records'', JStr (decimal (ar_records r)))] @ with_id include_id (ar_id r))"

definition transparency_log_audit_report_identity :: "audit_report \<Rightarrow> string" where
  "transparency_log_audit_report_identity r =
     sha256 (identity_text ''rbfsafe-transparency-log-audit-report-identity-v1'' (audit_report_json r False))"

definition audit_report_valid :: "audit_report \<Rightarrow> bool" where
  "audit_report_valid r \<longleftrightarrow>
     valid_sha256 (ar_id r) \<and> valid_sha256 (ar_log r) \<and>
     (if ar_records r = 0 then ar_checkpoint r = [] \<and> ar_root r = []
      else valid_sha256 (ar_checkpoint r) \<and> valid_sha256 (ar_root r)) \<and>
     ar_anchors r + ar_observations r = ar_records r \<and> ar_id r = transparency_log_audit_report_identity r"

definition audit :: "ed25519 \<Rightarrow> transparency_log \<Rightarrow> audit_report result" where
  "audit c l =
     (if \<not> log_valid c l then failure CorruptData ''transparency log failed complete audit'' []
      else (let anchors = length (filter (\<lambda>r. lf_kind (rc_leaf r) = DeploymentAnchor) (tl_records l));
                r = \<lparr>ar_id = [], ar_log = ti_id (tl_identity l), ar_checkpoint = tl_checkpoint_id l,
                     ar_root = tl_root_hash l, ar_records = length (tl_records l), ar_anchors = anchors,
                     ar_observations = length (filter (\<lambda>r. lf_kind (rc_leaf r) \<noteq> DeploymentAnchor) (tl_records l))\<rparr>;
                r = r\<lparr>ar_id := transparency_log_audit_report_identity r\<rparr>
            in if \<not> audit_report_valid r
               then failure InternalError ''constructed transparency audit report is invalid'' []
               else Inr r))"

end
