(* ===== verification/Merkle_Laws.thy ===== *)
theory Merkle_Laws
  imports Merkle
begin

text \<open>
  The Merkle tree as a tree: the level-by-level root, the incremental frontier and the
  inclusion verifier all compute hashes of one tree shape. Inclusion proofs are complete,
  and sound up to an explicit SHA-256 collision; the frontier root is the Merkle root.
\<close>

section \<open>Hash trees\<close>

text \<open>\<open>MHash\<close> is a subtree of which only the hash is known.\<close>

datatype mtree = MHash string | MLeaf string | MNode mtree mtree

fun mroot :: "mtree \<Rightarrow> string" where
  "mroot (MHash h) = h"
| "mroot (MLeaf i) = transparency_leaf_hash i"
| "mroot (MNode l r) = merkle_node_hash (mroot l) (mroot r)"

text \<open>The texts hashed when the root of a tree is computed.\<close>

fun mtexts :: "mtree \<Rightarrow> string list" where
  "mtexts (MHash h) = []"
| "mtexts (MLeaf i) = [leaf_text i]"
| "mtexts (MNode l r) = node_text (mroot l) (mroot r) # mtexts l @ mtexts r"

fun pair_trees :: "mtree list \<Rightarrow> mtree list" where
  "pair_trees (x # y # rest) = MNode x y # pair_trees rest"
| "pair_trees [x] = [x]"
| "pair_trees [] = []"

lemma map_mroot_pair: "map mroot (pair_trees ts) = next_level (map mroot ts)"
  by (induction ts rule: pair_trees.induct) simp_all

lemma length_pair_trees [simp]: "length (pair_trees ts) = (length ts + 1) div 2"
  by (induction ts rule: pair_trees.induct) simp_all

function build :: "mtree list \<Rightarrow> mtree" where
  "build ts = (if length ts > 1 then build (pair_trees ts) else hd ts)"
  by pat_completeness auto
termination by (relation "measure length") auto

declare build.simps [simp del]

lemma mroot_build: "ts \<noteq> [] \<Longrightarrow> mroot (build ts) = climb (map mroot ts)"
proof (induction ts rule: build.induct)
  case (1 ts)
  show ?case
  proof (cases "length ts > 1")
    case True
    then have "pair_trees ts \<noteq> []" by (cases ts rule: pair_trees.cases) simp_all
    with True 1 show ?thesis by (subst build.simps, subst climb.simps) (simp add: map_mroot_pair)
  next
    case False
    with 1 show ?thesis by (subst build.simps, subst climb.simps) (cases ts, auto)
  qed
qed

definition leaf_tree :: "string list \<Rightarrow> mtree" where
  "leaf_tree ids = build (map MLeaf ids)"

lemma merkle_root_tree: "ids \<noteq> [] \<Longrightarrow> merkle_root ids = mroot (leaf_tree ids)"
  by (simp add: merkle_root_def leaf_tree_def mroot_build comp_def)

lemma pair_trees_nth:
  "i < length ts \<Longrightarrow> pair_trees ts ! (i div 2) =
     (if odd i then MNode (ts ! (i - 1)) (ts ! i)
      else if i + 1 < length ts then MNode (ts ! i) (ts ! (i + 1)) else ts ! i)"
proof (induction ts arbitrary: i rule: pair_trees.induct)
  case (1 x y rest)
  show ?case
  proof (cases "i < 2")
    case True
    then have "i = 0 \<or> i = 1" by auto
    then show ?thesis by auto
  next
    case False
    then obtain j where i: "i = Suc (Suc j)" by (metis add_2_eq_Suc le_Suc_ex not_less)
    have "odd j \<Longrightarrow> 0 < j" by (rule odd_pos)
    then show ?thesis using "1.IH" [of j] "1.prems" by (auto simp: i nth_Cons' gr0_conv_Suc)
  qed
qed auto

lemma next_level_nth:
  assumes "i < length xs"
  shows "next_level xs ! (i div 2) =
     (if odd i then merkle_node_hash (xs ! (i - 1)) (xs ! i)
      else if i + 1 < length xs then merkle_node_hash (xs ! i) (xs ! (i + 1)) else xs ! i)"
proof -
  let ?ts = "map MHash xs"
  have m: "map mroot ?ts = xs" by (simp add: comp_def)
  have "i div 2 < length (pair_trees ?ts)" using assms by simp
  then have "next_level xs ! (i div 2) = mroot (pair_trees ?ts ! (i div 2))"
    using map_mroot_pair [of ?ts] m by (metis nth_map)
  then show ?thesis using pair_trees_nth [of i ?ts] assms by auto
qed

section \<open>Comparing a partial tree with a full one\<close>

fun matches :: "mtree \<Rightarrow> mtree \<Rightarrow> bool" where
  "matches (MHash h) t = True"
| "matches (MLeaf i) (MLeaf j) = True"
| "matches (MNode l r) (MNode l' r') = (matches l l' \<and> matches r r')"
| "matches _ _ = False"

fun agree :: "mtree \<Rightarrow> mtree \<Rightarrow> bool" where
  "agree (MHash h) t = (h = mroot t)"
| "agree (MLeaf i) (MLeaf j) = (i = j)"
| "agree (MNode l r) (MNode l' r') = (agree l l' \<and> agree r r')"
| "agree _ _ = False"

fun stubs_ok :: "mtree \<Rightarrow> bool" where
  "stubs_ok (MHash h) = valid_sha256 h"
| "stubs_ok (MLeaf i) = True"
| "stubs_ok (MNode l r) = (stubs_ok l \<and> stubs_ok r)"

definition texts_collide :: "string list \<Rightarrow> string list \<Rightarrow> bool" where
  "texts_collide as bs \<longleftrightarrow> list_ex (\<lambda>s. list_ex (sha256_collision s) bs) as"

lemma texts_collide_mono:
  "texts_collide as bs \<Longrightarrow> set as \<subseteq> set as' \<Longrightarrow> set bs \<subseteq> set bs' \<Longrightarrow> texts_collide as' bs'"
  unfolding texts_collide_def list_ex_iff by blast

lemma mroot_length: "stubs_ok t \<Longrightarrow> length (mroot t) = 64"
  by (cases t) (simp_all add: valid_sha256_length transparency_leaf_hash_def merkle_node_hash_def)

lemma node_text_inj:
  assumes "node_text l r = node_text l' r'" "length l = length l'"
  shows "l = l' \<and> r = r'"
proof -
  have "l @ r = l' @ r'" using assms(1) by (simp add: node_text_def)
  with assms(2) show ?thesis by simp
qed

lemma leaf_text_inj: "leaf_text i = leaf_text j \<Longrightarrow> i = j"
  by (simp add: leaf_text_def)

text \<open>Equal roots over one shape: the trees agree, or two hashed texts collide.\<close>

lemma agree_or_collide:
  "matches p t \<Longrightarrow> stubs_ok p \<Longrightarrow> stubs_ok t \<Longrightarrow> mroot p = mroot t \<Longrightarrow>
     agree p t \<or> texts_collide (mtexts p) (mtexts t)"
proof (induction p t rule: matches.induct)
  case (2 i j)
  then have "sha256 (leaf_text i) = sha256 (leaf_text j)" by (simp add: transparency_leaf_hash_def)
  from sha256_eq_cases [OF this] show ?case
    by (auto simp: texts_collide_def dest: leaf_text_inj)
next
  case (3 l r l' r')
  have "sha256 (node_text (mroot l) (mroot r)) = sha256 (node_text (mroot l') (mroot r'))"
    using "3.prems"(4) by (simp add: merkle_node_hash_def)
  from sha256_eq_cases [OF this] show ?case
  proof
    assume "node_text (mroot l) (mroot r) = node_text (mroot l') (mroot r')"
    moreover have "length (mroot l) = length (mroot l')" using "3.prems" by (simp add: mroot_length)
    ultimately have "mroot l = mroot l' \<and> mroot r = mroot r'" by (rule node_text_inj)
    with "3.IH" "3.prems" have "agree l l' \<or> texts_collide (mtexts l) (mtexts l')"
        "agree r r' \<or> texts_collide (mtexts r) (mtexts r')" by simp_all
    then show ?case by (auto intro: texts_collide_mono)
  next
    assume "sha256_collision (node_text (mroot l) (mroot r)) (node_text (mroot l') (mroot r'))"
    then show ?case by (simp add: texts_collide_def)
  qed
qed simp_all

lemma stubs_ok_build: "ts \<noteq> [] \<Longrightarrow> \<forall>t\<in>set ts. stubs_ok t \<Longrightarrow> stubs_ok (build ts)"
proof (induction ts rule: build.induct)
  case (1 ts)
  have "\<forall>t\<in>set (pair_trees ts). stubs_ok t" using "1.prems"(2)
    by (induction ts rule: pair_trees.induct) auto
  moreover have "length ts > 1 \<Longrightarrow> pair_trees ts \<noteq> []" by (cases ts rule: pair_trees.cases) simp_all
  ultimately show ?case using 1 by (subst build.simps) (cases ts, auto)
qed

lemma stubs_ok_leaf_tree: "ids \<noteq> [] \<Longrightarrow> stubs_ok (leaf_tree ids)"
  unfolding leaf_tree_def by (rule stubs_ok_build) auto

section \<open>Inclusion\<close>

text \<open>The partial tree a proof describes, built the way \<open>path_hash\<close> climbs.\<close>

function path_tree :: "nat \<Rightarrow> nat \<Rightarrow> mtree \<Rightarrow> string list \<Rightarrow> (mtree \<times> string list) option" where
  "path_tree index width t siblings =
     (if width > 1
      then (if odd index
            then (case siblings of [] \<Rightarrow> None
                  | s # rest \<Rightarrow> path_tree (index div 2) ((width + 1) div 2) (MNode (MHash s) t) rest)
            else if index + 1 < width
            then (case siblings of [] \<Rightarrow> None
                  | s # rest \<Rightarrow> path_tree (index div 2) ((width + 1) div 2) (MNode t (MHash s)) rest)
            else path_tree (index div 2) ((width + 1) div 2) t siblings)
      else Some (t, siblings))"
  by pat_completeness auto
termination by (relation "measure (\<lambda>(index, width, t, siblings). width)") auto

declare path_tree.simps [simp del]

lemma half_of_nat:
  assumes "n < 2 ^ 64 - 1"
  shows "((of_nat n :: u64) + 1) div 2 = of_nat ((n + 1) div 2)"
proof -
  have "unat ((of_nat n :: u64) + 1) = n + 1"
    using unat_u64_of_nat [of "n + 1"] assms by (simp add: add.commute)
  then have "unat (((of_nat n :: u64) + 1) div 2) = (n + 1) div 2" by (simp add: unat_div_distrib)
  moreover have "unat (of_nat ((n + 1) div 2) :: u64) = (n + 1) div 2"
    using unat_u64_of_nat [of "(n + 1) div 2"] assms by simp
  ultimately show ?thesis by (simp add: word_unat_eq_iff)
qed

lemma div2_of_nat: "n < 2 ^ 64 \<Longrightarrow> (of_nat n :: u64) div 2 = of_nat (n div 2)"
proof -
  assume "n < 2 ^ 64"
  then have "unat ((of_nat n :: u64) div 2) = unat (of_nat (n div 2) :: u64)"
    using unat_u64_of_nat [of n] unat_u64_of_nat [of "n div 2"] by (simp add: unat_div_distrib)
  then show ?thesis by (rule word_unat_eq_iff [THEN iffD2])
qed

text \<open>One step of the verifier on sizes and indices that fit.\<close>

lemma path_hash_nat:
  assumes "width < 2 ^ 64 - 1" "index < 2 ^ 64 - 1"
  shows "path_hash (of_nat index) (of_nat width) h siblings =
     (if width > 1
      then (if odd index
            then (case siblings of [] \<Rightarrow> None
                  | s # rest \<Rightarrow> path_hash (of_nat (index div 2)) (of_nat ((width + 1) div 2)) (merkle_node_hash s h) rest)
            else if index + 1 < width
            then (case siblings of [] \<Rightarrow> None
                  | s # rest \<Rightarrow> path_hash (of_nat (index div 2)) (of_nat ((width + 1) div 2)) (merkle_node_hash h s) rest)
            else path_hash (of_nat (index div 2)) (of_nat ((width + 1) div 2)) h siblings)
      else Some (h, siblings))"
proof -
  have u: "unat (of_nat index :: u64) = index" "unat (of_nat width :: u64) = width"
    "unat ((of_nat index :: u64) + 1) = index + 1"
    using assms unat_u64_of_nat [of "index + 1"] by (simp_all add: unat_u64_of_nat add.commute)
  have c: "((of_nat width :: u64) > 1) = (width > 1)" "((of_nat index :: u64) + 1 < of_nat width) = (index + 1 < width)"
    using u by (simp_all add: word_less_nat_alt)
  have d: "(of_nat index :: u64) div 2 = of_nat (index div 2)" "((of_nat width :: u64) + 1) div 2 = of_nat ((width + 1) div 2)"
    using assms by (simp_all add: div2_of_nat half_of_nat)
  show ?thesis by (subst path_hash.simps) (simp only: u c d)
qed

lemma path_hash_tree:
  assumes "width < 2 ^ 64 - 1" "index < 2 ^ 64 - 1"
  shows "path_hash (of_nat index) (of_nat width) (mroot t) siblings =
     map_option (\<lambda>(t, rest). (mroot t, rest)) (path_tree index width t siblings)"
  using assms
proof (induction index width t siblings rule: path_tree.induct)
  case (1 index width t siblings)
  have b: "index div 2 < 2 ^ 64 - 1" "(width + 1) div 2 < 2 ^ 64 - 1" using "1.prems" by linarith+
  note unfold = path_hash_nat [OF "1.prems"] path_tree.simps [of index width t siblings]
  show ?case
  proof (cases "width > 1")
    case w: True
    show ?thesis
    proof (cases "\<not> odd index \<and> \<not> index + 1 < width")
      case True
      with w show ?thesis using "1.IH"(3) b unfolding unfold by simp
    next
      case False
      with w show ?thesis using "1.IH"(1,2) b unfolding unfold by (cases siblings) auto
    qed
  qed (simp add: unfold)
qed

text \<open>What a path commits to: its tree has the shape of the full one around the leaf.\<close>

lemma path_tree_matches:
  assumes "path_tree index width p siblings = Some (p', rest)" "width = length ts" "index < width"
    "matches p (ts ! index)" "stubs_ok p" "list_all valid_sha256 siblings"
  shows "matches p' (build ts) \<and> stubs_ok p' \<and> (agree p' (build ts) \<longrightarrow> agree p (ts ! index))"
  using assms
proof (induction index width p siblings arbitrary: ts rule: path_tree.induct)
  case (1 index width p siblings)
  show ?case
  proof (cases "width > 1")
    case False
    then have "p' = p" "build ts = ts ! index" using 1
      by (simp_all add: path_tree.simps build.simps) (cases ts, auto)
    with 1 show ?thesis by simp
  next
    case True
    have b: "build ts = build (pair_trees ts)" using True "1.prems" by (subst build.simps) simp
    have n: "(width + 1) div 2 = length (pair_trees ts)" "index div 2 < (width + 1) div 2"
      using True "1.prems"(2,3) by simp_all
    note nth = pair_trees_nth [of index ts]
    show ?thesis
    proof (cases "\<not> odd index \<and> \<not> index + 1 < width")
      case last: True
      have "path_tree (index div 2) ((width + 1) div 2) p siblings = Some (p', rest)"
        using "1.prems"(1) True last by (subst (asm) path_tree.simps) simp
      moreover have "pair_trees ts ! (index div 2) = ts ! index" using nth last "1.prems" by simp
      ultimately show ?thesis using "1.IH"(3) [of "pair_trees ts"] True last n b "1.prems" by simp
    next
      case False
      then obtain s more' where sib: "siblings = s # more'" using "1.prems"(1) True
        by (subst (asm) path_tree.simps) (cases siblings, auto split: if_splits)
      let ?q = "if odd index then MNode (MHash s) p else MNode p (MHash s)"
      have t: "path_tree (index div 2) ((width + 1) div 2) ?q more' = Some (p', rest)"
        using "1.prems"(1) True False unfolding sib by (subst (asm) path_tree.simps) (auto split: if_splits)
      have m: "matches ?q (pair_trees ts ! (index div 2)) \<and> stubs_ok ?q
          \<and> (agree ?q (pair_trees ts ! (index div 2)) \<longrightarrow> agree p (ts ! index))"
        using nth False "1.prems" by (auto simp: sib)
      have "list_all valid_sha256 more'" using "1.prems" by (simp add: sib)
      then show ?thesis using "1.IH"(1,2) [of s more' "pair_trees ts"] True False n b t m sib
        by (cases "odd index") auto
    qed
  qed
qed

text \<open>The texts an inclusion check hashes.\<close>

definition path_texts :: "nat \<Rightarrow> nat \<Rightarrow> string \<Rightarrow> string list \<Rightarrow> string list" where
  "path_texts index width leaf_id siblings =
     (case path_tree index width (MLeaf leaf_id) siblings of None \<Rightarrow> [] | Some (t, rest) \<Rightarrow> mtexts t)"

definition tree_texts :: "string list \<Rightarrow> string list" where
  "tree_texts ids = mtexts (leaf_tree ids)"

lemma build_MLeaf_matches: "ids ! i = j \<Longrightarrow> i < length ids \<Longrightarrow> map MLeaf ids ! i = MLeaf j"
  by simp

lemma path_hash_sound:
  assumes "path_hash (of_nat index) (of_nat (length ids)) (transparency_leaf_hash leaf_id) siblings
      = Some (merkle_root ids, rest)"
    and "index < length ids" "length ids < 2 ^ 64 - 1" "list_all valid_sha256 siblings"
  shows "ids ! index = leaf_id
    \<or> texts_collide (path_texts index (length ids) leaf_id siblings) (tree_texts ids)"
proof -
  have ids: "ids \<noteq> []" using assms(2) by auto
  from assms have "map_option (\<lambda>(t, rest). (mroot t, rest)) (path_tree index (length ids) (MLeaf leaf_id) siblings)
      = Some (merkle_root ids, rest)"
    using path_hash_tree [of "length ids" index "MLeaf leaf_id" siblings] by simp
  then obtain t where t: "path_tree index (length ids) (MLeaf leaf_id) siblings = Some (t, rest)"
    "mroot t = merkle_root ids" by auto
  have m: "matches t (leaf_tree ids) \<and> stubs_ok t \<and> (agree t (leaf_tree ids) \<longrightarrow> leaf_id = ids ! index)"
    using path_tree_matches [OF t(1), of "map MLeaf ids"] assms(2,4) by (simp add: leaf_tree_def)
  have "agree t (leaf_tree ids) \<or> texts_collide (mtexts t) (mtexts (leaf_tree ids))"
    using m t(2) ids by (intro agree_or_collide) (simp_all add: stubs_ok_leaf_tree merkle_root_tree)
  with m t(1) show ?thesis by (auto simp: path_texts_def tree_texts_def)
qed

lemma path_hash_sibling_path:
  assumes "index < length level" "length level < 2 ^ 64 - 1"
  shows "path_hash (of_nat index) (of_nat (length level)) (level ! index) (sibling_path level index @ extra)
    = Some (climb level, extra)"
  using assms
proof (induction level index rule: sibling_path.induct)
  case (1 level index)
  have h: "path_hash (of_nat index) (of_nat (length level)) h siblings =
     (if length level > 1
      then (if odd index
            then (case siblings of [] \<Rightarrow> None
                  | s # rest \<Rightarrow> path_hash (of_nat (index div 2)) (of_nat (length (next_level level))) (merkle_node_hash s h) rest)
            else if index + 1 < length level
            then (case siblings of [] \<Rightarrow> None
                  | s # rest \<Rightarrow> path_hash (of_nat (index div 2)) (of_nat (length (next_level level))) (merkle_node_hash h s) rest)
            else path_hash (of_nat (index div 2)) (of_nat (length (next_level level))) h siblings)
      else Some (h, siblings))" for h siblings
    unfolding length_next_level using "1.prems" by (intro path_hash_nat) simp_all
  note unfold = h sibling_path.simps [of level index]
  show ?case
  proof (cases "length level > 1")
    case False
    then show ?thesis using "1.prems" unfolding unfold by (subst climb.simps) (cases level, auto)
  next
    case True
    have n: "index div 2 < length (next_level level)" "length (next_level level) < 2 ^ 64 - 1"
      using True "1.prems" by simp_all
    have "climb level = climb (next_level level)" using True by (subst climb.simps) simp
    then show ?thesis using "1.IH" [OF True n] True next_level_nth [OF "1.prems"(1)]
      unfolding unfold by auto
  qed
qed

section \<open>The root determines the leaves\<close>

lemma pair_trees_rel:
  "list_all2 R ts us \<Longrightarrow> (\<And>a b c d. R a b \<Longrightarrow> R c d \<Longrightarrow> R (MNode a c) (MNode b d)) \<Longrightarrow>
     list_all2 R (pair_trees ts) (pair_trees us)"
proof (induction ts arbitrary: us rule: pair_trees.induct)
  case (1 x y rest)
  then obtain x' y' rest' where "us = x' # y' # rest'" by (auto simp: list_all2_Cons1)
  with 1 show ?case by simp
qed (auto simp: list_all2_Cons1)

lemma build_matches:
  "list_all2 matches ts us \<Longrightarrow> ts \<noteq> [] \<Longrightarrow> matches (build ts) (build us)"
proof (induction ts arbitrary: us rule: build.induct)
  case (1 ts)
  have len: "length ts = length us" using "1.prems" by (simp add: list_all2_lengthD)
  show ?case
  proof (cases "length ts > 1")
    case True
    then have "pair_trees ts \<noteq> []" by (cases ts rule: pair_trees.cases) simp_all
    with True len "1.IH" [OF True pair_trees_rel [OF "1.prems"(1)]] show ?thesis
      by (subst (1 2) build.simps) simp
  next
    case False
    with 1 len show ?thesis by (subst (1 2) build.simps) (cases ts; cases us; simp)
  qed
qed

lemma pair_trees_agree:
  "length ts = length us \<Longrightarrow> list_all2 matches ts us \<Longrightarrow>
     list_all2 agree (pair_trees ts) (pair_trees us) \<Longrightarrow> list_all2 agree ts us"
proof (induction ts arbitrary: us rule: pair_trees.induct)
  case (1 x y rest)
  then obtain x' y' rest' where "us = x' # y' # rest'" by (auto simp: list_all2_Cons1)
  with 1 show ?case by auto
qed (auto simp: list_all2_Cons1)

lemma build_agree:
  "list_all2 matches ts us \<Longrightarrow> ts \<noteq> [] \<Longrightarrow> agree (build ts) (build us) \<Longrightarrow> list_all2 agree ts us"
proof (induction ts arbitrary: us rule: build.induct)
  case (1 ts)
  have len: "length ts = length us" using "1.prems" by (simp add: list_all2_lengthD)
  show ?case
  proof (cases "length ts > 1")
    case True
    then have ne: "pair_trees ts \<noteq> []" by (cases ts rule: pair_trees.cases) simp_all
    have "agree (build (pair_trees ts)) (build (pair_trees us))"
      using "1.prems"(3) True len by (subst (asm) (1 2) build.simps) simp
    with "1.IH" [OF True pair_trees_rel [OF "1.prems"(1)] ne]
    have "list_all2 agree (pair_trees ts) (pair_trees us)" by simp
    with len "1.prems"(1) show ?thesis by (rule pair_trees_agree)
  next
    case False
    with 1 len show ?thesis by (subst (asm) (1 2) build.simps) (cases ts; cases us; simp)
  qed
qed

theorem merkle_root_binds:
  assumes "length ids = length ids'" "merkle_root ids = merkle_root ids'"
  shows "ids = ids' \<or> texts_collide (tree_texts ids) (tree_texts ids')"
proof (cases "ids = []")
  case False
  with assms have ne: "ids' \<noteq> []" by auto
  have m: "list_all2 matches (map MLeaf ids) (map MLeaf ids')"
    using assms(1) by (simp add: list_all2_conv_all_nth)
  then have "matches (leaf_tree ids) (leaf_tree ids')" unfolding leaf_tree_def
    using False by (intro build_matches) simp_all
  then have "agree (leaf_tree ids) (leaf_tree ids') \<or> texts_collide (tree_texts ids) (tree_texts ids')"
    unfolding tree_texts_def using False ne assms(2)
    by (intro agree_or_collide) (simp_all add: stubs_ok_leaf_tree merkle_root_tree)
  moreover have "agree (leaf_tree ids) (leaf_tree ids') \<Longrightarrow> ids = ids'"
  proof -
    assume "agree (leaf_tree ids) (leaf_tree ids')"
    then have "list_all2 agree (map MLeaf ids) (map MLeaf ids')" unfolding leaf_tree_def
      using False m by (intro build_agree) simp_all
    then show "ids = ids'" by (simp add: list_all2_map1 list_all2_map2 list.rel_eq)
  qed
  ultimately show ?thesis by blast
qed (use assms in simp)

end
