(* ===== verification/Frontier_Laws.thy ===== *)
theory Frontier_Laws
  imports Merkle_Laws
begin

text \<open>
  The frontier as binary digits: slot \<open>k\<close> holds the hash of the complete subtree of \<open>2 ^ k\<close>
  leaves where the tree size has that digit. Appending a leaf, or an aligned complete
  subtree, is binary addition with carries, and the fold over the slots is the root computed
  level by level.
\<close>

section \<open>Complete pairs\<close>

fun pairs :: "string list \<Rightarrow> string list" where
  "pairs (x # y # rest) = merkle_node_hash x y # pairs rest"
| "pairs [x] = []"
| "pairs [] = []"

lemma length_pairs [simp]: "length (pairs xs) = length xs div 2"
  by (induction xs rule: pairs.induct) simp_all

lemma next_level_pairs: "next_level xs = pairs xs @ (if odd (length xs) then [last xs] else [])"
  by (induction xs rule: pairs.induct) auto

lemma pairs_append: "even (length xs) \<Longrightarrow> pairs (xs @ ys) = pairs xs @ pairs ys"
  by (induction xs rule: pairs.induct) auto

lemma pairs_snoc_odd:
  "odd (length xs) \<Longrightarrow> pairs (xs @ [y]) = pairs xs @ [merkle_node_hash (last xs) y]"
  by (induction xs rule: pairs.induct) auto

lemma pairs_snoc_even: "even (length xs) \<Longrightarrow> pairs (xs @ [y]) = pairs xs"
  by (simp add: pairs_append)

lemma node_hash_nonempty [simp]: "merkle_node_hash l r \<noteq> []" "[] \<noteq> merkle_node_hash l r"
proof -
  have "length (merkle_node_hash l r) = 64" by (simp add: merkle_node_hash_def)
  then show "merkle_node_hash l r \<noteq> []" "[] \<noteq> merkle_node_hash l r" by auto
qed

lemma leaf_hash_nonempty [simp]: "transparency_leaf_hash i \<noteq> []"
proof -
  have "length (transparency_leaf_hash i) = 64" by (simp add: transparency_leaf_hash_def)
  then show ?thesis by auto
qed

lemma pairs_nonempty: "[] \<notin> set (pairs xs)"
  by (induction xs rule: pairs.induct) auto

section \<open>Frontier slots\<close>

function slots :: "string list \<Rightarrow> string list" where
  "slots hs = (if hs = [] then [] else (if odd (length hs) then last hs else []) # slots (pairs hs))"
  by pat_completeness auto
termination by (relation "measure length") auto

declare slots.simps [simp del]

lemma slots_Nil [simp]: "slots [] = []"
  by (simp add: slots.simps)

lemma slots_Cons: "hs \<noteq> [] \<Longrightarrow> slots hs = (if odd (length hs) then last hs else []) # slots (pairs hs)"
  by (subst slots.simps) simp

lemma length_slots: "length hs < 2 ^ m \<Longrightarrow> length (slots hs) \<le> m"
proof (induction hs arbitrary: m rule: slots.induct)
  case (1 hs)
  show ?case
  proof (cases "hs = []")
    case False
    with 1 obtain m' where m: "m = Suc m'" by (cases m) auto
    with "1.prems" have "length (pairs hs) < 2 ^ m'" by simp
    with 1 False m show ?thesis by (simp add: slots_Cons)
  qed simp
qed

lemma climb_next_level: "hs \<noteq> [] \<Longrightarrow> climb (next_level hs) = climb hs"
proof (cases "length hs > 1")
  case True
  then show ?thesis by (subst (2) climb.simps) simp
next
  case False
  assume "hs \<noteq> []"
  with False show ?thesis by (cases hs) auto
qed

lemma absorb_slots:
  assumes "[] \<notin> set hs" "hs \<noteq> [] \<or> acc \<noteq> []"
  shows "foldl absorb_subtree acc (slots hs) = climb (hs @ (if acc = [] then [] else [acc]))"
  using assms
proof (induction hs arbitrary: acc rule: slots.induct)
  case (1 hs)
  show ?case
  proof (cases "hs = []")
    case True
    with 1 show ?thesis by (simp add: climb.simps)
  next
    case False
    let ?acc = "absorb_subtree acc (if odd (length hs) then last hs else [])"
    let ?level = "hs @ (if acc = [] then [] else [acc])"
    have l: "last hs \<noteq> []" using False "1.prems"(1) by (metis last_in_set)
    have n: "next_level ?level = pairs hs @ (if ?acc = [] then [] else [?acc])"
      using l by (auto simp: next_level_pairs pairs_snoc_odd pairs_snoc_even absorb_subtree_def)
    have "pairs hs \<noteq> [] \<or> ?acc \<noteq> []"
    proof (cases "odd (length hs)")
      case True
      with l show ?thesis by (simp add: absorb_subtree_def)
    next
      case e: False
      have "pairs hs \<noteq> []" using False e by (cases hs rule: pairs.cases) auto
      then show ?thesis ..
    qed
    then have "foldl absorb_subtree ?acc (slots (pairs hs)) = climb (next_level ?level)"
      using "1.IH" [OF False pairs_nonempty] by (simp add: n)
    also have "\<dots> = climb ?level" using False by (intro climb_next_level) simp
    finally show ?thesis using False by (simp add: slots_Cons)
  qed
qed

definition frontier_of :: "string list \<Rightarrow> string list" where
  "frontier_of hs = slots hs @ replicate (64 - length (slots hs)) []"

lemma absorb_empty [simp]: "absorb_subtree root [] = root"
  by (simp add: absorb_subtree_def)

lemma absorb_replicate [simp]: "foldl absorb_subtree acc (replicate n []) = acc"
  by (induction n) simp_all

lemma frontier_of_Nil: "frontier_of [] = empty_frontier"
  by (simp add: frontier_of_def empty_frontier_def)

theorem frontier_root_climb:
  "[] \<notin> set hs \<Longrightarrow> hs \<noteq> [] \<Longrightarrow> frontier_root (frontier_of hs) = climb hs"
  by (simp add: frontier_root_def frontier_of_def absorb_slots)

lemma length_frontier_of: "length hs < 2 ^ 64 \<Longrightarrow> length (frontier_of hs) = 64"
  using length_slots [of hs 64] by (simp add: frontier_of_def)

section \<open>Carrying\<close>

lemma slots_snoc_even: "even (length hs) \<Longrightarrow> slots (hs @ [s]) = s # slots (pairs hs)"
  by (simp add: slots_Cons pairs_snoc_even)

lemma slots_snoc_odd:
  "odd (length hs) \<Longrightarrow> slots (hs @ [s]) = [] # slots (pairs hs @ [merkle_node_hash (last hs) s])"
  by (simp add: slots_Cons pairs_snoc_odd)

lemma carry_slots:
  assumes "[] \<notin> set hs" "length (slots (hs @ [s])) \<le> m" "length (slots hs) \<le> m"
  shows "carry (pre @ slots hs @ replicate (m - length (slots hs)) []) (length pre) s (length hs)
    = (let f = pre @ slots (hs @ [s]) @ replicate (m - length (slots (hs @ [s]))) [] in (frontier_root f, f))"
  using assms
proof (induction hs arbitrary: pre s m rule: slots.induct)
  case (1 hs)
  show ?case
  proof (cases "odd (length hs)")
    case True
    then have ne: "hs \<noteq> []" by auto
    have l: "last hs \<noteq> []" using ne "1.prems"(1) by (metis last_in_set)
    have hs: "slots hs = last hs # slots (pairs hs)" using ne True by (simp add: slots_Cons)
    have sn: "slots (hs @ [s]) = [] # slots (pairs hs @ [merkle_node_hash (last hs) s])"
      using True by (rule slots_snoc_odd)
    obtain m' where m: "m = Suc m'" using "1.prems"(3) hs by (cases m) auto
    have "carry (pre @ slots hs @ replicate (m - length (slots hs)) []) (length pre) s (length hs)
        = carry ((pre @ [[]]) @ slots (pairs hs) @ replicate (m' - length (slots (pairs hs))) []) (length (pre @ [[]]))
           (merkle_node_hash (last hs) s) (length (pairs hs))"
      using True l by (subst carry.simps) (simp add: hs m list_update_append nth_append)
    also have "\<dots> = (let f = (pre @ [[]]) @ slots (pairs hs @ [merkle_node_hash (last hs) s])
          @ replicate (m' - length (slots (pairs hs @ [merkle_node_hash (last hs) s]))) [] in (frontier_root f, f))"
      using "1.prems" by (intro "1.IH" [OF ne pairs_nonempty]) (simp_all add: hs sn m)
    finally show ?thesis by (simp add: sn m)
  next
    case False
    have sn: "slots (hs @ [s]) = s # slots (pairs hs)" using False by (intro slots_snoc_even) simp
    obtain m' where m: "m = Suc m'" using "1.prems"(2) sn by (cases m) auto
    show ?thesis
    proof (cases "hs = []")
      case True
      have "slots [s] = [s]" using sn True by simp
      with True show ?thesis
        by (subst carry.simps) (simp add: m list_update_append nth_append Let_def)
    next
      case ne: False
      then have hs: "slots hs = [] # slots (pairs hs)" using False by (simp add: slots_Cons)
      show ?thesis
        using False by (subst carry.simps) (simp add: sn hs m list_update_append nth_append Let_def)
    qed
  qed
qed

theorem append_leaf_frontier:
  assumes "valid_sha256 i" "length ids < 2 ^ 64 - 1"
  shows "append_merkle_leaf (frontier_of (map transparency_leaf_hash ids)) i (length ids)
    = (merkle_root (ids @ [i]), frontier_of (map transparency_leaf_hash (ids @ [i])))"
proof -
  let ?hs = "map transparency_leaf_hash ids" and ?s = "transparency_leaf_hash i"
  have ne: "[] \<notin> set ?hs" "[] \<notin> set (?hs @ [?s])" using leaf_hash_nonempty by (auto dest: sym)
  have v: "valid_sha256 ?s" by (simp add: transparency_leaf_hash_def)
  have len: "length (frontier_of ?hs) = 64" using assms by (intro length_frontier_of) simp
  have "carry (frontier_of ?hs) 0 ?s (length ids)
      = (frontier_root (frontier_of (?hs @ [?s])), frontier_of (?hs @ [?s]))"
    using carry_slots [of ?hs ?s 64 "[]"] length_slots [of ?hs 64] length_slots [of "?hs @ [?s]" 64] assms(2) ne
    by (simp add: frontier_of_def Let_def)
  then show ?thesis using assms len v ne frontier_root_climb [of "?hs @ [?s]"]
    by (simp add: append_merkle_leaf_def append_merkle_subtree_def merkle_root_def)
qed

end
