(* ===== verification/Transparency_Laws.thy ===== *)
theory Transparency_Laws
  imports Transparency_State Frontier_Laws
begin

text \<open>
  The laws of the transparency log: what an accepted checkpoint, record or log guarantees,
  the root of a valid log at every size, publication as an append-only step, and the quorum
  policy of runtime attestations.
\<close>

section \<open>Identities\<close>

lemma identity_text_tag: "identity_text domain j = (domain @ [CHR 0x0A]) @ canonical j"
  by (simp add: identity_text_def)

lemma with_id_simps [simp]:
  "with_id True i = [(''id'', JStr i)]" "with_id False i = []"
  "with_tag True t = [(''authentication_tag'', JStr t)]" "with_tag False t = []"
  by (simp_all add: with_id_def with_tag_def)

lemma storable_object: "list_all (\<lambda>(k, v). json_ok 63 v) kvs \<Longrightarrow> storable (json_object kvs)"
  using json_ok_object [of 63 kvs] by (simp add: storable_def)

lemma storable_checkpoint: "storable (transparency_checkpoint_json cp b t)"
  unfolding transparency_checkpoint_json_def
  by (rule storable_object) (cases b; cases t; simp)

lemma checkpoint_json_inj:
  assumes "transparency_checkpoint_json a False t = transparency_checkpoint_json b False t"
  shows "cp_algorithm a = cp_algorithm b" "cp_log a = cp_log b" "cp_previous a = cp_previous b"
    "cp_root a = cp_root b" "cp_key a = cp_key b" "cp_service a = cp_service b"
    "cp_schema a = cp_schema b" "cp_size a = cp_size b"
proof -
  note f = json_objectD [OF assms [unfolded transparency_checkpoint_json_def]]
  show "cp_algorithm a = cp_algorithm b" using f [of "''algorithm''"] by (simp add: json_int_inj)
  show "cp_log a = cp_log b" using f [of "''log_id''"] by simp
  show "cp_previous a = cp_previous b" using f [of "''previous_checkpoint_id''"] by simp
  show "cp_root a = cp_root b" using f [of "''root_hash''"] by simp
  show "cp_key a = cp_key b" using f [of "''signer_key_id''"] by simp
  show "cp_service a = cp_service b" using f [of "''signer_service_id''"] by simp
  show "cp_schema a = cp_schema b" using f [of "''storage_schema''"] by (simp add: to_string32_inj)
  show "cp_size a = cp_size b" using f [of "''tree_size''"] by (simp add: to_string_inj)
qed

interpretation checkpoint_identity:
  tagged_identity "''rbfsafe-transparency-log-checkpoint-identity-v1'' @ [CHR 0x0A]"
    transparency_log_checkpoint_identity "\<lambda>c. transparency_checkpoint_json c False True" "\<lambda>_. True"
  by unfold_locales
    (simp_all only: transparency_log_checkpoint_identity_def identity_text_tag storable_checkpoint)

text \<open>The texts whose digests are checkpoint identities.\<close>

definition checkpoint_text :: "checkpoint \<Rightarrow> string" where
  "checkpoint_text c = identity_text ''rbfsafe-transparency-log-checkpoint-identity-v1'' (transparency_checkpoint_json c False True)"

lemma checkpoint_id_binds:
  assumes "checkpoint_valid a" "checkpoint_valid b" "cp_id a = cp_id b"
  shows "cp_root a = cp_root b \<and> cp_size a = cp_size b \<and> cp_previous a = cp_previous b
    \<or> sha256_collision (checkpoint_text a) (checkpoint_text b)"
proof -
  have "transparency_log_checkpoint_identity a = transparency_log_checkpoint_identity b"
    using assms by (simp add: checkpoint_valid_def)
  from checkpoint_identity.tagged_binds [OF TrueI TrueI this]
  have "transparency_checkpoint_json a False True = transparency_checkpoint_json b False True
      \<or> sha256_collision (checkpoint_text a) (checkpoint_text b)"
    unfolding checkpoint_text_def identity_text_tag .
  then show ?thesis using checkpoint_json_inj(3,4,8) [of a True b] by argo
qed

section \<open>Replay\<close>

definition attest_count :: "log_record \<Rightarrow> nat" where
  "attest_count r = (case lf_observation (rc_leaf r) of None \<Rightarrow> 0 | Some s \<Rightarrow> length (as_attestations s))"

definition attest_fit :: "log_options \<Rightarrow> nat \<Rightarrow> log_record \<Rightarrow> bool" where
  "attest_fit opts total_before r \<longleftrightarrow>
     (lf_observation (rc_leaf r) \<noteq> None \<longrightarrow>
        attest_count r \<le> lo_maximum_per_observation opts \<and> total_before + attest_count r \<le> lo_maximum_total opts)"

lemma attest_limits:
  "\<not> (count > m \<or> n > k \<or> count > k - n) \<longleftrightarrow> count \<le> m \<and> n + count \<le> (k :: nat)"
  by auto

lemma has_value_unit: "has_value (r :: unit result) \<longleftrightarrow> r = Inr ()"
  by (cases r) simp_all

lemma replay_Cons:
  "replay_records c i opts n fr p q t (r # rs) = Some f \<longleftrightarrow>
     record_valid r \<and> rc_sequence r = of_nat n \<and> rc_parent r = p \<and> rc_log r = ti_id i \<and>
     cp_previous (rc_checkpoint r) = q \<and> verify_transparency_log_checkpoint c i (rc_checkpoint r) = Inr () \<and>
     attest_fit opts t r \<and>
     fst (append_merkle_leaf fr (lf_id (rc_leaf r)) n) \<noteq> [] \<and>
     cp_root (rc_checkpoint r) = fst (append_merkle_leaf fr (lf_id (rc_leaf r)) n) \<and>
     replay_records c i opts (n + 1) (snd (append_merkle_leaf fr (lf_id (rc_leaf r)) n)) (rc_id r)
       (cp_id (rc_checkpoint r)) (t + attest_count r) rs = Some f"
proof -
  obtain root' fr' where a: "append_merkle_leaf fr (lf_id (rc_leaf r)) n = (root', fr')" by fastforce
  show ?thesis
    unfolding replay_records.simps has_value_unit attest_fit_def attest_count_def a fst_conv snd_conv
    by (cases "lf_observation (rc_leaf r)") (auto simp: attest_limits Let_def)
qed

declare replay_records.simps(2) [simp del]

lemma replay_records_append:
  "replay_records c i opts n fr p q t (rs @ rs') = Some f \<longleftrightarrow>
     (\<exists>fr'. replay_records c i opts n fr p q t rs = Some fr' \<and>
        replay_records c i opts (n + length rs) fr' (if rs = [] then p else rc_id (last rs))
          (if rs = [] then q else cp_id (rc_checkpoint (last rs))) (t + sum_list (map attest_count rs)) rs' = Some f)"
proof (induction rs arbitrary: n fr p q t)
  case (Cons r rs)
  show ?case by (auto simp: replay_Cons Cons.IH add.assoc)
qed simp

lemma append_leaf_bound: "fst (append_merkle_leaf fr i n) \<noteq> [] \<Longrightarrow> valid_sha256 i \<and> n < 2 ^ 64 - 1"
  by (auto simp: append_merkle_leaf_def append_merkle_subtree_def Let_def split: if_splits)

abbreviation ids_of :: "log_record list \<Rightarrow> string list" where
  "ids_of rs \<equiv> map (\<lambda>r. lf_id (rc_leaf r)) rs"

abbreviation frontier_at :: "string list \<Rightarrow> string list" where
  "frontier_at ids \<equiv> frontier_of (map transparency_leaf_hash ids)"

text \<open>What the replay establishes of the record at position \<open>k\<close>.\<close>

definition record_at :: "ed25519 \<Rightarrow> log_identity \<Rightarrow> string list \<Rightarrow> log_record list \<Rightarrow> nat \<Rightarrow> bool" where
  "record_at c i ids rs k \<longleftrightarrow>
     record_valid (rs ! k) \<and> rc_sequence (rs ! k) = of_nat (length ids + k) \<and> rc_log (rs ! k) = ti_id i \<and>
     verify_transparency_log_checkpoint c i (rc_checkpoint (rs ! k)) = Inr () \<and>
     (0 < k \<longrightarrow> rc_parent (rs ! k) = rc_id (rs ! (k - 1)) \<and>
        cp_previous (rc_checkpoint (rs ! k)) = cp_id (rc_checkpoint (rs ! (k - 1)))) \<and>
     cp_root (rc_checkpoint (rs ! k)) = merkle_root (ids @ ids_of (take (Suc k) rs)) \<and>
     length ids + k < 2 ^ 64 - 1"

lemma replay_facts:
  assumes "replay_records c i opts (length ids) (frontier_at ids) p q t rs = Some f"
  shows "f = frontier_at (ids @ ids_of rs) \<and> (\<forall>k<length rs. record_at c i ids rs k)"
  using assms
proof (induction rs arbitrary: ids p q t)
  case (Cons r rs)
  let ?id = "lf_id (rc_leaf r)" and ?ids = "ids @ [lf_id (rc_leaf r)]"
  note c = Cons.prems [unfolded replay_Cons]
  have b: "valid_sha256 ?id" "length ids < 2 ^ 64 - 1" using append_leaf_bound c by blast+
  note app = append_leaf_frontier [OF b]
  have rest: "replay_records c i opts (length ?ids) (frontier_at ?ids) (rc_id r) (cp_id (rc_checkpoint r))
      (t + attest_count r) rs = Some f" using c app by simp
  note IH = Cons.IH [OF rest]
  have "record_at c i ids (r # rs) k" if "k < length (r # rs)" for k
  proof (cases k)
    case 0
    with c app b show ?thesis by (simp add: record_at_def)
  next
    case (Suc j)
    with that have "record_at c i ?ids rs j" using IH by simp
    moreover have "0 < j \<or> j = 0" by auto
    moreover have "j = 0 \<Longrightarrow> rc_parent (rs ! 0) = rc_id r \<and> cp_previous (rc_checkpoint (rs ! 0)) = cp_id (rc_checkpoint r)"
      using rest that Suc by (cases rs) (simp_all add: replay_Cons)
    ultimately show ?thesis using Suc by (auto simp: record_at_def nth_Cons')
  qed
  with IH show ?case by simp
qed simp

section \<open>What a valid log holds\<close>

text \<open>The frontier is a C++ array of 64 strings.\<close>

definition log_typed :: "transparency_log \<Rightarrow> bool" where
  "log_typed l \<longleftrightarrow> length (tl_frontier l) = 64"

lemma frontier_at_Nil: "frontier_at [] = empty_frontier"
  by (simp add: frontier_of_Nil)

lemma log_valid_facts:
  assumes "log_valid c l" "log_typed l"
  shows "tl_frontier l = frontier_at (leaf_ids l)" "tl_root_hash l = merkle_root (leaf_ids l)"
    "\<And>k. k < length (tl_records l) \<Longrightarrow> record_at c (tl_identity l) [] (tl_records l) k"
    "tl_checkpoint_id l = (if tl_records l = [] then [] else cp_id (rc_checkpoint (last (tl_records l))))"
    "log_identity_valid (tl_identity l)"
proof -
  let ?rs = "tl_records l"
  have "tl_frontier l = frontier_at (leaf_ids l) \<and> tl_root_hash l = merkle_root (leaf_ids l) \<and>
     (\<forall>k<length ?rs. record_at c (tl_identity l) [] ?rs k) \<and>
     tl_checkpoint_id l = (if ?rs = [] then [] else cp_id (rc_checkpoint (last ?rs)))"
  proof (cases "?rs = []")
    case True
    then have "\<forall>h\<in>set (tl_frontier l). h = []" "tl_root_hash l = []" "tl_checkpoint_id l = []"
      using assms(1) by (auto simp: log_valid_def list_all_iff split: if_splits)
    moreover from this(1) have "tl_frontier l = empty_frontier"
      using assms(2) by (auto simp: log_typed_def empty_frontier_def intro!: replicate_eqI)
    ultimately show ?thesis using True by (simp add: leaf_ids_def frontier_at_Nil merkle_root_def frontier_of_Nil)
  next
    case False
    then obtain f where f: "replay_records c (tl_identity l) (tl_options l) 0 empty_frontier [] [] 0 ?rs = Some f"
        "tl_checkpoint_id l = cp_id (rc_checkpoint (last ?rs))" "tl_root_hash l = cp_root (rc_checkpoint (last ?rs))"
        "tl_frontier l = f"
      using assms(1) by (auto simp: log_valid_def split: if_splits option.splits)
    have r: "f = frontier_at (ids_of ?rs) \<and> (\<forall>k<length ?rs. record_at c (tl_identity l) [] ?rs k)"
      using replay_facts [of c "tl_identity l" "tl_options l" "[]"] f(1) by (simp add: frontier_of_Nil)
    moreover have "cp_root (rc_checkpoint (last ?rs)) = merkle_root (ids_of ?rs)"
    proof -
      have "length ?rs - 1 < length ?rs" using False by simp
      then have "record_at c (tl_identity l) [] ?rs (length ?rs - 1)" using r by blast
      then show ?thesis using False by (simp add: record_at_def last_conv_nth)
    qed
    ultimately show ?thesis using f False by (simp add: leaf_ids_def)
  qed
  then show "tl_frontier l = frontier_at (leaf_ids l)" "tl_root_hash l = merkle_root (leaf_ids l)"
    "\<And>k. k < length (tl_records l) \<Longrightarrow> record_at c (tl_identity l) [] (tl_records l) k"
    "tl_checkpoint_id l = (if tl_records l = [] then [] else cp_id (rc_checkpoint (last (tl_records l))))"
    by blast+
  show "log_identity_valid (tl_identity l)" using assms(1) by (auto simp: log_valid_def split: if_splits)
qed

lemma leaf_ids_take: "ids_of (take n (tl_records l)) = take n (leaf_ids l)"
  by (simp add: leaf_ids_def take_map)

lemma record_checkpoint:
  assumes "log_valid c l" "log_typed l" "k < length (tl_records l)"
  shows "cp_root (rc_checkpoint (tl_records l ! k)) = merkle_root (take (Suc k) (leaf_ids l))"
    "unat (cp_size (rc_checkpoint (tl_records l ! k))) = Suc k"
    "checkpoint_valid (rc_checkpoint (tl_records l ! k))" "leaf_valid (rc_leaf (tl_records l ! k))"
    "lf_index (rc_leaf (tl_records l ! k)) = of_nat k"
    "lf_log (rc_leaf (tl_records l ! k)) = ti_id (tl_identity l)"
    "verify_transparency_log_checkpoint c (tl_identity l) (rc_checkpoint (tl_records l ! k)) = Inr ()"
    "Suc k < 2 ^ 64"
proof -
  let ?r = "tl_records l ! k"
  have r: "record_at c (tl_identity l) [] (tl_records l) k" using assms by (rule log_valid_facts)
  then show "cp_root (rc_checkpoint ?r) = merkle_root (take (Suc k) (leaf_ids l))"
    by (simp add: record_at_def leaf_ids_take)
  have k: "Suc k < 2 ^ 64" using r by (simp add: record_at_def)
  then show "Suc k < 2 ^ 64" .
  have "cp_size (rc_checkpoint ?r) = of_nat (Suc k)" using r by (simp add: record_at_def record_valid_def)
  then show "unat (cp_size (rc_checkpoint ?r)) = Suc k" using k by (simp only: unat_u64_of_nat)
  show "checkpoint_valid (rc_checkpoint ?r)" "leaf_valid (rc_leaf ?r)" "lf_index (rc_leaf ?r) = of_nat k"
    "lf_log (rc_leaf ?r) = ti_id (tl_identity l)"
    "verify_transparency_log_checkpoint c (tl_identity l) (rc_checkpoint ?r) = Inr ()"
    using r by (simp_all add: record_at_def record_valid_def)
qed

lemma log_length: "log_valid c l \<Longrightarrow> log_typed l \<Longrightarrow> length (tl_records l) < 2 ^ 64"
  using record_checkpoint(8) [of c l "length (tl_records l) - 1"] by (cases "tl_records l") auto

lemma length_leaf_ids [simp]: "length (leaf_ids l) = length (tl_records l)"
  by (simp add: leaf_ids_def)

section \<open>The head commits to the history\<close>

definition head_checkpoint :: "transparency_log \<Rightarrow> checkpoint" where
  "head_checkpoint l = rc_checkpoint (last (tl_records l))"

text \<open>The texts hashed under the head of a log: its checkpoint and its tree.\<close>

definition logs_collide :: "transparency_log \<Rightarrow> transparency_log \<Rightarrow> bool" where
  "logs_collide l l' \<longleftrightarrow> sha256_collision (checkpoint_text (head_checkpoint l)) (checkpoint_text (head_checkpoint l'))
     \<or> texts_collide (tree_texts (leaf_ids l)) (tree_texts (leaf_ids l'))"

lemma checkpoint_id_nonempty: "checkpoint_valid cp \<Longrightarrow> cp_id cp \<noteq> []"
  by (auto simp: checkpoint_valid_def)

lemma head_nonempty:
  assumes "log_valid c l" "log_typed l"
  shows "tl_checkpoint_id l = [] \<longleftrightarrow> tl_records l = []"
proof (cases "tl_records l = []")
  case False
  then have "length (tl_records l) - 1 < length (tl_records l)" by simp
  with record_checkpoint(3) [OF assms this] checkpoint_id_nonempty log_valid_facts(4) [OF assms] False
  show ?thesis by (simp add: last_conv_nth)
qed (simp add: log_valid_facts(4) [OF assms])

theorem head_binds:
  assumes "log_valid c l" "log_typed l" "log_valid c' l'" "log_typed l'"
    and eq: "tl_checkpoint_id l = tl_checkpoint_id l'"
  shows "leaf_ids l = leaf_ids l' \<or> logs_collide l l'"
proof (cases "tl_records l = []")
  case True
  then have "tl_records l' = []" using head_nonempty [OF assms(1,2)] head_nonempty [OF assms(3,4)] eq by simp
  with True show ?thesis by (simp add: leaf_ids_def)
next
  case False
  then have ne: "tl_records l' \<noteq> []" using head_nonempty [OF assms(1,2)] head_nonempty [OF assms(3,4)] eq by simp
  let ?n = "length (tl_records l) - 1" and ?n' = "length (tl_records l') - 1"
  have n: "?n < length (tl_records l)" "?n' < length (tl_records l')" using False ne by auto
  note r = record_checkpoint [OF assms(1,2) n(1)] and r' = record_checkpoint [OF assms(3,4) n(2)]
  have h: "head_checkpoint l = rc_checkpoint (tl_records l ! ?n)" "head_checkpoint l' = rc_checkpoint (tl_records l' ! ?n')"
    using False ne by (simp_all add: head_checkpoint_def last_conv_nth)
  have "cp_id (head_checkpoint l) = cp_id (head_checkpoint l')"
    using log_valid_facts(4) [OF assms(1,2)] log_valid_facts(4) [OF assms(3,4)] eq False ne
    by (simp add: head_checkpoint_def)
  with r(3) r'(3) have "cp_root (head_checkpoint l) = cp_root (head_checkpoint l') \<and>
      cp_size (head_checkpoint l) = cp_size (head_checkpoint l') \<or>
      sha256_collision (checkpoint_text (head_checkpoint l)) (checkpoint_text (head_checkpoint l'))"
    using checkpoint_id_binds [of "head_checkpoint l" "head_checkpoint l'"] unfolding h by argo
  then show ?thesis
  proof
    assume e: "cp_root (head_checkpoint l) = cp_root (head_checkpoint l') \<and>
      cp_size (head_checkpoint l) = cp_size (head_checkpoint l')"
    then have "Suc ?n = Suc ?n'" using r(2) r'(2) unfolding h by argo
    then have len: "length (leaf_ids l) = length (leaf_ids l')" using n by simp
    have "merkle_root (leaf_ids l) = merkle_root (leaf_ids l')"
      using e r(1) r'(1) n unfolding h by (simp add: leaf_ids_def)
    with merkle_root_binds [OF len] show ?thesis by (auto simp: logs_collide_def)
  qed (simp add: logs_collide_def)
qed

section \<open>Publication\<close>

lemma placed_leaf_simps [simp]:
  "lf_schema (placed_leaf i n leaf) = lf_schema leaf" "lf_index (placed_leaf i n leaf) = of_nat n"
  "lf_log (placed_leaf i n leaf) = ti_id i" "lf_kind (placed_leaf i n leaf) = lf_kind leaf"
  "lf_anchor (placed_leaf i n leaf) = lf_anchor leaf"
  "lf_observation (placed_leaf i n leaf) = lf_observation leaf"
  by (simp_all add: placed_leaf_def Let_def)

lemma make_record_simps [simp]:
  "rc_schema (make_record i p leaf cp) = 1" "rc_sequence (make_record i p leaf cp) = lf_index leaf"
  "rc_parent (make_record i p leaf cp) = p" "rc_log (make_record i p leaf cp) = ti_id i"
  "rc_leaf (make_record i p leaf cp) = leaf" "rc_checkpoint (make_record i p leaf cp) = cp"
  by (simp_all add: make_record_def Let_def)

lemma publish_leaf_cases:
  assumes "publish_leaf c lock fresh appended l leaf secret_key expected = Inr (l', r)"
  obtains f where "fresh = Inr f" "lock = Inr ()" "log_valid c l" "log_valid c l'"
    "tl_checkpoint_id f = tl_checkpoint_id l" "expected = tl_checkpoint_id l"
    "tl_records l' = tl_records f @ [r]" "record_valid r" "appended r = Inr ()"
    "lf_kind (rc_leaf r) = lf_kind leaf" "lf_anchor (rc_leaf r) = lf_anchor leaf"
    "lf_observation (rc_leaf r) = lf_observation leaf" "tl_identity l' = tl_identity f"
    "length (tl_records f) < lo_maximum_records (tl_options l)"
    "tl_frontier l' = snd (append_merkle_leaf (tl_frontier f) (lf_id (rc_leaf r)) (length (tl_records f)))"
proof -
  obtain f where f: "fresh = Inr f" "lock = Inr ()"
    using assms by (auto simp: publish_leaf_def rbind_eq_Inr split: if_splits)
  obtain root' fr' where a: "append_merkle_leaf (tl_frontier f)
     (lf_id (placed_leaf (tl_identity l) (length (tl_records f)) leaf)) (length (tl_records f)) = (root', fr')"
    by fastforce
  from assms show thesis
    by (intro that [of f]; insert a) (auto simp: publish_leaf_def f Let_def rbind_eq_Inr split: if_splits)
qed

text \<open>
  One publication, observed from the log object: the disk may hold another valid log with
  the same head, unless its history and the object's collide.
\<close>

inductive log_step :: "ed25519 \<Rightarrow> transparency_log \<Rightarrow> transparency_log \<Rightarrow> bool" for c where
  log_publish: "publish_leaf c lock (Inr f) appended l leaf secret_key expected = Inr (l', r) \<Longrightarrow>
     log_valid c f \<Longrightarrow> log_typed f \<Longrightarrow> leaf_ids f = leaf_ids l \<or> \<not> logs_collide l f \<Longrightarrow> log_step c l l'"

inductive_cases log_stepE: "log_step c l l'"

lemma length_carry [simp]: "length (snd (carry fr level subtree occupied)) = length fr"
proof (induction fr level subtree occupied rule: carry.induct)
  case (1 fr level subtree occupied)
  then show ?case by (subst carry.simps) auto
qed

lemma length_append_leaf [simp]: "length (snd (append_merkle_leaf fr i n)) = length fr"
  by (simp add: append_merkle_leaf_def append_merkle_subtree_def Let_def)

lemma log_step_facts:
  assumes "log_step c l l'" "log_valid c l" "log_typed l"
  shows "log_valid c l' \<and> log_typed l' \<and> (\<exists>i. leaf_ids l' = leaf_ids l @ [i])"
  using assms(1)
proof (rule log_stepE)
  fix lock f appended leaf secret_key expected r
  assume p: "publish_leaf c lock (Inr f) appended l leaf secret_key expected = Inr (l', r)"
    and f: "log_valid c f" "log_typed f" "leaf_ids f = leaf_ids l \<or> \<not> logs_collide l f"
  from p show ?thesis
  proof (rule publish_leaf_cases)
    fix g assume g: "Inr f = (Inr g :: transparency_log result)" "log_valid c l'"
      "tl_checkpoint_id g = tl_checkpoint_id l" "tl_records l' = tl_records g @ [r]"
      "tl_frontier l' = snd (append_merkle_leaf (tl_frontier g) (lf_id (rc_leaf r)) (length (tl_records g)))"
    have "leaf_ids l = leaf_ids f" using head_binds [OF assms(2,3) f(1,2)] f(3) g(1,3) by auto
    with g f(2) show ?thesis by (simp add: leaf_ids_def log_typed_def)
  qed
qed

interpretation published_log: append_only "log_step c" "\<lambda>l. log_valid c l \<and> log_typed l" leaf_ids for c
  by unfold_locales (use log_step_facts in blast)+

section \<open>The quorum policy\<close>

lemma check_sources_iff:
  "check_sources controller p services keys as = Inr () \<longleftrightarrow>
     distinct (map (\<lambda>a. (ra_service a, ra_key a)) as) \<and> set keys \<inter> set (map (\<lambda>a. (ra_service a, ra_key a)) as) = {} \<and>
     (rp_distinct p \<longrightarrow> distinct (map ra_service as) \<and> set services \<inter> set (map ra_service as) = {}) \<and>
     (rp_exclude_controller p \<longrightarrow> controller \<notin> set (map ra_service as))"
  by (induction as arbitrary: services keys) auto

theorem policy_iff:
  "validate_attestation_set_policy controller s = Inr () \<longleftrightarrow>
     unat (rp_minimum (as_policy s)) \<le> length (as_attestations s) \<and>
     distinct (map (\<lambda>a. (ra_service a, ra_key a)) (as_attestations s)) \<and>
     (rp_distinct (as_policy s) \<longrightarrow> distinct (map ra_service (as_attestations s))) \<and>
     (rp_exclude_controller (as_policy s) \<longrightarrow> controller \<notin> set (map ra_service (as_attestations s)))"
  by (auto simp: validate_attestation_set_policy_def check_sources_iff)

end
