(* ===== verification/Proof_Laws.thy ===== *)
theory Proof_Laws
  imports Transparency_Laws
begin

text \<open>
  Inclusion and consistency proofs: a valid log produces every proof it is asked for, and a
  proof that verifies against a checkpoint of a tree shows what it claims of that tree, or
  two distinct hashed texts with one digest.
\<close>

section \<open>Inclusion\<close>

lemma length_sibling_path: "length level \<le> 2 ^ m \<Longrightarrow> length (sibling_path level index) \<le> m"
proof (induction level index arbitrary: m rule: sibling_path.induct)
  case (1 level index)
  show ?case
  proof (cases "length level > 1")
    case True
    with "1.prems" obtain m' where m: "m = Suc m'" by (cases m) auto
    with "1.prems" have "length (next_level level) \<le> 2 ^ m'" by simp
    with "1.IH" True m show ?thesis by (subst sibling_path.simps) auto
  qed (simp add: sibling_path.simps)
qed

lemma valid_next_level: "\<forall>h\<in>set level. valid_sha256 h \<Longrightarrow> \<forall>h\<in>set (next_level level). valid_sha256 h"
  by (induction level rule: next_level.induct) (auto simp: merkle_node_hash_def)

lemma valid_sibling_path:
  "\<forall>h\<in>set level. valid_sha256 h \<Longrightarrow> index < length level \<Longrightarrow> list_all valid_sha256 (sibling_path level index)"
proof (induction level index rule: sibling_path.induct)
  case (1 level index)
  show ?case
  proof (cases "length level > 1")
    case True
    have "index div 2 < length (next_level level)" using "1.prems"(2) by simp
    with "1.IH" [OF True] valid_next_level [OF "1.prems"(1)] "1.prems" True show ?thesis
      by (subst sibling_path.simps) auto
  qed (simp add: sibling_path.simps)
qed

lemma valid_leaf_hash: "valid_sha256 (transparency_leaf_hash i)"
  by (simp add: transparency_leaf_hash_def)

lemma make_inclusion_proof_simps [simp]:
  "ip_schema (make_inclusion_proof l i) = 1" "ip_log (make_inclusion_proof l i) = ti_id (tl_identity l)"
  "ip_checkpoint (make_inclusion_proof l i) = tl_checkpoint_id l"
  "ip_leaf (make_inclusion_proof l i) = lf_id (rc_leaf (tl_records l ! unat i))"
  "ip_index (make_inclusion_proof l i) = i" "ip_size (make_inclusion_proof l i) = of_nat (length (tl_records l))"
  "ip_root (make_inclusion_proof l i) = tl_root_hash l"
  "ip_siblings (make_inclusion_proof l i) = sibling_path (map transparency_leaf_hash (leaf_ids l)) (unat i)"
  "transparency_inclusion_proof_identity (make_inclusion_proof l i) = ip_id (make_inclusion_proof l i)"
  by (simp_all add: make_inclusion_proof_def Let_def)
    (simp add: transparency_inclusion_proof_identity_def inclusion_proof_json_def)

lemma valid_inclusion_identity [simp]: "valid_sha256 (transparency_inclusion_proof_identity p)"
  by (simp add: transparency_inclusion_proof_identity_def)

lemma valid_ids:
  "log_identity_valid i \<Longrightarrow> valid_sha256 (ti_id i)" "leaf_valid lf \<Longrightarrow> valid_sha256 (lf_id lf)"
  "checkpoint_valid cp \<Longrightarrow> valid_sha256 (cp_id cp)" "checkpoint_valid cp \<Longrightarrow> valid_sha256 (cp_root cp)"
  by (simp_all add: log_identity_valid_def leaf_valid_def checkpoint_valid_def Let_def
      transparency_log_identity_value_def transparency_log_leaf_identity_def transparency_log_checkpoint_identity_def)

theorem inclusion_complete:
  assumes l: "log_valid c l" "log_typed l" and i: "unat i < length (tl_records l)"
    and size: "length (tl_records l) < 2 ^ 64 - 1"
  shows "log_inclusion_proof c l i = Inr (make_inclusion_proof l i)"
proof -
  let ?p = "make_inclusion_proof l i" and ?n = "length (tl_records l)" and ?hs = "map transparency_leaf_hash (leaf_ids l)"
  let ?cp = "rc_checkpoint (last (tl_records l))" and ?leaf = "rc_leaf (tl_records l ! unat i)"
  have ne: "tl_records l \<noteq> []" and last: "?n - 1 < ?n" using i by auto
  note head = record_checkpoint [OF l last, folded last_conv_nth [OF ne]]
  note leaf = record_checkpoint [OF l i]
  note facts = log_valid_facts [OF l]
  have n: "unat (of_nat ?n :: u64) = ?n" using size by (intro unat_u64_of_nat) simp
  have root: "tl_root_hash l = cp_root ?cp" using facts(2) head(1) ne by (simp add: leaf_ids_def)
  have csize: "cp_size ?cp = of_nat ?n" using head(2) ne n by (simp add: word_unat_eq_iff)
  have hash: "?hs ! unat i = transparency_leaf_hash (lf_id ?leaf)" using i by (simp add: leaf_ids_def)
  have "path_hash (of_nat (unat i)) (of_nat (length ?hs)) (?hs ! unat i) (sibling_path ?hs (unat i) @ []) = Some (climb ?hs, [])"
    using i size by (intro path_hash_sibling_path) simp_all
  moreover have "climb ?hs = cp_root ?cp"
    using facts(2) root ne by (simp add: merkle_root_def leaf_ids_def)
  ultimately have path: "path_hash i (of_nat ?n) (transparency_leaf_hash (lf_id ?leaf)) (sibling_path ?hs (unat i)) = Some (cp_root ?cp, [])"
    using hash by simp
  have len: "length (sibling_path ?hs (unat i)) \<le> 64" using size by (intro length_sibling_path) simp
  have sib: "list_all valid_sha256 (sibling_path ?hs (unat i))"
    using i by (intro valid_sibling_path) (auto simp: valid_leaf_hash)
  have size0: "(of_nat ?n :: u64) \<noteq> 0" "i < of_nat ?n"
    using n i by (auto simp: word_less_nat_alt word_unat_eq_iff)
  have pid: "valid_sha256 (ip_id ?p)" by (metis make_inclusion_proof_simps(9) valid_inclusion_identity)
  have "inclusion_proof_valid ?p"
    using head(3) leaf(4) facts(4,5) root len sib size0 pid ne
    by (simp add: inclusion_proof_valid_def valid_ids not_le)
  then have "verify_transparency_inclusion c (tl_identity l) ?cp ?leaf ?p = Inr ()"
    using head(3,7) leaf(4,5,6) facts(4,5) root csize path ne
    by (simp add: verify_transparency_inclusion_def)
  then show ?thesis using l i by (simp add: log_inclusion_proof_def Let_def)
qed

theorem inclusion_sound:
  assumes v: "verify_transparency_inclusion c i cp l p = Inr ()"
    and root: "cp_root cp = merkle_root ids" and size: "unat (cp_size cp) = length ids" "length ids < 2 ^ 64 - 1"
  shows "unat (lf_index l) < length ids \<and>
    (ids ! unat (lf_index l) = lf_id l
     \<or> texts_collide (path_texts (unat (lf_index l)) (length ids) (lf_id l) (ip_siblings p)) (tree_texts ids))"
proof -
  have ok: "inclusion_proof_valid p" "ip_index p = lf_index l" "ip_size p = cp_size cp"
    using v by (auto simp: verify_transparency_inclusion_def rbind_eq_Inr split: if_splits)
  have path: "path_hash (ip_index p) (ip_size p) (transparency_leaf_hash (lf_id l)) (ip_siblings p) = Some (cp_root cp, [])"
    using v by (auto simp: verify_transparency_inclusion_def rbind_eq_Inr split: if_splits option.splits prod.splits)
  have "lf_index l < cp_size cp" "list_all valid_sha256 (ip_siblings p)"
    using ok by (auto simp: inclusion_proof_valid_def split: if_splits)
  then have idx: "unat (lf_index l) < length ids" using size by (simp add: word_less_nat_alt)
  have sz: "cp_size cp = of_nat (length ids)"
    using size unat_u64_of_nat [of "length ids"] by (simp add: word_unat_eq_iff)
  have "path_hash (of_nat (unat (lf_index l))) (of_nat (length ids)) (transparency_leaf_hash (lf_id l)) (ip_siblings p)
      = Some (merkle_root ids, [])"
    using path ok root by (simp add: sz [symmetric])
  from path_hash_sound [OF this idx size(2)] idx \<open>list_all valid_sha256 (ip_siblings p)\<close> show ?thesis by simp
qed

section \<open>Consistency\<close>

lemma make_consistency_witness_simps [simp]:
  "cw_schema (make_consistency_witness l n) = 1" "cw_log (make_consistency_witness l n) = ti_id (tl_identity l)"
  "cw_old_checkpoint (make_consistency_witness l n) = cp_id (rc_checkpoint (tl_records l ! (unat n - 1)))"
  "cw_new_checkpoint (make_consistency_witness l n) = cp_id (rc_checkpoint (last (tl_records l)))"
  "cw_old_size (make_consistency_witness l n) = n"
  "cw_new_size (make_consistency_witness l n) = of_nat (length (tl_records l))"
  "cw_old_root (make_consistency_witness l n) = cp_root (rc_checkpoint (tl_records l ! (unat n - 1)))"
  "cw_new_root (make_consistency_witness l n) = cp_root (rc_checkpoint (last (tl_records l)))"
  "cw_leaves (make_consistency_witness l n) = leaf_ids l"
  "transparency_consistency_witness_identity (make_consistency_witness l n) = cw_id (make_consistency_witness l n)"
  by (simp_all add: make_consistency_witness_def Let_def)
    (simp add: transparency_consistency_witness_identity_def consistency_witness_json_def)

lemma valid_consistency_identity [simp]: "valid_sha256 (transparency_consistency_witness_identity p)"
  by (simp add: transparency_consistency_witness_identity_def)

lemma valid_leaf_ids:
  assumes "log_valid c l" "log_typed l"
  shows "list_all valid_sha256 (leaf_ids l)"
  using record_checkpoint(4) [OF assms]
  by (auto simp: leaf_ids_def list_all_iff in_set_conv_nth valid_ids)

theorem consistency_complete:
  assumes l: "log_valid c l" "log_typed l" and n: "0 < n" "unat n < length (tl_records l)"
  shows "log_consistency_witness c l n = Inr (make_consistency_witness l n)"
proof -
  let ?w = "make_consistency_witness l n" and ?m = "length (tl_records l)"
  let ?old = "rc_checkpoint (tl_records l ! (unat n - 1))" and ?new = "rc_checkpoint (last (tl_records l))"
  have n0: "0 < unat n" using n(1) by (simp add: word_less_nat_alt)
  have ne: "tl_records l \<noteq> []" and last: "?m - 1 < ?m" and old: "unat n - 1 < ?m" using n n0 by auto
  note head = record_checkpoint [OF l last, folded last_conv_nth [OF ne]]
  note oldr = record_checkpoint [OF l old]
  note facts = log_valid_facts [OF l]
  have m: "unat (of_nat ?m :: u64) = ?m" using log_length [OF l] by (rule unat_u64_of_nat)
  have sizes: "cp_size ?old = n" "cp_size ?new = of_nat ?m"
    using oldr(2) head(2) n0 ne m by (simp_all add: word_unat_eq_iff)
  have lt: "\<not> of_nat ?m \<le> n" "n \<noteq> 0" using n m by (auto simp: word_le_nat_alt)
  have roots: "cp_root ?old = merkle_root (take (unat n) (leaf_ids l))" "cp_root ?new = merkle_root (leaf_ids l)"
    using oldr(1) head(1) n0 ne by simp_all
  have wid: "valid_sha256 (cw_id ?w)" by (metis make_consistency_witness_simps(10) valid_consistency_identity)
  have "consistency_witness_valid ?w"
    using head(3) oldr(3) facts(5) wid lt valid_leaf_ids [OF l] m
    by (simp add: consistency_witness_valid_def valid_ids)
  then have "verify_transparency_consistency c (tl_identity l) ?old ?new ?w = Inr ()"
    using head(3,7) oldr(3,7) facts(5) sizes roots by (simp add: verify_transparency_consistency_def)
  then show ?thesis using l n lt by (simp add: log_consistency_witness_def Let_def)
qed

theorem consistency_sound:
  assumes v: "verify_transparency_consistency c i old new w = Inr ()"
    and root: "cp_root new = merkle_root ids" and size: "unat (cp_size new) = length ids"
  shows "unat (cp_size old) < length ids \<and>
    (cp_root old = merkle_root (take (unat (cp_size old)) ids)
     \<or> texts_collide (tree_texts (cw_leaves w)) (tree_texts ids))"
proof -
  have ok: "consistency_witness_valid w" "cw_old_size w = cp_size old" "cw_new_size w = cp_size new"
    "merkle_root (take (unat (cw_old_size w)) (cw_leaves w)) = cp_root old" "merkle_root (cw_leaves w) = cp_root new"
    using v by (auto simp: verify_transparency_consistency_def rbind_eq_Inr split: if_splits)
  then have len: "length (cw_leaves w) = length ids" "cp_size old < cp_size new"
    using size by (auto simp: consistency_witness_valid_def split: if_splits)
  have "cw_leaves w = ids \<or> texts_collide (tree_texts (cw_leaves w)) (tree_texts ids)"
    using len(1) ok(5) root by (intro merkle_root_binds) simp_all
  with ok(2,4) len(2) size show ?thesis by (auto simp: word_less_nat_alt)
qed

end
