(* ===== verification/Compact_Laws.thy ===== *)
theory Compact_Laws
  imports Proof_Laws
begin

text \<open>
  Compact consistency proofs: appending an aligned complete subtree to the frontier is
  appending its leaves, so a valid log can prove every earlier size to every verifier.
\<close>

section \<open>Aligned subtrees\<close>

lemma pairs_funpow_length: "length ((pairs ^^ k) hs) = length hs div 2 ^ k"
proof (induction k)
  case (Suc k)
  then show ?case by (simp add: div_mult2_eq [symmetric] mult.commute)
qed simp

lemma pairs_funpow_nonempty: "[] \<notin> set hs \<Longrightarrow> [] \<notin> set ((pairs ^^ k) hs)"
  by (cases k) (simp_all add: pairs_nonempty)

lemma dvd_half: "2 ^ Suc k dvd n \<Longrightarrow> even n \<and> 2 ^ k dvd n div (2 :: nat)"
  by (metis dvd_mult_left dvd_mult_div_cancel even_mult_iff dvd_triv_left nat_mult_dvd_cancel1 pos2 power_Suc)

lemma slots_aligned:
  "2 ^ k dvd length hs \<Longrightarrow> length (slots hs) \<le> m + k \<Longrightarrow>
     slots hs @ replicate (m + k - length (slots hs)) [] =
     replicate k [] @ slots ((pairs ^^ k) hs) @ replicate (m - length (slots ((pairs ^^ k) hs))) [] \<and>
     length (slots ((pairs ^^ k) hs)) \<le> m"
proof (induction k arbitrary: hs)
  case (Suc k)
  have e: "even (length hs)" "2 ^ k dvd length (pairs hs)" using dvd_half [OF Suc.prems(1)] by simp_all
  have swap: "(pairs ^^ Suc k) hs = (pairs ^^ k) (pairs hs)" by (simp add: funpow_swap1)
  show ?case
  proof (cases "hs = []")
    case True
    have "(pairs ^^ j) [] = []" for j by (induction j) simp_all
    with True show ?thesis by (simp add: replicate_add [symmetric] add.commute del: replicate.simps funpow.simps)
  next
    case False
    then have s: "slots hs = [] # slots (pairs hs)" using e by (simp add: slots_Cons)
    then have "length (slots (pairs hs)) \<le> m + k" using Suc.prems(2) by simp
    from Suc.IH [OF e(2) this] show ?thesis unfolding swap s by simp
  qed
qed simp

lemma pairs_funpow_block:
  "2 ^ k dvd length hs \<Longrightarrow> length bs = 2 ^ k \<Longrightarrow> (pairs ^^ k) (hs @ bs) = (pairs ^^ k) hs @ [climb bs]"
proof (induction k arbitrary: hs bs)
  case 0
  then obtain b where "bs = [b]" by (cases bs) auto
  then show ?case by (simp add: climb.simps)
next
  case (Suc k)
  have e: "even (length hs)" "2 ^ k dvd length (pairs hs)" using dvd_half [OF Suc.prems(1)] by simp_all
  have b: "length (pairs bs) = 2 ^ k" "bs \<noteq> []" "even (length bs)" using Suc.prems(2) by auto
  have "climb (pairs bs) = climb bs" using climb_next_level [OF b(2)] b(3) by (simp add: next_level_pairs)
  then show ?case using Suc.IH [OF e(2) b(1)] e(1)
    by (simp only: funpow_Suc_right o_apply pairs_append)
qed

theorem append_aligned:
  assumes hs: "[] \<notin> set hs" "[] \<notin> set bs" and k: "k < 64" "2 ^ k dvd length hs" "length bs = 2 ^ k"
    and v: "valid_sha256 (climb bs)" and size: "length hs + 2 ^ k < 2 ^ 64"
  shows "append_merkle_subtree (frontier_of hs) (climb bs) k (length hs) = (climb (hs @ bs), frontier_of (hs @ bs))"
proof -
  let ?hs = "(pairs ^^ k) hs" and ?m = "64 - k"
  have len: "length (slots hs) \<le> ?m + k" "length (slots (hs @ bs)) \<le> ?m + k"
    using length_slots [of hs 64] length_slots [of "hs @ bs" 64] size k by simp_all
  note a = slots_aligned [OF k(2) len(1)]
  have f: "frontier_of hs = replicate k [] @ slots ?hs @ replicate (?m - length (slots ?hs)) []"
    using a k by (simp add: frontier_of_def)
  have "2 ^ k dvd length (hs @ bs)" using k by simp
  note b = slots_aligned [OF this len(2), unfolded pairs_funpow_block [OF k(2,3)]]
  have f': "frontier_of (hs @ bs) = replicate k [] @ slots (?hs @ [climb bs]) @ replicate (?m - length (slots (?hs @ [climb bs]))) []"
    using b k by (simp add: frontier_of_def)
  have "carry (frontier_of hs) k (climb bs) (length hs div 2 ^ k) = (frontier_root (frontier_of (hs @ bs)), frontier_of (hs @ bs))"
    using carry_slots [of ?hs "climb bs" ?m "replicate k []"] pairs_funpow_nonempty [OF hs(1)] a b
    by (simp add: f f' pairs_funpow_length Let_def)
  moreover have "frontier_root (frontier_of (hs @ bs)) = climb (hs @ bs)"
    using hs k by (intro frontier_root_climb) auto
  moreover have "length (frontier_of hs) = 64" using size by (intro length_frontier_of) simp
  moreover have "length hs mod 2 ^ k = 0" using k(2) by simp
  moreover have "\<not> length hs > 2 ^ 64 - 1 - 2 ^ k" using size by linarith
  ultimately show ?thesis using v k(1)
    by (simp add: append_merkle_subtree_def Let_def del: One_nat_def)
qed

section \<open>The greedy cover\<close>

lemma grow_level_props:
  assumes "2 ^ lv \<le> remaining" "2 ^ lv dvd cursor" "lv \<le> 63"
  shows "let L = grow_level cursor remaining lv in
    2 ^ L \<le> remaining \<and> 2 ^ L dvd cursor \<and> lv \<le> L \<and> L \<le> 63 \<and>
    (L = 63 \<or> remaining < 2 ^ (L + 1) \<or> \<not> 2 ^ (L + 1) dvd cursor)"
  using assms
proof (induction cursor remaining lv rule: grow_level.induct)
  case (1 cursor remaining lv)
  show ?case
  proof (cases "lv < 63 \<and> \<not> (2 ^ (lv + 1) > remaining \<or> cursor mod 2 ^ (lv + 1) \<noteq> 0)")
    case True
    then have g: "grow_level cursor remaining lv = grow_level cursor remaining (lv + 1)"
      by (subst grow_level.simps) auto
    have "2 ^ (lv + 1) \<le> remaining" "2 ^ (lv + 1) dvd cursor" "lv + 1 \<le> 63" using True by auto
    with "1.IH" True show ?thesis unfolding g Let_def by fastforce
  next
    case False
    then have "grow_level cursor remaining lv = lv" by (subst grow_level.simps) auto
    with False "1.prems" show ?thesis by (auto simp: Let_def mod_eq_0_iff_dvd)
  qed
qed

lemma climb_valid: "\<forall>h\<in>set hs. valid_sha256 h \<Longrightarrow> hs \<noteq> [] \<Longrightarrow> valid_sha256 (climb hs)"
proof (induction hs rule: climb.induct)
  case (1 hs)
  show ?case
  proof (cases "length hs > 1")
    case True
    then have "next_level hs \<noteq> []" by (cases hs rule: next_level.cases) simp_all
    with 1 True valid_next_level show ?thesis by (subst climb.simps) simp
  next
    case False
    with 1 show ?thesis by (subst climb.simps) (cases hs, auto)
  qed
qed

lemma merkle_root_valid: "ids \<noteq> [] \<Longrightarrow> valid_sha256 (merkle_root ids)"
  by (auto simp: merkle_root_def valid_leaf_hash intro!: climb_valid)

lemma merkle_root_nonempty: "0 < length ids \<Longrightarrow> merkle_root ids \<noteq> []"
  using merkle_root_valid [of ids] by auto

lemma leaf_hashes_nonempty [simp]: "[] \<notin> transparency_leaf_hash ` A"
  using leaf_hash_nonempty by (metis imageE)

lemma append_block:
  assumes "k < 64" "2 ^ k dvd n" "n + 2 ^ k \<le> length ids" "length ids < 2 ^ 64"
  shows "append_merkle_subtree (frontier_at (take n ids)) (merkle_root (take (2 ^ k) (drop n ids))) k n
    = (merkle_root (take (n + 2 ^ k) ids), frontier_at (take (n + 2 ^ k) ids))"
proof -
  let ?b = "take (2 ^ k) (drop n ids)"
  have n: "n \<le> length ids" "length ?b = 2 ^ k" using assms by simp_all
  have pos: "(0 :: nat) < 2 ^ k" by simp
  have "n < length ids" using assms(3) pos by linarith
  then have ne: "?b \<noteq> []" "take (n + 2 ^ k) ids \<noteq> []" using pos by auto
  have split: "take n ids @ ?b = take (n + 2 ^ k) ids" by (simp add: take_add)
  have "valid_sha256 (climb (map transparency_leaf_hash ?b))"
    using merkle_root_valid [OF ne(1)] ne(1) by (simp add: merkle_root_def)
  then have "append_merkle_subtree (frontier_at (take n ids)) (climb (map transparency_leaf_hash ?b)) k
      (length (map transparency_leaf_hash (take n ids)))
    = (climb (map transparency_leaf_hash (take n ids) @ map transparency_leaf_hash ?b),
       frontier_of (map transparency_leaf_hash (take n ids) @ map transparency_leaf_hash ?b))"
    using assms n by (intro append_aligned) simp_all
  then show ?thesis using n ne by (simp only: map_append [symmetric] split) (simp add: merkle_root_def)
qed

text \<open>The cover the prover builds, without the frontier it checks against.\<close>

function cover_list :: "string list \<Rightarrow> nat \<Rightarrow> merkle_subtree list" where
  "cover_list ids cursor =
     (if cursor < length ids
      then (let level = grow_level cursor (length ids - cursor) 0
            in \<lparr>ms_level = of_nat level, ms_hash = merkle_root (take (2 ^ level) (drop cursor ids))\<rparr>
               # cover_list ids (cursor + 2 ^ level))
      else [])"
  by pat_completeness auto
termination by (relation "measure (\<lambda>(ids, cursor). length ids - cursor)") (auto intro: diff_less_mono2)

declare cover_list.simps [simp del]

abbreviation block_level :: "string list \<Rightarrow> nat \<Rightarrow> nat" where
  "block_level ids cursor \<equiv> grow_level cursor (length ids - cursor) 0"

lemma block_level_props:
  assumes "cursor < length ids"
  shows "cursor + 2 ^ block_level ids cursor \<le> length ids" "2 ^ block_level ids cursor dvd cursor"
    "block_level ids cursor \<le> 63"
    "block_level ids cursor = 63 \<or> length ids - cursor < 2 ^ (block_level ids cursor + 1) \<or>
       \<not> 2 ^ (block_level ids cursor + 1) dvd cursor"
proof -
  have "2 ^ 0 \<le> length ids - cursor" using assms by simp
  from grow_level_props [OF this, of cursor, unfolded Let_def]
  have p: "2 ^ block_level ids cursor \<le> length ids - cursor" "2 ^ block_level ids cursor dvd cursor"
    "block_level ids cursor \<le> 63"
    "block_level ids cursor = 63 \<or> length ids - cursor < 2 ^ (block_level ids cursor + 1) \<or>
       \<not> 2 ^ (block_level ids cursor + 1) dvd cursor" by simp_all
  show "cursor + 2 ^ block_level ids cursor \<le> length ids" using p(1) assms by linarith
  show "2 ^ block_level ids cursor dvd cursor" "block_level ids cursor \<le> 63"
    "block_level ids cursor = 63 \<or> length ids - cursor < 2 ^ (block_level ids cursor + 1) \<or>
       \<not> 2 ^ (block_level ids cursor + 1) dvd cursor" by (rule p)+
qed

lemma cover_cover_list:
  assumes "length ids < 2 ^ 64" "cursor \<le> length ids"
  shows "cover ids (frontier_at (take cursor ids)) cursor = Some (cover_list ids cursor)"
  using assms
proof (induction ids cursor rule: cover_list.induct)
  case (1 ids cursor)
  let ?k = "block_level ids cursor"
  show ?case
  proof (cases "cursor < length ids")
    case True
    note k = block_level_props [OF True]
    have "length (take (2 ^ ?k) (drop cursor ids)) > 0" "length (take (cursor + 2 ^ ?k) ids) > 0"
      using True by (simp, cases ids, simp_all)
    then have v: "merkle_root (take (2 ^ ?k) (drop cursor ids)) \<noteq> []" "merkle_root (take (cursor + 2 ^ ?k) ids) \<noteq> []"
      using merkle_root_nonempty by blast+
    have a: "append_merkle_subtree (frontier_at (take cursor ids)) (merkle_root (take (2 ^ ?k) (drop cursor ids))) ?k cursor
        = (merkle_root (take (cursor + 2 ^ ?k) ids), frontier_at (take (cursor + 2 ^ ?k) ids))"
      using k "1.prems" by (intro append_block) simp_all
    have "cover ids (frontier_at (take (cursor + 2 ^ ?k) ids)) (cursor + 2 ^ ?k) = Some (cover_list ids (cursor + 2 ^ ?k))"
      using True k "1.prems" by (intro "1.IH") simp_all
    then show ?thesis using True v a
      by (subst cover.simps, subst cover_list.simps) (simp add: Let_def)
  qed (simp add: cover.simps cover_list.simps)
qed

text \<open>At most 128 subtrees: levels rise with the alignment, then fall with what remains.\<close>

lemma cover_list_falling:
  "2 ^ a dvd cursor \<Longrightarrow> length ids - cursor < 2 ^ a \<Longrightarrow> length ids < 2 ^ 64 \<Longrightarrow>
     length (cover_list ids cursor) \<le> a"
proof (induction ids cursor arbitrary: a rule: cover_list.induct)
  case (1 ids cursor)
  let ?k = "block_level ids cursor"
  show ?case
  proof (cases "cursor < length ids")
    case True
    note k = block_level_props [OF True]
    have "(2 :: nat) ^ ?k < 2 ^ a" using k(1) "1.prems"(2) by linarith
    then have ka: "?k < a" by simp
    then have d: "2 ^ (?k + 1) dvd cursor" 
      using power_le_dvd [OF "1.prems"(1), of "?k + 1"] ka by simp
    have "?k = 63 \<Longrightarrow> length ids - cursor < 2 ^ (?k + 1)" using "1.prems"(3) by simp
    then have r: "length ids - cursor < 2 ^ (?k + 1)" using k(4) d by blast
    have "2 ^ ?k dvd cursor + 2 ^ ?k" "length ids - (cursor + 2 ^ ?k) < 2 ^ ?k" using k(2) r by simp_all
    then have "length (cover_list ids (cursor + 2 ^ ?k)) \<le> ?k" using True "1.prems"(3) "1.IH" by blast
    then show ?thesis using True ka by (subst cover_list.simps) (simp add: Let_def)
  qed (simp add: cover_list.simps)
qed

lemma cover_list_length:
  "2 ^ a dvd cursor \<Longrightarrow> a \<le> 64 \<Longrightarrow> length ids < 2 ^ 64 \<Longrightarrow> length (cover_list ids cursor) \<le> 128 - a"
proof (induction ids cursor arbitrary: a rule: cover_list.induct)
  case (1 ids cursor)
  let ?k = "block_level ids cursor" and ?rest = "cover_list ids (cursor + 2 ^ block_level ids cursor)"
  show ?case
  proof (cases "cursor < length ids")
    case True
    note k = block_level_props [OF True]
    have step: "length (cover_list ids cursor) = Suc (length ?rest)"
      using True by (subst cover_list.simps) (simp add: Let_def)
    show ?thesis
    proof (cases "length ids - cursor < 2 ^ (?k + 1)")
      case short: True
      have "2 ^ ?k dvd cursor + 2 ^ ?k" "length ids - (cursor + 2 ^ ?k) < 2 ^ ?k" using k(2) short by simp_all
      then have "length ?rest \<le> ?k" using "1.prems"(3) by (rule cover_list_falling)
      then show ?thesis using step k(3) "1.prems"(2) by linarith
    next
      case False
      then have "?k \<noteq> 63" using "1.prems"(3) by auto
      with False k(4) have odd: "\<not> 2 ^ (?k + 1) dvd cursor" by blast
      then have ak: "a \<le> ?k" 
        using power_le_dvd [OF "1.prems"(1), of "?k + 1"] by (cases "?k + 1 \<le> a") simp_all
      have "2 ^ (?k + 1) dvd cursor + 2 ^ ?k"
      proof -
        obtain q where q: "cursor = 2 ^ ?k * q" using k(2) by (rule dvdE)
        have "odd q"
        proof
          assume "even q"
          then have "2 ^ ?k * 2 dvd 2 ^ ?k * q" by (rule mult_dvd_mono [OF dvd_refl])
          moreover have "2 ^ ?k * 2 = (2 :: nat) ^ (?k + 1)" by simp
          ultimately show False using odd unfolding q [symmetric] by argo
        qed
        then have "even (q + 1)" by simp
        then have "2 ^ ?k * 2 dvd 2 ^ ?k * (q + 1)" by (rule mult_dvd_mono [OF dvd_refl])
        then show ?thesis using q by (simp add: algebra_simps)
      qed
      then have "length ?rest \<le> 128 - (?k + 1)" using True k(3) "1.prems"(3) "1.IH" [of ?k "?k + 1"] by simp
      then show ?thesis using step ak k(3) by linarith
    qed
  qed (simp add: cover_list.simps)
qed

end
