(* ===== verification/Publish_Laws.thy ===== *)
theory Publish_Laws
  imports Compact_Laws
begin

text \<open>
  Publication never fails for a reason of its own: with a working signer, a held lock, an
  unchanged disk and room in the log, every valid deployment anchor is published.
\<close>

lemma checkpoint_message_update [simp]:
  "transparency_log_checkpoint_message (cp\<lparr>cp_tag := t\<rparr>) = transparency_log_checkpoint_message cp"
  "transparency_log_checkpoint_message (cp\<lparr>cp_id := i\<rparr>) = transparency_log_checkpoint_message cp"
  "transparency_log_checkpoint_identity (cp\<lparr>cp_id := i\<rparr>) = transparency_log_checkpoint_identity cp"
  by (simp_all add: transparency_log_checkpoint_message_def transparency_log_checkpoint_identity_def
      transparency_checkpoint_json_def)

lemma leaf_identity_update [simp]:
  "transparency_log_leaf_identity (leaf\<lparr>lf_id := i\<rparr>) = transparency_log_leaf_identity leaf"
  by (simp add: transparency_log_leaf_identity_def transparency_leaf_json_def)

lemma record_identity_update [simp]:
  "transparency_log_record_identity (r\<lparr>rc_id := i\<rparr>) = transparency_log_record_identity r"
  by (simp add: transparency_log_record_identity_def transparency_record_json_def)

lemma make_record_identity:
  "rc_id (make_record i p leaf cp) = transparency_log_record_identity (make_record i p leaf cp)"
proof -
  have "rc_id (r\<lparr>rc_id := transparency_log_record_identity r\<rparr>)
      = transparency_log_record_identity (r\<lparr>rc_id := transparency_log_record_identity r\<rparr>)" for r by simp
  then show ?thesis unfolding make_record_def Let_def .
qed

lemma identities_valid [simp]:
  "valid_sha256 (transparency_log_checkpoint_identity cp)" "valid_sha256 (transparency_log_leaf_identity leaf)"
  "valid_sha256 (transparency_log_record_identity r)"
  by (simp_all add: transparency_log_checkpoint_identity_def transparency_log_leaf_identity_def
      transparency_log_record_identity_def)

definition signed_checkpoint :: "ed25519 \<Rightarrow> log_identity \<Rightarrow> u8 list \<Rightarrow> checkpoint \<Rightarrow> checkpoint" where
  "signed_checkpoint c i secret cp =
     (let cp = cp\<lparr>cp_service := ti_service i, cp_key := ti_key i, cp_algorithm := Ed25519\<rparr>;
          cp = cp\<lparr>cp_tag := encode_hex (ed_sign c secret (transparency_log_checkpoint_message cp))\<rparr>
      in cp\<lparr>cp_id := transparency_log_checkpoint_identity cp\<rparr>)"

lemma signed_checkpoint_simps [simp]:
  "cp_root (signed_checkpoint c i sk cp) = cp_root cp" "cp_size (signed_checkpoint c i sk cp) = cp_size cp"
  "cp_previous (signed_checkpoint c i sk cp) = cp_previous cp" "cp_log (signed_checkpoint c i sk cp) = cp_log cp"
  by (simp_all add: signed_checkpoint_def Let_def)

lemma sign_checkpoint_ok:
  assumes "log_identity_valid i" "cp_log cp = ti_id i" "honest_signer c sk (ti_public_key i)"
    and "cp_schema cp = 1" "cp_size cp > 0" "valid_sha256 (cp_root cp)"
    "if cp_size cp = 1 then cp_previous cp = [] else valid_sha256 (cp_previous cp)"
  shows "sign_checkpoint c i cp sk = Inr (signed_checkpoint c i sk cp)"
    "verify_transparency_log_checkpoint c i (signed_checkpoint c i sk cp) = Inr ()"
    "checkpoint_valid (signed_checkpoint c i sk cp)"
proof -
  let ?cp = "signed_checkpoint c i sk cp"
  let ?base = "cp\<lparr>cp_service := ti_service i, cp_key := ti_key i, cp_algorithm := Ed25519\<rparr>"
  let ?sig = "ed_sign c sk (transparency_log_checkpoint_message ?base)"
  have s: "length ?sig = 64" "ed_check c ?sig (ti_public_key i) (transparency_log_checkpoint_message ?base)"
    "length sk = 64" "length (ti_public_key i) = 32"
    using assms(3) by (simp_all add: honest_signer_def)
  have i: "valid_sha256 (ti_id i)" "valid_text (ti_service i)" "valid_sha256 (ti_key i)"
    using assms(1) valid_ids(1) by (auto simp: log_identity_valid_def)
  have tag: "is_hex_tag (encode_hex ?sig) kEd25519SignatureBytes"
    using s(1) by (intro is_hex_tag_encode) (simp add: kEd25519SignatureBytes_def)
  show valid: "checkpoint_valid ?cp"
    using assms(2,4-7) i tag by (simp add: checkpoint_valid_def signed_checkpoint_def Let_def)
  have msg: "transparency_log_checkpoint_message ?cp = transparency_log_checkpoint_message ?base"
    by (simp add: signed_checkpoint_def Let_def)
  have dec: "decode_hex (cp_tag ?cp) kEd25519SignatureBytes = Inr ?sig"
    using decode_encode_hex [of ?sig] s(1) by (simp add: signed_checkpoint_def Let_def kEd25519SignatureBytes_def)
  have "cp_service ?cp = ti_service i" "cp_key ?cp = ti_key i" by (simp_all add: signed_checkpoint_def Let_def)
  then show v: "verify_transparency_log_checkpoint c i ?cp = Inr ()"
    using assms(1,2) valid dec s by (simp add: verify_transparency_log_checkpoint_def ed25519_verify_iff msg)
  show "sign_checkpoint c i cp sk = Inr ?cp"
    using assms(1,2) s(3) v
    by (simp add: sign_checkpoint_def ed25519_sign_def kEd25519SecretKeyBytes_def Let_def signed_checkpoint_def)
qed

lemma placed_leaf_valid:
  assumes "log_identity_valid i" "deployment_anchor_valid a"
  shows "leaf_valid (placed_leaf i n (anchor_leaf a))"
proof -
  have "lf_id (placed_leaf i n (anchor_leaf a)) = transparency_log_leaf_identity (placed_leaf i n (anchor_leaf a))"
    by (simp add: placed_leaf_def Let_def)
  moreover have "valid_leaf_kind DeploymentAnchor" by (simp add: valid_leaf_kind_def)
  ultimately show ?thesis using assms valid_ids(1) by (simp add: leaf_valid_def anchor_leaf_def)
qed

theorem publish_anchor_succeeds:
  assumes l: "log_valid c l" "log_typed l"
    and signer: "honest_signer c sk (ti_public_key (tl_identity l))"
    and room: "length (tl_records l) < lo_maximum_records (tl_options l)" "length (tl_records l) < 2 ^ 64 - 1"
    and a: "deployment_anchor_valid a" and io: "\<forall>r. appended r = Inr ()"
  shows "\<exists>l' r. publish_deployment_anchor c (Inr ()) (Inr l) appended l a sk (tl_checkpoint_id l) = Inr (l', r)
    \<and> lf_anchor (rc_leaf r) = Some a \<and> tl_root_hash l' = merkle_root (leaf_ids l @ [lf_id (rc_leaf r)])"
proof -
  let ?i = "tl_identity l" and ?n = "length (tl_records l)" and ?ids = "leaf_ids l"
  let ?leaf = "placed_leaf ?i ?n (anchor_leaf a)"
  let ?base = "unsigned_checkpoint ?i (of_nat ?n + 1) (merkle_root (?ids @ [lf_id ?leaf])) (tl_checkpoint_id l)"
  let ?cp = "signed_checkpoint c ?i sk ?base"
  let ?parent = "if tl_records l = [] then [] else rc_id (last (tl_records l))"
  let ?r = "make_record ?i ?parent ?leaf ?cp"
  note facts = log_valid_facts [OF l]
  have leaf: "leaf_valid ?leaf" using facts(5) a by (rule placed_leaf_valid)
  have app: "append_merkle_leaf (tl_frontier l) (lf_id ?leaf) ?n
      = (merkle_root (?ids @ [lf_id ?leaf]), frontier_at (?ids @ [lf_id ?leaf]))"
    using append_leaf_frontier [of "lf_id ?leaf" ?ids] leaf room(2) facts(1) by (simp add: valid_ids)
  have root: "valid_sha256 (merkle_root (?ids @ [lf_id ?leaf]))" "merkle_root (?ids @ [lf_id ?leaf]) \<noteq> []"
    using merkle_root_valid [of "?ids @ [lf_id ?leaf]"] by auto
  have n: "unat (of_nat ?n :: u64) = ?n" "unat ((of_nat ?n :: u64) + 1) = ?n + 1"
    using room(2) unat_u64_of_nat [of ?n] unat_u64_of_nat [of "?n + 1"] by (simp_all add: add.commute)
  then have size: "cp_size ?base > 0" "cp_size ?base = 1 \<longleftrightarrow> tl_records l = []" "(of_nat ?n :: u64) = 0 \<longleftrightarrow> tl_records l = []"
    by (auto simp: unsigned_checkpoint_def word_less_nat_alt word_unat_eq_iff)
  have prev: "(tl_records l = [] \<longrightarrow> tl_checkpoint_id l = []) \<and>
      (tl_records l \<noteq> [] \<longrightarrow> valid_sha256 (tl_checkpoint_id l) \<and> valid_sha256 (rc_id (last (tl_records l))))"
  proof (cases "tl_records l = []")
    case False
    then have "?n - 1 < ?n" by simp
    then have "record_at c ?i [] (tl_records l) (?n - 1)" by (rule facts(3))
    then have "record_valid (last (tl_records l))" using False by (simp add: record_at_def last_conv_nth)
    then show ?thesis using False facts(4) by (auto simp: record_valid_def valid_ids)
  qed (simp add: facts(4))
  have base: "cp_log ?base = ti_id ?i" "cp_schema ?base = 1" "valid_sha256 (cp_root ?base)"
    "if cp_size ?base = 1 then cp_previous ?base = [] else valid_sha256 (cp_previous ?base)"
    using root(1) prev size(2) unfolding size(2) by (auto simp: unsigned_checkpoint_def)
  note sign = sign_checkpoint_ok [OF facts(5) base(1) signer base(2) size(1) base(3,4)]
  have rec: "record_valid ?r"
  proof -
    have "valid_sha256 (rc_id ?r) \<and> rc_id ?r = transparency_log_record_identity ?r"
      using make_record_identity identities_valid(3) by metis
    then show ?thesis using leaf sign(3) prev size(3) facts(5)
      by (simp add: record_valid_def valid_ids unsigned_checkpoint_def)
  qed
  let ?l' = "l\<lparr>tl_records := tl_records l @ [?r], tl_checkpoint_id := cp_id ?cp, tl_root_hash := cp_root ?cp,
    tl_frontier := frontier_at (?ids @ [lf_id ?leaf])\<rparr>"
  have dir: "tl_directory l \<noteq> []" "length (tl_records l) \<le> lo_maximum_records (tl_options l)"
    using l(1) by (auto simp: log_valid_def split: if_splits)
  have replay: "replay_records c ?i (tl_options l) 0 empty_frontier [] [] 0 (tl_records l) = Some (tl_frontier l)"
  proof (cases "tl_records l = []")
    case True
    then show ?thesis using facts(1) by (simp add: leaf_ids_def frontier_of_Nil)
  next
    case False
    then show ?thesis using l(1) by (auto simp: log_valid_def split: if_splits option.splits)
  qed
  have none: "lf_observation ?leaf = None" by (simp add: anchor_leaf_def)
  have link: "rc_parent ?r = (if tl_records l = [] then [] else rc_id (last (tl_records l)))"
    "cp_previous ?cp = (if tl_records l = [] then [] else cp_id (rc_checkpoint (last (tl_records l))))"
    using facts(4) by (simp_all add: unsigned_checkpoint_def)
  have "replay_records c ?i (tl_options l) 0 empty_frontier [] [] 0 (tl_records l @ [?r])
      = Some (frontier_at (?ids @ [lf_id ?leaf]))"
    unfolding replay_records_append replay option.inject
    by (intro exI [of _ "tl_frontier l"] conjI refl, unfold replay_Cons)
      (use rec sign(2) app root(2) link none in \<open>simp add: attest_fit_def unsigned_checkpoint_def\<close>)
  then have valid: "log_valid c ?l'"
    using dir room(1) facts(5) by (simp add: log_valid_def)
  have "publish_leaf c (Inr ()) (Inr l) appended l (anchor_leaf a) sk (tl_checkpoint_id l) = Inr (?l', ?r)"
    using l(1) signer room(1) leaf app root(2) sign(1) rec valid io
    by (simp add: publish_leaf_def Let_def honest_signer_def kEd25519SecretKeyBytes_def)
  then show ?thesis using a
    by (auto simp: publish_deployment_anchor_def anchor_leaf_def unsigned_checkpoint_def)
qed

end
