(* ===== verification/Compact_Complete.thy ===== *)
theory Compact_Complete
  imports Compact_Laws
begin

unbundle bit_operations_syntax

text \<open>
  The compact proof a valid log constructs is accepted: its frontier has the shape the
  size prescribes, its subtrees fit, and appending them reaches the new root.
\<close>

section \<open>Sizes\<close>

abbreviation level_of :: "merkle_subtree \<Rightarrow> nat" where
  "level_of s \<equiv> unat (ms_level s)"

lemma unat_power_64: "k < 64 \<Longrightarrow> unat (2 ^ k :: u64) = 2 ^ k"
  using unat_u64_of_nat [of "2 ^ k"] power_strict_increasing [of k 64 "2 :: nat"] by simp

lemma subtree_size_power: "subtree_size s = 2 ^ level_of s"
  by (simp add: subtree_size_def push_bit_eq_mult)

lemma valid_level: "subtree_valid s \<Longrightarrow> level_of s < 64"
  by (simp add: subtree_valid_def word_less_nat_alt)

lemma aligned_word: "(r :: u64) AND (2 ^ k - 1) = 0 \<longleftrightarrow> 2 ^ k dvd unat r"
proof -
  have "r AND (2 ^ k - 1) = take_bit k r" by (simp add: take_bit_eq_mask mask_eq_exp_minus_1)
  moreover have "take_bit k r = 0 \<longleftrightarrow> unat (take_bit k r) = 0" by (simp add: unat_eq_0)
  moreover have "unat (take_bit k r) = 0 \<longleftrightarrow> 2 ^ k dvd unat r"
    by (simp only: unsigned_take_bit_eq) (simp add: take_bit_eq_mod dvd_eq_mod_eq_0)
  ultimately show ?thesis by simp
qed

lemma word_fits: "k < 64 \<Longrightarrow> (r :: u64) > - 1 - 2 ^ k \<longleftrightarrow> unat r + 2 ^ k \<ge> 2 ^ 64"
proof -
  assume k: "k < 64"
  have p: "(2 :: nat) ^ k < 2 ^ 64" using power_strict_increasing [of k 64 "2 :: nat"] k by simp
  have "unat (- 1 - 2 ^ k :: u64) = unat (- 1 :: u64) - unat (2 ^ k :: u64)"
    by (rule unat_sub) (rule word_order.extremum)
  also have "\<dots> = 2 ^ 64 - 1 - 2 ^ k" using k by (simp add: unsigned_minus_1_eq_mask mask_eq_exp_minus_1 unat_power_64)
  finally show ?thesis using p by (auto simp: word_less_nat_alt)
qed

lemma word_add_fits: "k < 64 \<Longrightarrow> unat r + 2 ^ k < 2 ^ 64 \<Longrightarrow> unat ((r :: u64) + 2 ^ k) = unat r + 2 ^ k"
  by (simp add: unat_add_lem [THEN iffD1] unat_power_64)

lemma appended_fit_Cons:
  "appended_fit r n (s # rest) \<longleftrightarrow> subtree_valid s \<and> 2 ^ level_of s dvd unat r \<and>
     unat r + 2 ^ level_of s < 2 ^ 64 \<and> unat r + 2 ^ level_of s \<le> unat n \<and>
     appended_fit (r + 2 ^ level_of s) n rest"
  using valid_level [of s] word_fits [of "level_of s" r] word_add_fits [of "level_of s" r]
  unfolding appended_fit.simps subtree_size_power aligned_word
  by (auto simp: word_le_nat_alt word_less_nat_alt not_le not_less)

declare appended_fit.simps(2) [simp del]

section \<open>Running the appended subtrees\<close>

fun run_frontier :: "string list \<Rightarrow> nat \<Rightarrow> merkle_subtree list \<Rightarrow> string list" where
  "run_frontier fr n [] = fr"
| "run_frontier fr n (s # rest) =
     run_frontier (snd (append_merkle_subtree fr (ms_hash s) (level_of s) n)) (n + 2 ^ level_of s) rest"

lemma carry_root: "fst (carry fr level s n) \<noteq> [] \<Longrightarrow> fst (carry fr level s n) = frontier_root (snd (carry fr level s n))"
proof (induction fr level s n rule: carry.induct)
  case (1 fr level s n)
  then show ?case by (subst (1 2) carry.simps, subst (asm) (5) carry.simps) (auto split: if_splits)
qed

lemma append_subtree_root:
  "fst (append_merkle_subtree fr h k n) \<noteq> [] \<Longrightarrow>
     fst (append_merkle_subtree fr h k n) = frontier_root (snd (append_merkle_subtree fr h k n))"
  by (auto simp: append_merkle_subtree_def Let_def carry_root split: if_splits)

lemma append_subtrees_run:
  assumes "append_subtrees fr r reached subs = Some (r', reached')" "appended_fit r n subs"
  shows "r' = n \<and> reached' = (if subs = [] then reached else frontier_root (run_frontier fr (unat r) subs))"
  using assms
proof (induction subs arbitrary: fr r reached)
  case (Cons s rest)
  note fit = Cons.prems(2) [unfolded appended_fit_Cons]
  obtain h fr' where a: "append_merkle_subtree fr (ms_hash s) (level_of s) (unat r) = (h, fr')" by fastforce
  have h: "h \<noteq> []" and rest: "append_subtrees fr' (r + 2 ^ level_of s) h rest = Some (r', reached')"
    using Cons.prems(1) by (auto simp: a subtree_size_power split: if_splits)
  have "h = frontier_root fr'" using append_subtree_root [of fr "ms_hash s" "level_of s" "unat r"] a h by simp
  then show ?case using Cons.IH [OF rest] fit word_add_fits [of "level_of s" r] valid_level [of s]
    by (auto simp: a)
qed simp

text \<open>The blocks of the true tree at the same levels.\<close>

fun honest_blocks :: "string list \<Rightarrow> nat \<Rightarrow> merkle_subtree list \<Rightarrow> merkle_subtree list" where
  "honest_blocks ids n [] = []"
| "honest_blocks ids n (s # rest) =
     s\<lparr>ms_hash := merkle_root (take (2 ^ level_of s) (drop n ids))\<rparr> # honest_blocks ids (n + 2 ^ level_of s) rest"

lemma honest_append:
  assumes "appended_fit r (of_nat (length ids)) (s # rest)" "length ids < 2 ^ 64"
  shows "append_merkle_subtree (frontier_at (take (unat r) ids))
      (merkle_root (take (2 ^ level_of s) (drop (unat r) ids))) (level_of s) (unat r)
    = (merkle_root (take (unat r + 2 ^ level_of s) ids), frontier_at (take (unat r + 2 ^ level_of s) ids))"
    and "unat (r + 2 ^ level_of s) = unat r + 2 ^ level_of s" "unat r + 2 ^ level_of s \<le> length ids"
    "appended_fit (r + 2 ^ level_of s) (of_nat (length ids)) rest"
proof -
  note fit = assms(1) [unfolded appended_fit_Cons]
  have n: "unat (of_nat (length ids) :: u64) = length ids" using assms(2) by (rule unat_u64_of_nat)
  show "append_merkle_subtree (frontier_at (take (unat r) ids))
      (merkle_root (take (2 ^ level_of s) (drop (unat r) ids))) (level_of s) (unat r)
    = (merkle_root (take (unat r + 2 ^ level_of s) ids), frontier_at (take (unat r + 2 ^ level_of s) ids))"
    using fit n assms(2) valid_level by (intro append_block) simp_all
  show "unat (r + 2 ^ level_of s) = unat r + 2 ^ level_of s" using fit valid_level by (intro word_add_fits) simp_all
  show "unat r + 2 ^ level_of s \<le> length ids" using fit n by simp
  show "appended_fit (r + 2 ^ level_of s) (of_nat (length ids)) rest" using fit by simp
qed

lemma merkle_root_take: "0 < k \<Longrightarrow> n + k \<le> length ids \<Longrightarrow> merkle_root (take (n + k) ids) \<noteq> []"
  by (rule merkle_root_nonempty) simp

lemma honest_run:
  assumes "appended_fit r (of_nat (length ids)) subs" "length ids < 2 ^ 64" "unat r \<le> length ids"
  shows "run_frontier (frontier_at (take (unat r) ids)) (unat r) (honest_blocks ids (unat r) subs) = frontier_at ids \<and>
    append_subtrees (frontier_at (take (unat r) ids)) r reached (honest_blocks ids (unat r) subs)
      = Some (of_nat (length ids), if subs = [] then reached else merkle_root ids)"
  using assms
proof (induction subs arbitrary: r reached)
  case Nil
  then have "unat r = length ids" by (simp add: unat_u64_of_nat)
  with Nil show ?case by simp
next
  case (Cons s rest)
  note a = honest_append [OF Cons.prems(1,2)]
  have ne: "merkle_root (take (unat r + 2 ^ level_of s) ids) \<noteq> []" using a(3) by (intro merkle_root_take) simp_all
  have "unat (r + 2 ^ level_of s) \<le> length ids" using a(2,3) by simp
  note IH = Cons.IH [OF a(4) Cons.prems(2) this, of "merkle_root (take (unat r + 2 ^ level_of s) ids)", unfolded a(2)]
  have "rest = [] \<Longrightarrow> unat r + 2 ^ level_of s = length ids"
  proof -
    assume "rest = []"
    then have "r + 2 ^ level_of s = of_nat (length ids)" using a(4) by simp
    then have "unat (r + 2 ^ level_of s) = length ids" using unat_u64_of_nat [OF Cons.prems(2)] by simp
    with a(2) show ?thesis by simp
  qed
  with IH ne show ?case by (auto simp: a(1) subtree_size_power)
qed

section \<open>The honest proof fits\<close>

lemma level_of_nat [simp]: "k < 64 \<Longrightarrow> unat (of_nat k :: u8) = k"
  by (simp add: unat_of_nat)

lemma cover_list_fits:
  assumes "length ids < 2 ^ 64" "n \<le> length ids"
  shows "appended_fit (of_nat n) (of_nat (length ids)) (cover_list ids n) \<and>
    honest_blocks ids n (cover_list ids n) = cover_list ids n"
  using assms
proof (induction ids n rule: cover_list.induct)
  case (1 ids n)
  let ?k = "block_level ids n"
  show ?case
  proof (cases "n < length ids")
    case True
    note k = block_level_props [OF True]
    have "unat (of_nat n :: u64) = n" "unat (of_nat (length ids) :: u64) = length ids"
      using "1.prems" by (simp_all add: unat_u64_of_nat)
    moreover have "(of_nat n :: u64) + 2 ^ ?k = of_nat (n + 2 ^ ?k)" by simp
    moreover have "valid_sha256 (merkle_root (take (2 ^ ?k) (drop n ids)))"
      using True by (intro merkle_root_valid) simp
    moreover have "(of_nat ?k :: u8) < 64" using k(3) by (simp add: word_less_nat_alt)
    ultimately show ?thesis using True k "1.prems" "1.IH" [OF True]
      by (subst (1 2 3) cover_list.simps) (simp add: Let_def appended_fit_Cons subtree_valid_def)
  next
    case False
    with "1.prems" have "n = length ids" by simp
    then show ?thesis by (simp add: cover_list.simps)
  qed
qed

section \<open>The old frontier\<close>

lemma slots_nth:
  "k < length (slots hs) \<Longrightarrow>
     slots hs ! k = (if odd (length hs div 2 ^ k) then last ((pairs ^^ k) hs) else [])"
proof (induction k arbitrary: hs)
  case (Suc k)
  then have ne: "hs \<noteq> []" by auto
  then have "k < length (slots (pairs hs))" using Suc.prems by (simp add: slots_Cons)
  from Suc.IH [OF this] show ?case using ne
    by (simp only: funpow_Suc_right o_apply) (simp add: slots_Cons div_mult2_eq [symmetric])
next
  case 0
  then have "hs \<noteq> []" by auto
  then show ?case by (simp add: slots_Cons)
qed

lemma slots_beyond: "length (slots hs) \<le> k \<Longrightarrow> length hs div 2 ^ k = 0"
proof (induction k arbitrary: hs)
  case 0
  then show ?case by (cases "hs = []") (simp_all add: slots_Cons)
next
  case (Suc k)
  show ?case
  proof (cases "hs = []")
    case False
    then have "length (slots (pairs hs)) \<le> k" using Suc.prems by (simp add: slots_Cons)
    from Suc.IH [OF this] show ?thesis by (simp add: div_mult2_eq [symmetric])
  qed simp
qed

lemma frontier_bits:
  assumes "k < 64" "\<forall>h\<in>set hs. valid_sha256 h"
  shows "(frontier_of hs ! k \<noteq> [] \<longleftrightarrow> odd (length hs div 2 ^ k)) \<and>
    (odd (length hs div 2 ^ k) \<longrightarrow> valid_sha256 (frontier_of hs ! k))"
proof (cases "k < length (slots hs)")
  case True
  have v: "\<forall>h\<in>set ((pairs ^^ k) hs). valid_sha256 h"
  proof (cases k)
    case (Suc j)
    have "\<forall>h\<in>set (pairs xs). valid_sha256 h" for xs
      by (induction xs rule: pairs.induct) (auto simp: merkle_node_hash_def)
    with Suc show ?thesis by simp
  qed (use assms in simp)
  have "odd (length hs div 2 ^ k) \<Longrightarrow> (pairs ^^ k) hs \<noteq> []"
    using pairs_funpow_length [of k hs] by (metis dvd_0_right list.size(3))
  with v have "odd (length hs div 2 ^ k) \<Longrightarrow> valid_sha256 (last ((pairs ^^ k) hs))" by simp
  then show ?thesis using True slots_nth [OF True] by (auto simp: frontier_of_def nth_append)
next
  case False
  then have "frontier_of hs ! k = []" using assms(1) by (simp add: frontier_of_def nth_append)
  moreover have "length hs div 2 ^ k = 0" using slots_beyond False by simp
  ultimately show ?thesis by simp
qed

lemma frontier_matches_filter:
  assumes "\<forall>k\<in>set ks. (P k \<longleftrightarrow> odd (unat (drop_bit k tree_size))) \<and>
    (P k \<longrightarrow> ms_level (g k) = of_nat k \<and> subtree_valid (g k))"
  shows "frontier_matches tree_size ks (map g (filter P ks))"
  using assms by (induction ks) auto

lemma frontier_matches_of:
  assumes "\<forall>h\<in>set hs. valid_sha256 h" "length hs = unat tree_size"
  shows "frontier_matches tree_size [0..<64] (subtrees_of_frontier (frontier_of hs))"
  unfolding subtrees_of_frontier_def
proof (rule frontier_matches_filter, intro ballI)
  fix k assume "k \<in> set [0..<64]"
  then have k: "k < 64" by simp
  have "take_bit 64 (unat tree_size) = unat tree_size" by (rule take_bit_nat_eq_self) (rule unat_u64_less)
  then have "unat (drop_bit k tree_size) = length hs div 2 ^ k"
    using assms(2) by (simp only: unsigned_drop_bit_eq) (simp add: drop_bit_eq_div)
  then show "(frontier_of hs ! k \<noteq> [] \<longleftrightarrow> odd (unat (drop_bit k tree_size))) \<and>
    (frontier_of hs ! k \<noteq> [] \<longrightarrow>
      ms_level \<lparr>ms_level = of_nat k, ms_hash = frontier_of hs ! k\<rparr> = of_nat k \<and>
      subtree_valid \<lparr>ms_level = of_nat k, ms_hash = frontier_of hs ! k\<rparr>)"
    using frontier_bits [OF k assms(1)] k by (auto simp: subtree_valid_def word_less_nat_alt)
qed

lemma frontier_of_subtrees_prefix:
  assumes "length fr = 64" "m \<le> 64"
  shows "frontier_of_subtrees (map (\<lambda>k. \<lparr>ms_level = of_nat k, ms_hash = fr ! k\<rparr>) (filter (\<lambda>k. fr ! k \<noteq> []) [0..<m]))
    = take m fr @ replicate (64 - m) []"
  using assms(2)
proof (induction m)
  case 0
  then show ?case by (simp add: frontier_of_subtrees_def empty_frontier_def)
next
  case (Suc m)
  have r: "replicate (64 - m) [] = [] # replicate (64 - Suc m) []" using Suc.prems by (simp add: Suc_diff_Suc flip: replicate_Suc)
  have t: "take (Suc m) fr = take m fr @ [fr ! m]" using Suc.prems assms(1) by (simp add: take_Suc_conv_app_nth)
  have l: "length (take m fr) = m" using Suc.prems assms(1) by simp
  have u: "(take m fr @ [] # xs)[m := fr ! m] = take m fr @ fr ! m # xs" for xs
    using l by (metis list_update_length)
  show ?case
    using Suc by (cases "fr ! m = []") (simp_all add: frontier_of_subtrees_def r t u)
qed

lemma frontier_of_subtrees_of: "length fr = 64 \<Longrightarrow> frontier_of_subtrees (subtrees_of_frontier fr) = fr"
  using frontier_of_subtrees_prefix [of fr 64] by (simp add: subtrees_of_frontier_def)

lemma append_leaves_frontier:
  assumes "list_all valid_sha256 ids" "length done + length ids < 2 ^ 64"
  shows "append_leaves (frontier_at done) (length done) ids = Some (frontier_at (done @ ids))"
  using assms
proof (induction ids arbitrary: "done")
  case (Cons i ids)
  have "append_merkle_leaf (frontier_at done) i (length done)
      = (merkle_root (done @ [i]), frontier_at (done @ [i]))"
    using Cons.prems by (intro append_leaf_frontier) simp_all
  moreover have "merkle_root (done @ [i]) \<noteq> []" by (rule merkle_root_nonempty) simp
  ultimately show ?case using Cons.IH [of "done @ [i]"] Cons.prems by simp
qed simp

section \<open>Completeness\<close>

lemma make_compact_proof_simps [simp]:
  "cc_schema (make_compact_proof l n fs ss) = 1" "cc_log (make_compact_proof l n fs ss) = ti_id (tl_identity l)"
  "cc_old_checkpoint (make_compact_proof l n fs ss) = cp_id (rc_checkpoint (tl_records l ! (unat n - 1)))"
  "cc_new_checkpoint (make_compact_proof l n fs ss) = cp_id (rc_checkpoint (last (tl_records l)))"
  "cc_old_size (make_compact_proof l n fs ss) = n"
  "cc_new_size (make_compact_proof l n fs ss) = of_nat (length (tl_records l))"
  "cc_old_root (make_compact_proof l n fs ss) = cp_root (rc_checkpoint (tl_records l ! (unat n - 1)))"
  "cc_new_root (make_compact_proof l n fs ss) = cp_root (rc_checkpoint (last (tl_records l)))"
  "cc_frontier (make_compact_proof l n fs ss) = fs" "cc_appended (make_compact_proof l n fs ss) = ss"
  "transparency_compact_consistency_proof_identity (make_compact_proof l n fs ss) = cc_id (make_compact_proof l n fs ss)"
  by (simp_all add: make_compact_proof_def Let_def)
    (simp add: transparency_compact_consistency_proof_identity_def compact_consistency_proof_json_def)

lemma valid_compact_identity [simp]: "valid_sha256 (transparency_compact_consistency_proof_identity p)"
  by (simp add: transparency_compact_consistency_proof_identity_def)

definition honest_proof :: "transparency_log \<Rightarrow> u64 \<Rightarrow> compact_proof" where
  "honest_proof l n = make_compact_proof l n
     (subtrees_of_frontier (frontier_at (take (unat n) (leaf_ids l)))) (cover_list (leaf_ids l) (unat n))"

theorem compact_complete:
  assumes l: "log_valid c l" "log_typed l" and n: "0 < n" "unat n < length (tl_records l)"
  shows "log_compact_consistency_proof c l n = Inr (honest_proof l n)"
proof -
  let ?ids = "leaf_ids l" and ?m = "length (tl_records l)" and ?p = "honest_proof l n"
  let ?old = "rc_checkpoint (tl_records l ! (unat n - 1))" and ?new = "rc_checkpoint (last (tl_records l))"
  let ?fr = "frontier_at (take (unat n) ?ids)" and ?ss = "cover_list ?ids (unat n)"
  have n0: "0 < unat n" using n(1) by (simp add: word_less_nat_alt)
  have ne: "tl_records l \<noteq> []" and last: "?m - 1 < ?m" and old: "unat n - 1 < ?m" using n n0 by auto
  note head = record_checkpoint [OF l last, folded last_conv_nth [OF ne]]
  note oldr = record_checkpoint [OF l old]
  note facts = log_valid_facts [OF l]
  have m: "?m < 2 ^ 64" "unat (of_nat ?m :: u64) = ?m" using log_length [OF l] by (auto intro: unat_u64_of_nat)
  have sizes: "cp_size ?old = n" "cp_size ?new = of_nat ?m"
    using oldr(2) head(2) n0 ne m by (simp_all add: word_unat_eq_iff)
  have lt: "\<not> of_nat ?m \<le> n" "n \<noteq> 0" using n m by (auto simp: word_le_nat_alt)
  have roots: "cp_root ?old = merkle_root (take (unat n) ?ids)" "cp_root ?new = merkle_root ?ids"
    using oldr(1) head(1) n0 ne by simp_all
  have ids: "list_all valid_sha256 ?ids" using l by (rule valid_leaf_ids)
  then have tids: "list_all valid_sha256 (take (unat n) ?ids)" by (auto simp: list_all_iff dest: in_set_takeD)
  have fl: "append_leaves empty_frontier 0 (take (unat n) ?ids) = Some ?fr"
    using append_leaves_frontier [OF tids, of "[]"] m n by (simp add: frontier_of_Nil)
  have cov: "cover ?ids ?fr (unat n) = Some ?ss" using m n by (intro cover_cover_list) simp_all
  have fits: "appended_fit n (of_nat (length ?ids)) ?ss" "honest_blocks ?ids (unat n) ?ss = ?ss"
    using cover_list_fits [of ?ids "unat n"] m n by simp_all
  have ssne: "?ss \<noteq> []" "length ?ss \<le> 128"
  proof -
    show "?ss \<noteq> []" using n by (subst cover_list.simps) (simp add: Let_def)
    show "length ?ss \<le> 128" using cover_list_length [of 0 "unat n" ?ids] m by simp
  qed
  have flen: "length ?fr = 64" using m n by (intro length_frontier_of) simp
  have fback: "frontier_of_subtrees (subtrees_of_frontier ?fr) = ?fr" using flen by (rule frontier_of_subtrees_of)
  have froot: "frontier_root ?fr = merkle_root (take (unat n) ?ids)"
    using n n0 ne by (subst frontier_root_climb) (auto simp: merkle_root_def leaf_ids_def)
  have rne: "merkle_root (take (unat n) ?ids) \<noteq> []" using n n0 by (intro merkle_root_nonempty) simp
  have fne: "subtrees_of_frontier ?fr \<noteq> []"
  proof
    assume "subtrees_of_frontier ?fr = []"
    with fback have "?fr = empty_frontier" by (simp add: frontier_of_subtrees_def)
    with froot rne show False by (simp add: frontier_root_def empty_frontier_def)
  qed
  have flen64: "length (subtrees_of_frontier ?fr) \<le> 64"
    unfolding subtrees_of_frontier_def length_map by (rule le_trans [OF length_filter_le]) simp
  have fm: "frontier_matches n [0..<64] (subtrees_of_frontier ?fr)"
    using n by (intro frontier_matches_of) (auto simp: valid_leaf_hash)
  have pid: "valid_sha256 (cc_id ?p)"
    unfolding honest_proof_def by (metis make_compact_proof_simps(11) valid_compact_identity)
  have "compact_proof_valid ?p"
    using head(3) oldr(3) facts(5) pid lt fne flen64 ssne fm fits(1)
    by (simp add: compact_proof_valid_def valid_ids) (simp add: honest_proof_def valid_ids)
  moreover have "append_subtrees ?fr n (merkle_root (take (unat n) ?ids)) ?ss = Some (of_nat ?m, merkle_root ?ids)"
    using honest_run [OF fits(1)] m n fits(2) ssne by simp
  ultimately have "verify_transparency_compact_consistency c (tl_identity l) ?old ?new ?p = Inr ()"
    using head(3,7) oldr(3,7) facts(5) sizes roots fback froot
    by (simp add: verify_transparency_compact_consistency_def) (simp add: honest_proof_def)
  then show ?thesis using l n lt fl cov
    by (simp add: log_compact_consistency_proof_def Let_def honest_proof_def)
qed

end
