(* ===== verification/Compact_Sound.thy ===== *)
theory Compact_Sound
  imports Compact_Complete
begin

text \<open>
  Soundness of the compact consistency check, by running it beside the honest run over the
  true leaves: both end in frontiers of one shape with one root, and every step can be
  undone, or two distinct hashed texts have one digest.
\<close>

section \<open>Texts hashed by the check\<close>

function carry_texts :: "string list \<Rightarrow> nat \<Rightarrow> string \<Rightarrow> nat \<Rightarrow> string list" where
  "carry_texts fr level s n =
     (if odd n
      then (if level \<ge> length fr \<or> fr ! level = [] then []
            else node_text (fr ! level) s
                 # carry_texts (fr[level := []]) (level + 1) (merkle_node_hash (fr ! level) s) (n div 2))
      else [])"
  by pat_completeness auto
termination by (relation "measure (\<lambda>(fr, level, s, n). n)") (auto elim: oddE)

declare carry_texts.simps [simp del]

fun run_texts :: "string list \<Rightarrow> nat \<Rightarrow> merkle_subtree list \<Rightarrow> string list" where
  "run_texts fr n [] = []"
| "run_texts fr n (s # rest) =
     carry_texts fr (level_of s) (ms_hash s) (n div 2 ^ level_of s)
     @ run_texts (snd (append_merkle_subtree fr (ms_hash s) (level_of s) n)) (n + 2 ^ level_of s) rest"

fun fold_texts :: "string \<Rightarrow> string list \<Rightarrow> string list" where
  "fold_texts acc [] = []"
| "fold_texts acc (x # xs) =
     (if x = [] then fold_texts acc xs
      else if acc = [] then fold_texts x xs
      else node_text x acc # fold_texts (merkle_node_hash x acc) xs)"

definition compact_texts :: "string list \<Rightarrow> nat \<Rightarrow> merkle_subtree list \<Rightarrow> string list" where
  "compact_texts fr n subs = run_texts fr n subs @ fold_texts [] (run_frontier fr n subs)"

section \<open>Undoing one step\<close>

abbreviation hash_sized :: "string \<Rightarrow> bool" where
  "hash_sized h \<equiv> h = [] \<or> length h = 64"

abbreviation slots_sized :: "string list \<Rightarrow> bool" where
  "slots_sized fr \<equiv> \<forall>h\<in>set fr. hash_sized h"

lemma length_node_hash [simp]: "length (merkle_node_hash l r) = 64"
  by (simp add: merkle_node_hash_def)

lemma node_hash_cases:
  assumes "merkle_node_hash x a = merkle_node_hash y b" "length x = length y"
  shows "x = y \<and> a = b \<or> sha256_collision (node_text x a) (node_text y b)"
proof -
  have "sha256 (node_text x a) = sha256 (node_text y b)" using assms(1) by (simp add: merkle_node_hash_def)
  from sha256_eq_cases [OF this] show ?thesis
  proof
    assume "node_text x a = node_text y b"
    from node_text_inj [OF this assms(2)] show ?thesis ..
  qed (rule disjI2)
qed

lemma slots_sized_update: "slots_sized fr \<Longrightarrow> hash_sized h \<Longrightarrow> slots_sized (fr[k := h])"
  by (auto dest: set_update_subset_insert [THEN subsetD])

lemma texts_collide_Cons:
  "sha256_collision a b \<Longrightarrow> texts_collide (a # as) (b # bs)"
  "texts_collide as bs \<Longrightarrow> texts_collide (a # as) (b # bs)"
  by (auto simp: texts_collide_def list_ex_iff)

lemma texts_collide_append:
  "texts_collide as bs \<Longrightarrow> texts_collide (as @ as') (bs @ bs')"
  "texts_collide as' bs' \<Longrightarrow> texts_collide (as @ as') (bs @ bs')"
  by (auto simp: texts_collide_def list_ex_iff)

lemma update_cancel:
  assumes "F[k := x] = G[k := y]" "F ! k = G ! k"
  shows "F = G"
proof (rule nth_equalityI)
  show "length F = length G" using arg_cong [OF assms(1), of length] by simp
  fix i assume "i < length F"
  then show "F ! i = G ! i" using arg_cong [OF assms(1), of "\<lambda>xs. xs ! i"] assms(2) by (cases "i = k") auto
qed

lemma carry_undo:
  assumes "fst (carry F k s n) \<noteq> []" "fst (carry G k u n) \<noteq> []" "snd (carry F k s n) = snd (carry G k u n)"
    "length F = length G" "slots_sized F" "slots_sized G" "length s = 64" "length u = 64"
  shows "F = G \<and> s = u \<or> texts_collide (carry_texts F k s n) (carry_texts G k u n)"
  using assms
proof (induction F k s n arbitrary: G u rule: carry.induct)
  case (1 F k s n)
  show ?case
  proof (cases "odd n")
    case False
    then have c: "carry X k x n = (if k \<ge> length X \<or> X ! k \<noteq> [] then ([], X) else (frontier_root (X[k := x]), X[k := x]))"
      for X x by (subst carry.simps) simp
    have "k < length F" "F ! k = []" "G ! k = []" "F[k := s] = G[k := u]"
      using "1.prems"(1-4) unfolding c by (auto split: if_splits)
    then show ?thesis using update_cancel [of F k s G u] by (metis "1.prems"(4) nth_list_update_eq)
  next
    case True
    then have c: "carry X k x n = (if k \<ge> length X \<or> X ! k = [] then ([], X)
        else carry (X[k := []]) (k + 1) (merkle_node_hash (X ! k) x) (n div 2))" for X x
      by (subst carry.simps) simp
    have k: "k < length F" "F ! k \<noteq> []" "G ! k \<noteq> []"
      using "1.prems"(1,2,4) unfolding c by (auto split: if_splits)
    have t: "carry_texts F k s n = node_text (F ! k) s # carry_texts (F[k := []]) (k + 1) (merkle_node_hash (F ! k) s) (n div 2)"
      "carry_texts G k u n = node_text (G ! k) u # carry_texts (G[k := []]) (k + 1) (merkle_node_hash (G ! k) u) (n div 2)"
      using k True "1.prems"(4) by (subst carry_texts.simps, simp)+
    have len: "length (F ! k) = 64" "length (G ! k) = 64" using k "1.prems"(4-6) by (metis nth_mem)+
    have "F[k := []] = G[k := []] \<and> merkle_node_hash (F ! k) s = merkle_node_hash (G ! k) u \<or>
        texts_collide (carry_texts (F[k := []]) (k + 1) (merkle_node_hash (F ! k) s) (n div 2))
          (carry_texts (G[k := []]) (k + 1) (merkle_node_hash (G ! k) u) (n div 2))"
    proof (rule "1.IH")
      show "odd n" "\<not> (length F \<le> k \<or> F ! k = [])" using True k by simp_all
      show "fst (carry (F[k := []]) (k + 1) (merkle_node_hash (F ! k) s) (n div 2)) \<noteq> []"
        using "1.prems"(1) k unfolding c by simp
      show "fst (carry (G[k := []]) (k + 1) (merkle_node_hash (G ! k) u) (n div 2)) \<noteq> []"
        using "1.prems"(2,4) k unfolding c by simp
      show "snd (carry (F[k := []]) (k + 1) (merkle_node_hash (F ! k) s) (n div 2))
          = snd (carry (G[k := []]) (k + 1) (merkle_node_hash (G ! k) u) (n div 2))"
        using "1.prems"(3,4) k unfolding c by simp
      show "slots_sized (F[k := []])" by (rule slots_sized_update [OF "1.prems"(5)]) simp
      show "slots_sized (G[k := []])" by (rule slots_sized_update [OF "1.prems"(6)]) simp
    qed (use "1.prems"(4) in simp_all)
    then show ?thesis
    proof
      assume e: "F[k := []] = G[k := []] \<and> merkle_node_hash (F ! k) s = merkle_node_hash (G ! k) u"
      then have "F ! k = G ! k \<and> s = u \<or> sha256_collision (node_text (F ! k) s) (node_text (G ! k) u)"
        using len by (intro node_hash_cases) simp_all
      then show ?thesis using e update_cancel [of F k "[]" G "[]"] unfolding t by (auto intro: texts_collide_Cons)
    qed (unfold t, rule disjI2, erule texts_collide_Cons)
  qed
qed

lemma carry_sized: "slots_sized F \<Longrightarrow> length s = 64 \<Longrightarrow> slots_sized (snd (carry F k s n))"
proof (induction F k s n rule: carry.induct)
  case (1 F k s n)
  have u: "slots_sized (F[k := []])" by (rule slots_sized_update [OF "1.prems"(1)]) simp
  have u': "slots_sized (F[k := s])" by (rule slots_sized_update [OF "1.prems"(1)]) (simp add: "1.prems"(2))
  show ?case
  proof (cases "odd n \<and> \<not> (length F \<le> k \<or> F ! k = [])")
    case True
    then have "carry F k s n = carry (F[k := []]) (k + 1) (merkle_node_hash (F ! k) s) (n div 2)"
      by (subst carry.simps) simp
    with "1.IH" [OF _ _ u] True show ?thesis by simp
  next
    case False
    then have "snd (carry F k s n) = F \<or> snd (carry F k s n) = F[k := s]"
      by (subst (1 2) carry.simps) auto
    then show ?thesis
    proof
      assume "snd (carry F k s n) = F"
      with "1.prems"(1) show ?thesis by simp
    next
      assume "snd (carry F k s n) = F[k := s]"
      with u' show ?thesis by simp
    qed
  qed
qed

section \<open>The shape of a frontier\<close>

definition frontier_shape :: "string list \<Rightarrow> nat \<Rightarrow> bool" where
  "frontier_shape fr n \<longleftrightarrow> length fr = 64 \<and> (\<forall>j<64. fr ! j \<noteq> [] \<longleftrightarrow> odd (n div 2 ^ j))"

lemma carry_shape:
  assumes "fst (carry F k s n) \<noteq> []" "s \<noteq> []" "\<forall>j. k \<le> j \<and> j < length F \<longrightarrow> (F ! j \<noteq> [] \<longleftrightarrow> odd (n div 2 ^ (j - k)))"
    "j < length F"
  shows "snd (carry F k s n) ! j \<noteq> [] \<longleftrightarrow> (if j < k then F ! j \<noteq> [] else odd ((n + 1) div 2 ^ (j - k)))"
  using assms
proof (induction F k s n arbitrary: j rule: carry.induct)
  case (1 F k s n)
  have half: "x div 2 ^ (i - k) = x div 2 div 2 ^ (i - (k + 1))" if "k < i" for i and x :: nat
  proof -
    have "i - k = Suc (i - (k + 1))" using that by simp
    then show ?thesis by (simp add: div_mult2_eq)
  qed
  show ?case
  proof (cases "odd n")
    case False
    then have c: "carry F k s n = (if k \<ge> length F \<or> F ! k \<noteq> [] then ([], F) else (frontier_root (F[k := s]), F[k := s]))"
      by (subst carry.simps) simp
    have k: "k < length F" using "1.prems"(1) unfolding c by (auto split: if_splits)
    then have s: "snd (carry F k s n) = F[k := s]" using "1.prems"(1) unfolding c by (auto split: if_splits)
    have "(n + 1) div 2 = n div 2" using False by simp
    then have "k < j \<Longrightarrow> (n + 1) div 2 ^ (j - k) = n div 2 ^ (j - k)" by (simp only: half)
    then show ?thesis unfolding s using "1.prems" False k by (cases "j = k") auto
  next
    case True
    then have c: "carry F k s n = (if k \<ge> length F \<or> F ! k = [] then ([], F)
        else carry (F[k := []]) (k + 1) (merkle_node_hash (F ! k) s) (n div 2))"
      by (subst carry.simps) simp
    have k: "k < length F" "F ! k \<noteq> []" using "1.prems"(1) unfolding c by (auto split: if_splits)
    have "snd (carry F k s n) ! j \<noteq> [] \<longleftrightarrow>
        (if j < k + 1 then F[k := []] ! j \<noteq> [] else odd ((n div 2 + 1) div 2 ^ (j - (k + 1))))"
    proof -
      let ?F = "F[k := []]" and ?s = "merkle_node_hash (F ! k) s"
      have ck: "carry F k s n = carry ?F (k + 1) ?s (n div 2)" using k unfolding c by simp
      have "\<forall>j. k + 1 \<le> j \<and> j < length ?F \<longrightarrow> (?F ! j \<noteq> [] \<longleftrightarrow> odd (n div 2 div 2 ^ (j - (k + 1))))"
      proof (intro allI impI)
        fix i assume i: "k + 1 \<le> i \<and> i < length ?F"
        then have "?F ! i = F ! i" "k < i" "i < length F" by auto
        then show "?F ! i \<noteq> [] \<longleftrightarrow> odd (n div 2 div 2 ^ (i - (k + 1)))"
          using "1.prems"(3) half [of i n] by simp
      qed
      from "1.IH" [OF True _ _ _ this, of j] show ?thesis using k "1.prems"(1,4) unfolding ck by simp
    qed
    also have "\<dots> \<longleftrightarrow> (if j < k then F ! j \<noteq> [] else odd ((n + 1) div 2 ^ (j - k)))"
    proof (cases "j = k")
      case False
      have "(n + 1) div 2 = n div 2 + 1" using True by presburger
      then show ?thesis using False half [of j "n + 1"] by auto
    qed (use True k in simp)
    finally show ?thesis .
  qed
qed

lemma append_carry:
  assumes "fst (append_merkle_subtree F h k n) \<noteq> []"
  shows "append_merkle_subtree F h k n = carry F k h (n div 2 ^ k)" "valid_sha256 h" "k < length F" "2 ^ k dvd n"
proof -
  have "valid_sha256 h \<and> k < length F \<and> n mod 2 ^ k = 0 \<and> append_merkle_subtree F h k n = carry F k h (n div 2 ^ k)"
    using assms by (auto simp: append_merkle_subtree_def Let_def split: if_splits)
  then show "append_merkle_subtree F h k n = carry F k h (n div 2 ^ k)" "valid_sha256 h" "k < length F" "2 ^ k dvd n"
    by (simp_all add: dvd_eq_mod_eq_0)
qed

lemma append_shape:
  assumes "fst (append_merkle_subtree F h k n) \<noteq> []" "frontier_shape F n"
  shows "frontier_shape (snd (append_merkle_subtree F h k n)) (n + 2 ^ k)"
proof -
  note c = append_carry [OF assms(1)]
  have h: "h \<noteq> []" using c(2) by auto
  have f: "fst (carry F k h (n div 2 ^ k)) \<noteq> []" using assms(1) c(1) by simp
  have F: "length F = 64" "\<And>j. j < 64 \<Longrightarrow> F ! j \<noteq> [] \<longleftrightarrow> odd (n div 2 ^ j)"
    using assms(2) by (auto simp: frontier_shape_def)
  have up: "x div 2 ^ k div 2 ^ (j - k) = x div 2 ^ j" if "k \<le> j" for x j :: nat
    using that by (simp add: div_mult2_eq [symmetric] flip: power_add)
  obtain q where q: "n = 2 ^ k * q" using c(4) by (rule dvdE)
  have suc: "(n + 2 ^ k) div 2 ^ k = n div 2 ^ k + 1" by simp
  have low: "odd ((n + 2 ^ k) div 2 ^ j) \<longleftrightarrow> odd (n div 2 ^ j)" if "j < k" for j
  proof -
    have "(2 :: nat) ^ k = 2 ^ j * (2 * 2 ^ (k - j - 1))"
      using that by (metis Suc_diff_Suc diff_Suc_1 diff_diff_left le_add_diff_inverse less_imp_le plus_1_eq_Suc add.commute power_Suc power_add)
    then have "(n + 2 ^ k) div 2 ^ j = n div 2 ^ j + 2 * 2 ^ (k - j - 1)" by simp
    then show ?thesis by simp
  qed
  have pre: "\<forall>j. k \<le> j \<and> j < length F \<longrightarrow> (F ! j \<noteq> [] \<longleftrightarrow> odd (n div 2 ^ k div 2 ^ (j - k)))"
    using F by (simp add: up)
  have "snd (carry F k h (n div 2 ^ k)) ! j \<noteq> [] \<longleftrightarrow> odd ((n + 2 ^ k) div 2 ^ j)" if "j < 64" for j
    using carry_shape [OF f h pre, of j] that F up [of j "n + 2 ^ k"] low [of j] by (auto simp: suc)
  then show ?thesis using F(1) by (simp add: frontier_shape_def c(1))
qed

section \<open>Undoing a run\<close>

lemma run_undo:
  assumes "append_subtrees F r x subs = Some p" "append_subtrees G r y usubs = Some q"
    "appended_fit r n subs" "map ms_level usubs = map ms_level subs"
    "length F = length G" "slots_sized F" "slots_sized G"
    "run_frontier F (unat r) subs = run_frontier G (unat r) usubs"
  shows "F = G \<or> texts_collide (run_texts F (unat r) subs) (run_texts G (unat r) usubs)"
  using assms
proof (induction subs arbitrary: F G r x y usubs)
  case (Cons s rest)
  obtain u urest where u: "usubs = u # urest" "ms_level u = ms_level s" "map ms_level urest = map ms_level rest"
    using Cons.prems(4) by (cases usubs) auto
  let ?k = "level_of s"
  let ?A = "append_merkle_subtree F (ms_hash s) ?k (unat r)" and ?B = "append_merkle_subtree G (ms_hash u) ?k (unat r)"
  have ne: "fst ?A \<noteq> []" "fst ?B \<noteq> []"
    using Cons.prems(1,2) by (auto simp: u split: prod.splits if_splits)
  have rest: "append_subtrees (snd ?A) (r + 2 ^ ?k) (fst ?A) rest = Some p"
    "append_subtrees (snd ?B) (r + 2 ^ ?k) (fst ?B) urest = Some q"
    using Cons.prems(1,2) ne by (auto simp: u subtree_size_power split: prod.splits if_splits)
  have fit: "appended_fit (r + 2 ^ ?k) n rest" "unat (r + 2 ^ ?k) = unat r + 2 ^ ?k"
    using Cons.prems(3) valid_level [of s] by (auto simp: appended_fit_Cons word_add_fits)
  note A = append_carry [OF ne(1)] and B = append_carry [OF ne(2)]
  have len: "length (ms_hash s) = 64" "length (ms_hash u) = 64" using A(2) B(2) by (simp_all add: valid_sha256_length)
  have sized: "slots_sized (snd ?A)" "slots_sized (snd ?B)"
    using carry_sized [OF Cons.prems(6) len(1)] carry_sized [OF Cons.prems(7) len(2)] by (simp_all add: A(1) B(1))
  have lens: "length (snd ?A) = length (snd ?B)" using Cons.prems(5) by (simp add: A(1) B(1))
  have "run_frontier (snd ?A) (unat (r + 2 ^ ?k)) rest = run_frontier (snd ?B) (unat (r + 2 ^ ?k)) urest"
    using Cons.prems(8) by (simp add: u fit(2))
  from Cons.IH [OF rest fit(1) u(3) lens sized this]
  show ?case
  proof
    assume "snd ?A = snd ?B"
    then have "F = G \<and> ms_hash s = ms_hash u \<or> texts_collide (carry_texts F ?k (ms_hash s) (unat r div 2 ^ ?k))
        (carry_texts G ?k (ms_hash u) (unat r div 2 ^ ?k))"
      using ne Cons.prems(5-7) len by (intro carry_undo) (simp_all add: A(1) B(1))
    then show ?thesis by (auto simp: u intro: texts_collide_append)
  qed (simp add: u fit(2) texts_collide_append)
qed simp

lemma run_keeps:
  assumes "append_subtrees F r x subs = Some p" "appended_fit r n subs" "frontier_shape F (unat r)" "slots_sized F"
  shows "frontier_shape (run_frontier F (unat r) subs) (unat n) \<and> slots_sized (run_frontier F (unat r) subs)"
  using assms
proof (induction subs arbitrary: F r x)
  case (Cons s rest)
  let ?k = "level_of s" and ?A = "append_merkle_subtree F (ms_hash s) (level_of s) (unat r)"
  have ne: "fst ?A \<noteq> []" using Cons.prems(1) by (auto split: prod.splits if_splits)
  have rest: "append_subtrees (snd ?A) (r + 2 ^ ?k) (fst ?A) rest = Some p"
    using Cons.prems(1) ne by (auto simp: subtree_size_power split: prod.splits if_splits)
  have fit: "appended_fit (r + 2 ^ ?k) n rest" "unat (r + 2 ^ ?k) = unat r + 2 ^ ?k"
    using Cons.prems(2) valid_level [of s] by (auto simp: appended_fit_Cons word_add_fits)
  have "slots_sized (snd ?A)"
    unfolding append_carry(1) [OF ne]
    by (rule carry_sized [OF Cons.prems(4) valid_sha256_length [OF append_carry(2) [OF ne]]])
  with Cons.IH [OF rest fit(1)] append_shape [OF ne Cons.prems(3)] show ?case by (simp add: fit(2))
qed simp

lemma fold_undo:
  assumes "list_all2 (\<lambda>x y. x = [] \<longleftrightarrow> y = []) F G" "slots_sized F" "slots_sized G"
    "hash_sized a" "hash_sized b" "a = [] \<longleftrightarrow> b = []" "foldl absorb_subtree a F = foldl absorb_subtree b G"
  shows "a = b \<and> F = G \<or> texts_collide (fold_texts a F) (fold_texts b G)"
  using assms
proof (induction F G arbitrary: a b rule: list_all2_induct)
  case (Cons x F y G)
  have sz: "slots_sized F" "slots_sized G" "hash_sized x" "hash_sized y" using Cons.prems(1,2) by simp_all
  show ?case
  proof (cases "x = [] \<or> a = []")
    case True
    then show ?thesis
      using Cons.IH [OF sz(1,2), of a b] Cons.IH [OF sz(1,2), of x y] Cons.prems(3-6) sz(3,4) Cons.hyps(1)
      by (cases "x = []") (auto simp: absorb_subtree_def)
  next
    case False
    then have ne: "x \<noteq> []" "y \<noteq> []" "a \<noteq> []" "b \<noteq> []" using Cons.hyps(1) Cons.prems(5) by auto
    have "foldl absorb_subtree (merkle_node_hash x a) F = foldl absorb_subtree (merkle_node_hash y b) G"
    proof -
      have "absorb_subtree a x = merkle_node_hash x a" "absorb_subtree b y = merkle_node_hash y b"
        using ne by (simp_all add: absorb_subtree_def)
      with Cons.prems(6) show ?thesis by simp
    qed
    then have "merkle_node_hash x a = merkle_node_hash y b \<and> F = G \<or>
        texts_collide (fold_texts (merkle_node_hash x a) F) (fold_texts (merkle_node_hash y b) G)"
      by (intro Cons.IH [OF sz(1,2)]) simp_all
    moreover have "length x = length y" using ne sz(3,4) by simp
    ultimately show ?thesis using ne node_hash_cases [of x a y b] by (auto intro: texts_collide_Cons)
  qed
qed simp

section \<open>Soundness\<close>

lemma frontier_matches_fill:
  assumes "frontier_matches n ks fs" "distinct ks" "\<forall>k\<in>set ks. k < 64 \<and> base ! k = []"
    "length base = 64" "slots_sized base"
  shows "length (foldl (\<lambda>fr s. fr[unat (ms_level s) := ms_hash s]) base fs) = 64 \<and>
    slots_sized (foldl (\<lambda>fr s. fr[unat (ms_level s) := ms_hash s]) base fs) \<and>
    (\<forall>j<64. (foldl (\<lambda>fr s. fr[unat (ms_level s) := ms_hash s]) base fs ! j \<noteq> []) =
       (if j \<in> set ks then odd (unat (drop_bit j n)) else base ! j \<noteq> []))"
  using assms
proof (induction ks arbitrary: base fs)
  case (Cons k ks)
  show ?case
  proof (cases "even (unat (drop_bit k n))")
    case True
    with Cons.IH [of fs base] Cons.prems show ?thesis by auto
  next
    case False
    then obtain f rest where f: "fs = f # rest" "ms_level f = of_nat k" "subtree_valid f" "frontier_matches n ks rest"
      using Cons.prems(1) by (cases fs) auto
    have lv: "level_of f = k" using f(2) Cons.prems(3) by simp
    have h: "length (ms_hash f) = 64" using f(3) by (simp add: subtree_valid_def valid_sha256_length)
    let ?base = "base[k := ms_hash f]"
    have sized: "slots_sized ?base" by (rule slots_sized_update [OF Cons.prems(5)]) (simp add: h)
    have b: "distinct ks" "\<forall>i\<in>set ks. i < 64 \<and> ?base ! i = []" "length ?base = 64"
      using Cons.prems(2-4) by (auto simp: nth_list_update)
    have "ms_hash f \<noteq> []" using h by auto
    then have "(?base ! j \<noteq> []) = (if j = k then odd (unat (drop_bit k n)) else base ! j \<noteq> [])" if "j < 64" for j
      using False that Cons.prems(4) by (cases "j = k") auto
    with Cons.IH [OF f(4) b sized] Cons.prems(2) show ?thesis by (auto simp: f(1) lv)
  qed
qed simp

lemma old_frontier_shape:
  assumes "frontier_matches n [0..<64] fs"
  shows "frontier_shape (frontier_of_subtrees fs) (unat n) \<and> slots_sized (frontier_of_subtrees fs)"
proof -
  have "unat (drop_bit j n) = unat n div 2 ^ j" for j
  proof -
    have "take_bit 64 (unat n) = unat n" by (rule take_bit_nat_eq_self) (rule unat_u64_less)
    then show ?thesis by (simp only: unsigned_drop_bit_eq) (simp add: drop_bit_eq_div)
  qed
  then show ?thesis
    using frontier_matches_fill [OF assms, of empty_frontier]
    by (simp add: frontier_shape_def frontier_of_subtrees_def empty_frontier_def)
qed

lemma true_frontier_shape:
  "length ids < 2 ^ 64 \<Longrightarrow> frontier_shape (frontier_at ids) (length ids) \<and> slots_sized (frontier_at ids)"
proof -
  assume l: "length ids < 2 ^ 64"
  have v: "\<forall>h\<in>set (map transparency_leaf_hash ids). valid_sha256 h" by (auto simp: valid_leaf_hash)
  have len: "length (frontier_at ids) = 64" using l by (intro length_frontier_of) simp
  have "hash_sized (frontier_at ids ! j)" if "j < 64" for j
    using frontier_bits [OF that v] valid_sha256_length by blast
  then have "slots_sized (frontier_at ids)" using len by (metis in_set_conv_nth)
  moreover have "frontier_shape (frontier_at ids) (length ids)"
    using frontier_bits [OF _ v] len by (simp add: frontier_shape_def)
  ultimately show ?thesis by simp
qed

lemma shapes_agree:
  "frontier_shape F n \<Longrightarrow> frontier_shape G n \<Longrightarrow> list_all2 (\<lambda>x y. x = [] \<longleftrightarrow> y = []) F G"
  by (auto simp: frontier_shape_def list_all2_conv_all_nth)

lemma honest_levels: "map ms_level (honest_blocks ids n subs) = map ms_level subs"
  by (induction ids n subs rule: honest_blocks.induct) simp_all

theorem compact_sound:
  assumes v: "verify_transparency_compact_consistency c i old new p = Inr ()"
    and root: "cp_root new = merkle_root ids" and tree: "unat (cp_size new) = length ids"
  defines "n \<equiv> unat (cp_size old)" and "F \<equiv> frontier_of_subtrees (cc_frontier p)"
  shows "n < length ids \<and> (cp_root old = merkle_root (take n ids)
     \<or> texts_collide (compact_texts F n (cc_appended p))
         (compact_texts (frontier_at (take n ids)) n (honest_blocks ids n (cc_appended p))))"
proof -
  let ?G = "frontier_at (take n ids)" and ?subs = "cc_appended p" and ?h = "honest_blocks ids n (cc_appended p)"
  have ok: "compact_proof_valid p" "cc_old_size p = cp_size old" "cc_new_size p = cp_size new"
    "frontier_root F = cp_root old"
    using v by (auto simp: verify_transparency_compact_consistency_def F_def rbind_eq_Inr split: if_splits)
  obtain m reached where run: "append_subtrees F (cc_old_size p) (cp_root old) ?subs = Some (m, reached)" "reached = cp_root new"
    using v by (auto simp: verify_transparency_compact_consistency_def F_def rbind_eq_Inr split: if_splits option.splits)
  have valid: "frontier_matches (cc_old_size p) [0..<64] (cc_frontier p)" "appended_fit (cp_size old) (cp_size new) ?subs"
    "cc_old_size p < cc_new_size p" "?subs \<noteq> []" "0 < cc_old_size p"
    using ok(1-3) by (auto simp: compact_proof_valid_def word_neq_0_conv split: if_splits)
  have len: "length ids < 2 ^ 64" using tree unat_u64_less [of "cp_size new"] by simp
  have nw: "cp_size new = of_nat (length ids)" using tree unat_u64_of_nat [OF len] by (simp add: word_unat_eq_iff)
  have lt: "n < length ids" using valid(3) ok(2,3) tree by (simp add: n_def word_less_nat_alt)
  have n: "unat (cp_size old) = n" by (simp add: n_def)
  have shapeF: "frontier_shape F n" "slots_sized F"
    using old_frontier_shape [OF valid(1)] ok(2) by (simp_all add: F_def n_def)
  have shapeG: "frontier_shape ?G n" "slots_sized ?G"
    using true_frontier_shape [of "take n ids"] lt len by simp_all
  note fit = valid(2) [unfolded nw]
  note honest = honest_run [OF fit len, of "cp_root old", unfolded n, OF less_imp_le [OF lt]]
  then have hrun: "append_subtrees ?G (cp_size old) (cp_root old) ?h = Some (of_nat (length ids), merkle_root ids)"
    using valid(4) by simp
  note Fend = append_subtrees_run [OF run(1) [unfolded ok(2)] valid(2)]
  have Froot: "frontier_root (run_frontier F n ?subs) = merkle_root ids"
    using Fend run(2) valid(4) root by (simp add: n_def)
  have Gend: "run_frontier ?G n ?h = frontier_at ids" using honest by simp
  have Groot: "frontier_root (frontier_at ids) = merkle_root ids"
    using lt by (subst frontier_root_climb) (auto simp: merkle_root_def)
  have shapes: "frontier_shape (run_frontier F n ?subs) (length ids)" "slots_sized (run_frontier F n ?subs)"
    using run_keeps [OF run(1) [unfolded ok(2)] valid(2)] shapeF tree by (simp_all add: n_def)
  have "[] = ([] :: string) \<and> run_frontier F n ?subs = frontier_at ids \<or>
      texts_collide (fold_texts [] (run_frontier F n ?subs)) (fold_texts [] (frontier_at ids))"
    using shapes true_frontier_shape [OF len] Froot Groot
    by (intro fold_undo shapes_agree) (auto simp: frontier_root_def)
  then have "F = ?G \<or> texts_collide (compact_texts F n ?subs) (compact_texts ?G n ?h)"
  proof
    assume "[] = ([] :: string) \<and> run_frontier F n ?subs = frontier_at ids"
    then have "F = ?G \<or> texts_collide (run_texts F (unat (cp_size old)) ?subs) (run_texts ?G (unat (cp_size old)) ?h)"
      using shapeF shapeG Gend
      by (intro run_undo [OF run(1) [unfolded ok(2)] hrun valid(2) honest_levels]) (auto simp: n frontier_shape_def)
    then show ?thesis by (auto simp: n compact_texts_def intro: texts_collide_append)
  qed (simp add: compact_texts_def Gend texts_collide_append)
  moreover have "F = ?G \<Longrightarrow> cp_root old = merkle_root (take n ids)"
  proof -
    assume "F = ?G"
    moreover have "0 < n" using valid(5) ok(2) by (simp add: n_def word_less_nat_alt)
    moreover have "frontier_root ?G = climb (map transparency_leaf_hash (take n ids))" if "0 < n"
      using lt that by (intro frontier_root_climb) auto
    ultimately show ?thesis using ok(4) lt by (auto simp: merkle_root_def)
  qed
  ultimately show ?thesis using lt by blast
qed

end
