(* ===== verification/Transparency_Example.thy ===== *)
theory Transparency_Example
  imports Publish_Laws Compact_Sound
begin

text \<open>
  A concrete log with two published deployment anchors, under a toy signature scheme whose
  signatures are 64 zero bytes.
\<close>

definition demo_signer :: ed25519 where
  "demo_signer = \<lparr>ed_sign = \<lambda>key text. replicate 64 0, ed_check = \<lambda>s key text. s = replicate 64 0,
     ed_key_pair = \<lambda>seed. (seed @ replicate 32 1, replicate 32 1)\<rparr>"

definition demo_secret :: "u8 list" where
  "demo_secret = replicate 64 7"

definition demo_identity :: log_identity where
  "demo_identity =
     (let i = \<lparr>ti_schema = 1, ti_id = [], ti_namespace = ''cell'', ti_service = ''log'', ti_key = sha256 ''key'',
               ti_public_key = replicate 32 9\<rparr>
      in i\<lparr>ti_id := transparency_log_identity_value i\<rparr>)"

definition demo_anchor :: deployment_anchor where
  "demo_anchor =
     (let d = sha256 ''digest'';
          a = \<lparr>da_schema = 1, da_id = [], da_deployment = ''arm'', da_profile = d, da_approval = d, da_robot = d,
               da_controller = d, da_platform = d, da_runtime = d, da_trust_root = d, da_trust_checkpoint = d,
               da_trust_bundle = d, da_trust_sequence = 1, da_trust_head = d\<rparr>
      in a\<lparr>da_id := deployment_transparency_anchor_identity a\<rparr>)"

definition demo_empty_log :: transparency_log where
  "demo_empty_log = \<lparr>tl_directory = ''log'', tl_identity = demo_identity, tl_records = [], tl_checkpoint_id = [],
     tl_root_hash = [], tl_frontier = empty_frontier,
     tl_options = \<lparr>lo_maximum_records = 10, lo_maximum_per_observation = 10, lo_maximum_total = 10\<rparr>\<rparr>"

definition demo_publish :: "transparency_log \<Rightarrow> transparency_log \<times> log_record" where
  "demo_publish l = projr (publish_deployment_anchor demo_signer (Inr ()) (Inr l) (\<lambda>_. Inr ()) l demo_anchor
     demo_secret (tl_checkpoint_id l))"

definition demo_log1 :: transparency_log where "demo_log1 = fst (demo_publish demo_empty_log)"
definition demo_log2 :: transparency_log where "demo_log2 = fst (demo_publish demo_log1)"

lemma demo_valid_texts: "valid_text ''cell''" "valid_text ''log''" "valid_text ''arm''"
  by code_simp+

lemma identified_log:
  assumes "ti_schema i = 1" "valid_text (ti_namespace i)" "valid_text (ti_service i)" "valid_sha256 (ti_key i)"
  shows "log_identity_valid (i\<lparr>ti_id := transparency_log_identity_value i\<rparr>)"
proof -
  have "transparency_log_identity_value (i\<lparr>ti_id := x\<rparr>) = transparency_log_identity_value i" for x
    by (simp add: transparency_log_identity_value_def transparency_identity_json_def)
  moreover have "valid_sha256 (transparency_log_identity_value i)" by (simp add: transparency_log_identity_value_def)
  ultimately show ?thesis using assms by (simp add: log_identity_valid_def)
qed

lemma identified_anchor:
  assumes "da_schema a = 1" "valid_text (da_deployment a)" "0 < da_trust_sequence a"
    "list_all valid_sha256 [da_profile a, da_approval a, da_robot a, da_controller a, da_platform a, da_runtime a,
       da_trust_root a, da_trust_checkpoint a, da_trust_bundle a, da_trust_head a]"
  shows "deployment_anchor_valid (a\<lparr>da_id := deployment_transparency_anchor_identity a\<rparr>)"
proof -
  have "deployment_transparency_anchor_identity (a\<lparr>da_id := x\<rparr>) = deployment_transparency_anchor_identity a" for x
    by (simp add: deployment_transparency_anchor_identity_def deployment_anchor_json_def)
  moreover have "valid_sha256 (deployment_transparency_anchor_identity a)"
    by (simp add: deployment_transparency_anchor_identity_def)
  ultimately show ?thesis using assms by (simp add: deployment_anchor_valid_def)
qed

lemma demo_identity_valid: "log_identity_valid demo_identity"
  unfolding demo_identity_def Let_def by (rule identified_log) (simp_all add: demo_valid_texts)

lemma demo_anchor_valid: "deployment_anchor_valid demo_anchor"
  unfolding demo_anchor_def Let_def by (rule identified_anchor) (simp_all add: demo_valid_texts)

lemma demo_honest: "honest_signer demo_signer demo_secret (ti_public_key demo_identity)"
  by (simp add: honest_signer_def demo_signer_def demo_secret_def demo_identity_def Let_def)

lemma demo_empty_valid: "log_valid demo_signer demo_empty_log" "log_typed demo_empty_log"
  by (simp_all add: log_valid_def log_typed_def demo_empty_log_def demo_identity_valid empty_frontier_def list_all_iff)

text \<open>One more anchor on a demo log.\<close>

definition demo_ok :: "transparency_log \<Rightarrow> nat \<Rightarrow> bool" where
  "demo_ok l n \<longleftrightarrow> log_valid demo_signer l \<and> log_typed l \<and> tl_identity l = demo_identity \<and>
     tl_options l = tl_options demo_empty_log \<and> length (tl_records l) = n"

lemma publish_keeps_options:
  assumes "publish_leaf c lock (Inr f) appended l leaf sk expected = Inr (l', r)"
  shows "tl_options l' = tl_options f"
proof -
  obtain root' fr' where a: "append_merkle_leaf (tl_frontier f)
     (lf_id (placed_leaf (tl_identity l) (length (tl_records f)) leaf)) (length (tl_records f)) = (root', fr')"
    by fastforce
  with assms show ?thesis
    by (auto simp: publish_leaf_def Let_def rbind_eq_Inr split: if_splits)
qed

lemma demo_publish_ok:
  assumes "demo_ok l n" "n < 10"
  shows "demo_ok (fst (demo_publish l)) (Suc n)"
    "publish_deployment_anchor demo_signer (Inr ()) (Inr l) (\<lambda>_. Inr ()) l demo_anchor demo_secret (tl_checkpoint_id l)
       = Inr (demo_publish l)"
proof -
  have ok: "log_valid demo_signer l" "log_typed l" "tl_identity l = demo_identity" "tl_options l = tl_options demo_empty_log"
    "length (tl_records l) = n" using assms(1) by (simp_all add: demo_ok_def)
  obtain l' r where p: "publish_deployment_anchor demo_signer (Inr ()) (Inr l) (\<lambda>_. Inr ()) l demo_anchor demo_secret
      (tl_checkpoint_id l) = Inr (l', r)"
    using publish_anchor_succeeds [OF ok(1,2) _ _ _ demo_anchor_valid, of demo_secret "\<lambda>_. Inr ()"]
      demo_honest ok assms(2) by (auto simp: demo_empty_log_def)
  then show "publish_deployment_anchor demo_signer (Inr ()) (Inr l) (\<lambda>_. Inr ()) l demo_anchor demo_secret
      (tl_checkpoint_id l) = Inr (demo_publish l)" by (simp add: demo_publish_def)
  have l': "fst (demo_publish l) = l'" using p by (simp add: demo_publish_def)
  from p have q: "publish_leaf demo_signer (Inr ()) (Inr l) (\<lambda>_. Inr ()) l (anchor_leaf demo_anchor) demo_secret
      (tl_checkpoint_id l) = Inr (l', r)"
    by (simp add: publish_deployment_anchor_def demo_anchor_valid)
  then show "demo_ok (fst (demo_publish l)) (Suc n)"
    unfolding l' using publish_keeps_options [OF q] ok
    by (elim publish_leaf_cases) (simp add: demo_ok_def log_typed_def)
qed

lemma demo_empty_ok: "demo_ok demo_empty_log 0"
  using demo_empty_valid by (simp add: demo_ok_def) (simp add: demo_empty_log_def)

lemma demo_log1_ok: "demo_ok demo_log1 1"
  using demo_publish_ok(1) [OF demo_empty_ok] by (simp add: demo_log1_def)

lemma demo_log2_ok: "demo_ok demo_log2 2"
  using demo_publish_ok(1) [OF demo_log1_ok] by (simp add: demo_log2_def eval_nat_numeral)

lemma demo_log2_facts: "log_valid demo_signer demo_log2" "log_typed demo_log2" "length (tl_records demo_log2) = 2"
  "tl_identity demo_log2 = demo_identity"
  using demo_log2_ok by (simp_all add: demo_ok_def)

text \<open>The two publications as steps, and the proofs of the second log.\<close>

lemma demo_publish_step:
  assumes "demo_ok l n" "n < 10"
  shows "log_step demo_signer l (fst (demo_publish l))"
proof -
  obtain l' r where p: "demo_publish l = (l', r)" by force
  have "publish_leaf demo_signer (Inr ()) (Inr l) (\<lambda>_. Inr ()) l (anchor_leaf demo_anchor) demo_secret
      (tl_checkpoint_id l) = Inr (l', r)"
    using demo_publish_ok(2) [OF assms] by (simp add: publish_deployment_anchor_def demo_anchor_valid p)
  then show ?thesis using assms(1) by (auto simp: demo_ok_def p intro: log_publish)
qed

lemma demo_steps: "(log_step demo_signer)\<^sup>*\<^sup>* demo_empty_log demo_log2"
  using demo_publish_step [OF demo_empty_ok] demo_publish_step [OF demo_log1_ok]
  by (simp add: demo_log1_def demo_log2_def)

abbreviation "demo_head \<equiv> rc_checkpoint (last (tl_records demo_log2))"

lemma demo_last: "last (tl_records demo_log2) = tl_records demo_log2 ! 1"
  using demo_log2_facts(3) by (subst last_conv_nth) auto

lemma demo_head_root: "cp_root demo_head = merkle_root (leaf_ids demo_log2)"
  using record_checkpoint(1) [OF demo_log2_facts(1,2), of 1] demo_log2_facts(3) by (simp add: demo_last)

lemma demo_head_size: "unat (cp_size demo_head) = length (leaf_ids demo_log2)"
  using record_checkpoint(2) [OF demo_log2_facts(1,2), of 1] demo_log2_facts(3) by (simp add: demo_last)

lemma demo_inclusion: "verify_transparency_inclusion demo_signer demo_identity demo_head
    (rc_leaf (tl_records demo_log2 ! 0)) (make_inclusion_proof demo_log2 0) = Inr ()"
  using inclusion_complete [OF demo_log2_facts(1,2), of 0] demo_log2_facts(3,4)
  by (auto simp: log_inclusion_proof_def Let_def rbind_eq_Inr split: if_splits)

lemma demo_consistency: "verify_transparency_consistency demo_signer demo_identity
    (rc_checkpoint (tl_records demo_log2 ! 0)) demo_head (make_consistency_witness demo_log2 1) = Inr ()"
  using consistency_complete [OF demo_log2_facts(1,2), of 1] demo_log2_facts(3,4)
  by (auto simp: log_consistency_witness_def Let_def rbind_eq_Inr split: if_splits)

lemma demo_compact: "verify_transparency_compact_consistency demo_signer demo_identity
    (rc_checkpoint (tl_records demo_log2 ! 0)) demo_head (honest_proof demo_log2 1) = Inr ()"
  using compact_complete [OF demo_log2_facts(1,2), of 1] demo_log2_facts(3,4)
  by (auto simp: log_compact_consistency_proof_def Let_def honest_proof_def rbind_eq_Inr split: if_splits option.splits)

text \<open>The same log read into another directory.\<close>

definition demo_copy :: transparency_log where
  "demo_copy = demo_log2\<lparr>tl_directory := ''copy''\<rparr>"

lemma demo_copy_valid: "log_valid demo_signer demo_copy" "log_typed demo_copy"
  using demo_log2_facts(1,2) by (auto simp: demo_copy_def log_valid_def log_typed_def split: if_splits option.splits)

text \<open>An attestation of a service, with one key for all services.\<close>

definition demo_attestation :: "string \<Rightarrow> attestation" where
  "demo_attestation service = \<lparr>ra_schema = 1, ra_id = [], ra_observation = [], ra_service = service,
     ra_key = sha256 ''key'', ra_algorithm = Ed25519, ra_tag = []\<rparr>"

end
