(* ===== verification/Trust.thy ===== *)
theory Trust
  imports Runtime_Records
begin

text \<open>
  Service trust bundles of \<^verbatim>\<open>src/identity.cpp\<close> and \<^verbatim>\<open>include/rbfsafe/identity.h\<close>: the public keys of
  services with their lifecycle, bundles of keys in a chain of successors, and the signed
  authorizations a successor needs.
\<close>

section \<open>Keys\<close>

datatype key_state = KeyPending | KeyActive | KeyRetired | KeyRevoked

fun key_state_code :: "key_state \<Rightarrow> nat" where
  "key_state_code KeyPending = 0"
| "key_state_code KeyActive = 1"
| "key_state_code KeyRetired = 2"
| "key_state_code KeyRevoked = 3"

definition valid_key_state :: "key_state \<Rightarrow> bool" where
  "valid_key_state s \<longleftrightarrow> key_state_code KeyPending \<le> key_state_code s \<and> key_state_code s \<le> key_state_code KeyRevoked"

record service_key =
  sk_id :: string
  sk_service :: string
  sk_algorithm :: algorithm
  sk_public :: "u8 list"
  sk_from :: u64
  sk_through :: u64
  sk_state :: key_state
  sk_fetch :: bool
  sk_publish :: bool
  sk_rotate :: bool

definition key_material_json :: "service_key \<Rightarrow> json" where
  "key_material_json k = json_object
     [(''algorithm'', json_int (algorithm_code (sk_algorithm k))),
      (''format'', JStr ''rbfsafe-service-public-key''), (''public_key'', JStr (encode_hex (sk_public k))),
      (''schema'', json_int 1), (''service_id'', JStr (sk_service k))]"

definition service_public_key_identity :: "service_key \<Rightarrow> string" where
  "service_public_key_identity k = sha256 (identity_text ''rbfsafe-service-public-key-v1'' (key_material_json k))"

definition key_json :: "service_key \<Rightarrow> u32 \<Rightarrow> json" where
  "key_json k schema = json_object
     ([(''algorithm'', json_int (algorithm_code (sk_algorithm k))), (''allow_fetch'', JBool (sk_fetch k)),
       (''allow_publish'', JBool (sk_publish k)), (''id'', JStr (sk_id k)),
       (''public_key'', JStr (encode_hex (sk_public k))), (''service_id'', JStr (sk_service k)),
       (''state'', json_int (key_state_code (sk_state k))),
       (''valid_from_sequence'', JStr (to_string (sk_from k))),
       (''valid_through_sequence'', JStr (to_string (sk_through k)))] @
      (if schema \<ge> 2 then [(''allow_rotate'', JBool (sk_rotate k))] else []))"

definition valid_service_public_key :: "service_key \<Rightarrow> bool" where
  "valid_service_public_key k \<longleftrightarrow>
     valid_sha256 (sk_id k) \<and> valid_text (sk_service k) \<and> sk_algorithm k = Ed25519 \<and>
     list_ex (\<lambda>b. b \<noteq> 0) (sk_public k) \<and> sk_from k > 0 \<and>
     (sk_through k = 0 \<or> sk_through k \<ge> sk_from k) \<and> valid_key_state (sk_state k) \<and>
     (sk_fetch k \<or> sk_publish k \<or> sk_rotate k) \<and> (sk_state k \<noteq> KeyRetired \<or> sk_through k \<noteq> 0) \<and>
     service_public_key_identity k = sk_id k"

definition make_service_public_key ::
  "string \<Rightarrow> u8 list \<Rightarrow> u64 \<Rightarrow> u64 \<Rightarrow> key_state \<Rightarrow> bool \<Rightarrow> bool \<Rightarrow> bool \<Rightarrow> service_key result" where
  "make_service_public_key service public_key valid_from valid_through st fetch pub rot =
     (if \<not> valid_text service \<or> length public_key \<noteq> kEd25519PublicKeyBytes \<or> valid_from = 0 \<or>
         (valid_through \<noteq> 0 \<and> valid_through < valid_from) \<or> \<not> valid_key_state st \<or>
         (\<not> fetch \<and> \<not> pub \<and> \<not> rot) \<or> (st = KeyRetired \<and> valid_through = 0)
      then failure InvalidArgument ''service public-key input is invalid'' []
      else (let k = \<lparr>sk_id = [], sk_service = service, sk_algorithm = Ed25519, sk_public = public_key,
                     sk_from = valid_from, sk_through = valid_through, sk_state = st, sk_fetch = fetch,
                     sk_publish = pub, sk_rotate = rot\<rparr>;
                k = k\<lparr>sk_id := service_public_key_identity k\<rparr>
            in if \<not> valid_service_public_key k
               then failure InvalidArgument ''service public key is invalid'' [] else Inr k))"

definition same_immutable_key_policy :: "service_key \<Rightarrow> service_key \<Rightarrow> bool" where
  "same_immutable_key_policy p n \<longleftrightarrow>
     sk_id p = sk_id n \<and> sk_service p = sk_service n \<and> sk_algorithm p = sk_algorithm n \<and>
     sk_public p = sk_public n \<and> sk_from p = sk_from n \<and> sk_fetch p = sk_fetch n \<and>
     sk_publish p = sk_publish n \<and> sk_rotate p = sk_rotate n"

fun valid_state_transition :: "key_state \<Rightarrow> key_state \<Rightarrow> bool" where
  "valid_state_transition KeyPending n = (n = KeyPending \<or> n = KeyActive \<or> n = KeyRevoked)"
| "valid_state_transition KeyActive n = (n = KeyActive \<or> n = KeyRetired \<or> n = KeyRevoked)"
| "valid_state_transition KeyRetired n = (n = KeyRetired \<or> n = KeyRevoked)"
| "valid_state_transition KeyRevoked n = (n = KeyRevoked)"

definition validate_rotation :: "service_key \<Rightarrow> service_key \<Rightarrow> unit result" where
  "validate_rotation p n =
     (if \<not> same_immutable_key_policy p n \<or> \<not> valid_state_transition (sk_state p) (sk_state n)
      then failure IdentityMismatch ''service trust-bundle key policy or state transition is invalid'' (sk_id p)
      else if sk_through p \<noteq> 0 \<and> sk_through n \<noteq> sk_through p
      then failure IdentityMismatch ''service key validity cannot change after its upper bound is fixed'' (sk_id p)
      else if sk_through p = 0 \<and> sk_through n \<noteq> 0 \<and> sk_through n < sk_from n
      then failure IdentityMismatch ''service key rotation introduced an invalid sequence window'' (sk_id p)
      else if sk_state n = KeyRetired \<and> sk_through n = 0
      then failure IdentityMismatch ''retired service keys require a finite validity window'' (sk_id p)
      else Inr ())"

text \<open>\<open>validate_signing_key\<close>: the secret key is the seed followed by the public half.\<close>

definition validate_signing_key :: "ed25519 \<Rightarrow> string \<Rightarrow> string \<Rightarrow> u8 list \<Rightarrow> unit result" where
  "validate_signing_key c service key_id secret_key =
     (if \<not> valid_sha256 key_id \<or> length secret_key \<noteq> kEd25519SecretKeyBytes
      then failure InvalidArgument ''Ed25519 transfer signing key or key ID is invalid'' []
      else (let derived_public = snd (ed_key_pair c (take kEd25519SeedBytes secret_key))
            in if derived_public \<noteq> take kEd25519PublicKeyBytes (drop kEd25519SeedBytes secret_key)
               then failure IdentityMismatch ''Ed25519 secret key seed and public half do not match'' key_id
               else rbind (make_service_public_key service derived_public 1 0 KeyPending True True False) (\<lambda>derived.
                 if sk_id derived \<noteq> key_id
                 then failure IdentityMismatch ''Ed25519 secret key does not match the service key ID'' key_id
                 else Inr ())))"

section \<open>Bundles\<close>

record rotation_policy =
  rot_minimum :: u32
  rot_distinct :: bool

record trust_bundle =
  tb_sequence :: u64
  tb_schema :: u32
  tb_id :: string
  tb_parent :: string
  tb_keys :: "service_key list"
  tb_policy :: rotation_policy

definition default_rotation_policy :: rotation_policy where
  "default_rotation_policy = \<lparr>rot_minimum = 1, rot_distinct = False\<rparr>"

definition rotation_policy_json :: "rotation_policy \<Rightarrow> json" where
  "rotation_policy_json p = json_object
     [(''minimum_signatures'', JNum (f64_of_nat (unat (rot_minimum p)))),
      (''require_distinct_services'', JBool (rot_distinct p))]"

definition trust_bundle_json :: "trust_bundle \<Rightarrow> json" where
  "trust_bundle_json b = json_object
     ([(''format'', JStr ''rbfsafe-service-trust-bundle''),
       (''keys'', JArr (map (\<lambda>k. key_json k (tb_schema b)) (tb_keys b))), (''parent_id'', JStr (tb_parent b)),
       (''schema'', json_int (unat (tb_schema b))), (''sequence'', JStr (to_string (tb_sequence b)))] @
      (if tb_schema b \<ge> 3 then [(''rotation_policy'', rotation_policy_json (tb_policy b))] else []))"

definition service_trust_bundle_identity :: "trust_bundle \<Rightarrow> string" where
  "service_trust_bundle_identity b = sha256 (canonical (trust_bundle_json b))"

definition valid_service_trust_rotation_policy :: "rotation_policy \<Rightarrow> bool" where
  "valid_service_trust_rotation_policy p \<longleftrightarrow> rot_minimum p > 0 \<and> rot_minimum p \<le> 100000"

definition key_less :: "service_key \<Rightarrow> service_key \<Rightarrow> bool" where
  "key_less a b = (if sk_service a \<noteq> sk_service b then sk_service a < sk_service b else sk_id a < sk_id b)"

text \<open>The second element of the first two neighbours with the same key, for the checks of duplicates.\<close>

fun neighbour_duplicate :: "('a \<Rightarrow> 'b) \<Rightarrow> 'a list \<Rightarrow> 'a option" where
  "neighbour_duplicate f (x # y # zs) = (if f x = f y then Some y else neighbour_duplicate f (y # zs))"
| "neighbour_duplicate f _ = None"

definition create_trust_bundle :: "u64 \<Rightarrow> string \<Rightarrow> service_key list \<Rightarrow> trust_bundle result" where
  "create_trust_bundle seq parent ks =
     (if seq = 0 \<or> ks = [] \<or> (seq = 1 \<and> parent \<noteq> []) \<or> (seq > 1 \<and> \<not> valid_sha256 parent)
      then failure InvalidArgument ''service trust-bundle input is invalid'' []
      else case find (\<lambda>k. \<not> valid_service_public_key k) ks of
          Some k \<Rightarrow> failure InvalidArgument ''service trust bundle contains an invalid key'' (sk_id k)
        | None \<Rightarrow>
            (let ks = sort_by key_less ks
             in case neighbour_duplicate (\<lambda>k. (sk_service k, sk_id k)) ks of
                 Some k \<Rightarrow> failure InvalidArgument ''service trust bundle contains a duplicate key'' (sk_id k)
               | None \<Rightarrow>
                   (let b = \<lparr>tb_sequence = seq, tb_schema = 2, tb_id = [], tb_parent = parent, tb_keys = ks,
                             tb_policy = default_rotation_policy\<rparr>
                    in Inr (b\<lparr>tb_id := service_trust_bundle_identity b\<rparr>))))"

definition trust_bundle_valid :: "trust_bundle \<Rightarrow> bool" where
  "trust_bundle_valid b \<longleftrightarrow>
     (tb_schema b = 1 \<or> tb_schema b = 2 \<or> tb_schema b = 3) \<and> tb_sequence b \<noteq> 0 \<and> tb_keys b \<noteq> [] \<and>
     (tb_sequence b = 1 \<longrightarrow> tb_parent b = []) \<and> (tb_sequence b > 1 \<longrightarrow> valid_sha256 (tb_parent b)) \<and>
     valid_sha256 (tb_id b) \<and> valid_service_trust_rotation_policy (tb_policy b) \<and>
     (tb_schema b < 3 \<longrightarrow> rot_minimum (tb_policy b) = 1 \<and> \<not> rot_distinct (tb_policy b)) \<and>
     list_all (\<lambda>k. valid_service_public_key k \<and> \<not> (tb_schema b = 1 \<and> sk_rotate k)) (tb_keys b) \<and>
     successively key_less (tb_keys b) \<and> service_trust_bundle_identity b = tb_id b"

definition create_with_rotation_policy ::
  "u64 \<Rightarrow> string \<Rightarrow> service_key list \<Rightarrow> rotation_policy \<Rightarrow> trust_bundle result" where
  "create_with_rotation_policy seq parent ks p =
     (if \<not> valid_service_trust_rotation_policy p
      then failure InvalidArgument ''service trust-bundle rotation policy is invalid'' []
      else rbind (create_trust_bundle seq parent ks) (\<lambda>b.
        let b = b\<lparr>tb_schema := 3, tb_policy := p\<rparr>; b = b\<lparr>tb_id := service_trust_bundle_identity b\<rparr>
        in if \<not> trust_bundle_valid b
           then failure InvalidArgument ''service trust-bundle rotation policy is inconsistent'' []
           else Inr b))"

definition find_key :: "service_key list \<Rightarrow> string \<Rightarrow> string \<Rightarrow> service_key option" where
  "find_key ks service key_id = find (\<lambda>k. sk_service k = service \<and> sk_id k = key_id) ks"

definition bundle_key :: "trust_bundle \<Rightarrow> string \<Rightarrow> string \<Rightarrow> service_key option result" where
  "bundle_key b service key_id =
     (if \<not> trust_bundle_valid b \<or> \<not> valid_text service \<or> \<not> valid_sha256 key_id
      then failure InvalidArgument ''service trust-bundle lookup input is invalid'' []
      else Inr (find_key (tb_keys b) service key_id))"

section \<open>Successors\<close>

text \<open>The loop over the keys of the predecessor.\<close>

fun check_replacements :: "trust_bundle \<Rightarrow> service_key list \<Rightarrow> unit result" where
  "check_replacements successor [] = Inr ()"
| "check_replacements successor (k # ks) =
     rbind (bundle_key successor (sk_service k) (sk_id k)) (\<lambda>replacement.
       case replacement of
         None \<Rightarrow> failure IdentityMismatch ''service trust-bundle rotation removed an existing key'' (sk_id k)
       | Some n \<Rightarrow> rbind (validate_rotation k n) (\<lambda>_. check_replacements successor ks))"

definition validate_service_trust_bundle_rotation :: "trust_bundle \<Rightarrow> trust_bundle \<Rightarrow> unit result" where
  "validate_service_trust_bundle_rotation p s =
     (if \<not> trust_bundle_valid p \<or> \<not> trust_bundle_valid s
      then failure InvalidArgument ''service trust-bundle rotation input is invalid'' []
      else if tb_sequence p = - 1 \<or> tb_sequence s \<noteq> tb_sequence p + 1 \<or> tb_parent s \<noteq> tb_id p \<or>
         tb_schema s \<noteq> tb_schema p \<or> rot_minimum (tb_policy s) \<noteq> rot_minimum (tb_policy p) \<or>
         rot_distinct (tb_policy s) \<noteq> rot_distinct (tb_policy p)
      then failure IdentityMismatch ''service trust-bundle successor link is invalid'' (tb_id s)
      else check_replacements s (tb_keys p))"

definition rotate_service_trust_bundle :: "trust_bundle \<Rightarrow> service_key list \<Rightarrow> trust_bundle result" where
  "rotate_service_trust_bundle p ks =
     (if \<not> trust_bundle_valid p \<or> tb_sequence p = - 1
      then failure InvalidArgument ''previous service trust bundle is invalid or exhausted'' []
      else rbind (if tb_schema p \<ge> 3
                  then create_with_rotation_policy (tb_sequence p + 1) (tb_id p) ks (tb_policy p)
                  else create_trust_bundle (tb_sequence p + 1) (tb_id p) ks) (\<lambda>s.
        rbind (validate_service_trust_bundle_rotation p s) (\<lambda>_. Inr s)))"

definition rotation_key_is_authorized :: "service_key \<Rightarrow> u64 \<Rightarrow> bool" where
  "rotation_key_is_authorized k seq \<longleftrightarrow>
     sk_state k = KeyActive \<and> sk_rotate k \<and> seq \<ge> sk_from k \<and> (sk_through k = 0 \<or> seq \<le> sk_through k)"

section \<open>Authorizations of a successor\<close>

record bundle_authorization =
  ba_id :: string
  ba_predecessor :: string
  ba_successor :: string
  ba_predecessor_sequence :: u64
  ba_successor_sequence :: u64
  ba_service :: string
  ba_key :: string
  ba_algorithm :: algorithm
  ba_tag :: string

definition bundle_authorization_json :: "bundle_authorization \<Rightarrow> json" where
  "bundle_authorization_json a = json_object
     [(''algorithm'', json_int (algorithm_code (ba_algorithm a))),
      (''format'', JStr ''rbfsafe-service-trust-bundle-authorization''),
      (''predecessor_bundle_id'', JStr (ba_predecessor a)),
      (''predecessor_sequence'', JStr (to_string (ba_predecessor_sequence a))), (''schema'', json_int 1),
      (''signer_key_id'', JStr (ba_key a)), (''signer_service_id'', JStr (ba_service a)),
      (''successor_bundle_id'', JStr (ba_successor a)),
      (''successor_sequence'', JStr (to_string (ba_successor_sequence a)))]"

definition service_trust_bundle_authorization_message :: "bundle_authorization \<Rightarrow> string" where
  "service_trust_bundle_authorization_message a =
     identity_text ''rbfsafe-service-trust-bundle-authorization-v1'' (bundle_authorization_json a)"

definition service_trust_bundle_authorization_identity :: "bundle_authorization \<Rightarrow> string" where
  "service_trust_bundle_authorization_identity a =
     sha256 (''rbfsafe-service-trust-bundle-authorization-identity-v1'' @ [CHR 0x0A] @
       service_trust_bundle_authorization_message a @ [CHR 0x0A] @ ba_tag a)"

definition valid_service_trust_bundle_authorization :: "bundle_authorization \<Rightarrow> bool" where
  "valid_service_trust_bundle_authorization a \<longleftrightarrow>
     ba_predecessor_sequence a \<noteq> - 1 \<and> valid_sha256 (ba_id a) \<and> valid_sha256 (ba_predecessor a) \<and>
     valid_sha256 (ba_successor a) \<and> ba_predecessor_sequence a > 0 \<and>
     ba_successor_sequence a = ba_predecessor_sequence a + 1 \<and> valid_text (ba_service a) \<and>
     valid_sha256 (ba_key a) \<and> ba_algorithm a = Ed25519 \<and>
     has_value (decode_hex (ba_tag a) kEd25519SignatureBytes) \<and>
     service_trust_bundle_authorization_identity a = ba_id a"

definition not_authorized :: "string \<Rightarrow> 'a result" where
  "not_authorized i = failure IdentityMismatch ''service key is not authorized for trust-bundle rotation'' i"

definition verify_rotation_authorization_binding ::
  "ed25519 \<Rightarrow> trust_bundle \<Rightarrow> trust_bundle \<Rightarrow> bundle_authorization \<Rightarrow> unit result" where
  "verify_rotation_authorization_binding c p s a =
     (if \<not> valid_service_trust_bundle_authorization a
      then failure CorruptData ''trust-bundle authorization identity is invalid'' []
      else if ba_predecessor a \<noteq> tb_id p \<or> ba_successor a \<noteq> tb_id s \<or>
         ba_predecessor_sequence a \<noteq> tb_sequence p \<or> ba_successor_sequence a \<noteq> tb_sequence s
      then failure IdentityMismatch ''trust-bundle authorization is bound to another successor'' (ba_id a)
      else rbind (bundle_key p (ba_service a) (ba_key a)) (\<lambda>found.
        case found of
          None \<Rightarrow> not_authorized (ba_key a)
        | Some k \<Rightarrow>
            (if \<not> rotation_key_is_authorized k (tb_sequence s) then not_authorized (ba_key a)
             else rbind (decode_hex (ba_tag a) kEd25519SignatureBytes) (\<lambda>signature.
               ed25519_verify c (service_trust_bundle_authorization_message a) signature (sk_public k)))))"

definition legacy_refused :: "string \<Rightarrow> 'a result" where
  "legacy_refused i =
     failure IncompatibleFormat ''legacy trust bundles cannot implicitly authorize signed successors'' i"

definition authorize_service_trust_bundle_successor ::
  "ed25519 \<Rightarrow> trust_bundle \<Rightarrow> trust_bundle \<Rightarrow> string \<Rightarrow> string \<Rightarrow> u8 list \<Rightarrow> bundle_authorization result" where
  "authorize_service_trust_bundle_successor c p s service key_id secret_key =
     rbind (validate_service_trust_bundle_rotation p s) (\<lambda>_.
       if tb_schema p < 2 then legacy_refused (tb_id p)
       else rbind (bundle_key p service key_id) (\<lambda>found.
         case found of
           None \<Rightarrow> not_authorized key_id
         | Some k \<Rightarrow>
             (if \<not> rotation_key_is_authorized k (tb_sequence s) then not_authorized key_id
              else rbind (validate_signing_key c service key_id secret_key) (\<lambda>_.
                let a = \<lparr>ba_id = [], ba_predecessor = tb_id p, ba_successor = tb_id s,
                         ba_predecessor_sequence = tb_sequence p, ba_successor_sequence = tb_sequence s,
                         ba_service = service, ba_key = key_id, ba_algorithm = Ed25519, ba_tag = []\<rparr>
                in rbind (ed25519_sign c (service_trust_bundle_authorization_message a) secret_key) (\<lambda>signature.
                     let a = a\<lparr>ba_tag := encode_hex signature\<rparr>;
                         a = a\<lparr>ba_id := service_trust_bundle_authorization_identity a\<rparr>
                     in if \<not> valid_service_trust_bundle_authorization a
                        then failure InternalError ''generated trust-bundle authorization is invalid'' []
                        else Inr a)))))"

definition verify_service_trust_bundle_successor ::
  "ed25519 \<Rightarrow> trust_bundle \<Rightarrow> trust_bundle \<Rightarrow> bundle_authorization \<Rightarrow> unit result" where
  "verify_service_trust_bundle_successor c p s a =
     rbind (validate_service_trust_bundle_rotation p s) (\<lambda>_.
       if tb_schema p < 2 then legacy_refused (tb_id p)
       else if rot_minimum (tb_policy p) \<noteq> 1
       then failure IdentityMismatch ''single authorization does not satisfy the rotation quorum'' (tb_id p)
       else verify_rotation_authorization_binding c p s a)"

section \<open>Sets of authorizations\<close>

record authorization_set =
  bs_id :: string
  bs_predecessor :: string
  bs_successor :: string
  bs_predecessor_sequence :: u64
  bs_successor_sequence :: u64
  bs_authorizations :: "bundle_authorization list"

definition authorization_set_payload :: "authorization_set \<Rightarrow> json" where
  "authorization_set_payload s = json_object
     [(''authorization_ids'', JArr (map (\<lambda>a. JStr (ba_id a)) (bs_authorizations s))),
      (''format'', JStr ''rbfsafe-service-trust-bundle-authorization-set''),
      (''predecessor_bundle_id'', JStr (bs_predecessor s)),
      (''predecessor_sequence'', JStr (to_string (bs_predecessor_sequence s))), (''schema'', json_int 1),
      (''successor_bundle_id'', JStr (bs_successor s)),
      (''successor_sequence'', JStr (to_string (bs_successor_sequence s)))]"

definition service_trust_bundle_authorization_set_identity :: "authorization_set \<Rightarrow> string" where
  "service_trust_bundle_authorization_set_identity s = sha256 (canonical (authorization_set_payload s))"

definition signer_less :: "bundle_authorization \<Rightarrow> bundle_authorization \<Rightarrow> bool" where
  "signer_less a b = (if ba_service a \<noteq> ba_service b then ba_service a < ba_service b else ba_key a < ba_key b)"

definition valid_service_trust_bundle_authorization_set :: "authorization_set \<Rightarrow> bool" where
  "valid_service_trust_bundle_authorization_set s \<longleftrightarrow>
     valid_sha256 (bs_id s) \<and> valid_sha256 (bs_predecessor s) \<and> valid_sha256 (bs_successor s) \<and>
     bs_predecessor_sequence s \<noteq> 0 \<and> bs_predecessor_sequence s \<noteq> - 1 \<and>
     bs_successor_sequence s = bs_predecessor_sequence s + 1 \<and> bs_authorizations s \<noteq> [] \<and>
     list_all (\<lambda>a. valid_service_trust_bundle_authorization a \<and> ba_predecessor a = bs_predecessor s \<and>
       ba_successor a = bs_successor s \<and> ba_predecessor_sequence a = bs_predecessor_sequence s \<and>
       ba_successor_sequence a = bs_successor_sequence s) (bs_authorizations s) \<and>
     successively signer_less (bs_authorizations s) \<and>
     service_trust_bundle_authorization_set_identity s = bs_id s"

text \<open>The loop over the sorted authorizations: none of the signer before, each verified.\<close>

fun check_authorizers ::
  "ed25519 \<Rightarrow> trust_bundle \<Rightarrow> trust_bundle \<Rightarrow> bundle_authorization option \<Rightarrow> bundle_authorization list \<Rightarrow> unit result"
where
  "check_authorizers c p s previous [] = Inr ()"
| "check_authorizers c p s previous (a # as) =
     (if (case previous of None \<Rightarrow> False | Some b \<Rightarrow> ba_service b = ba_service a \<and> ba_key b = ba_key a)
      then failure InvalidArgument ''authorization set contains a duplicate signer'' (ba_key a)
      else rbind (verify_rotation_authorization_binding c p s a) (\<lambda>_. check_authorizers c p s (Some a) as))"

definition meets_policy :: "rotation_policy \<Rightarrow> string list \<Rightarrow> bool" where
  "meets_policy p services \<longleftrightarrow>
     \<not> (length services < unat (rot_minimum p) \<or>
        (rot_distinct p \<and> card (set services) < unat (rot_minimum p)))"

definition assemble_service_trust_bundle_authorizations ::
  "ed25519 \<Rightarrow> trust_bundle \<Rightarrow> trust_bundle \<Rightarrow> bundle_authorization list \<Rightarrow> authorization_set result" where
  "assemble_service_trust_bundle_authorizations c p s as =
     rbind (validate_service_trust_bundle_rotation p s) (\<lambda>_.
       if tb_schema p < 2 \<or> as = []
       then failure InvalidArgument ''trust-bundle authorization-set input is invalid'' []
       else if length as > 100000
       then failure ResourceLimit ''trust-bundle authorization count exceeds the supported limit'' []
       else (let as = sort_by signer_less as
             in rbind (check_authorizers c p s None as) (\<lambda>_.
                  if \<not> meets_policy (tb_policy p) (map ba_service as)
                  then failure IdentityMismatch ''authorization set does not satisfy the rotation policy'' (tb_id p)
                  else (let r = \<lparr>bs_id = [], bs_predecessor = tb_id p, bs_successor = tb_id s,
                                 bs_predecessor_sequence = tb_sequence p, bs_successor_sequence = tb_sequence s,
                                 bs_authorizations = as\<rparr>;
                            r = r\<lparr>bs_id := service_trust_bundle_authorization_set_identity r\<rparr>
                        in if \<not> valid_service_trust_bundle_authorization_set r
                           then failure InternalError ''generated trust-bundle authorization set is invalid'' []
                           else Inr r))))"

definition verify_successor_by_set ::
  "ed25519 \<Rightarrow> trust_bundle \<Rightarrow> trust_bundle \<Rightarrow> authorization_set \<Rightarrow> unit result" where
  "verify_successor_by_set c p s r =
     (if \<not> valid_service_trust_bundle_authorization_set r
      then failure CorruptData ''trust-bundle authorization-set identity is invalid'' []
      else rbind (assemble_service_trust_bundle_authorizations c p s (bs_authorizations r)) (\<lambda>assembled.
        if bs_id assembled \<noteq> bs_id r
        then failure IdentityMismatch ''trust-bundle authorization set is not canonical'' (bs_id r)
        else Inr ()))"

section \<open>Keys trusted for a transfer\<close>

datatype transfer_operation = Fetch | Publish

definition trusted_service_public_key ::
  "trust_bundle \<Rightarrow> string \<Rightarrow> string \<Rightarrow> transfer_operation \<Rightarrow> u64 \<Rightarrow> service_key result" where
  "trusted_service_public_key b service key_id operation seq =
     (if \<not> trust_bundle_valid b \<or> seq = 0 \<or> (operation \<noteq> Fetch \<and> operation \<noteq> Publish)
      then failure InvalidArgument ''trusted service-key lookup input is invalid'' []
      else rbind (bundle_key b service key_id) (\<lambda>found.
        case found of
          None \<Rightarrow> failure IdentityMismatch ''service key is absent from the pinned trust bundle'' key_id
        | Some k \<Rightarrow>
            (let state_trusted = (sk_state k = KeyActive \<or> sk_state k = KeyRetired);
                 sequence_trusted = (seq \<ge> sk_from k \<and> (sk_through k = 0 \<or> seq \<le> sk_through k));
                 operation_trusted = ((operation = Fetch \<and> sk_fetch k) \<or> (operation = Publish \<and> sk_publish k))
             in if \<not> state_trusted \<or> \<not> sequence_trusted \<or> \<not> operation_trusted
                then failure IdentityMismatch ''service key is not trusted for this operation and sequence'' (sk_id k)
                else Inr k)))"

fun service_key_state_name :: "key_state \<Rightarrow> string" where
  "service_key_state_name KeyPending = ''pending''"
| "service_key_state_name KeyActive = ''active''"
| "service_key_state_name KeyRetired = ''retired''"
| "service_key_state_name KeyRevoked = ''revoked''"

end
