(* ===== verification/Trust_Laws.thy ===== *)
theory Trust_Laws
  imports Trust "HOL-Library.Product_Lexorder"
begin

text \<open>
  What successors of trust bundles keep: no key disappears, its policy and its fixed upper bound
  stay, its state only advances, so a key that was retired or revoked never authorizes again; what
  an accepted set of authorizations shows; and that what the library assembles it verifies.
\<close>

section \<open>Looking up keys\<close>

definition key_name :: "service_key \<Rightarrow> string \<times> string" where
  "key_name k = (sk_service k, sk_id k)"

lemma key_less_name: "key_less a b \<longleftrightarrow> key_name a < key_name b"
  by (auto simp: key_less_def key_name_def less_prod_def' order.strict_iff_order)

lemma successively_key_less: "successively key_less ks \<longleftrightarrow> sorted_wrt (<) (map key_name ks)"
proof -
  have k: "key_less = (\<lambda>x y. key_name x < key_name y)" by (intro ext) (rule key_less_name)
  have "transp key_less" by (auto simp: transp_def k)
  then have "successively key_less ks \<longleftrightarrow> sorted_wrt key_less ks" by (simp add: successively_conv_sorted_wrt)
  then show ?thesis by (simp add: sorted_wrt_map k)
qed

lemma valid_keys_distinct: "trust_bundle_valid b \<Longrightarrow> distinct (map key_name (tb_keys b))"
  by (auto simp: trust_bundle_valid_def successively_key_less strict_sorted_iff)

lemma find_key_Some: "find_key ks s i = Some k \<Longrightarrow> k \<in> set ks \<and> sk_service k = s \<and> sk_id k = i"
  by (auto simp: find_key_def find_Some_iff)

lemma find_key_member:
  assumes "distinct (map key_name ks)" "k \<in> set ks"
  shows "find_key ks (sk_service k) (sk_id k) = Some k"
proof -
  obtain n where n: "find_key ks (sk_service k) (sk_id k) = Some n"
    using assms(2) by (cases "find_key ks (sk_service k) (sk_id k)") (auto simp: find_key_def find_None_iff)
  from find_key_Some [OF this] have "n \<in> set ks" "key_name n = key_name k" by (simp_all add: key_name_def)
  with assms have "n = k" by (metis distinct_map inj_onD)
  with n show ?thesis by simp
qed

lemma bundle_key_Some:
  "bundle_key b s i = Inr (Some k) \<longleftrightarrow> trust_bundle_valid b \<and> valid_text s \<and> valid_sha256 i \<and>
     find_key (tb_keys b) s i = Some k"
  by (auto simp: bundle_key_def failure_def)

lemma valid_keys: "trust_bundle_valid b \<Longrightarrow> k \<in> set (tb_keys b) \<Longrightarrow> valid_service_public_key k"
  by (auto simp: trust_bundle_valid_def list_all_iff)

section \<open>Successors\<close>

definition rotates :: "trust_bundle \<Rightarrow> trust_bundle \<Rightarrow> bool" where
  "rotates p s \<longleftrightarrow> validate_service_trust_bundle_rotation p s = Inr ()"

definition evolves :: "service_key \<Rightarrow> service_key \<Rightarrow> bool" where
  "evolves k n \<longleftrightarrow> same_immutable_key_policy k n \<and> key_state_code (sk_state k) \<le> key_state_code (sk_state n) \<and>
     (sk_through k \<noteq> 0 \<longrightarrow> sk_through n = sk_through k)"

lemma transition_advances: "valid_state_transition s t \<Longrightarrow> key_state_code s \<le> key_state_code t"
  by (cases s; cases t) simp_all

lemma validate_rotation_evolves: "validate_rotation k n = Inr () \<Longrightarrow> evolves k n"
  by (auto simp: validate_rotation_def evolves_def failure_def transition_advances split: if_splits)

lemma evolves_refl: "evolves k k"
  by (simp add: evolves_def same_immutable_key_policy_def)

lemma evolves_trans: "evolves k n \<Longrightarrow> evolves n m \<Longrightarrow> evolves k m"
  by (auto simp: evolves_def same_immutable_key_policy_def)

lemma evolves_name: "evolves k n \<Longrightarrow> key_name n = key_name k"
  by (simp add: evolves_def same_immutable_key_policy_def key_name_def)

lemma check_replacements_iff:
  "check_replacements s ks = Inr () \<longleftrightarrow>
     (\<forall>k\<in>set ks. \<exists>n. bundle_key s (sk_service k) (sk_id k) = Inr (Some n) \<and> validate_rotation k n = Inr ())"
  by (induction ks) (auto simp: result_simps failure_def split: option.splits)

lemma rotates_valid: "rotates p s \<Longrightarrow> trust_bundle_valid p \<and> trust_bundle_valid s"
  by (auto simp: rotates_def validate_service_trust_bundle_rotation_def failure_def split: if_splits)

lemma rotates_link:
  "rotates p s \<Longrightarrow> tb_sequence p \<noteq> - 1 \<and> tb_sequence s = tb_sequence p + 1 \<and> tb_parent s = tb_id p \<and>
     tb_schema s = tb_schema p \<and> tb_policy s = tb_policy p"
  by (cases "tb_policy p"; cases "tb_policy s")
    (auto simp: rotates_def validate_service_trust_bundle_rotation_def failure_def split: if_splits)

lemma rotates_keys:
  assumes "rotates p s" "k \<in> set (tb_keys p)"
  shows "\<exists>n\<in>set (tb_keys s). evolves k n"
proof -
  have "check_replacements s (tb_keys p) = Inr ()"
    using assms(1) by (auto simp: rotates_def validate_service_trust_bundle_rotation_def failure_def split: if_splits)
  then obtain n where n: "bundle_key s (sk_service k) (sk_id k) = Inr (Some n)" "validate_rotation k n = Inr ()"
    using assms(2) by (auto simp: check_replacements_iff)
  then have "n \<in> set (tb_keys s)" by (auto simp: bundle_key_Some dest: find_key_Some)
  with n(2) validate_rotation_evolves show ?thesis by blast
qed

lemma rotations_valid: "rotates\<^sup>*\<^sup>* p q \<Longrightarrow> trust_bundle_valid p \<Longrightarrow> trust_bundle_valid q"
  by (induction rule: rtranclp_induct) (auto dest: rotates_valid)

lemma rotations_keys: "rotates\<^sup>*\<^sup>* p q \<Longrightarrow> k \<in> set (tb_keys p) \<Longrightarrow> \<exists>n\<in>set (tb_keys q). evolves k n"
proof (induction rule: rtranclp_induct)
  case (step q r)
  then show ?case by (meson evolves_trans rotates_keys)
qed (auto intro: evolves_refl)

text \<open>The key of that name in a later bundle is the one that evolved.\<close>

lemma rotations_key:
  assumes "rotates\<^sup>*\<^sup>* p q" "trust_bundle_valid p" "k \<in> set (tb_keys p)"
    and "n \<in> set (tb_keys q)" "key_name n = key_name k"
  shows "evolves k n"
proof -
  obtain m where m: "m \<in> set (tb_keys q)" "evolves k m" using rotations_keys [OF assms(1,3)] by blast
  then have "key_name m = key_name n" using evolves_name assms(5) by metis
  with m assms(4) valid_keys_distinct [OF rotations_valid [OF assms(1,2)]] have "m = n"
    by (metis distinct_map inj_onD)
  with m(2) show ?thesis by simp
qed

lemma ended_key:
  assumes "evolves k n" "sk_state k = KeyRetired \<or> sk_state k = KeyRevoked"
  shows "\<not> rotation_key_is_authorized n seq"
  using assms by (cases "sk_state n") (auto simp: evolves_def rotation_key_is_authorized_def)

lemma revoked_key: "evolves k n \<Longrightarrow> sk_state k = KeyRevoked \<Longrightarrow> sk_state n = KeyRevoked"
  by (cases "sk_state n") (simp_all add: evolves_def)

lemma trusted_key_iff:
  "trusted_service_public_key b s i operation seq = Inr k \<longleftrightarrow>
     trust_bundle_valid b \<and> seq \<noteq> 0 \<and> valid_text s \<and> valid_sha256 i \<and> find_key (tb_keys b) s i = Some k \<and>
     (sk_state k = KeyActive \<or> sk_state k = KeyRetired) \<and> sk_from k \<le> seq \<and> (sk_through k = 0 \<or> seq \<le> sk_through k) \<and>
     (if operation = Fetch then sk_fetch k else sk_publish k)"
  by (cases operation; auto simp: trusted_service_public_key_def bundle_key_def failure_def Let_def split: option.splits)

section \<open>Authorizations\<close>

text \<open>An authorization that counts: of a key of the predecessor that may rotate, signed over both bundles.\<close>

definition authorizes :: "ed25519 \<Rightarrow> trust_bundle \<Rightarrow> trust_bundle \<Rightarrow> bundle_authorization \<Rightarrow> bool" where
  "authorizes c p s a \<longleftrightarrow> ba_predecessor a = tb_id p \<and> ba_successor a = tb_id s \<and>
     ba_predecessor_sequence a = tb_sequence p \<and> ba_successor_sequence a = tb_sequence s \<and>
     (\<exists>k\<in>set (tb_keys p). key_name k = (ba_service a, ba_key a) \<and> rotation_key_is_authorized k (tb_sequence s) \<and>
        (\<exists>signature. decode_hex (ba_tag a) 64 = Inr signature \<and>
           ed_check c signature (sk_public k) (service_trust_bundle_authorization_message a)))"

lemma binding_authorizes:
  assumes "verify_rotation_authorization_binding c p s a = Inr ()"
  shows "authorizes c p s a"
proof -
  obtain k signature where k: "bundle_key p (ba_service a) (ba_key a) = Inr (Some k)"
      "rotation_key_is_authorized k (tb_sequence s)" "decode_hex (ba_tag a) 64 = Inr signature"
      "ed_check c signature (sk_public k) (service_trust_bundle_authorization_message a)"
    and b: "ba_predecessor a = tb_id p" "ba_successor a = tb_id s" "ba_predecessor_sequence a = tb_sequence p"
      "ba_successor_sequence a = tb_sequence s"
    using assms by (auto simp: verify_rotation_authorization_binding_def not_authorized_def failure_def result_simps
        ed25519_verify_iff kEd25519SignatureBytes_def split: if_splits option.splits)
  have "k \<in> set (tb_keys p) \<and> key_name k = (ba_service a, ba_key a)"
    using k(1) by (auto simp: bundle_key_Some key_name_def dest: find_key_Some)
  with k b show ?thesis by (auto simp: authorizes_def)
qed

definition signer_name :: "bundle_authorization \<Rightarrow> string \<times> string" where
  "signer_name a = (ba_service a, ba_key a)"

lemma signer_less_name: "signer_less a b \<longleftrightarrow> signer_name a < signer_name b"
  by (auto simp: signer_less_def signer_name_def less_prod_def' order.strict_iff_order)

lemma check_authorizers_iff:
  "check_authorizers c p s previous as = Inr () \<longleftrightarrow>
     list_all (\<lambda>a. verify_rotation_authorization_binding c p s a = Inr ()) as \<and>
     successively (\<lambda>a b. signer_name a \<noteq> signer_name b) as \<and>
     (case (previous, as) of (Some b, a # _) \<Rightarrow> signer_name b \<noteq> signer_name a | _ \<Rightarrow> True)"
proof (induction as arbitrary: previous)
  case (Cons a as)
  have step: "check_authorizers c p s previous (a # as) = Inr () \<longleftrightarrow>
      (case previous of None \<Rightarrow> True | Some b \<Rightarrow> signer_name b \<noteq> signer_name a) \<and>
      verify_rotation_authorization_binding c p s a = Inr () \<and> check_authorizers c p s (Some a) as = Inr ()"
    by (cases previous) (simp_all add: signer_name_def failure_def result_simps)
  show ?case unfolding step Cons.IH by (cases previous; cases as) auto
qed (simp split: option.split)

lemma sorted_neighbours:
  assumes "successively (\<lambda>a b. f a \<noteq> (f b :: 'b :: linorder)) xs" "sorted (map f xs)"
  shows "sorted_wrt (<) (map f xs)"
  using assms
proof (induction xs)
  case (Cons x xs)
  then have IH: "sorted_wrt (<) (map f xs)" by (auto simp: successively_Cons)
  show ?case
  proof (cases xs)
    case (Cons y ys)
    with Cons.prems have "f x < f y" by (simp add: order.not_eq_order_implies_strict)
    with IH Cons show ?thesis by auto
  qed simp
qed simp

lemma distinct_signers:
  assumes "successively (\<lambda>a b. signer_name a \<noteq> signer_name b) (sort_by signer_less as)"
  shows "sorted_wrt (<) (map signer_name (sort_by signer_less as))"
  using assms sort_by_key [of signer_less signer_name as, OF signer_less_name] by (rule sorted_neighbours)

lemma assemble_accepts:
  assumes "assemble_service_trust_bundle_authorizations c p s as = Inr r"
  shows "rotates p s" "2 \<le> tb_schema p" "bs_authorizations r = sort_by signer_less as"
    and "\<forall>a\<in>set as. authorizes c p s a" "sorted_wrt (<) (map signer_name (bs_authorizations r))"
    and "meets_policy (tb_policy p) (map ba_service (bs_authorizations r))"
    and "valid_service_trust_bundle_authorization_set r"
proof -
  let ?as = "sort_by signer_less as"
  have a: "rotates p s" "2 \<le> tb_schema p" "check_authorizers c p s None ?as = Inr ()"
      "bs_authorizations r = ?as" "meets_policy (tb_policy p) (map ba_service ?as)"
      "valid_service_trust_bundle_authorization_set r"
    using assms by (auto simp: assemble_service_trust_bundle_authorizations_def rotates_def failure_def Let_def
        result_simps split: if_splits)
  then show "rotates p s" "2 \<le> tb_schema p" "bs_authorizations r = ?as"
    "meets_policy (tb_policy p) (map ba_service (bs_authorizations r))"
    "valid_service_trust_bundle_authorization_set r" by simp_all
  show "\<forall>a\<in>set as. authorizes c p s a"
    using a(3) binding_authorizes by (auto simp: check_authorizers_iff list_all_iff)
  show "sorted_wrt (<) (map signer_name (bs_authorizations r))"
    using a(3,4) distinct_signers by (simp add: check_authorizers_iff)
qed

lemma assemble_again:
  assumes "assemble_service_trust_bundle_authorizations c p s as = Inr r"
  shows "assemble_service_trust_bundle_authorizations c p s (bs_authorizations r) = Inr r"
proof -
  have s: "bs_authorizations r = sort_by signer_less as" by (rule assemble_accepts(3) [OF assms])
  have "sort_by signer_less (sort_by signer_less as) = sort_by signer_less as"
    using sort_by_key [of signer_less signer_name as] signer_less_name by (intro sorted_sort_by_id [of _ signer_name]) auto
  moreover have "(sort_by signer_less as = []) = (as = [])" by (metis length_0_conv length_sort_by)
  ultimately show ?thesis using assms
    by (auto simp: assemble_service_trust_bundle_authorizations_def s Let_def result_simps failure_def split: if_splits)
qed

lemma assembled_verifies:
  assumes "assemble_service_trust_bundle_authorizations c p s as = Inr r"
  shows "verify_successor_by_set c p s r = Inr ()"
  using assemble_again [OF assms] assemble_accepts(7) [OF assms] by (simp add: verify_successor_by_set_def)

text \<open>What an accepted set shows.\<close>

definition quorum :: "ed25519 \<Rightarrow> trust_bundle \<Rightarrow> trust_bundle \<Rightarrow> bundle_authorization list \<Rightarrow> bool" where
  "quorum c p s as \<longleftrightarrow> (\<forall>a\<in>set as. authorizes c p s a) \<and> distinct (map signer_name as) \<and>
     unat (rot_minimum (tb_policy p)) \<le> length as \<and>
     (rot_distinct (tb_policy p) \<longrightarrow> unat (rot_minimum (tb_policy p)) \<le> card (set (map ba_service as)))"

lemma verified_quorum:
  assumes "verify_successor_by_set c p s r = Inr ()"
  shows "rotates p s \<and> quorum c p s (bs_authorizations r)"
proof -
  obtain q where q: "assemble_service_trust_bundle_authorizations c p s (bs_authorizations r) = Inr q"
    using assms by (auto simp: verify_successor_by_set_def failure_def result_simps split: if_splits)
  note a = assemble_accepts [OF q]
  have "distinct (map signer_name (sort_by signer_less (bs_authorizations r)))"
    using a(5) unfolding a(3) by (simp add: strict_sorted_iff)
  then have "distinct (map signer_name (bs_authorizations r))" by (simp only: distinct_sort_by)
  then show ?thesis using a(1,4,6) by (auto simp: quorum_def a(3) meets_policy_def)
qed

lemma verified_single:
  assumes "verify_service_trust_bundle_successor c p s a = Inr ()"
  shows "rotates p s \<and> rot_minimum (tb_policy p) = 1 \<and> authorizes c p s a"
  using assms binding_authorizes
  by (auto simp: verify_service_trust_bundle_successor_def rotates_def legacy_refused_def failure_def result_simps
      split: if_splits)

lemma authorization_message_update [simp]:
  "service_trust_bundle_authorization_message (a\<lparr>ba_tag := t\<rparr>) = service_trust_bundle_authorization_message a"
  "service_trust_bundle_authorization_message (a\<lparr>ba_id := i\<rparr>) = service_trust_bundle_authorization_message a"
  by (simp_all add: service_trust_bundle_authorization_message_def bundle_authorization_json_def)

text \<open>What a rotation key signs is accepted, if its signatures verify.\<close>

lemma authorized_verifies:
  assumes "authorize_service_trust_bundle_successor c p s service key_id secret = Inr a"
    and "\<And>k. find_key (tb_keys p) service key_id = Some k \<Longrightarrow> honest_signer c secret (sk_public k)"
  shows "rotates p s" "verify_rotation_authorization_binding c p s a = Inr ()"
proof -
  let ?a = "\<lparr>ba_id = [], ba_predecessor = tb_id p, ba_successor = tb_id s,
      ba_predecessor_sequence = tb_sequence p, ba_successor_sequence = tb_sequence s,
      ba_service = service, ba_key = key_id, ba_algorithm = Ed25519, ba_tag = []\<rparr>"
  obtain k signature where r: "rotates p s" and k: "bundle_key p service key_id = Inr (Some k)"
      "rotation_key_is_authorized k (tb_sequence s)"
    and sg: "ed25519_sign c (service_trust_bundle_authorization_message ?a) secret = Inr signature"
    and a: "a = (let a = ?a\<lparr>ba_tag := encode_hex signature\<rparr>
                 in a\<lparr>ba_id := service_trust_bundle_authorization_identity a\<rparr>)"
      "valid_service_trust_bundle_authorization a"
    using assms(1) by (auto simp: authorize_service_trust_bundle_successor_def rotates_def legacy_refused_def
        not_authorized_def failure_def result_simps Let_def split: if_splits option.splits)
  show "rotates p s" by (rule r)
  have h: "honest_signer c secret (sk_public k)" using k(1) assms(2) by (auto simp: bundle_key_Some)
  have sig: "signature = ed_sign c secret (service_trust_bundle_authorization_message ?a)"
    using sg by (simp add: ed25519_sign_def failure_def split: if_splits)
  then have len: "length signature = 64" using h by (simp add: honest_signer_def)
  have "service_trust_bundle_authorization_message a = service_trust_bundle_authorization_message ?a"
    by (simp add: a(1) Let_def service_trust_bundle_authorization_message_def bundle_authorization_json_def)
  then have "ed25519_verify c (service_trust_bundle_authorization_message a) signature (sk_public k) = Inr ()"
    using h len by (simp add: ed25519_verify_iff sig honest_signer_def)
  moreover have "decode_hex (ba_tag a) kEd25519SignatureBytes = Inr signature"
    using len decode_encode_hex [of signature] by (simp add: a(1) Let_def kEd25519SignatureBytes_def)
  ultimately show "verify_rotation_authorization_binding c p s a = Inr ()"
    using a(2) k by (simp add: verify_rotation_authorization_binding_def a(1) Let_def)
qed

end
