(* ===== verification/Trust_File.thy ===== *)
theory Trust_File
  imports Trust_Laws Memory_File_Laws
begin

text \<open>
  \<^verbatim>\<open>src/identity_persistence.cpp\<close>: the file of a service trust bundle. A file is the text it holds,
  \<open>None\<close> if it cannot be inspected; saving gives the result and what the destination holds afterwards.
\<close>

section \<open>Saving one document\<close>

text \<open>
  The steps of a save: a temporary file is written, an existing file moved aside, the temporary
  file moved into place, and the file moved aside put back when that fails. \<open>io\<close> gives the
  error of a step that fails. The messages differ from file to file.
\<close>

datatype file_step = InspectFile | CreateFolder | WriteTemporary | StageFile | PublishFile | RestoreFile

record save_messages =
  sv_inspect :: string
  sv_exists :: string
  sv_parent :: string
  sv_stage :: string
  sv_publish :: string

definition save_document ::
  "save_messages \<Rightarrow> (file_step \<Rightarrow> error option) \<Rightarrow> string \<Rightarrow> string \<Rightarrow> bool \<Rightarrow> string option \<Rightarrow>
     unit result \<times> string option" where
  "save_document sv io text path overwrite existing =
     (if io InspectFile \<noteq> None then (failure IoError (sv_inspect sv) [], existing)
      else if existing \<noteq> None \<and> \<not> overwrite then (failure IoError (sv_exists sv) [], existing)
      else if CHR ''/'' \<in> set path \<and> io CreateFolder \<noteq> None then (failure IoError (sv_parent sv) [], existing)
      else (case io WriteTemporary of
          Some e \<Rightarrow> (Inl e, existing)
        | None \<Rightarrow>
            (if existing \<noteq> None \<and> io StageFile \<noteq> None then (failure IoError (sv_stage sv) [], existing)
             else if io PublishFile \<noteq> None
             then (failure IoError (sv_publish sv) [], if io RestoreFile = None then existing else None)
             else (Inr (), Some text))))"

definition bundle_messages :: save_messages where
  "bundle_messages = \<lparr>sv_inspect = ''failed to inspect service trust-bundle destination'',
     sv_exists = ''service trust-bundle destination already exists'',
     sv_parent = ''failed to create service trust-bundle parent'',
     sv_stage = ''failed to stage existing service trust bundle'',
     sv_publish = ''failed to publish service trust bundle''\<rparr>"

definition storage_json :: "string \<Rightarrow> trust_bundle \<Rightarrow> json" where
  "storage_json version b = json_object
     ([(''format'', JStr ''rbfsafe-service-trust-bundle''), (''id'', JStr (tb_id b)),
       (''keys'', JArr (map (\<lambda>k. key_json k (tb_schema b)) (tb_keys b))), (''library_version'', JStr version),
       (''parent_id'', JStr (tb_parent b)), (''schema'', json_int (unat (tb_schema b))),
       (''sequence'', JStr (to_string (tb_sequence b)))] @
      (if tb_schema b \<ge> 3 then [(''rotation_policy'', rotation_policy_json (tb_policy b))] else []))"

definition service_trust_bundle_storage_document :: "string \<Rightarrow> trust_bundle \<Rightarrow> string" where
  "service_trust_bundle_storage_document version b = dump True 0 (storage_json version b) @ [CHR 0x0A]"

definition save_service_trust_bundle ::
  "string \<Rightarrow> (file_step \<Rightarrow> error option) \<Rightarrow> trust_bundle \<Rightarrow> string \<Rightarrow> bool \<Rightarrow> string option \<Rightarrow>
     unit result \<times> string option" where
  "save_service_trust_bundle version io b path overwrite existing =
     (if \<not> trust_bundle_valid b \<or> no_specific_directory path
      then (failure InvalidArgument ''service trust bundle or destination is invalid'' [], existing)
      else if length (tb_keys b) > kMaximumExactJsonInteger
      then (failure ResourceLimit ''service trust-bundle key count exceeds storage format'' [], existing)
      else save_document bundle_messages io (service_trust_bundle_storage_document version b) path overwrite existing)"

section \<open>Loading\<close>

abbreviation "bundle_string \<equiv> string_field ''expected JSON object'' ''missing or invalid string field''"
abbreviation "bundle_integer \<equiv> integer_field ''expected JSON object'' ''invalid integer field''"
abbreviation "bundle_bool \<equiv> bool_field ''expected JSON object'' ''invalid Boolean field''"

definition bundle_decimal :: "json \<Rightarrow> string \<Rightarrow> u64 result" where
  "bundle_decimal j k = rbind (bundle_string 32 True j k) (\<lambda>text.
     if text = [] then failure CorruptData ''invalid decimal field'' k
     else decimal_of ''invalid decimal field'' k text)"

text \<open>The largest size of a file that a \<open>std::streamsize\<close> can count.\<close>

definition stream_limit :: nat where "stream_limit = 2 ^ 63 - 1"

definition read_bundle_json :: "string \<Rightarrow> string option \<Rightarrow> nat \<Rightarrow> json result" where
  "read_bundle_json path file maximum =
     (case file of
        None \<Rightarrow> failure IoError ''failed to inspect service trust bundle'' path
      | Some text \<Rightarrow>
          (if length text > maximum \<or> length text > stream_limit
           then failure ResourceLimit ''service trust bundle exceeds configured byte limit'' path
           else json_parse text))"

definition algorithm_of :: "nat \<Rightarrow> algorithm" where
  "algorithm_of n = [HmacSha256, Ed25519] ! n"

definition key_state_of :: "nat \<Rightarrow> key_state" where
  "key_state_of n = [KeyPending, KeyActive, KeyRetired, KeyRevoked] ! n"

definition decode_key :: "nat \<Rightarrow> json \<Rightarrow> service_key result" where
  "decode_key schema j =
     (let bad = failure CorruptData ''service trust-bundle key is incomplete'' [] in
      or_fail (bundle_string 64 False j ''id'') bad (\<lambda>i.
      or_fail (bundle_string 256 False j ''service_id'') bad (\<lambda>service.
      or_fail (bundle_integer j ''algorithm'' (algorithm_code Ed25519)) bad (\<lambda>a.
      or_fail (bundle_string 64 False j ''public_key'') bad (\<lambda>public_text.
      or_fail (bundle_decimal j ''valid_from_sequence'') bad (\<lambda>valid_from.
      or_fail (bundle_decimal j ''valid_through_sequence'') bad (\<lambda>valid_through.
      or_fail (bundle_integer j ''state'' (key_state_code KeyRevoked)) bad (\<lambda>s.
      or_fail (bundle_bool j ''allow_fetch'') bad (\<lambda>fetch.
      or_fail (bundle_bool j ''allow_publish'') bad (\<lambda>pub.
      or_fail (if schema \<ge> 2 then bundle_bool j ''allow_rotate'' else Inr False) bad (\<lambda>rot.
        rbind (decode_hex public_text kEd25519PublicKeyBytes) (\<lambda>public_key.
          let k = \<lparr>sk_id = i, sk_service = service, sk_algorithm = algorithm_of a, sk_public = public_key,
                   sk_from = valid_from, sk_through = valid_through, sk_state = key_state_of s,
                   sk_fetch = fetch, sk_publish = pub, sk_rotate = rot\<rparr>
          in if \<not> valid_service_public_key k
             then failure CorruptData ''service trust-bundle key identity is invalid'' i
             else Inr k))))))))))))"

definition decode_policy :: "nat \<Rightarrow> json \<Rightarrow> rotation_policy result" where
  "decode_policy schema j =
     (if schema < 3 then Inr default_rotation_policy
      else (let missing = failure CorruptData ''service trust-bundle rotation policy is missing'' [];
                bad = failure CorruptData ''service trust-bundle rotation policy is invalid'' []
            in case json_find j ''rotation_policy'' of
                None \<Rightarrow> missing
              | Some p \<Rightarrow>
                  (if \<not> is_object p then missing
                   else or_fail (bundle_integer p ''minimum_signatures'' 100000) bad (\<lambda>n.
                     or_fail (bundle_bool p ''require_distinct_services'') bad (\<lambda>d.
                       if n > 2 ^ 32 - 1 then bad else Inr \<lparr>rot_minimum = of_nat n, rot_distinct = d\<rparr>)))))"

text \<open>The construction of the bundle from its decoded parts; the schema read and the identity are set after it.\<close>

definition rebuild_bundle ::
  "nat \<Rightarrow> string \<Rightarrow> u64 \<Rightarrow> string \<Rightarrow> service_key list \<Rightarrow> rotation_policy \<Rightarrow> trust_bundle result" where
  "rebuild_bundle schema i seq parent ks p =
     or_fail (if schema \<ge> 3 then create_with_rotation_policy seq parent ks p else create_trust_bundle seq parent ks)
       (failure CorruptData ''service trust-bundle structure is invalid'' []) (\<lambda>b.
         let b = b\<lparr>tb_schema := of_nat schema\<rparr>; b = b\<lparr>tb_id := service_trust_bundle_identity b\<rparr>
         in if \<not> trust_bundle_valid b \<or> tb_id b \<noteq> i
            then failure CorruptData ''service trust-bundle identity is invalid'' i else Inr b)"

definition load_service_trust_bundle :: "nat \<Rightarrow> nat \<Rightarrow> string \<Rightarrow> string option \<Rightarrow> trust_bundle result" where
  "load_service_trust_bundle maximum_keys maximum_payload path file =
     (if path = [] \<or> maximum_keys = 0 \<or> maximum_payload = 0
      then failure InvalidArgument ''service trust-bundle load options are invalid'' []
      else rbind (read_bundle_json path file maximum_payload) (\<lambda>j.
        let bad = failure CorruptData ''service trust-bundle document is incomplete'' [] in
        or_fail (bundle_string 128 False j ''format'') bad (\<lambda>format.
        or_fail (bundle_integer j ''schema'' 1000) bad (\<lambda>schema.
        or_fail (bundle_string 128 False j ''library_version'') bad (\<lambda>_.
        or_fail (bundle_string 64 False j ''id'') bad (\<lambda>i.
        or_fail (bundle_decimal j ''sequence'') bad (\<lambda>seq.
        or_fail (bundle_string 64 True j ''parent_id'') bad (\<lambda>parent.
          case json_find j ''keys'' of
            Some (JArr keys_json) \<Rightarrow>
              (if format \<noteq> ''rbfsafe-service-trust-bundle'' \<or> schema \<noteq> 1 \<and> schema \<noteq> 2 \<and> schema \<noteq> 3
               then failure IncompatibleFormat ''unsupported service trust-bundle schema'' []
               else rbind (decode_policy schema j) (\<lambda>p.
                 if length keys_json > maximum_keys
                 then failure ResourceLimit ''service trust-bundle key count exceeds configured limit'' []
                 else rbind (decode_all (decode_key schema) keys_json) (\<lambda>ks.
                   rebuild_bundle schema i seq parent ks p)))
          | _ \<Rightarrow> bad))))))))"

end
