(* ===== verification/Trust_Records.thy ===== *)
theory Trust_Records
  imports Trust_File Memory_Store
begin

text \<open>
  The records of \<^verbatim>\<open>src/identity_history.cpp\<close>: a rotation record names a bundle, its parent record
  and what authorized the rotation. Schema 1 has one authorization per successor, schema 2 a set.
  This theory has the records, their identities and validity, and their JSON documents.
\<close>

section \<open>Records\<close>

datatype rotation_event = RootPinned | SuccessorAuthorized

fun rotation_event_code :: "rotation_event \<Rightarrow> nat" where
  "rotation_event_code RootPinned = 0"
| "rotation_event_code SuccessorAuthorized = 1"

fun service_trust_rotation_event_type_name :: "rotation_event \<Rightarrow> string" where
  "service_trust_rotation_event_type_name RootPinned = ''root_pinned''"
| "service_trust_rotation_event_type_name SuccessorAuthorized = ''successor_authorized''"

record rotation_record =
  rr_schema :: u32
  rr_sequence :: u64
  rr_id :: string
  rr_parent :: string
  rr_event :: rotation_event
  rr_bundle :: string
  rr_authorization :: "bundle_authorization option"
  rr_set :: "authorization_set option"

definition rotation_record_content :: "rotation_record \<Rightarrow> json" where
  "rotation_record_content r = json_object
     ((if rr_schema r \<ge> 2
       then [(''authorization_set_id'', JStr (case rr_set r of None \<Rightarrow> [] | Some s \<Rightarrow> bs_id s)),
             (''schema'', json_int (unat (rr_schema r)))]
       else [(''authorization_id'', JStr (case rr_authorization r of None \<Rightarrow> [] | Some a \<Rightarrow> ba_id a)),
             (''schema'', json_int 1)]) @
      [(''bundle_id'', JStr (rr_bundle r)), (''format'', JStr ''rbfsafe-service-trust-rotation-record''),
       (''parent_id'', JStr (rr_parent r)), (''sequence'', JStr (to_string (rr_sequence r))),
       (''type'', json_int (rotation_event_code (rr_event r)))])"

definition service_trust_rotation_record_identity :: "rotation_record \<Rightarrow> string" where
  "service_trust_rotation_record_identity r = sha256 (canonical (rotation_record_content r))"

definition valid_record_structure :: "rotation_record \<Rightarrow> bool" where
  "valid_record_structure r \<longleftrightarrow>
     (rr_schema r = 1 \<or> rr_schema r = 2) \<and>
     (let no_authorization = (rr_authorization r = None \<and> rr_set r = None);
          pinned = (rr_sequence r = 1 \<and> rr_event r = RootPinned \<and> rr_parent r = [] \<and> no_authorization);
          legacy_successor = (rr_schema r = 1 \<and> rr_sequence r > 1 \<and> rr_event r = SuccessorAuthorized \<and>
            valid_sha256 (rr_parent r) \<and> rr_authorization r \<noteq> None \<and> rr_set r = None);
          current_successor = (rr_schema r = 2 \<and> rr_sequence r > 1 \<and> rr_event r = SuccessorAuthorized \<and>
            valid_sha256 (rr_parent r) \<and> rr_authorization r = None \<and> rr_set r \<noteq> None)
      in pinned \<or> legacy_successor \<or> current_successor) \<and>
     valid_sha256 (rr_id r) \<and> valid_sha256 (rr_bundle r) \<and> service_trust_rotation_record_identity r = rr_id r"

section \<open>Documents\<close>

definition authorization_members :: "bundle_authorization \<Rightarrow> json" where
  "authorization_members a = json_object
     [(''algorithm'', json_int (algorithm_code (ba_algorithm a))), (''authentication_tag'', JStr (ba_tag a)),
      (''format'', JStr ''rbfsafe-service-trust-bundle-authorization''), (''id'', JStr (ba_id a)),
      (''predecessor_bundle_id'', JStr (ba_predecessor a)),
      (''predecessor_sequence'', JStr (to_string (ba_predecessor_sequence a))), (''schema'', json_int 1),
      (''signer_key_id'', JStr (ba_key a)), (''signer_service_id'', JStr (ba_service a)),
      (''successor_bundle_id'', JStr (ba_successor a)),
      (''successor_sequence'', JStr (to_string (ba_successor_sequence a)))]"

definition authorization_set_members :: "authorization_set \<Rightarrow> json" where
  "authorization_set_members s = json_object
     [(''authorizations'', JArr (map authorization_members (bs_authorizations s))),
      (''format'', JStr ''rbfsafe-service-trust-bundle-authorization-set''), (''id'', JStr (bs_id s)),
      (''predecessor_bundle_id'', JStr (bs_predecessor s)),
      (''predecessor_sequence'', JStr (to_string (bs_predecessor_sequence s))), (''schema'', json_int 1),
      (''successor_bundle_id'', JStr (bs_successor s)),
      (''successor_sequence'', JStr (to_string (bs_successor_sequence s)))]"

definition rotation_record_json :: "string \<Rightarrow> rotation_record \<Rightarrow> json" where
  "rotation_record_json version r = json_object
     ([(''bundle_id'', JStr (rr_bundle r)), (''format'', JStr ''rbfsafe-service-trust-rotation-record''),
       (''id'', JStr (rr_id r)), (''library_version'', JStr version), (''parent_id'', JStr (rr_parent r)),
       (''schema'', json_int (unat (rr_schema r))), (''sequence'', JStr (to_string (rr_sequence r))),
       (''type'', json_int (rotation_event_code (rr_event r)))] @
      (if rr_schema r \<ge> 2
       then [(''authorization_set'', case rr_set r of None \<Rightarrow> JNull | Some s \<Rightarrow> authorization_set_members s)]
       else [(''authorization'', case rr_authorization r of None \<Rightarrow> JNull | Some a \<Rightarrow> authorization_members a)]))"

definition record_filename :: "rotation_record \<Rightarrow> string" where
  "record_filename r = sequence_filename (rr_sequence r) (rr_id r)"

definition bundle_filename :: "trust_bundle \<Rightarrow> string" where
  "bundle_filename b = sequence_filename (tb_sequence b) (tb_id b)"

definition manifest_payload :: "string \<Rightarrow> nat \<Rightarrow> (string \<times> json) list" where
  "manifest_payload root_id schema =
     [(''format'', JStr ''rbfsafe-service-trust-history''), (''root_bundle_id'', JStr root_id),
      (''schema'', json_int schema)]"

definition manifest_json :: "string \<Rightarrow> string \<Rightarrow> nat \<Rightarrow> json" where
  "manifest_json version root_id schema = store_document version (manifest_payload root_id schema)"

section \<open>Reading the documents\<close>

abbreviation "history_string \<equiv>
  string_field ''service trust-history record is not an object'' ''service trust-history string field is invalid''"
abbreviation "history_integer \<equiv>
  integer_field ''service trust-history record is not an object'' ''service trust-history integer field is invalid''"

definition history_decimal :: "json \<Rightarrow> string \<Rightarrow> u64 result" where
  "history_decimal j k = rbind (history_string 32 False j k)
     (decimal_of ''service trust-history decimal field is invalid'' k)"

definition document_schema :: "json \<Rightarrow> string \<Rightarrow> nat result" where
  "document_schema j expected_format =
     (let bad = failure CorruptData ''service trust-history document is incomplete'' [] in
      or_fail (history_string 128 False j ''format'') bad (\<lambda>format.
      or_fail (history_integer j ''schema'' 1000) bad (\<lambda>schema.
      or_fail (history_string 128 False j ''library_version'') bad (\<lambda>_.
        if format \<noteq> expected_format \<or> (schema \<noteq> 1 \<and> schema \<noteq> 2)
        then failure IncompatibleFormat ''unsupported service trust-history schema'' [] else Inr schema))))"

definition decode_authorization :: "json \<Rightarrow> bundle_authorization result" where
  "decode_authorization j =
     (let bad = failure CorruptData ''service trust-bundle authorization is incomplete'' [] in
      or_fail (history_string 128 False j ''format'') bad (\<lambda>format.
      or_fail (history_integer j ''schema'' 1000) bad (\<lambda>schema.
      or_fail (history_string 64 False j ''id'') bad (\<lambda>i.
      or_fail (history_string 64 False j ''predecessor_bundle_id'') bad (\<lambda>predecessor.
      or_fail (history_string 64 False j ''successor_bundle_id'') bad (\<lambda>successor.
      or_fail (history_decimal j ''predecessor_sequence'') bad (\<lambda>predecessor_sequence.
      or_fail (history_decimal j ''successor_sequence'') bad (\<lambda>successor_sequence.
      or_fail (history_string 256 False j ''signer_service_id'') bad (\<lambda>service.
      or_fail (history_string 64 False j ''signer_key_id'') bad (\<lambda>key_id.
      or_fail (history_integer j ''algorithm'' (algorithm_code Ed25519)) bad (\<lambda>a.
      or_fail (history_string (kEd25519SignatureBytes * 2) False j ''authentication_tag'') bad (\<lambda>tag.
        if format \<noteq> ''rbfsafe-service-trust-bundle-authorization'' \<or> schema \<noteq> 1 then bad
        else (let r = \<lparr>ba_id = i, ba_predecessor = predecessor, ba_successor = successor,
                       ba_predecessor_sequence = predecessor_sequence, ba_successor_sequence = successor_sequence,
                       ba_service = service, ba_key = key_id, ba_algorithm = algorithm_of a, ba_tag = tag\<rparr>
              in if \<not> valid_service_trust_bundle_authorization r
                 then failure CorruptData ''service trust-bundle authorization identity is invalid'' i
                 else Inr r)))))))))))))"

definition decode_authorization_set :: "json \<Rightarrow> authorization_set result" where
  "decode_authorization_set j =
     (let bad = failure CorruptData ''service trust-bundle authorization set is incomplete'' [] in
      or_fail (history_string 128 False j ''format'') bad (\<lambda>format.
      or_fail (history_integer j ''schema'' 1000) bad (\<lambda>schema.
      or_fail (history_string 64 False j ''id'') bad (\<lambda>i.
      or_fail (history_string 64 False j ''predecessor_bundle_id'') bad (\<lambda>predecessor.
      or_fail (history_string 64 False j ''successor_bundle_id'') bad (\<lambda>successor.
      or_fail (history_decimal j ''predecessor_sequence'') bad (\<lambda>predecessor_sequence.
      or_fail (history_decimal j ''successor_sequence'') bad (\<lambda>successor_sequence.
        case json_find j ''authorizations'' of
          Some (JArr items) \<Rightarrow>
            (if format \<noteq> ''rbfsafe-service-trust-bundle-authorization-set'' \<or> schema \<noteq> 1 then bad
             else rbind (decode_all decode_authorization items) (\<lambda>as.
               let s = \<lparr>bs_id = i, bs_predecessor = predecessor, bs_successor = successor,
                        bs_predecessor_sequence = predecessor_sequence,
                        bs_successor_sequence = successor_sequence, bs_authorizations = as\<rparr>
               in if \<not> valid_service_trust_bundle_authorization_set s
                  then failure CorruptData ''service trust-bundle authorization-set identity is invalid'' i
                  else Inr s))
        | _ \<Rightarrow> bad))))))))"

text \<open>A member that may be \<open>null\<close>.\<close>

definition decode_optional :: "(json \<Rightarrow> 'a result) \<Rightarrow> json option \<Rightarrow> 'a option result" where
  "decode_optional d j =
     (case j of None \<Rightarrow> Inr None | Some JNull \<Rightarrow> Inr None | Some v \<Rightarrow> rbind (d v) (\<lambda>x. Inr (Some x)))"

definition rotation_event_of :: "nat \<Rightarrow> rotation_event" where
  "rotation_event_of n = [RootPinned, SuccessorAuthorized] ! n"

definition decode_record :: "json \<Rightarrow> rotation_record result" where
  "decode_record j =
     rbind (document_schema j ''rbfsafe-service-trust-rotation-record'') (\<lambda>schema.
       let bad = failure CorruptData ''service trust-rotation record is incomplete'' [] in
       or_fail (history_decimal j ''sequence'') bad (\<lambda>seq.
       or_fail (history_string 64 False j ''id'') bad (\<lambda>i.
       or_fail (history_string 64 True j ''parent_id'') bad (\<lambda>parent.
       or_fail (history_integer j ''type'' (rotation_event_code SuccessorAuthorized)) bad (\<lambda>event.
       or_fail (history_string 64 False j ''bundle_id'') bad (\<lambda>bundle.
         if (schema = 1 \<and> json_find j ''authorization'' = None) \<or>
            (schema = 2 \<and> json_find j ''authorization_set'' = None)
         then bad
         else rbind (decode_optional decode_authorization (json_find j ''authorization'')) (\<lambda>a.
           rbind (decode_optional decode_authorization_set (json_find j ''authorization_set'')) (\<lambda>s.
             let r = \<lparr>rr_schema = of_nat schema, rr_sequence = seq, rr_id = i, rr_parent = parent,
                      rr_event = rotation_event_of event, rr_bundle = bundle, rr_authorization = a, rr_set = s\<rparr>
             in if \<not> valid_record_structure r
                then failure CorruptData ''service trust-rotation record identity is invalid'' i
                else Inr r))))))))"

definition decode_manifest :: "json \<Rightarrow> (nat \<times> string) result" where
  "decode_manifest j =
     rbind (document_schema j ''rbfsafe-service-trust-history'') (\<lambda>schema.
       let bad = failure CorruptData ''service trust-history manifest identity is invalid'' [] in
       or_fail (history_string 64 False j ''root_bundle_id'') bad (\<lambda>root_id.
       or_fail (history_string 64 False j ''identity'') bad (\<lambda>identity.
         if \<not> valid_sha256 root_id \<or> \<not> valid_sha256 identity \<or>
            identity \<noteq> sha256 (canonical (json_object (manifest_payload root_id schema)))
         then bad else Inr (schema, root_id))))"

end
