(* ===== verification/Trust_History.thy ===== *)
theory Trust_History
  imports Trust_Records
begin

text \<open>
  \<open>ServiceTrustHistory\<close> of \<^verbatim>\<open>src/identity_history.cpp\<close>: creation, opening, lookup and publication. The
  directory is the record \<open>trust_directory\<close>: the manifest, the entries of \<^verbatim>\<open>records/\<close> in the order
  the file system lists them and of \<^verbatim>\<open>bundles/\<close> (name and contents, no contents for what is not a
  regular file), the temporary files, and whether the writer lock is held. Reading what exists does
  not fail; writing steps succeed or fail as \<open>io\<close> says; a publication gives the list of its writes.
  \<open>cancelled n\<close> is the answer of the cancellation token when it is asked for the n-th time.
\<close>

section \<open>State\<close>

record trust_options =
  to_bundles :: nat
  to_keys :: nat
  to_total :: nat
  to_signatures :: nat
  to_metadata :: nat
  to_payload :: nat

definition default_trust_options :: trust_options where
  "default_trust_options = \<lparr>to_bundles = 100000, to_keys = 100000, to_total = 1000000, to_signatures = 100000,
     to_metadata = 65536, to_payload = 4194304\<rparr>"

record trust_history =
  th_directory :: string
  th_schema :: u32
  th_root :: string
  th_current :: string
  th_bundles :: "trust_bundle list"
  th_records :: "rotation_record list"
  th_options :: trust_options

record trust_directory =
  td_manifest :: "string option"
  td_records :: "(string \<times> string option) list option"
  td_bundles :: "(string \<times> string option) list option"
  td_temporary :: "(string \<times> string) list"
  td_locked :: bool

definition valid_history_options :: "trust_options \<Rightarrow> bool" where
  "valid_history_options opts \<longleftrightarrow> to_bundles opts > 0 \<and> to_keys opts > 0 \<and> to_total opts > 0 \<and>
     to_signatures opts > 0 \<and> to_metadata opts > 0 \<and> to_payload opts > 0"

text \<open>What the entry at one index of a valid history must be, given the record and bundle before it.\<close>

definition bundle_schema_of :: "u32 \<Rightarrow> u32" where
  "bundle_schema_of schema = (if schema = 1 then 2 else 3)"

definition history_entry_ok ::
  "ed25519 \<Rightarrow> u32 \<Rightarrow> nat \<Rightarrow> (rotation_record \<times> trust_bundle) option \<Rightarrow> rotation_record \<Rightarrow> trust_bundle \<Rightarrow> bool" where
  "history_entry_ok c schema i before r b \<longleftrightarrow>
     trust_bundle_valid b \<and> tb_schema b = bundle_schema_of schema \<and> tb_sequence b = of_nat (i + 1) \<and>
     rr_sequence r = of_nat (i + 1) \<and> rr_schema r = schema \<and> rr_bundle r = tb_id b \<and> valid_record_structure r \<and>
     (case before of
        None \<Rightarrow> rr_event r = RootPinned \<and> rr_parent r = [] \<and> rr_authorization r = None \<and> rr_set r = None
      | Some (pr, pb) \<Rightarrow>
          rr_event r = SuccessorAuthorized \<and> rr_parent r = rr_id pr \<and>
          (if schema = 1
           then (case rr_authorization r of None \<Rightarrow> False
                 | Some a \<Rightarrow> rr_set r = None \<and> has_value (verify_service_trust_bundle_successor c pb b a))
           else (case rr_set r of None \<Rightarrow> False
                 | Some s \<Rightarrow> rr_authorization r = None \<and> has_value (verify_successor_by_set c pb b s))))"

fun history_entries_ok ::
  "ed25519 \<Rightarrow> u32 \<Rightarrow> nat \<Rightarrow> (rotation_record \<times> trust_bundle) option \<Rightarrow> (rotation_record \<times> trust_bundle) list \<Rightarrow> bool"
where
  "history_entries_ok c schema i before [] = True"
| "history_entries_ok c schema i before ((r, b) # rest) =
     (history_entry_ok c schema i before r b \<and> history_entries_ok c schema (i + 1) (Some (r, b)) rest)"

definition history_valid :: "ed25519 \<Rightarrow> trust_history \<Rightarrow> bool" where
  "history_valid c h \<longleftrightarrow>
     (th_schema h = 1 \<or> th_schema h = 2) \<and> th_bundles h \<noteq> [] \<and> length (th_bundles h) = length (th_records h) \<and>
     valid_sha256 (th_root h) \<and> th_current h = tb_id (last (th_bundles h)) \<and>
     th_root h = tb_id (hd (th_bundles h)) \<and>
     history_entries_ok c (th_schema h) 0 None (zip (th_records h) (th_bundles h))"

definition current_bundle :: "ed25519 \<Rightarrow> trust_history \<Rightarrow> trust_bundle result" where
  "current_bundle c h =
     (if \<not> history_valid c h then failure InvalidArgument ''service trust-history object is not initialized'' []
      else Inr (last (th_bundles h)))"

definition history_bundle :: "ed25519 \<Rightarrow> trust_history \<Rightarrow> string \<Rightarrow> trust_bundle result" where
  "history_bundle c h i =
     (if \<not> history_valid c h \<or> \<not> valid_sha256 i
      then failure InvalidArgument ''service trust-history bundle lookup is invalid'' []
      else (case find (\<lambda>b. tb_id b = i) (th_bundles h) of
          None \<Rightarrow> failure InvalidArgument ''service trust-history bundle is not registered'' i
        | Some b \<Rightarrow> Inr b))"

section \<open>Opening\<close>

definition read_history_json :: "string \<Rightarrow> string option \<Rightarrow> nat \<Rightarrow> json result" where
  "read_history_json path file maximum =
     (case file of
        None \<Rightarrow> failure IoError ''failed to inspect service trust-history metadata'' path
      | Some text \<Rightarrow>
          (if length text > maximum \<or> length text > stream_limit
           then failure ResourceLimit ''service trust-history metadata exceeds configured limit'' path
           else json_parse text))"

text \<open>The loop over the entries of \<^verbatim>\<open>records/\<close>: \<open>entries\<close> were seen and \<open>n\<close> records decoded before.\<close>

fun decode_record_entries ::
  "trust_options \<Rightarrow> (nat \<Rightarrow> bool) \<Rightarrow> string \<Rightarrow> nat \<Rightarrow> nat \<Rightarrow> (string \<times> string option) list \<Rightarrow>
     (string \<times> rotation_record) list result" where
  "decode_record_entries opts cancelled path entries n [] = Inr []"
| "decode_record_entries opts cancelled path entries n ((name, file) # rest) =
     (if cancelled entries then failure Cancelled ''service trust-history load was cancelled'' []
      else if entries \<ge> to_bundles opts
      then failure ResourceLimit ''service trust-history record-entry count exceeds limit'' []
      else if file \<noteq> None \<and> has_json_extension name
      then (if n \<ge> to_bundles opts
            then failure ResourceLimit ''service trust-history bundle count exceeds limit'' []
            else rbind (read_history_json (in_directory path name) file (to_metadata opts)) (\<lambda>document.
              rbind (decode_record document) (\<lambda>r.
                if (case rr_set r of None \<Rightarrow> False | Some s \<Rightarrow> length (bs_authorizations s) > to_signatures opts)
                then failure ResourceLimit ''service trust-history authorization count exceeds limit'' (rr_id r)
                else rbind (decode_record_entries opts cancelled path (entries + 1) (n + 1) rest) (\<lambda>rs.
                  Inr ((name, r) # rs)))))
      else if \<not> contains_text name ''.tmp-''
      then failure CorruptData ''unexpected service trust-history record entry'' name
      else decode_record_entries opts cancelled path (entries + 1) n rest)"

definition record_less :: "string \<times> rotation_record \<Rightarrow> string \<times> rotation_record \<Rightarrow> bool" where
  "record_less a b =
     (if rr_sequence (snd a) \<noteq> rr_sequence (snd b) then rr_sequence (snd a) < rr_sequence (snd b)
      else rr_id (snd a) < rr_id (snd b))"

definition verify_rotation_record ::
  "ed25519 \<Rightarrow> u32 \<Rightarrow> trust_bundle \<Rightarrow> trust_bundle \<Rightarrow> rotation_record \<Rightarrow> unit result" where
  "verify_rotation_record c schema p b r =
     (if schema = 1
      then (case rr_authorization r of
          None \<Rightarrow> failure CorruptData ''service trust-history successor lacks authorization'' (rr_id r)
        | Some a \<Rightarrow> verify_service_trust_bundle_successor c p b a)
      else (case rr_set r of
          None \<Rightarrow> failure CorruptData ''service trust-history successor lacks authorization set'' (rr_id r)
        | Some s \<Rightarrow> verify_successor_by_set c p b s))"

text \<open>The loop over the sorted records, which loads the bundle of each: \<open>loaded\<close> keys were loaded before.\<close>

fun replay_rotations ::
  "ed25519 \<Rightarrow> trust_options \<Rightarrow> (nat \<Rightarrow> bool) \<Rightarrow> string \<Rightarrow> (string \<times> string option) list \<Rightarrow> u32 \<Rightarrow> string \<Rightarrow> nat \<Rightarrow>
     (rotation_record \<times> trust_bundle) option \<Rightarrow> nat \<Rightarrow> (string \<times> rotation_record) list \<Rightarrow> trust_bundle list result"
where
  "replay_rotations c opts cancelled path bundles schema root_id i before loaded [] = Inr []"
| "replay_rotations c opts cancelled path bundles schema root_id i before loaded ((name, r) # rest) =
     (if cancelled i then failure Cancelled ''service trust-history load was cancelled'' []
      else if rr_schema r \<noteq> schema \<or> rr_sequence r \<noteq> of_nat (i + 1) \<or> name \<noteq> record_filename r \<or>
         (case before of None \<Rightarrow> rr_bundle r \<noteq> root_id \<or> rr_event r \<noteq> RootPinned
          | Some (pr, _) \<Rightarrow> rr_parent r \<noteq> rr_id pr \<or> rr_event r \<noteq> SuccessorAuthorized)
      then failure CorruptData ''service trust-history record chain is invalid'' (rr_id r)
      else (case map_of bundles (sequence_filename (rr_sequence r) (rr_bundle r)) of
          Some (Some text) \<Rightarrow>
            rbind (load_service_trust_bundle (to_keys opts) (to_payload opts)
                (in_directory path (sequence_filename (rr_sequence r) (rr_bundle r))) (Some text)) (\<lambda>b.
              if tb_schema b \<noteq> bundle_schema_of schema \<or> tb_sequence b \<noteq> rr_sequence r \<or> tb_id b \<noteq> rr_bundle r
              then failure CorruptData ''service trust-history bundle identity is invalid'' (rr_bundle r)
              else if length (tb_keys b) > to_total opts - loaded
              then failure ResourceLimit ''service trust-history total key count exceeds limit'' []
              else rbind (case before of None \<Rightarrow> Inr () | Some (_, pb) \<Rightarrow> verify_rotation_record c schema pb b r) (\<lambda>_.
                rbind (replay_rotations c opts cancelled path bundles schema root_id (i + 1) (Some (r, b))
                         (loaded + length (tb_keys b)) rest) (\<lambda>bs. Inr (b # bs))))
        | _ \<Rightarrow> failure CorruptData ''service trust-history bundle file is missing or indirect'' (rr_bundle r)))"

definition open_history ::
  "ed25519 \<Rightarrow> string \<Rightarrow> string \<Rightarrow> string \<Rightarrow> trust_options \<Rightarrow> (nat \<Rightarrow> bool) \<Rightarrow> trust_directory option \<Rightarrow>
     trust_history result" where
  "open_history c directory root_pin head_pin opts cancelled disk =
     (if directory = [] \<or> \<not> valid_sha256 root_pin \<or> \<not> valid_sha256 head_pin \<or> \<not> valid_history_options opts
      then failure InvalidArgument ''service trust-history open input is invalid'' []
      else if cancelled 0 then failure Cancelled ''service trust-history load was cancelled'' []
      else (case disk of
          None \<Rightarrow> failure CorruptData ''service trust-history directory is missing or indirect'' []
        | Some td \<Rightarrow>
            rbind (read_history_json (in_directory directory ''manifest.json'') (td_manifest td) (to_metadata opts)) (\<lambda>j.
            rbind (decode_manifest j) (\<lambda>(schema, root_id).
              if root_id \<noteq> root_pin
              then failure IdentityMismatch ''service trust-history root does not match the caller pin'' root_id
              else (case (td_records td, td_bundles td) of
                  (Some entries, Some bundles) \<Rightarrow>
                    rbind (decode_record_entries opts (\<lambda>n. cancelled (Suc n)) (in_directory directory ''records'') 0 0
                        entries) (\<lambda>decoded.
                      if decoded = []
                      then failure CorruptData ''service trust history contains no rotation records'' []
                      else (let rs = sort_by record_less decoded
                            in rbind (replay_rotations c opts (\<lambda>n. cancelled (Suc (length entries + n)))
                                 (in_directory directory ''bundles'') bundles (of_nat schema) root_id 0 None 0 rs) (\<lambda>bs.
                                 let h = \<lparr>th_directory = directory, th_schema = of_nat schema, th_root = root_id,
                                          th_current = tb_id (last bs), th_bundles = bs, th_records = map snd rs,
                                          th_options = opts\<rparr>
                                 in if \<not> history_valid c h
                                    then failure CorruptData ''service trust-history replay is inconsistent'' []
                                    else if th_current h \<noteq> head_pin
                                    then failure IdentityMismatch
                                      ''service trust-history head does not match the caller expected head'' (th_current h)
                                    else Inr h)))
                | _ \<Rightarrow> failure CorruptData ''service trust-history data directories are missing or indirect'' [])))))"

section \<open>Creating\<close>

datatype trust_step =
    InspectHistory | CreateHistoryParent | CreateHistoryTemporary | CreateDataDirectories
  | SaveBundle file_step | WriteRecord | WriteManifest | PublishHistory
  | AcquireHistoryLock | RenameBundle | RenameRecord

definition root_record :: "u32 \<Rightarrow> trust_bundle \<Rightarrow> rotation_record" where
  "root_record schema b =
     (let r = \<lparr>rr_schema = schema, rr_sequence = 1, rr_id = [], rr_parent = [], rr_event = RootPinned,
               rr_bundle = tb_id b, rr_authorization = None, rr_set = None\<rparr>
      in r\<lparr>rr_id := service_trust_rotation_record_identity r\<rparr>)"

definition created_history :: "string \<Rightarrow> trust_bundle \<Rightarrow> trust_history" where
  "created_history directory b =
     (let schema = (if tb_schema b \<ge> 3 then 2 else 1)
      in \<lparr>th_directory = directory, th_schema = schema, th_root = tb_id b, th_current = tb_id b, th_bundles = [b],
          th_records = [root_record schema b], th_options = default_trust_options\<rparr>)"

definition record_text :: "string \<Rightarrow> rotation_record \<Rightarrow> string" where
  "record_text version r = document_text (rotation_record_json version r)"

definition create_history ::
  "string \<Rightarrow> (trust_step \<Rightarrow> error option) \<Rightarrow> string \<Rightarrow> string \<Rightarrow> trust_bundle \<Rightarrow> string \<Rightarrow> trust_directory option \<Rightarrow>
     trust_history result \<times> trust_directory option" where
  "create_history version io directory temporary b root_pin existing =
     (if no_specific_directory directory \<or> \<not> trust_bundle_valid b \<or> (tb_schema b \<noteq> 2 \<and> tb_schema b \<noteq> 3) \<or>
         tb_sequence b \<noteq> 1 \<or> \<not> valid_sha256 root_pin
      then (failure InvalidArgument ''service trust-history creation input is invalid'' [], existing)
      else if tb_id b \<noteq> root_pin
      then (failure IdentityMismatch ''service trust-history root does not match the caller pin'' (tb_id b), existing)
      else if length (tb_keys b) > to_keys default_trust_options \<or> length (tb_keys b) > to_total default_trust_options \<or>
         length (service_trust_bundle_storage_document version b) > to_payload default_trust_options
      then (failure ResourceLimit ''service trust-history root exceeds default resource limits'' [], existing)
      else if existing \<noteq> None
      then (failure IoError ''service trust-history destination already exists'' directory, existing)
      else if io InspectHistory \<noteq> None
      then (failure IoError ''failed to inspect service trust-history destination'' directory, existing)
      else if CHR ''/'' \<in> set directory \<and> io CreateHistoryParent \<noteq> None
      then (failure IoError ''failed to create service trust-history parent'' (parent_path directory), existing)
      else if io CreateHistoryTemporary \<noteq> None
      then (failure IoError ''failed to create temporary service trust history'' [], existing)
      else if io CreateDataDirectories \<noteq> None
      then (failure IoError ''failed to create service trust-history data directories'' [], existing)
      else (let h = created_history directory b; r = hd (th_records h)
            in case save_service_trust_bundle version (\<lambda>step. io (SaveBundle step)) b
                      (in_directory (in_directory temporary ''bundles'') (bundle_filename b)) False None of
                 (Inl e, _) \<Rightarrow> (Inl e, existing)
               | (Inr _, saved) \<Rightarrow>
                   (case io WriteRecord of Some e \<Rightarrow> (Inl e, existing)
                    | None \<Rightarrow> (case io WriteManifest of Some e \<Rightarrow> (Inl e, existing)
                      | None \<Rightarrow>
                          (if io PublishHistory \<noteq> None
                           then (failure IoError ''failed to publish service trust history'' directory, existing)
                           else (Inr h,
                             Some \<lparr>td_manifest = Some (document_text (manifest_json version (tb_id b) (unat (th_schema h)))),
                                   td_records = Some [(record_filename r, Some (record_text version r))],
                                   td_bundles = Some [(bundle_filename b, saved)], td_temporary = [],
                                   td_locked = False\<rparr>))))))"

section \<open>Publishing\<close>

datatype trust_write =
    HoldLock bool
  | AddTemporary string string
  | DropTemporary string
  | MoveBundle string string
  | MoveRecord string string

definition drop_temporary :: "string \<Rightarrow> trust_directory \<Rightarrow> trust_directory" where
  "drop_temporary t td = td\<lparr>td_temporary := filter (\<lambda>e. fst e \<noteq> t) (td_temporary td)\<rparr>"

text \<open>A move takes the contents of the temporary file to its new name, in one step.\<close>

fun apply_trust_write :: "trust_directory \<Rightarrow> trust_write \<Rightarrow> trust_directory" where
  "apply_trust_write td (HoldLock b) = td\<lparr>td_locked := b\<rparr>"
| "apply_trust_write td (AddTemporary t text) = td\<lparr>td_temporary := (t, text) # td_temporary td\<rparr>"
| "apply_trust_write td (DropTemporary t) = drop_temporary t td"
| "apply_trust_write td (MoveBundle t name) =
     (drop_temporary t td)\<lparr>td_bundles := map_option (\<lambda>es. es @ [(name, map_of (td_temporary td) t)]) (td_bundles td)\<rparr>"
| "apply_trust_write td (MoveRecord t name) =
     (drop_temporary t td)\<lparr>td_records := map_option (\<lambda>es. es @ [(name, map_of (td_temporary td) t)]) (td_records td)\<rparr>"

text \<open>
  \<open>publish_bundle_file\<close>: the bundle is saved under a temporary name in the directory of the history
  and moved into \<^verbatim>\<open>bundles/\<close>. \<open>nonce\<close> stands for the clock.
\<close>

definition publish_bundle_file ::
  "string \<Rightarrow> (trust_step \<Rightarrow> error option) \<Rightarrow> string \<Rightarrow> string \<Rightarrow> trust_bundle \<Rightarrow> unit result \<times> trust_write list" where
  "publish_bundle_file version io directory nonce b =
     (let t = ''.bundle-'' @ nonce @ ''.json''; text = service_trust_bundle_storage_document version b
      in case save_service_trust_bundle version (\<lambda>step. io (SaveBundle step)) b (in_directory directory t) False None of
           (Inl e, _) \<Rightarrow> (Inl e, [])
         | (Inr _, _) \<Rightarrow>
             (if io RenameBundle \<noteq> None
              then (failure IoError ''failed to publish immutable service trust-history bundle''
                      (in_directory (in_directory directory ''bundles'') (bundle_filename b)),
                    [AddTemporary t text, DropTemporary t])
              else (Inr (), [AddTemporary t text, MoveBundle t (bundle_filename b)])))"

definition write_record_file ::
  "string \<Rightarrow> (trust_step \<Rightarrow> error option) \<Rightarrow> string \<Rightarrow> string \<Rightarrow> trust_directory \<Rightarrow> rotation_record \<Rightarrow>
     unit result \<times> trust_write list" where
  "write_record_file version io directory nonce td r =
     (let t = ''.record-'' @ nonce @ ''.json''; text = record_text version r; name = record_filename r;
          path = in_directory (in_directory directory ''records'') name
      in if name \<in> fst ` set (case td_records td of None \<Rightarrow> [] | Some es \<Rightarrow> es)
         then (failure IdentityMismatch ''immutable trust-history record already exists'' path, [])
         else (case io WriteRecord of
             Some e \<Rightarrow> (Inl e, [AddTemporary t text, DropTemporary t])
           | None \<Rightarrow>
               (if io RenameRecord \<noteq> None
                then (failure IoError ''failed to publish immutable trust-history record'' path,
                      [AddTemporary t text, DropTemporary t])
                else (Inr (), [AddTemporary t text, MoveRecord t name]))))"

definition authorization_fits ::
  "u32 \<Rightarrow> bundle_authorization option \<Rightarrow> authorization_set option \<Rightarrow> bool" where
  "authorization_fits schema a s \<longleftrightarrow>
     (schema = 1 \<and> s = None \<and> (case a of None \<Rightarrow> False | Some a \<Rightarrow> valid_service_trust_bundle_authorization a)) \<or>
     (schema = 2 \<and> a = None \<and> (case s of None \<Rightarrow> False | Some s \<Rightarrow> valid_service_trust_bundle_authorization_set s))"

text \<open>The total of keys, with the limit checked as each bundle is added.\<close>

fun count_keys :: "nat \<Rightarrow> nat \<Rightarrow> trust_bundle list \<Rightarrow> nat result" where
  "count_keys maximum loaded [] = Inr loaded"
| "count_keys maximum loaded (b # bs) =
     (if length (tb_keys b) > maximum - loaded
      then failure ResourceLimit ''service trust-history total key count exceeds limit'' []
      else count_keys maximum (loaded + length (tb_keys b)) bs)"

definition next_record ::
  "trust_history \<Rightarrow> u32 \<Rightarrow> trust_bundle \<Rightarrow> bundle_authorization option \<Rightarrow> authorization_set option \<Rightarrow> rotation_record"
where
  "next_record fresh schema successor a s =
     (let r = \<lparr>rr_schema = schema, rr_sequence = tb_sequence successor, rr_id = [],
               rr_parent = rr_id (last (th_records fresh)), rr_event = SuccessorAuthorized,
               rr_bundle = tb_id successor, rr_authorization = a, rr_set = s\<rparr>
      in r\<lparr>rr_id := service_trust_rotation_record_identity r\<rparr>)"

text \<open>The checks of \<open>publish_impl\<close> against the history just read again, up to the record to write.\<close>

definition check_publication ::
  "ed25519 \<Rightarrow> string \<Rightarrow> trust_history \<Rightarrow> trust_bundle \<Rightarrow> bundle_authorization option \<Rightarrow> authorization_set option \<Rightarrow> nat \<Rightarrow>
     trust_history \<Rightarrow> rotation_record result" where
  "check_publication c version h successor a s maximum fresh =
     (let opts = th_options h in
      if length (th_bundles fresh) \<ge> min maximum (to_bundles opts)
      then failure ResourceLimit ''service trust-history bundle limit reached'' []
      else if length (tb_keys successor) > to_keys opts \<or>
         length (service_trust_bundle_storage_document version successor) > to_payload opts
      then failure ResourceLimit ''service trust-history successor exceeds configured bundle limits'' []
      else if (case s of None \<Rightarrow> False | Some s \<Rightarrow> length (bs_authorizations s) > to_signatures opts)
      then failure ResourceLimit ''service trust-history authorization count exceeds configured limit'' []
      else rbind (count_keys (to_total opts) 0 (th_bundles fresh)) (\<lambda>loaded.
        if length (tb_keys successor) > to_total opts - loaded
        then failure ResourceLimit ''service trust-history total key count exceeds limit'' []
        else rbind (if th_schema h = 1
                    then verify_service_trust_bundle_successor c (last (th_bundles fresh)) successor (the a)
                    else verify_successor_by_set c (last (th_bundles fresh)) successor (the s)) (\<lambda>_.
          let r = next_record fresh (th_schema h) successor a s
          in if \<not> valid_record_structure r
             then failure InternalError ''generated service trust-rotation record is invalid'' [] else Inr r)))"

text \<open>The bundle file of the successor: one left over from an interrupted publication is accepted if it is the same.\<close>

definition store_bundle ::
  "string \<Rightarrow> (trust_step \<Rightarrow> error option) \<Rightarrow> string \<Rightarrow> trust_history \<Rightarrow> trust_directory \<Rightarrow> trust_bundle \<Rightarrow>
     unit result \<times> trust_write list" where
  "store_bundle version io nonce h td successor =
     (let path = in_directory (in_directory (th_directory h) ''bundles'') (bundle_filename successor);
          bad = failure CorruptData ''orphan service trust-history bundle is inconsistent'' (tb_id successor)
      in case map_of (case td_bundles td of None \<Rightarrow> [] | Some es \<Rightarrow> es) (bundle_filename successor) of
           Some file \<Rightarrow>
             (case load_service_trust_bundle (to_keys (th_options h)) (to_payload (th_options h)) path file of
                Inl _ \<Rightarrow> (bad, [])
              | Inr orphan \<Rightarrow> (if tb_id orphan \<noteq> tb_id successor then (bad, []) else (Inr (), [])))
         | None \<Rightarrow> publish_bundle_file version io (th_directory h) nonce successor)"

definition extend_history :: "trust_history \<Rightarrow> trust_bundle \<Rightarrow> rotation_record \<Rightarrow> trust_history" where
  "extend_history fresh successor r =
     fresh\<lparr>th_bundles := th_bundles fresh @ [successor], th_records := th_records fresh @ [r],
           th_current := tb_id successor\<rparr>"

definition publish_impl ::
  "ed25519 \<Rightarrow> string \<Rightarrow> string \<Rightarrow> (trust_step \<Rightarrow> error option) \<Rightarrow> (nat \<Rightarrow> bool) \<Rightarrow> trust_history \<Rightarrow> trust_directory \<Rightarrow>
     trust_bundle \<Rightarrow> bundle_authorization option \<Rightarrow> authorization_set option \<Rightarrow> string \<Rightarrow> nat \<Rightarrow>
     (trust_history \<times> rotation_record) result \<times> trust_write list" where
  "publish_impl c version nonce io cancelled h td successor a s expected maximum =
     (let lock_path = in_directory (th_directory h) ''.writer-lock''
      in if \<not> history_valid c h \<or> \<not> trust_bundle_valid successor \<or> \<not> authorization_fits (th_schema h) a s \<or>
            \<not> valid_sha256 expected \<or> maximum = 0
         then (failure InvalidArgument ''service trust-history publication input is invalid'' [], [])
         else if cancelled 0
         then (failure Cancelled ''service trust-history publication was cancelled'' [], [])
         else if io AcquireHistoryLock \<noteq> None
         then (failure IoError ''failed to acquire service trust-history writer lock'' lock_path, [])
         else if td_locked td
         then (failure ResourceLimit ''service trust-history writer lock is already held'' lock_path, [])
         else (let held = apply_trust_write td (HoldLock True)
               in case rbind (open_history c (th_directory h) (th_root h) expected (th_options h) (\<lambda>n. cancelled (Suc n))
                           (Some held)) (\<lambda>fresh.
                         rbind (check_publication c version h successor a s maximum fresh) (\<lambda>r. Inr (fresh, r))) of
                    Inl e \<Rightarrow> (Inl e, [HoldLock True, HoldLock False])
                  | Inr (fresh, r) \<Rightarrow>
                      (case store_bundle version io nonce h held successor of
                         (Inl e, ws) \<Rightarrow> (Inl e, HoldLock True # ws @ [HoldLock False])
                       | (Inr _, ws) \<Rightarrow>
                           (case write_record_file version io (th_directory h) nonce held r of
                              (Inl e, vs) \<Rightarrow> (Inl e, HoldLock True # ws @ vs @ [HoldLock False])
                            | (Inr _, vs) \<Rightarrow>
                                (Inr (extend_history fresh successor r, r), HoldLock True # ws @ vs @ [HoldLock False])))))"

text \<open>The two overloads of \<open>publish\<close>.\<close>

definition publish_authorized ::
  "ed25519 \<Rightarrow> string \<Rightarrow> string \<Rightarrow> (trust_step \<Rightarrow> error option) \<Rightarrow> (nat \<Rightarrow> bool) \<Rightarrow> trust_history \<Rightarrow> trust_directory \<Rightarrow>
     trust_bundle \<Rightarrow> bundle_authorization \<Rightarrow> string \<Rightarrow> nat \<Rightarrow> (trust_history \<times> rotation_record) result \<times> trust_write list"
where
  "publish_authorized c version nonce io cancelled h td successor a expected maximum =
     (if th_schema h = 2
      then (case rbind (current_bundle c h) (\<lambda>current.
                   assemble_service_trust_bundle_authorizations c current successor [a]) of
              Inl e \<Rightarrow> (Inl e, [])
            | Inr s \<Rightarrow> publish_impl c version nonce io cancelled h td successor None (Some s) expected maximum)
      else publish_impl c version nonce io cancelled h td successor (Some a) None expected maximum)"

definition publish_authorization_set ::
  "ed25519 \<Rightarrow> string \<Rightarrow> string \<Rightarrow> (trust_step \<Rightarrow> error option) \<Rightarrow> (nat \<Rightarrow> bool) \<Rightarrow> trust_history \<Rightarrow> trust_directory \<Rightarrow>
     trust_bundle \<Rightarrow> authorization_set \<Rightarrow> string \<Rightarrow> nat \<Rightarrow> (trust_history \<times> rotation_record) result \<times> trust_write list"
where
  "publish_authorization_set c version nonce io cancelled h td successor s expected maximum =
     publish_impl c version nonce io cancelled h td successor None (Some s) expected maximum"

end
