(* ===== verification/Trust_Checkpoint.thy ===== *)
theory Trust_Checkpoint
  imports Trust_History
begin

text \<open>
  \<^verbatim>\<open>src/identity_checkpoint.cpp\<close>: checkpoints of a trust history, signed by rotation keys of its
  head bundle, which a caller can pin instead of the head; their files; and opening a history
  against a checkpoint.
\<close>

section \<open>Checkpoints\<close>

record checkpoint_signature =
  cs_service :: string
  cs_key :: string
  cs_algorithm :: algorithm
  cs_tag :: string

record trust_checkpoint =
  tc_schema :: u32
  tc_id :: string
  tc_root :: string
  tc_head :: string
  tc_sequence :: u64
  tc_record :: string
  tc_signatures :: "checkpoint_signature list"

definition signature_json :: "checkpoint_signature \<Rightarrow> json" where
  "signature_json s = json_object
     [(''algorithm'', json_int (algorithm_code (cs_algorithm s))), (''authentication_tag'', JStr (cs_tag s)),
      (''signer_key_id'', JStr (cs_key s)), (''signer_service_id'', JStr (cs_service s))]"

definition checkpoint_members :: "trust_checkpoint \<Rightarrow> (string \<times> json) list" where
  "checkpoint_members t =
     [(''format'', JStr ''rbfsafe-service-trust-checkpoint''), (''head_bundle_id'', JStr (tc_head t)),
      (''head_record_id'', JStr (tc_record t)), (''head_sequence'', JStr (to_string (tc_sequence t))),
      (''root_bundle_id'', JStr (tc_root t)), (''schema'', json_int (unat (tc_schema t))),
      (''signatures'', JArr (map signature_json (tc_signatures t)))]"

definition checkpoint_payload :: "trust_checkpoint \<Rightarrow> json" where
  "checkpoint_payload t = json_object (checkpoint_members t)"

definition checkpoint_json :: "string \<Rightarrow> trust_checkpoint \<Rightarrow> json" where
  "checkpoint_json version t =
     json_object (checkpoint_members t @ [(''id'', JStr (tc_id t)), (''library_version'', JStr version)])"

definition service_trust_checkpoint_signature_message :: "trust_checkpoint \<Rightarrow> checkpoint_signature \<Rightarrow> string" where
  "service_trust_checkpoint_signature_message t s =
     identity_text ''rbfsafe-service-trust-checkpoint-signature-v1'' (json_object
       [(''algorithm'', json_int (algorithm_code (cs_algorithm s))),
        (''format'', JStr ''rbfsafe-service-trust-checkpoint-signature''), (''head_bundle_id'', JStr (tc_head t)),
        (''head_record_id'', JStr (tc_record t)), (''head_sequence'', JStr (to_string (tc_sequence t))),
        (''root_bundle_id'', JStr (tc_root t)), (''schema'', json_int 1), (''signer_key_id'', JStr (cs_key s)),
        (''signer_service_id'', JStr (cs_service s))])"

definition service_trust_checkpoint_identity :: "trust_checkpoint \<Rightarrow> string" where
  "service_trust_checkpoint_identity t =
     sha256 (identity_text ''rbfsafe-service-trust-checkpoint-identity-v1'' (checkpoint_payload t))"

definition valid_service_trust_checkpoint_signature :: "checkpoint_signature \<Rightarrow> bool" where
  "valid_service_trust_checkpoint_signature s \<longleftrightarrow>
     valid_text (cs_service s) \<and> valid_sha256 (cs_key s) \<and> cs_algorithm s = Ed25519 \<and>
     has_value (decode_hex (cs_tag s) kEd25519SignatureBytes)"

definition checkpoint_signer_less :: "checkpoint_signature \<Rightarrow> checkpoint_signature \<Rightarrow> bool" where
  "checkpoint_signer_less a b = (if cs_service a \<noteq> cs_service b then cs_service a < cs_service b else cs_key a < cs_key b)"

definition trust_checkpoint_valid :: "trust_checkpoint \<Rightarrow> bool" where
  "trust_checkpoint_valid t \<longleftrightarrow>
     tc_schema t = 1 \<and> valid_sha256 (tc_id t) \<and> valid_sha256 (tc_root t) \<and> valid_sha256 (tc_head t) \<and>
     tc_sequence t \<noteq> 0 \<and> valid_sha256 (tc_record t) \<and> tc_signatures t \<noteq> [] \<and>
     list_all valid_service_trust_checkpoint_signature (tc_signatures t) \<and>
     successively (\<lambda>p s. \<not> (cs_service s < cs_service p \<or> (cs_service p = cs_service s \<and> cs_key s \<le> cs_key p)))
       (tc_signatures t) \<and>
     service_trust_checkpoint_identity t = tc_id t"

section \<open>Signing and verifying\<close>

text \<open>The key of the head bundle that may sign a checkpoint at a sequence number.\<close>

definition checkpoint_key_refused :: "service_key option \<Rightarrow> u64 \<Rightarrow> bool" where
  "checkpoint_key_refused found seq =
     (let sequence_authorized = (case found of None \<Rightarrow> False
            | Some k \<Rightarrow> seq \<ge> sk_from k \<and> (sk_through k = 0 \<or> seq \<le> sk_through k))
      in (case found of None \<Rightarrow> True | Some k \<Rightarrow> sk_state k \<noteq> KeyActive \<or> \<not> sk_rotate k) \<or> \<not> sequence_authorized)"

definition verify_checkpoint_signature ::
  "ed25519 \<Rightarrow> trust_checkpoint \<Rightarrow> checkpoint_signature \<Rightarrow> trust_bundle \<Rightarrow> unit result" where
  "verify_checkpoint_signature c t s head_bundle =
     (if \<not> valid_service_trust_checkpoint_signature s
      then failure CorruptData ''trust-checkpoint signature is structurally invalid'' []
      else rbind (bundle_key head_bundle (cs_service s) (cs_key s)) (\<lambda>found.
        if checkpoint_key_refused found (tc_sequence t)
        then failure IdentityMismatch ''service key is not authorized to sign the trust checkpoint'' (cs_key s)
        else rbind (decode_hex (cs_tag s) kEd25519SignatureBytes) (\<lambda>signature.
          ed25519_verify c (service_trust_checkpoint_signature_message t s) signature (sk_public (the found)))))"

text \<open>The checkpoint of the head of a history, without its signatures and identity.\<close>

definition trust_head_checkpoint :: "trust_history \<Rightarrow> trust_checkpoint" where
  "trust_head_checkpoint h = \<lparr>tc_schema = 1, tc_id = [], tc_root = th_root h, tc_head = th_current h,
     tc_sequence = tb_sequence (last (th_bundles h)), tc_record = rr_id (last (th_records h)), tc_signatures = []\<rparr>"

definition sign_service_trust_checkpoint ::
  "ed25519 \<Rightarrow> trust_history \<Rightarrow> string \<Rightarrow> string \<Rightarrow> u8 list \<Rightarrow> checkpoint_signature result" where
  "sign_service_trust_checkpoint c h service key_id secret_key =
     (if \<not> history_valid c h \<or> \<not> valid_text service \<or> \<not> valid_sha256 key_id \<or>
         length secret_key \<noteq> kEd25519SecretKeyBytes
      then failure InvalidArgument ''trust-checkpoint signing input is invalid'' []
      else rbind (current_bundle c h) (\<lambda>head_bundle.
        rbind (bundle_key head_bundle service key_id) (\<lambda>found.
          if checkpoint_key_refused found (tb_sequence head_bundle)
          then failure IdentityMismatch ''service key is not authorized to sign the trust checkpoint'' key_id
          else rbind (ed25519_key_pair_from_seed c (take kEd25519SeedBytes secret_key)) (\<lambda>(derived_secret, derived_public).
            if derived_secret \<noteq> secret_key \<or> derived_public \<noteq> sk_public (the found)
            then failure IdentityMismatch ''Ed25519 secret key does not match the checkpoint signer'' key_id
            else (let s = \<lparr>cs_service = service, cs_key = key_id, cs_algorithm = Ed25519, cs_tag = []\<rparr>
                  in rbind (ed25519_sign c (service_trust_checkpoint_signature_message (trust_head_checkpoint h) s) secret_key)
                       (\<lambda>signature.
                         let s = s\<lparr>cs_tag := encode_hex signature\<rparr>
                         in if \<not> valid_service_trust_checkpoint_signature s
                            then failure InternalError ''generated trust-checkpoint signature is invalid'' []
                            else Inr s))))))"

text \<open>The loop over the sorted signatures: none of the signer before, each verified.\<close>

fun check_checkpoint_signers ::
  "ed25519 \<Rightarrow> trust_checkpoint \<Rightarrow> trust_bundle \<Rightarrow> checkpoint_signature option \<Rightarrow> checkpoint_signature list \<Rightarrow>
     unit result" where
  "check_checkpoint_signers c t head_bundle previous [] = Inr ()"
| "check_checkpoint_signers c t head_bundle previous (s # ss) =
     (if (case previous of None \<Rightarrow> False | Some p \<Rightarrow> cs_service p = cs_service s \<and> cs_key p = cs_key s)
      then failure InvalidArgument ''trust checkpoint contains a duplicate signer'' (cs_key s)
      else rbind (verify_checkpoint_signature c t s head_bundle) (\<lambda>_.
        check_checkpoint_signers c t head_bundle (Some s) ss))"

definition assemble_service_trust_checkpoint ::
  "ed25519 \<Rightarrow> trust_history \<Rightarrow> checkpoint_signature list \<Rightarrow> trust_checkpoint result" where
  "assemble_service_trust_checkpoint c h ss =
     (if \<not> history_valid c h \<or> ss = []
      then failure InvalidArgument ''trust-checkpoint assembly input is invalid'' []
      else if length ss > 100000
      then failure ResourceLimit ''trust-checkpoint signature count exceeds the supported limit'' []
      else rbind (current_bundle c h) (\<lambda>head_bundle.
        let t = trust_head_checkpoint h; ss = sort_by checkpoint_signer_less ss
        in rbind (check_checkpoint_signers c t head_bundle None ss) (\<lambda>_.
             if \<not> meets_policy (tb_policy head_bundle) (map cs_service ss)
             then failure IdentityMismatch ''trust-checkpoint signatures do not satisfy the bundle policy''
               (tb_id head_bundle)
             else (let t = t\<lparr>tc_signatures := ss\<rparr>; t = t\<lparr>tc_id := service_trust_checkpoint_identity t\<rparr>
                   in if \<not> trust_checkpoint_valid t
                      then failure InternalError ''generated trust checkpoint is invalid'' [] else Inr t))))"

definition verify_service_trust_checkpoint ::
  "ed25519 \<Rightarrow> trust_history \<Rightarrow> trust_checkpoint \<Rightarrow> string \<Rightarrow> unit result" where
  "verify_service_trust_checkpoint c h t expected =
     (if \<not> history_valid c h \<or> \<not> trust_checkpoint_valid t \<or> \<not> valid_sha256 expected
      then failure InvalidArgument ''trust-checkpoint verification input is invalid'' []
      else if tc_id t \<noteq> expected \<or> tc_root t \<noteq> th_root h \<or> tc_head t \<noteq> th_current h \<or>
         unat (tc_sequence t) \<noteq> length (th_records h) \<or> tc_record t \<noteq> rr_id (last (th_records h))
      then failure IdentityMismatch ''trust checkpoint does not match caller pins or replayed history'' (tc_id t)
      else rbind (assemble_service_trust_checkpoint c h (tc_signatures t)) (\<lambda>assembled.
        if tc_id assembled \<noteq> tc_id t
        then failure IdentityMismatch ''trust checkpoint is not canonical'' (tc_id t) else Inr ()))"

definition open_history_at_checkpoint ::
  "ed25519 \<Rightarrow> string \<Rightarrow> string \<Rightarrow> trust_checkpoint \<Rightarrow> string \<Rightarrow> trust_options \<Rightarrow> (nat \<Rightarrow> bool) \<Rightarrow>
     trust_directory option \<Rightarrow> trust_history result" where
  "open_history_at_checkpoint c directory root_pin t expected opts cancelled disk =
     (if \<not> trust_checkpoint_valid t \<or> tc_root t \<noteq> root_pin \<or> tc_id t \<noteq> expected
      then failure IdentityMismatch ''trust checkpoint does not match the caller-provided anchors'' (tc_id t)
      else rbind (open_history c directory root_pin (tc_head t) opts cancelled disk) (\<lambda>h.
        rbind (verify_service_trust_checkpoint c h t expected) (\<lambda>_. Inr h)))"

section \<open>Files\<close>

definition checkpoint_messages :: save_messages where
  "checkpoint_messages = \<lparr>sv_inspect = ''failed to inspect trust-checkpoint destination'',
     sv_exists = ''trust-checkpoint destination already exists'',
     sv_parent = ''failed to create trust-checkpoint parent directory'',
     sv_stage = ''failed to stage existing trust checkpoint'', sv_publish = ''failed to publish trust checkpoint''\<rparr>"

definition save_checkpoint ::
  "string \<Rightarrow> (file_step \<Rightarrow> error option) \<Rightarrow> trust_checkpoint \<Rightarrow> string \<Rightarrow> bool \<Rightarrow> string option \<Rightarrow>
     unit result \<times> string option" where
  "save_checkpoint version io t path overwrite existing =
     (if \<not> trust_checkpoint_valid t \<or> no_specific_directory path
      then (failure InvalidArgument ''trust checkpoint or destination is invalid'' [], existing)
      else save_document checkpoint_messages io (document_text (checkpoint_json version t)) path overwrite existing)"

abbreviation "checkpoint_string \<equiv>
  string_field ''trust checkpoint is not a JSON object'' ''trust-checkpoint string field is invalid''"
abbreviation "checkpoint_integer \<equiv>
  integer_field ''trust checkpoint is not a JSON object'' ''trust-checkpoint integer field is invalid''"

definition checkpoint_decimal :: "json \<Rightarrow> string \<Rightarrow> u64 result" where
  "checkpoint_decimal j k = rbind (checkpoint_string 32 False j k)
     (decimal_of ''trust-checkpoint decimal field is invalid'' k)"

definition read_checkpoint_json :: "string \<Rightarrow> string option \<Rightarrow> nat \<Rightarrow> json result" where
  "read_checkpoint_json path file maximum =
     (case file of
        None \<Rightarrow> failure CorruptData ''trust checkpoint is missing or is not a direct regular file'' path
      | Some text \<Rightarrow>
          (if length text > maximum \<or> length text > stream_limit
           then failure ResourceLimit ''trust checkpoint exceeds configured byte limit'' path
           else json_parse text))"

definition decode_signature :: "json \<Rightarrow> checkpoint_signature result" where
  "decode_signature j =
     (let bad = failure CorruptData ''trust-checkpoint signature is incomplete'' [] in
      or_fail (checkpoint_string 256 False j ''signer_service_id'') bad (\<lambda>service.
      or_fail (checkpoint_string 64 False j ''signer_key_id'') bad (\<lambda>key_id.
      or_fail (checkpoint_integer j ''algorithm'' (algorithm_code Ed25519)) bad (\<lambda>a.
      or_fail (checkpoint_string (kEd25519SignatureBytes * 2) False j ''authentication_tag'') bad (\<lambda>tag.
        let s = \<lparr>cs_service = service, cs_key = key_id, cs_algorithm = algorithm_of a, cs_tag = tag\<rparr>
        in if \<not> valid_service_trust_checkpoint_signature s
           then failure CorruptData ''trust-checkpoint signature is invalid'' key_id else Inr s)))))"

definition load_checkpoint :: "nat \<Rightarrow> nat \<Rightarrow> string \<Rightarrow> string option \<Rightarrow> trust_checkpoint result" where
  "load_checkpoint maximum_signatures maximum_payload path file =
     (if path = [] \<or> maximum_signatures = 0 \<or> maximum_payload = 0
      then failure InvalidArgument ''trust-checkpoint load options are invalid'' []
      else rbind (read_checkpoint_json path file maximum_payload) (\<lambda>j.
        let bad = failure CorruptData ''trust-checkpoint document is incomplete'' [] in
        or_fail (checkpoint_string 128 False j ''format'') bad (\<lambda>format.
        or_fail (checkpoint_integer j ''schema'' 1000) bad (\<lambda>schema.
        or_fail (checkpoint_string 128 False j ''library_version'') bad (\<lambda>_.
        or_fail (checkpoint_string 64 False j ''id'') bad (\<lambda>i.
        or_fail (checkpoint_string 64 False j ''root_bundle_id'') bad (\<lambda>root_id.
        or_fail (checkpoint_string 64 False j ''head_bundle_id'') bad (\<lambda>head_id.
        or_fail (checkpoint_decimal j ''head_sequence'') bad (\<lambda>seq.
        or_fail (checkpoint_string 64 False j ''head_record_id'') bad (\<lambda>record_id.
          case json_find j ''signatures'' of
            Some (JArr items) \<Rightarrow>
              (if format \<noteq> ''rbfsafe-service-trust-checkpoint'' \<or> schema \<noteq> 1
               then failure IncompatibleFormat ''unsupported trust-checkpoint schema'' []
               else if length items > maximum_signatures
               then failure ResourceLimit ''trust-checkpoint signature count exceeds configured limit'' []
               else rbind (decode_all decode_signature items) (\<lambda>ss.
                 let t = \<lparr>tc_schema = of_nat schema, tc_id = i, tc_root = root_id, tc_head = head_id,
                          tc_sequence = seq, tc_record = record_id, tc_signatures = ss\<rparr>
                 in if \<not> trust_checkpoint_valid t
                    then failure CorruptData ''trust-checkpoint identity is invalid'' i else Inr t))
          | _ \<Rightarrow> bad))))))))))"

end
