(* ===== verification/Trust_File_Laws.thy ===== *)
theory Trust_File_Laws
  imports Trust_File
begin

text \<open>
  A saved service trust bundle is loaded back as it was, and what a save leaves at its destination.
\<close>

section \<open>Keys\<close>

lemma trust_enum_round_trips [simp]:
  "algorithm_of (algorithm_code a) = a" "key_state_of (key_state_code s) = s"
  "algorithm_code a \<le> algorithm_code Ed25519" "key_state_code s \<le> key_state_code KeyRevoked"
  by ((cases a; simp add: algorithm_of_def), (cases s; simp add: key_state_of_def), (cases a; simp), (cases s; simp))

lemma key_state_code_small [simp]: "key_state_code s < 1000"
  by (cases s) simp_all

lemma service_key_eta [simp]:
  "\<lparr>sk_id = sk_id k, sk_service = sk_service k, sk_algorithm = sk_algorithm k, sk_public = sk_public k,
     sk_from = sk_from k, sk_through = sk_through k, sk_state = sk_state k, sk_fetch = sk_fetch k,
     sk_publish = sk_publish k, sk_rotate = sk_rotate k\<rparr> = k"
  by simp

lemma bundle_decimal_written [field_simps_of]:
  "map_of kvs k = Some (JStr (to_string n)) \<Longrightarrow> bundle_decimal (json_object kvs) k = Inr n"
  using length_to_string [of n] by (simp add: bundle_decimal_def string_field_written)

lemma digest_64: "valid_sha256 s \<Longrightarrow> s \<noteq> [] \<and> length s \<le> 64"
  using valid_sha256_length [of s] by auto

lemma identifier_256: "valid_text s \<Longrightarrow> s \<noteq> [] \<and> length s \<le> 256"
  by (simp add: valid_text_def)

lemma decode_key_written:
  assumes "valid_service_public_key k" "length (sk_public k) = 32" "schema < 2 \<Longrightarrow> \<not> sk_rotate k" "schema < 2 ^ 32"
  shows "decode_key schema (key_json k (of_nat schema)) = Inr k"
proof -
  have s: "valid_sha256 (sk_id k)" "valid_text (sk_service k)"
    using assms(1) by (simp_all add: valid_service_public_key_def)
  have h: "encode_hex (sk_public k) \<noteq> []" "length (encode_hex (sk_public k)) \<le> 64"
    "decode_hex (encode_hex (sk_public k)) kEd25519PublicKeyBytes = Inr (sk_public k)"
    using assms(2) decode_encode_hex [of "sk_public k"] by (auto simp: kEd25519PublicKeyBytes_def simp flip: length_0_conv)
  have n: "(2 :: u32) \<le> of_nat schema \<longleftrightarrow> 2 \<le> schema"
    using assms(4) by (simp add: word_le_nat_alt unat_of_nat)
  note fits = digest_64 [OF s(1)] identifier_256 [OF s(2)] h
  show ?thesis
  proof (cases "2 \<le> schema")
    case True
    with fits assms(1) show ?thesis
      unfolding decode_key_def key_json_def Let_def
      by (simp add: field_simps_of n del: algorithm_code.simps key_state_code.simps cong: sum.case_cong)
  next
    case False
    then have off: "\<not> sk_rotate k" using assms(3) by simp
    then have e: "\<lparr>sk_id = sk_id k, sk_service = sk_service k, sk_algorithm = sk_algorithm k,
      sk_public = sk_public k, sk_from = sk_from k, sk_through = sk_through k, sk_state = sk_state k,
      sk_fetch = sk_fetch k, sk_publish = sk_publish k, sk_rotate = False\<rparr> = k" by (cases k) simp
    have valid: "valid_service_public_key \<lparr>sk_id = sk_id k, sk_service = sk_service k, sk_algorithm = sk_algorithm k,
      sk_public = sk_public k, sk_from = sk_from k, sk_through = sk_through k, sk_state = sk_state k,
      sk_fetch = sk_fetch k, sk_publish = sk_publish k, sk_rotate = False\<rparr>" unfolding e by (rule assms(1))
    show ?thesis using False off fits assms(1) valid
      unfolding decode_key_def key_json_def Let_def
      by (simp add: field_simps_of n del: algorithm_code.simps key_state_code.simps cong: sum.case_cong)
  qed
qed

section \<open>Bundles\<close>

text \<open>Public keys are arrays of 32 bytes in the code.\<close>

definition bundle_typed :: "trust_bundle \<Rightarrow> bool" where
  "bundle_typed b \<longleftrightarrow> list_all (\<lambda>k. length (sk_public k) = 32) (tb_keys b)"

lemma neighbour_duplicate_None: "neighbour_duplicate f xs = None \<longleftrightarrow> successively (\<lambda>x y. f x \<noteq> f y) xs"
  by (induction f xs rule: neighbour_duplicate.induct) auto

lemma sorted_keys:
  assumes "successively key_less ks"
  shows "sort_by key_less ks = ks" "neighbour_duplicate (\<lambda>k. (sk_service k, sk_id k)) ks = None"
proof -
  have s: "sorted_wrt (<) (map key_name ks)" using assms by (simp add: successively_key_less)
  then have "sorted_wrt (\<lambda>x y. \<not> key_less y x) ks"
    by (simp add: key_less_name sorted_wrt_map sorted_wrt_mono_rel [of ks "\<lambda>x y. key_name x < key_name y"])
  then show "sort_by key_less ks = ks" by (rule sort_by_id)
  have "successively (\<lambda>x y. (sk_service x, sk_id x) \<noteq> (sk_service y, sk_id y)) ks"
    using assms by (rule successively_mono) (auto simp: key_less_def split: if_splits)
  then show "neighbour_duplicate (\<lambda>k. (sk_service k, sk_id k)) ks = None" by (simp add: neighbour_duplicate_None)
qed

lemma bundle_identity_ignores [simp]:
  "service_trust_bundle_identity (b\<lparr>tb_id := i\<rparr>) = service_trust_bundle_identity b"
  by (simp add: service_trust_bundle_identity_def trust_bundle_json_def)

lemma create_valid_bundle:
  assumes "trust_bundle_valid b"
  shows "\<exists>i. create_trust_bundle (tb_sequence b) (tb_parent b) (tb_keys b) =
     Inr (b\<lparr>tb_id := i, tb_schema := 2, tb_policy := default_rotation_policy\<rparr>)"
proof -
  note v = assms [unfolded trust_bundle_valid_def]
  have f: "find (\<lambda>k. \<not> valid_service_public_key k) (tb_keys b) = None"
    using v by (auto simp: find_None_iff list_all_iff)
  have "\<not> (tb_sequence b = 0 \<or> tb_keys b = [] \<or> (tb_sequence b = 1 \<and> tb_parent b \<noteq> []) \<or>
      (tb_sequence b > 1 \<and> \<not> valid_sha256 (tb_parent b)))" using v by blast
  with f v sorted_keys [of "tb_keys b"] show ?thesis
    by (cases b) (auto simp: create_trust_bundle_def Let_def)
qed

lemma rebuild_valid_bundle:
  assumes "trust_bundle_valid b"
  shows "rebuild_bundle (unat (tb_schema b)) (tb_id b) (tb_sequence b) (tb_parent b) (tb_keys b) (tb_policy b) = Inr b"
proof -
  note v = assms [unfolded trust_bundle_valid_def]
  obtain i where c: "create_trust_bundle (tb_sequence b) (tb_parent b) (tb_keys b) =
      Inr (b\<lparr>tb_id := i, tb_schema := 2, tb_policy := default_rotation_policy\<rparr>)"
    using create_valid_bundle [OF assms] by blast
  have id: "service_trust_bundle_identity b = tb_id b" using v by blast
  have policy: "tb_schema b < 3 \<Longrightarrow> tb_policy b = default_rotation_policy"
    using v by (cases "tb_policy b") (auto simp: default_rotation_policy_def)
  show ?thesis
  proof (cases "tb_schema b = 3")
    case True
    let ?b = "b\<lparr>tb_id := i, tb_schema := 3, tb_policy := tb_policy b\<rparr>"
    have b: "?b\<lparr>tb_id := service_trust_bundle_identity ?b\<rparr> = b"
      using id True by (cases b) (simp add: service_trust_bundle_identity_def trust_bundle_json_def)
    have "create_with_rotation_policy (tb_sequence b) (tb_parent b) (tb_keys b) (tb_policy b) = Inr b"
      using v c b assms by (simp add: create_with_rotation_policy_def Let_def)
    with True id assms show ?thesis by (cases b) (simp add: rebuild_bundle_def Let_def)
  next
    case False
    then have s: "tb_schema b = 1 \<or> tb_schema b = 2" "unat (tb_schema b) < 3" "tb_schema b < 3"
      using v by auto
    let ?b = "b\<lparr>tb_id := i, tb_policy := default_rotation_policy\<rparr>"
    have e: "?b = b\<lparr>tb_id := i\<rparr>" using policy [OF s(3)] by (cases b) simp
    have b: "?b\<lparr>tb_id := service_trust_bundle_identity ?b\<rparr> = b"
      unfolding e bundle_identity_ignores id by (cases b) simp
    with c s(2) assms show ?thesis by (cases b) (simp add: rebuild_bundle_def Let_def not_le)
  qed
qed

lemma storable_key: "json_ok (Suc (Suc 60)) (key_json k s)"
  unfolding key_json_def by (intro json_ok_object) simp

lemma storable_policy: "json_ok (Suc 62) (rotation_policy_json p)"
proof -
  have "unat (rot_minimum p) < 2 ^ 32" using unsigned_less [of "rot_minimum p"] by simp
  then have "isfinite (f64_of_nat (unat (rot_minimum p)))" by (intro f64_of_nat_exact(1)) (simp add: hidden_bit_def)
  then show ?thesis unfolding rotation_policy_json_def by (intro json_ok_object) simp
qed

lemma storable_bundle:
  assumes "length (tb_keys b) \<le> 10000000" "unat (tb_schema b) < 1000"
  shows "storable (storage_json version b)"
proof -
  have "json_ok (Suc 63) (storage_json version b)"
    unfolding storage_json_def using assms storable_key storable_policy
    by (intro json_ok_object) (simp add: items_ok_iff)
  then show ?thesis by (simp add: storable_def eval_nat_numeral)
qed

lemma decode_keys_written:
  assumes "trust_bundle_valid b" "bundle_typed b"
  shows "decode_all (decode_key (unat (tb_schema b))) (map (\<lambda>k. key_json k (tb_schema b)) (tb_keys b)) = Inr (tb_keys b)"
proof (rule decode_all_written, rule ballI)
  fix k assume k: "k \<in> set (tb_keys b)"
  have s: "tb_schema b = 1 \<or> tb_schema b = 2 \<or> tb_schema b = 3" using assms(1) by (simp add: trust_bundle_valid_def)
  have "valid_service_public_key k" "length (sk_public k) = 32" "tb_schema b = 1 \<Longrightarrow> \<not> sk_rotate k"
    using assms k by (auto simp: trust_bundle_valid_def bundle_typed_def list_all_iff)
  moreover have "unat (tb_schema b) < 2 \<Longrightarrow> tb_schema b = 1" "unat (tb_schema b) < 2 ^ 32" using s by auto
  ultimately have "decode_key (unat (tb_schema b)) (key_json k (of_nat (unat (tb_schema b)))) = Inr k"
    by (intro decode_key_written) blast+
  then show "decode_key (unat (tb_schema b)) (key_json k (tb_schema b)) = Inr k" by simp
qed

lemma decode_policy_written:
  assumes "trust_bundle_valid b"
  shows "decode_policy (unat (tb_schema b)) (storage_json version b) = Inr (tb_policy b)"
proof (cases "tb_schema b = 3")
  case True
  have p: "unat (rot_minimum (tb_policy b)) \<le> 100000"
    using assms by (simp add: trust_bundle_valid_def valid_service_trust_rotation_policy_def word_le_nat_alt)
  with True show ?thesis
    unfolding decode_policy_def storage_json_def rotation_policy_json_def
    by (cases "tb_policy b") (simp add: field_simps_of hidden_bit_def)
next
  case False
  then have "unat (tb_schema b) < 3" "tb_policy b = default_rotation_policy"
    using assms by (cases "tb_policy b"; auto simp: trust_bundle_valid_def default_rotation_policy_def)+
  then show ?thesis by (simp add: decode_policy_def)
qed

definition bundle_loadable :: "nat \<Rightarrow> nat \<Rightarrow> string \<Rightarrow> trust_bundle \<Rightarrow> bool" where
  "bundle_loadable maximum_keys maximum_payload version b \<longleftrightarrow>
     version \<noteq> [] \<and> length version \<le> 128 \<and> length (tb_keys b) \<le> min maximum_keys 10000000 \<and>
     length (service_trust_bundle_storage_document version b) \<le> min maximum_payload stream_limit"

theorem load_saved_bundle:
  assumes "trust_bundle_valid b" "bundle_typed b" "bundle_loadable maximum_keys maximum_payload version b" "path \<noteq> []"
  shows "load_service_trust_bundle maximum_keys maximum_payload path
     (Some (service_trust_bundle_storage_document version b)) = Inr b"
proof -
  note v = assms(1) [unfolded trust_bundle_valid_def]
  have schema: "unat (tb_schema b) = 1 \<or> unat (tb_schema b) = 2 \<or> unat (tb_schema b) = 3" using v by auto
  have j: "json_parse (service_trust_bundle_storage_document version b) = Inr (storage_json version b)"
    unfolding service_trust_bundle_storage_document_def
    using assms(3) schema by (intro parse_written storable_bundle) (auto simp: bundle_loadable_def)
  have parent: "length (tb_parent b) \<le> 64"
  proof (cases "tb_sequence b = 1")
    case False
    have "tb_sequence b \<noteq> 0" using v by blast
    with False have "1 < tb_sequence b" by unat_arith
    then show ?thesis using v digest_64 by blast
  qed (use v in simp)
  have limits: "0 < maximum_keys" "0 < maximum_payload"
  proof -
    have "0 < length (tb_keys b)" using v by simp
    moreover have "length (tb_keys b) \<le> maximum_keys" using assms(3) by (simp add: bundle_loadable_def)
    ultimately show "0 < maximum_keys" by (rule less_le_trans)
    show "0 < maximum_payload"
      using assms(3) by (simp add: bundle_loadable_def service_trust_bundle_storage_document_def)
  qed
  have fields: "bundle_string 128 False (storage_json version b) ''format'' = Inr ''rbfsafe-service-trust-bundle''"
    "bundle_integer (storage_json version b) ''schema'' 1000 = Inr (unat (tb_schema b))"
    "bundle_string 128 False (storage_json version b) ''library_version'' = Inr version"
    "bundle_string 64 False (storage_json version b) ''id'' = Inr (tb_id b)"
    "bundle_decimal (storage_json version b) ''sequence'' = Inr (tb_sequence b)"
    "bundle_string 64 True (storage_json version b) ''parent_id'' = Inr (tb_parent b)"
    "json_find (storage_json version b) ''keys'' = Some (JArr (map (\<lambda>k. key_json k (tb_schema b)) (tb_keys b)))"
    unfolding storage_json_def using assms(3) parent v digest_64 [of "tb_id b"] schema
    by (auto simp: field_simps_of bundle_loadable_def)
  show ?thesis
    using assms(3,4) limits schema
    by (auto simp: load_service_trust_bundle_def read_bundle_json_def j fields Let_def bundle_loadable_def
        decode_policy_written [OF assms(1)] decode_keys_written [OF assms(1,2)] rebuild_valid_bundle [OF assms(1)])
qed

end
