(* ===== verification/Trust_History_Laws.thy ===== *)
theory Trust_History_Laws
  imports Trust_History Trust_File_Laws
begin

text \<open>
  What a valid trust history is: each bundle is a successor of the one before, authorized by keys
  of that one, so the lifecycle of a key and its pins run through the whole history; a publication
  extends a valid history; and the identity of the head bundle pins all bundles before it.
\<close>

section \<open>The entries of a valid history\<close>

lemma entry_ok_nth:
  "history_entries_ok c schema i before es \<Longrightarrow> k < length es \<Longrightarrow>
     history_entry_ok c schema (i + k) (if k = 0 then before else Some (es ! (k - 1))) (fst (es ! k)) (snd (es ! k))"
proof (induction es arbitrary: i before k)
  case (Cons e es)
  obtain r b where e: "e = (r, b)" by (cases e)
  show ?case
  proof (cases k)
    case 0
    with Cons.prems show ?thesis by (simp add: e)
  next
    case (Suc n)
    have "history_entry_ok c schema (i + 1 + n) (if n = 0 then Some e else Some (es ! (n - 1)))
        (fst (es ! n)) (snd (es ! n))"
      using Cons.prems by (intro Cons.IH) (simp_all add: e Suc)
    moreover have "(if n = 0 then Some e else Some (es ! (n - 1))) = Some ((e # es) ! n)" by (cases n) simp_all
    ultimately show ?thesis by (simp add: Suc)
  qed
qed simp

lemma entries_ok_append:
  "history_entries_ok c schema i before (es @ [(r, b)]) \<longleftrightarrow>
     history_entries_ok c schema i before es \<and>
     history_entry_ok c schema (i + length es) (if es = [] then before else Some (last es)) r b"
  by (induction es arbitrary: i before) auto

lemma history_lengths:
  assumes "history_valid c h"
  shows "th_bundles h \<noteq> []" "th_records h \<noteq> []" "length (th_records h) = length (th_bundles h)"
  using assms by (auto simp: history_valid_def)

lemma history_entry:
  assumes "history_valid c h" "k < length (th_bundles h)"
  shows "history_entry_ok c (th_schema h) k
     (if k = 0 then None else Some (th_records h ! (k - 1), th_bundles h ! (k - 1))) (th_records h ! k) (th_bundles h ! k)"
proof -
  have len: "length (th_records h) = length (th_bundles h)" using assms(1) by (rule history_lengths)
  have "history_entries_ok c (th_schema h) 0 None (zip (th_records h) (th_bundles h))"
    using assms(1) by (simp add: history_valid_def)
  from entry_ok_nth [OF this, of k] assms(2) len show ?thesis by (cases "k = 0") simp_all
qed

lemma history_bundle_at:
  assumes "history_valid c h" "k < length (th_bundles h)"
  shows "trust_bundle_valid (th_bundles h ! k)" "tb_sequence (th_bundles h ! k) = of_nat (k + 1)"
    "valid_record_structure (th_records h ! k)" "rr_bundle (th_records h ! k) = tb_id (th_bundles h ! k)"
  using history_entry [OF assms] by (simp_all add: history_entry_ok_def)

lemma valid_record_id: "valid_record_structure r \<Longrightarrow> valid_sha256 (rr_id r)"
  by (simp add: valid_record_structure_def)

section \<open>Rotations of a history\<close>

text \<open>What authorized the step from one bundle to the next.\<close>

definition authorized_step :: "ed25519 \<Rightarrow> trust_bundle \<Rightarrow> trust_bundle \<Rightarrow> rotation_record \<Rightarrow> bool" where
  "authorized_step c p b r \<longleftrightarrow>
     (case rr_authorization r of
        Some a \<Rightarrow> rot_minimum (tb_policy p) = 1 \<and> authorizes c p b a
      | None \<Rightarrow> (case rr_set r of Some s \<Rightarrow> quorum c p b (bs_authorizations s) | None \<Rightarrow> False))"

lemma history_rotates:
  assumes "history_valid c h" "Suc k < length (th_bundles h)"
  shows "rotates (th_bundles h ! k) (th_bundles h ! Suc k)"
    "authorized_step c (th_bundles h ! k) (th_bundles h ! Suc k) (th_records h ! Suc k)"
    "rr_parent (th_records h ! Suc k) = rr_id (th_records h ! k)"
proof -
  let ?p = "th_bundles h ! k" and ?b = "th_bundles h ! Suc k" and ?r = "th_records h ! Suc k"
  have e: "history_entry_ok c (th_schema h) (Suc k) (Some (th_records h ! k, ?p)) ?r ?b"
    using history_entry [OF assms] by simp
  then show "rr_parent ?r = rr_id (th_records h ! k)" by (simp add: history_entry_ok_def)
  consider a where "rr_authorization ?r = Some a" "verify_service_trust_bundle_successor c ?p ?b a = Inr ()"
    | s where "rr_authorization ?r = None" "rr_set ?r = Some s" "verify_successor_by_set c ?p ?b s = Inr ()"
    using e by (auto simp: history_entry_ok_def has_value_iff split: if_splits option.splits)
  then have "rotates ?p ?b \<and> authorized_step c ?p ?b ?r"
    by cases (auto simp: authorized_step_def dest: verified_single verified_quorum)
  then show "rotates ?p ?b" "authorized_step c ?p ?b ?r" by simp_all
qed

lemma history_rotations:
  assumes "history_valid c h" "i \<le> j" "j < length (th_bundles h)"
  shows "rotates\<^sup>*\<^sup>* (th_bundles h ! i) (th_bundles h ! j)"
  using assms(2,3)
proof (induction j rule: dec_induct)
  case (step j)
  then show ?case using history_rotates(1) [OF assms(1), of j] by (auto intro: rtranclp.rtrancl_into_rtrancl)
qed simp

text \<open>A key keeps its policy through a history, its state only advances.\<close>

lemma history_key:
  assumes "history_valid c h" "i \<le> j" "j < length (th_bundles h)"
    and "k \<in> set (tb_keys (th_bundles h ! i))" "n \<in> set (tb_keys (th_bundles h ! j))" "key_name n = key_name k"
  shows "evolves k n"
  using assms history_bundle_at(1) [OF assms(1), of i]
  by (intro rotations_key [OF history_rotations [OF assms(1,2,3)]]) auto

text \<open>The authorizations a record keeps; a key that was retired or revoked signs none of the later ones.\<close>

definition signers :: "rotation_record \<Rightarrow> bundle_authorization list" where
  "signers r = (case rr_authorization r of Some a \<Rightarrow> [a]
     | None \<Rightarrow> (case rr_set r of Some s \<Rightarrow> bs_authorizations s | None \<Rightarrow> []))"

lemma signer_authorizes: "authorized_step c p b r \<Longrightarrow> a \<in> set (signers r) \<Longrightarrow> authorizes c p b a"
  by (auto simp: authorized_step_def signers_def quorum_def split: option.splits)

lemma ended_key_never_signs:
  assumes "history_valid c h" "i \<le> j" "Suc j < length (th_bundles h)" "k \<in> set (tb_keys (th_bundles h ! i))"
    and "sk_state k = KeyRetired \<or> sk_state k = KeyRevoked" "a \<in> set (signers (th_records h ! Suc j))"
  shows "signer_name a \<noteq> key_name k"
proof
  assume s: "signer_name a = key_name k"
  have "authorizes c (th_bundles h ! j) (th_bundles h ! Suc j) a"
    using history_rotates(2) [OF assms(1,3)] assms(6) by (rule signer_authorizes)
  then obtain n where n: "n \<in> set (tb_keys (th_bundles h ! j))" "key_name n = (ba_service a, ba_key a)"
      "rotation_key_is_authorized n (tb_sequence (th_bundles h ! Suc j))"
    by (auto simp: authorizes_def)
  have "evolves k n" using assms(2,3,4) n(1,2) s
    by (intro history_key [OF assms(1), of i j]) (simp_all add: signer_name_def)
  with n(3) assms(5) show False using ended_key by blast
qed

section \<open>The identity of a bundle\<close>

lemma key_json_inj:
  assumes "key_json k s = key_json n s" "s \<ge> 2 \<or> sk_rotate k = sk_rotate n"
  shows "k = n"
proof -
  note d = json_objectD [OF assms(1) [unfolded key_json_def]]
  have "sk_algorithm k = sk_algorithm n" "sk_state k = sk_state n"
    using d [of "''algorithm''"] d [of "''state''"] by (cases "sk_state k"; cases "sk_state n"; simp add: json_int_inj)+
  moreover have "sk_fetch k = sk_fetch n" "sk_publish k = sk_publish n" "sk_id k = sk_id n" "sk_service k = sk_service n"
    "sk_public k = sk_public n" "sk_from k = sk_from n" "sk_through k = sk_through n"
    using d [of "''allow_fetch''"] d [of "''allow_publish''"] d [of "''id''"] d [of "''service_id''"]
      d [of "''public_key''"] d [of "''valid_from_sequence''"] d [of "''valid_through_sequence''"]
    by (simp_all add: hex_text.enc_inj u64_text.enc_inj)
  moreover have "sk_rotate k = sk_rotate n" using assms(2) d [of "''allow_rotate''"] by auto
  ultimately show ?thesis by (cases k; cases n) simp
qed

text \<open>A JSON array the parser reads has at most ten million items.\<close>

definition bundle_writable :: "trust_bundle \<Rightarrow> bool" where
  "bundle_writable b \<longleftrightarrow> trust_bundle_valid b \<and> length (tb_keys b) \<le> 10000000"

lemma bundle_schema_small: "trust_bundle_valid b \<Longrightarrow> unat (tb_schema b) < 1000"
  by (auto simp: trust_bundle_valid_def)

interpretation bundle_content: content_identity service_trust_bundle_identity trust_bundle_json bundle_writable
proof
  fix b show "service_trust_bundle_identity b = sha256 (canonical (trust_bundle_json b))"
    by (rule service_trust_bundle_identity_def)
next
  fix b assume "bundle_writable b"
  then have "length (tb_keys b) \<le> 10000000" "unat (tb_schema b) < 1000"
    by (simp_all add: bundle_writable_def bundle_schema_small)
  then have "json_ok (Suc 63) (trust_bundle_json b)"
    unfolding trust_bundle_json_def using storable_key storable_policy
    by (intro json_ok_object) (simp add: items_ok_iff)
  then show "storable (trust_bundle_json b)" by (simp add: storable_def eval_nat_numeral)
qed

lemma map_key_json_inj:
  assumes "map (\<lambda>k. key_json k s) ks = map (\<lambda>k. key_json k s) ns"
    and "s \<ge> 2 \<or> (\<forall>k\<in>set ks \<union> set ns. \<not> sk_rotate k)"
  shows "ks = ns"
  using assms
proof (induction ks arbitrary: ns)
  case (Cons k ks)
  then obtain n ns' where "ns = n # ns'" "key_json k s = key_json n s" by (cases ns) auto
  with Cons key_json_inj [of k s n] show ?case by auto
qed simp

lemma bundle_json_inj:
  assumes "trust_bundle_valid b" "trust_bundle_valid d" "trust_bundle_json b = trust_bundle_json d"
  shows "b = d"
proof -
  note m = json_objectD [OF assms(3) [unfolded trust_bundle_json_def]]
  note v = assms(1,2) [unfolded trust_bundle_valid_def]
  have schema: "tb_schema b = tb_schema d"
    using m [of "''schema''"] bundle_schema_small [OF assms(1)] bundle_schema_small [OF assms(2)]
    by (simp add: json_int_inj word_unat_eq_iff)
  have head: "tb_sequence b = tb_sequence d" "tb_parent b = tb_parent d"
    using m [of "''sequence''"] m [of "''parent_id''"] by (simp_all add: u64_text.enc_inj)
  have "tb_schema b \<ge> 2 \<or> (\<forall>k\<in>set (tb_keys b) \<union> set (tb_keys d). \<not> sk_rotate k)"
    using v schema by (auto simp: list_all_iff)
  then have "tb_keys b = tb_keys d" using m [of "''keys''"] schema by (auto intro: map_key_json_inj)
  moreover have "tb_policy b = tb_policy d"
  proof (cases "tb_schema b = 3")
    case True
    then have "rotation_policy_json (tb_policy b) = rotation_policy_json (tb_policy d)"
      using m [of "''rotation_policy''"] schema by simp
    note p = json_objectD [OF this [unfolded rotation_policy_json_def]]
    have "unat (rot_minimum (tb_policy b)) \<le> 100000" "unat (rot_minimum (tb_policy d)) \<le> 100000"
      using v by (simp_all add: valid_service_trust_rotation_policy_def word_le_nat_alt)
    then have "rot_minimum (tb_policy b) = rot_minimum (tb_policy d)"
      using p [of "''minimum_signatures''"] by (simp add: hidden_bit_def f64_of_nat_inj word_unat_eq_iff)
    then show ?thesis using p [of "''require_distinct_services''"] by (cases "tb_policy b"; cases "tb_policy d") simp
  next
    case False
    then show ?thesis using v schema by (cases "tb_policy b"; cases "tb_policy d") auto
  qed
  moreover have "tb_id b = tb_id d" using assms(3) v by (metis service_trust_bundle_identity_def)
  ultimately show ?thesis using schema head by (cases b; cases d) simp
qed

lemma bundle_identity_binds:
  assumes "bundle_writable b" "bundle_writable d" "tb_id b = tb_id d"
  shows "b = d \<or> sha256_collision (canonical (trust_bundle_json b)) (canonical (trust_bundle_json d))"
proof -
  have "service_trust_bundle_identity b = service_trust_bundle_identity d"
    using assms by (simp add: bundle_writable_def trust_bundle_valid_def)
  with bundle_content.identity_binds [OF assms(1,2)] bundle_json_inj assms(1,2) show ?thesis
    by (auto simp: bundle_writable_def)
qed

section \<open>The head pins the history\<close>

lemma history_length:
  assumes "history_valid c h"
  shows "length (th_bundles h) < 2 ^ 64"
proof (rule ccontr)
  assume "\<not> ?thesis"
  then have k: "Suc (2 ^ 64 - 2) < length (th_bundles h)" by simp
  have "tb_sequence (th_bundles h ! (2 ^ 64 - 2)) \<noteq> - 1"
    using rotates_link [OF history_rotates(1) [OF assms k]] by simp
  moreover have "tb_sequence (th_bundles h ! (2 ^ 64 - 2)) = of_nat (2 ^ 64 - 2 + 1)"
    using k by (intro history_bundle_at(2) [OF assms]) simp
  ultimately show False by simp
qed

definition bundles_collide :: "trust_history \<Rightarrow> trust_history \<Rightarrow> bool" where
  "bundles_collide h h' \<longleftrightarrow> (\<exists>b\<in>set (th_bundles h). \<exists>d\<in>set (th_bundles h').
     sha256_collision (canonical (trust_bundle_json b)) (canonical (trust_bundle_json d)))"

lemma equal_at_head:
  assumes "history_valid c h" "history_valid c h'" "list_all bundle_writable (th_bundles h)"
    and "list_all bundle_writable (th_bundles h')" "\<not> bundles_collide h h'"
    and "i < length (th_bundles h)" "j < length (th_bundles h')" "tb_id (th_bundles h ! i) = tb_id (th_bundles h' ! j)"
  shows "i = j \<and> take (Suc i) (th_bundles h) = take (Suc j) (th_bundles h')"
  using assms(6-8)
proof (induction i arbitrary: j)
  have same: "th_bundles h ! i = th_bundles h' ! j \<and> i = j"
    if "i < length (th_bundles h)" "j < length (th_bundles h')" "tb_id (th_bundles h ! i) = tb_id (th_bundles h' ! j)"
    for i j
  proof -
    have eq: "th_bundles h ! i = th_bundles h' ! j"
      using bundle_identity_binds [OF _ _ that(3)] assms(3-5) that(1,2)
      by (auto simp: bundles_collide_def list_all_iff)
    have "of_nat (i + 1) = (of_nat (j + 1) :: u64)"
      using history_bundle_at(2) [OF assms(1) that(1)] history_bundle_at(2) [OF assms(2) that(2)] eq by simp
    moreover have "i + 1 < 2 ^ 64" "j + 1 < 2 ^ 64"
      using history_length [OF assms(1)] history_length [OF assms(2)] that by simp_all
    ultimately have "i + 1 = j + 1" by (metis unat_u64_of_nat)
    with eq show ?thesis by simp
  qed
  {
    case 0
    with same [of 0 j] show ?case by (simp add: take_Suc_conv_app_nth)
  next
    case (Suc i)
    note e = same [OF Suc.prems]
    have "tb_id (th_bundles h ! i) = tb_id (th_bundles h' ! i)"
      using rotates_link [OF history_rotates(1) [OF assms(1), of i]]
        rotates_link [OF history_rotates(1) [OF assms(2), of i]] e Suc.prems by auto
    with Suc.IH [of i] Suc.prems e show ?case by (auto simp: take_Suc_conv_app_nth)
  }
qed

lemma head_pins_bundles:
  assumes "history_valid c h" "history_valid c h'" "list_all bundle_writable (th_bundles h)"
    and "list_all bundle_writable (th_bundles h')" "th_current h = th_current h'"
  shows "th_bundles h = th_bundles h' \<or> bundles_collide h h'"
proof (cases "bundles_collide h h'")
  case False
  have ne: "th_bundles h \<noteq> []" "th_bundles h' \<noteq> []" using assms(1,2) history_lengths by auto
  then have "tb_id (th_bundles h ! (length (th_bundles h) - 1)) = tb_id (th_bundles h' ! (length (th_bundles h') - 1))"
    using assms(1,2,5) by (simp add: history_valid_def last_conv_nth)
  from equal_at_head [OF assms(1-4) False _ _ this] ne show ?thesis by simp
qed simp

end
