(* ===== verification/Trust_Record_Laws.thy ===== *)
theory Trust_Record_Laws
  imports Trust_History_Laws Memory_Store_Laws
begin

text \<open>
  The documents of a trust history are read back as they were written.
\<close>

section \<open>Authorizations\<close>

lemma history_decimal_written [field_simps_of]:
  "map_of kvs k = Some (JStr (to_string n)) \<Longrightarrow> history_decimal (json_object kvs) k = Inr n"
  using length_to_string [of n] by (simp add: history_decimal_def string_field_written)

lemma signature_text: "has_value (decode_hex t kEd25519SignatureBytes) \<Longrightarrow> t \<noteq> [] \<and> length t \<le> kEd25519SignatureBytes * 2"
  by (auto simp: decode_hex_def has_value_iff kEd25519SignatureBytes_def split: if_splits)

lemma authorization_eta [simp]:
  "\<lparr>ba_id = ba_id a, ba_predecessor = ba_predecessor a, ba_successor = ba_successor a,
     ba_predecessor_sequence = ba_predecessor_sequence a, ba_successor_sequence = ba_successor_sequence a,
     ba_service = ba_service a, ba_key = ba_key a, ba_algorithm = ba_algorithm a, ba_tag = ba_tag a\<rparr> = a"
  "\<lparr>bs_id = bs_id s, bs_predecessor = bs_predecessor s, bs_successor = bs_successor s,
     bs_predecessor_sequence = bs_predecessor_sequence s, bs_successor_sequence = bs_successor_sequence s,
     bs_authorizations = bs_authorizations s\<rparr> = s"
  by simp_all

lemma decode_authorization_written:
  assumes "valid_service_trust_bundle_authorization a"
  shows "decode_authorization (authorization_members a) = Inr a"
proof -
  have v: "valid_sha256 (ba_id a)" "valid_sha256 (ba_predecessor a)" "valid_sha256 (ba_successor a)"
    "valid_text (ba_service a)" "valid_sha256 (ba_key a)" "has_value (decode_hex (ba_tag a) kEd25519SignatureBytes)"
    using assms by (simp_all add: valid_service_trust_bundle_authorization_def)
  show ?thesis
    unfolding decode_authorization_def authorization_members_def Let_def
    using digest_64 [OF v(1)] digest_64 [OF v(2)] digest_64 [OF v(3)] identifier_256 [OF v(4)] digest_64 [OF v(5)]
      signature_text [OF v(6)] assms
    by (simp add: field_simps_of del: algorithm_code.simps cong: sum.case_cong)
qed

lemma decode_set_written:
  assumes "valid_service_trust_bundle_authorization_set s"
  shows "decode_authorization_set (authorization_set_members s) = Inr s"
proof -
  have v: "valid_sha256 (bs_id s)" "valid_sha256 (bs_predecessor s)" "valid_sha256 (bs_successor s)"
    "\<forall>a\<in>set (bs_authorizations s). valid_service_trust_bundle_authorization a"
    using assms by (simp_all add: valid_service_trust_bundle_authorization_set_def list_all_iff)
  have "decode_all decode_authorization (map authorization_members (bs_authorizations s)) = Inr (bs_authorizations s)"
    using v(4) by (simp add: decode_all_written decode_authorization_written)
  then show ?thesis
    unfolding decode_authorization_set_def authorization_set_members_def Let_def
    using digest_64 [OF v(1)] digest_64 [OF v(2)] digest_64 [OF v(3)] assms
    by (simp add: field_simps_of cong: sum.case_cong)
qed

section \<open>Records\<close>

definition version_fits :: "string \<Rightarrow> bool" where
  "version_fits version \<longleftrightarrow> version \<noteq> [] \<and> length version \<le> 128"

definition record_writable :: "rotation_record \<Rightarrow> bool" where
  "record_writable r \<longleftrightarrow> valid_record_structure r \<and>
     (\<forall>a. rr_authorization r = Some a \<longrightarrow> valid_service_trust_bundle_authorization a) \<and>
     (\<forall>s. rr_set r = Some s \<longrightarrow> valid_service_trust_bundle_authorization_set s \<and>
        length (bs_authorizations s) \<le> 10000000)"

lemma document_schema_written:
  assumes "version_fits version" "map_of kvs ''format'' = Some (JStr f)" "map_of kvs ''schema'' = Some (json_int n)"
    "map_of kvs ''library_version'' = Some (JStr version)" "f \<noteq> []" "length f \<le> 128" "n = 1 \<or> n = 2"
  shows "document_schema (json_object kvs) f = Inr n"
  using assms by (auto simp: document_schema_def field_simps_of version_fits_def Let_def)

lemma decode_optional_written:
  assumes "\<And>y. x = Some y \<Longrightarrow> d (enc y) = Inr y \<and> enc y \<noteq> JNull"
  shows "decode_optional d (Some (case x of None \<Rightarrow> JNull | Some y \<Rightarrow> enc y)) = Inr x"
  using assms by (cases x) (auto simp: decode_optional_def split: json.split)

lemma members_not_null [simp]: "json_object kvs \<noteq> JNull"
  by (simp add: json_object_def)

lemma rotation_event_round_trip [simp]:
  "rotation_event_of (rotation_event_code e) = e" "rotation_event_code e \<le> rotation_event_code SuccessorAuthorized"
  "rotation_event_code e < 1000"
  by (cases e; simp add: rotation_event_of_def)+

lemma record_schema: "valid_record_structure r \<Longrightarrow> rr_schema r = 1 \<or> rr_schema r = 2"
  by (simp add: valid_record_structure_def)

lemma rotation_record_eta [simp]:
  "\<lparr>rr_schema = rr_schema r, rr_sequence = rr_sequence r, rr_id = rr_id r, rr_parent = rr_parent r,
     rr_event = rr_event r, rr_bundle = rr_bundle r, rr_authorization = rr_authorization r, rr_set = rr_set r\<rparr> = r"
  by simp

lemma two_above_one [simp]: "\<not> (2 :: u32) \<le> 1"
  by (simp add: word_le_nat_alt)

lemma decode_record_written:
  assumes "version_fits version" "record_writable r"
  shows "decode_record (rotation_record_json version r) = Inr r"
proof -
  have r: "valid_record_structure r" using assms(2) by (simp add: record_writable_def)
  let ?n = "unat (rr_schema r)" and ?j = "rotation_record_json version r"
  have n: "(?n = 1 \<and> rr_schema r = 1 \<and> rr_set r = None) \<or> (?n = 2 \<and> rr_schema r = 2 \<and> rr_authorization r = None)"
    using r by (auto simp: valid_record_structure_def Let_def)
  then have n2: "?n = 1 \<or> ?n = 2" by blast
  have ids: "valid_sha256 (rr_id r)" "valid_sha256 (rr_bundle r)" "rr_parent r = [] \<or> valid_sha256 (rr_parent r)"
    using r by (auto simp: valid_record_structure_def Let_def)
  have parent: "length (rr_parent r) \<le> 64" using ids(3) digest_64 [of "rr_parent r"] by auto
  have "document_schema ?j ''rbfsafe-service-trust-rotation-record'' = Inr ?n"
    unfolding rotation_record_json_def by (rule document_schema_written [OF assms(1)]) (use n2 in simp_all)
  moreover have "history_decimal ?j ''sequence'' = Inr (rr_sequence r)" "history_string 64 False ?j ''id'' = Inr (rr_id r)"
    "history_string 64 True ?j ''parent_id'' = Inr (rr_parent r)"
    "history_integer ?j ''type'' (rotation_event_code SuccessorAuthorized) = Inr (rotation_event_code (rr_event r))"
    "history_string 64 False ?j ''bundle_id'' = Inr (rr_bundle r)"
    unfolding rotation_record_json_def using digest_64 [OF ids(1)] digest_64 [OF ids(2)] parent
    by (simp_all add: field_simps_of del: rotation_event_code.simps)
  moreover have "\<not> ((?n = 1 \<and> json_find ?j ''authorization'' = None) \<or> (?n = 2 \<and> json_find ?j ''authorization_set'' = None))"
    using n by (auto simp: rotation_record_json_def)
  moreover have "decode_optional decode_authorization (json_find ?j ''authorization'') = Inr (rr_authorization r)"
  proof (cases "rr_schema r = 1")
    case True
    then have "json_find ?j ''authorization'' = Some (case rr_authorization r of None \<Rightarrow> JNull | Some a \<Rightarrow> authorization_members a)"
      by (simp add: rotation_record_json_def)
    then show ?thesis
      using assms(2) decode_optional_written [of "rr_authorization r" decode_authorization authorization_members]
      by (simp add: record_writable_def decode_authorization_written) (simp add: authorization_members_def)
  next
    case False
    then show ?thesis using n by (auto simp: rotation_record_json_def decode_optional_def)
  qed
  moreover have "decode_optional decode_authorization_set (json_find ?j ''authorization_set'') = Inr (rr_set r)"
  proof (cases "rr_schema r = 2")
    case True
    then have "json_find ?j ''authorization_set'' = Some (case rr_set r of None \<Rightarrow> JNull | Some s \<Rightarrow> authorization_set_members s)"
      by (simp add: rotation_record_json_def)
    then show ?thesis
      using assms(2) decode_optional_written [of "rr_set r" decode_authorization_set authorization_set_members]
      by (simp add: record_writable_def decode_set_written) (simp add: authorization_set_members_def)
  next
    case False
    then show ?thesis using n by (auto simp: rotation_record_json_def decode_optional_def)
  qed
  ultimately show ?thesis using r unfolding decode_record_def Let_def by (simp del: rotation_event_code.simps)
qed

lemma json_ok_authorization: "json_ok (Suc 60) (authorization_members a)"
  unfolding authorization_members_def by (intro json_ok_object) simp

lemma json_ok_set: "length (bs_authorizations s) \<le> 10000000 \<Longrightarrow> json_ok (Suc 62) (authorization_set_members s)"
  unfolding authorization_set_members_def using json_ok_authorization
  by (intro json_ok_object) (simp add: items_ok_iff)

lemma storable_record:
  assumes "record_writable r"
  shows "storable (rotation_record_json version r)"
proof -
  have "unat (rr_schema r) < 1000" using assms by (auto simp: record_writable_def dest: record_schema)
  moreover have "json_ok 63 (case rr_set r of None \<Rightarrow> JNull | Some s \<Rightarrow> authorization_set_members s)"
    using assms json_ok_set by (auto simp: record_writable_def split: option.split)
  moreover have "json_ok 63 (case rr_authorization r of None \<Rightarrow> JNull | Some a \<Rightarrow> authorization_members a)"
  proof (cases "rr_authorization r")
    case (Some a)
    have "json_ok (Suc 62) (authorization_members a)"
      unfolding authorization_members_def by (intro json_ok_object) simp
    with Some show ?thesis by simp
  qed simp
  ultimately have "json_ok (Suc 63) (rotation_record_json version r)"
    unfolding rotation_record_json_def by (intro json_ok_object) simp
  then show ?thesis by (simp add: storable_def eval_nat_numeral)
qed

lemma record_text_read:
  assumes "record_writable r" "length (record_text version r) \<le> min maximum stream_limit"
  shows "read_history_json path (Some (record_text version r)) maximum = Inr (rotation_record_json version r)"
  using assms parse_written [OF storable_record [OF assms(1)]]
  by (simp add: read_history_json_def record_text_def document_text_def del: append_assoc length_append)

section \<open>The manifest\<close>

definition manifest_text :: "string \<Rightarrow> trust_history \<Rightarrow> string" where
  "manifest_text version h = document_text (manifest_json version (th_root h) (unat (th_schema h)))"

lemma manifest_read:
  assumes "version_fits version" "th_schema h = 1 \<or> th_schema h = 2" "valid_sha256 (th_root h)"
    and "length (manifest_text version h) \<le> min maximum stream_limit"
  shows "read_history_json path (Some (manifest_text version h)) maximum =
      Inr (manifest_json version (th_root h) (unat (th_schema h)))"
    "decode_manifest (manifest_json version (th_root h) (unat (th_schema h))) = Inr (unat (th_schema h), th_root h)"
proof -
  let ?n = "unat (th_schema h)"
  have n: "?n = 1 \<or> ?n = 2" using assms(2) by auto
  have "storable (manifest_json version (th_root h) ?n)"
    unfolding manifest_json_def using n by (intro storable_document) (auto simp: manifest_payload_def)
  then show "read_history_json path (Some (manifest_text version h)) maximum = Inr (manifest_json version (th_root h) ?n)"
    using assms(4) parse_written
    by (simp add: read_history_json_def manifest_text_def document_text_def del: append_assoc length_append)
  have s: "document_schema (manifest_json version (th_root h) ?n) ''rbfsafe-service-trust-history'' = Inr ?n"
    unfolding manifest_json_def store_document_def manifest_payload_def
    by (rule document_schema_written [OF assms(1)]) (use n in simp_all)
  have f: "history_string 64 False (manifest_json version (th_root h) ?n) ''root_bundle_id'' = Inr (th_root h)"
    "history_string 64 False (manifest_json version (th_root h) ?n) ''identity'' =
       Inr (sha256 (canonical (json_object (manifest_payload (th_root h) ?n))))"
    unfolding manifest_json_def store_document_def using digest_64 [OF assms(3)]
      digest_64 [OF valid_sha256_sha256 [of "canonical (json_object (manifest_payload (th_root h) ?n))"]]
    by (simp_all add: field_simps_of manifest_payload_def)
  show "decode_manifest (manifest_json version (th_root h) ?n) = Inr (?n, th_root h)"
    using assms(3) by (simp add: decode_manifest_def s f Let_def)
qed

end
