(* ===== verification/Trust_Store_Laws.thy ===== *)
theory Trust_Store_Laws
  imports Trust_Record_Laws "HOL-Library.Multiset"
begin

text \<open>
  The directory of a trust history against the history it keeps: opening gives back the history,
  whatever order its records are listed in; a publication extends it by one entry; and a crash at
  any write leaves the old history or the extended one.
\<close>

section \<open>The directory of a history\<close>

definition record_entry :: "string \<Rightarrow> rotation_record \<Rightarrow> string \<times> string option" where
  "record_entry version r = (record_filename r, Some (record_text version r))"

definition bundle_stored :: "trust_options \<Rightarrow> (string \<times> string option) list \<Rightarrow> trust_bundle \<Rightarrow> bool" where
  "bundle_stored opts bs b \<longleftrightarrow> (\<exists>text. map_of bs (bundle_filename b) = Some (Some text) \<and>
     (\<forall>path. path \<noteq> [] \<longrightarrow> load_service_trust_bundle (to_keys opts) (to_payload opts) path (Some text) = Inr b))"

text \<open>What a record and a bundle must satisfy to be read back under the limits of the options.\<close>

definition record_fits :: "string \<Rightarrow> trust_options \<Rightarrow> rotation_record \<Rightarrow> bool" where
  "record_fits version opts r \<longleftrightarrow> record_writable r \<and>
     (case rr_set r of None \<Rightarrow> True | Some s \<Rightarrow> length (bs_authorizations s) \<le> to_signatures opts) \<and>
     length (record_text version r) \<le> min (to_metadata opts) stream_limit"

definition bundle_fits :: "string \<Rightarrow> trust_options \<Rightarrow> trust_bundle \<Rightarrow> bool" where
  "bundle_fits version opts b \<longleftrightarrow> trust_bundle_valid b \<and> bundle_typed b \<and>
     bundle_loadable (to_keys opts) (to_payload opts) version b"

definition total_keys :: "trust_bundle list \<Rightarrow> nat" where
  "total_keys bs = sum_list (map (\<lambda>b. length (tb_keys b)) bs)"

definition history_fits :: "ed25519 \<Rightarrow> string \<Rightarrow> trust_history \<Rightarrow> bool" where
  "history_fits c version h \<longleftrightarrow> history_valid c h \<and> th_directory h \<noteq> [] \<and> valid_history_options (th_options h) \<and>
     version_fits version \<and> length (manifest_text version h) \<le> min (to_metadata (th_options h)) stream_limit \<and>
     length (th_records h) \<le> to_bundles (th_options h) \<and> total_keys (th_bundles h) \<le> to_total (th_options h) \<and>
     list_all (record_fits version (th_options h)) (th_records h) \<and>
     list_all (bundle_fits version (th_options h)) (th_bundles h)"

definition keeps :: "ed25519 \<Rightarrow> string \<Rightarrow> trust_directory \<Rightarrow> trust_history \<Rightarrow> bool" where
  "keeps c version td h \<longleftrightarrow> history_fits c version h \<and> td_manifest td = Some (manifest_text version h) \<and>
     (\<exists>rs bs. td_records td = Some (map (record_entry version) rs) \<and> mset rs = mset (th_records h) \<and>
        td_bundles td = Some bs \<and> (\<forall>b\<in>set (th_bundles h). bundle_stored (th_options h) bs b))"

section \<open>Opening\<close>

lemma decode_entries_kept:
  assumes "\<forall>r\<in>set rs. record_fits version opts r" "version_fits version"
    and "m + length rs \<le> to_bundles opts" "n + length rs \<le> to_bundles opts"
  shows "decode_record_entries opts (\<lambda>_. False) path m n (map (record_entry version) rs) =
     Inr (map (\<lambda>r. (record_filename r, r)) rs)"
  using assms
proof (induction rs arbitrary: m n)
  case (Cons r rs)
  have r: "record_fits version opts r" using Cons.prems(1) by simp
  then have w: "record_writable r" "length (record_text version r) \<le> min (to_metadata opts) stream_limit"
    by (simp_all add: record_fits_def)
  have "decode_record_entries opts (\<lambda>_. False) path (m + 1) (n + 1) (map (record_entry version) rs) =
      Inr (map (\<lambda>r. (record_filename r, r)) rs)"
    using Cons.prems by (intro Cons.IH) auto
  moreover have "has_json_extension (record_filename r)" by (simp add: record_filename_def)
  ultimately show ?case
    using Cons.prems(3,4) r record_text_read [OF w] decode_record_written [OF assms(2) w(1)]
    by (auto simp: record_entry_def [of version r] record_fits_def split: option.splits)
qed simp

definition record_key :: "string \<times> rotation_record \<Rightarrow> u64 \<times> string" where
  "record_key e = (rr_sequence (snd e), rr_id (snd e))"

lemma record_less_key: "record_less a b \<longleftrightarrow> record_key a < record_key b"
  by (auto simp: record_less_def record_key_def less_prod_def)

lemma history_sequences:
  assumes "history_valid c h" "k < length (th_records h)"
  shows "unat (rr_sequence (th_records h ! k)) = k + 1"
proof -
  have k: "k < length (th_bundles h)" using assms history_lengths(3) by metis
  then have "rr_sequence (th_records h ! k) = of_nat (k + 1)"
    using history_entry [OF assms(1) k] by (simp add: history_entry_ok_def)
  moreover have "k + 1 < 2 ^ 64" using history_length [OF assms(1)] k by simp
  ultimately show ?thesis by (simp only: unat_u64_of_nat)
qed

lemma sort_kept:
  assumes "history_valid c h" "mset rs = mset (th_records h)"
  shows "sort_by record_less (map (\<lambda>r. (record_filename r, r)) rs) = map (\<lambda>r. (record_filename r, r)) (th_records h)"
proof (rule sort_by_unique [OF record_less_key])
  have "rr_sequence (th_records h ! i) < rr_sequence (th_records h ! j)" if "i < j" "j < length (th_records h)" for i j
    using history_sequences [OF assms(1), of i] history_sequences [OF assms(1), of j] that
    by (simp add: word_less_nat_alt)
  then have s: "sorted_wrt (<) (map (\<lambda>r. record_key (record_filename r, r)) (th_records h))"
    by (auto simp: sorted_wrt_iff_nth_less record_key_def less_prod_def)
  then show "sorted_wrt (<) (map record_key (map (\<lambda>r. (record_filename r, r)) (th_records h)))"
    by (simp add: comp_def)
  show "set (map (\<lambda>r. (record_filename r, r)) rs) = set (map (\<lambda>r. (record_filename r, r)) (th_records h))"
    using mset_eq_setD [OF assms(2)] by simp
  have "distinct (th_records h)"
    using s by (simp add: strict_sorted_iff distinct_map)
  then have "distinct rs" using assms(2) by (metis mset_eq_imp_distinct_iff)
  then show "distinct (map (\<lambda>r. (record_filename r, r)) rs)" by (simp add: distinct_map inj_on_def)
qed

lemma replay_kept:
  assumes "history_entries_ok c schema i before es" "schema = 1 \<or> schema = 2"
    and "\<forall>(r, b)\<in>set es. bundle_stored opts bs b"
    and "loaded + total_keys (map snd es) \<le> to_total opts" "path \<noteq> []"
    and "before = None \<Longrightarrow> es = [] \<or> tb_id (snd (hd es)) = root_id"
  shows "replay_rotations c opts (\<lambda>_. False) path bs schema root_id i before loaded
     (map (\<lambda>(r, b). (record_filename r, r)) es) = Inr (map snd es)"
  using assms
proof (induction es arbitrary: i before loaded)
  case (Cons e es)
  obtain r b where e: "e = (r, b)" by (cases e)
  have ok: "history_entry_ok c schema i before r b" using Cons.prems(1) by (simp add: e)
  have name: "sequence_filename (rr_sequence r) (rr_bundle r) = bundle_filename b"
    using ok by (simp add: history_entry_ok_def bundle_filename_def)
  obtain content where stored: "map_of bs (bundle_filename b) = Some (Some content)" and
      load: "\<And>n. load_service_trust_bundle (to_keys opts) (to_payload opts) (in_directory path n) (Some content) = Inr b"
    using Cons.prems(3) by (auto simp: e bundle_stored_def in_directory_def)
  have rest: "replay_rotations c opts (\<lambda>_. False) path bs schema root_id (i + 1) (Some (r, b)) (loaded + length (tb_keys b))
      (map (\<lambda>(r, b). (record_filename r, r)) es) = Inr (map snd es)"
    using Cons.prems by (intro Cons.IH) (auto simp: e total_keys_def)
  have verified: "(case before of None \<Rightarrow> Inr () | Some (_, pb) \<Rightarrow> verify_rotation_record c schema pb b r) = Inr ()"
    using ok by (auto simp: history_entry_ok_def verify_rotation_record_def has_value_iff split: option.splits if_splits)
  have room: "length (tb_keys b) \<le> to_total opts - loaded" using Cons.prems(4) by (simp add: e total_keys_def)
  have link: "\<not> (rr_schema r \<noteq> schema \<or> rr_sequence r \<noteq> of_nat (i + 1) \<or> record_filename r \<noteq> record_filename r \<or>
      (case before of None \<Rightarrow> rr_bundle r \<noteq> root_id \<or> rr_event r \<noteq> RootPinned
       | Some (pr, _) \<Rightarrow> rr_parent r \<noteq> rr_id pr \<or> rr_event r \<noteq> SuccessorAuthorized))"
    using ok Cons.prems(6) by (auto simp: history_entry_ok_def e split: option.splits)
  have same: "tb_schema b = bundle_schema_of schema" "tb_sequence b = rr_sequence r" "tb_id b = rr_bundle r"
    using ok by (simp_all add: history_entry_ok_def)
  show ?case
    unfolding e list.map prod.case replay_rotations.simps if_False if_not_P [OF link] name stored option.case load
      rbind_simps verified rest using room same by simp
qed simp

theorem open_kept:
  assumes "keeps c version td h" "valid_sha256 head_pin"
  shows "open_history c (th_directory h) (th_root h) head_pin (th_options h) (\<lambda>_. False) (Some td) =
     (if head_pin = th_current h then Inr h
      else failure IdentityMismatch ''service trust-history head does not match the caller expected head'' (th_current h))"
proof -
  let ?opts = "th_options h" and ?d = "th_directory h"
  have fits: "history_fits c version h" and man: "td_manifest td = Some (manifest_text version h)"
    using assms(1) by (simp_all add: keeps_def)
  obtain rs bs where disk: "td_records td = Some (map (record_entry version) rs)" "mset rs = mset (th_records h)"
      "td_bundles td = Some bs" "\<forall>b\<in>set (th_bundles h). bundle_stored ?opts bs b"
    using assms(1) by (auto simp: keeps_def)
  have h: "history_valid c h" and lim: "?d \<noteq> []" "valid_history_options ?opts" "version_fits version"
      "length (th_records h) \<le> to_bundles ?opts" "total_keys (th_bundles h) \<le> to_total ?opts"
      "length (manifest_text version h) \<le> min (to_metadata ?opts) stream_limit"
    and each: "\<forall>r\<in>set (th_records h). record_fits version ?opts r" "\<forall>b\<in>set (th_bundles h). bundle_fits version ?opts b"
    using fits by (simp_all add: history_fits_def list_all_iff)
  note v = h [unfolded history_valid_def]
  note len = history_lengths [OF h]
  have dec: "decode_record_entries ?opts (\<lambda>_. False) p 0 0 (map (record_entry version) rs) =
      Inr (map (\<lambda>r. (record_filename r, r)) rs)" for p
    using each(1) mset_eq_setD [OF disk(2)] mset_eq_length [OF disk(2)] lim
    by (intro decode_entries_kept) auto
  have ne: "rs \<noteq> []" using disk(2) len by auto
  let ?es = "zip (th_records h) (th_bundles h)"
  have names: "map (\<lambda>(r, b). (record_filename r, r)) ?es = map (\<lambda>r. (record_filename r, r)) (th_records h)"
    using len(3) by (intro nth_equalityI) simp_all
  have replay: "replay_rotations c ?opts (\<lambda>_. False) p bs (th_schema h) (th_root h) 0 None 0
      (map (\<lambda>r. (record_filename r, r)) (th_records h)) = Inr (th_bundles h)" if "p \<noteq> []" for p
  proof -
    have "replay_rotations c ?opts (\<lambda>_. False) p bs (th_schema h) (th_root h) 0 None 0
      (map (\<lambda>(r, b). (record_filename r, r)) ?es) = Inr (map snd ?es)"
    proof (rule replay_kept)
      show "\<forall>(r, b)\<in>set ?es. bundle_stored ?opts bs b"
        using disk(4) by (auto dest: set_zip_rightD)
      show "?es = [] \<or> tb_id (snd (hd ?es)) = th_root h" using v len by (cases "th_records h"; cases "th_bundles h") auto
    qed (use v lim that len in simp_all)
    then show ?thesis using len by (simp add: names)
  qed
  have schema: "(of_nat (unat (th_schema h)) :: u32) = th_schema h" by simp
  have eta: "\<lparr>th_directory = ?d, th_schema = th_schema h, th_root = th_root h,
      th_current = tb_id (last (th_bundles h)), th_bundles = th_bundles h,
      th_records = th_records h, th_options = ?opts\<rparr> = h"
    using v by (cases h) simp
  have mapped: "map snd (map (\<lambda>r. (record_filename r, r)) (th_records h)) = th_records h" by (simp add: comp_def)
  have root_ok: "th_schema h = 1 \<or> th_schema h = 2" "valid_sha256 (th_root h)" using v by blast+
  show ?thesis
    using lim(1,2) root_ok(2) assms(2) ne
    by (simp add: open_history_def man disk manifest_read [OF lim(3) root_ok lim(6)] dec sort_kept [OF h disk(2)] replay
        in_directory_def mapped eta h Let_def del: map_map)
qed

section \<open>Publishing\<close>

lemma check_publication_accepts:
  assumes "check_publication c version h b a s maximum h0 = Inr r"
  shows "r = next_record h0 (th_schema h) b a s" "valid_record_structure r"
    "length (th_bundles h0) < min maximum (to_bundles (th_options h))"
    "length (tb_keys b) \<le> to_keys (th_options h)"
    "length (service_trust_bundle_storage_document version b) \<le> to_payload (th_options h)"
    "case s of None \<Rightarrow> True | Some s \<Rightarrow> length (bs_authorizations s) \<le> to_signatures (th_options h)"
    "if th_schema h = 1 then verify_service_trust_bundle_successor c (last (th_bundles h0)) b (the a) = Inr ()
     else verify_successor_by_set c (last (th_bundles h0)) b (the s) = Inr ()"
  using assms by (auto simp: check_publication_def Let_def result_simps not_le split: if_splits option.splits)

lemma count_keys_total: "count_keys maximum loaded bs = Inr n \<Longrightarrow> loaded \<le> maximum \<Longrightarrow> n = loaded + total_keys bs \<and> n \<le> maximum"
  by (induction bs arbitrary: loaded) (force simp: total_keys_def not_less split: if_splits)+

lemma check_publication_total:
  assumes "check_publication c version h b a s maximum h0 = Inr r"
  shows "total_keys (th_bundles h0 @ [b]) \<le> to_total (th_options h)"
proof -
  obtain n where "count_keys (to_total (th_options h)) 0 (th_bundles h0) = Inr n"
      "length (tb_keys b) \<le> to_total (th_options h) - n"
    using assms by (auto simp: check_publication_def Let_def result_simps not_less split: if_splits)
  moreover from this(1) have "n = total_keys (th_bundles h0)" "n \<le> to_total (th_options h)"
    using count_keys_total [of "to_total (th_options h)" 0 "th_bundles h0" n] by simp_all
  ultimately show ?thesis by (simp add: total_keys_def)
qed

lemma verified_set_size:
  assumes "verify_successor_by_set c p b s = Inr ()"
  shows "length (bs_authorizations s) \<le> 100000" "valid_service_trust_bundle_authorization_set s"
  using assms by (auto simp: verify_successor_by_set_def assemble_service_trust_bundle_authorizations_def Let_def
      result_simps not_less split: if_splits)

lemma extend_valid:
  assumes "history_valid c h0" "check_publication c version h b a s maximum h0 = Inr r" "th_schema h = th_schema h0"
    and "trust_bundle_valid b" "authorization_fits (th_schema h) a s"
  shows "history_valid c (extend_history h0 b r)"
proof -
  note acc = check_publication_accepts [OF assms(2)]
  note len = history_lengths [OF assms(1)]
  let ?n = "length (th_bundles h0)"
  have lastb: "last (th_bundles h0) = th_bundles h0 ! (?n - 1)" using len(1) by (simp add: last_conv_nth)
  have entry: "history_entry_ok c (th_schema h0) (?n - 1)
      (if ?n - 1 = 0 then None else Some (th_records h0 ! (?n - 1 - 1), th_bundles h0 ! (?n - 1 - 1)))
      (th_records h0 ! (?n - 1)) (last (th_bundles h0))"
    using history_entry [OF assms(1), of "?n - 1"] len(1) lastb by simp
  have rot: "rotates (last (th_bundles h0)) b"
    using acc(7) verified_single verified_quorum by (auto split: if_splits)
  have "last (zip (th_records h0) (th_bundles h0)) = (last (th_records h0), last (th_bundles h0))"
    using len by (simp add: last_zip)
  moreover have "tb_sequence b = of_nat (?n + 1)"
    using rotates_link [OF rot] entry len(1) by (auto simp: history_entry_ok_def)
  moreover have "tb_schema b = bundle_schema_of (th_schema h0)"
    using rotates_link [OF rot] entry by (simp add: history_entry_ok_def)
  ultimately have "history_entry_ok c (th_schema h0) ?n (Some (last (zip (th_records h0) (th_bundles h0)))) r b"
    using acc(1,2,7) assms(3-5)
    by (auto simp: history_entry_ok_def next_record_def Let_def has_value_iff authorization_fits_def
        split: option.splits if_splits)
  then have "history_entries_ok c (th_schema h0) 0 None (zip (th_records h0 @ [r]) (th_bundles h0 @ [b]))"
    using assms(1) len by (simp add: entries_ok_append history_valid_def)
  moreover have "valid_sha256 (tb_id (hd (th_bundles h0)))" using assms(1) by (metis history_valid_def)
  ultimately show ?thesis using assms(1) len by (simp add: history_valid_def extend_history_def)
qed

text \<open>What the checks of a publication leave open: limits of the JSON parser and of the metadata files.\<close>

definition successor_fits :: "string \<Rightarrow> trust_directory \<Rightarrow> trust_history \<Rightarrow> trust_bundle \<Rightarrow> rotation_record \<Rightarrow> bool" where
  "successor_fits version td h0 b r \<longleftrightarrow> bundle_typed b \<and> length (tb_keys b) \<le> 10000000 \<and>
     length (service_trust_bundle_storage_document version b) \<le> stream_limit \<and>
     length (record_text version r) \<le> min (to_metadata (th_options h0)) stream_limit \<and>
     (\<forall>bs file. td_bundles td = Some bs \<longrightarrow> map_of bs (bundle_filename b) = Some file \<longrightarrow>
        bundle_stored (th_options h0) bs b)"

lemma extend_fits:
  assumes "history_fits c version h0" "check_publication c version h b a s maximum h0 = Inr r"
    and "th_schema h = th_schema h0" "th_options h = th_options h0"
    and "trust_bundle_valid b" "authorization_fits (th_schema h) a s" "successor_fits version td h0 b r"
  shows "history_fits c version (extend_history h0 b r)"
proof -
  note acc = check_publication_accepts [OF assms(2)]
  have h0: "history_valid c h0" using assms(1) by (simp add: history_fits_def)
  have "record_writable r"
    using acc(1,2,7) assms(3,6) verified_set_size
    by (fastforce simp: record_writable_def next_record_def Let_def authorization_fits_def split: option.splits if_splits)
  moreover have "rr_set r = s" by (simp add: acc(1) next_record_def Let_def)
  ultimately have "record_fits version (th_options h0) r"
    using acc(6) assms(4,7) by (auto simp: record_fits_def successor_fits_def split: option.splits)
  moreover have "bundle_fits version (th_options h0) b"
    using acc(4,5) assms(1,4,5,7)
    by (simp add: bundle_fits_def bundle_loadable_def successor_fits_def history_fits_def version_fits_def)
  moreover have "length (th_records h0 @ [r]) \<le> to_bundles (th_options h0)"
    using acc(3) history_lengths(3) [OF h0] assms(4) by simp
  ultimately show ?thesis
    using assms(1) extend_valid [OF h0 assms(2,3,5,6)] check_publication_total [OF assms(2)] assms(4)
    by (simp add: history_fits_def extend_history_def manifest_text_def)
qed

section \<open>What each write does\<close>

lemma keeps_bookkeeping [simp]:
  "keeps c version (td\<lparr>td_locked := x\<rparr>) h = keeps c version td h"
  "keeps c version (td\<lparr>td_temporary := ts\<rparr>) h = keeps c version td h"
  "keeps c version (drop_temporary t td) h = keeps c version td h"
  "keeps c version (td\<lparr>td_temporary := ts, td_records := es\<rparr>) h = keeps c version (td\<lparr>td_records := es\<rparr>) h"
  "keeps c version (td\<lparr>td_temporary := ts, td_bundles := bs\<rparr>) h = keeps c version (td\<lparr>td_bundles := bs\<rparr>) h"
  by (simp_all add: keeps_def drop_temporary_def)

lemma drop_temporary_simps [simp]:
  "td_records (drop_temporary t td) = td_records td" "td_bundles (drop_temporary t td) = td_bundles td"
  by (simp_all add: drop_temporary_def)

lemma stored_append: "bundle_stored opts bs b \<Longrightarrow> bundle_stored opts (bs @ [e]) b"
  by (auto simp: bundle_stored_def)

lemma keeps_more_bundles:
  assumes "keeps c version td h" "td_bundles td = Some bs"
  shows "keeps c version (td\<lparr>td_bundles := Some (bs @ [e])\<rparr>) h"
proof -
  obtain rs where "td_records td = Some (map (record_entry version) rs)" "mset rs = mset (th_records h)"
    using assms(1) by (auto simp: keeps_def)
  then show ?thesis using assms unfolding keeps_def by (auto intro: stored_append intro!: exI [of _ rs])
qed

lemma keeps_extend:
  assumes "keeps c version td h0" "history_fits c version (extend_history h0 b r)"
    and "td_records td = Some es" "td_bundles td = Some bs" "bundle_stored (th_options h0) bs b"
  shows "keeps c version (td\<lparr>td_records := Some (es @ [record_entry version r])\<rparr>) (extend_history h0 b r)"
proof -
  obtain rs where es: "es = map (record_entry version) rs" and "mset rs = mset (th_records h0)"
    using assms(1,3) by (auto simp: keeps_def)
  then have "es @ [record_entry version r] = map (record_entry version) (rs @ [r])"
    "mset (rs @ [r]) = mset (th_records (extend_history h0 b r))"
    by (simp_all add: extend_history_def)
  moreover have "manifest_text version (extend_history h0 b r) = manifest_text version h0"
    "th_bundles (extend_history h0 b r) = th_bundles h0 @ [b]" "th_options (extend_history h0 b r) = th_options h0"
    by (simp_all add: extend_history_def manifest_text_def)
  ultimately show ?thesis using assms unfolding keeps_def
    by (intro conjI exI [of _ "rs @ [r]"] exI [of _ bs]) (auto simp: es)
qed

definition old_or_new ::
  "ed25519 \<Rightarrow> string \<Rightarrow> trust_history \<Rightarrow> trust_history \<Rightarrow> trust_directory \<Rightarrow> bool" where
  "old_or_new c version h h' td \<longleftrightarrow> keeps c version td h \<or> keeps c version td h'"

text \<open>Storing the bundle keeps the history; on success the bundle is there.\<close>

lemma store_bundle_states:
  assumes "store_bundle version io nonce h td b = (res, ws)" "keeps c version td h0"
    and "th_options h = th_options h0" "trust_bundle_valid b" "version_fits version"
    and "length (tb_keys b) \<le> to_keys (th_options h)"
    and "length (service_trust_bundle_storage_document version b) \<le> to_payload (th_options h)"
    and "successor_fits version td h0 b r"
  shows "always apply_trust_write (\<lambda>td. keeps c version td h0) td ws"
    and "td_records (foldl apply_trust_write td ws) = td_records td"
    and "res = Inr () \<Longrightarrow> \<exists>bs. td_bundles (foldl apply_trust_write td ws) = Some bs \<and> bundle_stored (th_options h0) bs b"
proof -
  obtain bs where bs: "td_bundles td = Some bs" using assms(2) by (auto simp: keeps_def)
  let ?text = "service_trust_bundle_storage_document version b" and ?t = "''.bundle-'' @ nonce @ ''.json''"
  note more = keeps_more_bundles [OF assms(2) bs]
  have stored: "bundle_stored (th_options h0) (bs @ [(bundle_filename b, Some ?text)]) b"
    if "map_of bs (bundle_filename b) = None"
    using that assms(3-8) load_saved_bundle [of b "to_keys (th_options h0)" "to_payload (th_options h0)" version]
    by (simp add: bundle_stored_def bundle_loadable_def successor_fits_def version_fits_def map_add_def)
  have cases: "(\<exists>file. map_of bs (bundle_filename b) = Some file \<and> ws = []) \<or> (map_of bs (bundle_filename b) = None \<and>
      (ws = [] \<and> res \<noteq> Inr () \<or> ws = [AddTemporary ?t ?text, DropTemporary ?t] \<and> res \<noteq> Inr () \<or>
       ws = [AddTemporary ?t ?text, MoveBundle ?t (bundle_filename b)]))"
    using assms(1) bs
    by (auto simp: store_bundle_def publish_bundle_file_def Let_def split: option.splits sum.splits if_splits prod.splits)
  show "always apply_trust_write (\<lambda>td. keeps c version td h0) td ws"
    "td_records (foldl apply_trust_write td ws) = td_records td"
    using cases more assms(2) bs by (auto simp: drop_temporary_def)
  assume "res = Inr ()"
  then show "\<exists>bs. td_bundles (foldl apply_trust_write td ws) = Some bs \<and> bundle_stored (th_options h0) bs b"
    using cases bs stored assms(8) by (auto simp: successor_fits_def)
qed

lemma record_name_free:
  assumes "keeps c version td h0" "td_records td = Some es" "rr_sequence r = tb_sequence b"
    and "history_valid c (extend_history h0 b r)"
  shows "record_filename r \<notin> fst ` set es"
proof
  assume "record_filename r \<in> fst ` set es"
  moreover obtain rs where rs: "es = map (record_entry version) rs" "mset rs = mset (th_records h0)"
    using assms(1,2) by (auto simp: keeps_def)
  ultimately obtain q where q: "q \<in> set rs" "record_filename r = record_filename q"
    by (auto simp: record_entry_def)
  then obtain k where k: "k < length (th_records h0)" "q = th_records h0 ! k"
    using mset_eq_setD [OF rs(2)] by (auto simp: in_set_conv_nth)
  let ?h = "extend_history h0 b r"
  have "th_records ?h = th_records h0 @ [r]" by (simp add: extend_history_def)
  then have "unat (rr_sequence q) = k + 1" "unat (rr_sequence r) = length (th_records h0) + 1"
    using history_sequences [OF assms(4), of k] history_sequences [OF assms(4), of "length (th_records h0)"] k
    by (simp_all add: nth_append)
  moreover have "rr_sequence r = rr_sequence q"
    using q(2) unfolding record_filename_def by (rule sequence_filename_sequence)
  ultimately show False using k(1) by simp
qed

text \<open>Writing the record is the step at which the new entry becomes part of the history.\<close>

lemma write_record_states:
  assumes "write_record_file version io d nonce td r = (res, ws)" "keeps c version td h0"
    and "history_fits c version (extend_history h0 b r)" "rr_sequence r = tb_sequence b"
    and "td_bundles td = Some bs" "bundle_stored (th_options h0) bs b"
  shows "always apply_trust_write (old_or_new c version h0 (extend_history h0 b r)) td ws"
    and "res = Inr () \<Longrightarrow> keeps c version (foldl apply_trust_write td ws) (extend_history h0 b r)"
    and "res \<noteq> Inr () \<Longrightarrow> keeps c version (foldl apply_trust_write td ws) h0"
    and "res = Inr () \<longleftrightarrow> io WriteRecord = None \<and> io RenameRecord = None"
proof -
  obtain es where es: "td_records td = Some es" using assms(2) by (auto simp: keeps_def)
  let ?t = "''.record-'' @ nonce @ ''.json''" and ?text = "record_text version r"
  have free: "record_filename r \<notin> fst ` set es"
    using assms(3) by (intro record_name_free [OF assms(2) es assms(4)]) (simp add: history_fits_def)
  note new = keeps_extend [OF assms(2,3) es assms(5,6), unfolded record_entry_def]
  have cases: "(ws = [AddTemporary ?t ?text, DropTemporary ?t] \<and> res \<noteq> Inr () \<and>
        (io WriteRecord \<noteq> None \<or> io RenameRecord \<noteq> None)) \<or>
      (ws = [AddTemporary ?t ?text, MoveRecord ?t (record_filename r)] \<and> res = Inr () \<and>
        io WriteRecord = None \<and> io RenameRecord = None)"
    using assms(1) es free by (auto simp: write_record_file_def Let_def split: option.splits if_splits)
  show "always apply_trust_write (old_or_new c version h0 (extend_history h0 b r)) td ws"
    "res = Inr () \<Longrightarrow> keeps c version (foldl apply_trust_write td ws) (extend_history h0 b r)"
    "res \<noteq> Inr () \<Longrightarrow> keeps c version (foldl apply_trust_write td ws) h0"
    "res = Inr () \<longleftrightarrow> io WriteRecord = None \<and> io RenameRecord = None"
    using cases new assms(2) es by (auto simp: old_or_new_def drop_temporary_def)
qed

lemma successor_fits_lock [simp]:
  "successor_fits version (td\<lparr>td_locked := x\<rparr>) h b r = successor_fits version td h b r"
  by (simp add: successor_fits_def)

lemma old_or_new_lock [simp]:
  "old_or_new c version h h' (td\<lparr>td_locked := x\<rparr>) = old_or_new c version h h' td"
  by (simp add: old_or_new_def)

lemma old_or_new_old: "keeps c version td h \<Longrightarrow> old_or_new c version h h' td"
  by (simp add: old_or_new_def)

lemma always_weaken: "always app P s ws \<Longrightarrow> (\<And>t. P t \<Longrightarrow> Q t) \<Longrightarrow> always app Q s ws"
  by (induction ws arbitrary: s) auto

lemma always_locked:
  assumes "always apply_trust_write (old_or_new c version h h') (td\<lparr>td_locked := True\<rparr>) ws"
  shows "always apply_trust_write (old_or_new c version h h') td (HoldLock True # ws @ [HoldLock False])"
proof -
  have first: "old_or_new c version h h' td" using assms by (cases ws) simp_all
  have "old_or_new c version h h' (foldl apply_trust_write (td\<lparr>td_locked := True\<rparr>) ws)"
    using always_take [OF assms, of "length ws"] by simp
  with first assms show ?thesis by (simp add: always_append)
qed

text \<open>
  A publication on a directory that keeps \<open>h0\<close>, by a handle of the same history that may be behind:
  at every moment the directory keeps \<open>h0\<close> or the extended history, and at the end the one the
  result says.
\<close>

theorem publish_keeps:
  assumes p: "publish_impl c version nonce io (\<lambda>_. False) h td b a s expected maximum = (res, ws)"
    and k: "keeps c version td h0"
    and h: "th_directory h = th_directory h0" "th_root h = th_root h0" "th_options h = th_options h0" "th_schema h = th_schema h0"
    and f: "successor_fits version td h0 b (next_record h0 (th_schema h0) b a s)"
  defines "h' \<equiv> extend_history h0 b (next_record h0 (th_schema h0) b a s)"
  shows "always apply_trust_write (old_or_new c version h0 h') td ws"
    and "case res of Inl _ \<Rightarrow> keeps c version (foldl apply_trust_write td ws) h0
         | Inr (h1, r) \<Rightarrow> h1 = h' \<and> r = next_record h0 (th_schema h0) b a s \<and> expected = th_current h0 \<and>
             keeps c version (foldl apply_trust_write td ws) h'"
proof -
  let ?r = "next_record h0 (th_schema h0) b a s" and ?held = "td\<lparr>td_locked := True\<rparr>"
  have held: "keeps c version ?held h0" using k by simp
  have "always apply_trust_write (old_or_new c version h0 h') td ws \<and>
    (case res of Inl _ \<Rightarrow> keeps c version (foldl apply_trust_write td ws) h0
     | Inr (h1, r) \<Rightarrow> h1 = h' \<and> r = ?r \<and> expected = th_current h0 \<and> keeps c version (foldl apply_trust_write td ws) h')"
  proof (cases "ws = []")
    case True
    have "\<exists>e. res = Inl e"
      using p True by (auto simp: publish_impl_def Let_def failure_def split: if_splits sum.splits prod.splits)
    then show ?thesis using True k by (auto simp: old_or_new_def)
  next
    case False
    have ok: "trust_bundle_valid b" "authorization_fits (th_schema h) a s" "valid_sha256 expected"
      using p False by (auto simp: publish_impl_def Let_def split: if_splits)
    have op: "open_history c (th_directory h) (th_root h) expected (th_options h) (\<lambda>_. False) (Some ?held) =
        (if expected = th_current h0 then Inr h0
         else failure IdentityMismatch ''service trust-history head does not match the caller expected head'' (th_current h0))"
      using open_kept [OF held ok(3)] by (simp add: h)
    show ?thesis
    proof (cases "expected = th_current h0 \<and> check_publication c version h b a s maximum h0 = Inr ?r")
      case False
      then have "ws = [HoldLock True, HoldLock False] \<and> (\<exists>e. res = Inl e)"
        using p \<open>ws \<noteq> []\<close> op check_publication_accepts(1) [of c version h b a s maximum h0] h(4)
        by (cases "check_publication c version h b a s maximum h0")
          (auto simp: publish_impl_def Let_def failure_def split: if_splits)
      then show ?thesis using k by (auto simp: old_or_new_def)
    next
      case True
      then have acc: "check_publication c version h b a s maximum h0 = Inr ?r" "expected = th_current h0" by simp_all
      have fits: "history_fits c version h0" using k by (simp add: keeps_def)
      then have version: "version_fits version" by (simp add: history_fits_def)
      have ext: "history_fits c version h'"
        unfolding h'_def using f by (intro extend_fits [OF fits acc(1) h(4,3) ok(1,2)])
      obtain res1 vs where st: "store_bundle version io nonce h ?held b = (res1, vs)" by fastforce
      have lim: "length (tb_keys b) \<le> to_keys (th_options h)"
        "length (service_trust_bundle_storage_document version b) \<le> to_payload (th_options h)"
        using check_publication_accepts [OF acc(1)] by simp_all
      note stored = store_bundle_states [OF st held h(3) ok(1) version lim, of ?r]
      have al1: "always apply_trust_write (old_or_new c version h0 h') ?held vs"
        using stored(1) f by (auto intro: always_weaken old_or_new_old)
      have k1: "keeps c version (foldl apply_trust_write ?held vs) h0"
        using stored(1) f always_take [of apply_trust_write "\<lambda>td. keeps c version td h0" ?held vs "length vs"] by simp
      obtain res2 us where wr: "write_record_file version io (th_directory h) nonce ?held ?r = (res2, us)" by fastforce
      have wr': "write_record_file version io (th_directory h) nonce (foldl apply_trust_write ?held vs) ?r = (res2, us)"
        using wr stored(2) f by (simp add: write_record_file_def)
      show ?thesis
      proof (cases res1)
        case (Inl e)
        then have "ws = HoldLock True # vs @ [HoldLock False]" "res = Inl e"
          using p \<open>ws \<noteq> []\<close> op acc st by (auto simp: publish_impl_def Let_def split: if_splits)
        then show ?thesis using always_locked [OF al1] k1 by simp
      next
        case (Inr u)
        then obtain bs where bs: "td_bundles (foldl apply_trust_write ?held vs) = Some bs" "bundle_stored (th_options h0) bs b"
          using stored(3) f by auto
        have rs: "rr_sequence ?r = tb_sequence b" by (simp add: next_record_def Let_def)
        note written = write_record_states [OF wr' k1 ext [unfolded h'_def] rs bs, folded h'_def]
        have al: "always apply_trust_write (old_or_new c version h0 h') td (HoldLock True # (vs @ us) @ [HoldLock False])"
          using al1 written(1) by (intro always_locked) (simp add: always_append)
        have w: "ws = HoldLock True # (vs @ us) @ [HoldLock False]"
            "res = (case res2 of Inl e \<Rightarrow> Inl e | Inr _ \<Rightarrow> Inr (h', ?r))"
          using p \<open>ws \<noteq> []\<close> op acc st wr Inr by (auto simp: publish_impl_def h'_def Let_def split: if_splits sum.splits)
        show ?thesis using al written(2,3) acc(2) by (cases res2) (simp_all add: w)
      qed
    qed
  qed
  then show "always apply_trust_write (old_or_new c version h0 h') td ws"
    and "case res of Inl _ \<Rightarrow> keeps c version (foldl apply_trust_write td ws) h0
         | Inr (h1, r) \<Rightarrow> h1 = h' \<and> r = ?r \<and> expected = th_current h0 \<and> keeps c version (foldl apply_trust_write td ws) h'"
    by blast+
qed

end
