(* ===== verification/Trust_Checkpoint_Laws.thy ===== *)
theory Trust_Checkpoint_Laws
  imports Trust_Checkpoint Trust_Store_Laws
begin

text \<open>
  What a verified checkpoint shows of a history, that assembled checkpoints and their signatures
  verify, and the round trip of checkpoint files.
\<close>

section \<open>Signers\<close>

definition checkpoint_signer :: "checkpoint_signature \<Rightarrow> string \<times> string" where
  "checkpoint_signer s = (cs_service s, cs_key s)"

text \<open>A signature that counts: of an active rotation key of the head bundle, over the pins of the checkpoint.\<close>

definition checkpoint_signs :: "ed25519 \<Rightarrow> trust_bundle \<Rightarrow> trust_checkpoint \<Rightarrow> checkpoint_signature \<Rightarrow> bool" where
  "checkpoint_signs c b t s \<longleftrightarrow>
     (\<exists>k\<in>set (tb_keys b). key_name k = checkpoint_signer s \<and> rotation_key_is_authorized k (tc_sequence t) \<and>
        (\<exists>signature. decode_hex (cs_tag s) 64 = Inr signature \<and>
           ed_check c signature (sk_public k) (service_trust_checkpoint_signature_message t s)))"

definition checkpoint_quorum :: "ed25519 \<Rightarrow> trust_bundle \<Rightarrow> trust_checkpoint \<Rightarrow> bool" where
  "checkpoint_quorum c b t \<longleftrightarrow> (\<forall>s\<in>set (tc_signatures t). checkpoint_signs c b t s) \<and>
     distinct (map checkpoint_signer (tc_signatures t)) \<and>
     unat (rot_minimum (tb_policy b)) \<le> length (tc_signatures t) \<and>
     (rot_distinct (tb_policy b) \<longrightarrow> unat (rot_minimum (tb_policy b)) \<le> card (set (map cs_service (tc_signatures t))))"

lemma verified_signature:
  assumes "verify_checkpoint_signature c t s b = Inr ()"
  shows "checkpoint_signs c b t s" "valid_service_trust_checkpoint_signature s"
proof -
  obtain k signature where "valid_service_trust_checkpoint_signature s"
      and k: "bundle_key b (cs_service s) (cs_key s) = Inr (Some k)" "rotation_key_is_authorized k (tc_sequence t)"
      "decode_hex (cs_tag s) 64 = Inr signature"
      "ed_check c signature (sk_public k) (service_trust_checkpoint_signature_message t s)"
    using assms by (auto simp: verify_checkpoint_signature_def checkpoint_key_refused_def rotation_key_is_authorized_def
        Let_def result_simps ed25519_verify_iff kEd25519SignatureBytes_def split: if_splits option.splits)
  moreover have "k \<in> set (tb_keys b) \<and> key_name k = checkpoint_signer s"
    using k(1) by (auto simp: bundle_key_Some key_name_def checkpoint_signer_def dest: find_key_Some)
  ultimately show "checkpoint_signs c b t s" "valid_service_trust_checkpoint_signature s"
    by (auto simp: checkpoint_signs_def)
qed

lemma checkpoint_signer_key: "checkpoint_signer_less a b \<longleftrightarrow> checkpoint_signer a < checkpoint_signer b"
  by (auto simp: checkpoint_signer_less_def checkpoint_signer_def less_prod_def' order.strict_iff_order)

lemma check_signers_iff:
  "check_checkpoint_signers c t b previous ss = Inr () \<longleftrightarrow>
     list_all (\<lambda>s. verify_checkpoint_signature c t s b = Inr ()) ss \<and>
     successively (\<lambda>a b. checkpoint_signer a \<noteq> checkpoint_signer b) ss \<and>
     (case (previous, ss) of (Some p, s # _) \<Rightarrow> checkpoint_signer p \<noteq> checkpoint_signer s | _ \<Rightarrow> True)"
proof (induction ss arbitrary: previous)
  case (Cons s ss)
  have step: "check_checkpoint_signers c t b previous (s # ss) = Inr () \<longleftrightarrow>
      (case previous of None \<Rightarrow> True | Some p \<Rightarrow> checkpoint_signer p \<noteq> checkpoint_signer s) \<and>
      verify_checkpoint_signature c t s b = Inr () \<and> check_checkpoint_signers c t b (Some s) ss = Inr ()"
    by (cases previous) (simp_all add: checkpoint_signer_def failure_def result_simps)
  show ?case unfolding step Cons.IH by (cases previous; cases ss) auto
qed (simp split: option.split)

lemma distinct_checkpoint_signers:
  "successively (\<lambda>a b. checkpoint_signer a \<noteq> checkpoint_signer b) (sort_by checkpoint_signer_less ss) \<Longrightarrow>
     sorted_wrt (<) (map checkpoint_signer (sort_by checkpoint_signer_less ss))"
  using sort_by_key [of checkpoint_signer_less checkpoint_signer ss, OF checkpoint_signer_key]
  by (intro sorted_neighbours)

section \<open>Assembling and verifying\<close>

lemma message_of_pins:
  assumes "tc_root t = tc_root u" "tc_head t = tc_head u" "tc_sequence t = tc_sequence u" "tc_record t = tc_record u"
  shows "service_trust_checkpoint_signature_message t s = service_trust_checkpoint_signature_message u s"
    "checkpoint_signs c b t s = checkpoint_signs c b u s"
  using assms by (simp_all add: service_trust_checkpoint_signature_message_def checkpoint_signs_def)

lemma current_bundle_valid: "history_valid c h \<Longrightarrow> current_bundle c h = Inr (last (th_bundles h))"
  by (simp add: current_bundle_def)

lemma assemble_checkpoint_accepts:
  assumes "assemble_service_trust_checkpoint c h ss = Inr t"
  shows "history_valid c h" "tc_signatures t = sort_by checkpoint_signer_less ss" "trust_checkpoint_valid t"
    "tc_root t = th_root h" "tc_head t = th_current h" "tc_sequence t = tb_sequence (last (th_bundles h))"
    "tc_record t = rr_id (last (th_records h))" "checkpoint_quorum c (last (th_bundles h)) t"
proof -
  let ?ss = "sort_by checkpoint_signer_less ss" and ?b = "last (th_bundles h)"
  have h: "history_valid c h"
    using assms by (auto simp: assemble_service_trust_checkpoint_def split: if_splits)
  then have a: "check_checkpoint_signers c (trust_head_checkpoint h) ?b None ?ss = Inr ()"
      "meets_policy (tb_policy ?b) (map cs_service ?ss)" "trust_checkpoint_valid t" "tc_signatures t = ?ss"
      "tc_root t = th_root h" "tc_head t = th_current h" "tc_sequence t = tb_sequence ?b"
      "tc_record t = rr_id (last (th_records h))"
    using assms by (auto simp: assemble_service_trust_checkpoint_def current_bundle_valid Let_def result_simps
        trust_head_checkpoint_def split: if_splits)
  then show "history_valid c h" "tc_signatures t = ?ss" "trust_checkpoint_valid t" "tc_root t = th_root h" "tc_head t = th_current h"
    "tc_sequence t = tb_sequence ?b" "tc_record t = rr_id (last (th_records h))" using h by simp_all
  have "\<forall>s\<in>set ?ss. checkpoint_signs c ?b (trust_head_checkpoint h) s"
    using a(1) verified_signature(1) by (auto simp: check_signers_iff list_all_iff)
  moreover have "checkpoint_signs c ?b t s = checkpoint_signs c ?b (trust_head_checkpoint h) s" for s
    by (rule message_of_pins) (simp_all add: a trust_head_checkpoint_def)
  moreover have "distinct (map checkpoint_signer ?ss)"
    using a(1) distinct_checkpoint_signers by (auto simp: check_signers_iff strict_sorted_iff)
  ultimately show "checkpoint_quorum c ?b t" using a(2,4) by (auto simp: checkpoint_quorum_def meets_policy_def)
qed

lemma assemble_checkpoint_again:
  assumes "assemble_service_trust_checkpoint c h ss = Inr t"
  shows "assemble_service_trust_checkpoint c h (tc_signatures t) = Inr t"
proof -
  have s: "tc_signatures t = sort_by checkpoint_signer_less ss" by (rule assemble_checkpoint_accepts(2) [OF assms])
  have "sort_by checkpoint_signer_less (sort_by checkpoint_signer_less ss) = sort_by checkpoint_signer_less ss"
    using sort_by_key [of checkpoint_signer_less checkpoint_signer ss] checkpoint_signer_key
    by (intro sorted_sort_by_id [of _ checkpoint_signer]) auto
  moreover have "(sort_by checkpoint_signer_less ss = []) = (ss = [])" by (metis length_0_conv length_sort_by)
  ultimately show ?thesis using assms
    by (auto simp: assemble_service_trust_checkpoint_def s Let_def result_simps failure_def split: if_splits)
qed

lemma head_sequence:
  assumes "history_valid c h"
  shows "unat (tb_sequence (last (th_bundles h))) = length (th_records h)"
proof -
  have len: "th_bundles h \<noteq> []" "length (th_records h) = length (th_bundles h)" using history_lengths [OF assms] by auto
  then have "tb_sequence (last (th_bundles h)) = of_nat (length (th_bundles h))"
    using history_bundle_at(2) [OF assms, of "length (th_bundles h) - 1"] by (simp add: last_conv_nth flip: of_nat_Suc)
  then show ?thesis using history_length [OF assms] len(2) by (simp add: unat_u64_of_nat)
qed

lemma assembled_checkpoint_verifies:
  assumes "assemble_service_trust_checkpoint c h ss = Inr t"
  shows "verify_service_trust_checkpoint c h t (tc_id t) = Inr ()"
  using assemble_checkpoint_accepts [OF assms] assemble_checkpoint_again [OF assms] head_sequence
  by (simp add: verify_service_trust_checkpoint_def) (simp add: trust_checkpoint_valid_def)

lemma verified_checkpoint:
  assumes "verify_service_trust_checkpoint c h t expected = Inr ()"
  shows "history_valid c h" "tc_id t = expected" "tc_root t = th_root h" "tc_head t = th_current h"
    "unat (tc_sequence t) = length (th_records h)" "tc_record t = rr_id (last (th_records h))"
    "checkpoint_quorum c (last (th_bundles h)) t"
proof -
  obtain u where u: "assemble_service_trust_checkpoint c h (tc_signatures t) = Inr u"
    and p: "history_valid c h" "tc_id t = expected" "tc_root t = th_root h" "tc_head t = th_current h"
      "unat (tc_sequence t) = length (th_records h)" "tc_record t = rr_id (last (th_records h))"
    using assms by (auto simp: verify_service_trust_checkpoint_def result_simps split: if_splits)
  show "history_valid c h" "tc_id t = expected" "tc_root t = th_root h" "tc_head t = th_current h"
    "unat (tc_sequence t) = length (th_records h)" "tc_record t = rr_id (last (th_records h))" by (fact p)+
  note a = assemble_checkpoint_accepts [OF u]
  have seq: "tc_sequence t = tc_sequence u"
    using p(5) a(6) head_sequence [OF p(1)] by (simp add: word_unat_eq_iff)
  have "checkpoint_signs c b t s = checkpoint_signs c b u s" for b s
    by (rule message_of_pins) (simp_all add: p a(4,5,7) seq)
  moreover have "distinct (map checkpoint_signer (tc_signatures t))"
    using a(8) a(2) by (simp add: checkpoint_quorum_def distinct_sort_by)
  moreover have "length (tc_signatures u) = length (tc_signatures t)" "set (tc_signatures u) = set (tc_signatures t)"
    using a(2) by simp_all
  ultimately show "checkpoint_quorum c (last (th_bundles h)) t"
    using a(8) by (auto simp: checkpoint_quorum_def)
qed

text \<open>A checkpoint the caller has pinned fixes the history that is opened against it.\<close>

lemma open_at_checkpoint:
  assumes "open_history_at_checkpoint c d root_pin t expected opts cancelled disk = Inr h"
  shows "history_valid c h" "tc_id t = expected" "th_root h = root_pin" "th_current h = tc_head t"
    "length (th_records h) = unat (tc_sequence t)" "checkpoint_quorum c (last (th_bundles h)) t"
proof -
  have v: "verify_service_trust_checkpoint c h t expected = Inr ()" and "tc_root t = root_pin"
    using assms by (auto simp: open_history_at_checkpoint_def result_simps split: if_splits)
  with verified_checkpoint [OF v] show "history_valid c h" "tc_id t = expected" "th_root h = root_pin"
    "th_current h = tc_head t" "length (th_records h) = unat (tc_sequence t)" "checkpoint_quorum c (last (th_bundles h)) t"
    by simp_all
qed

section \<open>Signing\<close>

lemma signed_checkpoint_verifies:
  assumes "sign_service_trust_checkpoint c h service key_id secret = Inr s"
    and "\<And>k. find_key (tb_keys (last (th_bundles h))) service key_id = Some k \<Longrightarrow> honest_signer c secret (sk_public k)"
  shows "verify_checkpoint_signature c (trust_head_checkpoint h) s (last (th_bundles h)) = Inr ()"
proof -
  let ?b = "last (th_bundles h)"
  let ?s = "\<lparr>cs_service = service, cs_key = key_id, cs_algorithm = Ed25519, cs_tag = []\<rparr>"
  have h: "history_valid c h" using assms(1) by (auto simp: sign_service_trust_checkpoint_def split: if_splits)
  obtain found signature where k: "bundle_key ?b service key_id = Inr found"
      "\<not> checkpoint_key_refused found (tb_sequence ?b)"
    and sg: "ed25519_sign c (service_trust_checkpoint_signature_message (trust_head_checkpoint h) ?s) secret = Inr signature"
    and s: "s = ?s\<lparr>cs_tag := encode_hex signature\<rparr>" "valid_service_trust_checkpoint_signature s"
    using assms(1) h by (auto simp: sign_service_trust_checkpoint_def current_bundle_valid result_simps Let_def
        split: if_splits)
  obtain n where n: "found = Some n" using k(2) by (cases found) (auto simp: checkpoint_key_refused_def)
  have hs: "honest_signer c secret (sk_public n)" using k(1) n assms(2) by (auto simp: bundle_key_Some)
  have sig: "signature = ed_sign c secret (service_trust_checkpoint_signature_message (trust_head_checkpoint h) ?s)"
    using sg by (simp add: ed25519_sign_def failure_def split: if_splits)
  then have len: "length signature = 64" using hs by (simp add: honest_signer_def)
  have "service_trust_checkpoint_signature_message (trust_head_checkpoint h) s =
      service_trust_checkpoint_signature_message (trust_head_checkpoint h) ?s"
    by (simp add: s(1) service_trust_checkpoint_signature_message_def)
  then have "ed25519_verify c (service_trust_checkpoint_signature_message (trust_head_checkpoint h) s) signature (sk_public n) = Inr ()"
    using hs len by (simp add: ed25519_verify_iff sig honest_signer_def)
  moreover have "decode_hex (cs_tag s) kEd25519SignatureBytes = Inr signature"
    using len decode_encode_hex [of signature] by (simp add: s(1) kEd25519SignatureBytes_def)
  moreover have "tc_sequence (trust_head_checkpoint h) = tb_sequence ?b" "cs_service s = service" "cs_key s = key_id"
    by (simp_all add: trust_head_checkpoint_def s(1))
  ultimately show ?thesis using s(2) k n by (simp add: verify_checkpoint_signature_def)
qed

section \<open>Files\<close>

lemma checkpoint_decimal_written [field_simps_of]:
  "map_of kvs k = Some (JStr (to_string n)) \<Longrightarrow> checkpoint_decimal (json_object kvs) k = Inr n"
  using length_to_string [of n] by (simp add: checkpoint_decimal_def string_field_written)

lemma checkpoint_eta [simp]:
  "\<lparr>cs_service = cs_service s, cs_key = cs_key s, cs_algorithm = cs_algorithm s, cs_tag = cs_tag s\<rparr> = s"
  "\<lparr>tc_schema = tc_schema t, tc_id = tc_id t, tc_root = tc_root t, tc_head = tc_head t, tc_sequence = tc_sequence t,
     tc_record = tc_record t, tc_signatures = tc_signatures t\<rparr> = t"
  by simp_all

lemma decode_signature_written:
  assumes "valid_service_trust_checkpoint_signature s"
  shows "decode_signature (signature_json s) = Inr s"
proof -
  have v: "valid_text (cs_service s)" "valid_sha256 (cs_key s)" "has_value (decode_hex (cs_tag s) kEd25519SignatureBytes)"
    using assms by (simp_all add: valid_service_trust_checkpoint_signature_def)
  show ?thesis
    unfolding decode_signature_def signature_json_def Let_def
    using identifier_256 [OF v(1)] digest_64 [OF v(2)] signature_text [OF v(3)] assms
    by (simp add: field_simps_of del: algorithm_code.simps cong: sum.case_cong)
qed

lemma checkpoint_roundtrip:
  assumes "trust_checkpoint_valid t" "version_fits version" "path \<noteq> []"
    and "length (tc_signatures t) \<le> min maximum_signatures 10000000"
    and "length (document_text (checkpoint_json version t)) \<le> min maximum_payload stream_limit"
  shows "load_checkpoint maximum_signatures maximum_payload path (Some (document_text (checkpoint_json version t))) = Inr t"
proof -
  note v = assms(1) [unfolded trust_checkpoint_valid_def]
  have "json_ok (Suc (Suc 60)) (signature_json s)" for s
    unfolding signature_json_def by (intro json_ok_object) simp
  moreover have n: "unat (tc_schema t) = 1" using v by simp
  ultimately have "json_ok (Suc 63) (checkpoint_json version t)"
    unfolding checkpoint_json_def checkpoint_members_def using assms(4)
    by (intro json_ok_object) (simp add: items_ok_iff)
  then have "storable (checkpoint_json version t)" by (simp add: storable_def eval_nat_numeral)
  then have j: "json_parse (document_text (checkpoint_json version t)) = Inr (checkpoint_json version t)"
    using parse_written by (simp add: document_text_def)
  have ids: "valid_sha256 (tc_id t)" "valid_sha256 (tc_root t)" "valid_sha256 (tc_head t)" "valid_sha256 (tc_record t)"
    using v by blast+
  have limits: "0 < maximum_signatures" "0 < maximum_payload"
  proof -
    have "0 < length (tc_signatures t)" using v by simp
    moreover have "length (tc_signatures t) \<le> maximum_signatures" using assms(4) by simp
    ultimately show "0 < maximum_signatures" by (rule less_le_trans)
    show "0 < maximum_payload" using assms(5) by (simp add: document_text_def)
  qed
  have fields: "checkpoint_string 128 False (checkpoint_json version t) ''format'' = Inr ''rbfsafe-service-trust-checkpoint''"
    "checkpoint_integer (checkpoint_json version t) ''schema'' 1000 = Inr 1"
    "checkpoint_string 128 False (checkpoint_json version t) ''library_version'' = Inr version"
    "checkpoint_string 64 False (checkpoint_json version t) ''id'' = Inr (tc_id t)"
    "checkpoint_string 64 False (checkpoint_json version t) ''root_bundle_id'' = Inr (tc_root t)"
    "checkpoint_string 64 False (checkpoint_json version t) ''head_bundle_id'' = Inr (tc_head t)"
    "checkpoint_decimal (checkpoint_json version t) ''head_sequence'' = Inr (tc_sequence t)"
    "checkpoint_string 64 False (checkpoint_json version t) ''head_record_id'' = Inr (tc_record t)"
    "json_find (checkpoint_json version t) ''signatures'' = Some (JArr (map signature_json (tc_signatures t)))"
    unfolding checkpoint_json_def checkpoint_members_def
    using assms(2) n digest_64 [OF ids(1)] digest_64 [OF ids(2)] digest_64 [OF ids(3)] digest_64 [OF ids(4)]
    by (simp_all add: field_simps_of version_fits_def)
  have "decode_all decode_signature (map signature_json (tc_signatures t)) = Inr (tc_signatures t)"
    using v by (intro decode_all_written) (simp add: list_all_iff decode_signature_written)
  moreover have one: "tc_schema t = 1" using v by blast
  moreover have "trust_checkpoint_valid \<lparr>tc_schema = 1, tc_id = tc_id t, tc_root = tc_root t, tc_head = tc_head t,
      tc_sequence = tc_sequence t, tc_record = tc_record t, tc_signatures = tc_signatures t\<rparr>"
    using assms(1) unfolding one [symmetric] by simp
  ultimately show ?thesis
    using assms(3-5) limits by (simp add: load_checkpoint_def read_checkpoint_json_def j fields Let_def)
qed

end
