(* ===== verification/Trust_Store_History.thy ===== *)
theory Trust_Store_History
  imports Trust_Checkpoint_Laws
begin

text \<open>
  The life of the directory of a trust history: it is created, published to any number of times,
  with failures and crashes in between; and what opening a directory of any contents shows.
\<close>

section \<open>Opening any directory\<close>

lemma decode_entries_limits:
  "decode_record_entries opts cancelled path m n es = Inr ds \<Longrightarrow> m \<le> to_bundles opts \<Longrightarrow>
     m + length es \<le> to_bundles opts \<and> length ds \<le> length es"
proof (induction es arbitrary: m n ds)
  case (Cons e es)
  obtain name content where e: "e = (name, content)" by (cases e)
  have m: "m < to_bundles opts" using Cons.prems(1) by (simp add: e not_le split: if_splits)
  show ?case
  proof (cases "content \<noteq> None \<and> has_json_extension name")
    case True
    then obtain ds' d where "decode_record_entries opts cancelled path (m + 1) (n + 1) es = Inr ds'" "ds = d # ds'"
      using Cons.prems(1) by (auto simp: e result_simps failure_def split: if_splits)
    with Cons.IH [of "m + 1" "n + 1" ds'] m show ?thesis by simp
  next
    case False
    then have "decode_record_entries opts cancelled path (m + 1) n es = Inr ds"
      using Cons.prems(1) by (auto simp: e failure_def split: if_splits)
    with Cons.IH [of "m + 1" n ds] m show ?thesis by simp
  qed
qed simp

theorem open_history_sound:
  assumes "open_history c d root_pin head_pin opts cancelled disk = Inr h"
  shows "history_valid c h" "th_root h = root_pin" "th_current h = head_pin" "th_directory h = d" "th_options h = opts"
    "length (th_bundles h) \<le> to_bundles opts"
proof -
  obtain td schema entries bundles decoded bs where
      dec: "decode_record_entries opts (\<lambda>n. cancelled (Suc n)) (in_directory d ''records'') 0 0 entries = Inr decoded"
    and h: "h = \<lparr>th_directory = d, th_schema = of_nat schema, th_root = root_pin, th_current = tb_id (last bs),
       th_bundles = bs, th_records = map snd (sort_by record_less decoded), th_options = opts\<rparr>"
      "history_valid c h" "th_current h = head_pin"
    using assms by (auto simp: open_history_def Let_def result_simps failure_def split: if_splits option.splits prod.splits)
  show "history_valid c h" "th_current h = head_pin" by (fact h)+
  show "th_root h = root_pin" "th_directory h = d" "th_options h = opts" by (simp_all add: h(1))
  have "length (th_bundles h) = length decoded" using history_lengths(3) [OF h(2)] by (simp add: h(1))
  with decode_entries_limits [OF dec] show "length (th_bundles h) \<le> to_bundles opts" by simp
qed

section \<open>Creating\<close>

definition history_creatable :: "ed25519 \<Rightarrow> string \<Rightarrow> string \<Rightarrow> trust_bundle \<Rightarrow> bool" where
  "history_creatable c version d b \<longleftrightarrow> bundle_typed b \<and> length (tb_keys b) \<le> 10000000 \<and> version_fits version \<and>
     (let h = created_history d b
      in length (manifest_text version h) \<le> 65536 \<and> length (record_text version (hd (th_records h))) \<le> 65536)"

lemma root_record_valid:
  assumes "schema = 1 \<or> schema = 2" "valid_sha256 (tb_id b)"
  shows "valid_record_structure (root_record schema b)"
  using assms by (auto simp: valid_record_structure_def root_record_def Let_def
      service_trust_rotation_record_identity_def rotation_record_content_def)

lemma created_valid:
  assumes "trust_bundle_valid b" "tb_schema b = 2 \<or> tb_schema b = 3" "tb_sequence b = 1"
  shows "history_valid c (created_history d b)"
proof -
  let ?s = "if tb_schema b \<ge> 3 then 2 else 1 :: u32"
  have "valid_sha256 (tb_id b)" using assms(1) by (simp add: trust_bundle_valid_def)
  moreover from this have "valid_record_structure (root_record ?s b)" by (intro root_record_valid) simp_all
  moreover have "bundle_schema_of ?s = tb_schema b" using assms(2) by (auto simp: bundle_schema_of_def)
  ultimately show ?thesis using assms(1,3)
    by (auto simp: history_valid_def created_history_def history_entry_ok_def root_record_def Let_def)
qed

theorem create_keeps:
  assumes "create_history version io d temporary b root_pin None = (Inr h, after)" "history_creatable c version d b"
  shows "h = created_history d b \<and> tb_id b = root_pin \<and> (\<exists>td. after = Some td \<and> keeps c version td h)"
proof -
  let ?h = "created_history d b"
  have a: "trust_bundle_valid b" "tb_schema b = 2 \<or> tb_schema b = 3" "tb_sequence b = 1" "\<not> no_specific_directory d"
      "tb_id b = root_pin" "length (tb_keys b) \<le> 100000"
      "length (service_trust_bundle_storage_document version b) \<le> 4194304" "h = ?h"
    and after: "\<exists>saved. save_service_trust_bundle version (\<lambda>step. io (SaveBundle step)) b
          (in_directory (in_directory temporary ''bundles'') (bundle_filename b)) False None = (Inr (), saved) \<and>
        after = Some \<lparr>td_manifest = Some (manifest_text version ?h),
           td_records = Some [record_entry version (hd (th_records ?h))],
           td_bundles = Some [(bundle_filename b, saved)], td_temporary = [], td_locked = False\<rparr>"
    using assms(1)
    by (auto simp: create_history_def default_trust_options_def Let_def manifest_text_def record_entry_def
        created_history_def failure_def split: if_splits sum.splits option.splits prod.splits)
  then obtain saved where s: "save_service_trust_bundle version (\<lambda>step. io (SaveBundle step)) b
        (in_directory (in_directory temporary ''bundles'') (bundle_filename b)) False None = (Inr (), saved)"
    and td: "after = Some \<lparr>td_manifest = Some (manifest_text version ?h),
           td_records = Some [record_entry version (hd (th_records ?h))],
           td_bundles = Some [(bundle_filename b, saved)], td_temporary = [], td_locked = False\<rparr>" (is "after = Some ?td")
    by blast
  from s have saved: "saved = Some (service_trust_bundle_storage_document version b)"
    by (auto simp: save_service_trust_bundle_def save_document_def failure_def split: if_splits option.splits)
  have v: "history_valid c ?h" by (rule created_valid [OF a(1-3)])
  have fit: "bundle_fits version default_trust_options b"
    using a(1,6,7) assms(2)
    by (simp add: bundle_fits_def bundle_loadable_def history_creatable_def version_fits_def default_trust_options_def
        stream_limit_def)
  have "history_fits c version ?h"
    using v fit a(4,6) assms(2)
    by (auto simp: history_fits_def history_creatable_def Let_def record_fits_def record_writable_def
        valid_history_options_def total_keys_def created_history_def root_record_def default_trust_options_def
        stream_limit_def no_specific_directory_def history_valid_def history_entry_ok_def)
  moreover have "bundle_stored (th_options ?h) [(bundle_filename b, saved)] b"
    using fit load_saved_bundle [of b "to_keys default_trust_options" "to_payload default_trust_options" version]
    by (simp add: bundle_stored_def saved bundle_fits_def created_history_def Let_def)
  ultimately have "keeps c version ?td ?h"
    unfolding keeps_def
    by (auto simp: created_history_def Let_def intro!: exI [of _ "th_records ?h"])
  then show ?thesis using a(5,8) td by simp
qed

section \<open>Runs\<close>

text \<open>
  One publication on a directory, by a handle that may be behind, cut off after any number of its
  writes; the lock of a process that died is then removed.
\<close>

inductive trust_run :: "ed25519 \<Rightarrow> string \<Rightarrow> trust_directory \<times> trust_history \<Rightarrow> trust_directory \<times> trust_history \<Rightarrow> bool"
  for c version where
  published: "trust_run c version (td, h0) ((foldl apply_trust_write td (take k ws))\<lparr>td_locked := False\<rparr>, h1)"
    if "publish_impl c version nonce io (\<lambda>_. False) h td b a s expected maximum = (res, ws)"
      "th_directory h = th_directory h0" "th_root h = th_root h0" "th_options h = th_options h0" "th_schema h = th_schema h0"
      "successor_fits version td h0 b (next_record h0 (th_schema h0) b a s)"
      "keeps c version ((foldl apply_trust_write td (take k ws))\<lparr>td_locked := False\<rparr>) h1"
      "h1 = h0 \<or> h1 = extend_history h0 b (next_record h0 (th_schema h0) b a s)"

inductive_cases trust_runE: "trust_run c version (td, h) (td', h')"

definition history_entries :: "trust_history \<Rightarrow> (rotation_record \<times> trust_bundle) list" where
  "history_entries h = zip (th_records h) (th_bundles h)"

text \<open>Every cut leaves a directory from which a run goes on.\<close>

lemma trust_run_continues:
  assumes "publish_impl c version nonce io (\<lambda>_. False) h td b a s expected maximum = (res, ws)" "keeps c version td h0"
    and "th_directory h = th_directory h0" "th_root h = th_root h0" "th_options h = th_options h0" "th_schema h = th_schema h0"
    and "successor_fits version td h0 b (next_record h0 (th_schema h0) b a s)"
  shows "\<exists>h1. trust_run c version (td, h0) ((foldl apply_trust_write td (take k ws))\<lparr>td_locked := False\<rparr>, h1)"
proof -
  have "old_or_new c version h0 (extend_history h0 b (next_record h0 (th_schema h0) b a s))
      (foldl apply_trust_write td (take k ws))"
    using publish_keeps(1) [OF assms] by (rule always_take)
  then show ?thesis using trust_run.published [OF assms(1,3-7), of k] by (auto simp: old_or_new_def)
qed

interpretation trust_log: append_only "trust_run c version" "\<lambda>(td, h). keeps c version td h" "\<lambda>(td, h). history_entries h"
  for c version
proof
  fix x y assume x: "case x of (td, h) \<Rightarrow> keeps c version td h" and run: "trust_run c version x y"
  obtain td h td' h' where e: "x = (td, h)" "y = (td', h')" by (cases x; cases y)
  from run show "case y of (td, h) \<Rightarrow> keeps c version td h" unfolding e by cases simp
  have len: "length (th_records h) = length (th_bundles h)"
    using x history_lengths(3) by (auto simp: e keeps_def history_fits_def)
  from run show "\<exists>more. (case y of (td, h) \<Rightarrow> history_entries h) = (case x of (td, h) \<Rightarrow> history_entries h) @ more"
    unfolding e by cases (use len in \<open>auto simp: history_entries_def extend_history_def\<close>)
qed

section \<open>Publishing succeeds\<close>

lemma store_bundle_succeeds:
  assumes "keeps c version td h0" "th_options h = th_options h0" "trust_bundle_valid b" "th_directory h \<noteq> []"
    and "successor_fits version td h0 b r"
  shows "fst (store_bundle version (\<lambda>_. None) nonce h td b) = Inr ()"
proof -
  obtain bs where bs: "td_bundles td = Some bs" using assms(1) by (auto simp: keeps_def)
  have small: "length (tb_keys b) \<le> kMaximumExactJsonInteger"
    using assms(5) by (simp add: successor_fits_def kMaximumExactJsonInteger_def)
  show ?thesis
  proof (cases "map_of bs (bundle_filename b)")
    case None
    have "\<not> no_specific_directory (in_directory (th_directory h) (''.bundle-'' @ nonce @ ''.json''))"
      by (simp add: no_specific_directory_def in_directory_def)
    with None bs small assms(3) show ?thesis
      by (simp add: store_bundle_def publish_bundle_file_def save_service_trust_bundle_def save_document_def Let_def)
  next
    case (Some content)
    then have "bundle_stored (th_options h0) bs b" using assms(5) bs by (auto simp: successor_fits_def)
    then show ?thesis using bs assms(2,4) by (auto simp: store_bundle_def bundle_stored_def in_directory_def Let_def)
  qed
qed

theorem publish_succeeds:
  assumes "keeps c version td h0" "history_valid c h" "\<not> td_locked td"
    and "th_directory h = th_directory h0" "th_root h = th_root h0" "th_options h = th_options h0" "th_schema h = th_schema h0"
    and "trust_bundle_valid b" "authorization_fits (th_schema h) a s" "0 < maximum"
    and "check_publication c version h b a s maximum h0 = Inr r" "successor_fits version td h0 b r"
  shows "\<exists>ws. publish_impl c version nonce (\<lambda>_. None) (\<lambda>_. False) h td b a s (th_current h0) maximum =
     (Inr (extend_history h0 b r, r), ws)"
proof -
  let ?held = "td\<lparr>td_locked := True\<rparr>"
  have held: "keeps c version ?held h0" using assms(1) by simp
  have fits: "history_fits c version h0" using assms(1) by (simp add: keeps_def)
  then have h0: "history_valid c h0" and d: "th_directory h \<noteq> []" using assms(4) by (simp_all add: history_fits_def)
  have cur: "valid_sha256 (th_current h0)"
  proof -
    have "trust_bundle_valid (last (th_bundles h0))"
      using history_bundle_at(1) [OF h0, of "length (th_bundles h0) - 1"] history_lengths(1) [OF h0]
      by (simp add: last_conv_nth)
    moreover have "th_current h0 = tb_id (last (th_bundles h0))" using h0 unfolding history_valid_def by blast
    ultimately show ?thesis by (simp add: trust_bundle_valid_def)
  qed
  have op: "open_history c (th_directory h) (th_root h) (th_current h0) (th_options h) (\<lambda>_. False) (Some ?held) = Inr h0"
    using open_kept [OF held cur] by (simp add: assms(4-6))
  obtain vs where st: "store_bundle version (\<lambda>_. None) nonce h ?held b = (Inr (), vs)"
    using store_bundle_succeeds [OF held assms(6,8) d, of r nonce] assms(12) by (metis prod.collapse successor_fits_lock)
  have r: "rr_sequence r = tb_sequence b"
    using check_publication_accepts(1) [OF assms(11)] by (simp add: next_record_def Let_def)
  obtain es where es: "td_records td = Some es" using assms(1) by (auto simp: keeps_def)
  have "history_fits c version (extend_history h0 b r)"
    by (rule extend_fits [OF fits assms(11,7,6,8,9,12)])
  then have "record_filename r \<notin> fst ` set es"
    by (intro record_name_free [OF assms(1) es r]) (simp add: history_fits_def)
  then have "\<exists>us. write_record_file version (\<lambda>_. None) (th_directory h) nonce ?held r = (Inr (), us)"
    by (simp add: write_record_file_def es Let_def)
  then show ?thesis
    using assms(2,3,8-11) cur op st by (auto simp: publish_impl_def Let_def)
qed

section \<open>A record too long to read\<close>

lemma oversized_entry:
  assumes "(name, Some content) \<in> set es" "has_json_extension name" "to_metadata opts < length content"
  shows "\<not> has_value (decode_record_entries opts cancelled path m n es)"
  using assms(1)
proof (induction es arbitrary: m n)
  case (Cons e es)
  obtain nm f where e: "e = (nm, f)" by (cases e)
  show ?case
  proof (cases "e = (name, Some content)")
    case True
    then show ?thesis using assms(2,3) by (simp add: read_history_json_def)
  next
    case False
    then have "\<not> has_value (decode_record_entries opts cancelled path m' n' es)" for m' n'
      using Cons by simp
    then show ?thesis by (auto simp: e has_value_iff result_simps)
  qed
qed simp

text \<open>
  A publication checks the size of the bundle file but not of the record it writes: if the record is
  longer than the limit for metadata, the publication succeeds and no later opening with these
  options does.
\<close>

theorem publication_locks_out:
  assumes "publish_impl c version nonce io cancelled h td b a s expected maximum = (Inr (h1, r), ws)"
    and "to_metadata (th_options h) < length (record_text version r)"
  shows "\<not> has_value (open_history c d root_pin head_pin (th_options h) cancelled' (Some (foldl apply_trust_write td ws)))"
proof -
  let ?t = "''.record-'' @ nonce @ ''.json''" and ?held = "td\<lparr>td_locked := True\<rparr>"
  obtain vs us where w: "ws = HoldLock True # vs @ us @ [HoldLock False]"
      "store_bundle version io nonce h ?held b = (Inr (), vs)"
      "write_record_file version io (th_directory h) nonce ?held r = (Inr (), us)"
    using assms(1) by (auto simp: publish_impl_def Let_def failure_def split: if_splits sum.splits prod.splits)
  have us: "us = [AddTemporary ?t (record_text version r), MoveRecord ?t (record_filename r)]"
    using w(3) by (auto simp: write_record_file_def Let_def failure_def split: if_splits option.splits)
  have vs: "td_records (foldl apply_trust_write ?held vs) = td_records td"
    using w(2) by (auto simp: store_bundle_def publish_bundle_file_def Let_def failure_def
        split: option.splits sum.splits if_splits prod.splits)
  have recs: "td_records (foldl apply_trust_write td ws) =
      map_option (\<lambda>es. es @ [(record_filename r, Some (record_text version r))]) (td_records td)"
    by (simp add: w(1) us vs)
  show ?thesis
  proof
    assume "has_value (open_history c d root_pin head_pin (th_options h) cancelled' (Some (foldl apply_trust_write td ws)))"
    then obtain es n where "td_records (foldl apply_trust_write td ws) = Some es"
        "has_value (decode_record_entries (th_options h) (\<lambda>n. cancelled' (Suc n)) (in_directory d ''records'') 0 0 es)"
      by (auto simp: open_history_def has_value_iff result_simps failure_def split: if_splits option.splits prod.splits)
    moreover from this(1) recs have "(record_filename r, Some (record_text version r)) \<in> set es" by auto
    ultimately show False
      using oversized_entry [of "record_filename r" "record_text version r" es] assms(2) by (simp add: record_filename_def)
  qed
qed

end
