(* ===== verification/Trust_Example.thy ===== *)
theory Trust_Example
  imports Trust_Store_History Transparency_Example Memory_Store_Example
begin

text \<open>
  A root bundle whose policy asks for two services, a successor that revokes a retired key, their
  authorizations, the history created with the root and the publication of the successor.
\<close>

section \<open>Keys and bundles\<close>

definition trust_secret :: "u8 list" where
  "trust_secret = replicate 32 7 @ replicate 32 1"

definition demo_key :: "string \<Rightarrow> key_state \<Rightarrow> u64 \<Rightarrow> service_key" where
  "demo_key service st through =
     (let k = \<lparr>sk_id = [], sk_service = service, sk_algorithm = Ed25519, sk_public = replicate 32 1, sk_from = 1,
               sk_through = through, sk_state = st, sk_fetch = True, sk_publish = True, sk_rotate = True\<rparr>
      in k\<lparr>sk_id := service_public_key_identity k\<rparr>)"

lemma key_identity_cong:
  "sk_service k = sk_service n \<Longrightarrow> sk_public k = sk_public n \<Longrightarrow> sk_algorithm k = sk_algorithm n \<Longrightarrow>
     service_public_key_identity k = service_public_key_identity n"
  by (simp add: service_public_key_identity_def key_material_json_def)

lemma demo_key_fields [simp]:
  "sk_service (demo_key s st t) = s" "sk_algorithm (demo_key s st t) = Ed25519"
  "sk_public (demo_key s st t) = replicate 32 1" "sk_from (demo_key s st t) = 1" "sk_through (demo_key s st t) = t"
  "sk_state (demo_key s st t) = st" "sk_fetch (demo_key s st t)" "sk_publish (demo_key s st t)" "sk_rotate (demo_key s st t)"
  by (simp_all add: demo_key_def Let_def)

lemma demo_key_id: "sk_id (demo_key s st t) = service_public_key_identity (demo_key s st' t')"
  unfolding demo_key_def Let_def by simp (rule key_identity_cong; simp)

lemma demo_key_id_eq: "sk_id (demo_key s st t) = sk_id (demo_key s KeyActive 0)"
  by (metis demo_key_id)

lemma key_digest [simp]: "valid_sha256 (service_public_key_identity k)"
  by (simp add: service_public_key_identity_def)

lemma demo_public_nonzero [simp]: "list_ex (\<lambda>b. b \<noteq> 0) (replicate 32 (1 :: u8))"
  by (simp add: list_ex_iff)

lemma demo_key_digest [simp]: "valid_sha256 (sk_id (demo_key s st t))"
  using key_digest by (metis demo_key_id)

lemma demo_key_valid:
  assumes "valid_text s" "st \<noteq> KeyRetired \<or> t \<noteq> 0" "t = 0 \<or> 1 \<le> t"
  shows "valid_service_public_key (demo_key s st t)"
  using assms demo_key_id [of s st t st t]
  by (cases st) (auto simp: valid_service_public_key_def valid_key_state_def)

definition demo_root :: trust_bundle where
  "demo_root =
     (let b = \<lparr>tb_sequence = 1, tb_schema = 3, tb_id = [], tb_parent = [],
               tb_keys = [demo_key ''alpha'' KeyActive 0, demo_key ''beta'' KeyActive 0, demo_key ''gamma'' KeyRetired 5],
               tb_policy = \<lparr>rot_minimum = 2, rot_distinct = True\<rparr>\<rparr>
      in b\<lparr>tb_id := service_trust_bundle_identity b\<rparr>)"

definition demo_next :: trust_bundle where
  "demo_next =
     (let b = \<lparr>tb_sequence = 2, tb_schema = 3, tb_id = [], tb_parent = tb_id demo_root,
               tb_keys = [demo_key ''alpha'' KeyActive 0, demo_key ''beta'' KeyActive 0, demo_key ''gamma'' KeyRevoked 5],
               tb_policy = \<lparr>rot_minimum = 2, rot_distinct = True\<rparr>\<rparr>
      in b\<lparr>tb_id := service_trust_bundle_identity b\<rparr>)"

lemma demo_service_texts: "valid_text ''alpha''" "valid_text ''beta''" "valid_text ''gamma''"
  by code_simp+

lemma demo_service_order: "''alpha'' < ''beta''" "''beta'' < ''gamma''"
  by (simp_all add: less_char_def)

lemma bundle_digest [simp]: "valid_sha256 (service_trust_bundle_identity b)"
  by (simp add: service_trust_bundle_identity_def)

lemma identified_bundle:
  assumes "tb_schema b = 3" "tb_sequence b = 1 \<and> tb_parent b = [] \<or> tb_sequence b > 1 \<and> valid_sha256 (tb_parent b)"
    and "tb_keys b \<noteq> []" "valid_service_trust_rotation_policy (tb_policy b)"
    and "list_all valid_service_public_key (tb_keys b)" "successively key_less (tb_keys b)"
  shows "trust_bundle_valid (b\<lparr>tb_id := service_trust_bundle_identity b\<rparr>)"
  using assms by (auto simp: trust_bundle_valid_def)

lemma demo_bundles_valid: "trust_bundle_valid demo_root" "trust_bundle_valid demo_next"
proof -
  show "trust_bundle_valid demo_root"
    unfolding demo_root_def Let_def
    by (rule identified_bundle)
      (simp_all add: demo_key_valid demo_service_texts key_less_def demo_service_order valid_service_trust_rotation_policy_def)
  have "valid_sha256 (tb_id demo_root)" by (simp add: demo_root_def Let_def)
  then show "trust_bundle_valid demo_next"
    unfolding demo_next_def Let_def
    by (intro identified_bundle)
      (simp_all add: demo_key_valid demo_service_texts key_less_def demo_service_order valid_service_trust_rotation_policy_def)
qed

lemma demo_bundle_fields [simp]:
  "tb_sequence demo_root = 1" "tb_schema demo_root = 3" "tb_parent demo_root = []"
  "tb_keys demo_root = [demo_key ''alpha'' KeyActive 0, demo_key ''beta'' KeyActive 0, demo_key ''gamma'' KeyRetired 5]"
  "tb_policy demo_root = \<lparr>rot_minimum = 2, rot_distinct = True\<rparr>"
  "tb_sequence demo_next = 2" "tb_schema demo_next = 3" "tb_parent demo_next = tb_id demo_root"
  "tb_keys demo_next = [demo_key ''alpha'' KeyActive 0, demo_key ''beta'' KeyActive 0, demo_key ''gamma'' KeyRevoked 5]"
  "tb_policy demo_next = \<lparr>rot_minimum = 2, rot_distinct = True\<rparr>"
  by (simp_all add: demo_root_def demo_next_def Let_def)

lemma demo_rotates: "rotates demo_root demo_next"
proof -
  have "validate_rotation (demo_key s st t) (demo_key s st' t) = Inr ()"
    if "valid_state_transition st st'" "t = 0 \<longrightarrow> st' \<noteq> KeyRetired" for s st st' t
    using that by (auto simp: validate_rotation_def same_immutable_key_policy_def demo_key_id_eq [of s st t]
        demo_key_id_eq [of s st' t])
  moreover have "bundle_key demo_next s (sk_id (demo_key s st t)) = Inr (find_key (tb_keys demo_next) s (sk_id (demo_key s st t)))"
    if "valid_text s" for s st t
    using that by (simp add: bundle_key_def demo_bundles_valid)
  ultimately have "check_replacements demo_next (tb_keys demo_root) = Inr ()"
    by (simp add: demo_service_texts find_key_def demo_key_id_eq [of _ _ 5])
  then show ?thesis by (simp add: rotates_def validate_service_trust_bundle_rotation_def demo_bundles_valid)
qed

section \<open>Authorizations\<close>

definition demo_authorization :: "string \<Rightarrow> bundle_authorization" where
  "demo_authorization service =
     projr (authorize_service_trust_bundle_successor demo_signer demo_root demo_next service
       (sk_id (demo_key service KeyActive 0)) trust_secret)"

lemma trust_secret_honest: "honest_signer demo_signer trust_secret (replicate 32 1)"
  by (simp add: honest_signer_def demo_signer_def trust_secret_def)

lemma demo_signing_key:
  assumes "valid_text s"
  shows "validate_signing_key demo_signer s (sk_id (demo_key s KeyActive 0)) trust_secret = Inr ()"
proof -
  let ?k = "\<lparr>sk_id = [], sk_service = s, sk_algorithm = Ed25519, sk_public = replicate 32 1, sk_from = 1,
      sk_through = 0, sk_state = KeyPending, sk_fetch = True, sk_publish = True, sk_rotate = False\<rparr>"
  have i: "service_public_key_identity (?k\<lparr>sk_id := x\<rparr>) = sk_id (demo_key s KeyActive 0)" for x
    by (simp add: demo_key_id [of s KeyActive 0 KeyActive 0] cong: key_identity_cong)
      (rule key_identity_cong; simp)
  then have "valid_service_public_key (?k\<lparr>sk_id := sk_id (demo_key s KeyActive 0)\<rparr>)"
    using assms by (simp add: valid_service_public_key_def valid_key_state_def)
  then show ?thesis
    using assms i [of "[]"]
    by (simp add: validate_signing_key_def make_service_public_key_def demo_signer_def trust_secret_def
        kEd25519SecretKeyBytes_def kEd25519SeedBytes_def kEd25519PublicKeyBytes_def valid_key_state_def Let_def)
qed

lemma authorization_identity_update [simp]:
  "service_trust_bundle_authorization_identity (a\<lparr>ba_id := i\<rparr>) = service_trust_bundle_authorization_identity a"
  "valid_sha256 (service_trust_bundle_authorization_identity a)"
  by (simp_all add: service_trust_bundle_authorization_identity_def)

lemma demo_bundle_ids [simp]: "valid_sha256 (tb_id demo_root)" "valid_sha256 (tb_id demo_next)"
  using demo_bundles_valid by (simp_all add: trust_bundle_valid_def)

lemma demo_rotation_key:
  assumes "s = ''alpha'' \<or> s = ''beta''"
  shows "bundle_key demo_root s (sk_id (demo_key s KeyActive 0)) = Inr (Some (demo_key s KeyActive 0))"
    "rotation_key_is_authorized (demo_key s KeyActive 0) 2"
  using assms demo_service_texts demo_bundles_valid
  by (auto simp: bundle_key_Some find_key_def rotation_key_is_authorized_def)

lemma demo_authorized:
  assumes s: "s = ''alpha'' \<or> s = ''beta''"
  shows "authorize_service_trust_bundle_successor demo_signer demo_root demo_next s (sk_id (demo_key s KeyActive 0))
     trust_secret = Inr (demo_authorization s)"
proof -
  have t: "valid_text s" using s demo_service_texts by auto
  let ?a = "\<lparr>ba_id = [], ba_predecessor = tb_id demo_root, ba_successor = tb_id demo_next, ba_predecessor_sequence = 1,
      ba_successor_sequence = 2, ba_service = s, ba_key = sk_id (demo_key s KeyActive 0), ba_algorithm = Ed25519,
      ba_tag = encode_hex (replicate 64 0)\<rparr>"
  have h: "decode_hex (encode_hex (replicate 64 0)) kEd25519SignatureBytes = Inr (replicate 64 0)"
    using decode_encode_hex [of "replicate 64 (0 :: u8)"] by (simp add: kEd25519SignatureBytes_def)
  have "valid_service_trust_bundle_authorization (?a\<lparr>ba_id := service_trust_bundle_authorization_identity ?a\<rparr>)"
    unfolding valid_service_trust_bundle_authorization_def authorization_identity_update(1) using t h by simp
  moreover have "validate_service_trust_bundle_rotation demo_root demo_next = Inr ()"
    using demo_rotates by (simp add: rotates_def)
  moreover have "ed25519_sign demo_signer m trust_secret = Inr (replicate 64 0)" for m
    by (simp add: ed25519_sign_def demo_signer_def trust_secret_def kEd25519SecretKeyBytes_def)
  ultimately have "\<exists>a. authorize_service_trust_bundle_successor demo_signer demo_root demo_next s
      (sk_id (demo_key s KeyActive 0)) trust_secret = Inr a"
    using demo_rotation_key [OF s] demo_signing_key [OF t]
    by (simp add: authorize_service_trust_bundle_successor_def Let_def)
  then show ?thesis by (auto simp: demo_authorization_def)
qed

lemma authorized_fields:
  assumes "authorize_service_trust_bundle_successor c p q service key_id secret = Inr a"
  shows "ba_service a = service" "ba_key a = key_id"
  using assms by (auto simp: authorize_service_trust_bundle_successor_def legacy_refused_def not_authorized_def
      failure_def result_simps Let_def split: if_splits option.splits)

lemma demo_authorization_fields [simp]:
  "ba_service (demo_authorization ''alpha'') = ''alpha''" "ba_service (demo_authorization ''beta'') = ''beta''"
  "ba_key (demo_authorization ''alpha'') = sk_id (demo_key ''alpha'' KeyActive 0)"
  "ba_key (demo_authorization ''beta'') = sk_id (demo_key ''beta'' KeyActive 0)"
  using authorized_fields [OF demo_authorized [of "''alpha''"]] authorized_fields [OF demo_authorized [of "''beta''"]]
  by simp_all

lemma demo_binding:
  assumes "s = ''alpha'' \<or> s = ''beta''"
  shows "verify_rotation_authorization_binding demo_signer demo_root demo_next (demo_authorization s) = Inr ()"
proof (rule authorized_verifies(2) [OF demo_authorized [OF assms]])
  fix k assume "find_key (tb_keys demo_root) s (sk_id (demo_key s KeyActive 0)) = Some k"
  then have "k \<in> set (tb_keys demo_root)" using find_key_Some by blast
  then show "honest_signer demo_signer trust_secret (sk_public k)" using trust_secret_honest by auto
qed

definition demo_authorizations :: "bundle_authorization list" where
  "demo_authorizations = [demo_authorization ''beta'', demo_authorization ''alpha'']"

definition demo_set :: authorization_set where
  "demo_set = projr (assemble_service_trust_bundle_authorizations demo_signer demo_root demo_next demo_authorizations)"

lemma binding_valid:
  "verify_rotation_authorization_binding c p s a = Inr () \<Longrightarrow> valid_service_trust_bundle_authorization a"
  by (auto simp: verify_rotation_authorization_binding_def split: if_splits)

lemma demo_assembled:
  "assemble_service_trust_bundle_authorizations demo_signer demo_root demo_next demo_authorizations = Inr demo_set"
proof -
  let ?as = "[demo_authorization ''alpha'', demo_authorization ''beta'']"
  have sorted: "sort_by signer_less demo_authorizations = ?as"
    by (simp add: demo_authorizations_def sort_by_def signer_less_def demo_service_order)
  let ?r = "\<lparr>bs_id = [], bs_predecessor = tb_id demo_root, bs_successor = tb_id demo_next, bs_predecessor_sequence = 1,
      bs_successor_sequence = 2, bs_authorizations = ?as\<rparr>"
  have i: "service_trust_bundle_authorization_set_identity (?r\<lparr>bs_id := x\<rparr>) =
      service_trust_bundle_authorization_set_identity ?r" "valid_sha256 (service_trust_bundle_authorization_set_identity r)"
    for x r by (simp_all add: service_trust_bundle_authorization_set_identity_def authorization_set_payload_def)
  note b = demo_binding [of "''alpha''"] demo_binding [of "''beta''"]
  have p: "ba_predecessor a = tb_id demo_root \<and> ba_successor a = tb_id demo_next \<and> ba_predecessor_sequence a = 1 \<and>
      ba_successor_sequence a = 2" if "verify_rotation_authorization_binding demo_signer demo_root demo_next a = Inr ()" for a
    using binding_authorizes [OF that] by (simp add: authorizes_def)
  have v: "valid_service_trust_bundle_authorization_set (?r\<lparr>bs_id := service_trust_bundle_authorization_set_identity ?r\<rparr>)"
    unfolding valid_service_trust_bundle_authorization_set_def i(1)
    using b p [OF b(1)] p [OF b(2)] by (simp add: i(2) binding_valid signer_less_def demo_service_order)
  have rot: "validate_service_trust_bundle_rotation demo_root demo_next = Inr ()"
    using demo_rotates by (simp add: rotates_def)
  have chk: "check_authorizers demo_signer demo_root demo_next None ?as = Inr ()" using b by simp
  have pol: "meets_policy (tb_policy demo_root) (map ba_service ?as)" by (simp add: meets_policy_def)
  have len: "demo_authorizations \<noteq> []" "length demo_authorizations \<le> 100000" by (simp_all add: demo_authorizations_def)
  have "\<exists>r. assemble_service_trust_bundle_authorizations demo_signer demo_root demo_next demo_authorizations = Inr r"
    unfolding assemble_service_trust_bundle_authorizations_def rot rbind_simps sorted chk Let_def
    using pol len v by (simp add: Let_def del: list.map)
  then show ?thesis by (auto simp: demo_set_def)
qed

section \<open>The history\<close>

definition demo_trust :: trust_history where
  "demo_trust = created_history ''/trust'' demo_root"

lemma short_document:
  assumes "short_numbers j" "text_bound 0 j < 65536"
  shows "length (document_text j) \<le> 65536"
  using length_dump(1) [OF assms(1), of 0] assms(2) by (simp add: document_text_def)

lemma bounded_int: "n < 1000 \<Longrightarrow> short_numbers (json_int n) \<and> text_bound d (json_int n) = 24"
  by (rule code_bound) (simp add: hidden_bit_def)

lemma rotation_event_small: "rotation_event_code e < 1000"
  by (cases e) simp_all

lemma demo_trust_fields [simp]:
  "th_schema demo_trust = 2" "th_root demo_trust = tb_id demo_root" "th_current demo_trust = tb_id demo_root"
  "th_bundles demo_trust = [demo_root]" "th_records demo_trust = [root_record 2 demo_root]"
  "th_options demo_trust = default_trust_options" "th_directory demo_trust = ''/trust''"
  by (simp_all add: demo_trust_def created_history_def Let_def)

lemma demo_creatable: "history_creatable demo_signer ''1.0'' ''/trust'' demo_root"
proof -
  have ids: "length (tb_id demo_root) = 64" "length (rr_id (root_record 2 demo_root)) = 64"
    by (rule valid_sha256_length, simp add: root_record_def Let_def service_trust_rotation_record_identity_def)+
  have "short_numbers (manifest_json ''1.0'' (tb_id demo_root) 2)" "text_bound 0 (manifest_json ''1.0'' (tb_id demo_root) 2) < 65536"
    by (simp_all add: manifest_json_def store_document_def manifest_payload_def json_object_def mk_object_def
        bounded_int ids)
  from short_document [OF this] have "length (manifest_text ''1.0'' demo_trust) \<le> 65536" by (simp add: manifest_text_def)
  moreover have "short_numbers (rotation_record_json ''1.0'' (root_record 2 demo_root))"
      "text_bound 0 (rotation_record_json ''1.0'' (root_record 2 demo_root)) < 65536"
    using to_string_short [of 1] ids(2)
    by (simp_all add: rotation_record_json_def json_object_def mk_object_def bounded_int ids root_record_def Let_def)
  from short_document [OF this] have "length (record_text ''1.0'' (root_record 2 demo_root)) \<le> 65536"
    by (simp add: record_text_def)
  moreover have "bundle_typed demo_root" by (simp add: bundle_typed_def)
  ultimately show ?thesis by (simp add: history_creatable_def version_fits_def Let_def flip: demo_trust_def)
qed

definition demo_trust_directory :: trust_directory where
  "demo_trust_directory =
     the (snd (create_history ''1.0'' (\<lambda>_. None) ''/trust'' ''/.trust-history-7'' demo_root (tb_id demo_root) None))"

lemma demo_key_lengths [simp]: "length (sk_id (demo_key s st t)) = 64"
  by (rule valid_sha256_length) simp

lemma demo_documents_short:
  "length (service_trust_bundle_storage_document ''1.0'' demo_root) \<le> 65536"
  "length (service_trust_bundle_storage_document ''1.0'' demo_next) \<le> 65536"
proof -
  have ids: "length (tb_id demo_root) = 64" "length (tb_id demo_next) = 64" by (rule valid_sha256_length, simp)+
  have n: "short_numbers (JNum (f64_of_nat 2))" by (simp add: length_format17_whole hidden_bit_def)
  have state: "short_numbers (json_int (key_state_code st))" "text_bound d (json_int (key_state_code st)) = 24" for st d
    using bounded_int [of "key_state_code st"] by simp_all
  have k: "short_numbers (key_json (demo_key s st t) 3)"
      "text_bound d (key_json (demo_key s st t) 3) \<le> 3000 + 6 * length s + 40 * d" for s st t d
    using to_string_short [of 1] to_string_short [of t]
    by (simp_all add: key_json_def json_object_def mk_object_def bounded_int state)
  have r: "short_numbers (rotation_policy_json \<lparr>rot_minimum = 2, rot_distinct = True\<rparr>)"
      "text_bound d (rotation_policy_json \<lparr>rot_minimum = 2, rot_distinct = True\<rparr>) \<le> 500 + 40 * d" for d
    using n by (simp_all add: rotation_policy_json_def json_object_def mk_object_def)
  show "length (service_trust_bundle_storage_document ''1.0'' demo_root) \<le> 65536"
    unfolding service_trust_bundle_storage_document_def document_text_def [symmetric]
    using k(2) [of "Suc (Suc 0)" "''alpha''" KeyActive 0] k(2) [of "Suc (Suc 0)" "''beta''" KeyActive 0] k(2) [of "Suc (Suc 0)" "''gamma''" KeyRetired 5]
      r(2) [of 1] to_string_short [of 1]
    by (intro short_document)
      (simp_all add: storage_json_def json_object_def mk_object_def bounded_int k(1) r(1) ids)
  show "length (service_trust_bundle_storage_document ''1.0'' demo_next) \<le> 65536"
    unfolding service_trust_bundle_storage_document_def document_text_def [symmetric]
    using k(2) [of "Suc (Suc 0)" "''alpha''" KeyActive 0] k(2) [of "Suc (Suc 0)" "''beta''" KeyActive 0] k(2) [of "Suc (Suc 0)" "''gamma''" KeyRevoked 5]
      r(2) [of 1] to_string_short [of 2]
    by (intro short_document)
      (simp_all add: storage_json_def json_object_def mk_object_def bounded_int k(1) r(1) ids)
qed

lemma demo_trust_created:
  "create_history ''1.0'' (\<lambda>_. None) ''/trust'' ''/.trust-history-7'' demo_root (tb_id demo_root) None =
     (Inr demo_trust, Some demo_trust_directory)"
proof -
  have "length (service_trust_bundle_storage_document ''1.0'' demo_root) \<le> 4194304"
    by (rule order_trans [OF demo_documents_short(1)]) simp
  then have "\<exists>td. create_history ''1.0'' (\<lambda>_. None) ''/trust'' ''/.trust-history-7'' demo_root (tb_id demo_root) None =
     (Inr demo_trust, Some td)"
    using demo_bundles_valid
    by (simp add: create_history_def no_specific_directory_def default_trust_options_def demo_trust_def Let_def
        save_service_trust_bundle_def save_document_def in_directory_def kMaximumExactJsonInteger_def)
  then show ?thesis by (auto simp: demo_trust_directory_def)
qed

lemma demo_keeps: "keeps demo_signer ''1.0'' demo_trust_directory demo_trust"
  using create_keeps [OF demo_trust_created demo_creatable] by simp

text \<open>The publication of the successor.\<close>

definition demo_record :: rotation_record where
  "demo_record = next_record demo_trust 2 demo_next None (Some demo_set)"

definition demo_trust_next :: trust_history where
  "demo_trust_next = extend_history demo_trust demo_next demo_record"

lemma demo_verified: "verify_successor_by_set demo_signer demo_root demo_next demo_set = Inr ()"
  by (rule assembled_verifies [OF demo_assembled])

lemma demo_set_fields:
  "valid_service_trust_bundle_authorization_set demo_set" "length (bs_authorizations demo_set) = 2"
  "\<forall>a\<in>set (bs_authorizations demo_set). valid_service_trust_bundle_authorization a \<and> length (ba_service a) \<le> 256"
proof -
  show v: "valid_service_trust_bundle_authorization_set demo_set"
    by (rule assemble_accepts(7) [OF demo_assembled])
  show "length (bs_authorizations demo_set) = 2"
    by (simp add: assemble_accepts(3) [OF demo_assembled] demo_authorizations_def)
  show "\<forall>a\<in>set (bs_authorizations demo_set). valid_service_trust_bundle_authorization a \<and> length (ba_service a) \<le> 256"
    using v by (auto simp: valid_service_trust_bundle_authorization_set_def list_all_iff
        valid_service_trust_bundle_authorization_def valid_text_def)
qed

lemma authorization_bound:
  assumes "valid_service_trust_bundle_authorization a"
  shows "short_numbers (authorization_members a)" "text_bound d (authorization_members a) \<le> 8000 + 40 * d"
proof -
  have v: "valid_sha256 (ba_id a)" "valid_sha256 (ba_predecessor a)" "valid_sha256 (ba_successor a)" "valid_sha256 (ba_key a)"
    "valid_text (ba_service a)" "has_value (decode_hex (ba_tag a) kEd25519SignatureBytes)"
    using assms by (simp_all add: valid_service_trust_bundle_authorization_def)
  have t: "length (ba_tag a) \<le> 128" using signature_text [OF v(6)] by (simp add: kEd25519SignatureBytes_def)
  note l = valid_sha256_length [OF v(1)] valid_sha256_length [OF v(2)] valid_sha256_length [OF v(3)] valid_sha256_length [OF v(4)]
  have a: "short_numbers (json_int (algorithm_code (ba_algorithm a)))"
      "text_bound d (json_int (algorithm_code (ba_algorithm a))) = 24" for d
    using bounded_int [of "algorithm_code (ba_algorithm a)"] by simp_all
  show "short_numbers (authorization_members a)" "text_bound d (authorization_members a) \<le> 8000 + 40 * d"
    using l t identifier_256 [OF v(5)] to_string_short [of "ba_predecessor_sequence a"]
      to_string_short [of "ba_successor_sequence a"]
    by (simp_all add: authorization_members_def json_object_def mk_object_def bounded_int a)
qed

lemma demo_record_short: "length (record_text ''1.0'' demo_record) \<le> 65536"
proof -
  obtain a1 a2 where as: "bs_authorizations demo_set = [a1, a2]"
    using demo_set_fields(2) by (auto simp: numeral_2_eq_2 length_Suc_conv)
  then have v: "valid_service_trust_bundle_authorization a1" "valid_service_trust_bundle_authorization a2"
    using demo_set_fields(3) by simp_all
  have s: "valid_sha256 (bs_id demo_set)" "valid_sha256 (bs_predecessor demo_set)" "valid_sha256 (bs_successor demo_set)"
    using demo_set_fields(1) by (simp_all add: valid_service_trust_bundle_authorization_set_def)
  note l = valid_sha256_length [OF s(1)] valid_sha256_length [OF s(2)] valid_sha256_length [OF s(3)]
  have set: "short_numbers (authorization_set_members demo_set)"
      "text_bound (Suc 0) (authorization_set_members demo_set) \<le> 20000"
    using l to_string_short [of "bs_predecessor_sequence demo_set"] to_string_short [of "bs_successor_sequence demo_set"]
      authorization_bound(2) [OF v(1), of "Suc (Suc (Suc 0))"] authorization_bound(2) [OF v(2), of "Suc (Suc (Suc 0))"] authorization_bound(1)[OF v(1)]
      authorization_bound(1) [OF v(2)]
    by (simp_all add: authorization_set_members_def json_object_def mk_object_def bounded_int as)
  have ids: "length (tb_id demo_next) = 64" "length (rr_id demo_record) = 64" "length (rr_parent demo_record) = 64"
    by (rule valid_sha256_length, simp add: demo_record_def next_record_def root_record_def Let_def
        service_trust_rotation_record_identity_def)+
  show ?thesis
    unfolding record_text_def using set to_string_short [of 2] ids
    by (intro short_document)
      (simp_all add: rotation_record_json_def json_object_def mk_object_def bounded_int demo_record_def next_record_def Let_def)
qed

lemma demo_history_valid: "history_valid demo_signer demo_trust"
  using demo_keeps by (simp add: keeps_def history_fits_def)

lemma demo_checked:
  "check_publication demo_signer ''1.0'' demo_trust demo_next None (Some demo_set) 10 demo_trust = Inr demo_record"
proof -
  have "tb_sequence demo_next = 2" "valid_sha256 (rr_id (root_record 2 demo_root))"
    by (simp_all add: root_record_def Let_def service_trust_rotation_record_identity_def)
  then have "valid_record_structure demo_record"
    by (simp add: valid_record_structure_def demo_record_def next_record_def Let_def
        service_trust_rotation_record_identity_def rotation_record_content_def)
  moreover have "length (service_trust_bundle_storage_document ''1.0'' demo_next) \<le> 4194304"
    by (rule order_trans [OF demo_documents_short(2)]) simp
  ultimately show ?thesis
    using demo_verified demo_set_fields(2)
    by (simp add: check_publication_def default_trust_options_def Let_def demo_record_def)
qed

lemma demo_directory_unlocked: "\<not> td_locked demo_trust_directory"
  "td_bundles demo_trust_directory =
     Some [(bundle_filename demo_root, Some (service_trust_bundle_storage_document ''1.0'' demo_root))]"
  using demo_trust_created
  by (auto simp: create_history_def save_service_trust_bundle_def save_document_def failure_def Let_def demo_trust_directory_def
      split: if_splits sum.splits option.splits prod.splits)

lemma demo_successor_fits: "successor_fits ''1.0'' demo_trust_directory demo_trust demo_next demo_record"
proof -
  have "bundle_filename demo_next \<noteq> bundle_filename demo_root"
  proof
    assume "bundle_filename demo_next = bundle_filename demo_root"
    then have "tb_sequence demo_next = tb_sequence demo_root"
      unfolding bundle_filename_def by (rule sequence_filename_sequence)
    then show False by simp
  qed
  then show ?thesis
    using demo_documents_short(2) demo_record_short
    by (auto simp: successor_fits_def bundle_typed_def demo_directory_unlocked default_trust_options_def stream_limit_def
        intro: order_trans)
qed

definition demo_trust_writes :: "trust_write list" where
  "demo_trust_writes = snd (publish_impl demo_signer ''1.0'' ''7'' (\<lambda>_. None) (\<lambda>_. False) demo_trust demo_trust_directory
     demo_next None (Some demo_set) (tb_id demo_root) 10)"

lemma demo_published:
  "publish_impl demo_signer ''1.0'' ''7'' (\<lambda>_. None) (\<lambda>_. False) demo_trust demo_trust_directory demo_next None
     (Some demo_set) (tb_id demo_root) 10 = (Inr (demo_trust_next, demo_record), demo_trust_writes)"
proof -
  have "authorization_fits (th_schema demo_trust) None (Some demo_set)"
    using demo_set_fields(1) by (simp add: authorization_fits_def)
  from publish_succeeds [OF demo_keeps demo_history_valid demo_directory_unlocked(1) refl refl refl refl
      demo_bundles_valid(2) this _ demo_checked demo_successor_fits, of "''7''"]
  show ?thesis by (auto simp: demo_trust_writes_def demo_trust_next_def)
qed

lemma demo_record_next: "next_record demo_trust (th_schema demo_trust) demo_next None (Some demo_set) = demo_record"
  by (simp add: demo_record_def)

lemma demo_keeps_next: "keeps demo_signer ''1.0'' (foldl apply_trust_write demo_trust_directory demo_trust_writes) demo_trust_next"
  using publish_keeps(2) [OF demo_published demo_keeps refl refl refl refl, unfolded demo_record_next] demo_successor_fits
  by (simp add: demo_trust_next_def)

lemma demo_next_valid: "history_valid demo_signer demo_trust_next"
  using demo_keeps_next by (simp add: keeps_def history_fits_def)

lemma demo_trust_next_fields [simp]:
  "th_bundles demo_trust_next = [demo_root, demo_next]" "th_records demo_trust_next = [root_record 2 demo_root, demo_record]"
  "th_current demo_trust_next = tb_id demo_next" "th_root demo_trust_next = tb_id demo_root"
  by (simp_all add: demo_trust_next_def extend_history_def)

section \<open>A checkpoint\<close>

definition demo_signature :: "string \<Rightarrow> checkpoint_signature" where
  "demo_signature service = projr (sign_service_trust_checkpoint demo_signer demo_trust service
     (sk_id (demo_key service KeyActive 0)) trust_secret)"

lemma demo_signed:
  assumes s: "s = ''alpha'' \<or> s = ''beta''"
  shows "sign_service_trust_checkpoint demo_signer demo_trust s (sk_id (demo_key s KeyActive 0)) trust_secret =
     Inr (demo_signature s)"
proof -
  have t: "valid_text s" using s demo_service_texts by auto
  have h: "decode_hex (encode_hex (replicate 64 0)) kEd25519SignatureBytes = Inr (replicate 64 0)"
    using decode_encode_hex [of "replicate 64 (0 :: u8)"] by (simp add: kEd25519SignatureBytes_def)
  have "ed25519_sign demo_signer m trust_secret = Inr (replicate 64 0)" for m
    by (simp add: ed25519_sign_def demo_signer_def trust_secret_def kEd25519SecretKeyBytes_def)
  moreover have "length trust_secret = kEd25519SecretKeyBytes"
    "ed25519_key_pair_from_seed demo_signer (take kEd25519SeedBytes trust_secret) = Inr (trust_secret, replicate 32 1)"
    by (simp_all add: trust_secret_def kEd25519SecretKeyBytes_def kEd25519SeedBytes_def ed25519_key_pair_from_seed_def
        demo_signer_def)
  ultimately have "\<exists>a. sign_service_trust_checkpoint demo_signer demo_trust s (sk_id (demo_key s KeyActive 0)) trust_secret = Inr a"
    using demo_rotation_key [OF s] t h
    by (simp add: sign_service_trust_checkpoint_def demo_history_valid current_bundle_def checkpoint_key_refused_def
        valid_service_trust_checkpoint_signature_def Let_def)
  then show ?thesis by (auto simp: demo_signature_def)
qed

lemma signed_fields:
  assumes "sign_service_trust_checkpoint c h service key_id secret = Inr s"
  shows "cs_service s = service" "cs_key s = key_id"
  using assms by (auto simp: sign_service_trust_checkpoint_def result_simps Let_def failure_def split: if_splits prod.splits)

lemma demo_signature_verified:
  assumes "s = ''alpha'' \<or> s = ''beta''"
  shows "verify_checkpoint_signature demo_signer (trust_head_checkpoint demo_trust) (demo_signature s) demo_root = Inr ()"
proof -
  have "honest_signer demo_signer trust_secret (sk_public k)"
    if "find_key (tb_keys (last (th_bundles demo_trust))) s (sk_id (demo_key s KeyActive 0)) = Some k" for k
    using find_key_Some [OF that] trust_secret_honest by auto
  from signed_checkpoint_verifies [OF demo_signed [OF assms] this] show ?thesis by simp
qed

definition demo_checkpoint :: trust_checkpoint where
  "demo_checkpoint = projr (assemble_service_trust_checkpoint demo_signer demo_trust
     [demo_signature ''alpha'', demo_signature ''beta''])"

lemma demo_checkpoint_assembled:
  "assemble_service_trust_checkpoint demo_signer demo_trust [demo_signature ''alpha'', demo_signature ''beta''] =
     Inr demo_checkpoint"
proof -
  let ?ss = "[demo_signature ''alpha'', demo_signature ''beta'']"
  note f = signed_fields [OF demo_signed [of "''alpha''"]] signed_fields [OF demo_signed [of "''beta''"]]
  note v = demo_signature_verified [of "''alpha''"] demo_signature_verified [of "''beta''"]
  have sorted: "sort_by checkpoint_signer_less ?ss = ?ss"
    using f by (simp add: sort_by_def checkpoint_signer_less_def demo_service_order not_less_iff_gr_or_eq)
  have chk: "check_checkpoint_signers demo_signer (trust_head_checkpoint demo_trust) demo_root None ?ss = Inr ()"
    using v f by simp
  have i: "service_trust_checkpoint_identity (t\<lparr>tc_id := x\<rparr>) = service_trust_checkpoint_identity t"
      "valid_sha256 (service_trust_checkpoint_identity t)" for t x
    by (simp_all add: service_trust_checkpoint_identity_def checkpoint_payload_def checkpoint_members_def)
  let ?t = "(trust_head_checkpoint demo_trust)\<lparr>tc_signatures := ?ss\<rparr>"
  have "valid_sha256 (rr_id (root_record 2 demo_root))"
    by (simp add: root_record_def Let_def service_trust_rotation_record_identity_def)
  then have valid: "trust_checkpoint_valid (?t\<lparr>tc_id := service_trust_checkpoint_identity ?t\<rparr>)"
    unfolding trust_checkpoint_valid_def i(1)
    using v f verified_signature(2) by (auto simp: trust_head_checkpoint_def i(2) demo_service_order)
  have "\<exists>t. assemble_service_trust_checkpoint demo_signer demo_trust ?ss = Inr t"
    unfolding assemble_service_trust_checkpoint_def current_bundle_def sorted Let_def
    using demo_history_valid chk valid f by (simp add: meets_policy_def Let_def)
  then show ?thesis by (auto simp: demo_checkpoint_def)
qed

end
