(* ===== verification/Deployment.thy ===== *)
theory Deployment
  imports Trust_Checkpoint Transparency_Log
begin

text \<open>
  \<^verbatim>\<open>src/deployment.cpp\<close> and \<^verbatim>\<open>include/rbfsafe/deployment.h\<close>: a deployment profile names a robot, its
  controller, platform and runtime by digest, the trust checkpoint it was reviewed under, the
  constraints on the running system and the policy of its review. Reviewers sign approvals; a
  profile with an approval set that satisfies the policy is a reviewed profile, and assesses
  snapshots of the running system.
\<close>

section \<open>Policy, constraints and profiles\<close>

definition kMaximumApprovals :: nat where "kMaximumApprovals = 100000"

datatype review_role = Safety | Controls | Operations | Security

fun review_role_code :: "review_role \<Rightarrow> nat" where
  "review_role_code Safety = 0"
| "review_role_code Controls = 1"
| "review_role_code Operations = 2"
| "review_role_code Security = 3"

instantiation review_role :: linorder
begin

definition less_eq_review_role :: "review_role \<Rightarrow> review_role \<Rightarrow> bool" where
  "r \<le> s \<longleftrightarrow> review_role_code r \<le> review_role_code s"

definition less_review_role :: "review_role \<Rightarrow> review_role \<Rightarrow> bool" where
  "r < s \<longleftrightarrow> review_role_code r < review_role_code s"

lemma review_role_code_inject [simp]: "review_role_code r = review_role_code s \<longleftrightarrow> r = s"
  by (cases r; cases s) simp_all

instance
  by standard (auto simp: less_eq_review_role_def less_review_role_def)

end

definition valid_role :: "review_role \<Rightarrow> bool" where
  "valid_role r \<longleftrightarrow> Safety \<le> r \<and> r \<le> Security"

fun deployment_review_role_name :: "review_role \<Rightarrow> string" where
  "deployment_review_role_name Safety = ''safety''"
| "deployment_review_role_name Controls = ''controls''"
| "deployment_review_role_name Operations = ''operations''"
| "deployment_review_role_name Security = ''security''"

record review_policy =
  rv_minimum :: u32
  rv_distinct :: bool
  rv_roles :: "review_role list"

record runtime_constraints =
  cn_observation_age :: u64
  cn_command_latency :: u64
  cn_control_period :: u64
  cn_missed_cycles :: u32
  cn_monitor :: bool
  cn_fail_closed :: bool
  cn_authenticated :: bool

record profile_input =
  pi_deployment :: string
  pi_robot :: string
  pi_controller :: string
  pi_platform :: string
  pi_runtime :: string
  pi_trust_root :: string
  pi_trust_checkpoint :: string
  pi_trust_bundle :: string
  pi_trust_sequence :: u64
  pi_constraints :: runtime_constraints
  pi_policy :: review_policy

record deployment_profile =
  dp_schema :: u32
  dp_id :: string
  dp_deployment :: string
  dp_robot :: string
  dp_controller :: string
  dp_platform :: string
  dp_runtime :: string
  dp_trust_root :: string
  dp_trust_checkpoint :: string
  dp_trust_bundle :: string
  dp_trust_sequence :: u64
  dp_constraints :: runtime_constraints
  dp_policy :: review_policy

definition runtime_constraints_json :: "runtime_constraints \<Rightarrow> json" where
  "runtime_constraints_json r = json_object
     [(''maximum_command_latency_ns'', JStr (to_string (cn_command_latency r))),
      (''maximum_consecutive_missed_cycles'', json_int (unat (cn_missed_cycles r))),
      (''maximum_control_period_ns'', JStr (to_string (cn_control_period r))),
      (''maximum_observation_age_ns'', JStr (to_string (cn_observation_age r))),
      (''require_authenticated_artifacts'', JBool (cn_authenticated r)),
      (''require_fail_closed_transport'', JBool (cn_fail_closed r)),
      (''require_runtime_monitor'', JBool (cn_monitor r))]"

definition review_policy_json :: "review_policy \<Rightarrow> json" where
  "review_policy_json p = json_object
     [(''minimum_approvals'', json_int (unat (rv_minimum p))), (''require_distinct_services'', JBool (rv_distinct p)),
      (''required_roles'', JArr (map (\<lambda>r. json_int (review_role_code r)) (rv_roles p)))]"

definition deployment_profile_json :: "deployment_profile \<Rightarrow> json" where
  "deployment_profile_json p = json_object
     [(''controller_digest'', JStr (dp_controller p)), (''deployment_id'', JStr (dp_deployment p)),
      (''format'', JStr ''rbfsafe-deployment-profile''), (''platform_digest'', JStr (dp_platform p)),
      (''review_policy'', review_policy_json (dp_policy p)), (''robot_digest'', JStr (dp_robot p)),
      (''runtime_constraints'', runtime_constraints_json (dp_constraints p)),
      (''runtime_digest'', JStr (dp_runtime p)), (''schema'', json_int (unat (dp_schema p))),
      (''trust_bundle_id'', JStr (dp_trust_bundle p)),
      (''trust_bundle_sequence'', JStr (to_string (dp_trust_sequence p))),
      (''trust_checkpoint_id'', JStr (dp_trust_checkpoint p)), (''trust_root_bundle_id'', JStr (dp_trust_root p))]"

definition deployment_profile_identity :: "deployment_profile \<Rightarrow> string" where
  "deployment_profile_identity p = sha256 (canonical (deployment_profile_json p))"

definition valid_deployment_review_policy :: "review_policy \<Rightarrow> bool" where
  "valid_deployment_review_policy p \<longleftrightarrow>
     rv_minimum p \<noteq> 0 \<and> unat (rv_minimum p) \<le> kMaximumApprovals \<and>
     list_all valid_role (rv_roles p) \<and> sorted (rv_roles p) \<and> successively (\<noteq>) (rv_roles p)"

definition valid_deployment_runtime_constraints :: "runtime_constraints \<Rightarrow> bool" where
  "valid_deployment_runtime_constraints r \<longleftrightarrow>
     cn_observation_age r > 0 \<and> cn_command_latency r > 0 \<and> cn_control_period r > 0"

definition deployment_profile_valid :: "deployment_profile \<Rightarrow> bool" where
  "deployment_profile_valid p \<longleftrightarrow>
     dp_schema p = 1 \<and> valid_text (dp_deployment p) \<and> valid_sha256 (dp_robot p) \<and> valid_sha256 (dp_controller p) \<and>
     valid_sha256 (dp_platform p) \<and> valid_sha256 (dp_runtime p) \<and> valid_sha256 (dp_trust_root p) \<and>
     valid_sha256 (dp_trust_checkpoint p) \<and> valid_sha256 (dp_trust_bundle p) \<and> dp_trust_sequence p > 0 \<and>
     valid_deployment_runtime_constraints (dp_constraints p) \<and> valid_deployment_review_policy (dp_policy p) \<and>
     valid_sha256 (dp_id p) \<and> dp_id p = deployment_profile_identity p"

definition create_deployment_profile :: "profile_input \<Rightarrow> deployment_profile result" where
  "create_deployment_profile i =
     (let policy = (pi_policy i)\<lparr>rv_roles := sort_unique (rv_roles (pi_policy i))\<rparr>;
          p = \<lparr>dp_schema = 1, dp_id = [], dp_deployment = pi_deployment i, dp_robot = pi_robot i,
               dp_controller = pi_controller i, dp_platform = pi_platform i, dp_runtime = pi_runtime i,
               dp_trust_root = pi_trust_root i, dp_trust_checkpoint = pi_trust_checkpoint i,
               dp_trust_bundle = pi_trust_bundle i, dp_trust_sequence = pi_trust_sequence i,
               dp_constraints = pi_constraints i, dp_policy = policy\<rparr>;
          p = p\<lparr>dp_id := deployment_profile_identity p\<rparr>
      in if \<not> deployment_profile_valid p
         then failure InvalidArgument ''deployment profile input is invalid'' [] else Inr p)"

section \<open>Approvals\<close>

record profile_approval =
  pa_id :: string
  pa_profile :: string
  pa_service :: string
  pa_key :: string
  pa_role :: review_role
  pa_algorithm :: algorithm
  pa_tag :: string

record profile_approval_set =
  ps_id :: string
  ps_profile :: string
  ps_approvals :: "profile_approval list"

definition deployment_profile_approval_message :: "profile_approval \<Rightarrow> string" where
  "deployment_profile_approval_message a =
     identity_text ''rbfsafe-deployment-profile-approval-v1'' (json_object
       [(''algorithm'', json_int (algorithm_code (pa_algorithm a))),
        (''format'', JStr ''rbfsafe-deployment-profile-approval''), (''profile_id'', JStr (pa_profile a)),
        (''role'', json_int (review_role_code (pa_role a))), (''schema'', json_int 1),
        (''signer_key_id'', JStr (pa_key a)), (''signer_service_id'', JStr (pa_service a))])"

definition deployment_profile_approval_identity :: "profile_approval \<Rightarrow> string" where
  "deployment_profile_approval_identity a =
     sha256 (''rbfsafe-deployment-profile-approval-identity-v1'' @ [CHR 0x0A] @
       deployment_profile_approval_message a @ [CHR 0x0A] @ pa_tag a)"

definition deployment_profile_approval_set_identity :: "profile_approval_set \<Rightarrow> string" where
  "deployment_profile_approval_set_identity s = sha256 (canonical (json_object
     [(''approval_ids'', JArr (map (\<lambda>a. JStr (pa_id a)) (ps_approvals s))),
      (''format'', JStr ''rbfsafe-deployment-profile-approval-set''), (''profile_id'', JStr (ps_profile s)),
      (''schema'', json_int 1)]))"

definition valid_deployment_profile_approval :: "profile_approval \<Rightarrow> bool" where
  "valid_deployment_profile_approval a \<longleftrightarrow>
     valid_sha256 (pa_id a) \<and> valid_sha256 (pa_profile a) \<and> valid_text (pa_service a) \<and> valid_sha256 (pa_key a) \<and>
     valid_role (pa_role a) \<and> pa_algorithm a = Ed25519 \<and> is_hex_tag (pa_tag a) kEd25519SignatureBytes \<and>
     pa_id a = deployment_profile_approval_identity a"

text \<open>\<open>approval_order\<close>, compared by \<open>std::tie\<close>.\<close>

definition approval_order :: "profile_approval \<Rightarrow> (string \<times> string) \<times> (review_role \<times> string)" where
  "approval_order a = ((pa_service a, pa_key a), (pa_role a, pa_id a))"

definition approval_less :: "profile_approval \<Rightarrow> profile_approval \<Rightarrow> bool" where
  "approval_less a b \<longleftrightarrow> approval_order a < approval_order b"

definition valid_deployment_profile_approval_set :: "profile_approval_set \<Rightarrow> bool" where
  "valid_deployment_profile_approval_set s \<longleftrightarrow>
     valid_sha256 (ps_id s) \<and> valid_sha256 (ps_profile s) \<and> ps_approvals s \<noteq> [] \<and>
     length (ps_approvals s) \<le> kMaximumApprovals \<and> list_all valid_deployment_profile_approval (ps_approvals s) \<and>
     successively (\<lambda>a b. \<not> approval_less b a) (ps_approvals s) \<and>
     list_all (\<lambda>a. pa_profile a = ps_profile s) (ps_approvals s) \<and>
     distinct (map (\<lambda>a. (pa_service a, pa_key a)) (ps_approvals s)) \<and>
     ps_id s = deployment_profile_approval_set_identity s"

text \<open>The roles a policy requires, looked for in the roles that approved; the first one missing is reported.\<close>

fun check_roles :: "string \<Rightarrow> review_role list \<Rightarrow> review_role list \<Rightarrow> unit result" where
  "check_roles missing roles [] = Inr ()"
| "check_roles missing roles (r # rs) =
     (if r \<notin> set roles then failure IdentityMismatch missing (deployment_review_role_name r)
      else check_roles missing roles rs)"

definition validate_profile_approval_policy :: "deployment_profile \<Rightarrow> profile_approval list \<Rightarrow> unit result" where
  "validate_profile_approval_policy p as =
     (if length as < unat (rv_minimum (dp_policy p))
      then failure IdentityMismatch ''deployment profile approval quorum is not satisfied'' (dp_id p)
      else if rv_distinct (dp_policy p) \<and> card (set (map pa_service as)) < unat (rv_minimum (dp_policy p))
      then failure IdentityMismatch ''deployment profile requires approvals from distinct services'' (dp_id p)
      else check_roles ''deployment profile required review role is missing'' (map pa_role as) (rv_roles (dp_policy p)))"

definition verify_signing_key :: "ed25519 \<Rightarrow> string \<Rightarrow> string \<Rightarrow> u8 list \<Rightarrow> unit result" where
  "verify_signing_key c service key_id secret_key =
     (if \<not> valid_text service \<or> \<not> valid_sha256 key_id \<or> length secret_key \<noteq> kEd25519SecretKeyBytes
      then failure InvalidArgument ''deployment review signing identity is invalid'' []
      else rbind (ed25519_key_pair_from_seed c (take kEd25519SeedBytes secret_key)) (\<lambda>(secret, public_key).
        if secret \<noteq> secret_key
        then failure IdentityMismatch ''Ed25519 secret key seed and public half do not match'' key_id
        else rbind (make_service_public_key service public_key 1 0 KeyPending True True False) (\<lambda>k.
          if sk_id k \<noteq> key_id
          then failure IdentityMismatch ''Ed25519 secret key does not match the deployment reviewer key ID'' key_id
          else Inr ())))"

definition sign_deployment_profile_approval ::
  "ed25519 \<Rightarrow> deployment_profile \<Rightarrow> string \<Rightarrow> string \<Rightarrow> review_role \<Rightarrow> u8 list \<Rightarrow> profile_approval result" where
  "sign_deployment_profile_approval c p service key_id role secret_key =
     (if \<not> deployment_profile_valid p \<or> \<not> valid_role role
      then failure InvalidArgument ''deployment profile approval input is invalid'' []
      else rbind (verify_signing_key c service key_id secret_key) (\<lambda>_.
        let a = \<lparr>pa_id = [], pa_profile = dp_id p, pa_service = service, pa_key = key_id, pa_role = role,
                 pa_algorithm = Ed25519, pa_tag = []\<rparr>
        in rbind (ed25519_sign c (deployment_profile_approval_message a) secret_key) (\<lambda>signature.
             let a = a\<lparr>pa_tag := encode_hex signature\<rparr>
             in Inr (a\<lparr>pa_id := deployment_profile_approval_identity a\<rparr>))))"

definition assemble_deployment_profile_approvals ::
  "deployment_profile \<Rightarrow> profile_approval list \<Rightarrow> profile_approval_set result" where
  "assemble_deployment_profile_approvals p as =
     (if \<not> deployment_profile_valid p \<or> as = [] \<or> length as > kMaximumApprovals
      then failure InvalidArgument ''deployment profile approval set input is invalid'' []
      else (let s = \<lparr>ps_id = [], ps_profile = dp_id p, ps_approvals = sort_by approval_less as\<rparr>;
                s = s\<lparr>ps_id := deployment_profile_approval_set_identity s\<rparr>
            in if \<not> valid_deployment_profile_approval_set s
               then failure InvalidArgument ''deployment profile approvals are invalid or duplicated'' []
               else rbind (validate_profile_approval_policy p (ps_approvals s)) (\<lambda>_. Inr s)))"

text \<open>
  One approval against a trust bundle: the reviewer's key may publish and is trusted at the
  sequence number of the bundle.
\<close>

definition verify_profile_approval :: "ed25519 \<Rightarrow> trust_bundle \<Rightarrow> u64 \<Rightarrow> profile_approval \<Rightarrow> unit result" where
  "verify_profile_approval c b seq a =
     rbind (trusted_service_public_key b (pa_service a) (pa_key a) Publish seq) (\<lambda>k.
       rbind (decode_hex (pa_tag a) kEd25519SignatureBytes) (\<lambda>signature.
         ed25519_verify c (deployment_profile_approval_message a) signature (sk_public k)))"

fun check_all :: "('a \<Rightarrow> unit result) \<Rightarrow> 'a list \<Rightarrow> unit result" where
  "check_all f [] = Inr ()"
| "check_all f (x # xs) = rbind (f x) (\<lambda>_. check_all f xs)"

definition verify_deployment_profile_approvals ::
  "ed25519 \<Rightarrow> deployment_profile \<Rightarrow> profile_approval_set \<Rightarrow> trust_bundle \<Rightarrow> unit result" where
  "verify_deployment_profile_approvals c p s b =
     (if \<not> deployment_profile_valid p \<or> ps_approvals s = [] \<or> \<not> trust_bundle_valid b
      then failure InvalidArgument ''deployment profile approval verification input is invalid'' []
      else if \<not> valid_deployment_profile_approval_set s
      then failure CorruptData ''deployment profile approval-set identity is invalid'' []
      else if ps_profile s \<noteq> dp_id p \<or> dp_trust_bundle p \<noteq> tb_id b \<or> dp_trust_sequence p \<noteq> tb_sequence b
      then failure IdentityMismatch ''deployment profile review trust binding is invalid'' (dp_id p)
      else rbind (validate_profile_approval_policy p (ps_approvals s)) (\<lambda>_.
        check_all (verify_profile_approval c b (dp_trust_sequence p)) (ps_approvals s)))"

section \<open>Reviewed profiles\<close>

record reviewed_profile =
  rd_profile :: deployment_profile
  rd_approvals :: profile_approval_set

definition create_reviewed_profile ::
  "ed25519 \<Rightarrow> deployment_profile \<Rightarrow> profile_approval_set \<Rightarrow> trust_history \<Rightarrow> trust_checkpoint \<Rightarrow> string \<Rightarrow>
     reviewed_profile result" where
  "create_reviewed_profile c p s h t expected =
     (if \<not> deployment_profile_valid p \<or> \<not> valid_deployment_profile_approval_set s \<or> \<not> history_valid c h \<or>
         \<not> trust_checkpoint_valid t \<or> \<not> valid_sha256 expected
      then failure InvalidArgument ''reviewed deployment profile input is invalid'' []
      else rbind (verify_service_trust_checkpoint c h t expected) (\<lambda>_.
        if dp_trust_root p \<noteq> tc_root t \<or> dp_trust_checkpoint p \<noteq> tc_id t \<or> dp_trust_bundle p \<noteq> tc_head t \<or>
           dp_trust_sequence p \<noteq> tc_sequence t
        then failure IdentityMismatch ''deployment profile is bound to another trust root, checkpoint, or head'' (dp_id p)
        else rbind (history_bundle c h (dp_trust_bundle p)) (\<lambda>b.
          rbind (verify_deployment_profile_approvals c p s b) (\<lambda>_. Inr \<lparr>rd_profile = p, rd_approvals = s\<rparr>))))"

definition reviewed_valid :: "reviewed_profile \<Rightarrow> bool" where
  "reviewed_valid r \<longleftrightarrow> deployment_profile_valid (rd_profile r) \<and>
     valid_deployment_profile_approval_set (rd_approvals r) \<and> ps_profile (rd_approvals r) = dp_id (rd_profile r)"

section \<open>Assessments\<close>

datatype constraint_violation =
    DeploymentIdentityMismatch | RobotIdentityMismatch | ControllerIdentityMismatch | PlatformIdentityMismatch
  | RuntimeIdentityMismatch | ObservationAgeExceeded | CommandLatencyExceeded | ControlPeriodExceeded
  | MissedCycleLimitExceeded | RuntimeMonitorRequired | FailClosedTransportRequired | AuthenticatedArtifactsRequired

fun violation_code :: "constraint_violation \<Rightarrow> nat" where
  "violation_code DeploymentIdentityMismatch = 0"
| "violation_code RobotIdentityMismatch = 1"
| "violation_code ControllerIdentityMismatch = 2"
| "violation_code PlatformIdentityMismatch = 3"
| "violation_code RuntimeIdentityMismatch = 4"
| "violation_code ObservationAgeExceeded = 5"
| "violation_code CommandLatencyExceeded = 6"
| "violation_code ControlPeriodExceeded = 7"
| "violation_code MissedCycleLimitExceeded = 8"
| "violation_code RuntimeMonitorRequired = 9"
| "violation_code FailClosedTransportRequired = 10"
| "violation_code AuthenticatedArtifactsRequired = 11"

definition valid_violation :: "constraint_violation \<Rightarrow> bool" where
  "valid_violation v \<longleftrightarrow> violation_code DeploymentIdentityMismatch \<le> violation_code v \<and>
     violation_code v \<le> violation_code AuthenticatedArtifactsRequired"

fun deployment_constraint_violation_name :: "constraint_violation \<Rightarrow> string" where
  "deployment_constraint_violation_name DeploymentIdentityMismatch = ''deployment_identity_mismatch''"
| "deployment_constraint_violation_name RobotIdentityMismatch = ''robot_identity_mismatch''"
| "deployment_constraint_violation_name ControllerIdentityMismatch = ''controller_identity_mismatch''"
| "deployment_constraint_violation_name PlatformIdentityMismatch = ''platform_identity_mismatch''"
| "deployment_constraint_violation_name RuntimeIdentityMismatch = ''runtime_identity_mismatch''"
| "deployment_constraint_violation_name ObservationAgeExceeded = ''observation_age_exceeded''"
| "deployment_constraint_violation_name CommandLatencyExceeded = ''command_latency_exceeded''"
| "deployment_constraint_violation_name ControlPeriodExceeded = ''control_period_exceeded''"
| "deployment_constraint_violation_name MissedCycleLimitExceeded = ''missed_cycle_limit_exceeded''"
| "deployment_constraint_violation_name RuntimeMonitorRequired = ''runtime_monitor_required''"
| "deployment_constraint_violation_name FailClosedTransportRequired = ''fail_closed_transport_required''"
| "deployment_constraint_violation_name AuthenticatedArtifactsRequired = ''authenticated_artifacts_required''"

datatype assessment_status = Conformant | Nonconformant

fun assessment_status_code :: "assessment_status \<Rightarrow> nat" where
  "assessment_status_code Conformant = 0"
| "assessment_status_code Nonconformant = 1"

fun deployment_profile_assessment_status_name :: "assessment_status \<Rightarrow> string" where
  "deployment_profile_assessment_status_name Conformant = ''conformant''"
| "deployment_profile_assessment_status_name Nonconformant = ''nonconformant''"

record assessment =
  am_id :: string
  am_profile :: string
  am_approvals :: string
  am_snapshot :: string
  am_status :: assessment_status
  am_violations :: "constraint_violation list"
  am_evidence :: evidence_level

definition deployment_snapshot_json :: "runtime_snapshot \<Rightarrow> json" where
  "deployment_snapshot_json s = json_object
     [(''authenticated_artifacts'', JBool (rs_authenticated s)),
      (''command_latency_ns'', JStr (to_string (rs_command_latency s))),
      (''consecutive_missed_cycles'', json_int (unat (rs_missed_cycles s))),
      (''control_period_ns'', JStr (to_string (rs_control_period s))),
      (''controller_digest'', JStr (rs_controller s)), (''deployment_id'', JStr (rs_deployment s)),
      (''fail_closed_transport_active'', JBool (rs_fail_closed s)),
      (''format'', JStr ''rbfsafe-deployment-runtime-snapshot''),
      (''observation_age_ns'', JStr (to_string (rs_observation_age s))),
      (''platform_digest'', JStr (rs_platform s)), (''robot_digest'', JStr (rs_robot s)),
      (''runtime_digest'', JStr (rs_runtime s)), (''runtime_monitor_active'', JBool (rs_monitor_active s)),
      (''schema'', json_int 1)]"

definition deployment_runtime_snapshot_identity :: "runtime_snapshot \<Rightarrow> string" where
  "deployment_runtime_snapshot_identity s = sha256 (canonical (deployment_snapshot_json s))"

definition deployment_profile_assessment_identity :: "assessment \<Rightarrow> string" where
  "deployment_profile_assessment_identity a = sha256 (canonical (json_object
     [(''approval_set_id'', JStr (am_approvals a)), (''evidence'', json_int (evidence_code (am_evidence a))),
      (''format'', JStr ''rbfsafe-deployment-profile-assessment''), (''profile_id'', JStr (am_profile a)),
      (''runtime_snapshot_id'', JStr (am_snapshot a)), (''schema'', json_int 1),
      (''status'', json_int (assessment_status_code (am_status a))),
      (''violations'', JArr (map (\<lambda>v. json_int (violation_code v)) (am_violations a)))]))"

definition assessment_valid :: "assessment \<Rightarrow> bool" where
  "assessment_valid a =
     (if \<not> valid_sha256 (am_id a) \<or> \<not> valid_sha256 (am_profile a) \<or> \<not> valid_sha256 (am_approvals a) \<or>
         \<not> valid_sha256 (am_snapshot a) \<or> am_evidence a \<noteq> Unknown \<or> \<not> list_all valid_violation (am_violations a) \<or>
         \<not> successively (\<lambda>v w. violation_code v \<le> violation_code w) (am_violations a) \<or>
         \<not> successively (\<noteq>) (am_violations a)
      then False
      else if (am_status a = Conformant) \<noteq> (am_violations a = []) then False
      else am_id a = deployment_profile_assessment_identity a)"

text \<open>The violations of a snapshot, in the order in which \<open>assess\<close> pushes them.\<close>

definition violations_of :: "deployment_profile \<Rightarrow> runtime_snapshot \<Rightarrow> constraint_violation list" where
  "violations_of p s =
     (let r = dp_constraints p in
      (if rs_deployment s \<noteq> dp_deployment p then [DeploymentIdentityMismatch] else []) @
      (if rs_robot s \<noteq> dp_robot p then [RobotIdentityMismatch] else []) @
      (if rs_controller s \<noteq> dp_controller p then [ControllerIdentityMismatch] else []) @
      (if rs_platform s \<noteq> dp_platform p then [PlatformIdentityMismatch] else []) @
      (if rs_runtime s \<noteq> dp_runtime p then [RuntimeIdentityMismatch] else []) @
      (if rs_observation_age s > cn_observation_age r then [ObservationAgeExceeded] else []) @
      (if rs_command_latency s > cn_command_latency r then [CommandLatencyExceeded] else []) @
      (if rs_control_period s > cn_control_period r then [ControlPeriodExceeded] else []) @
      (if rs_missed_cycles s > cn_missed_cycles r then [MissedCycleLimitExceeded] else []) @
      (if cn_monitor r \<and> \<not> rs_monitor_active s then [RuntimeMonitorRequired] else []) @
      (if cn_fail_closed r \<and> \<not> rs_fail_closed s then [FailClosedTransportRequired] else []) @
      (if cn_authenticated r \<and> \<not> rs_authenticated s then [AuthenticatedArtifactsRequired] else []))"

definition assess_snapshot :: "reviewed_profile \<Rightarrow> runtime_snapshot \<Rightarrow> assessment result" where
  "assess_snapshot r s =
     (if \<not> reviewed_valid r \<or> \<not> valid_deployment_runtime_snapshot s
      then failure InvalidArgument ''deployment runtime assessment input is invalid'' []
      else (let vs = violations_of (rd_profile r) s;
                a = \<lparr>am_id = [], am_profile = dp_id (rd_profile r), am_approvals = ps_id (rd_approvals r),
                     am_snapshot = deployment_runtime_snapshot_identity s,
                     am_status = (if vs = [] then Conformant else Nonconformant), am_violations = vs,
                     am_evidence = Unknown\<rparr>
            in Inr (a\<lparr>am_id := deployment_profile_assessment_identity a\<rparr>)))"

section \<open>The anchor of a reviewed profile in the transparency log\<close>

definition create_deployment_anchor ::
  "ed25519 \<Rightarrow> reviewed_profile \<Rightarrow> trust_history \<Rightarrow> trust_checkpoint \<Rightarrow> string \<Rightarrow> deployment_anchor result" where
  "create_deployment_anchor c r h t expected =
     (if \<not> reviewed_valid r \<or> \<not> history_valid c h \<or> \<not> trust_checkpoint_valid t \<or> \<not> valid_sha256 expected
      then failure InvalidArgument ''deployment transparency anchor input is invalid'' []
      else rbind (verify_service_trust_checkpoint c h t expected) (\<lambda>_.
        let p = rd_profile r in
        if dp_trust_root p \<noteq> tc_root t \<or> dp_trust_checkpoint p \<noteq> tc_id t \<or> dp_trust_bundle p \<noteq> tc_head t \<or>
           dp_trust_sequence p \<noteq> tc_sequence t \<or> th_current h \<noteq> tc_head t \<or> th_records h = [] \<or>
           rr_id (last (th_records h)) \<noteq> tc_record t
        then failure IdentityMismatch ''reviewed deployment profile is not bound to the verified trust checkpoint'' (dp_id p)
        else (let a = \<lparr>da_schema = 1, da_id = [], da_deployment = dp_deployment p, da_profile = dp_id p,
                       da_approval = ps_id (rd_approvals r), da_robot = dp_robot p, da_controller = dp_controller p,
                       da_platform = dp_platform p, da_runtime = dp_runtime p, da_trust_root = dp_trust_root p,
                       da_trust_checkpoint = dp_trust_checkpoint p, da_trust_bundle = dp_trust_bundle p,
                       da_trust_sequence = dp_trust_sequence p, da_trust_head = tc_record t\<rparr>;
                  a = a\<lparr>da_id := deployment_transparency_anchor_identity a\<rparr>
              in if \<not> deployment_anchor_valid a
                 then failure InternalError ''constructed deployment transparency anchor is invalid'' []
                 else Inr a)))"

end
