(* ===== verification/Deployment_Laws.thy ===== *)
theory Deployment_Laws
  imports Deployment Trust_Checkpoint_Laws Publish_Laws
begin

text \<open>
  What a review shows and what an assessment says. \<open>trusted_approval\<close> is the contract of a record
  that a service signs under a trust bundle; profile approvals keep it here, the approvals of
  an execution session and the attestations of an observation in their own theories.
\<close>

section \<open>Checks over lists\<close>

lemma check_all_iff: "check_all f xs = Inr () \<longleftrightarrow> (\<forall>x\<in>set xs. f x = Inr ())"
  by (induction xs) (auto simp: result_simps)

lemma check_roles_iff: "check_roles m roles rs = Inr () \<longleftrightarrow> set rs \<subseteq> set roles"
  by (induction rs) (auto simp: failure_def)

lemma any_role_valid [simp]: "valid_role r"
  by (cases r) (simp_all add: valid_role_def less_eq_review_role_def)

section \<open>Signed under a trust bundle\<close>

text \<open>
  A tag is a signature of the text by the named key of the bundle, which may publish and is not
  pending or revoked, at a sequence number in its window.
\<close>

definition signs_as :: "ed25519 \<Rightarrow> trust_bundle \<Rightarrow> u64 \<Rightarrow> string \<times> string \<Rightarrow> string \<Rightarrow> string \<Rightarrow> bool" where
  "signs_as c b seq signer tag text \<longleftrightarrow> (\<exists>k\<in>set (tb_keys b). key_name k = signer \<and>
     (sk_state k = KeyActive \<or> sk_state k = KeyRetired) \<and> sk_publish k \<and> sk_from k \<le> seq \<and>
     (sk_through k = 0 \<or> seq \<le> sk_through k) \<and>
     (\<exists>signature. decode_hex tag 64 = Inr signature \<and> ed_check c signature (sk_public k) text))"

locale trusted_approval =
  fixes verify :: "ed25519 \<Rightarrow> trust_bundle \<Rightarrow> u64 \<Rightarrow> 'a \<Rightarrow> unit result"
    and service key_of tag text_of :: "'a \<Rightarrow> string"
  assumes verify_eq: "verify c b seq a =
    rbind (trusted_service_public_key b (service a) (key_of a) Publish seq) (\<lambda>k.
      rbind (decode_hex (tag a) kEd25519SignatureBytes) (\<lambda>signature. ed25519_verify c (text_of a) signature (sk_public k)))"
begin

lemma verified:
  assumes "verify c b seq a = Inr ()"
  shows "trust_bundle_valid b" "signs_as c b seq (service a, key_of a) (tag a) (text_of a)"
proof -
  obtain k signature where k: "trusted_service_public_key b (service a) (key_of a) Publish seq = Inr k"
      "decode_hex (tag a) 64 = Inr signature" "ed_check c signature (sk_public k) (text_of a)"
    using assms by (auto simp: verify_eq result_simps ed25519_verify_iff kEd25519SignatureBytes_def)
  then show "trust_bundle_valid b" by (simp add: trusted_key_iff)
  have "k \<in> set (tb_keys b) \<and> key_name k = (service a, key_of a)"
    using k(1) by (auto simp: trusted_key_iff key_name_def dest: find_key_Some)
  with k show "signs_as c b seq (service a, key_of a) (tag a) (text_of a)"
    by (auto simp: signs_as_def trusted_key_iff)
qed

lemma signed:
  assumes "trusted_service_public_key b (service a) (key_of a) Publish seq = Inr k"
    and "honest_signer c secret (sk_public k)" and "tag a = encode_hex (ed_sign c secret (text_of a))"
  shows "verify c b seq a = Inr ()"
proof -
  have "decode_hex (tag a) kEd25519SignatureBytes = Inr (ed_sign c secret (text_of a))"
    using assms(2) decode_encode_hex [of "ed_sign c secret (text_of a)"]
    by (simp add: assms(3) honest_signer_def kEd25519SignatureBytes_def)
  with assms(1,2) show ?thesis by (simp add: verify_eq ed25519_verify_iff honest_signer_def)
qed

end

interpretation profile_approvals: trusted_approval verify_profile_approval pa_service pa_key pa_tag
    deployment_profile_approval_message
  by unfold_locales (rule verify_profile_approval_def)

section \<open>Policies\<close>

definition satisfies_review :: "review_policy \<Rightarrow> (string \<times> review_role) list \<Rightarrow> bool" where
  "satisfies_review p as \<longleftrightarrow> unat (rv_minimum p) \<le> length as \<and>
     (rv_distinct p \<longrightarrow> unat (rv_minimum p) \<le> card (set (map fst as))) \<and> set (rv_roles p) \<subseteq> set (map snd as)"

lemma profile_policy_iff:
  "validate_profile_approval_policy p as = Inr () \<longleftrightarrow>
     satisfies_review (dp_policy p) (map (\<lambda>a. (pa_service a, pa_role a)) as)"
  by (auto simp: validate_profile_approval_policy_def satisfies_review_def failure_def check_roles_iff not_less comp_def
      image_image)

definition profile_signer :: "profile_approval \<Rightarrow> string \<times> string" where
  "profile_signer a = (pa_service a, pa_key a)"

text \<open>What the approvals of a profile show, under the bundle it was reviewed with.\<close>

definition reviewed_under :: "ed25519 \<Rightarrow> trust_bundle \<Rightarrow> deployment_profile \<Rightarrow> profile_approval list \<Rightarrow> bool" where
  "reviewed_under c b p as \<longleftrightarrow> satisfies_review (dp_policy p) (map (\<lambda>a. (pa_service a, pa_role a)) as) \<and>
     distinct (map profile_signer as) \<and>
     (\<forall>a\<in>set as. pa_profile a = dp_id p \<and>
        signs_as c b (dp_trust_sequence p) (profile_signer a) (pa_tag a) (deployment_profile_approval_message a))"

lemma verified_approvals:
  assumes "verify_deployment_profile_approvals c p s b = Inr ()"
  shows "deployment_profile_valid p" "valid_deployment_profile_approval_set s" "ps_profile s = dp_id p"
    "dp_trust_bundle p = tb_id b" "reviewed_under c b p (ps_approvals s)"
proof -
  have a: "deployment_profile_valid p" "valid_deployment_profile_approval_set s" "ps_profile s = dp_id p"
      "dp_trust_bundle p = tb_id b" "validate_profile_approval_policy p (ps_approvals s) = Inr ()"
      "check_all (verify_profile_approval c b (dp_trust_sequence p)) (ps_approvals s) = Inr ()"
    using assms by (auto simp: verify_deployment_profile_approvals_def failure_def result_simps split: if_splits)
  then show "deployment_profile_valid p" "valid_deployment_profile_approval_set s" "ps_profile s = dp_id p"
    "dp_trust_bundle p = tb_id b" by simp_all
  have "distinct (map profile_signer (ps_approvals s))" "\<forall>a\<in>set (ps_approvals s). pa_profile a = dp_id p"
    using a(2,3) by (simp_all add: valid_deployment_profile_approval_set_def profile_signer_def [abs_def] list_all_iff)
  with a(5,6) profile_approvals.verified(2) show "reviewed_under c b p (ps_approvals s)"
    by (simp add: reviewed_under_def profile_policy_iff check_all_iff profile_signer_def)
qed

lemma history_bundle_found:
  assumes "history_bundle c h i = Inr b"
  shows "history_valid c h" "b \<in> set (th_bundles h)" "tb_id b = i"
  using assms by (auto simp: history_bundle_def failure_def find_Some_iff split: if_splits option.splits)

lemma history_bundle_by_sequence:
  assumes "history_bundle c h i = Inr b" and "unat (tb_sequence b) = length (th_bundles h)"
  shows "b = last (th_bundles h)"
proof -
  note f = history_bundle_found [OF assms(1)]
  obtain k where k: "k < length (th_bundles h)" "b = th_bundles h ! k" using f(2) by (auto simp: in_set_conv_nth)
  have "tb_sequence b = of_nat (Suc k)" using history_bundle_at(2) [OF f(1) k(1)] k(2) by simp
  moreover have "length (th_bundles h) < 2 ^ 64" using history_length [OF f(1)] by simp
  ultimately have "length (th_bundles h) = Suc k" using assms(2) k(1) by (simp add: unat_u64_of_nat del: of_nat_Suc)
  then show ?thesis using k by (cases "th_bundles h" rule: rev_cases) (auto simp: nth_append)
qed

lemma reviewed_created:
  assumes "create_reviewed_profile c p s h t expected = Inr r"
  shows "r = \<lparr>rd_profile = p, rd_approvals = s\<rparr>" "reviewed_valid r"
    "verify_service_trust_checkpoint c h t expected = Inr ()"
    "dp_trust_root p = th_root h" "dp_trust_checkpoint p = expected" "dp_trust_bundle p = th_current h"
    "dp_trust_sequence p = tc_sequence t" "reviewed_under c (last (th_bundles h)) p (ps_approvals s)"
proof -
  obtain b where v: "verify_service_trust_checkpoint c h t expected = Inr ()"
    and p: "dp_trust_root p = tc_root t" "dp_trust_checkpoint p = tc_id t" "dp_trust_bundle p = tc_head t"
      "dp_trust_sequence p = tc_sequence t"
    and b: "history_bundle c h (dp_trust_bundle p) = Inr b" "verify_deployment_profile_approvals c p s b = Inr ()"
    and r: "r = \<lparr>rd_profile = p, rd_approvals = s\<rparr>"
    using assms by (auto simp: create_reviewed_profile_def result_simps split: if_splits)
  show "r = \<lparr>rd_profile = p, rd_approvals = s\<rparr>" "verify_service_trust_checkpoint c h t expected = Inr ()"
    "dp_trust_sequence p = tc_sequence t" by (fact r v p(4))+
  note c = verified_checkpoint [OF v] and a = verified_approvals [OF b(2)]
  show "dp_trust_root p = th_root h" "dp_trust_checkpoint p = expected" "dp_trust_bundle p = th_current h"
    using p c by simp_all
  show "reviewed_valid r" using a(1-3) by (simp add: r reviewed_valid_def)
  have "tb_sequence b = dp_trust_sequence p"
    using b(2) by (auto simp: verify_deployment_profile_approvals_def split: if_splits)
  then have "b = last (th_bundles h)"
    using c(5) p(4) history_lengths [OF c(1)] by (intro history_bundle_by_sequence [OF b(1)]) simp
  with a(5) show "reviewed_under c (last (th_bundles h)) p (ps_approvals s)" by simp
qed

section \<open>Creating and signing\<close>

lemma roles_sorted: "sorted (sort_unique xs)"
  by (simp add: sort_unique_def)

lemma sort_unique_adjacent: "successively (\<noteq>) (sort_unique xs)"
  unfolding sort_unique_def by (rule distinct_adj_remdups_adj [unfolded distinct_adj_def])

lemma policy_created:
  "valid_deployment_review_policy (p\<lparr>rv_roles := sort_unique (rv_roles p)\<rparr>) \<longleftrightarrow>
     rv_minimum p \<noteq> 0 \<and> unat (rv_minimum p) \<le> kMaximumApprovals"
  by (simp add: valid_deployment_review_policy_def roles_sorted sort_unique_adjacent list_all_iff)

lemma profile_identity_update [simp]:
  "deployment_profile_identity (p\<lparr>dp_id := i\<rparr>) = deployment_profile_identity p"
  "valid_sha256 (deployment_profile_identity p)"
  by (simp_all add: deployment_profile_identity_def deployment_profile_json_def)

lemma created_profile:
  assumes "create_deployment_profile i = Inr p"
  shows "deployment_profile_valid p" "dp_deployment p = pi_deployment i" "dp_robot p = pi_robot i"
    "dp_constraints p = pi_constraints i" "set (rv_roles (dp_policy p)) = set (rv_roles (pi_policy i))"
    "rv_minimum (dp_policy p) = rv_minimum (pi_policy i)"
  using assms by (auto simp: create_deployment_profile_def Let_def failure_def split: if_splits)

lemma approval_message_update [simp]:
  "deployment_profile_approval_message (a\<lparr>pa_tag := t\<rparr>) = deployment_profile_approval_message a"
  "deployment_profile_approval_message (a\<lparr>pa_id := i\<rparr>) = deployment_profile_approval_message a"
  by (simp_all add: deployment_profile_approval_message_def)

lemma approval_identity_update [simp]:
  "deployment_profile_approval_identity (a\<lparr>pa_id := i\<rparr>) = deployment_profile_approval_identity a"
  "valid_sha256 (deployment_profile_approval_identity a)"
  by (simp_all add: deployment_profile_approval_identity_def)

lemma approval_set_identity_update [simp]:
  "deployment_profile_approval_set_identity (s\<lparr>ps_id := i\<rparr>) = deployment_profile_approval_set_identity s"
  "valid_sha256 (deployment_profile_approval_set_identity s)"
  by (simp_all add: deployment_profile_approval_set_identity_def)

text \<open>A signed approval is well formed, and verifies when the signer is trusted and honest.\<close>

lemma signed_approval:
  assumes "sign_deployment_profile_approval c p service key_id role secret = Inr a"
    and "length (ed_sign c secret (deployment_profile_approval_message a)) = 64"
  shows "valid_deployment_profile_approval a" "pa_profile a = dp_id p" "profile_signer a = (service, key_id)" "pa_role a = role"
    "pa_tag a = encode_hex (ed_sign c secret (deployment_profile_approval_message a))"
proof -
  let ?a = "\<lparr>pa_id = [], pa_profile = dp_id p, pa_service = service, pa_key = key_id, pa_role = role,
      pa_algorithm = Ed25519, pa_tag = encode_hex (ed_sign c secret (deployment_profile_approval_message a))\<rparr>"
  have v: "deployment_profile_valid p" "valid_text service" "valid_sha256 key_id"
    and a: "a = ?a\<lparr>pa_id := deployment_profile_approval_identity ?a\<rparr>"
    using assms(1)
    by (auto simp: sign_deployment_profile_approval_def verify_signing_key_def result_simps failure_def Let_def
        ed25519_sign_def deployment_profile_approval_message_def split: if_splits)
  show "pa_profile a = dp_id p" "profile_signer a = (service, key_id)" "pa_role a = role"
    "pa_tag a = encode_hex (ed_sign c secret (deployment_profile_approval_message a))"
    using arg_cong [OF a, of pa_profile] arg_cong [OF a, of profile_signer] arg_cong [OF a, of pa_role]
      arg_cong [OF a, of pa_tag] by (simp_all add: profile_signer_def)
  have "valid_sha256 (dp_id p)" using v(1) by (simp add: deployment_profile_valid_def)
  then have "valid_deployment_profile_approval (?a\<lparr>pa_id := deployment_profile_approval_identity ?a\<rparr>)"
    unfolding valid_deployment_profile_approval_def approval_identity_update
    using v is_hex_tag_encode [OF assms(2)] by (simp add: kEd25519SignatureBytes_def)
  with a show "valid_deployment_profile_approval a" by simp
qed

section \<open>Assessments\<close>

text \<open>The constraint that each violation names.\<close>

fun violated :: "deployment_profile \<Rightarrow> runtime_snapshot \<Rightarrow> constraint_violation \<Rightarrow> bool" where
  "violated p s DeploymentIdentityMismatch = (rs_deployment s \<noteq> dp_deployment p)"
| "violated p s RobotIdentityMismatch = (rs_robot s \<noteq> dp_robot p)"
| "violated p s ControllerIdentityMismatch = (rs_controller s \<noteq> dp_controller p)"
| "violated p s PlatformIdentityMismatch = (rs_platform s \<noteq> dp_platform p)"
| "violated p s RuntimeIdentityMismatch = (rs_runtime s \<noteq> dp_runtime p)"
| "violated p s ObservationAgeExceeded = (cn_observation_age (dp_constraints p) < rs_observation_age s)"
| "violated p s CommandLatencyExceeded = (cn_command_latency (dp_constraints p) < rs_command_latency s)"
| "violated p s ControlPeriodExceeded = (cn_control_period (dp_constraints p) < rs_control_period s)"
| "violated p s MissedCycleLimitExceeded = (cn_missed_cycles (dp_constraints p) < rs_missed_cycles s)"
| "violated p s RuntimeMonitorRequired = (cn_monitor (dp_constraints p) \<and> \<not> rs_monitor_active s)"
| "violated p s FailClosedTransportRequired = (cn_fail_closed (dp_constraints p) \<and> \<not> rs_fail_closed s)"
| "violated p s AuthenticatedArtifactsRequired = (cn_authenticated (dp_constraints p) \<and> \<not> rs_authenticated s)"

definition all_violations :: "constraint_violation list" where
  "all_violations = [DeploymentIdentityMismatch, RobotIdentityMismatch, ControllerIdentityMismatch, PlatformIdentityMismatch,
     RuntimeIdentityMismatch, ObservationAgeExceeded, CommandLatencyExceeded, ControlPeriodExceeded,
     MissedCycleLimitExceeded, RuntimeMonitorRequired, FailClosedTransportRequired, AuthenticatedArtifactsRequired]"

lemma every_violation: "v \<in> set all_violations"
  by (cases v) (simp_all add: all_violations_def)

lemma violations_filter: "violations_of p s = filter (violated p s) all_violations"
  by (simp add: violations_of_def all_violations_def Let_def)

lemma violations_sorted: "sorted_wrt (\<lambda>v w. violation_code v < violation_code w) (violations_of p s)"
  unfolding violations_filter by (rule sorted_wrt_filter) (simp add: all_violations_def)

lemma assessed:
  assumes "assess_snapshot r s = Inr a"
  shows "assessment_valid a" "set (am_violations a) = {v. violated (rd_profile r) s v}"
    "am_status a = Conformant \<longleftrightarrow> (\<forall>v. \<not> violated (rd_profile r) s v)"
    "am_profile a = dp_id (rd_profile r)" "am_snapshot a = deployment_runtime_snapshot_identity s"
proof -
  have r: "reviewed_valid r"
    and a: "am_violations a = violations_of (rd_profile r) s" "am_status a = (if am_violations a = [] then Conformant else Nonconformant)"
      "am_profile a = dp_id (rd_profile r)" "am_snapshot a = deployment_runtime_snapshot_identity s"
      "am_evidence a = Unknown" "am_approvals a = ps_id (rd_approvals r)" "am_id a = deployment_profile_assessment_identity a"
    using assms by (auto simp: assess_snapshot_def Let_def deployment_profile_assessment_identity_def failure_def split: if_splits)
  show "am_profile a = dp_id (rd_profile r)" "am_snapshot a = deployment_runtime_snapshot_identity s" by (fact a)+
  show v: "set (am_violations a) = {v. violated (rd_profile r) s v}"
    using every_violation by (auto simp: a(1) violations_filter)
  show "am_status a = Conformant \<longleftrightarrow> (\<forall>v. \<not> violated (rd_profile r) s v)"
    using v unfolding a(2) by (cases "am_violations a") auto
  have "sorted_wrt (\<lambda>v w. violation_code v < violation_code w) (am_violations a)"
    unfolding a(1) by (rule violations_sorted)
  then have "successively (\<lambda>v w. violation_code v < violation_code w) (am_violations a)"
    by (metis successively_if_sorted_wrt)
  then have "successively (\<lambda>v w. violation_code v \<le> violation_code w) (am_violations a)" "successively (\<noteq>) (am_violations a)"
    by (auto elim!: successively_mono)
  moreover have "valid_violation v" for v by (cases v) (simp_all add: valid_violation_def)
  moreover have "valid_sha256 (dp_id (rd_profile r))" "valid_sha256 (ps_id (rd_approvals r))"
    using r by (simp_all add: reviewed_valid_def deployment_profile_valid_def valid_deployment_profile_approval_set_def)
  moreover have "valid_sha256 (am_id a)"
    unfolding a(7) by (simp add: deployment_profile_assessment_identity_def)
  moreover have "valid_sha256 (deployment_runtime_snapshot_identity s)"
    by (simp add: deployment_runtime_snapshot_identity_def)
  ultimately show "assessment_valid a"
    using a by (simp add: assessment_valid_def list_all_iff)
qed

lemma violations_in_order:
  assumes "assess_snapshot r s = Inr a"
  shows "successively (\<lambda>v w. violation_code v < violation_code w) (am_violations a)"
    "am_status a = Conformant \<longleftrightarrow> am_violations a = []"
proof -
  have "am_violations a = violations_of (rd_profile r) s" "am_status a = (if am_violations a = [] then Conformant else Nonconformant)"
    using assms by (auto simp: assess_snapshot_def Let_def failure_def split: if_splits)
  then show "successively (\<lambda>v w. violation_code v < violation_code w) (am_violations a)"
    "am_status a = Conformant \<longleftrightarrow> am_violations a = []"
    using violations_sorted by (auto intro: successively_if_sorted_wrt)
qed

lemma no_violations: "(\<And>v. \<not> violated p s v) \<Longrightarrow> violations_of p s = []"
  by (simp add: violations_filter)

section \<open>Anchors\<close>

text \<open>A reviewed profile has an anchor at the checkpoint it was reviewed under.\<close>

lemma anchor_created:
  assumes "create_reviewed_profile c p s h t expected = Inr r"
  shows "\<exists>a. create_deployment_anchor c r h t expected = Inr a \<and> deployment_anchor_valid a \<and>
     da_profile a = dp_id p \<and> da_approval a = ps_id s \<and> da_trust_head a = rr_id (last (th_records h)) \<and>
     da_trust_bundle a = th_current h"
proof -
  note r = reviewed_created [OF assms]
  note v = verified_checkpoint [OF r(3)]
  have t: "trust_checkpoint_valid t" "valid_sha256 expected"
    using assms by (auto simp: create_reviewed_profile_def split: if_splits)
  have p: "dp_trust_root p = tc_root t" "dp_trust_checkpoint p = tc_id t" "dp_trust_bundle p = tc_head t"
      "dp_trust_sequence p = tc_sequence t"
    using assms by (auto simp: create_reviewed_profile_def result_simps split: if_splits)
  have h: "history_valid c h" "th_records h \<noteq> []" by (fact v(1) history_lengths(2) [OF v(1)])+
  have d: "valid_sha256 (dp_id p)" "valid_sha256 (ps_id s)" "deployment_profile_valid p"
    using r(2) by (simp_all add: r(1) reviewed_valid_def deployment_profile_valid_def valid_deployment_profile_approval_set_def)
  have tv: "valid_sha256 (tc_record t)" using t by (simp add: trust_checkpoint_valid_def)
  then show ?thesis
    using t h v(1-6) p r(2,3) d(1,2) d(3) [unfolded deployment_profile_valid_def] unfolding r(1)
    by (simp add: create_deployment_anchor_def Let_def deployment_anchor_valid_def
        deployment_transparency_anchor_identity_def deployment_anchor_json_def with_id_def)
qed

end
