(* ===== verification/Deployment_Example.thy ===== *)
theory Deployment_Example
  imports Deployment_Laws Trust_Example
begin

text \<open>
  A deployment profile bound to the checkpoint of the trust example, approved by both of its
  services, and the reviewed profile they make.
\<close>

section \<open>The profile\<close>

definition demo_profile :: deployment_profile where
  "demo_profile =
     (let p = \<lparr>dp_schema = 1, dp_id = [], dp_deployment = ''cell'', dp_robot = sha256 ''robot'',
               dp_controller = sha256 ''controller'', dp_platform = sha256 ''platform'', dp_runtime = sha256 ''runtime'',
               dp_trust_root = tb_id demo_root, dp_trust_checkpoint = tc_id demo_checkpoint,
               dp_trust_bundle = tb_id demo_root, dp_trust_sequence = 1,
               dp_constraints = \<lparr>cn_observation_age = 1000, cn_command_latency = 50, cn_control_period = 100,
                 cn_missed_cycles = 2, cn_monitor = True, cn_fail_closed = True, cn_authenticated = True\<rparr>,
               dp_policy = \<lparr>rv_minimum = 2, rv_distinct = True, rv_roles = [Safety, Controls]\<rparr>\<rparr>
      in p\<lparr>dp_id := deployment_profile_identity p\<rparr>)"

lemma demo_checkpoint_fields [simp]:
  "tc_root demo_checkpoint = tb_id demo_root" "tc_head demo_checkpoint = tb_id demo_root" "tc_sequence demo_checkpoint = 1"
  "trust_checkpoint_valid demo_checkpoint" "valid_sha256 (tc_id demo_checkpoint)"
  using assemble_checkpoint_accepts(3-6) [OF demo_checkpoint_assembled] by (simp_all add: trust_checkpoint_valid_def)

lemma demo_cell: "valid_text ''cell''"
  by code_simp

lemma demo_profile_fields [simp]:
  "dp_deployment demo_profile = ''cell''" "dp_robot demo_profile = sha256 ''robot''"
  "dp_controller demo_profile = sha256 ''controller''" "dp_platform demo_profile = sha256 ''platform''"
  "dp_runtime demo_profile = sha256 ''runtime''" "dp_trust_root demo_profile = tb_id demo_root"
  "dp_trust_checkpoint demo_profile = tc_id demo_checkpoint" "dp_trust_bundle demo_profile = tb_id demo_root"
  "dp_trust_sequence demo_profile = 1"
  "dp_constraints demo_profile = \<lparr>cn_observation_age = 1000, cn_command_latency = 50, cn_control_period = 100,
     cn_missed_cycles = 2, cn_monitor = True, cn_fail_closed = True, cn_authenticated = True\<rparr>"
  "dp_policy demo_profile = \<lparr>rv_minimum = 2, rv_distinct = True, rv_roles = [Safety, Controls]\<rparr>"
  by (simp_all add: demo_profile_def Let_def)

lemma identified_profile:
  "deployment_profile_valid (p\<lparr>dp_id := deployment_profile_identity p\<rparr>) \<longleftrightarrow>
     dp_schema p = 1 \<and> valid_text (dp_deployment p) \<and> valid_sha256 (dp_robot p) \<and> valid_sha256 (dp_controller p) \<and>
     valid_sha256 (dp_platform p) \<and> valid_sha256 (dp_runtime p) \<and> valid_sha256 (dp_trust_root p) \<and>
     valid_sha256 (dp_trust_checkpoint p) \<and> valid_sha256 (dp_trust_bundle p) \<and> dp_trust_sequence p > 0 \<and>
     valid_deployment_runtime_constraints (dp_constraints p) \<and> valid_deployment_review_policy (dp_policy p)"
  by (simp add: deployment_profile_valid_def)

lemma demo_profile_valid [simp]: "deployment_profile_valid demo_profile"
  unfolding demo_profile_def Let_def identified_profile
  by (simp add: demo_cell valid_deployment_runtime_constraints_def valid_deployment_review_policy_def less_eq_review_role_def
      kMaximumApprovals_def)

lemma demo_profile_id [simp]: "valid_sha256 (dp_id demo_profile)"
  using demo_profile_valid by (simp add: deployment_profile_valid_def)

section \<open>Approvals\<close>

definition demo_approval :: "string \<Rightarrow> review_role \<Rightarrow> profile_approval" where
  "demo_approval service role =
     projr (sign_deployment_profile_approval demo_signer demo_profile service (sk_id (demo_key service KeyActive 0)) role trust_secret)"

lemma demo_signing:
  assumes "valid_text s"
  shows "verify_signing_key demo_signer s (sk_id (demo_key s KeyActive 0)) trust_secret = Inr ()"
proof -
  let ?k = "\<lparr>sk_id = [], sk_service = s, sk_algorithm = Ed25519, sk_public = replicate 32 1, sk_from = 1,
      sk_through = 0, sk_state = KeyPending, sk_fetch = True, sk_publish = True, sk_rotate = False\<rparr>"
  have i: "service_public_key_identity (?k\<lparr>sk_id := x\<rparr>) = sk_id (demo_key s KeyActive 0)" for x
    by (simp add: demo_key_id [of s KeyActive 0 KeyActive 0] cong: key_identity_cong)
      (rule key_identity_cong; simp)
  then have "valid_service_public_key (?k\<lparr>sk_id := sk_id (demo_key s KeyActive 0)\<rparr>)"
    using assms by (simp add: valid_service_public_key_def valid_key_state_def)
  then show ?thesis
    using assms i [of "[]"]
    by (simp add: verify_signing_key_def make_service_public_key_def demo_signer_def trust_secret_def
        ed25519_key_pair_from_seed_def
        kEd25519SecretKeyBytes_def kEd25519SeedBytes_def kEd25519PublicKeyBytes_def valid_key_state_def Let_def)
qed

lemma demo_ed25519_sign: "ed25519_sign demo_signer m trust_secret = Inr (replicate 64 0)"
  by (simp add: ed25519_sign_def demo_signer_def trust_secret_def kEd25519SecretKeyBytes_def)

lemma demo_approval_signed:
  assumes "valid_text s"
  shows "sign_deployment_profile_approval demo_signer demo_profile s (sk_id (demo_key s KeyActive 0)) r trust_secret =
     Inr (demo_approval s r)"
proof -
  have "\<exists>a. sign_deployment_profile_approval demo_signer demo_profile s (sk_id (demo_key s KeyActive 0)) r trust_secret = Inr a"
    by (simp add: sign_deployment_profile_approval_def demo_signing [OF assms] demo_ed25519_sign Let_def)
  then show ?thesis by (auto simp: demo_approval_def)
qed

lemma demo_approval_valid:
  assumes "valid_text s"
  shows "valid_deployment_profile_approval (demo_approval s r)" "pa_profile (demo_approval s r) = dp_id demo_profile"
    "pa_service (demo_approval s r) = s" "pa_key (demo_approval s r) = sk_id (demo_key s KeyActive 0)"
    "pa_role (demo_approval s r) = r"
proof -
  have "length (ed_sign demo_signer trust_secret m) = 64" for m by (simp add: demo_signer_def)
  note a = signed_approval [OF demo_approval_signed [OF assms] this]
  show "valid_deployment_profile_approval (demo_approval s r)" "pa_profile (demo_approval s r) = dp_id demo_profile"
    "pa_service (demo_approval s r) = s" "pa_key (demo_approval s r) = sk_id (demo_key s KeyActive 0)"
    "pa_role (demo_approval s r) = r" using a(1-4) by (simp_all add: profile_signer_def)
qed

lemmas demo_approvals = demo_approval_valid [OF demo_service_texts(1), of Safety] demo_approval_valid [OF demo_service_texts(2), of Controls]

lemma demo_trusted_key:
  assumes "s = ''alpha'' \<or> s = ''beta''"
  shows "trusted_service_public_key demo_root s (sk_id (demo_key s KeyActive 0)) Publish 1 = Inr (demo_key s KeyActive 0)"
  using assms demo_service_texts demo_bundles_valid by (auto simp: trusted_key_iff find_key_def)

lemma demo_approval_verifies:
  assumes "s = ''alpha'' \<or> s = ''beta''"
  shows "verify_profile_approval demo_signer demo_root 1 (demo_approval s r) = Inr ()"
proof -
  have s: "valid_text s" using assms demo_service_texts by auto
  have "pa_tag (demo_approval s r) = encode_hex (ed_sign demo_signer trust_secret (deployment_profile_approval_message (demo_approval s r)))"
    by (rule signed_approval(5) [OF demo_approval_signed [OF s]]) (simp add: demo_signer_def)
  then show ?thesis
    using profile_approvals.signed [of demo_root "demo_approval s r" 1 "demo_key s KeyActive 0" demo_signer trust_secret]
      demo_trusted_key [OF assms] trust_secret_honest
    by (simp add: demo_approval_valid [OF s])
qed

definition demo_profile_set :: profile_approval_set where
  "demo_profile_set =
     (let s = \<lparr>ps_id = [], ps_profile = dp_id demo_profile,
               ps_approvals = [demo_approval ''alpha'' Safety, demo_approval ''beta'' Controls]\<rparr>
      in s\<lparr>ps_id := deployment_profile_approval_set_identity s\<rparr>)"

lemma demo_profile_set_fields [simp]:
  "ps_profile demo_profile_set = dp_id demo_profile"
  "ps_approvals demo_profile_set = [demo_approval ''alpha'' Safety, demo_approval ''beta'' Controls]"
  by (simp_all add: demo_profile_set_def Let_def)

lemma identified_set:
  "ps_id (s\<lparr>ps_id := deployment_profile_approval_set_identity s\<rparr>) =
     deployment_profile_approval_set_identity (s\<lparr>ps_id := deployment_profile_approval_set_identity s\<rparr>)"
  by simp

lemma demo_profile_set_valid [simp]: "valid_deployment_profile_approval_set demo_profile_set"
proof -
  have "ps_id demo_profile_set = deployment_profile_approval_set_identity demo_profile_set"
    unfolding demo_profile_set_def Let_def by (rule identified_set)
  then show ?thesis
    using approval_set_identity_update(2) [of demo_profile_set]
    by (simp add: valid_deployment_profile_approval_set_def demo_approvals approval_less_def approval_order_def
        less_prod_def' demo_service_order kMaximumApprovals_def not_less_iff_gr_or_eq)
qed

section \<open>The reviewed profile\<close>

definition demo_reviewed :: reviewed_profile where
  "demo_reviewed = \<lparr>rd_profile = demo_profile, rd_approvals = demo_profile_set\<rparr>"

lemma demo_reviewed_fields [simp]: "rd_profile demo_reviewed = demo_profile" "rd_approvals demo_reviewed = demo_profile_set"
  by (simp_all add: demo_reviewed_def)

lemma demo_reviewed_valid [simp]: "reviewed_valid demo_reviewed"
  by (simp add: reviewed_valid_def)

lemma demo_policy:
  "validate_profile_approval_policy demo_profile (ps_approvals demo_profile_set) = Inr ()"
  by (simp add: profile_policy_iff satisfies_review_def demo_approvals)

lemma demo_bundle_found: "history_bundle demo_signer demo_trust (tb_id demo_root) = Inr demo_root"
  by (simp add: history_bundle_def demo_history_valid)

lemma demo_checkpoint_verified: "verify_service_trust_checkpoint demo_signer demo_trust demo_checkpoint (tc_id demo_checkpoint) = Inr ()"
  by (rule assembled_checkpoint_verifies [OF demo_checkpoint_assembled])

lemma demo_reviewed_created:
  "create_reviewed_profile demo_signer demo_profile demo_profile_set demo_trust demo_checkpoint (tc_id demo_checkpoint) =
     Inr demo_reviewed"
  using demo_approval_verifies [of "''alpha''" Safety] demo_approval_verifies [of "''beta''" Controls] demo_policy
  by (simp add: create_reviewed_profile_def demo_history_valid demo_checkpoint_verified demo_bundle_found
      verify_deployment_profile_approvals_def demo_bundles_valid demo_reviewed_def)

section \<open>Snapshots\<close>

definition demo_runtime :: "u64 \<Rightarrow> runtime_snapshot" where
  "demo_runtime age = \<lparr>rs_deployment = ''cell'', rs_robot = sha256 ''robot'', rs_controller = sha256 ''controller'',
     rs_platform = sha256 ''platform'', rs_runtime = sha256 ''runtime'', rs_observation_age = age, rs_command_latency = 40,
     rs_control_period = 100, rs_missed_cycles = 0, rs_monitor_active = True, rs_fail_closed = True, rs_authenticated = True\<rparr>"

lemma demo_runtime_valid: "valid_deployment_runtime_snapshot (demo_runtime age)"
  by (simp add: demo_runtime_def valid_deployment_runtime_snapshot_def demo_cell)

end
