(* ===== verification/Deployment_File.thy ===== *)
theory Deployment_File
  imports Deployment_Laws Trust_Record_Laws
begin

text \<open>
  \<^verbatim>\<open>src/deployment_persistence.cpp\<close>: the file of a reviewed deployment profile. Loading decodes the
  profile and its approvals and reviews them again under the trust history and the checkpoint.
\<close>

section \<open>Writing\<close>

definition profile_storage_json :: "deployment_profile \<Rightarrow> json" where
  "profile_storage_json p = json_object
     [(''controller_digest'', JStr (dp_controller p)), (''deployment_id'', JStr (dp_deployment p)),
      (''id'', JStr (dp_id p)), (''platform_digest'', JStr (dp_platform p)),
      (''review_policy'', review_policy_json (dp_policy p)), (''robot_digest'', JStr (dp_robot p)),
      (''runtime_constraints'', runtime_constraints_json (dp_constraints p)),
      (''runtime_digest'', JStr (dp_runtime p)), (''storage_schema'', json_int (unat (dp_schema p))),
      (''trust_bundle_id'', JStr (dp_trust_bundle p)),
      (''trust_bundle_sequence'', JStr (to_string (dp_trust_sequence p))),
      (''trust_checkpoint_id'', JStr (dp_trust_checkpoint p)), (''trust_root_bundle_id'', JStr (dp_trust_root p))]"

definition profile_approval_json :: "profile_approval \<Rightarrow> json" where
  "profile_approval_json a = json_object
     [(''algorithm'', json_int (algorithm_code (pa_algorithm a))), (''authentication_tag'', JStr (pa_tag a)),
      (''id'', JStr (pa_id a)), (''profile_id'', JStr (pa_profile a)),
      (''role'', json_int (review_role_code (pa_role a))), (''signer_key_id'', JStr (pa_key a)),
      (''signer_service_id'', JStr (pa_service a))]"

definition approval_set_json :: "profile_approval_set \<Rightarrow> json" where
  "approval_set_json s = json_object
     [(''approvals'', JArr (map profile_approval_json (ps_approvals s))), (''id'', JStr (ps_id s)),
      (''profile_id'', JStr (ps_profile s))]"

definition reviewed_json :: "string \<Rightarrow> reviewed_profile \<Rightarrow> json" where
  "reviewed_json version r = json_object
     [(''approval_set'', approval_set_json (rd_approvals r)),
      (''format'', JStr ''rbfsafe-reviewed-deployment-profile''), (''library_version'', JStr version),
      (''profile'', profile_storage_json (rd_profile r)), (''schema'', json_int 1)]"

text \<open>
  What is at a path. \<open>symlink_status\<close> reports an error for a path that does not exist, so a missing
  file that must exist fails the inspection; \<open>readable\<close> says whether the status can be read.
\<close>

datatype file_kind = Missing | Special | Regular string

definition inspect_regular_file :: "bool \<Rightarrow> bool \<Rightarrow> nat option \<Rightarrow> file_kind \<Rightarrow> unit result" where
  "inspect_regular_file readable must_exist maximum f =
     (if \<not> readable then failure IoError ''failed to inspect reviewed deployment profile'' []
      else (case f of
          Missing \<Rightarrow> if must_exist then failure IoError ''failed to inspect reviewed deployment profile'' [] else Inr ()
        | Special \<Rightarrow> failure IoError ''reviewed deployment profile must be a regular file'' []
        | Regular text \<Rightarrow> (case maximum of
              None \<Rightarrow> Inr ()
            | Some n \<Rightarrow> if length text > n
                then failure ResourceLimit ''reviewed deployment profile exceeds byte limit'' [] else Inr ())))"

definition profile_messages :: save_messages where
  "profile_messages = \<lparr>sv_inspect = ''failed to inspect reviewed deployment profile destination'',
     sv_exists = ''reviewed deployment profile destination already exists'',
     sv_parent = ''failed to create reviewed deployment profile parent'',
     sv_stage = ''failed to stage existing reviewed deployment profile'',
     sv_publish = ''failed to publish reviewed deployment profile''\<rparr>"

fun file_text :: "file_kind \<Rightarrow> string option" where
  "file_text (Regular text) = Some text"
| "file_text f = None"

fun file_with :: "string option \<Rightarrow> file_kind" where
  "file_with None = Missing"
| "file_with (Some text) = Regular text"

definition save_reviewed_deployment_profile ::
  "string \<Rightarrow> bool \<Rightarrow> (file_step \<Rightarrow> error option) \<Rightarrow> reviewed_profile \<Rightarrow> string \<Rightarrow> bool \<Rightarrow> file_kind \<Rightarrow> unit result \<times> file_kind" where
  "save_reviewed_deployment_profile version readable io r path overwrite f =
     (if \<not> reviewed_valid r \<or> no_specific_directory path
      then (failure InvalidArgument ''reviewed deployment profile or destination is invalid'' [], f)
      else (case inspect_regular_file readable False None f of
          Inl e \<Rightarrow> (Inl e, f)
        | Inr _ \<Rightarrow> (case save_document profile_messages io (document_text (reviewed_json version r)) path overwrite (file_text f) of
              (res, left) \<Rightarrow> (res, file_with left))))"

section \<open>Fields\<close>

abbreviation "review_string \<equiv> string_field ''reviewed deployment profile record is not an object''
  ''reviewed deployment profile string field is invalid'' 4096 False"
abbreviation "review_bool \<equiv> bool_field ''reviewed deployment profile record is not an object''
  ''reviewed deployment profile boolean field is invalid''"

definition review_number :: "json \<Rightarrow> string \<Rightarrow> f64 result" where
  "review_number j k =
     (if \<not> is_object j then failure CorruptData ''reviewed deployment profile record is not an object'' []
      else (case json_find j k of
          Some (JNum v) \<Rightarrow>
            (if \<not> isfinite v then failure CorruptData ''reviewed deployment profile number field is invalid'' k else Inr v)
        | _ \<Rightarrow> failure CorruptData ''reviewed deployment profile number field is invalid'' k))"

definition review_decimal :: "json \<Rightarrow> string \<Rightarrow> u64 result" where
  "review_decimal j k = rbind (review_string j k) (decimal_of ''reviewed deployment profile decimal field is invalid'' k)"

definition review_integer :: "json \<Rightarrow> string \<Rightarrow> nat \<Rightarrow> nat result" where
  "review_integer j k maximum =
     (let bad = failure CorruptData ''reviewed deployment profile integer field is invalid'' k in
      or_fail (review_number j k) bad (\<lambda>v.
        if f64_lt v f64_zero \<or> \<not> is_whole v \<or> f64_lt (f64_of_nat maximum) v then bad else Inr (Json_Fields.truncate v)))"

section \<open>Decoding\<close>

record review_options =
  ro_approvals :: nat
  ro_roles :: nat
  ro_payload :: nat

definition default_review_options :: review_options where
  "default_review_options = \<lparr>ro_approvals = 100000, ro_roles = 32, ro_payload = 4194304\<rparr>"

definition decode_runtime_constraints :: "json \<Rightarrow> runtime_constraints result" where
  "decode_runtime_constraints j =
     (let bad = failure CorruptData ''deployment runtime constraints are incomplete'' [] in
      or_fail (review_decimal j ''maximum_observation_age_ns'') bad (\<lambda>age.
      or_fail (review_decimal j ''maximum_command_latency_ns'') bad (\<lambda>latency.
      or_fail (review_decimal j ''maximum_control_period_ns'') bad (\<lambda>period.
      or_fail (review_integer j ''maximum_consecutive_missed_cycles'' (2 ^ 32 - 1)) bad (\<lambda>missed.
      or_fail (review_bool j ''require_runtime_monitor'') bad (\<lambda>monitor.
      or_fail (review_bool j ''require_fail_closed_transport'') bad (\<lambda>transport.
      or_fail (review_bool j ''require_authenticated_artifacts'') bad (\<lambda>authenticated.
        let r = \<lparr>cn_observation_age = age, cn_command_latency = latency, cn_control_period = period,
                 cn_missed_cycles = of_nat missed, cn_monitor = monitor, cn_fail_closed = transport,
                 cn_authenticated = authenticated\<rparr>
        in if \<not> valid_deployment_runtime_constraints r
           then failure CorruptData ''deployment runtime constraints are invalid'' [] else Inr r))))))))"

definition review_role_of :: "nat \<Rightarrow> review_role" where
  "review_role_of n = [Safety, Controls, Operations, Security] ! n"

definition decode_role :: "json \<Rightarrow> review_role result" where
  "decode_role j =
     (case j of
        JNum v \<Rightarrow>
          (if \<not> isfinite v \<or> f64_lt v f64_zero \<or> \<not> is_whole v \<or> f64_lt (f64_of_nat (review_role_code Security)) v
           then failure CorruptData ''deployment review role is invalid'' [] else Inr (review_role_of (Json_Fields.truncate v)))
      | _ \<Rightarrow> failure CorruptData ''deployment review role is invalid'' [])"

definition decode_review_policy :: "review_options \<Rightarrow> json \<Rightarrow> review_policy result" where
  "decode_review_policy opts j =
     (let bad = failure CorruptData ''deployment review policy is incomplete'' [] in
      or_fail (review_integer j ''minimum_approvals'' 100000) bad (\<lambda>minimum.
      or_fail (review_bool j ''require_distinct_services'') bad (\<lambda>distinct.
        case json_find j ''required_roles'' of
          Some (JArr roles_json) \<Rightarrow>
            (if length roles_json > ro_roles opts
             then failure ResourceLimit ''deployment review role count exceeds configured limit'' []
             else rbind (decode_all decode_role roles_json) (\<lambda>roles.
               let p = \<lparr>rv_minimum = of_nat minimum, rv_distinct = distinct, rv_roles = roles\<rparr>
               in if \<not> valid_deployment_review_policy p
                  then failure CorruptData ''deployment review policy is invalid'' [] else Inr p))
        | _ \<Rightarrow> bad)))"

definition decode_profile :: "review_options \<Rightarrow> json \<Rightarrow> deployment_profile result" where
  "decode_profile opts j =
     (let bad = failure CorruptData ''deployment profile is incomplete'' [];
          mismatch = failure CorruptData ''deployment profile identity is invalid'' [] in
      or_fail (review_string j ''id'') bad (\<lambda>i.
      or_fail (review_integer j ''storage_schema'' 1) bad (\<lambda>schema.
      or_fail (review_string j ''deployment_id'') bad (\<lambda>deployment.
      or_fail (review_string j ''robot_digest'') bad (\<lambda>robot.
      or_fail (review_string j ''controller_digest'') bad (\<lambda>controller.
      or_fail (review_string j ''platform_digest'') bad (\<lambda>platform.
      or_fail (review_string j ''runtime_digest'') bad (\<lambda>runtime.
      or_fail (review_string j ''trust_root_bundle_id'') bad (\<lambda>root.
      or_fail (review_string j ''trust_checkpoint_id'') bad (\<lambda>checkpoint.
      or_fail (review_string j ''trust_bundle_id'') bad (\<lambda>bundle.
      or_fail (review_decimal j ''trust_bundle_sequence'') bad (\<lambda>seq.
        case (json_find j ''runtime_constraints'', json_find j ''review_policy'') of
          (Some constraints_json, Some policy_json) \<Rightarrow>
            rbind (decode_runtime_constraints constraints_json) (\<lambda>constraints.
            rbind (decode_review_policy opts policy_json) (\<lambda>policy.
            or_fail (create_deployment_profile \<lparr>pi_deployment = deployment, pi_robot = robot, pi_controller = controller,
                pi_platform = platform, pi_runtime = runtime, pi_trust_root = root, pi_trust_checkpoint = checkpoint,
                pi_trust_bundle = bundle, pi_trust_sequence = seq, pi_constraints = constraints, pi_policy = policy\<rparr>)
              mismatch (\<lambda>p. if unat (dp_schema p) \<noteq> schema \<or> dp_id p \<noteq> i then mismatch else Inr p)))
        | _ \<Rightarrow> bad))))))))))))"

definition decode_profile_approval :: "json \<Rightarrow> profile_approval result" where
  "decode_profile_approval j =
     (let bad = failure CorruptData ''deployment profile approval is incomplete'' [] in
      or_fail (review_string j ''id'') bad (\<lambda>i.
      or_fail (review_string j ''profile_id'') bad (\<lambda>profile.
      or_fail (review_string j ''signer_service_id'') bad (\<lambda>service.
      or_fail (review_string j ''signer_key_id'') bad (\<lambda>key_id.
      or_fail (review_integer j ''role'' (review_role_code Security)) bad (\<lambda>role.
      or_fail (review_integer j ''algorithm'' (algorithm_code Ed25519)) bad (\<lambda>a.
      or_fail (review_string j ''authentication_tag'') bad (\<lambda>tag.
        let r = \<lparr>pa_id = i, pa_profile = profile, pa_service = service, pa_key = key_id, pa_role = review_role_of role,
                 pa_algorithm = algorithm_of a, pa_tag = tag\<rparr>
        in if \<not> valid_deployment_profile_approval r
           then failure CorruptData ''deployment profile approval identity is invalid'' [] else Inr r))))))))"

definition decode_approval_set :: "review_options \<Rightarrow> deployment_profile \<Rightarrow> json \<Rightarrow> profile_approval_set result" where
  "decode_approval_set opts p j =
     (let bad = failure CorruptData ''deployment profile approval set is incomplete'' [];
          mismatch = failure CorruptData ''deployment profile approval-set identity is invalid'' [] in
      or_fail (review_string j ''id'') bad (\<lambda>i.
      or_fail (review_string j ''profile_id'') bad (\<lambda>profile.
        case json_find j ''approvals'' of
          Some (JArr approvals_json) \<Rightarrow>
            (if approvals_json = [] \<or> length approvals_json > ro_approvals opts
             then failure ResourceLimit ''deployment approval count exceeds configured limit'' []
             else rbind (decode_all decode_profile_approval approvals_json) (\<lambda>as.
               or_fail (assemble_deployment_profile_approvals p as) mismatch (\<lambda>s.
                 if ps_id s \<noteq> i \<or> ps_profile s \<noteq> profile then mismatch else Inr s)))
        | _ \<Rightarrow> bad)))"

definition load_reviewed_deployment_profile ::
  "ed25519 \<Rightarrow> review_options \<Rightarrow> bool \<Rightarrow> string \<Rightarrow> trust_history \<Rightarrow> trust_checkpoint \<Rightarrow> string \<Rightarrow> file_kind \<Rightarrow>
     reviewed_profile result" where
  "load_reviewed_deployment_profile c opts readable path h t expected f =
     (if path = [] \<or> \<not> history_valid c h \<or> \<not> trust_checkpoint_valid t \<or> expected = [] \<or> ro_approvals opts = 0 \<or>
         ro_roles opts = 0 \<or> ro_payload opts = 0
      then failure InvalidArgument ''reviewed deployment profile load input is invalid'' []
      else rbind (inspect_regular_file readable True (Some (ro_payload opts)) f) (\<lambda>_.
        rbind (read_json_file path (map_option (\<lambda>text. (text, True)) (file_text f))) (\<lambda>j.
          let bad = failure CorruptData ''reviewed deployment profile document is incomplete'' [] in
          or_fail (review_string j ''format'') bad (\<lambda>format.
          or_fail (review_number j ''schema'') bad (\<lambda>schema.
          or_fail (review_string j ''library_version'') bad (\<lambda>_.
            case (json_find j ''profile'', json_find j ''approval_set'') of
              (Some profile_json, Some set_json) \<Rightarrow>
                (if format \<noteq> ''rbfsafe-reviewed-deployment-profile'' \<or> \<not> f64_eq schema (f64_of_nat 1)
                 then failure IncompatibleFormat ''unsupported reviewed deployment profile schema'' []
                 else rbind (decode_profile opts profile_json) (\<lambda>p.
                   rbind (decode_approval_set opts p set_json) (\<lambda>s.
                     case create_reviewed_profile c p s h t expected of
                       Inl e \<Rightarrow> (if code e = InvalidArgument
                          then failure CorruptData ''reviewed deployment profile structure is invalid'' [] else Inl e)
                     | Inr r \<Rightarrow> Inr r)))
            | _ \<Rightarrow> bad))))))"

end
