(* ===== verification/Deployment_File_Laws.thy ===== *)
theory Deployment_File_Laws
  imports Deployment_File
begin

text \<open>
  A reviewed profile is loaded back from its file under the trust history it was reviewed with,
  and whatever a file holds, a profile that loads was reviewed under the given checkpoint.
\<close>

section \<open>Fields\<close>

lemma review_number_written [field_simps_of]:
  "map_of kvs k = Some (JNum v) \<Longrightarrow> isfinite v \<Longrightarrow> review_number (json_object kvs) k = Inr v"
  by (simp add: review_number_def)

lemma review_integer_eq:
  "review_integer j k maximum = or_fail (integer_field ''reviewed deployment profile record is not an object''
     ''reviewed deployment profile number field is invalid'' j k maximum)
     (failure CorruptData ''reviewed deployment profile integer field is invalid'' k) Inr"
  by (cases "json_find j k") (auto simp: review_integer_def review_number_def integer_field_def Let_def split: json.split)

lemma review_integer_written [field_simps_of]:
  "map_of kvs k = Some (json_int n) \<Longrightarrow> n \<le> maximum \<Longrightarrow> maximum < 2 * hidden_bit \<Longrightarrow>
     review_integer (json_object kvs) k maximum = Inr n"
  by (simp add: review_integer_eq integer_field_int)

lemma review_decimal_written [field_simps_of]:
  "map_of kvs k = Some (JStr (to_string n)) \<Longrightarrow> review_decimal (json_object kvs) k = Inr n"
  using length_to_string [of n] by (simp add: review_decimal_def string_field_written)

lemma digest_4096: "valid_sha256 s \<Longrightarrow> s \<noteq> [] \<and> length s \<le> 4096"
  using digest_64 [of s] by simp

lemma text_4096: "valid_text s \<Longrightarrow> s \<noteq> [] \<and> length s \<le> 4096"
  using identifier_256 [of s] by simp

lemma tag_4096: "is_hex_tag t kEd25519SignatureBytes \<Longrightarrow> t \<noteq> [] \<and> length t \<le> 4096"
  by (auto simp: is_hex_tag_def kEd25519SignatureBytes_def)

lemma review_role_round_trip [simp]:
  "review_role_of (review_role_code r) = r" "review_role_code r \<le> 3" "review_role_code r \<le> review_role_code Security"
  by ((cases r; simp add: review_role_of_def), (cases r; simp), (cases r; simp))

lemma review_eta [simp]:
  "\<lparr>cn_observation_age = cn_observation_age r, cn_command_latency = cn_command_latency r,
     cn_control_period = cn_control_period r, cn_missed_cycles = cn_missed_cycles r, cn_monitor = cn_monitor r,
     cn_fail_closed = cn_fail_closed r, cn_authenticated = cn_authenticated r\<rparr> = r"
  "\<lparr>rv_minimum = rv_minimum p, rv_distinct = rv_distinct p, rv_roles = rv_roles p\<rparr> = p"
  "\<lparr>pa_id = pa_id a, pa_profile = pa_profile a, pa_service = pa_service a, pa_key = pa_key a, pa_role = pa_role a,
     pa_algorithm = pa_algorithm a, pa_tag = pa_tag a\<rparr> = a"
  by simp_all

lemma review_role_small [simp]: "review_role_code r < 1000"
  using review_role_round_trip(2) [of r] by linarith

section \<open>Profiles\<close>

lemma decode_constraints_written:
  assumes "valid_deployment_runtime_constraints r"
  shows "decode_runtime_constraints (runtime_constraints_json r) = Inr r"
proof -
  have "unat (cn_missed_cycles r) < 2 ^ 32" using unsigned_less [of "cn_missed_cycles r"] by simp
  then have "unat (cn_missed_cycles r) \<le> 2 ^ 32 - 1" by simp
  with assms show ?thesis
    unfolding decode_runtime_constraints_def runtime_constraints_json_def Let_def
    by (simp add: field_simps_of hidden_bit_def)
qed

lemma decode_role_written: "decode_role (json_int (review_role_code r)) = Inr r"
proof -
  have "integer_field [] [] (json_object [([], json_int (review_role_code r))]) [] (review_role_code Security) = Inr (review_role_code r)"
    by (rule integer_field_int) (simp_all add: hidden_bit_def)
  then show ?thesis
    by (auto simp: integer_field_def decode_role_def json_int_def failure_def split: if_splits)
qed

lemma remdups_adj_id: "successively (\<noteq>) xs \<Longrightarrow> remdups_adj xs = xs"
  by (induction xs rule: remdups_adj.induct) auto

lemma sort_unique_policy: "valid_deployment_review_policy p \<Longrightarrow> sort_unique (rv_roles p) = rv_roles p"
  by (simp add: valid_deployment_review_policy_def sort_unique_def sorted_sort_id remdups_adj_id)

lemma decode_review_policy_written:
  assumes "valid_deployment_review_policy p" "length (rv_roles p) \<le> ro_roles opts"
  shows "decode_review_policy opts (review_policy_json p) = Inr p"
proof -
  have "decode_all decode_role (map (\<lambda>r. json_int (review_role_code r)) (rv_roles p)) = Inr (rv_roles p)"
    by (rule decode_all_written) (simp add: decode_role_written)
  moreover have "unat (rv_minimum p) \<le> 100000"
    using assms(1) by (simp add: valid_deployment_review_policy_def kMaximumApprovals_def)
  ultimately show ?thesis using assms
    unfolding decode_review_policy_def review_policy_json_def Let_def
    by (simp add: field_simps_of hidden_bit_def)
qed

lemma create_valid_profile:
  assumes "deployment_profile_valid p"
  shows "create_deployment_profile \<lparr>pi_deployment = dp_deployment p, pi_robot = dp_robot p, pi_controller = dp_controller p,
     pi_platform = dp_platform p, pi_runtime = dp_runtime p, pi_trust_root = dp_trust_root p,
     pi_trust_checkpoint = dp_trust_checkpoint p, pi_trust_bundle = dp_trust_bundle p,
     pi_trust_sequence = dp_trust_sequence p, pi_constraints = dp_constraints p, pi_policy = dp_policy p\<rparr> = Inr p"
proof -
  have s: "dp_schema p = 1" "dp_id p = deployment_profile_identity p" "valid_deployment_review_policy (dp_policy p)"
    using assms unfolding deployment_profile_valid_def by blast+
  have policy: "(dp_policy p)\<lparr>rv_roles := sort_unique (rv_roles (dp_policy p))\<rparr> = dp_policy p"
    using sort_unique_policy [OF s(3)] by simp
  have e: "\<lparr>dp_schema = 1, dp_id = [], dp_deployment = dp_deployment p, dp_robot = dp_robot p, dp_controller = dp_controller p,
      dp_platform = dp_platform p, dp_runtime = dp_runtime p, dp_trust_root = dp_trust_root p,
      dp_trust_checkpoint = dp_trust_checkpoint p, dp_trust_bundle = dp_trust_bundle p,
      dp_trust_sequence = dp_trust_sequence p, dp_constraints = dp_constraints p, dp_policy = dp_policy p\<rparr> = p\<lparr>dp_id := []\<rparr>"
    using s(1) by (cases p) simp
  have whole: "p\<lparr>dp_id := deployment_profile_identity p\<rparr> = p" using s(2) by (cases p) simp
  show ?thesis
    unfolding create_deployment_profile_def Let_def profile_input.simps policy e profile_identity_update
    using assms whole by simp
qed

lemma decode_profile_written:
  assumes "deployment_profile_valid p" "length (rv_roles (dp_policy p)) \<le> ro_roles opts"
  shows "decode_profile opts (profile_storage_json p) = Inr p"
proof -
  note v = assms(1) [unfolded deployment_profile_valid_def]
  have ids: "valid_text (dp_deployment p)" "valid_sha256 (dp_robot p)" "valid_sha256 (dp_controller p)"
    "valid_sha256 (dp_platform p)" "valid_sha256 (dp_runtime p)" "valid_sha256 (dp_trust_root p)"
    "valid_sha256 (dp_trust_checkpoint p)" "valid_sha256 (dp_trust_bundle p)" "valid_sha256 (dp_id p)"
    using v by blast+
  have parts: "valid_deployment_runtime_constraints (dp_constraints p)" "valid_deployment_review_policy (dp_policy p)"
    "unat (dp_schema p) = 1" using v by simp_all
  show ?thesis
    unfolding decode_profile_def profile_storage_json_def Let_def
    using text_4096 [OF ids(1)] ids(2-9) [THEN digest_4096] parts(3)
    by (simp add: field_simps_of decode_constraints_written [OF parts(1)] decode_review_policy_written [OF parts(2) assms(2)]
        create_valid_profile [OF assms(1)])
qed

section \<open>Approvals\<close>

lemma decode_approval_written:
  assumes "valid_deployment_profile_approval a"
  shows "decode_profile_approval (profile_approval_json a) = Inr a"
proof -
  have v: "valid_sha256 (pa_id a)" "valid_sha256 (pa_profile a)" "valid_text (pa_service a)" "valid_sha256 (pa_key a)"
    "is_hex_tag (pa_tag a) kEd25519SignatureBytes"
    using assms unfolding valid_deployment_profile_approval_def by blast+
  show ?thesis
    unfolding decode_profile_approval_def profile_approval_json_def Let_def
    using v(1,2,4) [THEN digest_4096] text_4096 [OF v(3)] tag_4096 [OF v(5)] assms
    by (simp add: field_simps_of del: algorithm_code.simps review_role_code.simps
        cong: sum.case_cong)
qed

lemma assemble_valid_set:
  assumes "deployment_profile_valid p" "valid_deployment_profile_approval_set s" "ps_profile s = dp_id p"
    and "validate_profile_approval_policy p (ps_approvals s) = Inr ()"
  shows "assemble_deployment_profile_approvals p (ps_approvals s) = Inr s"
proof -
  have v: "ps_approvals s \<noteq> []" "length (ps_approvals s) \<le> kMaximumApprovals"
    "successively (\<lambda>a b. \<not> approval_less b a) (ps_approvals s)" "ps_id s = deployment_profile_approval_set_identity s"
    using assms(2) unfolding valid_deployment_profile_approval_set_def by blast+
  have "sorted_wrt (\<lambda>a b. \<not> approval_less b a) (ps_approvals s)"
    using v(3) by (subst (asm) successively_conv_sorted_wrt) (auto simp: approval_less_def transp_def)
  then have sorted: "sort_by approval_less (ps_approvals s) = ps_approvals s" by (rule sort_by_id)
  have e: "\<lparr>ps_id = [], ps_profile = dp_id p, ps_approvals = ps_approvals s\<rparr> = s\<lparr>ps_id := []\<rparr>"
    using assms(3) by (cases s) simp
  have whole: "s\<lparr>ps_id := deployment_profile_approval_set_identity s\<rparr> = s" using v(4) by (cases s) simp
  show ?thesis
    unfolding assemble_deployment_profile_approvals_def Let_def sorted e approval_set_identity_update
    using assms(1,2,4) v(1,2) whole by simp
qed

lemma decode_approval_set_written:
  assumes "deployment_profile_valid p" "valid_deployment_profile_approval_set s" "ps_profile s = dp_id p"
    and "validate_profile_approval_policy p (ps_approvals s) = Inr ()" "length (ps_approvals s) \<le> ro_approvals opts"
  shows "decode_approval_set opts p (approval_set_json s) = Inr s"
proof -
  have v: "valid_sha256 (ps_id s)" "valid_sha256 (ps_profile s)" "ps_approvals s \<noteq> []"
    "list_all valid_deployment_profile_approval (ps_approvals s)"
    using assms(2) unfolding valid_deployment_profile_approval_set_def by blast+
  have "decode_all decode_profile_approval (map profile_approval_json (ps_approvals s)) = Inr (ps_approvals s)"
    using v(4) by (intro decode_all_written) (simp add: list_all_iff decode_approval_written)
  then show ?thesis
    unfolding decode_approval_set_def approval_set_json_def Let_def
    using v(1,2) [THEN digest_4096] v(3) assms(5) assemble_valid_set [OF assms(1-4)]
    by (simp add: field_simps_of)
qed

section \<open>Files\<close>

lemma storable_profile:
  assumes "length (rv_roles (dp_policy p)) \<le> 10000000" "unat (dp_schema p) < 1000"
  shows "json_ok (Suc (Suc (Suc 60))) (profile_storage_json p)"
proof -
  have small: "unat w < 2 * hidden_bit" for w :: u32
    using unsigned_less [of w, where ?'a = nat] by (simp add: hidden_bit_def)
  have "json_ok (Suc (Suc 60)) (runtime_constraints_json (dp_constraints p))"
    unfolding runtime_constraints_json_def using small by (intro json_ok_object) simp
  moreover have "json_ok (Suc (Suc 60)) (review_policy_json (dp_policy p))"
    unfolding review_policy_json_def using small assms(1)
    by (intro json_ok_object) (simp add: items_ok_iff)
  ultimately show ?thesis
    unfolding profile_storage_json_def using assms(2) by (intro json_ok_object) simp
qed

lemma storable_approval_set:
  assumes "length (ps_approvals s) \<le> 10000000"
  shows "json_ok (Suc (Suc (Suc 60))) (approval_set_json s)"
proof -
  have "json_ok (Suc 60) (profile_approval_json a)" for a
    unfolding profile_approval_json_def by (intro json_ok_object) simp
  then show ?thesis
    unfolding approval_set_json_def using assms by (intro json_ok_object) (simp add: items_ok_iff)
qed

definition reviewed_loadable :: "review_options \<Rightarrow> string \<Rightarrow> reviewed_profile \<Rightarrow> bool" where
  "reviewed_loadable opts version r \<longleftrightarrow> version \<noteq> [] \<and> length version \<le> 4096 \<and>
     length (ps_approvals (rd_approvals r)) \<le> ro_approvals opts \<and> 0 < ro_roles opts \<and>
     length (rv_roles (dp_policy (rd_profile r))) \<le> min (ro_roles opts) 10000000 \<and>
     length (document_text (reviewed_json version r)) \<le> min (ro_payload opts) json_file_limit"

lemma reviewed_loads:
  assumes "create_reviewed_profile c p s h t expected = Inr r" and "reviewed_loadable opts version r" and "path \<noteq> []"
  shows "load_reviewed_deployment_profile c opts True path h t expected (Regular (document_text (reviewed_json version r))) = Inr r"
proof -
  note c = reviewed_created [OF assms(1)]
  have r: "rd_profile r = p" "rd_approvals r = s" by (simp_all add: c(1))
  have d: "deployment_profile_valid p" "valid_deployment_profile_approval_set s" "ps_profile s = dp_id p"
    using c(2) by (simp_all add: reviewed_valid_def r)
  have g: "history_valid c h" "trust_checkpoint_valid t" "valid_sha256 expected"
    using assms(1) by (auto simp: create_reviewed_profile_def split: if_splits)
  have policy: "validate_profile_approval_policy p (ps_approvals s) = Inr ()"
    using c(8) by (simp add: profile_policy_iff reviewed_under_def)
  have small: "length (rv_roles (dp_policy p)) \<le> 10000000" "unat (dp_schema p) < 1000" "length (ps_approvals s) \<le> 10000000"
    using assms(2) d(1,2) by (simp_all add: reviewed_loadable_def r deployment_profile_valid_def
        valid_deployment_profile_approval_set_def kMaximumApprovals_def)
  have "json_ok 63 (profile_storage_json p)" "json_ok 63 (approval_set_json s)"
    using storable_profile [OF small(1,2)] storable_approval_set [OF small(3)] by simp_all
  then have "json_ok (Suc 63) (reviewed_json version r)"
    unfolding reviewed_json_def r by (intro json_ok_object) simp
  then have "storable (reviewed_json version r)" by (simp add: storable_def eval_nat_numeral)
  then have j: "json_parse (document_text (reviewed_json version r)) = Inr (reviewed_json version r)"
    using parse_written by (simp add: document_text_def)
  have one: "isfinite (f64_of_nat 1)" "f64_eq (f64_of_nat 1) (f64_of_nat 1)"
    using f64_of_nat_exact(1) [of 1] by (simp_all add: hidden_bit_def f64_eq_def isfinite_def isnan_def)
  have fields: "review_string (reviewed_json version r) ''format'' = Inr ''rbfsafe-reviewed-deployment-profile''"
    "review_number (reviewed_json version r) ''schema'' = Inr (f64_of_nat 1)"
    "review_string (reviewed_json version r) ''library_version'' = Inr version"
    "json_find (reviewed_json version r) ''profile'' = Some (profile_storage_json p)"
    "json_find (reviewed_json version r) ''approval_set'' = Some (approval_set_json s)"
    unfolding reviewed_json_def r using assms(2) one(1)
    by (simp_all add: field_simps_of json_int_def reviewed_loadable_def)
  have "0 < length (ps_approvals s)" using d(2) by (simp add: valid_deployment_profile_approval_set_def)
  then have limits: "0 < ro_approvals opts" "0 < ro_payload opts" "expected \<noteq> []"
    using assms(2) g(3) by (auto simp: reviewed_loadable_def r document_text_def simp del: length_greater_0_conv)
  have decoded: "decode_profile opts (profile_storage_json p) = Inr p"
    "decode_approval_set opts p (approval_set_json s) = Inr s"
    using assms(2) decode_profile_written [OF d(1)] decode_approval_set_written [OF d policy]
    by (simp_all add: reviewed_loadable_def r)
  show ?thesis
    using assms(1,2,3) g(1,2) limits
    by (simp add: load_reviewed_deployment_profile_def inspect_regular_file_def read_json_file_def j fields decoded one
        Let_def reviewed_loadable_def)
qed

lemma or_fail_failure_Inr: "or_fail q (failure a m x) f = Inr y \<longleftrightarrow> (\<exists>z. q = Inr z \<and> f z = Inr y)"
  by (cases q) (simp_all add: failure_def)

lemma failure_not_Inr: "failure a m x = Inr y \<longleftrightarrow> False"
  by (simp add: failure_def)

lemma loaded_reviewed:
  assumes "load_reviewed_deployment_profile c opts readable path h t expected f = Inr r"
  shows "create_reviewed_profile c (rd_profile r) (rd_approvals r) h t expected = Inr r"
proof -
  obtain p s where "(case create_reviewed_profile c p s h t expected of
      Inl e \<Rightarrow> if code e = InvalidArgument
        then failure CorruptData ''reviewed deployment profile structure is invalid'' [] else Inl e
    | Inr r \<Rightarrow> Inr r) = Inr r"
    using assms unfolding load_reviewed_deployment_profile_def Let_def
    by (clarsimp simp: rbind_eq_Inr or_fail_failure_Inr failure_not_Inr split: if_split_asm)
      (auto simp: rbind_eq_Inr failure_not_Inr split: option.split_asm if_split_asm)
  then have "create_reviewed_profile c p s h t expected = Inr r"
    by (simp add: failure_def split: sum.split_asm if_split_asm)
  moreover from reviewed_created(1) [OF this] have "rd_profile r = p" "rd_approvals r = s" by simp_all
  ultimately show ?thesis by simp
qed

end
