(* ===== verification/Review_Example.thy ===== *)
theory Review_Example
  imports Deployment_Example Deployment_File_Laws
begin

text \<open>The file of the example's reviewed profile, short enough for every limit of its loader.\<close>

definition demo_review_file :: string where
  "demo_review_file = document_text (reviewed_json ''1.0'' demo_reviewed)"

lemma profile_approval_bound:
  assumes "valid_deployment_profile_approval a"
  shows "short_numbers (profile_approval_json a)" "text_bound d (profile_approval_json a) \<le> 5000 + 30 * d"
proof -
  have v: "valid_sha256 (pa_id a)" "valid_sha256 (pa_profile a)" "valid_sha256 (pa_key a)" "valid_text (pa_service a)"
    "length (pa_tag a) = 128"
    using assms by (simp_all add: valid_deployment_profile_approval_def is_hex_tag_def kEd25519SignatureBytes_def)
  note l = valid_sha256_length [OF v(1)] valid_sha256_length [OF v(2)] valid_sha256_length [OF v(3)]
  have n: "short_numbers (json_int (algorithm_code (pa_algorithm a)))" "short_numbers (json_int (review_role_code (pa_role a)))"
    "text_bound d (json_int (algorithm_code (pa_algorithm a))) = 24" "text_bound d (json_int (review_role_code (pa_role a))) = 24" for d
    using bounded_int [of "algorithm_code (pa_algorithm a)"] bounded_int [of "review_role_code (pa_role a)"]
      review_role_small [of "pa_role a"] by simp_all
  show "short_numbers (profile_approval_json a)" "text_bound d (profile_approval_json a) \<le> 5000 + 30 * d"
    using l v(5) identifier_256 [OF v(4)] by (simp_all add: profile_approval_json_def json_object_def mk_object_def n)
qed

lemma demo_review_file_short: "length demo_review_file \<le> 65536"
proof -
  note a = demo_approvals(1,6)
  have "valid_sha256 (ps_id demo_profile_set)"
    using demo_profile_set_valid unfolding valid_deployment_profile_approval_set_def by blast
  then have l: "length (ps_id demo_profile_set) = 64" "length (dp_id demo_profile) = 64"
    by (simp_all add: valid_sha256_length)
  have n: "1 = Suc 0" "2 = Suc (Suc 0)" "3 = Suc (Suc (Suc 0))" by simp_all
  have s: "short_numbers (approval_set_json demo_profile_set)" "text_bound 1 (approval_set_json demo_profile_set) \<le> 15000"
    using profile_approval_bound(2) [OF a(1), of 3] profile_approval_bound(2) [OF a(2), of 3]
    by (simp_all add: approval_set_json_def json_object_def mk_object_def l n profile_approval_bound(1) a)
  have c: "short_numbers (runtime_constraints_json (dp_constraints demo_profile))"
      "text_bound 2 (runtime_constraints_json (dp_constraints demo_profile)) \<le> 3000"
    using to_string_short [of 1000] to_string_short [of 50] to_string_short [of 100]
    by (simp_all add: runtime_constraints_json_def json_object_def mk_object_def bounded_int)
  have p: "short_numbers (review_policy_json (dp_policy demo_profile))"
      "text_bound 2 (review_policy_json (dp_policy demo_profile)) \<le> 3000"
    by (simp_all add: review_policy_json_def json_object_def mk_object_def bounded_int)
  have "dp_schema demo_profile = 1" by (simp add: demo_profile_def Let_def)
  then have f: "short_numbers (profile_storage_json demo_profile)" "text_bound 1 (profile_storage_json demo_profile) \<le> 20000"
    using c p to_string_short [of 1]
    by (simp_all add: profile_storage_json_def json_object_def mk_object_def bounded_int valid_sha256_length l n)
  have "short_numbers (reviewed_json ''1.0'' demo_reviewed)" "text_bound 0 (reviewed_json ''1.0'' demo_reviewed) < 65536"
    using s f by (simp_all add: reviewed_json_def json_object_def mk_object_def bounded_int)
  from short_document [OF this] show ?thesis by (simp add: demo_review_file_def)
qed

lemma demo_review_loadable: "reviewed_loadable default_review_options ''1.0'' demo_reviewed"
  using demo_review_file_short
  by (simp add: reviewed_loadable_def default_review_options_def json_file_limit_def demo_review_file_def)

end
