(* ===== verification/Execution.thy ===== *)
theory Execution
  imports Deployment_Laws
begin

text \<open>
  \<^verbatim>\<open>src/execution.cpp\<close> and \<^verbatim>\<open>include/rbfsafe/execution.h\<close>: a bounded execution session. A sequence of
  commands certified against an atlas is requested under a reviewed deployment profile; reviewers
  approve the request, the controller acknowledges the commands and the runtime monitor an armed
  observation. The session then authorizes each command inside its own window of monotonic time.

  The atlas is the view \<open>atlas_view\<close>: its identity data, and the answers of
  \<open>TrajectoryAuditor::audit\<close> and \<open>SafeAtlas::route\<close>, which the geometric kernel computes.
\<close>

section \<open>Limits\<close>

definition kMaximumCommands :: nat where "kMaximumCommands = 100000"
definition kMaximumDimension :: nat where "kMaximumDimension = 1000"
definition kMaximumBoundNanoseconds :: u64 where "kMaximumBoundNanoseconds = 86400000000000"

definition checked_add :: "u64 \<Rightarrow> u64 \<Rightarrow> u64 option" where
  "checked_add a b = (if b > - 1 - a then None else Some (a + b))"

type_synonym configuration = "f64 list"

definition valid_configuration :: "configuration \<Rightarrow> nat \<Rightarrow> bool" where
  "valid_configuration q dimension \<longleftrightarrow> length q = dimension \<and> list_all isfinite q"

section \<open>The atlas\<close>

datatype audit_status = AuditCertified | AuditPartial | AuditInvalid

record trajectory_audit =
  ta_status :: audit_status
  ta_regions :: "u64 list"
  ta_uncovered :: nat

record atlas_route =
  ar_level :: evidence_level
  ar_id :: string
  ar_identity :: string

record atlas_view =
  at_dimension :: nat
  at_id :: string
  at_robot :: string
  at_scene :: string
  at_audit :: "nat \<Rightarrow> configuration list \<Rightarrow> trajectory_audit result"
  at_route :: "configuration \<Rightarrow> configuration \<Rightarrow> atlas_route option result"

definition default_region_tests :: nat where "default_region_tests = 10000000"

section \<open>Endpoints\<close>

datatype endpoint_role = ControllerRole | RuntimeMonitorRole

fun endpoint_role_code :: "endpoint_role \<Rightarrow> nat" where
  "endpoint_role_code ControllerRole = 0"
| "endpoint_role_code RuntimeMonitorRole = 1"

fun execution_endpoint_role_name :: "endpoint_role \<Rightarrow> string" where
  "execution_endpoint_role_name ControllerRole = ''controller''"
| "execution_endpoint_role_name RuntimeMonitorRole = ''runtime_monitor''"

fun execution_monitor_state_name :: "monitor_state \<Rightarrow> string" where
  "execution_monitor_state_name ArmedCertifiedSequence = ''armed_certified_sequence''"
| "execution_monitor_state_name Disarmed = ''disarmed''"
| "execution_monitor_state_name Fault = ''fault''"

definition valid_endpoint_role :: "endpoint_role \<Rightarrow> bool" where
  "valid_endpoint_role r \<longleftrightarrow> r = ControllerRole \<or> r = RuntimeMonitorRole"

record endpoint_key =
  ek_id :: string
  ek_service :: string
  ek_role :: endpoint_role
  ek_algorithm :: algorithm
  ek_public :: "u8 list"

definition execution_endpoint_key_identity :: "endpoint_key \<Rightarrow> string" where
  "execution_endpoint_key_identity k = sha256 (canonical (json_object
     [(''algorithm'', json_int (algorithm_code (ek_algorithm k))), (''format'', JStr ''rbfsafe-execution-endpoint-key''),
      (''public_key'', JStr (encode_hex (ek_public k))), (''role'', json_int (endpoint_role_code (ek_role k))),
      (''schema'', json_int 1), (''service_id'', JStr (ek_service k))]))"

definition valid_execution_endpoint_key :: "endpoint_key \<Rightarrow> bool" where
  "valid_execution_endpoint_key k \<longleftrightarrow> valid_sha256 (ek_id k) \<and> valid_text (ek_service k) \<and>
     valid_endpoint_role (ek_role k) \<and> ek_algorithm k = Ed25519 \<and> ek_id k = execution_endpoint_key_identity k"

definition make_execution_endpoint_key :: "string \<Rightarrow> endpoint_role \<Rightarrow> u8 list \<Rightarrow> endpoint_key result" where
  "make_execution_endpoint_key service role public_key =
     (if \<not> valid_text service \<or> \<not> valid_endpoint_role role \<or> length public_key \<noteq> kEd25519PublicKeyBytes
      then failure InvalidArgument ''execution endpoint key input is invalid'' []
      else (let k = \<lparr>ek_id = [], ek_service = service, ek_role = role, ek_algorithm = Ed25519, ek_public = public_key\<rparr>
            in Inr (k\<lparr>ek_id := execution_endpoint_key_identity k\<rparr>)))"

text \<open>The key pair of a secret key, checked against the key it claims: of an endpoint, or of a reviewer.\<close>

definition verified_key_pair ::
  "ed25519 \<Rightarrow> string \<Rightarrow> string \<Rightarrow> u8 list \<Rightarrow> endpoint_role option \<Rightarrow> (u8 list \<times> u8 list) result" where
  "verified_key_pair c service expected secret_key role =
     (if \<not> valid_text service \<or> \<not> valid_sha256 expected \<or> length secret_key \<noteq> kEd25519SecretKeyBytes
      then failure InvalidArgument ''execution signing identity is invalid'' []
      else rbind (ed25519_key_pair_from_seed c (take kEd25519SeedBytes secret_key)) (\<lambda>pair.
        if fst pair \<noteq> secret_key
        then failure IdentityMismatch ''Ed25519 secret key seed and public half do not match'' expected
        else (case role of
            Some role \<Rightarrow> rbind (make_execution_endpoint_key service role (snd pair)) (\<lambda>k.
              if ek_id k \<noteq> expected
              then failure IdentityMismatch ''Ed25519 secret key does not match the execution endpoint'' expected
              else Inr pair)
          | None \<Rightarrow> rbind (make_service_public_key service (snd pair) 1 0 KeyPending True True False) (\<lambda>k.
              if sk_id k \<noteq> expected
              then failure IdentityMismatch ''Ed25519 secret key does not match the deployment reviewer'' expected
              else Inr pair))))"

section \<open>Command sequences\<close>

record execution_command =
  ec_index :: u64
  ec_offset :: u64
  ec_configuration :: configuration

record command_sequence =
  sq_schema :: u32
  sq_id :: string
  sq_atlas :: string
  sq_robot :: string
  sq_scene :: string
  sq_certificate :: string
  sq_dimension :: nat
  sq_commands :: "execution_command list"
  sq_regions :: "u64 list"

definition command_json :: "execution_command \<Rightarrow> json" where
  "command_json e = json_object
     [(''configuration'', JArr (map JNum (ec_configuration e))), (''index'', JStr (to_string (ec_index e))),
      (''scheduled_offset_ns'', JStr (to_string (ec_offset e)))]"

definition execution_command_digest :: "execution_command \<Rightarrow> string" where
  "execution_command_digest e = sha256 (canonical (json_object
     [(''command'', command_json e), (''format'', JStr ''rbfsafe-execution-command''), (''schema'', json_int 1)]))"

definition execution_command_sequence_identity :: "command_sequence \<Rightarrow> string" where
  "execution_command_sequence_identity s = sha256 (canonical (json_object
     [(''atlas_id'', JStr (sq_atlas s)), (''commands'', JArr (map command_json (sq_commands s))),
      (''connectivity_certificate_id'', JStr (sq_certificate s)), (''dimension'', json_int (sq_dimension s)),
      (''format'', JStr ''rbfsafe-execution-command-sequence''),
      (''region_sequence'', JArr (map (\<lambda>r. JStr (to_string r)) (sq_regions s))),
      (''robot_digest'', JStr (sq_robot s)), (''scene_digest'', JStr (sq_scene s)),
      (''schema'', json_int (unat (sq_schema s)))]))"

text \<open>The loop over the commands: indices in order from \<open>i\<close>, the first at offset 0, offsets growing.\<close>

fun commands_valid :: "nat \<Rightarrow> nat \<Rightarrow> execution_command option \<Rightarrow> execution_command list \<Rightarrow> bool" where
  "commands_valid dimension i before [] = True"
| "commands_valid dimension i before (e # es) =
     (if ec_index e \<noteq> of_nat i \<or> \<not> valid_configuration (ec_configuration e) dimension \<or>
         (case before of None \<Rightarrow> ec_offset e \<noteq> 0 | Some p \<Rightarrow> ec_offset e \<le> ec_offset p)
      then False else commands_valid dimension (Suc i) (Some e) es)"

definition sequence_valid :: "command_sequence \<Rightarrow> bool" where
  "sequence_valid s =
     (if sq_schema s \<noteq> 1 \<or> \<not> valid_sha256 (sq_id s) \<or> \<not> valid_sha256 (sq_atlas s) \<or> \<not> valid_sha256 (sq_robot s) \<or>
         \<not> valid_sha256 (sq_scene s) \<or> \<not> valid_sha256 (sq_certificate s) \<or> sq_dimension s = 0 \<or>
         sq_dimension s > kMaximumDimension \<or> length (sq_commands s) < 2 \<or> length (sq_commands s) > kMaximumCommands \<or>
         sq_regions s = []
      then False
      else if \<not> commands_valid (sq_dimension s) 0 None (sq_commands s) then False
      else sq_id s = execution_command_sequence_identity s)"

definition certified :: "trajectory_audit \<Rightarrow> bool" where
  "certified a \<longleftrightarrow> ta_status a = AuditCertified \<and> ta_uncovered a = 0"

definition route_certified :: "atlas_route option \<Rightarrow> bool" where
  "route_certified r = (case r of None \<Rightarrow> False
     | Some r \<Rightarrow> ar_level r = CertifiedConnectivity \<and> ar_identity r = ar_id r)"

definition create_command_sequence ::
  "atlas_view \<Rightarrow> configuration list \<Rightarrow> u64 list \<Rightarrow> nat \<Rightarrow> command_sequence result" where
  "create_command_sequence a qs offsets tests =
     (if at_dimension a = 0 \<or> at_dimension a > kMaximumDimension \<or> \<not> valid_sha256 (at_robot a) \<or>
         \<not> valid_sha256 (at_scene a) \<or> \<not> valid_sha256 (at_id a) \<or> length qs < 2 \<or> length qs > kMaximumCommands \<or>
         length qs \<noteq> length offsets \<or> tests = 0
      then failure InvalidArgument ''execution command sequence input is invalid'' []
      else if hd offsets \<noteq> 0 \<or> \<not> sorted offsets \<or> \<not> successively (\<noteq>) offsets \<or>
         \<not> list_all (\<lambda>q. valid_configuration q (at_dimension a)) qs
      then failure InvalidArgument ''execution command schedule is invalid'' []
      else rbind (at_audit a tests qs) (\<lambda>audit.
        if \<not> certified audit
        then failure IdentityMismatch ''execution command sequence is not continuously certified'' (at_id a)
        else rbind (at_route a (hd qs) (last qs)) (\<lambda>route.
          if \<not> route_certified route
          then failure IdentityMismatch ''execution command endpoints lack a connectivity certificate'' (at_id a)
          else (let s = \<lparr>sq_schema = 1, sq_id = [], sq_atlas = at_id a, sq_robot = at_robot a, sq_scene = at_scene a,
                         sq_certificate = ar_id (the route), sq_dimension = at_dimension a,
                         sq_commands = map (\<lambda>(i, t, q). \<lparr>ec_index = of_nat i, ec_offset = t, ec_configuration = q\<rparr>)
                           (zip [0..<length qs] (zip offsets qs)),
                         sq_regions = ta_regions audit\<rparr>;
                    s = s\<lparr>sq_id := execution_command_sequence_identity s\<rparr>
                in if \<not> sequence_valid s
                   then failure InternalError ''constructed execution command sequence is invalid'' [] else Inr s))))"

definition verify_compatible :: "command_sequence \<Rightarrow> atlas_view \<Rightarrow> nat \<Rightarrow> unit result" where
  "verify_compatible s a tests =
     (if \<not> sequence_valid s \<or> at_dimension a = 0 \<or> tests = 0
      then failure InvalidArgument ''execution command compatibility input is invalid'' []
      else if sq_dimension s \<noteq> at_dimension a \<or> sq_atlas s \<noteq> at_id a \<or> sq_robot s \<noteq> at_robot a \<or> sq_scene s \<noteq> at_scene a
      then failure IdentityMismatch ''execution command sequence belongs to another Atlas'' (sq_id s)
      else (let qs = map ec_configuration (sq_commands s) in
        rbind (at_audit a tests qs) (\<lambda>audit.
          if \<not> certified audit \<or> ta_regions audit \<noteq> sq_regions s
          then failure IdentityMismatch ''execution command certification does not replay exactly'' (sq_id s)
          else rbind (at_route a (hd qs) (last qs)) (\<lambda>route.
            if \<not> route_certified route \<or> ar_id (the route) \<noteq> sq_certificate s
            then failure IdentityMismatch ''execution connectivity certificate does not replay exactly'' (sq_id s)
            else Inr ()))))"

section \<open>Requests\<close>

record session_limits =
  sl_start_delay :: u64
  sl_duration :: u64
  sl_commands :: nat

record request_input =
  qi_nonce :: string
  qi_controller :: endpoint_key
  qi_monitor :: endpoint_key
  qi_limits :: session_limits

record session_request =
  rq_schema :: u32
  rq_id :: string
  rq_nonce :: string
  rq_profile :: string
  rq_approvals :: string
  rq_trust_root :: string
  rq_trust_checkpoint :: string
  rq_trust_bundle :: string
  rq_trust_sequence :: u64
  rq_sequence :: string
  rq_atlas :: string
  rq_robot :: string
  rq_scene :: string
  rq_count :: nat
  rq_controller :: endpoint_key
  rq_monitor :: endpoint_key
  rq_limits :: session_limits

definition endpoint_json :: "endpoint_key \<Rightarrow> json" where
  "endpoint_json k = json_object
     [(''algorithm'', json_int (algorithm_code (ek_algorithm k))), (''id'', JStr (ek_id k)),
      (''public_key'', JStr (encode_hex (ek_public k))), (''role'', json_int (endpoint_role_code (ek_role k))),
      (''service_id'', JStr (ek_service k))]"

definition limits_json :: "session_limits \<Rightarrow> json" where
  "limits_json l = json_object
     [(''maximum_commands'', json_int (sl_commands l)), (''maximum_duration_ns'', JStr (to_string (sl_duration l))),
      (''maximum_start_delay_ns'', JStr (to_string (sl_start_delay l)))]"

definition execution_session_request_identity :: "session_request \<Rightarrow> string" where
  "execution_session_request_identity r = sha256 (canonical (json_object
     [(''atlas_id'', JStr (rq_atlas r)), (''command_count'', json_int (rq_count r)),
      (''command_sequence_id'', JStr (rq_sequence r)), (''controller'', endpoint_json (rq_controller r)),
      (''format'', JStr ''rbfsafe-execution-session-request''), (''limits'', limits_json (rq_limits r)),
      (''reviewed_profile_approval_set_id'', JStr (rq_approvals r)), (''reviewed_profile_id'', JStr (rq_profile r)),
      (''robot_digest'', JStr (rq_robot r)), (''runtime_monitor'', endpoint_json (rq_monitor r)),
      (''scene_digest'', JStr (rq_scene r)), (''schema'', json_int (unat (rq_schema r))),
      (''session_nonce'', JStr (rq_nonce r)), (''trust_bundle_id'', JStr (rq_trust_bundle r)),
      (''trust_bundle_sequence'', JStr (to_string (rq_trust_sequence r))),
      (''trust_checkpoint_id'', JStr (rq_trust_checkpoint r)), (''trust_root_bundle_id'', JStr (rq_trust_root r))]))"

definition valid_execution_session_limits :: "session_limits \<Rightarrow> bool" where
  "valid_execution_session_limits l \<longleftrightarrow>
     sl_start_delay l > 0 \<and> sl_start_delay l \<le> kMaximumBoundNanoseconds \<and> sl_duration l > 0 \<and>
     sl_duration l \<le> kMaximumBoundNanoseconds \<and> sl_start_delay l \<le> sl_duration l \<and> sl_commands l \<ge> 2 \<and>
     sl_commands l \<le> kMaximumCommands"

definition request_valid :: "session_request \<Rightarrow> bool" where
  "request_valid r \<longleftrightarrow>
     rq_schema r = 1 \<and> valid_sha256 (rq_id r) \<and> valid_sha256 (rq_nonce r) \<and> valid_sha256 (rq_profile r) \<and>
     valid_sha256 (rq_approvals r) \<and> valid_sha256 (rq_trust_root r) \<and> valid_sha256 (rq_trust_checkpoint r) \<and>
     valid_sha256 (rq_trust_bundle r) \<and> rq_trust_sequence r > 0 \<and> valid_sha256 (rq_sequence r) \<and>
     valid_sha256 (rq_atlas r) \<and> valid_sha256 (rq_robot r) \<and> valid_sha256 (rq_scene r) \<and> rq_count r \<ge> 2 \<and>
     rq_count r \<le> kMaximumCommands \<and> valid_execution_endpoint_key (rq_controller r) \<and>
     valid_execution_endpoint_key (rq_monitor r) \<and> ek_role (rq_controller r) = ControllerRole \<and>
     ek_role (rq_monitor r) = RuntimeMonitorRole \<and> ek_service (rq_controller r) \<noteq> ek_service (rq_monitor r) \<and>
     ek_id (rq_controller r) \<noteq> ek_id (rq_monitor r) \<and> valid_execution_session_limits (rq_limits r) \<and>
     rq_count r \<le> sl_commands (rq_limits r) \<and> rq_id r = execution_session_request_identity r"

text \<open>No two neighbouring commands are further apart than the control period.\<close>

fun within_period :: "u64 \<Rightarrow> execution_command list \<Rightarrow> bool" where
  "within_period period (e # f # es) =
     (if ec_offset f - ec_offset e > period then False else within_period period (f # es))"
| "within_period period es = True"

definition create_session_request ::
  "reviewed_profile \<Rightarrow> command_sequence \<Rightarrow> request_input \<Rightarrow> session_request result" where
  "create_session_request r s i =
     (let p = rd_profile r; l = qi_limits i; cn = dp_constraints p in
      if \<not> reviewed_valid r \<or> \<not> sequence_valid s \<or> \<not> valid_sha256 (qi_nonce i) \<or>
         \<not> valid_execution_endpoint_key (qi_controller i) \<or> \<not> valid_execution_endpoint_key (qi_monitor i) \<or>
         ek_role (qi_controller i) \<noteq> ControllerRole \<or> ek_role (qi_monitor i) \<noteq> RuntimeMonitorRole \<or>
         ek_service (qi_controller i) = ek_service (qi_monitor i) \<or> ek_id (qi_controller i) = ek_id (qi_monitor i) \<or>
         \<not> valid_execution_session_limits l \<or> length (sq_commands s) > sl_commands l \<or> sq_robot s \<noteq> dp_robot p \<or>
         sl_start_delay l > cn_observation_age cn \<or> sl_duration l > cn_observation_age cn
      then failure InvalidArgument ''execution session request input is invalid'' []
      else if \<not> within_period (cn_control_period cn) (sq_commands s)
      then failure IdentityMismatch ''execution command schedule exceeds reviewed control period'' (sq_id s)
      else if ec_offset (last (sq_commands s)) > sl_duration l
      then failure IdentityMismatch ''execution command schedule exceeds session duration'' (sq_id s)
      else (let q = \<lparr>rq_schema = 1, rq_id = [], rq_nonce = qi_nonce i, rq_profile = dp_id p,
                     rq_approvals = ps_id (rd_approvals r), rq_trust_root = dp_trust_root p,
                     rq_trust_checkpoint = dp_trust_checkpoint p, rq_trust_bundle = dp_trust_bundle p,
                     rq_trust_sequence = dp_trust_sequence p, rq_sequence = sq_id s, rq_atlas = sq_atlas s,
                     rq_robot = sq_robot s, rq_scene = sq_scene s, rq_count = length (sq_commands s),
                     rq_controller = qi_controller i, rq_monitor = qi_monitor i, rq_limits = l\<rparr>
            in Inr (q\<lparr>rq_id := execution_session_request_identity q\<rparr>)))"

end
