(* ===== verification/Execution_Session.thy ===== *)
theory Execution_Session
  imports Execution
begin

text \<open>
  The second half of \<^verbatim>\<open>src/execution.cpp\<close>: approvals of a session request, the acknowledgements of
  the controller and of the runtime monitor, the session they make, and the authorization of one
  command.
\<close>

section \<open>Approvals of a request\<close>

record session_approval =
  sa_id :: string
  sa_request :: string
  sa_service :: string
  sa_key :: string
  sa_role :: review_role
  sa_algorithm :: algorithm
  sa_tag :: string

record session_approval_set =
  ss_id :: string
  ss_request :: string
  ss_approvals :: "session_approval list"

definition execution_session_approval_message :: "session_approval \<Rightarrow> string" where
  "execution_session_approval_message a =
     identity_text ''rbfsafe-execution-session-approval-v1'' (json_object
       [(''algorithm'', json_int (algorithm_code (sa_algorithm a))),
        (''format'', JStr ''rbfsafe-execution-session-approval''), (''request_id'', JStr (sa_request a)),
        (''role'', json_int (review_role_code (sa_role a))), (''schema'', json_int 1),
        (''signer_key_id'', JStr (sa_key a)), (''signer_service_id'', JStr (sa_service a))])"

definition execution_session_approval_identity :: "session_approval \<Rightarrow> string" where
  "execution_session_approval_identity a =
     sha256 (''rbfsafe-execution-session-approval-identity-v1'' @ [CHR 0x0A] @
       execution_session_approval_message a @ [CHR 0x0A] @ sa_tag a)"

definition execution_session_approval_set_identity :: "session_approval_set \<Rightarrow> string" where
  "execution_session_approval_set_identity s = sha256 (canonical (json_object
     [(''approval_ids'', JArr (map (\<lambda>a. JStr (sa_id a)) (ss_approvals s))),
      (''format'', JStr ''rbfsafe-execution-session-approval-set''), (''request_id'', JStr (ss_request s)),
      (''schema'', json_int 1)]))"

definition valid_execution_session_approval :: "session_approval \<Rightarrow> bool" where
  "valid_execution_session_approval a \<longleftrightarrow>
     valid_sha256 (sa_id a) \<and> valid_sha256 (sa_request a) \<and> valid_text (sa_service a) \<and> valid_sha256 (sa_key a) \<and>
     valid_role (sa_role a) \<and> sa_algorithm a = Ed25519 \<and> is_hex_tag (sa_tag a) kEd25519SignatureBytes \<and>
     sa_id a = execution_session_approval_identity a"

definition session_approval_order :: "session_approval \<Rightarrow> (string \<times> string) \<times> (review_role \<times> string)" where
  "session_approval_order a = ((sa_service a, sa_key a), (sa_role a, sa_id a))"

definition session_approval_less :: "session_approval \<Rightarrow> session_approval \<Rightarrow> bool" where
  "session_approval_less a b \<longleftrightarrow> session_approval_order a < session_approval_order b"

definition valid_execution_session_approval_set :: "session_approval_set \<Rightarrow> bool" where
  "valid_execution_session_approval_set s \<longleftrightarrow>
     valid_sha256 (ss_id s) \<and> valid_sha256 (ss_request s) \<and> ss_approvals s \<noteq> [] \<and>
     length (ss_approvals s) \<le> kMaximumApprovals \<and> list_all valid_execution_session_approval (ss_approvals s) \<and>
     successively (\<lambda>a b. \<not> session_approval_less b a) (ss_approvals s) \<and>
     list_all (\<lambda>a. sa_request a = ss_request s) (ss_approvals s) \<and>
     distinct (map (\<lambda>a. (sa_service a, sa_key a)) (ss_approvals s)) \<and>
     ss_id s = execution_session_approval_set_identity s"

definition matches_profile_approval :: "reviewed_profile \<Rightarrow> session_approval \<Rightarrow> bool" where
  "matches_profile_approval r a \<longleftrightarrow>
     list_ex (\<lambda>p. pa_service p = sa_service a \<and> pa_key p = sa_key a \<and> pa_role p = sa_role a)
       (ps_approvals (rd_approvals r))"

definition validate_session_approval_policy :: "reviewed_profile \<Rightarrow> session_approval list \<Rightarrow> unit result" where
  "validate_session_approval_policy r as =
     (let policy = dp_policy (rd_profile r) in
      if length as < unat (rv_minimum policy)
      then failure IdentityMismatch ''execution session approval quorum is not satisfied'' (dp_id (rd_profile r))
      else rbind (check_all (\<lambda>a. reject (\<not> matches_profile_approval r a) IdentityMismatch
          ''execution session signer did not approve the reviewed deployment profile'' (sa_key a)) as) (\<lambda>_.
        if rv_distinct policy \<and> card (set (map sa_service as)) < unat (rv_minimum policy)
        then failure IdentityMismatch ''execution session requires approvals from distinct services'' (dp_id (rd_profile r))
        else check_roles ''execution session required review role is missing'' (map sa_role as) (rv_roles policy)))"

definition sign_execution_session_approval ::
  "ed25519 \<Rightarrow> session_request \<Rightarrow> profile_approval \<Rightarrow> u8 list \<Rightarrow> session_approval result" where
  "sign_execution_session_approval c q p secret_key =
     (if \<not> request_valid q \<or> \<not> valid_deployment_profile_approval p
      then failure InvalidArgument ''execution session approval input is invalid'' []
      else rbind (verified_key_pair c (pa_service p) (pa_key p) secret_key None) (\<lambda>_.
        let a = \<lparr>sa_id = [], sa_request = rq_id q, sa_service = pa_service p, sa_key = pa_key p, sa_role = pa_role p,
                 sa_algorithm = Ed25519, sa_tag = []\<rparr>
        in rbind (ed25519_sign c (execution_session_approval_message a) secret_key) (\<lambda>signature.
             let a = a\<lparr>sa_tag := encode_hex signature\<rparr>
             in Inr (a\<lparr>sa_id := execution_session_approval_identity a\<rparr>))))"

definition assemble_execution_session_approvals ::
  "session_request \<Rightarrow> reviewed_profile \<Rightarrow> session_approval list \<Rightarrow> session_approval_set result" where
  "assemble_execution_session_approvals q r as =
     (if \<not> request_valid q \<or> \<not> reviewed_valid r \<or> as = [] \<or> length as > kMaximumApprovals \<or>
         rq_profile q \<noteq> dp_id (rd_profile r) \<or> rq_approvals q \<noteq> ps_id (rd_approvals r)
      then failure InvalidArgument ''execution session approval-set input is invalid'' []
      else (let s = \<lparr>ss_id = [], ss_request = rq_id q, ss_approvals = sort_by session_approval_less as\<rparr>;
                s = s\<lparr>ss_id := execution_session_approval_set_identity s\<rparr>
            in if \<not> valid_execution_session_approval_set s
               then failure InvalidArgument ''execution session approvals are invalid or duplicated'' []
               else rbind (validate_session_approval_policy r (ss_approvals s)) (\<lambda>_. Inr s)))"

definition verify_session_approval :: "ed25519 \<Rightarrow> trust_bundle \<Rightarrow> u64 \<Rightarrow> session_approval \<Rightarrow> unit result" where
  "verify_session_approval c b seq a =
     rbind (trusted_service_public_key b (sa_service a) (sa_key a) Publish seq) (\<lambda>k.
       rbind (decode_hex (sa_tag a) kEd25519SignatureBytes) (\<lambda>signature.
         ed25519_verify c (execution_session_approval_message a) signature (sk_public k)))"

definition verify_execution_session_approvals ::
  "ed25519 \<Rightarrow> session_request \<Rightarrow> reviewed_profile \<Rightarrow> session_approval_set \<Rightarrow> trust_bundle \<Rightarrow> unit result" where
  "verify_execution_session_approvals c q r s b =
     (if \<not> request_valid q \<or> \<not> reviewed_valid r \<or> \<not> trust_bundle_valid b
      then failure InvalidArgument ''execution session approval verification input is invalid'' []
      else if \<not> valid_execution_session_approval_set s
      then failure CorruptData ''execution session approval-set identity is invalid'' []
      else if ss_request s \<noteq> rq_id q \<or> rq_profile q \<noteq> dp_id (rd_profile r) \<or> rq_approvals q \<noteq> ps_id (rd_approvals r) \<or>
         rq_trust_bundle q \<noteq> tb_id b \<or> rq_trust_sequence q \<noteq> tb_sequence b
      then failure IdentityMismatch ''execution session review trust binding is invalid'' (rq_id q)
      else rbind (validate_session_approval_policy r (ss_approvals s)) (\<lambda>_.
        check_all (verify_session_approval c b (rq_trust_sequence q)) (ss_approvals s)))"

section \<open>The controller\<close>

record controller_acknowledgement =
  ca_id :: string
  ca_request :: string
  ca_sequence :: string
  ca_service :: string
  ca_key :: string
  ca_count :: nat
  ca_algorithm :: algorithm
  ca_tag :: string

definition execution_controller_acknowledgement_message :: "controller_acknowledgement \<Rightarrow> string" where
  "execution_controller_acknowledgement_message a =
     identity_text ''rbfsafe-execution-controller-acknowledgement-v1'' (json_object
       [(''accepted_command_count'', json_int (ca_count a)), (''algorithm'', json_int (algorithm_code (ca_algorithm a))),
        (''command_sequence_id'', JStr (ca_sequence a)), (''controller_key_id'', JStr (ca_key a)),
        (''controller_service_id'', JStr (ca_service a)),
        (''format'', JStr ''rbfsafe-execution-controller-acknowledgement''), (''request_id'', JStr (ca_request a)),
        (''schema'', json_int 1)])"

definition execution_controller_acknowledgement_identity :: "controller_acknowledgement \<Rightarrow> string" where
  "execution_controller_acknowledgement_identity a =
     sha256 (''rbfsafe-execution-controller-acknowledgement-identity-v1'' @ [CHR 0x0A] @
       execution_controller_acknowledgement_message a @ [CHR 0x0A] @ ca_tag a)"

definition valid_execution_controller_acknowledgement :: "controller_acknowledgement \<Rightarrow> bool" where
  "valid_execution_controller_acknowledgement a \<longleftrightarrow>
     valid_sha256 (ca_id a) \<and> valid_sha256 (ca_request a) \<and> valid_sha256 (ca_sequence a) \<and>
     valid_text (ca_service a) \<and> valid_sha256 (ca_key a) \<and> ca_count a \<ge> 2 \<and> ca_count a \<le> kMaximumCommands \<and>
     ca_algorithm a = Ed25519 \<and> is_hex_tag (ca_tag a) kEd25519SignatureBytes \<and>
     ca_id a = execution_controller_acknowledgement_identity a"

definition sign_execution_controller_acknowledgement ::
  "ed25519 \<Rightarrow> session_request \<Rightarrow> u8 list \<Rightarrow> controller_acknowledgement result" where
  "sign_execution_controller_acknowledgement c q secret_key =
     (if \<not> request_valid q
      then failure InvalidArgument ''execution controller acknowledgement input is invalid'' []
      else rbind (verified_key_pair c (ek_service (rq_controller q)) (ek_id (rq_controller q)) secret_key
          (Some ControllerRole)) (\<lambda>_.
        let a = \<lparr>ca_id = [], ca_request = rq_id q, ca_sequence = rq_sequence q, ca_service = ek_service (rq_controller q),
                 ca_key = ek_id (rq_controller q), ca_count = rq_count q, ca_algorithm = Ed25519, ca_tag = []\<rparr>
        in rbind (ed25519_sign c (execution_controller_acknowledgement_message a) secret_key) (\<lambda>signature.
             let a = a\<lparr>ca_tag := encode_hex signature\<rparr>
             in Inr (a\<lparr>ca_id := execution_controller_acknowledgement_identity a\<rparr>))))"

definition verify_execution_controller_acknowledgement ::
  "ed25519 \<Rightarrow> session_request \<Rightarrow> controller_acknowledgement \<Rightarrow> unit result" where
  "verify_execution_controller_acknowledgement c q a =
     (if \<not> request_valid q \<or> \<not> valid_execution_controller_acknowledgement a
      then failure InvalidArgument ''execution controller acknowledgement verification input is invalid'' []
      else if ca_request a \<noteq> rq_id q \<or> ca_sequence a \<noteq> rq_sequence q \<or> ca_service a \<noteq> ek_service (rq_controller q) \<or>
         ca_key a \<noteq> ek_id (rq_controller q) \<or> ca_count a \<noteq> rq_count q
      then failure IdentityMismatch ''execution controller acknowledgement binding is invalid'' (rq_id q)
      else rbind (decode_hex (ca_tag a) kEd25519SignatureBytes) (\<lambda>signature.
        ed25519_verify c (execution_controller_acknowledgement_message a) signature (ek_public (rq_controller q))))"

section \<open>The runtime monitor\<close>

record runtime_observation =
  xo_id :: string
  xo_request :: string
  xo_command_sequence :: string
  xo_runtime :: runtime_snapshot
  xo_sequence :: u64
  xo_observed :: u64
  xo_monitor :: monitor_state

record monitor_acknowledgement =
  ma_id :: string
  ma_observation :: runtime_observation
  ma_service :: string
  ma_key :: string
  ma_algorithm :: algorithm
  ma_tag :: string

text \<open>In this file the missed cycles of a snapshot are written as a number.\<close>

definition session_snapshot_json :: "runtime_snapshot \<Rightarrow> json" where
  "session_snapshot_json s = json_object
     [(''authenticated_artifacts'', JBool (rs_authenticated s)),
      (''command_latency_ns'', JStr (to_string (rs_command_latency s))),
      (''consecutive_missed_cycles'', json_int (unat (rs_missed_cycles s))),
      (''control_period_ns'', JStr (to_string (rs_control_period s))),
      (''controller_digest'', JStr (rs_controller s)), (''deployment_id'', JStr (rs_deployment s)),
      (''fail_closed_transport_active'', JBool (rs_fail_closed s)),
      (''observation_age_ns'', JStr (to_string (rs_observation_age s))),
      (''platform_digest'', JStr (rs_platform s)), (''robot_digest'', JStr (rs_robot s)),
      (''runtime_digest'', JStr (rs_runtime s)), (''runtime_monitor_active'', JBool (rs_monitor_active s))]"

definition execution_runtime_observation_identity :: "runtime_observation \<Rightarrow> string" where
  "execution_runtime_observation_identity b = sha256 (canonical (json_object
     [(''command_sequence_id'', JStr (xo_command_sequence b)), (''format'', JStr ''rbfsafe-execution-runtime-observation''),
      (''monitor_state'', json_int (monitor_state_code (xo_monitor b))),
      (''observation_sequence'', JStr (to_string (xo_sequence b))),
      (''observed_monotonic_ns'', JStr (to_string (xo_observed b))), (''request_id'', JStr (xo_request b)),
      (''runtime'', session_snapshot_json (xo_runtime b)), (''schema'', json_int 1)]))"

definition create_runtime_observation ::
  "session_request \<Rightarrow> runtime_snapshot \<Rightarrow> u64 \<Rightarrow> u64 \<Rightarrow> monitor_state \<Rightarrow> runtime_observation result" where
  "create_runtime_observation q snapshot seq observed st =
     (if \<not> request_valid q \<or> \<not> valid_deployment_runtime_snapshot snapshot \<or> seq = 0 \<or> observed = 0 \<or>
         \<not> valid_monitor_state st
      then failure InvalidArgument ''execution runtime observation input is invalid'' []
      else (let b = \<lparr>xo_id = [], xo_request = rq_id q, xo_command_sequence = rq_sequence q, xo_runtime = snapshot,
                     xo_sequence = seq, xo_observed = observed, xo_monitor = st\<rparr>
            in Inr (b\<lparr>xo_id := execution_runtime_observation_identity b\<rparr>)))"

definition runtime_observation_valid :: "runtime_observation \<Rightarrow> bool" where
  "runtime_observation_valid b \<longleftrightarrow>
     valid_sha256 (xo_id b) \<and> valid_sha256 (xo_request b) \<and> valid_sha256 (xo_command_sequence b) \<and>
     valid_deployment_runtime_snapshot (xo_runtime b) \<and> xo_sequence b > 0 \<and> xo_observed b > 0 \<and>
     valid_monitor_state (xo_monitor b) \<and> xo_id b = execution_runtime_observation_identity b"

definition execution_monitor_acknowledgement_message :: "monitor_acknowledgement \<Rightarrow> string" where
  "execution_monitor_acknowledgement_message a =
     identity_text ''rbfsafe-execution-monitor-acknowledgement-v1'' (json_object
       [(''algorithm'', json_int (algorithm_code (ma_algorithm a))),
        (''format'', JStr ''rbfsafe-execution-monitor-acknowledgement''), (''monitor_key_id'', JStr (ma_key a)),
        (''monitor_service_id'', JStr (ma_service a)), (''observation_id'', JStr (xo_id (ma_observation a))),
        (''schema'', json_int 1)])"

definition execution_monitor_acknowledgement_identity :: "monitor_acknowledgement \<Rightarrow> string" where
  "execution_monitor_acknowledgement_identity a =
     sha256 (''rbfsafe-execution-monitor-acknowledgement-identity-v1'' @ [CHR 0x0A] @
       execution_monitor_acknowledgement_message a @ [CHR 0x0A] @ ma_tag a)"

definition valid_execution_monitor_acknowledgement :: "monitor_acknowledgement \<Rightarrow> bool" where
  "valid_execution_monitor_acknowledgement a \<longleftrightarrow>
     valid_sha256 (ma_id a) \<and> runtime_observation_valid (ma_observation a) \<and> valid_text (ma_service a) \<and>
     valid_sha256 (ma_key a) \<and> ma_algorithm a = Ed25519 \<and> is_hex_tag (ma_tag a) kEd25519SignatureBytes \<and>
     ma_id a = execution_monitor_acknowledgement_identity a"

definition sign_execution_monitor_acknowledgement ::
  "ed25519 \<Rightarrow> session_request \<Rightarrow> runtime_observation \<Rightarrow> u8 list \<Rightarrow> monitor_acknowledgement result" where
  "sign_execution_monitor_acknowledgement c q b secret_key =
     (if \<not> request_valid q \<or> \<not> runtime_observation_valid b \<or> xo_request b \<noteq> rq_id q \<or>
         xo_command_sequence b \<noteq> rq_sequence q
      then failure InvalidArgument ''execution monitor acknowledgement input is invalid'' []
      else rbind (verified_key_pair c (ek_service (rq_monitor q)) (ek_id (rq_monitor q)) secret_key
          (Some RuntimeMonitorRole)) (\<lambda>_.
        let a = \<lparr>ma_id = [], ma_observation = b, ma_service = ek_service (rq_monitor q), ma_key = ek_id (rq_monitor q),
                 ma_algorithm = Ed25519, ma_tag = []\<rparr>
        in rbind (ed25519_sign c (execution_monitor_acknowledgement_message a) secret_key) (\<lambda>signature.
             let a = a\<lparr>ma_tag := encode_hex signature\<rparr>
             in Inr (a\<lparr>ma_id := execution_monitor_acknowledgement_identity a\<rparr>))))"

definition verify_execution_monitor_acknowledgement ::
  "ed25519 \<Rightarrow> session_request \<Rightarrow> monitor_acknowledgement \<Rightarrow> unit result" where
  "verify_execution_monitor_acknowledgement c q a =
     (if \<not> request_valid q \<or> \<not> valid_execution_monitor_acknowledgement a
      then failure InvalidArgument ''execution monitor acknowledgement verification input is invalid'' []
      else if xo_request (ma_observation a) \<noteq> rq_id q \<or> xo_command_sequence (ma_observation a) \<noteq> rq_sequence q \<or>
         ma_service a \<noteq> ek_service (rq_monitor q) \<or> ma_key a \<noteq> ek_id (rq_monitor q)
      then failure IdentityMismatch ''execution monitor acknowledgement binding is invalid'' (rq_id q)
      else rbind (decode_hex (ma_tag a) kEd25519SignatureBytes) (\<lambda>signature.
        ed25519_verify c (execution_monitor_acknowledgement_message a) signature (ek_public (rq_monitor q))))"

section \<open>Sessions\<close>

record execution_session =
  es_id :: string
  es_request :: session_request
  es_sequence :: command_sequence
  es_approvals :: session_approval_set
  es_controller :: controller_acknowledgement
  es_monitor :: monitor_acknowledgement
  es_from :: u64
  es_deadline :: u64
  es_through :: u64

definition bounded_execution_session_identity :: "execution_session \<Rightarrow> string" where
  "bounded_execution_session_identity e = sha256 (canonical (json_object
     [(''approval_set_id'', JStr (ss_id (es_approvals e))), (''command_sequence_id'', JStr (sq_id (es_sequence e))),
      (''controller_acknowledgement_id'', JStr (ca_id (es_controller e))),
      (''format'', JStr ''rbfsafe-bounded-execution-session''),
      (''monitor_acknowledgement_id'', JStr (ma_id (es_monitor e))), (''request_id'', JStr (rq_id (es_request e))),
      (''schema'', json_int 1), (''start_deadline_monotonic_ns'', JStr (to_string (es_deadline e))),
      (''valid_from_monotonic_ns'', JStr (to_string (es_from e))),
      (''valid_through_monotonic_ns'', JStr (to_string (es_through e)))]))"

definition session_valid :: "execution_session \<Rightarrow> bool" where
  "session_valid e \<longleftrightarrow>
     valid_sha256 (es_id e) \<and> request_valid (es_request e) \<and> sequence_valid (es_sequence e) \<and>
     valid_execution_session_approval_set (es_approvals e) \<and>
     valid_execution_controller_acknowledgement (es_controller e) \<and>
     valid_execution_monitor_acknowledgement (es_monitor e) \<and> rq_sequence (es_request e) = sq_id (es_sequence e) \<and>
     rq_count (es_request e) = length (sq_commands (es_sequence e)) \<and>
     ss_request (es_approvals e) = rq_id (es_request e) \<and> ca_request (es_controller e) = rq_id (es_request e) \<and>
     xo_request (ma_observation (es_monitor e)) = rq_id (es_request e) \<and> es_from e > 0 \<and> es_deadline e \<ge> es_from e \<and>
     es_deadline e \<le> es_through e \<and> es_id e = bounded_execution_session_identity e"

definition create_session ::
  "ed25519 \<Rightarrow> session_request \<Rightarrow> command_sequence \<Rightarrow> session_approval_set \<Rightarrow> controller_acknowledgement \<Rightarrow>
     monitor_acknowledgement \<Rightarrow> reviewed_profile \<Rightarrow> trust_bundle \<Rightarrow> atlas_view \<Rightarrow> execution_session result" where
  "create_session c q s as ca ma r b a =
     (let p = rd_profile r; ob = ma_observation ma in
      if \<not> request_valid q \<or> \<not> sequence_valid s \<or> \<not> valid_execution_session_approval_set as \<or>
         \<not> valid_execution_controller_acknowledgement ca \<or> \<not> valid_execution_monitor_acknowledgement ma \<or>
         \<not> reviewed_valid r \<or> \<not> trust_bundle_valid b
      then failure InvalidArgument ''bounded execution session input is invalid'' []
      else if rq_sequence q \<noteq> sq_id s \<or> rq_count q \<noteq> length (sq_commands s) \<or> rq_atlas q \<noteq> sq_atlas s \<or>
         rq_robot q \<noteq> sq_robot s \<or> rq_scene q \<noteq> sq_scene s \<or> rq_profile q \<noteq> dp_id p \<or>
         rq_approvals q \<noteq> ps_id (rd_approvals r) \<or> rq_trust_root q \<noteq> dp_trust_root p \<or>
         rq_trust_checkpoint q \<noteq> dp_trust_checkpoint p \<or> rq_trust_bundle q \<noteq> dp_trust_bundle p \<or>
         rq_trust_sequence q \<noteq> dp_trust_sequence p
      then failure IdentityMismatch ''bounded execution session dependency binding is invalid'' (rq_id q)
      else rbind (verify_compatible s a default_region_tests) (\<lambda>_.
      rbind (verify_execution_session_approvals c q r as b) (\<lambda>_.
      rbind (verify_execution_controller_acknowledgement c q ca) (\<lambda>_.
      rbind (verify_execution_monitor_acknowledgement c q ma) (\<lambda>_.
        if xo_monitor ob \<noteq> ArmedCertifiedSequence
        then failure IdentityMismatch ''runtime monitor did not acknowledge an armed certified sequence'' (xo_id ob)
        else rbind (assess_snapshot r (xo_runtime ob)) (\<lambda>am.
          if am_status am \<noteq> Conformant \<or> am_evidence am \<noteq> Unknown
          then failure IdentityMismatch ''runtime observation is not conformant with the reviewed deployment profile'' (am_id am)
          else (let maximum_age = cn_observation_age (dp_constraints p); age = rs_observation_age (xo_runtime ob) in
            if age > maximum_age \<or> sl_duration (rq_limits q) > maximum_age - age
            then failure IdentityMismatch ''execution session outlives reviewed observation freshness'' (xo_id ob)
            else (case (checked_add (xo_observed ob) (sl_start_delay (rq_limits q)),
                        checked_add (xo_observed ob) (sl_duration (rq_limits q))) of
                (Some deadline, Some through) \<Rightarrow>
                  (let e = \<lparr>es_id = [], es_request = q, es_sequence = s, es_approvals = as, es_controller = ca,
                            es_monitor = ma, es_from = xo_observed ob, es_deadline = deadline, es_through = through\<rparr>;
                       e = e\<lparr>es_id := bounded_execution_session_identity e\<rparr>
                   in if \<not> session_valid e
                      then failure InternalError ''constructed bounded execution session is invalid'' [] else Inr e)
              | _ \<Rightarrow> failure InvalidArgument ''execution session monotonic time bounds overflow'' []))))))))"

section \<open>Authorizing a command\<close>

record command_authorization =
  au_id :: string
  au_session :: string
  au_sequence :: string
  au_index :: u64
  au_digest :: string
  au_dispatch :: u64
  au_from :: u64
  au_through :: u64
  au_evidence :: evidence_level

definition execution_command_authorization_identity :: "command_authorization \<Rightarrow> string" where
  "execution_command_authorization_identity a = sha256 (canonical (json_object
     [(''command_digest'', JStr (au_digest a)), (''command_index'', JStr (to_string (au_index a))),
      (''command_sequence_id'', JStr (au_sequence a)), (''dispatch_monotonic_ns'', JStr (to_string (au_dispatch a))),
      (''evidence'', json_int (evidence_code (au_evidence a))),
      (''format'', JStr ''rbfsafe-execution-command-authorization''), (''schema'', json_int 1),
      (''session_id'', JStr (au_session a)), (''valid_from_monotonic_ns'', JStr (to_string (au_from a))),
      (''valid_through_monotonic_ns'', JStr (to_string (au_through a)))]))"

definition authorization_valid :: "command_authorization \<Rightarrow> bool" where
  "authorization_valid a \<longleftrightarrow>
     valid_sha256 (au_id a) \<and> valid_sha256 (au_session a) \<and> valid_sha256 (au_sequence a) \<and>
     valid_sha256 (au_digest a) \<and> au_dispatch a \<ge> au_from a \<and> au_dispatch a \<le> au_through a \<and>
     au_from a \<le> au_through a \<and> au_evidence a = RuntimeExecutable \<and>
     au_id a = execution_command_authorization_identity a"

text \<open>
  \<open>BoundedExecutionSession::authorize_command\<close>; the configurations are compared as numbers, so
  zeros of either sign are equal.
\<close>

definition session_authorize_command ::
  "execution_session \<Rightarrow> u64 \<Rightarrow> configuration \<Rightarrow> u64 \<Rightarrow> command_authorization option result" where
  "session_authorize_command e i q dispatch =
     (let s = es_sequence e in
      if \<not> session_valid e \<or> \<not> valid_configuration q (sq_dimension s) \<or> dispatch = 0
      then failure InvalidArgument ''execution command authorization input is invalid'' []
      else if unat i \<ge> length (sq_commands s) then Inr None
      else (let command = sq_commands s ! unat i in
        if \<not> list_all2 f64_eq q (ec_configuration command) then Inr None
        else (case checked_add (es_from e) (ec_offset command) of
            None \<Rightarrow> failure InternalError ''execution command time window overflow'' []
          | Some from_ns \<Rightarrow>
              (case checked_add from_ns (rs_command_latency (xo_runtime (ma_observation (es_monitor e)))) of
                None \<Rightarrow> failure InternalError ''execution command latency window overflow'' []
              | Some latency_deadline \<Rightarrow>
                  (let through = min latency_deadline (es_through e);
                       through = (if i = 0 then min through (es_deadline e) else through)
                   in if dispatch < from_ns \<or> dispatch > through then Inr None
                      else (let a = \<lparr>au_id = [], au_session = es_id e, au_sequence = sq_id s, au_index = i,
                                     au_digest = execution_command_digest command, au_dispatch = dispatch,
                                     au_from = from_ns, au_through = through, au_evidence = RuntimeExecutable\<rparr>
                            in Inr (Some (a\<lparr>au_id := execution_command_authorization_identity a\<rparr>))))))))"

end
