(* ===== verification/Execution_Session_Laws.thy ===== *)
theory Execution_Session_Laws
  imports Execution_Session
begin

text \<open>
  What an execution session has checked when it exists, and the window of time in which it
  authorizes a command.
\<close>

section \<open>Sums that do not wrap\<close>

lemma beyond_complement: "b > - 1 - a \<longleftrightarrow> 2 ^ 64 \<le> unat a + unat b" for a b :: u64
proof -
  have "unat (- 1 - a) = 2 ^ 64 - 1 - unat a"
    by (subst unat_sub) (simp_all add: unsigned_minus_1_eq_mask mask_eq_exp_minus_1)
  then show ?thesis using unsigned_less [of a, where ?'a = nat] by (simp add: word_less_nat_alt) linarith
qed

lemma checked_add_iff:
  "checked_add a b = Some r \<longleftrightarrow> unat a + unat b < 2 ^ 64 \<and> unat r = unat a + unat b"
  by (auto simp: checked_add_def beyond_complement unat_word_ariths word_unat_eq_iff)

lemma checked_add_None: "checked_add a b = None \<longleftrightarrow> 2 ^ 64 \<le> unat a + unat b"
  by (simp add: checked_add_def beyond_complement)

section \<open>Approvals\<close>

interpretation session_approvals: trusted_approval verify_session_approval sa_service sa_key sa_tag
    execution_session_approval_message
  by unfold_locales (rule verify_session_approval_def)

definition session_signer :: "session_approval \<Rightarrow> string \<times> string" where
  "session_signer a = (sa_service a, sa_key a)"

lemma session_policy_iff:
  "validate_session_approval_policy r as = Inr () \<longleftrightarrow>
     satisfies_review (dp_policy (rd_profile r)) (map (\<lambda>a. (sa_service a, sa_role a)) as) \<and>
     (\<forall>a\<in>set as. matches_profile_approval r a)"
  by (auto simp: validate_session_approval_policy_def Let_def satisfies_review_def failure_def check_roles_iff check_all_iff
      not_less comp_def image_image result_simps)

text \<open>
  The approvals of a request: they satisfy the review policy of the profile, each signer approved
  the profile itself in the same role, and each tag is a signature under the trust bundle.
\<close>

definition session_approved ::
  "ed25519 \<Rightarrow> trust_bundle \<Rightarrow> session_request \<Rightarrow> reviewed_profile \<Rightarrow> session_approval list \<Rightarrow> bool" where
  "session_approved c b q r as \<longleftrightarrow>
     satisfies_review (dp_policy (rd_profile r)) (map (\<lambda>a. (sa_service a, sa_role a)) as) \<and>
     distinct (map session_signer as) \<and>
     (\<forall>a\<in>set as. sa_request a = rq_id q \<and>
        (\<exists>p\<in>set (ps_approvals (rd_approvals r)). profile_signer p = session_signer a \<and> pa_role p = sa_role a) \<and>
        signs_as c b (rq_trust_sequence q) (session_signer a) (sa_tag a) (execution_session_approval_message a))"

lemma matches_profile_approval_iff:
  "matches_profile_approval r a \<longleftrightarrow>
     (\<exists>p\<in>set (ps_approvals (rd_approvals r)). profile_signer p = session_signer a \<and> pa_role p = sa_role a)"
  by (auto simp: matches_profile_approval_def list_ex_iff profile_signer_def session_signer_def)

lemma verified_session_approvals:
  assumes "verify_execution_session_approvals c q r s b = Inr ()"
  shows "session_approved c b q r (ss_approvals s)" "ss_request s = rq_id q"
    "rq_trust_bundle q = tb_id b" "rq_trust_sequence q = tb_sequence b"
proof -
  have v: "valid_execution_session_approval_set s" "ss_request s = rq_id q" "rq_trust_bundle q = tb_id b"
      "rq_trust_sequence q = tb_sequence b" "validate_session_approval_policy r (ss_approvals s) = Inr ()"
      "check_all (verify_session_approval c b (rq_trust_sequence q)) (ss_approvals s) = Inr ()"
    using assms by (auto simp: verify_execution_session_approvals_def failure_def result_simps split: if_splits)
  then show "ss_request s = rq_id q" "rq_trust_bundle q = tb_id b" "rq_trust_sequence q = tb_sequence b" by simp_all
  have "distinct (map session_signer (ss_approvals s))" "\<forall>a\<in>set (ss_approvals s). sa_request a = rq_id q"
    using v(1,2) by (simp_all add: valid_execution_session_approval_set_def session_signer_def [abs_def] list_all_iff)
  with v(5,6) session_approvals.verified(2) show "session_approved c b q r (ss_approvals s)"
    by (simp add: session_approved_def session_policy_iff matches_profile_approval_iff check_all_iff session_signer_def)
qed

section \<open>Acknowledgements\<close>

text \<open>A tag is a signature of the text by the key of an endpoint.\<close>

definition endpoint_signs :: "ed25519 \<Rightarrow> endpoint_key \<Rightarrow> string \<Rightarrow> string \<Rightarrow> bool" where
  "endpoint_signs c k tag text \<longleftrightarrow>
     (\<exists>signature. decode_hex tag 64 = Inr signature \<and> ed_check c signature (ek_public k) text)"

lemma verified_controller:
  assumes "verify_execution_controller_acknowledgement c q a = Inr ()"
  shows "ca_request a = rq_id q" "ca_sequence a = rq_sequence q" "ca_count a = rq_count q"
    "endpoint_signs c (rq_controller q) (ca_tag a) (execution_controller_acknowledgement_message a)"
  using assms
  by (auto simp: verify_execution_controller_acknowledgement_def failure_def result_simps endpoint_signs_def
      ed25519_verify_iff kEd25519SignatureBytes_def split: if_splits)

lemma verified_monitor:
  assumes "verify_execution_monitor_acknowledgement c q a = Inr ()"
  shows "xo_request (ma_observation a) = rq_id q" "xo_command_sequence (ma_observation a) = rq_sequence q"
    "endpoint_signs c (rq_monitor q) (ma_tag a) (execution_monitor_acknowledgement_message a)"
  using assms
  by (auto simp: verify_execution_monitor_acknowledgement_def failure_def result_simps endpoint_signs_def
      ed25519_verify_iff kEd25519SignatureBytes_def split: if_splits)

section \<open>The commands\<close>

lemma commands_valid_nth:
  assumes "commands_valid d i before es" and "k < length es"
  shows "ec_index (es ! k) = of_nat (i + k)" "valid_configuration (ec_configuration (es ! k)) d"
  using assms by (induction d i before es arbitrary: k rule: commands_valid.induct)
    (auto simp: nth_Cons split: if_splits nat.splits)

lemma commands_valid_offsets:
  assumes "commands_valid d i before es"
  shows "sorted_wrt (<) (map ec_offset es) \<and>
    (case before of None \<Rightarrow> es \<noteq> [] \<longrightarrow> ec_offset (hd es) = 0 | Some p \<Rightarrow> \<forall>e\<in>set es. ec_offset p < ec_offset e)"
  using assms
proof (induction d i before es rule: commands_valid.induct)
  case (2 d i before e es)
  then have e: "sorted_wrt (<) (map ec_offset es)" "\<forall>f\<in>set es. ec_offset e < ec_offset f"
      "case before of None \<Rightarrow> ec_offset e = 0 | Some p \<Rightarrow> ec_offset p < ec_offset e"
    by (auto split: if_splits option.splits)
  then show ?case by (auto split: option.splits dest: less_trans)
qed (simp split: option.split)

text \<open>What a valid sequence says of its commands.\<close>

lemma sequence_commands:
  assumes "sequence_valid s"
  shows "2 \<le> length (sq_commands s)" "ec_offset (hd (sq_commands s)) = 0" "sorted_wrt (<) (map ec_offset (sq_commands s))"
    "k < length (sq_commands s) \<Longrightarrow> ec_index (sq_commands s ! k) = of_nat k"
    "k < length (sq_commands s) \<Longrightarrow> valid_configuration (ec_configuration (sq_commands s ! k)) (sq_dimension s)"
  using assms commands_valid_offsets [of "sq_dimension s" 0 None "sq_commands s"]
    commands_valid_nth [of "sq_dimension s" 0 None "sq_commands s" k]
  by (auto simp: sequence_valid_def split: if_splits)

section \<open>Sessions\<close>

lemma compatible_replays:
  assumes "verify_compatible s a tests = Inr ()"
  shows "sequence_valid s" "sq_atlas s = at_id a" "sq_dimension s = at_dimension a" "sq_robot s = at_robot a"
    "sq_scene s = at_scene a"
    "\<exists>t. at_audit a tests (map ec_configuration (sq_commands s)) = Inr t \<and> certified t \<and> ta_regions t = sq_regions s"
    "\<exists>r. at_route a (hd (map ec_configuration (sq_commands s))) (last (map ec_configuration (sq_commands s))) = Inr (Some r) \<and>
       ar_level r = CertifiedConnectivity \<and> ar_id r = sq_certificate s"
  using assms
  by (auto simp: verify_compatible_def Let_def failure_def result_simps route_certified_def split: if_splits option.splits)

text \<open>
  The window of a session: it opens when the monitor observed the armed sequence and closes while
  that observation is still as fresh as the reviewed profile demands.
\<close>

definition session_window :: "execution_session \<Rightarrow> reviewed_profile \<Rightarrow> bool" where
  "session_window e r \<longleftrightarrow> (let ob = ma_observation (es_monitor e); l = rq_limits (es_request e) in
     es_from e = xo_observed ob \<and>
     unat (es_deadline e) = unat (xo_observed ob) + unat (sl_start_delay l) \<and>
     unat (es_through e) = unat (xo_observed ob) + unat (sl_duration l) \<and>
     unat (rs_observation_age (xo_runtime ob)) + unat (sl_duration l) \<le>
       unat (cn_observation_age (dp_constraints (rd_profile r))))"

lemma create_session_steps:
  assumes "create_session c q s as ca ma r b a = Inr e"
  obtains am deadline through where
    "verify_compatible s a default_region_tests = Inr ()" "verify_execution_session_approvals c q r as b = Inr ()"
    "verify_execution_controller_acknowledgement c q ca = Inr ()"
    "verify_execution_monitor_acknowledgement c q ma = Inr ()"
    "xo_monitor (ma_observation ma) = ArmedCertifiedSequence"
    "assess_snapshot r (xo_runtime (ma_observation ma)) = Inr am" "am_status am = Conformant"
    "rs_observation_age (xo_runtime (ma_observation ma)) \<le> cn_observation_age (dp_constraints (rd_profile r))"
    "sl_duration (rq_limits q) \<le> cn_observation_age (dp_constraints (rd_profile r)) -
       rs_observation_age (xo_runtime (ma_observation ma))"
    "checked_add (xo_observed (ma_observation ma)) (sl_start_delay (rq_limits q)) = Some deadline"
    "checked_add (xo_observed (ma_observation ma)) (sl_duration (rq_limits q)) = Some through"
    "session_valid e" "es_request e = q" "es_sequence e = s" "es_approvals e = as" "es_controller e = ca"
    "es_monitor e = ma" "es_from e = xo_observed (ma_observation ma)" "es_deadline e = deadline" "es_through e = through"
  using assms unfolding create_session_def Let_def failure_def
  by (auto simp: result_simps not_less split: if_splits option.splits)

lemma session_created:
  assumes "create_session c q s as ca ma r b a = Inr e"
  shows "session_valid e" "es_request e = q" "es_sequence e = s" "es_approvals e = as" "es_controller e = ca" "es_monitor e = ma"
    "verify_compatible s a default_region_tests = Inr ()" "session_approved c b q r (ss_approvals as)"
    "endpoint_signs c (rq_controller q) (ca_tag ca) (execution_controller_acknowledgement_message ca)"
    "endpoint_signs c (rq_monitor q) (ma_tag ma) (execution_monitor_acknowledgement_message ma)"
    "xo_monitor (ma_observation ma) = ArmedCertifiedSequence"
    "\<not> violated (rd_profile r) (xo_runtime (ma_observation ma)) v" "session_window e r"
proof -
  show "session_valid e" "es_request e = q" "es_sequence e = s" "es_approvals e = as" "es_controller e = ca" "es_monitor e = ma"
    "verify_compatible s a default_region_tests = Inr ()" "session_approved c b q r (ss_approvals as)"
    "endpoint_signs c (rq_controller q) (ca_tag ca) (execution_controller_acknowledgement_message ca)"
    "endpoint_signs c (rq_monitor q) (ma_tag ma) (execution_monitor_acknowledgement_message ma)"
    "xo_monitor (ma_observation ma) = ArmedCertifiedSequence"
    "\<not> violated (rd_profile r) (xo_runtime (ma_observation ma)) v"
    by (rule create_session_steps [OF assms]; simp add: verified_session_approvals verified_controller verified_monitor
        assessed(3))+
  show "session_window e r"
  proof (rule create_session_steps [OF assms])
    fix deadline through
    let ?ob = "ma_observation ma" and ?m = "cn_observation_age (dp_constraints (rd_profile r))"
    let ?age = "rs_observation_age (xo_runtime ?ob)"
    assume *: "?age \<le> ?m" "sl_duration (rq_limits q) \<le> ?m - ?age"
      "checked_add (xo_observed ?ob) (sl_start_delay (rq_limits q)) = Some deadline"
      "checked_add (xo_observed ?ob) (sl_duration (rq_limits q)) = Some through"
      "es_request e = q" "es_monitor e = ma" "es_from e = xo_observed ?ob" "es_deadline e = deadline" "es_through e = through"
    have "unat (?m - ?age) = unat ?m - unat ?age" using *(1) by (rule unat_sub)
    then have "unat ?age + unat (sl_duration (rq_limits q)) \<le> unat ?m"
      using *(1,2) by (simp add: word_le_nat_alt)
    with * show "session_window e r" by (simp add: session_window_def Let_def checked_add_iff)
  qed
qed

section \<open>Authorized commands\<close>

text \<open>
  The window of the command at an index: from its scheduled time for the observed command latency,
  never beyond the session, and the first command not beyond the start deadline.
\<close>

definition command_window :: "execution_session \<Rightarrow> nat \<Rightarrow> nat \<Rightarrow> bool" where
  "command_window e i t \<longleftrightarrow>
     (let scheduled = unat (es_from e) + unat (ec_offset (sq_commands (es_sequence e) ! i)) in
      scheduled \<le> t \<and> t \<le> scheduled + unat (rs_command_latency (xo_runtime (ma_observation (es_monitor e)))) \<and>
      t \<le> unat (es_through e) \<and> (i = 0 \<longrightarrow> t \<le> unat (es_deadline e)))"

definition same_configuration :: "configuration \<Rightarrow> configuration \<Rightarrow> bool" where
  "same_configuration q r \<longleftrightarrow> list_all2 f64_eq q r"

lemma authorized_command:
  assumes "session_authorize_command e i q t = Inr (Some u)"
  shows "session_valid e" "unat i < length (sq_commands (es_sequence e))" "au_index u = i" "au_dispatch u = t"
    "au_session u = es_id e" "au_sequence u = sq_id (es_sequence e)"
    "au_digest u = execution_command_digest (sq_commands (es_sequence e) ! unat i)"
    "same_configuration q (ec_configuration (sq_commands (es_sequence e) ! unat i))"
    "command_window e (unat i) (unat t)" "authorization_valid u"
proof -
  let ?command = "sq_commands (es_sequence e) ! unat i"
  let ?latency = "rs_command_latency (xo_runtime (ma_observation (es_monitor e)))"
  obtain from_ns latency_deadline where w: "session_valid e" "\<not> unat i \<ge> length (sq_commands (es_sequence e))"
      "list_all2 f64_eq q (ec_configuration ?command)" "checked_add (es_from e) (ec_offset ?command) = Some from_ns"
      "checked_add from_ns ?latency = Some latency_deadline" "from_ns \<le> t" "t \<le> latency_deadline" "t \<le> es_through e"
      "i = 0 \<longrightarrow> t \<le> es_deadline e"
    and u: "au_index u = i" "au_dispatch u = t" "au_session u = es_id e" "au_sequence u = sq_id (es_sequence e)"
      "au_digest u = execution_command_digest ?command" "au_from u = from_ns" "au_evidence u = RuntimeExecutable"
      "au_dispatch u \<le> au_through u" "au_id u = execution_command_authorization_identity u"
    using assms
    by (auto simp: session_authorize_command_def Let_def failure_def not_less execution_command_authorization_identity_def
        split: if_splits option.splits)
  show "session_valid e" "unat i < length (sq_commands (es_sequence e))" "au_index u = i" "au_dispatch u = t"
    "au_session u = es_id e" "au_sequence u = sq_id (es_sequence e)" "au_digest u = execution_command_digest ?command"
    "same_configuration q (ec_configuration ?command)"
    using w u by (simp_all add: same_configuration_def)
  show "command_window e (unat i) (unat t)"
    using w(4-) by (auto simp: command_window_def Let_def checked_add_iff word_le_nat_alt unsigned_eq_0_iff)
  have "valid_sha256 (au_session u)" "valid_sha256 (au_sequence u)"
    unfolding u using w(1) by (auto simp: session_valid_def sequence_valid_def split: if_splits)
  moreover have "valid_sha256 (au_digest u)" by (simp add: u execution_command_digest_def)
  moreover have "valid_sha256 (au_id u)" unfolding u(9) by (simp add: execution_command_authorization_identity_def)
  ultimately show "authorization_valid u"
    using u w(6) by (auto simp: authorization_valid_def)
qed

text \<open>Every command of a session is authorized throughout its window, unless the clock would wrap.\<close>

lemma authorizes_in_window:
  assumes "session_valid e" and "valid_configuration q (sq_dimension (es_sequence e))" and "t \<noteq> 0"
    and "unat i < length (sq_commands (es_sequence e))"
    and "same_configuration q (ec_configuration (sq_commands (es_sequence e) ! unat i))"
    and "command_window e (unat i) (unat t)"
    and "unat (es_from e) + unat (ec_offset (sq_commands (es_sequence e) ! unat i)) +
      unat (rs_command_latency (xo_runtime (ma_observation (es_monitor e)))) < 2 ^ 64"
  shows "\<exists>u. session_authorize_command e i q t = Inr (Some u)"
proof -
  let ?command = "sq_commands (es_sequence e) ! unat i"
  let ?latency = "rs_command_latency (xo_runtime (ma_observation (es_monitor e)))"
  have 1: "checked_add (es_from e) (ec_offset ?command) = Some (es_from e + ec_offset ?command)"
    "unat (es_from e + ec_offset ?command) = unat (es_from e) + unat (ec_offset ?command)"
    using assms(7) by (simp_all add: checked_add_iff unat_word_ariths)
  have 2: "checked_add (es_from e + ec_offset ?command) ?latency = Some (es_from e + ec_offset ?command + ?latency)"
    "unat (es_from e + ec_offset ?command + ?latency) = unat (es_from e) + unat (ec_offset ?command) + unat ?latency"
    using assms(7) by (simp_all add: checked_add_iff unat_word_ariths)
  have "\<not> t < es_from e + ec_offset ?command" "\<not> es_from e + ec_offset ?command + ?latency < t" "\<not> es_through e < t"
    "i = 0 \<longrightarrow> \<not> es_deadline e < t"
    using assms(6) 1(2) 2(2) by (auto simp: command_window_def Let_def word_less_nat_alt not_less)
  then show ?thesis
    using assms(1-5) 1(1) 2(1) by (auto simp: session_authorize_command_def Let_def same_configuration_def not_less)
qed

text \<open>No command is sent on an observation older than the profile allows.\<close>

lemma window_fresh:
  assumes "session_window e r" and "command_window e i t"
  shows "unat (xo_observed (ma_observation (es_monitor e))) \<le> t"
    "unat (rs_observation_age (xo_runtime (ma_observation (es_monitor e)))) +
       (t - unat (xo_observed (ma_observation (es_monitor e)))) \<le>
     unat (cn_observation_age (dp_constraints (rd_profile r)))"
  using assms by (auto simp: session_window_def command_window_def Let_def)

end
