(* ===== verification/Execution_Ledger.thy ===== *)
theory Execution_Ledger
  imports Execution_Session_Laws
begin

text \<open>
  \<^verbatim>\<open>src/execution_ledger.cpp\<close> and \<^verbatim>\<open>include/rbfsafe/execution_ledger.h\<close>: the ledger of an execution
  session, a hash chain of records that only grows. Commands are authorized one at a time, each
  under a pinned checkpoint of the trust history, and completed by the controller; a session ends
  completed, failed, cancelled, expired or revoked. The ledger on disk
  is an argument: an operation takes what it reads there under the write lock.
\<close>

section \<open>Completions and revocations\<close>

definition kMaximumTextBytes :: nat where "kMaximumTextBytes = 4096"

definition ledger_text :: "bool \<Rightarrow> string \<Rightarrow> bool" where
  "ledger_text allow_empty v \<longleftrightarrow> (allow_empty \<or> v \<noteq> []) \<and> length v \<le> kMaximumTextBytes \<and>
     list_all (\<lambda>c. (of_char c :: nat) \<ge> 0x20 \<and> (of_char c :: nat) \<noteq> 0x7f) v"

datatype completion_outcome = OutcomeCompleted | OutcomeFailed | OutcomeRejected

fun completion_outcome_code :: "completion_outcome \<Rightarrow> nat" where
  "completion_outcome_code OutcomeCompleted = 0"
| "completion_outcome_code OutcomeFailed = 1"
| "completion_outcome_code OutcomeRejected = 2"

fun execution_completion_outcome_name :: "completion_outcome \<Rightarrow> string" where
  "execution_completion_outcome_name OutcomeCompleted = ''completed''"
| "execution_completion_outcome_name OutcomeFailed = ''failed''"
| "execution_completion_outcome_name OutcomeRejected = ''rejected''"

definition valid_completion_outcome :: "completion_outcome \<Rightarrow> bool" where
  "valid_completion_outcome v \<longleftrightarrow> completion_outcome_code v \<ge> completion_outcome_code OutcomeCompleted \<and>
     completion_outcome_code v \<le> completion_outcome_code OutcomeRejected"

record completion_input =
  ci_outcome :: completion_outcome
  ci_completed :: u64
  ci_result :: string

record controller_completion =
  cc_schema :: u32
  cc_id :: string
  cc_session :: string
  cc_authorization :: string
  cc_sequence :: string
  cc_index :: u64
  cc_digest :: string
  cc_service :: string
  cc_key :: string
  cc_outcome :: completion_outcome
  cc_completed :: u64
  cc_result :: string
  cc_algorithm :: algorithm
  cc_tag :: string

definition completion_payload :: "controller_completion \<Rightarrow> json" where
  "completion_payload v = json_object
     [(''algorithm'', json_int (algorithm_code (cc_algorithm v))), (''authorization_id'', JStr (cc_authorization v)),
      (''command_digest'', JStr (cc_digest v)), (''command_index'', JStr (to_string (cc_index v))),
      (''command_sequence_id'', JStr (cc_sequence v)),
      (''completed_monotonic_ns'', JStr (to_string (cc_completed v))), (''controller_key_id'', JStr (cc_key v)),
      (''controller_service_id'', JStr (cc_service v)),
      (''format'', JStr ''rbfsafe-execution-controller-completion''),
      (''outcome'', json_int (completion_outcome_code (cc_outcome v))), (''result_digest'', JStr (cc_result v)),
      (''schema'', json_int (unat (cc_schema v))), (''session_id'', JStr (cc_session v))]"

definition execution_controller_completion_message :: "controller_completion \<Rightarrow> string" where
  "execution_controller_completion_message v =
     identity_text ''rbfsafe-execution-controller-completion-v1'' (completion_payload v)"

definition execution_controller_completion_identity :: "controller_completion \<Rightarrow> string" where
  "execution_controller_completion_identity v =
     sha256 (''rbfsafe-execution-controller-completion-identity-v1'' @ [CHR 0x0A] @
       execution_controller_completion_message v @ [CHR 0x0A] @ cc_tag v)"

definition completion_valid :: "controller_completion \<Rightarrow> bool" where
  "completion_valid v \<longleftrightarrow>
     cc_schema v = 1 \<and> valid_sha256 (cc_id v) \<and> valid_sha256 (cc_session v) \<and> valid_sha256 (cc_authorization v) \<and>
     valid_sha256 (cc_sequence v) \<and> valid_sha256 (cc_digest v) \<and> ledger_text False (cc_service v) \<and>
     valid_sha256 (cc_key v) \<and> valid_completion_outcome (cc_outcome v) \<and> cc_completed v > 0 \<and>
     valid_sha256 (cc_result v) \<and> cc_algorithm v = Ed25519 \<and>
     has_value (decode_hex (cc_tag v) kEd25519SignatureBytes) \<and>
     cc_id v = execution_controller_completion_identity v"

definition verified_controller_key_pair :: "ed25519 \<Rightarrow> execution_session \<Rightarrow> u8 list \<Rightarrow> (u8 list \<times> u8 list) result" where
  "verified_controller_key_pair c e secret_key =
     (if \<not> session_valid e \<or> length secret_key \<noteq> kEd25519SecretKeyBytes
      then failure InvalidArgument ''execution completion signing input is invalid'' []
      else rbind (ed25519_key_pair_from_seed c (take kEd25519SeedBytes secret_key)) (\<lambda>pair.
        if fst pair \<noteq> secret_key
        then failure IdentityMismatch ''execution controller secret-key seed and public half do not match''
          (ek_id (rq_controller (es_request e)))
        else rbind (make_execution_endpoint_key (ek_service (rq_controller (es_request e))) ControllerRole (snd pair))
          (\<lambda>k. if ek_id k \<noteq> ek_id (rq_controller (es_request e))
               then failure IdentityMismatch ''execution controller secret key does not match the session endpoint''
                 (ek_id (rq_controller (es_request e)))
               else Inr pair)))"

definition sign_execution_controller_completion ::
  "ed25519 \<Rightarrow> execution_session \<Rightarrow> command_authorization \<Rightarrow> completion_input \<Rightarrow> u8 list \<Rightarrow> controller_completion result" where
  "sign_execution_controller_completion c e u i secret_key =
     (if \<not> session_valid e \<or> \<not> authorization_valid u \<or> au_session u \<noteq> es_id e \<or> au_sequence u \<noteq> sq_id (es_sequence e) \<or>
         unat (au_index u) \<ge> length (sq_commands (es_sequence e)) \<or>
         au_digest u \<noteq> execution_command_digest (sq_commands (es_sequence e) ! unat (au_index u)) \<or>
         \<not> valid_completion_outcome (ci_outcome i) \<or> ci_completed i < au_dispatch u \<or> \<not> valid_sha256 (ci_result i)
      then failure InvalidArgument ''execution controller-completion input is invalid'' []
      else rbind (verified_controller_key_pair c e secret_key) (\<lambda>_.
        let v = \<lparr>cc_schema = 1, cc_id = [], cc_session = es_id e, cc_authorization = au_id u, cc_sequence = au_sequence u,
                 cc_index = au_index u, cc_digest = au_digest u, cc_service = ek_service (rq_controller (es_request e)),
                 cc_key = ek_id (rq_controller (es_request e)), cc_outcome = ci_outcome i, cc_completed = ci_completed i,
                 cc_result = ci_result i, cc_algorithm = Ed25519, cc_tag = []\<rparr>
        in rbind (ed25519_sign c (execution_controller_completion_message v) secret_key) (\<lambda>signature.
             let v = v\<lparr>cc_tag := encode_hex signature\<rparr>
             in Inr (v\<lparr>cc_id := execution_controller_completion_identity v\<rparr>))))"

definition verify_execution_controller_completion ::
  "ed25519 \<Rightarrow> execution_session \<Rightarrow> command_authorization \<Rightarrow> controller_completion \<Rightarrow> unit result" where
  "verify_execution_controller_completion c e u v =
     (if \<not> session_valid e \<or> \<not> authorization_valid u \<or> \<not> completion_valid v
      then failure InvalidArgument ''execution controller-completion verification input is invalid'' []
      else if cc_session v \<noteq> es_id e \<or> cc_authorization v \<noteq> au_id u \<or> cc_sequence v \<noteq> au_sequence u \<or>
         cc_index v \<noteq> au_index u \<or> cc_digest v \<noteq> au_digest u \<or>
         cc_service v \<noteq> ek_service (rq_controller (es_request e)) \<or> cc_key v \<noteq> ek_id (rq_controller (es_request e)) \<or>
         cc_completed v < au_dispatch u
      then failure IdentityMismatch ''execution controller completion does not match the exact authorization'' (cc_id v)
      else rbind (decode_hex (cc_tag v) kEd25519SignatureBytes) (\<lambda>signature.
        ed25519_verify c (execution_controller_completion_message v) signature (ek_public (rq_controller (es_request e)))))"

datatype dependency_kind = DependsOnProfile | DependsOnAtlas | DependsOnScene | DependsOnController | DependsOnMonitor
  | DependsOnReviewer | DependsOnCheckpoint

fun dependency_kind_code :: "dependency_kind \<Rightarrow> nat" where
  "dependency_kind_code DependsOnProfile = 0"
| "dependency_kind_code DependsOnAtlas = 1"
| "dependency_kind_code DependsOnScene = 2"
| "dependency_kind_code DependsOnController = 3"
| "dependency_kind_code DependsOnMonitor = 4"
| "dependency_kind_code DependsOnReviewer = 5"
| "dependency_kind_code DependsOnCheckpoint = 6"

fun execution_dependency_kind_name :: "dependency_kind \<Rightarrow> string" where
  "execution_dependency_kind_name DependsOnProfile = ''reviewed_profile''"
| "execution_dependency_kind_name DependsOnAtlas = ''atlas''"
| "execution_dependency_kind_name DependsOnScene = ''scene''"
| "execution_dependency_kind_name DependsOnController = ''controller_key''"
| "execution_dependency_kind_name DependsOnMonitor = ''runtime_monitor_key''"
| "execution_dependency_kind_name DependsOnReviewer = ''reviewer_key''"
| "execution_dependency_kind_name DependsOnCheckpoint = ''trust_checkpoint''"

definition valid_dependency_kind :: "dependency_kind \<Rightarrow> bool" where
  "valid_dependency_kind k \<longleftrightarrow> dependency_kind_code k \<ge> dependency_kind_code DependsOnProfile \<and>
     dependency_kind_code k \<le> dependency_kind_code DependsOnCheckpoint"

record dependency_revocation =
  dr_kind :: dependency_kind
  dr_subject :: string
  dr_detail :: string

definition valid_execution_dependency_revocation :: "dependency_revocation \<Rightarrow> bool" where
  "valid_execution_dependency_revocation d \<longleftrightarrow>
     valid_dependency_kind (dr_kind d) \<and> valid_sha256 (dr_subject d) \<and> ledger_text False (dr_detail d)"

definition revocation_payload :: "dependency_revocation \<Rightarrow> json" where
  "revocation_payload d = json_object
     [(''detail'', JStr (dr_detail d)), (''kind'', json_int (dependency_kind_code (dr_kind d))),
      (''subject_id'', JStr (dr_subject d))]"

section \<open>Records\<close>

datatype ledger_record_type = SessionOpened | CommandAuthorized | ControllerCompletion | SessionCancelled | SessionExpired
  | DependencyRevoked

fun ledger_record_type_code :: "ledger_record_type \<Rightarrow> nat" where
  "ledger_record_type_code SessionOpened = 0"
| "ledger_record_type_code CommandAuthorized = 1"
| "ledger_record_type_code ControllerCompletion = 2"
| "ledger_record_type_code SessionCancelled = 3"
| "ledger_record_type_code SessionExpired = 4"
| "ledger_record_type_code DependencyRevoked = 5"

fun execution_ledger_record_type_name :: "ledger_record_type \<Rightarrow> string" where
  "execution_ledger_record_type_name SessionOpened = ''session_opened''"
| "execution_ledger_record_type_name CommandAuthorized = ''command_authorized''"
| "execution_ledger_record_type_name ControllerCompletion = ''controller_completion''"
| "execution_ledger_record_type_name SessionCancelled = ''session_cancelled''"
| "execution_ledger_record_type_name SessionExpired = ''session_expired''"
| "execution_ledger_record_type_name DependencyRevoked = ''dependency_revoked''"

definition valid_record_type :: "ledger_record_type \<Rightarrow> bool" where
  "valid_record_type t \<longleftrightarrow> ledger_record_type_code t \<ge> ledger_record_type_code SessionOpened \<and>
     ledger_record_type_code t \<le> ledger_record_type_code DependencyRevoked"

record ledger_record =
  lr_schema :: u32
  lr_sequence :: u64
  lr_id :: string
  lr_parent :: string
  lr_ledger :: string
  lr_session :: string
  lr_type :: ledger_record_type
  lr_observed :: u64
  lr_authorization :: "command_authorization option"
  lr_completion :: "controller_completion option"
  lr_checkpoint :: "trust_checkpoint option"
  lr_revocation :: "dependency_revocation option"
  lr_detail :: string

definition execution_ledger_identity :: "string \<Rightarrow> string" where
  "execution_ledger_identity session = sha256 (canonical (json_object
     [(''format'', JStr ''rbfsafe-execution-ledger''), (''schema'', json_int 1), (''session_id'', JStr session)]))"

definition optional_text :: "('a \<Rightarrow> string) \<Rightarrow> 'a option \<Rightarrow> string" where
  "optional_text f x = (case x of None \<Rightarrow> [] | Some y \<Rightarrow> f y)"

definition execution_ledger_record_identity :: "ledger_record \<Rightarrow> string" where
  "execution_ledger_record_identity r = sha256 (canonical (json_object
     [(''authorization_id'', JStr (optional_text au_id (lr_authorization r))),
      (''completion_id'', JStr (optional_text cc_id (lr_completion r))), (''detail'', JStr (lr_detail r)),
      (''format'', JStr ''rbfsafe-execution-ledger-record''), (''ledger_id'', JStr (lr_ledger r)),
      (''observed_monotonic_ns'', JStr (to_string (lr_observed r))), (''parent_id'', JStr (lr_parent r)),
      (''revocation'', (case lr_revocation r of Some d \<Rightarrow> revocation_payload d | None \<Rightarrow> json_object [])),
      (''schema'', json_int (unat (lr_schema r))), (''sequence'', JStr (to_string (lr_sequence r))),
      (''session_id'', JStr (lr_session r)),
      (''trust_checkpoint_id'', JStr (optional_text tc_id (lr_checkpoint r))),
      (''type'', json_int (ledger_record_type_code (lr_type r)))]))"

text \<open>The switch over the type of a record.\<close>

definition record_content_valid :: "ledger_record \<Rightarrow> bool" where
  "record_content_valid r \<longleftrightarrow> (case lr_type r of
     SessionOpened \<Rightarrow> lr_sequence r = 0 \<and> lr_authorization r = None \<and> lr_completion r = None \<and> lr_checkpoint r = None \<and>
       lr_revocation r = None \<and> lr_detail r = []
   | CommandAuthorized \<Rightarrow> lr_sequence r \<noteq> 0 \<and> lr_completion r = None \<and> lr_revocation r = None \<and> lr_detail r = [] \<and>
       (case (lr_authorization r, lr_checkpoint r) of
          (Some u, Some t) \<Rightarrow> authorization_valid u \<and> trust_checkpoint_valid t \<and> lr_observed r = au_dispatch u
        | _ \<Rightarrow> False)
   | ControllerCompletion \<Rightarrow> lr_sequence r \<noteq> 0 \<and> lr_authorization r = None \<and> lr_checkpoint r = None \<and>
       lr_revocation r = None \<and> lr_detail r = [] \<and>
       (case lr_completion r of Some v \<Rightarrow> completion_valid v \<and> lr_observed r = cc_completed v | None \<Rightarrow> False)
   | SessionCancelled \<Rightarrow> lr_sequence r \<noteq> 0 \<and> lr_authorization r = None \<and> lr_completion r = None \<and>
       lr_checkpoint r = None \<and> lr_revocation r = None \<and> ledger_text False (lr_detail r)
   | SessionExpired \<Rightarrow> lr_sequence r \<noteq> 0 \<and> lr_authorization r = None \<and> lr_completion r = None \<and>
       lr_checkpoint r = None \<and> lr_revocation r = None \<and> lr_detail r = []
   | DependencyRevoked \<Rightarrow> lr_sequence r \<noteq> 0 \<and> lr_authorization r = None \<and> lr_completion r = None \<and> lr_detail r = [] \<and>
       (case lr_revocation r of Some d \<Rightarrow> valid_execution_dependency_revocation d | None \<Rightarrow> False) \<and>
       (case lr_checkpoint r of None \<Rightarrow> True | Some t \<Rightarrow> trust_checkpoint_valid t))"

definition ledger_record_valid :: "ledger_record \<Rightarrow> bool" where
  "ledger_record_valid r \<longleftrightarrow>
     lr_schema r = 1 \<and> valid_sha256 (lr_id r) \<and> valid_sha256 (lr_ledger r) \<and> valid_sha256 (lr_session r) \<and>
     valid_record_type (lr_type r) \<and> lr_observed r \<noteq> 0 \<and>
     (if lr_sequence r = 0 then lr_parent r = [] else valid_sha256 (lr_parent r)) \<and> ledger_text True (lr_detail r) \<and>
     record_content_valid r \<and> lr_id r = execution_ledger_record_identity r"

end
