(* ===== verification/Ledger_State.thy ===== *)
theory Ledger_State
  imports Execution_Ledger
begin

text \<open>
  The ledger itself: the summary that replaying its records gives, the audit against the session
  and its dependencies, and the operations that append a record. \<open>ledger_disk\<close> is what an operation
  meets on disk: whether it gets the write lock, the ledger \<open>open\<close> reads, and the append.
\<close>

section \<open>Summaries\<close>

datatype ledger_status = LedgerOpen | AwaitingCompletion | LedgerCompleted | LedgerCancelled | LedgerExpired
  | LedgerRevoked | LedgerFailed

fun ledger_status_code :: "ledger_status \<Rightarrow> nat" where
  "ledger_status_code LedgerOpen = 0"
| "ledger_status_code AwaitingCompletion = 1"
| "ledger_status_code LedgerCompleted = 2"
| "ledger_status_code LedgerCancelled = 3"
| "ledger_status_code LedgerExpired = 4"
| "ledger_status_code LedgerRevoked = 5"
| "ledger_status_code LedgerFailed = 6"

fun execution_ledger_status_name :: "ledger_status \<Rightarrow> string" where
  "execution_ledger_status_name LedgerOpen = ''open''"
| "execution_ledger_status_name AwaitingCompletion = ''awaiting_completion''"
| "execution_ledger_status_name LedgerCompleted = ''completed''"
| "execution_ledger_status_name LedgerCancelled = ''cancelled''"
| "execution_ledger_status_name LedgerExpired = ''expired''"
| "execution_ledger_status_name LedgerRevoked = ''revoked''"
| "execution_ledger_status_name LedgerFailed = ''failed''"

definition valid_ledger_status :: "ledger_status \<Rightarrow> bool" where
  "valid_ledger_status v \<longleftrightarrow> ledger_status_code v \<ge> ledger_status_code LedgerOpen \<and>
     ledger_status_code v \<le> ledger_status_code LedgerFailed"

definition terminal_status :: "ledger_status \<Rightarrow> bool" where
  "terminal_status v \<longleftrightarrow> v = LedgerCompleted \<or> v = LedgerCancelled \<or> v = LedgerExpired \<or> v = LedgerRevoked \<or>
     v = LedgerFailed"

record ledger_summary =
  lm_id :: string
  lm_ledger :: string
  lm_session :: string
  lm_current :: string
  lm_status :: ledger_status
  lm_records :: nat
  lm_authorizations :: nat
  lm_completions :: nat
  lm_next :: nat
  lm_outstanding :: "u64 option"

definition execution_ledger_summary_identity :: "ledger_summary \<Rightarrow> string" where
  "execution_ledger_summary_identity m = sha256 (canonical (json_object
     [(''authorization_count'', json_int (lm_authorizations m)), (''completion_count'', json_int (lm_completions m)),
      (''current_record_id'', JStr (lm_current m)), (''format'', JStr ''rbfsafe-execution-ledger-summary''),
      (''ledger_id'', JStr (lm_ledger m)), (''next_command_index'', json_int (lm_next m)),
      (''outstanding_command_index'', JStr (optional_text to_string (lm_outstanding m))),
      (''record_count'', json_int (lm_records m)), (''schema'', json_int 1), (''session_id'', JStr (lm_session m)),
      (''status'', json_int (ledger_status_code (lm_status m)))]))"

definition ledger_summary_valid :: "ledger_summary \<Rightarrow> bool" where
  "ledger_summary_valid m \<longleftrightarrow>
     valid_sha256 (lm_id m) \<and> valid_sha256 (lm_ledger m) \<and> valid_sha256 (lm_session m) \<and>
     valid_sha256 (lm_current m) \<and> valid_ledger_status (lm_status m) \<and> lm_records m > 0 \<and>
     lm_completions m \<le> lm_authorizations m \<and> lm_next m \<le> lm_completions m \<and>
     lm_completions m - lm_next m \<le> 1 \<and> (lm_status m = AwaitingCompletion \<longleftrightarrow> lm_outstanding m \<noteq> None) \<and>
     (case lm_outstanding m of None \<Rightarrow> True | Some i \<Rightarrow> unat i = lm_next m) \<and>
     lm_id m = execution_ledger_summary_identity m"

text \<open>The switch over the type of a record that follows another.\<close>

definition apply_record :: "nat \<Rightarrow> u64 \<Rightarrow> ledger_record \<Rightarrow> ledger_record \<Rightarrow> ledger_summary \<Rightarrow> ledger_summary result" where
  "apply_record commands through previous r m = (case lr_type r of
     SessionOpened \<Rightarrow> failure CorruptData ''execution-ledger contains a second session-open record'' (lr_id r)
   | CommandAuthorized \<Rightarrow>
       (case lr_authorization r of
          Some u \<Rightarrow>
            if lm_status m \<noteq> LedgerOpen \<or> unat (au_index u) \<noteq> lm_next m \<or> unat (au_index u) \<ge> commands
            then failure CorruptData ''execution-ledger command authorization order is invalid'' (lr_id r)
            else Inr (m\<lparr>lm_authorizations := lm_authorizations m + 1, lm_outstanding := Some (au_index u),
                        lm_status := AwaitingCompletion\<rparr>)
        | None \<Rightarrow> failure CorruptData ''execution-ledger command authorization order is invalid'' (lr_id r))
   | ControllerCompletion \<Rightarrow>
       (case (lr_completion r, lm_outstanding m) of
          (Some v, Some outstanding) \<Rightarrow>
            if lm_status m \<noteq> AwaitingCompletion \<or> cc_index v \<noteq> outstanding
            then failure CorruptData ''execution-ledger controller-completion order is invalid'' (lr_id r)
            else (case lr_authorization previous of
                None \<Rightarrow> failure CorruptData ''execution-ledger completion does not match its authorization'' (lr_id r)
              | Some u \<Rightarrow>
                  if cc_authorization v \<noteq> au_id u
                  then failure CorruptData ''execution-ledger completion does not match its authorization'' (lr_id r)
                  else (let m = m\<lparr>lm_completions := lm_completions m + 1, lm_outstanding := None\<rparr> in
                    if cc_outcome v \<noteq> OutcomeCompleted then Inr (m\<lparr>lm_status := LedgerFailed\<rparr>)
                    else (let m = m\<lparr>lm_next := lm_next m + 1\<rparr> in
                      if cc_completed v > through then Inr (m\<lparr>lm_status := LedgerExpired\<rparr>)
                      else if lm_next m = commands then Inr (m\<lparr>lm_status := LedgerCompleted\<rparr>)
                      else Inr (m\<lparr>lm_status := LedgerOpen\<rparr>))))
        | _ \<Rightarrow> failure CorruptData ''execution-ledger controller-completion order is invalid'' (lr_id r))
   | SessionCancelled \<Rightarrow> Inr (m\<lparr>lm_outstanding := None, lm_status := LedgerCancelled\<rparr>)
   | SessionExpired \<Rightarrow>
       if lr_observed r \<le> through
       then failure CorruptData ''execution-ledger expiration precedes the closed session end'' (lr_id r)
       else Inr (m\<lparr>lm_outstanding := None, lm_status := LedgerExpired\<rparr>)
   | DependencyRevoked \<Rightarrow> Inr (m\<lparr>lm_outstanding := None, lm_status := LedgerRevoked\<rparr>))"

text \<open>The loop over the records, from index \<open>i\<close> with the record before it.\<close>

definition chain_broken :: "string \<Rightarrow> string \<Rightarrow> nat \<Rightarrow> ledger_record option \<Rightarrow> ledger_record \<Rightarrow> bool" where
  "chain_broken ledger session i previous r \<longleftrightarrow>
     \<not> ledger_record_valid r \<or> unat (lr_sequence r) \<noteq> i \<or> lr_ledger r \<noteq> ledger \<or> lr_session r \<noteq> session \<or>
     (case previous of None \<Rightarrow> lr_type r \<noteq> SessionOpened \<or> lr_parent r \<noteq> []
        | Some p \<Rightarrow> lr_parent r \<noteq> lr_id p)"

fun replay_ledger ::
  "string \<Rightarrow> string \<Rightarrow> nat \<Rightarrow> u64 \<Rightarrow> nat \<Rightarrow> ledger_record option \<Rightarrow> ledger_record list \<Rightarrow> ledger_summary \<Rightarrow>
     ledger_summary result" where
  "replay_ledger ledger session commands through i previous [] m = Inr m"
| "replay_ledger ledger session commands through i previous (r # rs) m =
     (if chain_broken ledger session i previous r
      then failure CorruptData ''execution-ledger record chain is invalid'' (lr_id r)
      else (case previous of
          None \<Rightarrow> replay_ledger ledger session commands through (Suc i) (Some r) rs m
        | Some p \<Rightarrow>
            if lr_observed r < lr_observed p
            then failure CorruptData ''execution-ledger monotonic observation time regressed'' (lr_id r)
            else if terminal_status (lm_status m)
            then failure CorruptData ''execution-ledger record appears after a terminal event'' (lr_id r)
            else rbind (apply_record commands through p r m)
              (replay_ledger ledger session commands through (Suc i) (Some r) rs)))"

definition fresh_summary :: "string \<Rightarrow> string \<Rightarrow> string \<Rightarrow> nat \<Rightarrow> ledger_summary" where
  "fresh_summary ledger session current n = \<lparr>lm_id = [], lm_ledger = ledger, lm_session = session, lm_current = current,
     lm_status = LedgerOpen, lm_records = n, lm_authorizations = 0, lm_completions = 0, lm_next = 0, lm_outstanding = None\<rparr>"

definition build_ledger_summary ::
  "string \<Rightarrow> string \<Rightarrow> string \<Rightarrow> ledger_record list \<Rightarrow> nat \<Rightarrow> u64 \<Rightarrow> ledger_summary result" where
  "build_ledger_summary ledger session current rs commands through =
     (if \<not> valid_sha256 ledger \<or> \<not> valid_sha256 session \<or> \<not> valid_sha256 current \<or> rs = [] \<or> commands < 2 \<or> through = 0
      then failure CorruptData ''execution-ledger summary input is invalid'' []
      else rbind (replay_ledger ledger session commands through 0 None rs (fresh_summary ledger session current (length rs)))
        (\<lambda>m. Inr (m\<lparr>lm_id := execution_ledger_summary_identity m\<rparr>)))"

section \<open>The ledger\<close>

record execution_ledger =
  el_directory :: string
  el_id :: string
  el_session :: string
  el_current :: string
  el_count :: nat
  el_from :: u64
  el_through :: u64
  el_records :: "ledger_record list"
  el_maximum :: nat

definition ledger_replayed :: "execution_ledger \<Rightarrow> ledger_summary result" where
  "ledger_replayed l = build_ledger_summary (el_id l) (el_session l) (el_current l) (el_records l) (el_count l) (el_through l)"

definition ledger_valid :: "execution_ledger \<Rightarrow> bool" where
  "ledger_valid l =
     (if el_directory l = [] \<or> \<not> valid_sha256 (el_id l) \<or> \<not> valid_sha256 (el_session l) \<or>
         \<not> valid_sha256 (el_current l) \<or> el_count l < 2 \<or> el_from l = 0 \<or> el_from l > el_through l \<or>
         el_records l = [] \<or> length (el_records l) > el_maximum l \<or>
         lr_observed (hd (el_records l)) \<noteq> el_from l \<or> el_id l \<noteq> execution_ledger_identity (el_session l) \<or>
         el_current l \<noteq> lr_id (last (el_records l))
      then False
      else (case ledger_replayed l of Inl _ \<Rightarrow> False | Inr m \<Rightarrow> ledger_summary_valid m))"

definition empty_summary :: ledger_summary where
  "empty_summary = fresh_summary [] [] [] 0"

definition ledger_summary_of :: "execution_ledger \<Rightarrow> ledger_summary" where
  "ledger_summary_of l = (case ledger_replayed l of Inl _ \<Rightarrow> empty_summary | Inr m \<Rightarrow> m)"

definition ledger_root :: "execution_session \<Rightarrow> ledger_record" where
  "ledger_root e =
     (let r = \<lparr>lr_schema = 1, lr_sequence = 0, lr_id = [], lr_parent = [], lr_ledger = execution_ledger_identity (es_id e),
               lr_session = es_id e, lr_type = SessionOpened, lr_observed = es_from e, lr_authorization = None,
               lr_completion = None, lr_checkpoint = None, lr_revocation = None, lr_detail = []\<rparr>
      in r\<lparr>lr_id := execution_ledger_record_identity r\<rparr>)"

definition default_maximum_records :: nat where "default_maximum_records = 1000000"

text \<open>The object that \<open>ExecutionLedger::create\<close> returns once the directory is published.\<close>

definition created_ledger :: "string \<Rightarrow> execution_session \<Rightarrow> execution_ledger" where
  "created_ledger directory e = \<lparr>el_directory = directory, el_id = execution_ledger_identity (es_id e), el_session = es_id e,
     el_current = lr_id (ledger_root e), el_count = length (sq_commands (es_sequence e)), el_from = es_from e,
     el_through = es_through e, el_records = [ledger_root e], el_maximum = default_maximum_records\<rparr>"

section \<open>Dependencies\<close>

definition verify_historical_signature ::
  "ed25519 \<Rightarrow> trust_bundle \<Rightarrow> trust_checkpoint \<Rightarrow> checkpoint_signature \<Rightarrow> unit result" where
  "verify_historical_signature c b t s =
     rbind (bundle_key b (cs_service s) (cs_key s)) (\<lambda>found.
       if checkpoint_key_refused found (tc_sequence t)
       then failure IdentityMismatch ''execution-ledger checkpoint signer is not active at the historical head'' (cs_key s)
       else rbind (decode_hex (cs_tag s) kEd25519SignatureBytes) (\<lambda>signature.
         ed25519_verify c (service_trust_checkpoint_signature_message t s) signature (sk_public (the found))))"

definition verify_historical_checkpoint :: "ed25519 \<Rightarrow> trust_history \<Rightarrow> trust_checkpoint \<Rightarrow> unit result" where
  "verify_historical_checkpoint c h t =
     (if \<not> history_valid c h \<or> \<not> trust_checkpoint_valid t
      then failure InvalidArgument ''execution-ledger checkpoint input is invalid'' []
      else if tc_root t \<noteq> th_root h \<or> tc_sequence t = 0 \<or> unat (tc_sequence t) > length (th_records h)
      then failure IdentityMismatch ''execution-ledger checkpoint is outside the supplied trust history'' (tc_id t)
      else (let head_record = th_records h ! (unat (tc_sequence t) - 1) in
        if rr_sequence head_record \<noteq> tc_sequence t \<or> rr_id head_record \<noteq> tc_record t \<or> rr_bundle head_record \<noteq> tc_head t
        then failure IdentityMismatch ''execution-ledger checkpoint does not match its historical trust record'' (tc_id t)
        else rbind (history_bundle c h (tc_head t)) (\<lambda>b.
          if tb_sequence b \<noteq> tc_sequence t
          then failure IdentityMismatch ''execution-ledger checkpoint sequence does not match its trust bundle'' (tc_id t)
          else rbind (check_all (verify_historical_signature c b t) (tc_signatures t)) (\<lambda>_.
            if length (tc_signatures t) < unat (rot_minimum (tb_policy b)) \<or>
               (rot_distinct (tb_policy b) \<and>
                card (set (map cs_service (tc_signatures t))) < unat (rot_minimum (tb_policy b)))
            then failure IdentityMismatch ''execution-ledger checkpoint signatures do not satisfy the historical policy'' (tc_id t)
            else Inr ()))))"

definition verify_bound_session ::
  "ed25519 \<Rightarrow> execution_session \<Rightarrow> reviewed_profile \<Rightarrow> trust_history \<Rightarrow> atlas_view \<Rightarrow> trust_bundle result" where
  "verify_bound_session c e r h a =
     (let q = es_request e in
      if \<not> session_valid e \<or> \<not> reviewed_valid r \<or> \<not> history_valid c h \<or> at_dimension a = 0
      then failure InvalidArgument ''execution-ledger dependency input is invalid'' []
      else if rq_profile q \<noteq> dp_id (rd_profile r) \<or> rq_approvals q \<noteq> ps_id (rd_approvals r) \<or>
         rq_trust_root q \<noteq> th_root h \<or> rq_atlas q \<noteq> at_id a \<or> rq_robot q \<noteq> at_robot a \<or> rq_scene q \<noteq> at_scene a
      then failure IdentityMismatch ''execution ledger dependencies do not match the bounded session'' (es_id e)
      else rbind (history_bundle c h (rq_trust_bundle q)) (\<lambda>b.
        if tb_sequence b \<noteq> rq_trust_sequence q
        then failure IdentityMismatch ''bounded session historical trust sequence does not replay'' (es_id e)
        else rbind (create_session c q (es_sequence e) (es_approvals e) (es_controller e) (es_monitor e) r b a) (\<lambda>e'.
          if es_id e' \<noteq> es_id e
          then failure IdentityMismatch ''bounded session does not recreate under the supplied dependencies'' (es_id e)
          else Inr b)))"

definition verify_current_context ::
  "ed25519 \<Rightarrow> execution_session \<Rightarrow> reviewed_profile \<Rightarrow> trust_history \<Rightarrow> trust_checkpoint \<Rightarrow> string \<Rightarrow> atlas_view \<Rightarrow>
     trust_bundle result" where
  "verify_current_context c e r h t expected a =
     rbind (verify_bound_session c e r h a) (\<lambda>_.
       rbind (verify_service_trust_checkpoint c h t expected) (\<lambda>_.
         if tc_root t \<noteq> rq_trust_root (es_request e) \<or> tc_sequence t < rq_trust_sequence (es_request e)
         then failure IdentityMismatch ''current trust checkpoint predates or leaves the bounded-session trust root'' (tc_id t)
         else current_bundle c h))"

definition reviewer_refused :: "service_key option \<Rightarrow> u64 \<Rightarrow> bool" where
  "reviewer_refused found seq =
     (let sequence_valid = (case found of None \<Rightarrow> False
            | Some k \<Rightarrow> seq \<ge> sk_from k \<and> (sk_through k = 0 \<or> seq \<le> sk_through k))
      in (case found of None \<Rightarrow> True | Some k \<Rightarrow> sk_state k \<noteq> KeyActive \<or> \<not> sk_publish k) \<or> \<not> sequence_valid)"

fun first_inactive :: "trust_bundle \<Rightarrow> session_approval list \<Rightarrow> string option result" where
  "first_inactive b [] = Inr None"
| "first_inactive b (a # as) = rbind (bundle_key b (sa_service a) (sa_key a)) (\<lambda>found.
     if reviewer_refused found (tb_sequence b) then Inr (Some (sa_key a)) else first_inactive b as)"

definition inactive_reviewer_key :: "execution_session \<Rightarrow> trust_bundle \<Rightarrow> string option result" where
  "inactive_reviewer_key e b =
     (if \<not> session_valid e \<or> \<not> trust_bundle_valid b
      then failure InvalidArgument ''execution reviewer-state input is invalid'' []
      else first_inactive b (ss_approvals (es_approvals e)))"

fun dependency_matches_session :: "execution_session \<Rightarrow> dependency_kind \<Rightarrow> string \<Rightarrow> ledger_record list \<Rightarrow> bool" where
  "dependency_matches_session e DependsOnProfile subject rs = (subject = rq_profile (es_request e))"
| "dependency_matches_session e DependsOnAtlas subject rs = (subject = rq_atlas (es_request e))"
| "dependency_matches_session e DependsOnScene subject rs = (subject = rq_scene (es_request e))"
| "dependency_matches_session e DependsOnController subject rs = (subject = ek_id (rq_controller (es_request e)))"
| "dependency_matches_session e DependsOnMonitor subject rs = (subject = ek_id (rq_monitor (es_request e)))"
| "dependency_matches_session e DependsOnReviewer subject rs =
     list_ex (\<lambda>a. sa_key a = subject) (ss_approvals (es_approvals e))"
| "dependency_matches_session e DependsOnCheckpoint subject rs =
     (if subject = rq_trust_checkpoint (es_request e) then True
      else list_ex (\<lambda>r. case lr_checkpoint r of None \<Rightarrow> False | Some t \<Rightarrow> tc_id t = subject) rs)"

end
