(* ===== verification/Ledger_Operations.thy ===== *)
theory Ledger_Operations
  imports Ledger_State
begin

text \<open>
  The audit of a ledger, and its operations: authorizing a command, recording its completion, and
  the three ways of ending a session early. Each returns its result and the ledger object after
  it, as the methods update \<open>*this\<close>.
\<close>

section \<open>The audit\<close>

record audit_state =
  as_outstanding :: "command_authorization option"
  as_sequence :: u64
  as_checkpoint :: string
  as_checkpoints :: nat

record ledger_report =
  lp_id :: string
  lp_ledger :: string
  lp_session :: string
  lp_current :: string
  lp_status :: ledger_status
  lp_records :: nat
  lp_checkpoints :: nat
  lp_authorizations :: nat
  lp_completions :: nat
  lp_latest :: string

definition execution_ledger_audit_report_identity :: "ledger_report \<Rightarrow> string" where
  "execution_ledger_audit_report_identity p = sha256 (canonical (json_object
     [(''authorization_count'', json_int (lp_authorizations p)), (''completion_count'', json_int (lp_completions p)),
      (''current_record_id'', JStr (lp_current p)), (''format'', JStr ''rbfsafe-execution-ledger-audit''),
      (''latest_checkpoint_id'', JStr (lp_latest p)), (''ledger_id'', JStr (lp_ledger p)), (''schema'', json_int 1),
      (''session_id'', JStr (lp_session p)), (''status'', json_int (ledger_status_code (lp_status p))),
      (''verified_checkpoints'', json_int (lp_checkpoints p)), (''verified_records'', json_int (lp_records p))]))"

definition ledger_report_valid :: "ledger_report \<Rightarrow> bool" where
  "ledger_report_valid p \<longleftrightarrow>
     valid_sha256 (lp_id p) \<and> valid_sha256 (lp_ledger p) \<and> valid_sha256 (lp_session p) \<and>
     valid_sha256 (lp_current p) \<and> valid_ledger_status (lp_status p) \<and> lp_records p > 0 \<and>
     lp_completions p \<le> lp_authorizations p \<and>
     (if lp_checkpoints p = 0 then lp_latest p = [] else valid_sha256 (lp_latest p)) \<and>
     lp_id p = execution_ledger_audit_report_identity p"

text \<open>A checkpoint behind the last one, or another at its sequence number.\<close>

definition rolled_back :: "trust_checkpoint \<Rightarrow> u64 \<Rightarrow> string \<Rightarrow> bool" where
  "rolled_back t seq i \<longleftrightarrow> tc_sequence t < seq \<or> (tc_sequence t = seq \<and> seq > 0 \<and> tc_id t \<noteq> i)"

definition audit_checkpoint ::
  "ed25519 \<Rightarrow> execution_session \<Rightarrow> trust_history \<Rightarrow> audit_state \<Rightarrow> trust_checkpoint \<Rightarrow> string option result" where
  "audit_checkpoint c e h st t =
     rbind (verify_historical_checkpoint c h t) (\<lambda>_.
       if rolled_back t (as_sequence st) (as_checkpoint st)
       then failure IdentityMismatch ''execution-ledger checkpoint sequence rolled back or forked'' (tc_id t)
       else rbind (history_bundle c h (tc_head t)) (inactive_reviewer_key e))"

definition passed_checkpoint :: "trust_checkpoint \<Rightarrow> audit_state \<Rightarrow> audit_state" where
  "passed_checkpoint t st = st\<lparr>as_sequence := tc_sequence t, as_checkpoint := tc_id t, as_checkpoints := as_checkpoints st + 1\<rparr>"

text \<open>
  One turn of the loop of \<open>audit\<close>. The code reads the checkpoint of an authorization without a
  test: a valid record has one.
\<close>

definition audit_content ::
  "ed25519 \<Rightarrow> execution_session \<Rightarrow> trust_history \<Rightarrow> audit_state \<Rightarrow> ledger_record \<Rightarrow> audit_state result" where
  "audit_content c e h st r =
     (case (lr_authorization r, lr_completion r, lr_revocation r, lr_checkpoint r) of
       (Some u, _, _, checkpoint) \<Rightarrow>
         (case session_authorize_command e (au_index u)
             (ec_configuration (sq_commands (es_sequence e) ! unat (au_index u))) (au_dispatch u) of
           Inr (Some replayed) \<Rightarrow>
             if au_id replayed \<noteq> au_id u
             then failure IdentityMismatch ''execution-ledger authorization does not replay exactly'' (lr_id r)
             else rbind (audit_checkpoint c e h st (the checkpoint)) (\<lambda>inactive.
               case inactive of
                 Some k \<Rightarrow> failure IdentityMismatch
                   ''execution command was authorized after a reviewer key became inactive'' k
               | None \<Rightarrow> Inr ((passed_checkpoint (the checkpoint) st)\<lparr>as_outstanding := Some u\<rparr>))
         | _ \<Rightarrow> failure IdentityMismatch ''execution-ledger authorization does not replay exactly'' (lr_id r))
     | (None, Some v, _, _) \<Rightarrow>
         (case as_outstanding st of
           None \<Rightarrow> failure CorruptData ''execution completion has no outstanding authorization'' (lr_id r)
         | Some u \<Rightarrow> rbind (verify_execution_controller_completion c e u v) (\<lambda>_. Inr (st\<lparr>as_outstanding := None\<rparr>)))
     | (None, None, Some d, Some t) \<Rightarrow>
         rbind (audit_checkpoint c e h st t) (\<lambda>inactive.
           if dr_kind d \<noteq> DependsOnReviewer \<or> inactive \<noteq> Some (dr_subject d)
           then failure CorruptData ''checkpoint-backed revocation does not match an inactive reviewer'' (lr_id r)
           else Inr (passed_checkpoint t st))
     | _ \<Rightarrow> Inr st)"

definition audit_record ::
  "ed25519 \<Rightarrow> execution_session \<Rightarrow> trust_history \<Rightarrow> ledger_record list \<Rightarrow> audit_state \<Rightarrow> ledger_record \<Rightarrow>
     audit_state result" where
  "audit_record c e h rs st r =
     rbind (audit_content c e h st r) (\<lambda>st.
       case lr_revocation r of
         Some d \<Rightarrow>
           if \<not> dependency_matches_session e (dr_kind d) (dr_subject d) rs
           then failure IdentityMismatch ''execution-ledger revocation does not name a session dependency'' (dr_subject d)
           else Inr st
       | None \<Rightarrow> Inr st)"

fun audit_records ::
  "ed25519 \<Rightarrow> execution_session \<Rightarrow> trust_history \<Rightarrow> ledger_record list \<Rightarrow> audit_state \<Rightarrow> ledger_record list \<Rightarrow>
     audit_state result" where
  "audit_records c e h all_records st [] = Inr st"
| "audit_records c e h all_records st (r # rs) =
     rbind (audit_record c e h all_records st r) (\<lambda>st. audit_records c e h all_records st rs)"

definition audit_start :: audit_state where
  "audit_start = \<lparr>as_outstanding = None, as_sequence = 0, as_checkpoint = [], as_checkpoints = 0\<rparr>"

definition audit_ledger ::
  "ed25519 \<Rightarrow> execution_ledger \<Rightarrow> execution_session \<Rightarrow> reviewed_profile \<Rightarrow> trust_history \<Rightarrow> atlas_view \<Rightarrow>
     ledger_report result" where
  "audit_ledger c l e r h a =
     (if \<not> ledger_valid l
      then failure CorruptData ''execution ledger is structurally invalid'' []
      else if es_id e \<noteq> el_session l \<or> length (sq_commands (es_sequence e)) \<noteq> el_count l \<or> es_from e \<noteq> el_from l \<or>
         es_through e \<noteq> el_through l
      then failure IdentityMismatch ''execution ledger belongs to another bounded session'' (el_id l)
      else rbind (verify_bound_session c e r h a) (\<lambda>_.
        rbind (audit_records c e h (el_records l) audit_start (el_records l)) (\<lambda>st.
          let m = ledger_summary_of l;
              p = \<lparr>lp_id = [], lp_ledger = el_id l, lp_session = el_session l, lp_current = el_current l,
                   lp_status = lm_status m, lp_records = length (el_records l), lp_checkpoints = as_checkpoints st,
                   lp_authorizations = lm_authorizations m, lp_completions = lm_completions m,
                   lp_latest = as_checkpoint st\<rparr>;
              p = p\<lparr>lp_id := execution_ledger_audit_report_identity p\<rparr>
          in if \<not> ledger_report_valid p
             then failure InternalError ''constructed execution-ledger audit report is invalid'' [] else Inr p)))"

section \<open>Appending\<close>

record ledger_disk =
  ld_lock :: "unit result"
  ld_open :: "execution_ledger result"
  ld_append :: "ledger_record \<Rightarrow> unit result"

definition append_record_unlocked :: "ledger_disk \<Rightarrow> execution_ledger \<Rightarrow> ledger_record \<Rightarrow> execution_ledger result" where
  "append_record_unlocked disk l r =
     (if \<not> ledger_valid l \<or> unat (lr_sequence r) \<noteq> length (el_records l) \<or> lr_parent r \<noteq> el_current l \<or>
         lr_ledger r \<noteq> el_id l \<or> lr_session r \<noteq> el_session l \<or> \<not> ledger_record_valid r
      then failure InternalError ''execution-ledger append record is invalid'' (lr_id r)
      else if length (el_records l) \<ge> el_maximum l
      then failure ResourceLimit ''execution-ledger record limit reached'' []
      else (let candidate = l\<lparr>el_records := el_records l @ [r], el_current := lr_id r\<rparr> in
        if \<not> ledger_valid candidate
        then failure InternalError ''execution ledger would become invalid after append'' (lr_id r)
        else rbind (ld_append disk r) (\<lambda>_. Inr candidate)))"

text \<open>The record that follows those of a ledger, before its content and identity are set.\<close>

definition next_ledger_record :: "execution_ledger \<Rightarrow> ledger_record_type \<Rightarrow> u64 \<Rightarrow> ledger_record" where
  "next_ledger_record l kind observed =
     \<lparr>lr_schema = 1, lr_sequence = of_nat (length (el_records l)), lr_id = [], lr_parent = el_current l, lr_ledger = el_id l,
      lr_session = el_session l, lr_type = kind, lr_observed = observed, lr_authorization = None, lr_completion = None,
      lr_checkpoint = None, lr_revocation = None, lr_detail = []\<rparr>"

definition identified_record :: "ledger_record \<Rightarrow> ledger_record" where
  "identified_record r = r\<lparr>lr_id := execution_ledger_record_identity r\<rparr>"

text \<open>The lock, the ledger on disk and the check of the caller's pin that every operation starts with.\<close>

definition fresh_ledger :: "ledger_disk \<Rightarrow> string \<Rightarrow> execution_ledger result" where
  "fresh_ledger disk expected =
     rbind (ld_lock disk) (\<lambda>_. rbind (ld_open disk) (\<lambda>l.
       if el_current l \<noteq> expected
       then failure IdentityMismatch ''execution-ledger current record changed'' (el_current l) else Inr l))"

type_synonym 'a ledger_step = "'a result \<times> execution_ledger"

definition append_step :: "ledger_disk \<Rightarrow> execution_ledger \<Rightarrow> ledger_record result \<Rightarrow> execution_ledger result \<Rightarrow> ledger_record ledger_step" where
  "append_step disk self r l = (case (r, l) of
     (Inr r, Inr l) \<Rightarrow>
       (case append_record_unlocked disk l (identified_record r) of
         Inl e \<Rightarrow> (Inl e, self)
       | Inr l' \<Rightarrow> (Inr (identified_record r), l'))
   | (Inl e, _) \<Rightarrow> (Inl e, self)
   | (_, Inl e) \<Rightarrow> (Inl e, self))"

section \<open>Authorizing\<close>

record command_decision =
  cd_id :: string
  cd_ledger :: string
  cd_current :: string
  cd_status :: ledger_status
  cd_authorization :: "command_authorization option"

definition execution_ledger_command_decision_identity :: "command_decision \<Rightarrow> string" where
  "execution_ledger_command_decision_identity d = sha256 (canonical (json_object
     [(''authorization_id'', JStr (optional_text au_id (cd_authorization d))),
      (''current_record_id'', JStr (cd_current d)), (''format'', JStr ''rbfsafe-execution-ledger-command-decision''),
      (''ledger_id'', JStr (cd_ledger d)), (''schema'', json_int 1),
      (''status'', json_int (ledger_status_code (cd_status d)))]))"

definition command_decision_valid :: "command_decision \<Rightarrow> bool" where
  "command_decision_valid d \<longleftrightarrow>
     valid_sha256 (cd_id d) \<and> valid_sha256 (cd_ledger d) \<and> valid_sha256 (cd_current d) \<and>
     valid_ledger_status (cd_status d) \<and>
     (case cd_authorization d of None \<Rightarrow> True
        | Some u \<Rightarrow> authorization_valid u \<and> cd_status d = AwaitingCompletion) \<and>
     cd_id d = execution_ledger_command_decision_identity d"

definition make_decision :: "execution_ledger \<Rightarrow> command_authorization option \<Rightarrow> command_decision" where
  "make_decision l u =
     (let d = \<lparr>cd_id = [], cd_ledger = el_id l, cd_current = el_current l, cd_status = lm_status (ledger_summary_of l),
               cd_authorization = u\<rparr>
      in d\<lparr>cd_id := execution_ledger_command_decision_identity d\<rparr>)"

text \<open>The sequence number and identity of the last checkpoint the ledger holds.\<close>

definition latest_checkpoint :: "ledger_record list \<Rightarrow> u64 \<times> string" where
  "latest_checkpoint rs = (case find (\<lambda>r. lr_checkpoint r \<noteq> None) (rev rs) of
     None \<Rightarrow> (0, [])
   | Some r \<Rightarrow> (tc_sequence (the (lr_checkpoint r)), tc_id (the (lr_checkpoint r))))"

record authorize_input =
  zi_history :: trust_history
  zi_checkpoint :: trust_checkpoint
  zi_expected_checkpoint :: string
  zi_index :: u64
  zi_configuration :: configuration
  zi_dispatch :: u64
  zi_expected_record :: string

definition inactive_detail :: string where
  "inactive_detail = ''reviewer key is not active at the caller-pinned current checkpoint''"

text \<open>
  What \<open>authorize_command\<close> decides of the ledger it read: the record it appends, with the
  authorization it grants, or no record when the command is outside its window.
\<close>

definition decide_command ::
  "ed25519 \<Rightarrow> execution_session \<Rightarrow> reviewed_profile \<Rightarrow> atlas_view \<Rightarrow> authorize_input \<Rightarrow> execution_ledger \<Rightarrow>
     (ledger_record \<times> command_authorization option) option result" where
  "decide_command c e r a i l =
     (let m = ledger_summary_of l; t = zi_checkpoint i in
      if zi_dispatch i < lr_observed (last (el_records l))
      then failure InvalidArgument ''execution-ledger authorization time regresses'' (el_current l)
      else if terminal_status (lm_status m)
      then failure IdentityMismatch ''execution ledger is already terminal'' (el_current l)
      else if zi_dispatch i > es_through e
      then Inr (Some (next_ledger_record l SessionExpired (zi_dispatch i), None))
      else rbind (verify_current_context c e r (zi_history i) t (zi_expected_checkpoint i) a) (\<lambda>b.
        if rolled_back t (fst (latest_checkpoint (el_records l))) (snd (latest_checkpoint (el_records l)))
        then failure IdentityMismatch ''current trust checkpoint rolled back or forked from the ledger'' (tc_id t)
        else rbind (inactive_reviewer_key e b) (\<lambda>inactive.
          case inactive of
            Some k \<Rightarrow> Inr (Some ((next_ledger_record l DependencyRevoked (zi_dispatch i))
              \<lparr>lr_checkpoint := Some t,
               lr_revocation := Some \<lparr>dr_kind = DependsOnReviewer, dr_subject = k, dr_detail = inactive_detail\<rparr>\<rparr>, None))
          | None \<Rightarrow>
              if lm_status m \<noteq> LedgerOpen \<or> unat (zi_index i) \<noteq> lm_next m
              then failure IdentityMismatch ''execution-ledger command is duplicated, outstanding, or out of order''
                (el_current l)
              else rbind (session_authorize_command e (zi_index i) (zi_configuration i) (zi_dispatch i)) (\<lambda>u.
                case u of None \<Rightarrow> Inr None
                | Some u \<Rightarrow> Inr (Some ((next_ledger_record l CommandAuthorized (zi_dispatch i))
                    \<lparr>lr_authorization := Some u, lr_checkpoint := Some t\<rparr>, Some u))))))"

definition ledger_authorize_command ::
  "ed25519 \<Rightarrow> ledger_disk \<Rightarrow> execution_ledger \<Rightarrow> execution_session \<Rightarrow> reviewed_profile \<Rightarrow> atlas_view \<Rightarrow> authorize_input \<Rightarrow>
     command_decision ledger_step" where
  "ledger_authorize_command c disk self e r a i =
     (if \<not> valid_sha256 (zi_expected_record i) \<or> \<not> valid_sha256 (zi_expected_checkpoint i) \<or> zi_dispatch i = 0
      then (failure InvalidArgument ''execution-ledger authorization input is invalid'' [], self)
      else (case fresh_ledger disk (zi_expected_record i) of
          Inl x \<Rightarrow> (Inl x, self)
        | Inr l \<Rightarrow>
            (case decide_command c e r a i l of
              Inl x \<Rightarrow> (Inl x, self)
            | Inr None \<Rightarrow> (Inr (make_decision l None), l)
            | Inr (Some (record, u)) \<Rightarrow>
                (case append_record_unlocked disk l (identified_record record) of
                  Inl x \<Rightarrow> (Inl x, self)
                | Inr l' \<Rightarrow>
                    (let d = make_decision l' u in
                     if u \<noteq> None \<and> \<not> command_decision_valid d
                     then (failure InternalError ''constructed execution-ledger command decision is invalid'' [], l')
                     else (Inr d, l'))))))"

section \<open>Completing and ending\<close>

definition record_completion ::
  "ed25519 \<Rightarrow> ledger_disk \<Rightarrow> execution_ledger \<Rightarrow> execution_session \<Rightarrow> controller_completion \<Rightarrow> string \<Rightarrow>
     ledger_record ledger_step" where
  "record_completion c disk self e v expected =
     (if \<not> completion_valid v \<or> \<not> valid_sha256 expected
      then (failure InvalidArgument ''execution-ledger completion input is invalid'' [], self)
      else (let l = fresh_ledger disk expected in
        append_step disk self (rbind l (\<lambda>l.
          case (lm_status (ledger_summary_of l), lr_authorization (last (el_records l))) of
            (AwaitingCompletion, Some u) \<Rightarrow>
              rbind (verify_execution_controller_completion c e u v) (\<lambda>_.
                Inr ((next_ledger_record l ControllerCompletion (cc_completed v))\<lparr>lr_completion := Some v\<rparr>))
          | _ \<Rightarrow> failure IdentityMismatch ''execution ledger has no outstanding command authorization'' (el_current l))) l))"

definition open_at :: "execution_ledger \<Rightarrow> u64 \<Rightarrow> string \<Rightarrow> unit result" where
  "open_at l observed regresses =
     (if terminal_status (lm_status (ledger_summary_of l))
      then failure IdentityMismatch ''execution ledger is already terminal'' (el_current l)
      else if observed < lr_observed (last (el_records l))
      then failure InvalidArgument regresses (el_current l) else Inr ())"

definition cancel_ledger ::
  "ledger_disk \<Rightarrow> execution_ledger \<Rightarrow> u64 \<Rightarrow> string \<Rightarrow> string \<Rightarrow> ledger_record ledger_step" where
  "cancel_ledger disk self observed detail expected =
     (if observed = 0 \<or> \<not> ledger_text False detail \<or> \<not> valid_sha256 expected
      then (failure InvalidArgument ''execution-ledger cancellation input is invalid'' [], self)
      else (let l = fresh_ledger disk expected in
        append_step disk self (rbind l (\<lambda>l.
          rbind (open_at l observed ''execution-ledger cancellation time regresses'') (\<lambda>_.
            Inr ((next_ledger_record l SessionCancelled observed)\<lparr>lr_detail := detail\<rparr>)))) l))"

definition expire_ledger ::
  "ledger_disk \<Rightarrow> execution_ledger \<Rightarrow> execution_session \<Rightarrow> u64 \<Rightarrow> string \<Rightarrow> ledger_record ledger_step" where
  "expire_ledger disk self e observed expected =
     (if observed \<le> es_through e \<or> \<not> valid_sha256 expected
      then (failure InvalidArgument ''execution-ledger expiration input is invalid'' [], self)
      else (let l = fresh_ledger disk expected in
        append_step disk self (rbind l (\<lambda>l.
          rbind (open_at l observed ''execution-ledger expiration time regresses'') (\<lambda>_.
            Inr (next_ledger_record l SessionExpired observed)))) l))"

definition revoke_dependency ::
  "ledger_disk \<Rightarrow> execution_ledger \<Rightarrow> execution_session \<Rightarrow> dependency_kind \<Rightarrow> string \<Rightarrow> u64 \<Rightarrow> string \<Rightarrow> string \<Rightarrow>
     ledger_record ledger_step" where
  "revoke_dependency disk self e kind subject observed detail expected =
     (let d = \<lparr>dr_kind = kind, dr_subject = subject, dr_detail = detail\<rparr> in
      if observed = 0 \<or> \<not> valid_execution_dependency_revocation d \<or> \<not> valid_sha256 expected
      then (failure InvalidArgument ''execution-ledger dependency-revocation input is invalid'' [], self)
      else (let l = fresh_ledger disk expected in
        append_step disk self (rbind l (\<lambda>l.
          rbind (open_at l observed ''execution-ledger revocation time regresses'') (\<lambda>_.
            if \<not> dependency_matches_session e kind subject (el_records l)
            then failure IdentityMismatch ''revocation subject is not an exact bounded-session dependency'' subject
            else Inr ((next_ledger_record l DependencyRevoked observed)\<lparr>lr_revocation := Some d\<rparr>)))) l))"

end
