(* ===== verification/Ledger_Laws.thy ===== *)
theory Ledger_Laws
  imports Ledger_Operations
begin

text \<open>
  What replaying a ledger guarantees: the order of authorizations and completions, the counts of
  the summary and the place of a terminal record; and when an append succeeds.
\<close>

section \<open>Replaying\<close>

lemma ledger_replay_append:
  "replay_ledger L S n T i p (xs @ ys) m = rbind (replay_ledger L S n T i p xs m)
     (replay_ledger L S n T (i + length xs) (if xs = [] then p else Some (last xs)) ys)"
proof (induction xs arbitrary: i p m)
  case (Cons x xs)
  show ?case
  proof (cases p)
    case None
    then show ?thesis using Cons.IH [of "Suc i" "Some x" m] by (simp add: failure_def)
  next
    case (Some q)
    then show ?thesis using Cons.IH [of "Suc i" "Some x"] by (cases "apply_record n T q x m") (simp_all add: failure_def)
  qed
qed simp

definition authorizations :: "ledger_record list \<Rightarrow> command_authorization list" where
  "authorizations rs = List.map_filter lr_authorization rs"

definition completions :: "ledger_record list \<Rightarrow> controller_completion list" where
  "completions rs = List.map_filter lr_completion rs"

lemma authorizations_simps [simp]:
  "authorizations [] = []"
  "authorizations (r # rs) = (case lr_authorization r of None \<Rightarrow> [] | Some u \<Rightarrow> [u]) @ authorizations rs"
  "authorizations (rs @ rs') = authorizations rs @ authorizations rs'"
  by (simp_all add: authorizations_def map_filter_def split: option.split)

lemma completions_simps [simp]:
  "completions [] = []"
  "completions (r # rs) = (case lr_completion r of None \<Rightarrow> [] | Some v \<Rightarrow> [v]) @ completions rs"
  "completions (rs @ rs') = completions rs @ completions rs'"
  by (simp_all add: completions_def map_filter_def split: option.split)

text \<open>
  The state of the ledger after its records: commands are authorized in order from 0, each one
  completed before the next is authorized, by a completion that names its authorization.
\<close>

definition ledger_order :: "nat \<Rightarrow> ledger_record list \<Rightarrow> ledger_summary \<Rightarrow> bool" where
  "ledger_order n rs m \<longleftrightarrow>
     map (\<lambda>u. unat (au_index u)) (authorizations rs) = [0..<lm_authorizations m] \<and>
     map cc_authorization (completions rs) = map au_id (take (lm_completions m) (authorizations rs)) \<and>
     map cc_index (completions rs) = map au_index (take (lm_completions m) (authorizations rs)) \<and>
     length (completions rs) = lm_completions m \<and>
     lm_next m = length (filter (\<lambda>v. cc_outcome v = OutcomeCompleted) (completions rs)) \<and>
     lm_authorizations m \<le> n \<and> lm_next m \<le> lm_completions m \<and>
     lm_completions m \<le> lm_authorizations m \<and> lm_authorizations m \<le> lm_completions m + 1 \<and>
     (case lm_status m of
        LedgerOpen \<Rightarrow> lm_authorizations m = lm_next m \<and> lm_next m < n \<and> lm_outstanding m = None
      | AwaitingCompletion \<Rightarrow> lm_completions m = lm_next m \<and> lm_authorizations m = lm_next m + 1 \<and>
          lr_authorization (last rs) = Some (last (authorizations rs)) \<and>
          lm_outstanding m = Some (au_index (last (authorizations rs)))
      | LedgerCompleted \<Rightarrow> lm_next m = n \<and> lm_completions m = n \<and> lm_outstanding m = None
      | LedgerFailed \<Rightarrow> lm_completions m = lm_next m + 1 \<and> lm_authorizations m = lm_completions m \<and> lm_outstanding m = None
      | _ \<Rightarrow> lm_completions m = lm_next m \<and> lm_outstanding m = None)"

lemma order_length: "ledger_order n rs m \<Longrightarrow> length (authorizations rs) = lm_authorizations m"
  unfolding ledger_order_def by (metis length_map length_upt diff_zero)

lemma content_of_type:
  assumes "record_content_valid r"
  shows "lr_type r \<noteq> CommandAuthorized \<Longrightarrow> lr_authorization r = None"
    "lr_type r \<noteq> ControllerCompletion \<Longrightarrow> lr_completion r = None"
    "lr_type r = CommandAuthorized \<Longrightarrow> \<exists>u t. lr_authorization r = Some u \<and> lr_completion r = None \<and> lr_revocation r = None \<and>
       lr_checkpoint r = Some t \<and> authorization_valid u \<and> trust_checkpoint_valid t \<and> lr_observed r = au_dispatch u"
    "lr_type r = ControllerCompletion \<Longrightarrow> \<exists>v. lr_completion r = Some v \<and> lr_authorization r = None \<and> lr_checkpoint r = None \<and>
       lr_revocation r = None \<and> completion_valid v \<and> lr_observed r = cc_completed v"
    "lr_type r = DependencyRevoked \<longleftrightarrow> lr_revocation r \<noteq> None"
    "lr_checkpoint r \<noteq> None \<Longrightarrow> lr_type r = CommandAuthorized \<or> lr_type r = DependencyRevoked"
  using assms by (auto simp: record_content_valid_def split: ledger_record_type.splits option.splits)

lemma order_start: "record_content_valid r \<Longrightarrow> lr_type r = SessionOpened \<Longrightarrow> 0 < n \<Longrightarrow>
    ledger_order n [r] (fresh_summary L S C k)"
  using content_of_type(1,2) [of r] by (simp add: ledger_order_def fresh_summary_def)

lemma order_ended:
  assumes "ledger_order n rs m" and "record_content_valid r" and "\<not> terminal_status (lm_status m)"
    and "lr_type r \<in> {SessionCancelled, SessionExpired, DependencyRevoked}"
    and "st \<in> {LedgerCancelled, LedgerExpired, LedgerRevoked}"
  shows "ledger_order n (rs @ [r]) (m\<lparr>lm_outstanding := None, lm_status := st\<rparr>)"
proof -
  have "lr_authorization r = None" "lr_completion r = None" using assms(4) content_of_type(1,2) [OF assms(2)] by auto
  moreover have "lm_completions m = lm_next m"
    using assms(1,3) by (cases "lm_status m") (auto simp: ledger_order_def terminal_status_def)
  ultimately show ?thesis using assms(1,5) by (elim insertE; simp add: ledger_order_def)
qed

lemma order_step:
  assumes "ledger_order n rs m" and "rs \<noteq> []" and "record_content_valid r" and "\<not> terminal_status (lm_status m)"
    and "apply_record n T (last rs) r m = Inr m'"
  shows "ledger_order n (rs @ [r]) m'"
proof (cases "lr_type r")
  case CommandAuthorized
  then obtain u where "lr_authorization r = Some u" "lr_completion r = None" using content_of_type(3) [OF assms(3)] by blast
  moreover then have "m' = m\<lparr>lm_authorizations := lm_authorizations m + 1, lm_outstanding := Some (au_index u),
      lm_status := AwaitingCompletion\<rparr>" "lm_status m = LedgerOpen" "unat (au_index u) = lm_next m" "unat (au_index u) < n"
    using assms(5) CommandAuthorized by (auto simp: apply_record_def failure_def split: if_splits)
  ultimately show ?thesis using assms(1) order_length [OF assms(1)] by (auto simp: ledger_order_def)
next
  case ControllerCompletion
  then obtain v where v: "lr_completion r = Some v" "lr_authorization r = None" using content_of_type(4) [OF assms(3)] by blast
  obtain u where u: "lr_authorization (last rs) = Some u" "cc_authorization v = au_id u"
      "lm_outstanding m = Some (cc_index v)" "lm_status m = AwaitingCompletion"
      "m' = (if cc_outcome v \<noteq> OutcomeCompleted
        then m\<lparr>lm_completions := lm_completions m + 1, lm_outstanding := None, lm_status := LedgerFailed\<rparr>
        else m\<lparr>lm_completions := lm_completions m + 1, lm_outstanding := None, lm_next := lm_next m + 1,
          lm_status := (if cc_completed v > T then LedgerExpired else if lm_next m + 1 = n then LedgerCompleted else LedgerOpen)\<rparr>)"
    using assms(5) ControllerCompletion v
    by (auto simp: apply_record_def failure_def Let_def split: if_splits option.splits)
  have k: "length (authorizations rs) = lm_completions m + 1" "u = last (authorizations rs)" "au_index u = cc_index v"
    using assms(1) order_length [OF assms(1)] u(1,3,4) by (auto simp: ledger_order_def)
  then have "take (lm_completions m) (authorizations rs) @ [u] = authorizations rs"
    by (metis add_diff_cancel_right' append_butlast_last_id butlast_conv_take length_0_conv add_is_0 one_neq_zero)
  then have cat: "map f (take (lm_completions m) (authorizations rs)) @ [f (last (authorizations rs))] = map f (authorizations rs)"
    for f :: "command_authorization \<Rightarrow> string"
    using k(2) by (metis list.map(1,2) map_append)
  moreover have "map au_index (take (lm_completions m) (authorizations rs)) @ [au_index (last (authorizations rs))] =
      map au_index (authorizations rs)"
    using k(2) \<open>take (lm_completions m) (authorizations rs) @ [u] = authorizations rs\<close> by (metis list.map(1,2) map_append)
  ultimately show ?thesis
    using assms(1) u v k order_length [OF assms(1)] cat [of au_id] by (auto simp: ledger_order_def terminal_status_def)
next
  case SessionOpened
  with assms(5) show ?thesis by (simp add: apply_record_def failure_def)
next
  case SessionCancelled
  with assms(5) order_ended [OF assms(1,3,4)] show ?thesis by (auto simp: apply_record_def)
next
  case SessionExpired
  with assms(5) order_ended [OF assms(1,3,4)] show ?thesis by (auto simp: apply_record_def failure_def split: if_splits)
next
  case DependencyRevoked
  with assms(5) order_ended [OF assms(1,3,4)] show ?thesis by (auto simp: apply_record_def)
qed

section \<open>What a summary says\<close>

lemma replay_Nil: "replay_ledger L S n T i p [] = Inr"
  by (rule ext) simp

lemma replay_snoc:
  "rs \<noteq> [] \<Longrightarrow> replay_ledger L S n T 0 None (rs @ [r]) m = rbind (replay_ledger L S n T 0 None rs m) (\<lambda>m.
     if chain_broken L S (length rs) (Some (last rs)) r
     then failure CorruptData ''execution-ledger record chain is invalid'' (lr_id r)
     else if lr_observed r < lr_observed (last rs)
     then failure CorruptData ''execution-ledger monotonic observation time regressed'' (lr_id r)
     else if terminal_status (lm_status m)
     then failure CorruptData ''execution-ledger record appears after a terminal event'' (lr_id r)
     else rbind (apply_record n T (last rs) r m) Inr)"
  by (simp add: ledger_replay_append replay_Nil [abs_def] cong: if_cong) (rule arg_cong [of _ _ "rbind _"]; rule ext; simp add: replay_Nil del: replay_ledger.simps(1))

text \<open>The chain of the records: each names the one before it, and time does not go back.\<close>

definition ledger_chain :: "string \<Rightarrow> string \<Rightarrow> ledger_record list \<Rightarrow> bool" where
  "ledger_chain L S rs \<longleftrightarrow> rs \<noteq> [] \<and> lr_type (hd rs) = SessionOpened \<and> lr_parent (hd rs) = [] \<and>
     (\<forall>r\<in>set rs. ledger_record_valid r \<and> lr_ledger r = L \<and> lr_session r = S) \<and>
     map (\<lambda>r. unat (lr_sequence r)) rs = [0..<length rs] \<and>
     successively (\<lambda>p r. lr_parent r = lr_id p \<and> lr_observed p \<le> lr_observed r) rs"

lemma apply_record_keeps:
  "apply_record n T p r m = Inr m' \<Longrightarrow>
     lm_ledger m' = lm_ledger m \<and> lm_session m' = lm_session m \<and> lm_current m' = lm_current m \<and> lm_records m' = lm_records m"
  by (auto simp: apply_record_def failure_def Let_def split: ledger_record_type.splits option.splits if_splits)

lemma record_content: "ledger_record_valid r \<Longrightarrow> record_content_valid r"
  by (simp add: ledger_record_valid_def)

lemma replayed:
  assumes "replay_ledger L S n T 0 None rs (fresh_summary L S C k) = Inr m" and "rs \<noteq> []" and "0 < n"
  shows "ledger_chain L S rs \<and> ledger_order n rs m \<and> lm_ledger m = L \<and> lm_session m = S \<and> lm_current m = C \<and> lm_records m = k"
  using assms(2,1)
proof (induction rs arbitrary: m rule: rev_nonempty_induct)
  case (single r)
  then have "ledger_record_valid r" "lr_type r = SessionOpened" "m = fresh_summary L S C k" "lr_ledger r = L" "lr_session r = S"
      "unat (lr_sequence r) = 0" "lr_parent r = []"
    by (auto simp: chain_broken_def failure_def split: if_splits)
  with order_start [of r n] assms(3) record_content show ?case
    by (simp add: ledger_chain_def) (simp add: fresh_summary_def)
next
  case (snoc r rs)
  from snoc.prems obtain m0 where m0: "replay_ledger L S n T 0 None rs (fresh_summary L S C k) = Inr m0"
      "\<not> chain_broken L S (length rs) (Some (last rs)) r" "\<not> lr_observed r < lr_observed (last rs)"
      "\<not> terminal_status (lm_status m0)" "apply_record n T (last rs) r m0 = Inr m"
    by (auto simp: replay_snoc [OF snoc.hyps(1)] result_simps failure_def split: if_splits)
  note IH = snoc.IH [OF m0(1)]
  have "record_content_valid r" using m0(2) by (simp add: chain_broken_def record_content)
  then have "ledger_order n (rs @ [r]) m" using IH m0(4,5) snoc.hyps(1) by (intro order_step) auto
  moreover have "ledger_chain L S (rs @ [r])"
    using IH m0(2,3) by (auto simp: ledger_chain_def chain_broken_def successively_append_iff)
  ultimately show ?case using IH apply_record_keeps [OF m0(5)] by simp
qed

lemma order_summary_valid:
  assumes "ledger_order n rs m" and "valid_sha256 (lm_ledger m)" and "valid_sha256 (lm_session m)" and "valid_sha256 (lm_current m)"
    and "lm_records m > 0"
  shows "ledger_summary_valid (m\<lparr>lm_id := execution_ledger_summary_identity m\<rparr>)"
proof -
  have i: "execution_ledger_summary_identity (m\<lparr>lm_id := x\<rparr>) = execution_ledger_summary_identity m" for x
    by (simp add: execution_ledger_summary_identity_def)
  have "valid_ledger_status (lm_status m)" by (cases "lm_status m") (simp_all add: valid_ledger_status_def)
  moreover have "(lm_status m = AwaitingCompletion \<longleftrightarrow> lm_outstanding m \<noteq> None) \<and> lm_completions m - lm_next m \<le> 1"
    using assms(1) by (cases "lm_status m") (auto simp: ledger_order_def)
  moreover have "unat k = lm_next m" if "lm_outstanding m = Some k" for k
  proof -
    have s: "lm_status m = AwaitingCompletion" using that assms(1) by (cases "lm_status m") (auto simp: ledger_order_def)
    then have "k = au_index (last (authorizations rs))" "lm_authorizations m = lm_next m + 1" "authorizations rs \<noteq> []"
      using that assms(1) order_length [OF assms(1)] by (auto simp: ledger_order_def)
    moreover have "last (map (\<lambda>u. unat (au_index u)) (authorizations rs)) = last [0..<lm_authorizations m]"
      using assms(1) by (simp add: ledger_order_def)
    ultimately show ?thesis by (simp add: last_map)
  qed
  ultimately show ?thesis
    using assms by (auto simp: ledger_summary_valid_def i ledger_order_def execution_ledger_summary_identity_def split: option.split)
qed

lemma order_summary_id [simp]: "ledger_order n rs (m\<lparr>lm_id := x\<rparr>) = ledger_order n rs m"
  by (simp add: ledger_order_def cong: ledger_status.case_cong)

lemma built_summary:
  assumes "build_ledger_summary L S C rs n T = Inr m"
  shows "ledger_chain L S rs" "ledger_order n rs m" "ledger_summary_valid m"
    "lm_ledger m = L" "lm_session m = S" "lm_current m = C" "lm_records m = length rs"
proof -
  obtain m0 where m0: "replay_ledger L S n T 0 None rs (fresh_summary L S C (length rs)) = Inr m0" "rs \<noteq> []" "2 \<le> n"
      "m = m0\<lparr>lm_id := execution_ledger_summary_identity m0\<rparr>" "valid_sha256 L" "valid_sha256 S" "valid_sha256 C"
    using assms by (auto simp: build_ledger_summary_def result_simps failure_def split: if_splits)
  note r = replayed [OF m0(1,2)]
  show "ledger_chain L S rs" "ledger_order n rs m" "lm_ledger m = L" "lm_session m = S" "lm_current m = C"
    "lm_records m = length rs" using r m0(3) by (simp_all add: m0(4))
  show "ledger_summary_valid m"
    unfolding m0(4) by (rule order_summary_valid [of n rs]) (use r m0 in simp_all)
qed

section \<open>Valid ledgers and appends\<close>

lemma ledger_valid_replayed:
  assumes "ledger_valid l"
  obtains m where "ledger_replayed l = Inr m" "ledger_summary_of l = m" "ledger_chain (el_id l) (el_session l) (el_records l)"
    "ledger_order (el_count l) (el_records l) m" "ledger_summary_valid m" "lm_records m = length (el_records l)"
    "el_current l = lr_id (last (el_records l))" "el_records l \<noteq> []" "length (el_records l) \<le> el_maximum l"
proof -
  obtain m where m: "ledger_replayed l = Inr m"
    using assms by (auto simp: ledger_valid_def split: if_splits sum.splits)
  moreover have "el_current l = lr_id (last (el_records l))" "el_records l \<noteq> []" "length (el_records l) \<le> el_maximum l"
    using assms by (auto simp: ledger_valid_def split: if_splits)
  ultimately show ?thesis
    using that built_summary [OF m [unfolded ledger_replayed_def]] by (simp add: ledger_summary_of_def)
qed

text \<open>The check of the summary in \<open>valid\<close> never fails: a summary that replays is valid.\<close>

lemma ledger_valid_iff:
  "ledger_valid l \<longleftrightarrow> el_directory l \<noteq> [] \<and> valid_sha256 (el_id l) \<and> valid_sha256 (el_session l) \<and> valid_sha256 (el_current l) \<and>
     2 \<le> el_count l \<and> el_from l \<noteq> 0 \<and> el_from l \<le> el_through l \<and> el_records l \<noteq> [] \<and>
     length (el_records l) \<le> el_maximum l \<and> lr_observed (hd (el_records l)) = el_from l \<and>
     el_id l = execution_ledger_identity (el_session l) \<and> el_current l = lr_id (last (el_records l)) \<and>
     has_value (ledger_replayed l)"
  using built_summary(3) [of "el_id l" "el_session l" "el_current l" "el_records l" "el_count l" "el_through l", folded ledger_replayed_def]
  by (auto simp: ledger_valid_def not_less not_le split: sum.split)

definition extended :: "execution_ledger \<Rightarrow> ledger_record \<Rightarrow> execution_ledger" where
  "extended l r = l\<lparr>el_records := el_records l @ [r], el_current := lr_id r\<rparr>"

lemma extended_simps [simp]:
  "el_directory (extended l r) = el_directory l" "el_id (extended l r) = el_id l" "el_session (extended l r) = el_session l"
  "el_current (extended l r) = lr_id r" "el_count (extended l r) = el_count l" "el_from (extended l r) = el_from l"
  "el_through (extended l r) = el_through l" "el_records (extended l r) = el_records l @ [r]"
  "el_maximum (extended l r) = el_maximum l"
  by (simp_all add: extended_def)

text \<open>Replaying does not look at the labels of a summary, so a longer ledger continues the shorter one.\<close>

definition relabel :: "string \<Rightarrow> string \<Rightarrow> nat \<Rightarrow> ledger_summary \<Rightarrow> ledger_summary" where
  "relabel i current k m = m\<lparr>lm_id := i, lm_current := current, lm_records := k\<rparr>"

lemma relabel_simps [simp]:
  "lm_id (relabel i b k m) = i" "lm_ledger (relabel i b k m) = lm_ledger m" "lm_session (relabel i b k m) = lm_session m"
  "lm_current (relabel i b k m) = b" "lm_status (relabel i b k m) = lm_status m" "lm_records (relabel i b k m) = k"
  "lm_authorizations (relabel i b k m) = lm_authorizations m" "lm_completions (relabel i b k m) = lm_completions m"
  "lm_next (relabel i b k m) = lm_next m" "lm_outstanding (relabel i b k m) = lm_outstanding m"
  "relabel i b k (relabel i' b' k' m) = relabel i b k m" "(relabel i b k m)\<lparr>lm_id := j\<rparr> = relabel j b k m"
  by (simp_all add: relabel_def)

lemma record_digest [simp]: "valid_sha256 (execution_ledger_record_identity r)"
  by (simp add: execution_ledger_record_identity_def)

lemma apply_relabel:
  "apply_record n T p r (relabel i b k m) = rbind (apply_record n T p r m) (\<lambda>m. Inr (relabel i b k m))"
  by (auto simp: apply_record_def failure_def relabel_def Let_def split: ledger_record_type.split option.split)

lemma replay_relabel:
  "replay_ledger L S n T j p rs (relabel i b k m) = rbind (replay_ledger L S n T j p rs m) (\<lambda>m. Inr (relabel i b k m))"
proof (induction rs arbitrary: j p m)
  case (Cons r rs)
  then show ?case
  proof (cases p)
    case (Some q)
    then show ?thesis using Cons.IH
      by (cases "apply_record n T q r m") (simp_all add: apply_relabel failure_def)
  qed (simp add: failure_def)
qed simp

lemma fresh_relabel: "fresh_summary L S C k = relabel [] C k (fresh_summary L S C' k')"
  by (simp add: fresh_summary_def relabel_def)

lemma relabelled: "relabel (lm_id m) (lm_current m) (lm_records m) m = m"
  by (simp add: relabel_def)

lemma extended_replay:
  assumes "ledger_valid l" and "ledger_replayed l = Inr m" and "valid_sha256 (lr_id r)"
    and "\<not> chain_broken (el_id l) (el_session l) (length (el_records l)) (Some (last (el_records l))) r"
    and "lr_observed (last (el_records l)) \<le> lr_observed r" and "\<not> terminal_status (lm_status m)"
    and "apply_record (el_count l) (el_through l) (last (el_records l)) r m = Inr m1"
  shows "\<exists>i. ledger_replayed (extended l r) = Inr (relabel i (lr_id r) (length (el_records l) + 1) m1)"
proof -
  let ?replay = "replay_ledger (el_id l) (el_session l) (el_count l) (el_through l) 0 None"
  let ?fresh = "fresh_summary (el_id l) (el_session l)"
  obtain m0 where m0: "?replay (el_records l) (?fresh (el_current l) (length (el_records l))) = Inr m0"
      "m = m0\<lparr>lm_id := execution_ledger_summary_identity m0\<rparr>"
    and c: "el_records l \<noteq> []" "2 \<le> el_count l" "valid_sha256 (el_id l)" "valid_sha256 (el_session l)" "el_through l \<noteq> 0"
    using assms(2) by (auto simp: ledger_replayed_def build_ledger_summary_def result_simps failure_def split: if_splits)
  let ?m = "relabel [] (lr_id r) (length (el_records l) + 1)"
  have "?replay (el_records l) (?m (?fresh (el_current l) (length (el_records l)))) = Inr (?m m0)"
    unfolding replay_relabel m0(1) by simp
  moreover have "?m (?fresh (el_current l) (length (el_records l))) = ?fresh (lr_id r) (length (el_records l) + 1)"
    by (rule fresh_relabel [symmetric])
  moreover have "?m m0 = ?m m" by (simp add: m0(2) relabel_def)
  ultimately have "?replay (el_records l @ [r]) (?fresh (lr_id r) (length (el_records l) + 1)) = Inr (?m m1)"
    using assms(4-7) c(1) by (simp add: replay_snoc apply_relabel not_less)
  with c assms(3) show ?thesis
    by (auto simp: ledger_replayed_def build_ledger_summary_def)
qed

lemma append_valid:
  assumes "ledger_valid l" and "ledger_replayed l = Inr m" and "length (el_records l) < el_maximum l"
    and "\<not> chain_broken (el_id l) (el_session l) (length (el_records l)) (Some (last (el_records l))) r"
    and "lr_observed (last (el_records l)) \<le> lr_observed r" and "\<not> terminal_status (lm_status m)"
    and "apply_record (el_count l) (el_through l) (last (el_records l)) r m = Inr m1"
  shows "ledger_valid (extended l r)" "append_record_unlocked disk l r = rbind (ld_append disk r) (\<lambda>_. Inr (extended l r))"
proof -
  have r: "ledger_record_valid r" using assms(4) by (simp add: chain_broken_def)
  then have "valid_sha256 (lr_id r)" by (simp add: ledger_record_valid_def)
  note r = r this
  show v: "ledger_valid (extended l r)"
    using assms(1,3) extended_replay [OF assms(1,2) r(2) assms(4-7)] r(2)
    by (auto simp: ledger_valid_iff)
  have "unat (lr_sequence r) = length (el_records l)" "lr_parent r = el_current l" "lr_ledger r = el_id l" "lr_session r = el_session l"
    using assms(1,4) by (auto simp: chain_broken_def ledger_valid_iff)
  then show "append_record_unlocked disk l r = rbind (ld_append disk r) (\<lambda>_. Inr (extended l r))"
    using assms(1,3) r(1) v by (simp add: append_record_unlocked_def extended_def)
qed

lemma appended:
  assumes "append_record_unlocked disk l r = Inr l'"
  shows "l' = extended l r" "ledger_valid l" "ledger_valid l'" "ld_append disk r = Inr ()" "ledger_record_valid r"
  using assms by (auto simp: append_record_unlocked_def extended_def result_simps failure_def Let_def split: if_splits)

text \<open>What an appended record did to the summary.\<close>

lemma appended_summary:
  assumes "ledger_valid l" and "ledger_valid (extended l r)"
  obtains m m1 i where "ledger_replayed l = Inr m" "\<not> terminal_status (lm_status m)"
    "apply_record (el_count l) (el_through l) (last (el_records l)) r m = Inr m1"
    "ledger_replayed (extended l r) = Inr (relabel i (lr_id r) (length (el_records l) + 1) m1)"
    "lr_observed (last (el_records l)) \<le> lr_observed r"
proof -
  obtain m where m: "ledger_replayed l = Inr m" using assms(1) by (rule ledger_valid_replayed)
  obtain m' where m': "ledger_replayed (extended l r) = Inr m'" using assms(2) by (rule ledger_valid_replayed)
  let ?replay = "replay_ledger (el_id l) (el_session l) (el_count l) (el_through l) 0 None"
  let ?fresh = "fresh_summary (el_id l) (el_session l)"
  obtain m0 where m0: "?replay (el_records l) (?fresh (el_current l) (length (el_records l))) = Inr m0"
      "m = m0\<lparr>lm_id := execution_ledger_summary_identity m0\<rparr>" and c: "el_records l \<noteq> []"
    using m by (auto simp: ledger_replayed_def build_ledger_summary_def result_simps failure_def split: if_splits)
  let ?m = "relabel [] (lr_id r) (length (el_records l) + 1)"
  have f: "?fresh (lr_id r) (length (el_records l) + 1) = ?m (?fresh (el_current l) (length (el_records l)))"
    by (rule fresh_relabel)
  have "has_value (?replay (el_records l @ [r]) (?fresh (lr_id r) (length (el_records l) + 1)))"
    using m' by (auto simp: ledger_replayed_def build_ledger_summary_def result_simps failure_def split: if_splits)
  then obtain m1 where m1: "\<not> chain_broken (el_id l) (el_session l) (length (el_records l)) (Some (last (el_records l))) r"
      "lr_observed (last (el_records l)) \<le> lr_observed r" "\<not> terminal_status (lm_status m0)"
      "apply_record (el_count l) (el_through l) (last (el_records l)) r m0 = Inr m1"
    unfolding f replay_snoc [OF c] replay_relabel m0(1)
    by (cases "apply_record (el_count l) (el_through l) (last (el_records l)) r m0")
      (auto simp: apply_relabel failure_def not_less split: if_splits)
  have "m = relabel (execution_ledger_summary_identity m0) (lm_current m0) (lm_records m0) m0"
    by (simp add: m0(2) relabel_def)
  then have "apply_record (el_count l) (el_through l) (last (el_records l)) r m =
      Inr (relabel (execution_ledger_summary_identity m0) (lm_current m0) (lm_records m0) m1)" "\<not> terminal_status (lm_status m)"
    using m1(3,4) by (simp_all add: apply_relabel)
  moreover have "valid_sha256 (lr_id r)" using m1(1) by (simp add: chain_broken_def ledger_record_valid_def)
  ultimately show ?thesis
    using that m extended_replay [OF assms(1) m _ m1(1,2)] m1(2) by blast
qed

end
