(* ===== verification/Ledger_Audit_Laws.thy ===== *)
theory Ledger_Audit_Laws
  imports Ledger_Laws
begin

text \<open>
  What an audited ledger shows of its commands, and that the operations leave only ledgers that
  their audit accepts.
\<close>

section \<open>Checkpoints, again\<close>

text \<open>A checkpoint that the head of a history verifies is accepted as historical for that history.\<close>

lemma verified_historical_signature:
  "verify_checkpoint_signature c t s b = Inr () \<Longrightarrow> verify_historical_signature c b t s = Inr ()"
  by (auto simp: verify_checkpoint_signature_def verify_historical_signature_def failure_def result_simps split: if_splits)

lemma historical_pins:
  assumes "tc_root t = tc_root u" "tc_head t = tc_head u" "tc_sequence t = tc_sequence u" "tc_record t = tc_record u"
  shows "verify_checkpoint_signature c t s b = verify_checkpoint_signature c u s b"
  unfolding verify_checkpoint_signature_def message_of_pins(1) [OF assms] assms(3) ..

lemma head_bundle_found:
  assumes "history_valid c h" and "distinct (map tb_id (th_bundles h))"
  shows "history_bundle c h (th_current h) = Inr (last (th_bundles h))"
proof -
  have l: "last (th_bundles h) \<in> set (th_bundles h)" "th_current h = tb_id (last (th_bundles h))"
    "th_bundles h \<noteq> []" using assms(1) by (auto simp: history_valid_def)
  then have "trust_bundle_valid (last (th_bundles h))"
    using history_bundle_at(1) [OF assms(1), of "length (th_bundles h) - 1"] by (simp add: last_conv_nth)
  then have v: "valid_sha256 (th_current h)" using l(2) by (simp add: trust_bundle_valid_def)
  obtain b where b: "find (\<lambda>b. tb_id b = th_current h) (th_bundles h) = Some b"
    using l by (metis (mono_tags, lifting) find_None_iff not_None_eq)
  then have "b \<in> set (th_bundles h)" "tb_id b = tb_id (last (th_bundles h))" using l(2) by (auto simp: find_Some_iff)
  with l(1) assms(2) have "b = last (th_bundles h)" by (simp add: distinct_map inj_on_def)
  with b v assms(1) show ?thesis by (simp add: history_bundle_def)
qed

lemma current_is_historical:
  assumes "verify_service_trust_checkpoint c h t expected = Inr ()" and "distinct (map tb_id (th_bundles h))"
  shows "verify_historical_checkpoint c h t = Inr ()" "history_bundle c h (tc_head t) = Inr (last (th_bundles h))"
proof -
  note v = verified_checkpoint [OF assms(1)]
  obtain u where u: "assemble_service_trust_checkpoint c h (tc_signatures t) = Inr u"
    using assms(1) by (auto simp: verify_service_trust_checkpoint_def result_simps split: if_splits)
  note a = assemble_checkpoint_accepts [OF u]
  have tv: "trust_checkpoint_valid t" using assms(1) by (auto simp: verify_service_trust_checkpoint_def split: if_splits)
  have n: "th_bundles h \<noteq> []" "length (th_records h) = length (th_bundles h)" using history_lengths [OF v(1)] by simp_all
  let ?b = "last (th_bundles h)" and ?k = "length (th_bundles h) - 1"
  have k: "?b = th_bundles h ! ?k" "last (th_records h) = th_records h ! ?k" "?k < length (th_bundles h)"
    using n history_lengths(2) [OF v(1)] by (auto simp: last_conv_nth)
  have e: "rr_sequence (th_records h ! ?k) = tb_sequence ?b" "rr_bundle (th_records h ! ?k) = tb_id ?b"
    using history_entry [OF v(1) k(3)] by (simp_all add: history_entry_ok_def k(1))
  have seq: "tc_sequence t = tb_sequence ?b" using v(5) head_sequence [OF v(1)] by (simp add: word_unat_eq_iff)
  show b: "history_bundle c h (tc_head t) = Inr ?b" unfolding v(4) by (rule head_bundle_found [OF v(1) assms(2)])
  have "check_checkpoint_signers c (trust_head_checkpoint h) ?b None (sort_by checkpoint_signer_less (tc_signatures t)) = Inr ()"
    using u v(1) by (auto simp: assemble_service_trust_checkpoint_def current_bundle_valid Let_def result_simps failure_def split: if_splits)
  then have "\<forall>s\<in>set (tc_signatures t). verify_checkpoint_signature c (trust_head_checkpoint h) s ?b = Inr ()"
    by (simp add: check_signers_iff list_all_iff)
  moreover have "verify_checkpoint_signature c t s ?b = verify_checkpoint_signature c (trust_head_checkpoint h) s ?b" for s
    by (rule historical_pins) (simp_all add: trust_head_checkpoint_def v seq)
  ultimately have "check_all (verify_historical_signature c ?b t) (tc_signatures t) = Inr ()"
    by (simp add: check_all_iff verified_historical_signature)
  moreover have "unat (tc_sequence t) = length (th_records h)" "tc_sequence t \<noteq> 0"
    using v(5) n by (auto simp: unat_0_iff [symmetric] simp del: unat_0_iff)
  moreover have "th_current h = tb_id ?b" using v(1) by (simp add: history_valid_def)
  moreover have "\<not> (length (tc_signatures t) < unat (rot_minimum (tb_policy ?b)) \<or>
       rot_distinct (tb_policy ?b) \<and> card (set (map cs_service (tc_signatures t))) < unat (rot_minimum (tb_policy ?b)))"
    using v(7) by (auto simp: checkpoint_quorum_def)
  moreover have "th_records h ! (unat (tc_sequence t) - 1) = th_records h ! ?k" using v(5) n(2) by simp
  ultimately show "verify_historical_checkpoint c h t = Inr ()"
    using b unfolding verify_historical_checkpoint_def Let_def
    by (simp only: v(1,3,4,6) tv e seq k(2) simp_thms if_False rbind_simps order.irrefl refl)
qed

lemma historical_checkpoint:
  assumes "verify_historical_checkpoint c h t = Inr ()"
  shows "\<exists>b. history_bundle c h (tc_head t) = Inr b \<and> tb_sequence b = tc_sequence t \<and>
    (\<forall>s\<in>set (tc_signatures t). checkpoint_signs c b t s) \<and> meets_policy (tb_policy b) (map cs_service (tc_signatures t))"
proof -
  obtain b where b: "history_bundle c h (tc_head t) = Inr b" "tb_sequence b = tc_sequence t"
      "check_all (verify_historical_signature c b t) (tc_signatures t) = Inr ()"
      "meets_policy (tb_policy b) (map cs_service (tc_signatures t))" "trust_checkpoint_valid t"
    using assms unfolding verify_historical_checkpoint_def Let_def
    by (auto simp: result_simps meets_policy_def failure_def split: if_splits)
  have "checkpoint_signs c b t s" if "s \<in> set (tc_signatures t)" for s
  proof -
    have "valid_service_trust_checkpoint_signature s" using b(5) that by (auto simp: trust_checkpoint_valid_def list_all_iff)
    moreover have "verify_historical_signature c b t s = Inr ()" using b(3) that by (simp add: check_all_iff)
    ultimately have "verify_checkpoint_signature c t s b = Inr ()"
      by (auto simp: verify_checkpoint_signature_def verify_historical_signature_def result_simps failure_def split: if_splits)
    then show ?thesis by (rule verified_signature(1))
  qed
  with b show ?thesis by blast
qed

section \<open>Reviewers\<close>

text \<open>The key of a bundle that still lets its service publish, at the sequence number of the bundle.\<close>

definition active_in :: "trust_bundle \<Rightarrow> string \<times> string \<Rightarrow> bool" where
  "active_in b signer \<longleftrightarrow> (\<exists>k\<in>set (tb_keys b). key_name k = signer \<and> sk_state k = KeyActive \<and> sk_publish k \<and>
     sk_from k \<le> tb_sequence b \<and> (sk_through k = 0 \<or> tb_sequence b \<le> sk_through k))"

lemma all_active:
  assumes "first_inactive b as = Inr None"
  shows "\<forall>a\<in>set as. active_in b (session_signer a)"
  using assms
proof (induction as)
  case (Cons a as)
  then obtain found where f: "bundle_key b (sa_service a) (sa_key a) = Inr found" "\<not> reviewer_refused found (tb_sequence b)"
      "first_inactive b as = Inr None"
    by (auto simp: result_simps split: if_splits)
  then obtain k where "found = Some k" by (cases found) (auto simp: reviewer_refused_def Let_def)
  with f have "k \<in> set (tb_keys b)" "key_name k = session_signer a"
    by (auto simp: bundle_key_Some key_name_def session_signer_def dest: find_key_Some)
  moreover have "sk_state k = KeyActive \<and> sk_publish k \<and> sk_from k \<le> tb_sequence b \<and> (sk_through k = 0 \<or> tb_sequence b \<le> sk_through k)"
    using f(2) \<open>found = Some k\<close> by (auto simp: reviewer_refused_def Let_def)
  ultimately have "active_in b (session_signer a)" by (auto simp: active_in_def)
  with Cons.IH f(3) show ?case by simp
qed simp

definition reviewers_active :: "execution_session \<Rightarrow> trust_bundle \<Rightarrow> bool" where
  "reviewers_active e b \<longleftrightarrow> (\<forall>a\<in>set (ss_approvals (es_approvals e)). active_in b (session_signer a))"

lemma no_inactive_reviewer: "inactive_reviewer_key e b = Inr None \<Longrightarrow> reviewers_active e b"
  using all_active by (auto simp: inactive_reviewer_key_def reviewers_active_def failure_def split: if_splits)

lemma first_inactive_named: "first_inactive b as = Inr (Some k) \<Longrightarrow> \<exists>a\<in>set as. sa_key a = k"
  by (induction as) (auto simp: result_simps split: if_splits)

section \<open>The loop of the audit\<close>

lemma audit_append:
  "audit_records c e h all st (rs @ rs') = rbind (audit_records c e h all st rs) (\<lambda>st. audit_records c e h all st rs')"
proof (induction rs arbitrary: st)
  case (Cons r rs)
  show ?case by (cases "audit_record c e h all st r") (simp_all add: Cons.IH)
qed simp

lemma dependency_monotone:
  "dependency_matches_session e k s rs \<Longrightarrow> set rs \<subseteq> set rs' \<Longrightarrow> dependency_matches_session e k s rs'"
  by (cases k) (auto simp: list_ex_iff split: if_splits)

lemma audit_record_iff:
  "audit_record c e h rs st r = Inr st' \<longleftrightarrow> audit_content c e h st r = Inr st' \<and>
     (\<forall>d. lr_revocation r = Some d \<longrightarrow> dependency_matches_session e (dr_kind d) (dr_subject d) rs)"
  by (cases "audit_content c e h st r"; cases "lr_revocation r") (auto simp: audit_record_def failure_def)

lemma audit_record_monotone:
  "audit_record c e h rs st r = Inr st' \<Longrightarrow> set rs \<subseteq> set rs' \<Longrightarrow> audit_record c e h rs' st r = Inr st'"
  unfolding audit_record_iff using dependency_monotone by blast

lemma audit_monotone:
  "audit_records c e h all st rs = Inr st' \<Longrightarrow> set all \<subseteq> set all' \<Longrightarrow> audit_records c e h all' st rs = Inr st'"
proof (induction rs arbitrary: st)
  case (Cons r rs)
  then obtain st1 where "audit_record c e h all st r = Inr st1" "audit_records c e h all st1 rs = Inr st'"
    by (auto simp: result_simps)
  from audit_record_monotone [OF this(1) Cons.prems(2)] Cons.IH [OF this(2) Cons.prems(2)] show ?case by simp
qed simp

text \<open>What each kind of record passes.\<close>

lemma audit_authorized:
  assumes "lr_authorization r = Some u" and "lr_checkpoint r = Some t"
  shows "audit_content c e h st r = Inr st' \<longleftrightarrow>
    (\<exists>v. session_authorize_command e (au_index u) (ec_configuration (sq_commands (es_sequence e) ! unat (au_index u)))
        (au_dispatch u) = Inr (Some v) \<and> au_id v = au_id u) \<and>
     audit_checkpoint c e h st t = Inr None \<and> st' = (passed_checkpoint t st)\<lparr>as_outstanding := Some u\<rparr>"
proof (cases "session_authorize_command e (au_index u) (ec_configuration (sq_commands (es_sequence e) ! unat (au_index u)))
    (au_dispatch u)")
  case (Inr v)
  with assms show ?thesis
    by (cases v; cases "audit_checkpoint c e h st t")
      (auto simp: audit_content_def failure_def split: option.split)
qed (simp add: audit_content_def assms failure_def)

lemma audit_completed:
  assumes "lr_authorization r = None" and "lr_completion r = Some v"
  shows "audit_content c e h st r = Inr st' \<longleftrightarrow>
    (\<exists>u. as_outstanding st = Some u \<and> verify_execution_controller_completion c e u v = Inr () \<and>
       st' = st\<lparr>as_outstanding := None\<rparr>)"
  using assms by (cases "as_outstanding st") (auto simp: audit_content_def failure_def result_simps)

lemma audit_revoked:
  assumes "lr_authorization r = None" and "lr_completion r = None" and "lr_revocation r = Some d" and "lr_checkpoint r = Some t"
  shows "audit_content c e h st r = Inr st' \<longleftrightarrow>
    dr_kind d = DependsOnReviewer \<and> audit_checkpoint c e h st t = Inr (Some (dr_subject d)) \<and> st' = passed_checkpoint t st"
  using assms by (cases "audit_checkpoint c e h st t") (auto simp: audit_content_def failure_def)

lemma audit_other:
  assumes "lr_authorization r = None" and "lr_completion r = None" and "lr_checkpoint r = None"
  shows "audit_content c e h st r = Inr st' \<longleftrightarrow> st' = st"
  using assms by (auto simp: audit_content_def split: option.split)

text \<open>A valid record is of one of these kinds.\<close>

lemma record_kind:
  assumes "record_content_valid r"
  obtains u t where "lr_authorization r = Some u" "lr_checkpoint r = Some t" "lr_completion r = None" "lr_revocation r = None"
      "lr_type r = CommandAuthorized" "authorization_valid u" "trust_checkpoint_valid t" "lr_observed r = au_dispatch u"
    | v where "lr_authorization r = None" "lr_completion r = Some v" "lr_checkpoint r = None" "lr_revocation r = None"
      "lr_type r = ControllerCompletion" "completion_valid v" "lr_observed r = cc_completed v"
    | d t where "lr_authorization r = None" "lr_completion r = None" "lr_revocation r = Some d" "lr_checkpoint r = Some t"
      "lr_type r = DependencyRevoked"
    | "lr_authorization r = None" "lr_completion r = None" "lr_checkpoint r = None"
proof (cases "lr_type r")
  case CommandAuthorized
  then show ?thesis using content_of_type(3) [OF assms] that(1) by blast
next
  case ControllerCompletion
  then show ?thesis using content_of_type(4) [OF assms] that(2) by blast
next
  case DependencyRevoked
  then show ?thesis using content_of_type(1,2,5) [OF assms] that(3,4)
    by (metis ledger_record_type.distinct(17) ledger_record_type.distinct(23) option.exhaust)
qed (use content_of_type(1,2,6) [OF assms] that(4) in fastforce)+

text \<open>The state of the audit after some records: the last checkpoint, and the authorization the last record left open.\<close>

lemma audit_content_state:
  assumes "audit_content c e h st r = Inr st'" and "record_content_valid r"
  shows "(case lr_checkpoint r of
      None \<Rightarrow> as_sequence st' = as_sequence st \<and> as_checkpoint st' = as_checkpoint st \<and> as_checkpoints st' = as_checkpoints st
    | Some t \<Rightarrow> as_sequence st' = tc_sequence t \<and> as_checkpoint st' = tc_id t \<and> as_checkpoints st' = as_checkpoints st + 1) \<and>
    (\<forall>u. lr_authorization r = Some u \<longrightarrow> as_outstanding st' = Some u)"
  by (rule record_kind [OF assms(2)]) (use assms(1) in
    \<open>auto simp: audit_authorized audit_completed audit_revoked audit_other passed_checkpoint_def\<close>)

lemma latest_checkpoint_snoc:
  "latest_checkpoint (rs @ [r]) = (case lr_checkpoint r of None \<Rightarrow> latest_checkpoint rs | Some t \<Rightarrow> (tc_sequence t, tc_id t))"
  by (auto simp: latest_checkpoint_def split: option.split)

lemma audit_state:
  assumes "audit_records c e h all audit_start rs = Inr st" and "\<forall>r\<in>set rs. record_content_valid r"
  shows "(as_sequence st, as_checkpoint st) = latest_checkpoint rs \<and>
    (as_checkpoints st = 0 \<longleftrightarrow> list_all (\<lambda>r. lr_checkpoint r = None) rs) \<and>
    (rs \<noteq> [] \<longrightarrow> (\<forall>u. lr_authorization (last rs) = Some u \<longrightarrow> as_outstanding st = Some u))"
  using assms
proof (induction rs arbitrary: st rule: rev_induct)
  case (snoc r rs)
  then obtain st1 where st1: "audit_records c e h all audit_start rs = Inr st1" "audit_content c e h st1 r = Inr st"
    by (auto simp: audit_append result_simps audit_record_iff)
  have r: "record_content_valid r" using snoc.prems(2) by simp
  show ?case
    using snoc.IH [OF st1(1)] snoc.prems(2) audit_content_state [OF st1(2) r]
    by (auto simp: latest_checkpoint_snoc split: option.splits)
qed (simp add: audit_start_def latest_checkpoint_def)

end
