(* ===== verification/Ledger_Reach.thy ===== *)
theory Ledger_Reach
  imports Ledger_Audit_Laws
begin

text \<open>
  What an audit certifies, the ledgers that the operations reach from a created one under a fixed
  trust history, and that each of them passes the audit.
\<close>

section \<open>An audited ledger\<close>

definition session_bound :: "execution_ledger \<Rightarrow> execution_session \<Rightarrow> bool" where
  "session_bound l e \<longleftrightarrow> es_id e = el_session l \<and> length (sq_commands (es_sequence e)) = el_count l \<and> es_from e = el_from l \<and>
     es_through e = el_through l"

lemma ledger_records_content: "ledger_valid l \<Longrightarrow> \<forall>x\<in>set (el_records l). record_content_valid x"
  by (rule ledger_valid_replayed) (auto simp: ledger_chain_def record_content)

lemma latest_checkpoint_member:
  "latest_checkpoint rs = (0, []) \<and> list_all (\<lambda>r. lr_checkpoint r = None) rs \<or>
   (\<exists>r\<in>set rs. \<exists>t. lr_checkpoint r = Some t \<and> latest_checkpoint rs = (tc_sequence t, tc_id t))"
  by (induction rs rule: rev_induct) (auto simp: latest_checkpoint_snoc latest_checkpoint_def [of "[]"] split: option.split)

lemma content_checkpoint:
  assumes "record_content_valid r" and "lr_checkpoint r = Some t"
  shows "trust_checkpoint_valid t"
  using assms by (auto simp: record_content_valid_def split: ledger_record_type.splits option.splits)

text \<open>The report that \<open>audit\<close> constructs is always valid.\<close>

lemma audit_passes_iff:
  "has_value (audit_ledger c l e r h a) \<longleftrightarrow> ledger_valid l \<and> session_bound l e \<and> has_value (verify_bound_session c e r h a) \<and>
     has_value (audit_records c e h (el_records l) audit_start (el_records l))"
proof -
  have i: "execution_ledger_audit_report_identity (p\<lparr>lp_id := x\<rparr>) = execution_ledger_audit_report_identity p" for p x
    by (simp add: execution_ledger_audit_report_identity_def)
  have v: "ledger_report_valid (p\<lparr>lp_id := execution_ledger_audit_report_identity p\<rparr>)"
    if p: "ledger_valid l" "audit_records c e h (el_records l) audit_start (el_records l) = Inr st"
      "p = \<lparr>lp_id = [], lp_ledger = el_id l, lp_session = el_session l, lp_current = el_current l,
         lp_status = lm_status (ledger_summary_of l), lp_records = length (el_records l), lp_checkpoints = as_checkpoints st,
         lp_authorizations = lm_authorizations (ledger_summary_of l), lp_completions = lm_completions (ledger_summary_of l),
         lp_latest = as_checkpoint st\<rparr>" for st p
  proof -
    obtain m where m: "ledger_summary_of l = m" "ledger_order (el_count l) (el_records l) m" "ledger_summary_valid m"
        "el_records l \<noteq> []" using ledger_valid_replayed [OF p(1)] by metis
    have ids: "valid_sha256 (el_id l)" "valid_sha256 (el_session l)" "valid_sha256 (el_current l)"
      using p(1) unfolding ledger_valid_iff by blast+
    note s = audit_state [OF p(2) ledger_records_content [OF p(1)]]
    have "if as_checkpoints st = 0 then as_checkpoint st = [] else valid_sha256 (as_checkpoint st)"
      using s latest_checkpoint_member [of "el_records l"] content_checkpoint ledger_records_content [OF p(1)]
      by (auto simp: list_all_iff trust_checkpoint_valid_def)
    moreover have "valid_ledger_status (lm_status m)" "lm_completions m \<le> lm_authorizations m"
      using m(2,3) by (simp_all add: ledger_summary_valid_def)
    ultimately show ?thesis
      using ids m(1,4) unfolding ledger_report_valid_def i by (simp add: p(3) execution_ledger_audit_report_identity_def)
  qed
  show ?thesis
    using v by (cases "verify_bound_session c e r h a"; cases "audit_records c e h (el_records l) audit_start (el_records l)")
      (auto simp: audit_ledger_def session_bound_def failure_def Let_def)
qed

text \<open>
  A command was cleared: it was dispatched inside its window, under a checkpoint that a quorum of
  its bundle signed, while every reviewer of the session was still active in that bundle.
\<close>

definition command_cleared :: "ed25519 \<Rightarrow> execution_session \<Rightarrow> trust_history \<Rightarrow> command_authorization \<Rightarrow> trust_checkpoint \<Rightarrow> bool" where
  "command_cleared c e h u t \<longleftrightarrow> unat (au_index u) < length (sq_commands (es_sequence e)) \<and>
     command_window e (unat (au_index u)) (unat (au_dispatch u)) \<and>
     (\<exists>b. history_bundle c h (tc_head t) = Inr b \<and> tb_sequence b = tc_sequence t \<and>
        (\<forall>s\<in>set (tc_signatures t). checkpoint_signs c b t s) \<and> meets_policy (tb_policy b) (map cs_service (tc_signatures t)) \<and>
        reviewers_active e b)"

definition completion_signed :: "ed25519 \<Rightarrow> execution_session \<Rightarrow> command_authorization \<Rightarrow> controller_completion \<Rightarrow> bool" where
  "completion_signed c e u v \<longleftrightarrow> cc_session v = es_id e \<and> cc_authorization v = au_id u \<and> cc_index v = au_index u \<and>
     cc_digest v = au_digest u \<and> au_dispatch u \<le> cc_completed v \<and>
     endpoint_signs c (rq_controller (es_request e)) (cc_tag v) (execution_controller_completion_message v)"

lemma verified_completion:
  "verify_execution_controller_completion c e u v = Inr () \<Longrightarrow> completion_signed c e u v"
  by (auto simp: verify_execution_controller_completion_def failure_def result_simps completion_signed_def endpoint_signs_def
      ed25519_verify_iff kEd25519SignatureBytes_def not_less split: if_splits)

lemma audited_checkpoint:
  assumes "audit_checkpoint c e h st t = Inr inactive"
  shows "verify_historical_checkpoint c h t = Inr ()" "\<not> rolled_back t (as_sequence st) (as_checkpoint st)"
    "\<exists>b. history_bundle c h (tc_head t) = Inr b \<and> inactive_reviewer_key e b = Inr inactive"
  using assms by (auto simp: audit_checkpoint_def result_simps failure_def split: if_splits)

definition checkpoints :: "ledger_record list \<Rightarrow> trust_checkpoint list" where
  "checkpoints rs = List.map_filter lr_checkpoint rs"

lemma checkpoints_simps [simp]:
  "checkpoints [] = []" "checkpoints (rs @ [r]) = checkpoints rs @ (case lr_checkpoint r of None \<Rightarrow> [] | Some t \<Rightarrow> [t])"
  by (simp_all add: checkpoints_def map_filter_def split: option.split)

lemma latest_checkpoint_last:
  "checkpoints rs \<noteq> [] \<Longrightarrow> latest_checkpoint rs = (tc_sequence (last (checkpoints rs)), tc_id (last (checkpoints rs)))"
  by (induction rs rule: rev_induct) (auto simp: latest_checkpoint_snoc split: option.splits)

lemma sorted_le_last: "sorted xs \<Longrightarrow> x \<in> set xs \<Longrightarrow> x \<le> last xs"
  by (induction xs) (auto simp: last_in_set)

lemma audit_facts:
  assumes "audit_records c e h all audit_start rs = Inr st" and "\<forall>r\<in>set rs. record_content_valid r"
  shows "(\<forall>r\<in>set rs. \<forall>u. lr_authorization r = Some u \<longrightarrow> (\<exists>t. lr_checkpoint r = Some t \<and> command_cleared c e h u t)) \<and>
    (\<forall>v\<in>set (completions rs). \<exists>u\<in>set (authorizations rs). completion_signed c e u v) \<and>
    sorted (map tc_sequence (checkpoints rs)) \<and>
    (\<forall>u. as_outstanding st = Some u \<longrightarrow> u \<in> set (authorizations rs))"
  using assms
proof (induction rs arbitrary: st rule: rev_induct)
  case (snoc r rs)
  then obtain st1 where st1: "audit_records c e h all audit_start rs = Inr st1" "audit_content c e h st1 r = Inr st"
    by (auto simp: audit_append result_simps audit_record_iff)
  have v: "record_content_valid r" "\<forall>r\<in>set rs. record_content_valid r" using snoc.prems(2) by simp_all
  note IH = snoc.IH [OF st1(1) v(2)]
  note seen = audit_state [OF st1(1) v(2)]
  have grows: "sorted (map tc_sequence (checkpoints rs @ [t]))" if "audit_checkpoint c e h st1 t = Inr x" for t x
  proof (cases "checkpoints rs = []")
    case False
    then have "tc_sequence (last (checkpoints rs)) \<le> tc_sequence t"
      using audited_checkpoint(2) [OF that] seen latest_checkpoint_last by (auto simp: rolled_back_def not_less)
    moreover have "\<forall>u\<in>set (checkpoints rs). tc_sequence u \<le> tc_sequence (last (checkpoints rs))"
      using IH sorted_le_last [of "map tc_sequence (checkpoints rs)"] False by (simp add: last_map)
    ultimately show ?thesis using IH by (auto simp: sorted_append intro: order_trans)
  qed simp
  show ?case
  proof (rule record_kind [OF v(1)])
    fix u t assume r: "lr_authorization r = Some u" "lr_checkpoint r = Some t" "lr_completion r = None"
    then obtain w where w: "session_authorize_command e (au_index u)
        (ec_configuration (sq_commands (es_sequence e) ! unat (au_index u))) (au_dispatch u) = Inr (Some w)"
        "audit_checkpoint c e h st1 t = Inr None" "as_outstanding st = Some u"
      using st1(2) by (auto simp: audit_authorized)
    have "command_cleared c e h u t"
      using authorized_command(2,9) [OF w(1)] audited_checkpoint [OF w(2)] historical_checkpoint no_inactive_reviewer
      unfolding command_cleared_def by fastforce
    with IH r w grows show ?thesis by (auto split: option.splits)
  next
    fix v assume r: "lr_authorization r = None" "lr_completion r = Some v" "lr_checkpoint r = None"
    with st1(2) obtain u where "as_outstanding st1 = Some u" "completion_signed c e u v" "as_outstanding st = None"
      by (auto simp: audit_completed verified_completion)
    with IH r show ?thesis by auto
  next
    fix d t assume r: "lr_authorization r = None" "lr_completion r = None" "lr_revocation r = Some d" "lr_checkpoint r = Some t"
    with st1(2) have "audit_checkpoint c e h st1 t = Inr (Some (dr_subject d))" "as_outstanding st = as_outstanding st1"
      by (auto simp: audit_revoked passed_checkpoint_def)
    with IH r grows show ?thesis by auto
  next
    assume "lr_authorization r = None" "lr_completion r = None" "lr_checkpoint r = None"
    with IH st1(2) show ?thesis by (auto simp: audit_other)
  qed
qed (simp add: audit_start_def)

text \<open>What a passed audit certifies of the whole ledger.\<close>

lemma audited:
  assumes "audit_ledger c l e r h a = Inr p"
  shows "ledger_valid l" "session_bound l e" "ledger_order (el_count l) (el_records l) (ledger_summary_of l)"
    "ledger_chain (el_id l) (el_session l) (el_records l)" "lp_status p = lm_status (ledger_summary_of l)"
    "\<forall>x\<in>set (el_records l). \<forall>u. lr_authorization x = Some u \<longrightarrow> (\<exists>t. lr_checkpoint x = Some t \<and> command_cleared c e h u t)"
    "\<forall>v\<in>set (completions (el_records l)). \<exists>u\<in>set (authorizations (el_records l)). completion_signed c e u v"
    "sorted (map tc_sequence (checkpoints (el_records l)))"
proof -
  have "has_value (audit_ledger c l e r h a)" by (simp add: assms)
  then obtain st where a: "ledger_valid l" "session_bound l e"
      "audit_records c e h (el_records l) audit_start (el_records l) = Inr st"
    by (cases "audit_records c e h (el_records l) audit_start (el_records l)") (auto simp: audit_passes_iff)
  then show "ledger_valid l" "session_bound l e" by simp_all
  show "ledger_order (el_count l) (el_records l) (ledger_summary_of l)" "ledger_chain (el_id l) (el_session l) (el_records l)"
    using ledger_valid_replayed [OF a(1)] by metis+
  show "lp_status p = lm_status (ledger_summary_of l)"
    using assms by (auto simp: audit_ledger_def Let_def result_simps failure_def split: if_splits)
  show "\<forall>x\<in>set (el_records l). \<forall>u. lr_authorization x = Some u \<longrightarrow> (\<exists>t. lr_checkpoint x = Some t \<and> command_cleared c e h u t)"
    "\<forall>v\<in>set (completions (el_records l)). \<exists>u\<in>set (authorizations (el_records l)). completion_signed c e u v"
    "sorted (map tc_sequence (checkpoints (el_records l)))"
    using audit_facts [OF a(3) ledger_records_content [OF a(1)]] by blast+
qed

section \<open>Records that an audit accepts\<close>

text \<open>The next record passes the audit of any state in which the records before it leave it.\<close>

definition passes_audit :: "ed25519 \<Rightarrow> execution_session \<Rightarrow> trust_history \<Rightarrow> ledger_record list \<Rightarrow> ledger_record \<Rightarrow> bool" where
  "passes_audit c e h rs x \<longleftrightarrow>
     (\<forall>st. (as_sequence st, as_checkpoint st) = latest_checkpoint rs \<longrightarrow>
        (\<forall>u. lr_authorization (last rs) = Some u \<longrightarrow> as_outstanding st = Some u) \<longrightarrow> has_value (audit_content c e h st x)) \<and>
     (\<forall>d. lr_revocation x = Some d \<longrightarrow> dependency_matches_session e (dr_kind d) (dr_subject d) rs)"

lemma audit_extended:
  assumes "has_value (audit_ledger c l e r h a)" and "ledger_valid (extended l x)" and "passes_audit c e h (el_records l) x"
  shows "has_value (audit_ledger c (extended l x) e r h a)"
proof -
  have l: "ledger_valid l" "session_bound l e" "has_value (verify_bound_session c e r h a)"
    and "has_value (audit_records c e h (el_records l) audit_start (el_records l))"
    using assms(1) by (simp_all add: audit_passes_iff)
  then obtain st where st: "audit_records c e h (el_records l) audit_start (el_records l) = Inr st"
    by (cases "audit_records c e h (el_records l) audit_start (el_records l)") auto
  let ?rs = "el_records l @ [x]"
  have "el_records l \<noteq> []" using ledger_valid_replayed [OF l(1)] by metis
  then obtain st' where "audit_content c e h st x = Inr st'"
    using assms(3) audit_state [OF st ledger_records_content [OF l(1)]] by (cases "audit_content c e h st x") (auto simp: passes_audit_def)
  then have "audit_record c e h ?rs st x = Inr st'"
    using assms(3) dependency_monotone [of e _ _ "el_records l" ?rs] by (auto simp: audit_record_iff passes_audit_def)
  moreover have "audit_records c e h ?rs audit_start (el_records l) = Inr st" by (rule audit_monotone [OF st]) auto
  ultimately have "audit_records c e h ?rs audit_start ?rs = Inr st'" by (simp add: audit_append)
  with l assms(2) show ?thesis by (simp add: audit_passes_iff session_bound_def)
qed

lemma identified_simps [simp]:
  "lr_authorization (identified_record x) = lr_authorization x" "lr_completion (identified_record x) = lr_completion x"
  "lr_checkpoint (identified_record x) = lr_checkpoint x" "lr_revocation (identified_record x) = lr_revocation x"
  "lr_type (identified_record x) = lr_type x" "lr_observed (identified_record x) = lr_observed x"
  "lr_detail (identified_record x) = lr_detail x"
  by (simp_all add: identified_record_def)

lemma next_record_simps [simp]:
  "lr_authorization (next_ledger_record l k t) = None" "lr_completion (next_ledger_record l k t) = None"
  "lr_checkpoint (next_ledger_record l k t) = None" "lr_revocation (next_ledger_record l k t) = None"
  "lr_type (next_ledger_record l k t) = k" "lr_observed (next_ledger_record l k t) = t" "lr_detail (next_ledger_record l k t) = []"
  by (simp_all add: next_ledger_record_def)

lemma passes_other:
  assumes "lr_authorization x = None" "lr_completion x = None" "lr_checkpoint x = None"
    and "\<And>d. lr_revocation x = Some d \<Longrightarrow> dependency_matches_session e (dr_kind d) (dr_subject d) rs"
  shows "passes_audit c e h rs x"
proof -
  have "audit_content c e h st x = Inr st" for st by (simp add: audit_other [OF assms(1-3)])
  with assms(4) show ?thesis by (simp add: passes_audit_def)
qed

text \<open>A command is authorized with its own configuration whenever it is with an equal one.\<close>

lemma authorize_own_configuration:
  assumes "session_authorize_command e i q t = Inr (Some u)"
  shows "session_authorize_command e (au_index u) (ec_configuration (sq_commands (es_sequence e) ! unat (au_index u)))
    (au_dispatch u) = Inr (Some u)"
proof -
  note a = authorized_command [OF assms]
  let ?q = "ec_configuration (sq_commands (es_sequence e) ! unat i)"
  have "sequence_valid (es_sequence e)" using a(1) by (simp add: session_valid_def)
  then have q: "valid_configuration ?q (sq_dimension (es_sequence e))" using sequence_commands(5) a(2) by simp
  then have "list_all2 f64_eq ?q ?q" by (auto simp: valid_configuration_def list_all_iff list_all2_same f64_eq_def isfinite_def isnan_def)
  with q assms have "session_authorize_command e i ?q t = Inr (Some u)"
    by (auto simp: session_authorize_command_def Let_def failure_def split: if_splits option.splits)
  with a(3,4) show ?thesis by simp
qed

text \<open>What \<open>authorize_command\<close> verified of the current checkpoint.\<close>

lemma current_context:
  assumes "verify_current_context c e r h t expected a = Inr b"
  shows "has_value (verify_bound_session c e r h a)" "verify_service_trust_checkpoint c h t expected = Inr ()"
    "b = last (th_bundles h)" "rq_trust_sequence (es_request e) \<le> tc_sequence t"
proof -
  have v: "has_value (verify_bound_session c e r h a)" "verify_service_trust_checkpoint c h t expected = Inr ()"
      "rq_trust_sequence (es_request e) \<le> tc_sequence t" "current_bundle c h = Inr b"
    using assms by (auto simp: verify_current_context_def failure_def result_simps not_less split: if_splits)
  then show "has_value (verify_bound_session c e r h a)" "verify_service_trust_checkpoint c h t expected = Inr ()"
    "rq_trust_sequence (es_request e) \<le> tc_sequence t" by simp_all
  show "b = last (th_bundles h)" using v(2,4) verified_checkpoint(1) [OF v(2)] by (simp add: current_bundle_valid)
qed

lemma current_checkpoint_audited:
  assumes "verify_current_context c e r h t expected a = Inr b" and "distinct (map tb_id (th_bundles h))"
    and "\<not> rolled_back t (as_sequence st) (as_checkpoint st)"
  shows "audit_checkpoint c e h st t = inactive_reviewer_key e b"
  using current_context [OF assms(1)] current_is_historical [OF _ assms(2)] assms(3)
  by (simp add: audit_checkpoint_def)

lemma decided_record_passes:
  assumes "decide_command c e r a i l = Inr (Some (x, u))" and "distinct (map tb_id (th_bundles (zi_history i)))"
  shows "passes_audit c e (zi_history i) (el_records l) x"
proof -
  let ?t = "zi_checkpoint i" and ?L = "latest_checkpoint (el_records l)" and ?h = "zi_history i"
  consider (expired) "x = next_ledger_record l SessionExpired (zi_dispatch i)"
    | (revoked) b k where "verify_current_context c e r ?h ?t (zi_expected_checkpoint i) a = Inr b"
        "\<not> rolled_back ?t (fst ?L) (snd ?L)" "inactive_reviewer_key e b = Inr (Some k)"
        "x = (next_ledger_record l DependencyRevoked (zi_dispatch i))\<lparr>lr_checkpoint := Some ?t,
           lr_revocation := Some \<lparr>dr_kind = DependsOnReviewer, dr_subject = k, dr_detail = inactive_detail\<rparr>\<rparr>"
    | (authorized) b v where "verify_current_context c e r ?h ?t (zi_expected_checkpoint i) a = Inr b"
        "\<not> rolled_back ?t (fst ?L) (snd ?L)" "inactive_reviewer_key e b = Inr None"
        "session_authorize_command e (zi_index i) (zi_configuration i) (zi_dispatch i) = Inr (Some v)"
        "x = (next_ledger_record l CommandAuthorized (zi_dispatch i))\<lparr>lr_authorization := Some v, lr_checkpoint := Some ?t\<rparr>"
    using assms(1) by (auto simp: decide_command_def Let_def failure_def result_simps split: if_splits option.splits)
  then show ?thesis
  proof cases
    case expired
    then show ?thesis by (intro passes_other) auto
  next
    case revoked
    have "audit_content c e ?h st x = Inr (passed_checkpoint ?t st)" if "(as_sequence st, as_checkpoint st) = ?L" for st
    proof -
      have "audit_checkpoint c e ?h st ?t = Inr (Some k)"
        using that revoked(2,3) current_checkpoint_audited [OF revoked(1) assms(2), of st] by (metis fst_conv snd_conv)
      then show ?thesis by (simp add: audit_revoked revoked(4))
    qed
    moreover have "\<exists>s\<in>set (ss_approvals (es_approvals e)). sa_key s = k"
      using revoked(3) first_inactive_named by (auto simp: inactive_reviewer_key_def failure_def split: if_splits)
    ultimately show ?thesis by (auto simp: passes_audit_def revoked(4) list_ex_iff)
  next
    case authorized
    have "has_value (audit_content c e ?h st x)" if "(as_sequence st, as_checkpoint st) = ?L" for st
    proof -
      have "audit_checkpoint c e ?h st ?t = Inr None"
        using that authorized(2,3) current_checkpoint_audited [OF authorized(1) assms(2), of st] by (metis fst_conv snd_conv)
      then have "audit_content c e ?h st x = Inr ((passed_checkpoint ?t st)\<lparr>as_outstanding := Some v\<rparr>)"
        using authorize_own_configuration [OF authorized(4)] by (simp add: audit_authorized authorized(5))
      then show ?thesis by simp
    qed
    then show ?thesis by (simp add: passes_audit_def authorized(5))
  qed
qed

lemma passes_identified [simp]: "passes_audit c e h rs (identified_record x) = passes_audit c e h rs x"
proof -
  have "has_value (audit_content c e h st (identified_record x)) = has_value (audit_content c e h st x)" for st
    by (auto simp: audit_content_def failure_def has_value_def result_simps split: option.split sum.split)
  then show ?thesis by (simp add: passes_audit_def)
qed

end
