(* ===== verification/Ledger_Run.thy ===== *)
theory Ledger_Run
  imports Ledger_Reach
begin

text \<open>
  The step relation of a ledger: created for a session that its dependencies bind, then changed by
  one operation at a time, each of which holds the write lock and reads the ledger as it was left.
\<close>

section \<open>Creation\<close>

lemma identified_valid:
  "ledger_record_valid (identified_record x) \<longleftrightarrow>
     lr_schema x = 1 \<and> valid_sha256 (lr_ledger x) \<and> valid_sha256 (lr_session x) \<and> valid_record_type (lr_type x) \<and>
     lr_observed x \<noteq> 0 \<and> (if lr_sequence x = 0 then lr_parent x = [] else valid_sha256 (lr_parent x)) \<and>
     ledger_text True (lr_detail x) \<and> record_content_valid x"
proof -
  have "execution_ledger_record_identity (x\<lparr>lr_id := i\<rparr>) = execution_ledger_record_identity x"
    for i by (simp add: execution_ledger_record_identity_def)
  moreover have "record_content_valid (x\<lparr>lr_id := i\<rparr>) = record_content_valid x" for i
    by (simp add: record_content_valid_def cong: ledger_record_type.case_cong option.case_cong)
  ultimately show ?thesis by (auto simp: identified_record_def ledger_record_valid_def)
qed

lemma root_valid:
  assumes "session_valid e"
  shows "ledger_record_valid (ledger_root e)" "lr_type (ledger_root e) = SessionOpened" "lr_observed (ledger_root e) = es_from e"
    "lr_ledger (ledger_root e) = execution_ledger_identity (es_id e)" "lr_session (ledger_root e) = es_id e"
    "lr_sequence (ledger_root e) = 0" "lr_parent (ledger_root e) = []" "lr_authorization (ledger_root e) = None"
    "lr_completion (ledger_root e) = None" "lr_checkpoint (ledger_root e) = None" "lr_revocation (ledger_root e) = None"
proof -
  have "valid_sha256 (es_id e)" "es_from e \<noteq> 0" using assms by (auto simp: session_valid_def)
  then show "ledger_record_valid (ledger_root e)"
    unfolding ledger_root_def Let_def identified_record_def [symmetric] identified_valid
    by (simp add: record_content_valid_def valid_record_type_def ledger_text_def execution_ledger_identity_def)
qed (simp_all add: ledger_root_def Let_def)

lemma created_ledger_valid:
  assumes "session_valid e" and "directory \<noteq> []"
  shows "ledger_valid (created_ledger directory e)" "session_bound (created_ledger directory e) e"
proof -
  let ?L = "execution_ledger_identity (es_id e)"
  note root = root_valid [OF assms(1)]
  have e: "valid_sha256 (es_id e)" "0 < es_from e" "es_from e \<le> es_through e" "2 \<le> length (sq_commands (es_sequence e))"
    using assms(1) sequence_commands(1) [of "es_sequence e"] by (auto simp: session_valid_def)
  have "valid_sha256 (lr_id (ledger_root e))" using root(1) by (simp add: ledger_record_valid_def)
  moreover have "\<not> chain_broken ?L (es_id e) 0 None (ledger_root e)" by (simp add: chain_broken_def root)
  ultimately show "ledger_valid (created_ledger directory e)"
    using e assms(2) unfolding ledger_valid_iff
    by (auto simp: created_ledger_def ledger_replayed_def build_ledger_summary_def root default_maximum_records_def
        execution_ledger_identity_def)
qed (simp add: session_bound_def created_ledger_def)

lemma created_ledger_audited:
  assumes "has_value (verify_bound_session c e r h a)" and "session_valid e" and "directory \<noteq> []"
  shows "has_value (audit_ledger c (created_ledger directory e) e r h a)"
proof -
  note root = root_valid [OF assms(2)]
  have "audit_record c e h rs st (ledger_root e) = Inr st" for rs st
    by (simp add: audit_record_iff audit_other root)
  with created_ledger_valid [OF assms(2,3)] assms(1) show ?thesis
    by (simp add: audit_passes_iff) (simp add: created_ledger_def)
qed

section \<open>One step\<close>

text \<open>An operation leaves the ledger it found, or that ledger with one record that the audit accepts.\<close>

definition grows :: "ed25519 \<Rightarrow> execution_session \<Rightarrow> trust_history \<Rightarrow> execution_ledger \<Rightarrow> execution_ledger \<Rightarrow> bool" where
  "grows c e h l l' \<longleftrightarrow> l' = l \<or>
     (\<exists>x. l' = extended l x \<and> ledger_valid l' \<and> passes_audit c e h (el_records l) x)"

lemma fresh_opened:
  assumes "ld_open disk = Inr l" and "fresh_ledger disk expected = Inr l'"
  shows "l' = l" "el_current l = expected"
  using assms by (auto simp: fresh_ledger_def result_simps failure_def split: if_splits)

lemma authorize_grows:
  assumes "ld_open disk = Inr l" and "ledger_authorize_command c disk l e r a i = (res, l')"
    and "distinct (map tb_id (th_bundles (zi_history i)))"
  shows "grows c e (zi_history i) l l'"
proof (cases "fresh_ledger disk (zi_expected_record i)")
  case (Inr f)
  have f: "f = l" by (rule fresh_opened [OF assms(1) Inr])
  show ?thesis
  proof (cases "decide_command c e r a i l")
    case (Inr decided)
    show ?thesis
    proof (cases "\<exists>x u l1. decided = Some (x, u) \<and> append_record_unlocked disk l (identified_record x) = Inr l1")
      case True
      then obtain x u l1 where x: "decided = Some (x, u)" "append_record_unlocked disk l (identified_record x) = Inr l1" by blast
      then have "l' = l1 \<or> l' = l"
        using assms(2) \<open>fresh_ledger _ _ = _\<close> Inr by (auto simp: ledger_authorize_command_def f Let_def split: if_splits)
      with x(1) appended [OF x(2)] decided_record_passes [OF _ assms(3), of c e r a l x u] Inr
      show ?thesis by (auto simp: grows_def)
    next
      case False
      then have "l' = l"
        using assms(2) \<open>fresh_ledger _ _ = _\<close> Inr
        by (auto simp: ledger_authorize_command_def f Let_def split: if_splits option.splits sum.splits)
      then show ?thesis by (simp add: grows_def)
    qed
  qed (use assms(2) Inr in \<open>auto simp: ledger_authorize_command_def f grows_def split: if_splits\<close>)
qed (use assms(2) in \<open>auto simp: ledger_authorize_command_def grows_def split: if_splits\<close>)

lemma append_step_grows:
  assumes "ld_open disk = Inr l" and "append_step disk l (rbind (fresh_ledger disk expected) f) (fresh_ledger disk expected) = (res, l')"
    and "\<And>x. f l = Inr x \<Longrightarrow> passes_audit c e h (el_records l) x"
  shows "grows c e h l l'"
proof (cases "fresh_ledger disk expected")
  case (Inr l0)
  have l0: "l0 = l" by (rule fresh_opened [OF assms(1) Inr])
  show ?thesis
  proof (cases "f l")
    case (Inr x)
    have p: "passes_audit c e h (el_records l) (identified_record x)" using assms(3) [OF Inr] by simp
    have "l' = l \<or> append_record_unlocked disk l (identified_record x) = Inr l'"
      using assms(2) Inr \<open>fresh_ledger _ _ = _\<close>
      by (cases "append_record_unlocked disk l (identified_record x)") (auto simp: append_step_def l0)
    then show ?thesis using p appended(1,3) unfolding grows_def by metis
  qed (use assms(2) Inr in \<open>simp add: append_step_def l0 grows_def\<close>)
qed (use assms(2) in \<open>simp add: append_step_def grows_def\<close>)

lemma completion_grows:
  assumes "ld_open disk = Inr l" and "record_completion c disk l e v expected = (res, l')"
  shows "grows c e h l l'"
proof (cases "completion_valid v \<and> valid_sha256 expected")
  case True
  show ?thesis
  proof (rule append_step_grows [OF assms(1)])
    show "append_step disk l (rbind (fresh_ledger disk expected) (\<lambda>l.
        case (lm_status (ledger_summary_of l), lr_authorization (last (el_records l))) of
          (AwaitingCompletion, Some u) \<Rightarrow> rbind (verify_execution_controller_completion c e u v) (\<lambda>_.
              Inr ((next_ledger_record l ControllerCompletion (cc_completed v))\<lparr>lr_completion := Some v\<rparr>))
        | _ \<Rightarrow> failure IdentityMismatch ''execution ledger has no outstanding command authorization'' (el_current l)))
      (fresh_ledger disk expected) = (res, l')"
      using assms(2) True unfolding record_completion_def Let_def by simp
  next
    fix x
    assume "(case (lm_status (ledger_summary_of l), lr_authorization (last (el_records l))) of
          (AwaitingCompletion, Some u) \<Rightarrow> rbind (verify_execution_controller_completion c e u v) (\<lambda>_.
              Inr ((next_ledger_record l ControllerCompletion (cc_completed v))\<lparr>lr_completion := Some v\<rparr>))
        | _ \<Rightarrow> failure IdentityMismatch ''execution ledger has no outstanding command authorization'' (el_current l)) = Inr x"
    then obtain u where "lr_authorization (last (el_records l)) = Some u"
        "verify_execution_controller_completion c e u v = Inr ()"
        "x = (next_ledger_record l ControllerCompletion (cc_completed v))\<lparr>lr_completion := Some v\<rparr>"
      by (auto simp: failure_def result_simps split: ledger_status.splits option.splits)
    then show "passes_audit c e h (el_records l) x"
      by (auto simp: passes_audit_def has_value_iff audit_completed)
  qed
qed (use assms(2) in \<open>auto simp: record_completion_def grows_def\<close>)

lemma cancel_grows:
  assumes "ld_open disk = Inr l" and "cancel_ledger disk l observed detail expected = (res, l')"
  shows "grows c e h l l'"
proof (cases "observed = 0 \<or> \<not> ledger_text False detail \<or> \<not> valid_sha256 expected")
  case False
  show ?thesis
    by (rule append_step_grows [OF assms(1) assms(2) [unfolded cancel_ledger_def Let_def if_not_P [OF False]]]; rule passes_other)
      (auto simp: result_simps)
qed (use assms(2) in \<open>simp add: cancel_ledger_def grows_def\<close>)

lemma expire_grows:
  assumes "ld_open disk = Inr l" and "expire_ledger disk l e observed expected = (res, l')"
  shows "grows c e h l l'"
proof (cases "observed \<le> es_through e \<or> \<not> valid_sha256 expected")
  case False
  show ?thesis
    by (rule append_step_grows [OF assms(1) assms(2) [unfolded expire_ledger_def Let_def if_not_P [OF False]]]; rule passes_other)
      (auto simp: result_simps)
qed (use assms(2) in \<open>simp add: expire_ledger_def grows_def\<close>)

lemma revoke_grows:
  assumes "ld_open disk = Inr l" and "revoke_dependency disk l e k subject observed detail expected = (res, l')"
  shows "grows c e h l l'"
proof -
  let ?d = "\<lparr>dr_kind = k, dr_subject = subject, dr_detail = detail\<rparr>"
  show ?thesis
  proof (cases "observed = 0 \<or> \<not> valid_execution_dependency_revocation ?d \<or> \<not> valid_sha256 expected")
    case False
    show ?thesis
      by (rule append_step_grows [OF assms(1) assms(2) [unfolded revoke_dependency_def Let_def if_not_P [OF False]]]; rule passes_other)
        (auto simp: result_simps failure_def split: if_splits)
  qed (use assms(2) in \<open>simp add: revoke_dependency_def grows_def\<close>)
qed

section \<open>Reachable ledgers\<close>

text \<open>
  The ledgers reached from a created one: every operation works on the ledger as the last one left
  it, under the same trust history, whatever its arguments and whatever happens to the append.
\<close>

inductive ledger_reached ::
  "ed25519 \<Rightarrow> execution_session \<Rightarrow> reviewed_profile \<Rightarrow> trust_history \<Rightarrow> atlas_view \<Rightarrow> execution_ledger \<Rightarrow> bool"
  for c e r h a where
  Created: "has_value (verify_bound_session c e r h a) \<Longrightarrow> session_valid e \<Longrightarrow> directory \<noteq> [] \<Longrightarrow>
     ledger_reached c e r h a (created_ledger directory e)"
| Authorized: "ledger_reached c e r h a l \<Longrightarrow> ld_open disk = Inr l \<Longrightarrow> zi_history i = h \<Longrightarrow>
     ledger_authorize_command c disk l e r a i = (decision, l') \<Longrightarrow> ledger_reached c e r h a l'"
| Completed: "ledger_reached c e r h a l \<Longrightarrow> ld_open disk = Inr l \<Longrightarrow>
     record_completion c disk l e v expected = (res, l') \<Longrightarrow> ledger_reached c e r h a l'"
| Cancelled: "ledger_reached c e r h a l \<Longrightarrow> ld_open disk = Inr l \<Longrightarrow>
     cancel_ledger disk l observed detail expected = (res, l') \<Longrightarrow> ledger_reached c e r h a l'"
| Expired: "ledger_reached c e r h a l \<Longrightarrow> ld_open disk = Inr l \<Longrightarrow>
     expire_ledger disk l e observed expected = (res, l') \<Longrightarrow> ledger_reached c e r h a l'"
| Revoked: "ledger_reached c e r h a l \<Longrightarrow> ld_open disk = Inr l \<Longrightarrow>
     revoke_dependency disk l e kind subject observed detail expected = (res, l') \<Longrightarrow> ledger_reached c e r h a l'"

lemma grows_audited:
  assumes "grows c e h l l'" and "has_value (audit_ledger c l e r h a)"
  shows "has_value (audit_ledger c l' e r h a)"
  using assms audit_extended by (auto simp: grows_def)

lemma reached_audited:
  assumes "ledger_reached c e r h a l" and "distinct (map tb_id (th_bundles h))"
  shows "has_value (audit_ledger c l e r h a)"
  using assms(1)
proof induction
  case (Created directory)
  then show ?case by (rule created_ledger_audited)
next
  case (Authorized l disk i decision l')
  then have "grows c e (zi_history i) l l'" using assms(2) authorize_grows by metis
  with Authorized show ?case using grows_audited by metis
qed (metis grows_audited completion_grows cancel_grows expire_grows revoke_grows)+

text \<open>A ledger that has ended stays as it is.\<close>

lemma grows_terminal:
  assumes "grows c e h l l'" and "ledger_valid l" and "terminal_status (lm_status (ledger_summary_of l))"
  shows "l' = l"
proof (rule ccontr)
  assume "l' \<noteq> l"
  with assms(1) obtain x where x: "l' = extended l x" "ledger_valid (extended l x)" by (auto simp: grows_def)
  obtain m where "ledger_replayed l = Inr m" "\<not> terminal_status (lm_status m)"
    by (rule appended_summary [OF assms(2) x(2)])
  with assms(3) show False by (simp add: ledger_summary_of_def)
qed

section \<open>A granted command\<close>

text \<open>
  A decision that authorizes a command: the ledger on disk was the one the caller pinned, the
  command is the next one and nothing is outstanding, and its record is appended before the
  decision is returned.
\<close>

lemma command_granted:
  assumes "ledger_authorize_command c disk self e r a i = (Inr d, l')" and "cd_authorization d = Some u"
  obtains l x where "ld_open disk = Inr l" "el_current l = zi_expected_record i" "l' = extended l x" "ld_append disk x = Inr ()"
    "lr_authorization x = Some u" "lr_checkpoint x = Some (zi_checkpoint i)" "ledger_valid l" "ledger_valid l'"
    "lm_status (ledger_summary_of l) = LedgerOpen" "unat (zi_index i) = lm_next (ledger_summary_of l)"
    "session_authorize_command e (zi_index i) (zi_configuration i) (zi_dispatch i) = Inr (Some u)"
    "verify_service_trust_checkpoint c (zi_history i) (zi_checkpoint i) (zi_expected_checkpoint i) = Inr ()"
    "rq_trust_sequence (es_request e) \<le> tc_sequence (zi_checkpoint i)"
    "\<not> rolled_back (zi_checkpoint i) (fst (latest_checkpoint (el_records l))) (snd (latest_checkpoint (el_records l)))"
    "reviewers_active e (last (th_bundles (zi_history i)))"
    "has_value (verify_bound_session c e r (zi_history i) a)"
proof -
  obtain l where l: "fresh_ledger disk (zi_expected_record i) = Inr l"
    using assms(1) by (auto simp: ledger_authorize_command_def split: if_splits sum.splits)
  then have o: "ld_open disk = Inr l" "el_current l = zi_expected_record i"
    by (auto simp: fresh_ledger_def result_simps failure_def split: if_splits)
  obtain x where x: "decide_command c e r a i l = Inr (Some (x, Some u))"
      "append_record_unlocked disk l (identified_record x) = Inr l'"
    using assms unfolding ledger_authorize_command_def
    by (auto simp: l make_decision_def Let_def failure_def split: if_splits sum.splits option.splits)
  note p = appended [OF x(2)]
  obtain b where d: "lm_status (ledger_summary_of l) = LedgerOpen" "unat (zi_index i) = lm_next (ledger_summary_of l)"
      "session_authorize_command e (zi_index i) (zi_configuration i) (zi_dispatch i) = Inr (Some u)"
      "verify_current_context c e r (zi_history i) (zi_checkpoint i) (zi_expected_checkpoint i) a = Inr b"
      "\<not> rolled_back (zi_checkpoint i) (fst (latest_checkpoint (el_records l))) (snd (latest_checkpoint (el_records l)))"
      "inactive_reviewer_key e b = Inr None"
      "x = (next_ledger_record l CommandAuthorized (zi_dispatch i))\<lparr>lr_authorization := Some u,
         lr_checkpoint := Some (zi_checkpoint i)\<rparr>"
    using x(1) by (auto simp: decide_command_def Let_def failure_def result_simps split: if_splits option.splits)
  note cur = current_context [OF d(4)]
  show ?thesis
    by (rule that [OF o p(1)]) (use p d cur no_inactive_reviewer [OF d(6)] in simp_all)
qed

end
