(* ===== verification/Execution_Signing_Laws.thy ===== *)
theory Execution_Signing_Laws
  imports Execution_Session_Laws
begin

text \<open>
  What the creating functions of a session guarantee: a created request is valid and its schedule
  keeps the reviewed control period, and what an endpoint or a reviewer signs is verified.
\<close>

section \<open>Requests\<close>

lemma within_period_iff:
  assumes "sorted_wrt (<) (map ec_offset es)"
  shows "within_period T es \<longleftrightarrow> successively (\<lambda>e f. unat (ec_offset f) \<le> unat (ec_offset e) + unat T) es"
  using assms
proof (induction T es rule: within_period.induct)
  case (1 T e f es)
  then have "unat (ec_offset f - ec_offset e) = unat (ec_offset f) - unat (ec_offset e)" "ec_offset e < ec_offset f"
    by (auto intro!: unat_sub)
  then show ?case using 1 by (auto simp: word_less_nat_alt)
qed simp_all

lemma request_identity_update [simp]:
  "execution_session_request_identity (q\<lparr>rq_id := i\<rparr>) = execution_session_request_identity q"
  "valid_sha256 (execution_session_request_identity q)"
  by (simp_all add: execution_session_request_identity_def)

lemma created_request:
  assumes "create_session_request r s i = Inr q"
  shows "request_valid q" "rq_profile q = dp_id (rd_profile r)" "rq_approvals q = ps_id (rd_approvals r)"
    "rq_trust_root q = dp_trust_root (rd_profile r)" "rq_trust_checkpoint q = dp_trust_checkpoint (rd_profile r)"
    "rq_trust_bundle q = dp_trust_bundle (rd_profile r)" "rq_trust_sequence q = dp_trust_sequence (rd_profile r)"
    "rq_sequence q = sq_id s" "rq_atlas q = sq_atlas s" "rq_robot q = sq_robot s" "rq_scene q = sq_scene s"
    "rq_count q = length (sq_commands s)" "rq_controller q = qi_controller i" "rq_monitor q = qi_monitor i"
    "rq_limits q = qi_limits i"
    "successively (\<lambda>e f. unat (ec_offset f) \<le> unat (ec_offset e) + unat (cn_control_period (dp_constraints (rd_profile r))))
       (sq_commands s)"
    "ec_offset (last (sq_commands s)) \<le> sl_duration (rq_limits q)"
    "sl_duration (rq_limits q) \<le> cn_observation_age (dp_constraints (rd_profile r))"
proof -
  let ?p = "rd_profile r"
  let ?q = "\<lparr>rq_schema = 1, rq_id = [], rq_nonce = qi_nonce i, rq_profile = dp_id ?p,
     rq_approvals = ps_id (rd_approvals r), rq_trust_root = dp_trust_root ?p,
     rq_trust_checkpoint = dp_trust_checkpoint ?p, rq_trust_bundle = dp_trust_bundle ?p,
     rq_trust_sequence = dp_trust_sequence ?p, rq_sequence = sq_id s, rq_atlas = sq_atlas s,
     rq_robot = sq_robot s, rq_scene = sq_scene s, rq_count = length (sq_commands s),
     rq_controller = qi_controller i, rq_monitor = qi_monitor i, rq_limits = qi_limits i\<rparr>"
  have q: "q = ?q\<lparr>rq_id := execution_session_request_identity ?q\<rparr>"
    and v: "reviewed_valid r" "sequence_valid s" "valid_sha256 (qi_nonce i)" "valid_execution_endpoint_key (qi_controller i)"
      "valid_execution_endpoint_key (qi_monitor i)" "ek_role (qi_controller i) = ControllerRole"
      "ek_role (qi_monitor i) = RuntimeMonitorRole" "ek_service (qi_controller i) \<noteq> ek_service (qi_monitor i)"
      "ek_id (qi_controller i) \<noteq> ek_id (qi_monitor i)" "valid_execution_session_limits (qi_limits i)"
      "length (sq_commands s) \<le> sl_commands (qi_limits i)"
    and w: "sl_duration (qi_limits i) \<le> cn_observation_age (dp_constraints ?p)"
      "within_period (cn_control_period (dp_constraints ?p)) (sq_commands s)"
      "ec_offset (last (sq_commands s)) \<le> sl_duration (qi_limits i)"
    using assms by (auto simp: create_session_request_def Let_def failure_def not_less split: if_splits)
  show f: "rq_profile q = dp_id ?p" "rq_approvals q = ps_id (rd_approvals r)" "rq_trust_root q = dp_trust_root ?p"
    "rq_trust_checkpoint q = dp_trust_checkpoint ?p" "rq_trust_bundle q = dp_trust_bundle ?p"
    "rq_trust_sequence q = dp_trust_sequence ?p" "rq_sequence q = sq_id s" "rq_atlas q = sq_atlas s" "rq_robot q = sq_robot s"
    "rq_scene q = sq_scene s" "rq_count q = length (sq_commands s)" "rq_controller q = qi_controller i"
    "rq_monitor q = qi_monitor i" "rq_limits q = qi_limits i"
    unfolding q by simp_all
  have d: "deployment_profile_valid ?p" "valid_sha256 (ps_id (rd_approvals r))"
    using v(1) by (simp_all add: reviewed_valid_def valid_deployment_profile_approval_set_def)
  have s: "valid_sha256 (sq_id s)" "valid_sha256 (sq_atlas s)" "valid_sha256 (sq_robot s)" "valid_sha256 (sq_scene s)"
      "2 \<le> length (sq_commands s)" "length (sq_commands s) \<le> kMaximumCommands"
    using v(2) by (auto simp: sequence_valid_def split: if_splits)
  have "rq_id q = execution_session_request_identity q" "rq_schema q = 1" "rq_nonce q = qi_nonce i" "valid_sha256 (rq_id q)"
    unfolding q by (simp_all add: execution_session_request_identity_def)
  with v d s f show "request_valid q"
    by (simp add: request_valid_def deployment_profile_valid_def)
  show "successively (\<lambda>e f. unat (ec_offset f) \<le> unat (ec_offset e) + unat (cn_control_period (dp_constraints ?p)))
       (sq_commands s)"
    using w(2) within_period_iff sequence_commands(3) [OF v(2)] by blast
  show "ec_offset (last (sq_commands s)) \<le> sl_duration (rq_limits q)"
    "sl_duration (rq_limits q) \<le> cn_observation_age (dp_constraints ?p)"
    using w f by simp_all
qed

section \<open>Signatures\<close>

lemma honest_tag:
  assumes "honest_signer c secret public_key"
  shows "decode_hex (encode_hex (ed_sign c secret text)) kEd25519SignatureBytes = Inr (ed_sign c secret text)"
    "is_hex_tag (encode_hex (ed_sign c secret text)) kEd25519SignatureBytes"
    "ed25519_verify c text (ed_sign c secret text) public_key = Inr ()"
    "ed25519_sign c text secret = Inr (ed_sign c secret text)"
proof -
  have "length (ed_sign c secret text) = 64" using assms by (simp add: honest_signer_def)
  then show "decode_hex (encode_hex (ed_sign c secret text)) kEd25519SignatureBytes = Inr (ed_sign c secret text)"
    "is_hex_tag (encode_hex (ed_sign c secret text)) kEd25519SignatureBytes"
    using decode_encode_hex [of "ed_sign c secret text"] is_hex_tag_encode [of "ed_sign c secret text"] by (simp_all add: kEd25519SignatureBytes_def)
qed (use assms in \<open>simp_all add: honest_signer_def ed25519_verify_iff ed25519_sign_def kEd25519SecretKeyBytes_def\<close>)

lemma endpoint_digest [simp]: "valid_sha256 (execution_endpoint_key_identity k)"
  by (simp add: execution_endpoint_key_identity_def)

lemma controller_message_update [simp]:
  "execution_controller_acknowledgement_message (a\<lparr>ca_id := i\<rparr>) = execution_controller_acknowledgement_message a"
  "execution_controller_acknowledgement_message (a\<lparr>ca_tag := t\<rparr>) = execution_controller_acknowledgement_message a"
  "execution_controller_acknowledgement_identity (a\<lparr>ca_id := i\<rparr>) = execution_controller_acknowledgement_identity a"
  "valid_sha256 (execution_controller_acknowledgement_identity a)"
  by (simp_all add: execution_controller_acknowledgement_message_def execution_controller_acknowledgement_identity_def)

text \<open>The acknowledgement of an honest controller verifies.\<close>

lemma signed_controller:
  assumes "sign_execution_controller_acknowledgement c q secret = Inr a"
    and "honest_signer c secret (ek_public (rq_controller q))"
  shows "verify_execution_controller_acknowledgement c q a = Inr ()"
proof -
  let ?a = "\<lparr>ca_id = [], ca_request = rq_id q, ca_sequence = rq_sequence q, ca_service = ek_service (rq_controller q),
     ca_key = ek_id (rq_controller q), ca_count = rq_count q, ca_algorithm = Ed25519, ca_tag = []\<rparr>"
  let ?m = "execution_controller_acknowledgement_message ?a"
  define b where "b = ?a\<lparr>ca_tag := encode_hex (ed_sign c secret ?m)\<rparr>"
  note h = honest_tag [OF assms(2)]
  have q: "request_valid q" and a: "a = b\<lparr>ca_id := execution_controller_acknowledgement_identity b\<rparr>"
    using assms(1) by (auto simp: sign_execution_controller_acknowledgement_def Let_def h result_simps b_def failure_def split: if_splits)
  have b: "ca_request b = rq_id q" "ca_sequence b = rq_sequence q" "ca_service b = ek_service (rq_controller q)"
    "ca_key b = ek_id (rq_controller q)" "ca_count b = rq_count q" "ca_algorithm b = Ed25519"
    "ca_tag b = encode_hex (ed_sign c secret ?m)" by (simp_all add: b_def)
  have m: "execution_controller_acknowledgement_message b = ?m" unfolding b_def by (rule controller_message_update)
  have "valid_execution_controller_acknowledgement a"
    using q h(2) unfolding a valid_execution_controller_acknowledgement_def
    by (simp add: b request_valid_def valid_execution_endpoint_key_def)
  with q show ?thesis unfolding a by (simp add: verify_execution_controller_acknowledgement_def b m h)
qed

lemma monitor_message_update [simp]:
  "execution_monitor_acknowledgement_message (a\<lparr>ma_id := i\<rparr>) = execution_monitor_acknowledgement_message a"
  "execution_monitor_acknowledgement_message (a\<lparr>ma_tag := t\<rparr>) = execution_monitor_acknowledgement_message a"
  "execution_monitor_acknowledgement_identity (a\<lparr>ma_id := i\<rparr>) = execution_monitor_acknowledgement_identity a"
  "valid_sha256 (execution_monitor_acknowledgement_identity a)"
  by (simp_all add: execution_monitor_acknowledgement_message_def execution_monitor_acknowledgement_identity_def)

lemma signed_monitor:
  assumes "sign_execution_monitor_acknowledgement c q ob secret = Inr a"
    and "honest_signer c secret (ek_public (rq_monitor q))"
  shows "verify_execution_monitor_acknowledgement c q a = Inr ()" "ma_observation a = ob"
proof -
  let ?a = "\<lparr>ma_id = [], ma_observation = ob, ma_service = ek_service (rq_monitor q), ma_key = ek_id (rq_monitor q),
     ma_algorithm = Ed25519, ma_tag = []\<rparr>"
  let ?m = "execution_monitor_acknowledgement_message ?a"
  define b where "b = ?a\<lparr>ma_tag := encode_hex (ed_sign c secret ?m)\<rparr>"
  note h = honest_tag [OF assms(2)]
  have q: "request_valid q" "runtime_observation_valid ob" "xo_request ob = rq_id q" "xo_command_sequence ob = rq_sequence q"
    and a: "a = b\<lparr>ma_id := execution_monitor_acknowledgement_identity b\<rparr>"
    using assms(1) by (auto simp: sign_execution_monitor_acknowledgement_def Let_def h result_simps b_def failure_def split: if_splits)
  have b: "ma_observation b = ob" "ma_service b = ek_service (rq_monitor q)"
    "ma_key b = ek_id (rq_monitor q)" "ma_algorithm b = Ed25519"
    "ma_tag b = encode_hex (ed_sign c secret ?m)" by (simp_all add: b_def)
  show "ma_observation a = ob" unfolding a by (simp add: b)
  have m: "execution_monitor_acknowledgement_message b = ?m" unfolding b_def by (rule monitor_message_update)
  have "valid_execution_monitor_acknowledgement a"
    using q h(2) unfolding a valid_execution_monitor_acknowledgement_def
    by (simp add: b request_valid_def valid_execution_endpoint_key_def)
  with q show "verify_execution_monitor_acknowledgement c q a = Inr ()"
    unfolding a by (simp add: verify_execution_monitor_acknowledgement_def b m h)
qed

lemma session_message_update [simp]:
  "execution_session_approval_message (a\<lparr>sa_id := i\<rparr>) = execution_session_approval_message a"
  "execution_session_approval_message (a\<lparr>sa_tag := t\<rparr>) = execution_session_approval_message a"
  "execution_session_approval_identity (a\<lparr>sa_id := i\<rparr>) = execution_session_approval_identity a"
  "valid_sha256 (execution_session_approval_identity a)"
  by (simp_all add: execution_session_approval_message_def execution_session_approval_identity_def)

text \<open>The approval of an honest reviewer is well formed, and verifies under a bundle that trusts its key.\<close>

lemma signed_session_approval:
  assumes "sign_execution_session_approval c q p secret = Inr a" and "honest_signer c secret (sk_public k)"
  shows "valid_execution_session_approval a" "sa_request a = rq_id q" "sa_service a = pa_service p" "sa_key a = pa_key p"
    "sa_role a = pa_role p"
    "trusted_service_public_key b (pa_service p) (pa_key p) Publish seq = Inr k \<Longrightarrow> verify_session_approval c b seq a = Inr ()"
proof -
  let ?a = "\<lparr>sa_id = [], sa_request = rq_id q, sa_service = pa_service p, sa_key = pa_key p, sa_role = pa_role p,
     sa_algorithm = Ed25519, sa_tag = []\<rparr>"
  let ?m = "execution_session_approval_message ?a"
  define d where "d = ?a\<lparr>sa_tag := encode_hex (ed_sign c secret ?m)\<rparr>"
  note h = honest_tag [OF assms(2)]
  have q: "request_valid q" "valid_deployment_profile_approval p"
    and a: "a = d\<lparr>sa_id := execution_session_approval_identity d\<rparr>"
    using assms(1) by (auto simp: sign_execution_session_approval_def Let_def h result_simps d_def failure_def split: if_splits)
  have f: "sa_request a = rq_id q" "sa_service a = pa_service p" "sa_key a = pa_key p" "sa_role a = pa_role p"
    "sa_algorithm a = Ed25519" "sa_tag a = encode_hex (ed_sign c secret ?m)" unfolding a d_def by simp_all
  then show "sa_request a = rq_id q" "sa_service a = pa_service p" "sa_key a = pa_key p" "sa_role a = pa_role p" by simp_all
  have m: "execution_session_approval_message a = ?m" unfolding a d_def by (simp only: session_message_update)
  have "sa_id a = execution_session_approval_identity a" "valid_sha256 (sa_id a)"
    unfolding a by simp_all
  then show "valid_execution_session_approval a"
    using q h(2) by (simp add: valid_execution_session_approval_def f request_valid_def valid_deployment_profile_approval_def)
  show "verify_session_approval c b seq a = Inr ()"
    if "trusted_service_public_key b (pa_service p) (pa_key p) Publish seq = Inr k"
    using session_approvals.signed [of b a seq k c secret] that assms(2) by (simp add: f m)
qed

end
