(* ===== verification/Ledger_Grant.thy ===== *)
theory Ledger_Grant
  imports Ledger_Run Execution_Signing_Laws
begin

text \<open>
  When a command is granted: the ledger the caller pinned is open and waits for this command, its
  dependencies hold, no reviewer is inactive and the command is dispatched inside its window.
\<close>

definition authorized_record :: "execution_ledger \<Rightarrow> authorize_input \<Rightarrow> command_authorization \<Rightarrow> ledger_record" where
  "authorized_record l i u = identified_record ((next_ledger_record l CommandAuthorized (zi_dispatch i))
     \<lparr>lr_authorization := Some u, lr_checkpoint := Some (zi_checkpoint i)\<rparr>)"

lemma authorized_record_simps [simp]:
  "lr_authorization (authorized_record l i u) = Some u" "lr_type (authorized_record l i u) = CommandAuthorized"
  "lr_checkpoint (authorized_record l i u) = Some (zi_checkpoint i)" "lr_observed (authorized_record l i u) = zi_dispatch i"
  "lr_sequence (authorized_record l i u) = of_nat (length (el_records l))" "lr_parent (authorized_record l i u) = el_current l"
  "lr_ledger (authorized_record l i u) = el_id l" "lr_session (authorized_record l i u) = el_session l"
  by (simp_all add: authorized_record_def identified_record_def next_ledger_record_def)

text \<open>A record that names the end of the ledger continues its chain.\<close>

lemma next_chained:
  assumes "ledger_valid l" and "length (el_records l) < 2 ^ 64"
    and "lr_schema x = 1" "lr_sequence x = of_nat (length (el_records l))" "lr_parent x = el_current l" "lr_ledger x = el_id l"
      "lr_session x = el_session l" "lr_observed x \<noteq> 0" "ledger_text True (lr_detail x)" "record_content_valid x"
  shows "\<not> chain_broken (el_id l) (el_session l) (length (el_records l)) (Some (last (el_records l))) (identified_record x)"
proof -
  have l: "valid_sha256 (el_id l)" "valid_sha256 (el_session l)" "valid_sha256 (el_current l)" "el_records l \<noteq> []"
      "el_current l = lr_id (last (el_records l))"
    using assms(1) unfolding ledger_valid_iff by blast+
  have s: "unat (of_nat (length (el_records l)) :: u64) = length (el_records l)" using assms(2) by (simp add: unat_u64_of_nat)
  then have "of_nat (length (el_records l)) \<noteq> (0 :: u64)" using l(4) by (metis length_0_conv unat_0)
  moreover have "valid_record_type (lr_type x)" by (cases "lr_type x") (simp_all add: valid_record_type_def)
  ultimately have "ledger_record_valid (identified_record x)" unfolding identified_valid using l assms by simp
  then show ?thesis using l s assms(4-7) by (simp add: chain_broken_def identified_record_def)
qed

lemma authorized_record_valid:
  assumes "ledger_valid l" and "authorization_valid u" and "trust_checkpoint_valid (zi_checkpoint i)"
    and "zi_dispatch i = au_dispatch u" and "zi_dispatch i \<noteq> 0" and "length (el_records l) < 2 ^ 64"
  shows "\<not> chain_broken (el_id l) (el_session l) (length (el_records l)) (Some (last (el_records l))) (authorized_record l i u)"
proof -
  have "el_records l \<noteq> []" using assms(1) unfolding ledger_valid_iff by blast
  then have "of_nat (length (el_records l)) \<noteq> (0 :: u64)" using assms(6) by (metis length_0_conv unat_0 unat_u64_of_nat)
  then show ?thesis
    unfolding authorized_record_def using assms
    by (intro next_chained [OF assms(1,6)]) (simp_all add: next_ledger_record_def ledger_text_def record_content_valid_def)
qed

lemma current_decision_valid:
  assumes "ledger_valid l" and "authorization_valid u" and "lm_status (ledger_summary_of l) = AwaitingCompletion"
  shows "command_decision_valid (make_decision l (Some u))"
proof -
  have i: "execution_ledger_command_decision_identity (d\<lparr>cd_id := k\<rparr>) = execution_ledger_command_decision_identity d"
    "valid_sha256 (execution_ledger_command_decision_identity d)" for d k
    by (simp_all add: execution_ledger_command_decision_identity_def)
  have "valid_sha256 (el_id l)" "valid_sha256 (el_current l)"
    using assms(1) unfolding ledger_valid_iff by blast+
  with assms(2,3) show ?thesis
    unfolding command_decision_valid_def make_decision_def Let_def i by (simp add: i valid_ledger_status_def)
qed

lemma grants:
  assumes l: "ledger_valid l" "lm_status (ledger_summary_of l) = LedgerOpen" "unat (zi_index i) = lm_next (ledger_summary_of l)"
      "lr_observed (last (el_records l)) \<le> zi_dispatch i" "length (el_records l) < el_maximum l" "length (el_records l) < 2 ^ 64"
    and disk: "ld_lock disk = Inr ()" "ld_open disk = Inr l" "el_current l = zi_expected_record i"
      "ld_append disk (authorized_record l i u) = Inr ()"
    and ctx: "verify_current_context c e r (zi_history i) (zi_checkpoint i) (zi_expected_checkpoint i) a = Inr b"
      "\<not> rolled_back (zi_checkpoint i) (fst (latest_checkpoint (el_records l))) (snd (latest_checkpoint (el_records l)))"
      "inactive_reviewer_key e b = Inr None"
    and u: "session_authorize_command e (zi_index i) (zi_configuration i) (zi_dispatch i) = Inr (Some u)"
  shows "\<exists>d. ledger_authorize_command c disk self e r a i = (Inr d, extended l (authorized_record l i u)) \<and>
    cd_authorization d = Some u"
proof -
  note a = authorized_command [OF u]
  obtain m where m: "ledger_replayed l = Inr m" "ledger_summary_of l = m" "ledger_order (el_count l) (el_records l) m"
    using l(1) by (rule ledger_valid_replayed)
  have v: "verify_service_trust_checkpoint c (zi_history i) (zi_checkpoint i) (zi_expected_checkpoint i) = Inr ()"
    by (rule current_context [OF ctx(1)])
  then have t: "trust_checkpoint_valid (zi_checkpoint i)" "valid_sha256 (zi_expected_checkpoint i)"
    by (auto simp: verify_service_trust_checkpoint_def failure_def split: if_splits)
  have d: "zi_dispatch i \<noteq> 0" "zi_dispatch i \<le> es_through e"
    using u a(9) by (auto simp: session_authorize_command_def failure_def command_window_def Let_def word_le_nat_alt split: if_splits)
  have e: "valid_sha256 (zi_expected_record i)" using l(1) disk(3) unfolding ledger_valid_iff by metis
  have n: "lm_next m < el_count l" using m l(2) by (simp add: ledger_order_def)
  let ?x = "authorized_record l i u" and ?m = "m\<lparr>lm_authorizations := lm_authorizations m + 1, lm_outstanding := Some (au_index u),
      lm_status := AwaitingCompletion\<rparr>"
  have chain: "\<not> chain_broken (el_id l) (el_session l) (length (el_records l)) (Some (last (el_records l))) ?x"
    by (rule authorized_record_valid [OF l(1) a(10) t(1) _ d(1) l(6)]) (simp add: a(4))
  have step: "apply_record (el_count l) (el_through l) (last (el_records l)) ?x m = Inr ?m"
    using l(2,3) m(2) n a(3) by (simp add: apply_record_def)
  have open_m: "\<not> terminal_status (lm_status m)" using l(2) m(2) by (simp add: terminal_status_def)
  note app = append_valid [OF l(1) m(1) l(5) chain _ open_m step]
  have "lr_observed (last (el_records l)) \<le> lr_observed ?x" using l(4) by simp
  note app = app [OF this]
  have "\<exists>k. ledger_replayed (extended l ?x) = Inr (relabel k (lr_id ?x) (length (el_records l) + 1) ?m)"
    by (rule extended_replay [OF l(1) m(1) _ chain _ open_m step])
      (use chain l(4) in \<open>simp_all add: chain_broken_def ledger_record_valid_def\<close>)
  then have "lm_status (ledger_summary_of (extended l ?x)) = AwaitingCompletion" by (auto simp: ledger_summary_of_def)
  then have "command_decision_valid (make_decision (extended l ?x) (Some u))" by (rule current_decision_valid [OF app(1) a(10)])
  moreover have "decide_command c e r a i l = Inr (Some ((next_ledger_record l CommandAuthorized (zi_dispatch i))
      \<lparr>lr_authorization := Some u, lr_checkpoint := Some (zi_checkpoint i)\<rparr>, Some u))"
    using l(2-4) ctx u d(2) by (simp add: decide_command_def Let_def not_less terminal_status_def)
  moreover have "fresh_ledger disk (zi_expected_record i) = Inr l" using disk by (simp add: fresh_ledger_def)
  ultimately show ?thesis
    using app(2) [of disk] disk(4) e t(2) d(1)
    by (simp add: ledger_authorize_command_def authorized_record_def [symmetric]) (simp add: make_decision_def Let_def)
qed

section \<open>Completions\<close>

lemma completion_message_update [simp]:
  "execution_controller_completion_message (v\<lparr>cc_id := i\<rparr>) = execution_controller_completion_message v"
  "execution_controller_completion_message (v\<lparr>cc_tag := t\<rparr>) = execution_controller_completion_message v"
  "execution_controller_completion_identity (v\<lparr>cc_id := i\<rparr>) = execution_controller_completion_identity v"
  "valid_sha256 (execution_controller_completion_identity v)"
  by (simp_all add: execution_controller_completion_message_def completion_payload_def execution_controller_completion_identity_def)

lemma authorization_digest [simp]: "valid_sha256 (execution_command_authorization_identity u)"
  by (simp add: execution_command_authorization_identity_def)

lemma ledger_text_valid: "valid_text s \<Longrightarrow> ledger_text False s"
  by (auto simp: valid_text_def ledger_text_def kMaximumTextBytes_def list_all_iff)

text \<open>The completion of an honest controller verifies against the authorization it names.\<close>

lemma signed_completion:
  assumes "sign_execution_controller_completion c e u i secret = Inr v"
    and "honest_signer c secret (ek_public (rq_controller (es_request e)))" and "ci_completed i \<noteq> 0"
  shows "verify_execution_controller_completion c e u v = Inr ()" "cc_outcome v = ci_outcome i" "cc_completed v = ci_completed i"
proof -
  let ?k = "rq_controller (es_request e)"
  let ?v = "\<lparr>cc_schema = 1, cc_id = [], cc_session = es_id e, cc_authorization = au_id u, cc_sequence = au_sequence u,
     cc_index = au_index u, cc_digest = au_digest u, cc_service = ek_service ?k,
     cc_key = ek_id ?k, cc_outcome = ci_outcome i, cc_completed = ci_completed i,
     cc_result = ci_result i, cc_algorithm = Ed25519, cc_tag = []\<rparr>"
  let ?m = "execution_controller_completion_message ?v"
  define w where "w = ?v\<lparr>cc_tag := encode_hex (ed_sign c secret ?m)\<rparr>"
  note h = honest_tag [OF assms(2)]
  have q: "session_valid e" "authorization_valid u" "valid_completion_outcome (ci_outcome i)" "au_dispatch u \<le> ci_completed i"
      "valid_sha256 (ci_result i)" and v: "v = w\<lparr>cc_id := execution_controller_completion_identity w\<rparr>"
    using assms(1) by (auto simp: sign_execution_controller_completion_def Let_def h result_simps w_def failure_def not_less split: if_splits)
  have w: "cc_schema w = 1" "cc_session w = es_id e" "cc_authorization w = au_id u" "cc_sequence w = au_sequence u" "cc_index w = au_index u"
    "cc_digest w = au_digest u" "cc_service w = ek_service ?k" "cc_key w = ek_id ?k" "cc_outcome w = ci_outcome i"
    "cc_completed w = ci_completed i" "cc_result w = ci_result i" "cc_algorithm w = Ed25519"
    "cc_tag w = encode_hex (ed_sign c secret ?m)" by (simp_all add: w_def)
  show "cc_outcome v = ci_outcome i" "cc_completed v = ci_completed i" unfolding v by (simp_all add: w)
  have m: "execution_controller_completion_message w = ?m" unfolding w_def by (rule completion_message_update)
  have "valid_execution_endpoint_key ?k" "valid_sha256 (es_id e)" using q(1) by (auto simp: session_valid_def request_valid_def)
  moreover have "completion_valid v" if "0 < ci_completed i"
    using q h(1) that calculation unfolding v completion_valid_def
    by (simp add: w valid_execution_endpoint_key_def ledger_text_valid authorization_valid_def)
  moreover have "0 < ci_completed i" using assms(3) by (simp add: word_gt_0)
  ultimately show "verify_execution_controller_completion c e u v = Inr ()"
    using q unfolding v by (simp add: verify_execution_controller_completion_def w m h not_less)
qed

section \<open>Cancelling\<close>

definition cancelled_record :: "execution_ledger \<Rightarrow> u64 \<Rightarrow> string \<Rightarrow> ledger_record" where
  "cancelled_record l t n = identified_record ((next_ledger_record l SessionCancelled t)\<lparr>lr_detail := n\<rparr>)"

text \<open>An open ledger with room can be cancelled, and has then ended.\<close>

lemma cancels:
  assumes l: "ledger_valid l" "\<not> terminal_status (lm_status (ledger_summary_of l))" "lr_observed (last (el_records l)) \<le> t"
      "length (el_records l) < el_maximum l" "length (el_records l) < 2 ^ 64" "t \<noteq> 0" "ledger_text False n"
    and disk: "ld_lock disk = Inr ()" "ld_open disk = Inr l" "ld_append disk (cancelled_record l t n) = Inr ()"
  shows "cancel_ledger disk self t n (el_current l) = (Inr (cancelled_record l t n), extended l (cancelled_record l t n))"
    "ledger_valid (extended l (cancelled_record l t n))"
    "lm_status (ledger_summary_of (extended l (cancelled_record l t n))) = LedgerCancelled"
proof -
  let ?x = "cancelled_record l t n"
  obtain m where m: "ledger_replayed l = Inr m" "ledger_summary_of l = m" using l(1) by (rule ledger_valid_replayed)
  have e: "valid_sha256 (el_current l)" "el_records l \<noteq> []" using l(1) unfolding ledger_valid_iff by blast+
  then have "of_nat (length (el_records l)) \<noteq> (0 :: u64)" using l(5) by (metis length_0_conv unat_0 unat_u64_of_nat)
  then have chain: "\<not> chain_broken (el_id l) (el_session l) (length (el_records l)) (Some (last (el_records l))) ?x"
    unfolding cancelled_record_def using l(6,7)
    by (intro next_chained [OF l(1,5)]) (simp_all add: next_ledger_record_def ledger_text_def record_content_valid_def)
  have x: "lr_type ?x = SessionCancelled" "lr_observed ?x = t" by (simp_all add: cancelled_record_def)
  have step: "apply_record (el_count l) (el_through l) (last (el_records l)) ?x m =
      Inr (m\<lparr>lm_outstanding := None, lm_status := LedgerCancelled\<rparr>)" by (simp add: apply_record_def x)
  have t: "lr_observed (last (el_records l)) \<le> lr_observed ?x" "\<not> terminal_status (lm_status m)" using l(2,3) m(2) x by simp_all
  note app = append_valid [OF l(1) m(1) l(4) chain t step]
  show "ledger_valid (extended l ?x)" by (rule app)
  show "cancel_ledger disk self t n (el_current l) = (Inr ?x, extended l ?x)"
    using disk l(2,6,7) l(3) [folded not_less] e(1) app(2) [of disk]
    by (simp add: cancel_ledger_def fresh_ledger_def append_step_def open_at_def cancelled_record_def [symmetric] Let_def)
  have "\<exists>k. ledger_replayed (extended l ?x) =
      Inr (relabel k (lr_id ?x) (length (el_records l) + 1) (m\<lparr>lm_outstanding := None, lm_status := LedgerCancelled\<rparr>))"
    by (rule extended_replay [OF l(1) m(1) _ chain t step]) (use chain in \<open>simp add: chain_broken_def ledger_record_valid_def\<close>)
  then show "lm_status (ledger_summary_of (extended l ?x)) = LedgerCancelled" by (auto simp: ledger_summary_of_def)
qed

section \<open>Ledgers that have ended\<close>

definition refused_step :: "execution_ledger \<Rightarrow> 'a ledger_step \<Rightarrow> bool" where
  "refused_step l x \<longleftrightarrow> (\<nexists>d. fst x = Inr d) \<and> snd x = l"

lemma refused_append:
  assumes "ld_open disk = Inr l" and "\<nexists>x. f l = Inr x"
  shows "refused_step l (append_step disk l (rbind (fresh_ledger disk k) f) (fresh_ledger disk k))"
proof (cases "fresh_ledger disk k")
  case (Inr l0)
  then have "l0 = l" by (rule fresh_opened [OF assms(1)])
  with Inr assms(2) show ?thesis by (cases "f l") (simp_all add: append_step_def refused_step_def)
qed (simp add: append_step_def refused_step_def)

lemma refused_failure [simp]: "refused_step l (failure k m d, l)" "refused_step l (Inl x, l)"
  by (simp_all add: refused_step_def failure_def)

lemma ended_open:
  assumes "terminal_status (lm_status (ledger_summary_of l))"
  shows "\<nexists>x. rbind (open_at l t m) g = Inr x"
  using assms by (auto simp: open_at_def failure_def)

lemma ended_cancel:
  assumes "ld_open disk = Inr l" and "terminal_status (lm_status (ledger_summary_of l))"
  shows "refused_step l (cancel_ledger disk l t n k)"
proof (cases "t = 0 \<or> \<not> ledger_text False n \<or> \<not> valid_sha256 k")
  case False
  show ?thesis unfolding cancel_ledger_def Let_def if_not_P [OF False]
    by (rule refused_append [OF assms(1)]) (rule ended_open [OF assms(2)])
qed (simp add: cancel_ledger_def)

lemma ended_expire:
  assumes "ld_open disk = Inr l" and "terminal_status (lm_status (ledger_summary_of l))"
  shows "refused_step l (expire_ledger disk l e t k)"
proof (cases "t \<le> es_through e \<or> \<not> valid_sha256 k")
  case False
  show ?thesis unfolding expire_ledger_def Let_def if_not_P [OF False]
    by (rule refused_append [OF assms(1)]) (rule ended_open [OF assms(2)])
qed (simp add: expire_ledger_def)

lemma ended_revoke:
  assumes "ld_open disk = Inr l" and "terminal_status (lm_status (ledger_summary_of l))"
  shows "refused_step l (revoke_dependency disk l e w z t n k)"
proof (cases "t = 0 \<or> \<not> valid_execution_dependency_revocation \<lparr>dr_kind = w, dr_subject = z, dr_detail = n\<rparr> \<or> \<not> valid_sha256 k")
  case False
  show ?thesis unfolding revoke_dependency_def Let_def if_not_P [OF False]
    by (rule refused_append [OF assms(1)]) (rule ended_open [OF assms(2)])
qed (simp add: revoke_dependency_def)

lemma ended_completion:
  assumes "ld_open disk = Inr l" and "terminal_status (lm_status (ledger_summary_of l))"
  shows "refused_step l (record_completion c disk l e v k)"
proof (cases "\<not> completion_valid v \<or> \<not> valid_sha256 k")
  case False
  show ?thesis unfolding record_completion_def Let_def if_not_P [OF False]
    by (rule refused_append [OF assms(1)])
      (use assms(2) in \<open>auto simp: terminal_status_def failure_def split: ledger_status.splits\<close>)
qed (simp add: record_completion_def)

lemma ended_authorize:
  assumes "ld_open disk = Inr l" and "terminal_status (lm_status (ledger_summary_of l))"
  shows "refused_step l (ledger_authorize_command c disk l e r a i)"
proof -
  have "\<nexists>x. decide_command c e r a i l = Inr x" using assms(2) by (simp add: decide_command_def Let_def failure_def)
  then show ?thesis
    using fresh_opened(1) [OF assms(1)]
    by (cases "fresh_ledger disk (zi_expected_record i)"; cases "decide_command c e r a i l")
      (auto simp: ledger_authorize_command_def)
qed

end
