(* ===== verification/Sha256_Value.thy ===== *)
theory Sha256_Value
  imports Sha256
begin

text \<open>
  SHA-256 on integers: the same rounds on \<open>int\<close> instead of \<open>32 word\<close>, equal to the model of
  \<^verbatim>\<open>src/sha256.cpp\<close> and fast enough to compute digests of concrete texts inside the kernel.
\<close>

section \<open>Rounds on integers\<close>

definition low32 :: "int \<Rightarrow> int" where "low32 x = take_bit 32 x"

definition turn :: "int \<Rightarrow> nat \<Rightarrow> nat \<Rightarrow> int" where
  "turn x k j = drop_bit k x OR push_bit j (take_bit k x)"

type_synonym int_state = "int \<times> int \<times> int \<times> int \<times> int \<times> int \<times> int \<times> int"

fun int_round :: "int_state \<Rightarrow> int \<times> int \<Rightarrow> int_state" where
  "int_round (a, b, c, d, e, f, g, h) (k, w) =
     (let t1 = h + (turn e 6 26 XOR turn e 11 21 XOR turn e 25 7) + (g XOR (e AND (f XOR g))) + k + w;
          t2 = (turn a 2 30 XOR turn a 13 19 XOR turn a 22 10) + ((a AND b) XOR (a AND c) XOR (b AND c))
      in (low32 (t1 + t2), a, b, c, low32 (d + t1), e, f, g))"

fun int_add :: "int_state \<Rightarrow> int_state \<Rightarrow> int_state" where
  "int_add (a, b, c, d, e, f, g, h) (a', b', c', d', e', f', g', h') =
     (low32 (a + a'), low32 (b + b'), low32 (c + c'), low32 (d + d'), low32 (e + e'), low32 (f + f'), low32 (g + g'), low32 (h + h'))"

fun int_words :: "int list \<Rightarrow> int list" where
  "int_words (p # q # r # s # bs) =
     (low32 (push_bit 24 p) OR low32 (push_bit 16 q) OR low32 (push_bit 8 r) OR s) # int_words bs"
| "int_words _ = []"

definition int_schedule_word :: "int list \<Rightarrow> nat \<Rightarrow> int" where
  "int_schedule_word w i =
     (let x = w ! (i - 15); y = w ! (i - 2) in
      low32 (w ! (i - 16) + (turn x 7 25 XOR turn x 18 14 XOR drop_bit 3 x) + w ! (i - 7) +
        (turn y 17 15 XOR turn y 19 13 XOR drop_bit 10 y)))"

definition int_transform :: "int list \<Rightarrow> int_state \<Rightarrow> int list \<Rightarrow> int_state" where
  "int_transform ks st block =
     int_add st (foldl int_round st (zip ks (foldl (\<lambda>w i. w @ [int_schedule_word w i]) (int_words block) [16..<64])))"

fun state_ints :: "working \<Rightarrow> int_state" where
  "state_ints (Working a b c d e f g h) = (uint a, uint b, uint c, uint d, uint e, uint f, uint g, uint h)"

section \<open>They are the rounds on words\<close>

lemma take_uint [simp]: "take_bit 32 (uint (x :: u32)) = uint x" "take_bit 32 (uint (p :: u8)) = uint p"
  "take_bit 64 (uint (y :: u64)) = uint y"
proof -
  have "uint y < 2 ^ 64" using unsigned_less [of y, where ?'a = int] by simp
  then show "take_bit 64 (uint y) = uint y" by (simp add: take_bit_int_eq_self)
  have "uint p < 2 ^ 8" using unsigned_less [of p, where ?'a = int] by simp
  then show "take_bit 32 (uint p) = uint p" by (simp add: take_bit_int_eq_self)
  have "uint x < 2 ^ 32" using unsigned_less [of x, where ?'a = int] by simp
  then show "take_bit 32 (uint x) = uint x" by (simp add: take_bit_int_eq_self)
qed

lemma uint_rotate: "k \<le> 32 \<Longrightarrow> uint (rotate_right x k) = turn (uint x) k (32 - k)"
  by (simp add: rotate_right_def turn_def unsigned_or_eq unsigned_drop_bit_eq unsigned_push_bit_eq take_bit_push_bit)

lemma choose_eq: "(e AND f) XOR (NOT e AND g) = g XOR (e AND (f XOR g))" for e :: "'a :: len word"
  by (rule bit_word_eqI) (auto simp: bit_simps)

lemma low32_add: "uint (a + b :: u32) = low32 (uint a + uint b)"
  by (simp add: low32_def uint_word_ariths take_bit_eq_mod)

lemma low32_left [simp]: "low32 (low32 a + b) = low32 (a + b)" "low32 (a + low32 b) = low32 (a + b)"
  by (simp_all add: low32_def take_bit_eq_mod mod_simps)

lemma state_round: "state_ints (round_step st (k, w)) = int_round (state_ints st) (uint k, uint w)"
proof (cases st)
  case (Working a b c d e f g h)
  then show ?thesis
    by (simp add: Let_def choose_eq low32_add uint_rotate unsigned_xor_eq unsigned_and_eq add.assoc)
qed

lemma state_rounds:
  "state_ints (foldl round_step st (zip ks ws)) = foldl int_round (state_ints st) (zip (map uint ks) (map uint ws))"
  by (induction ks arbitrary: st ws; case_tac ws) (simp_all add: state_round)

lemma state_add: "state_ints (add_working s t) = int_add (state_ints s) (state_ints t)"
  by (cases s; cases t) (simp add: low32_add)

lemma uint_be_word:
  "uint (be_word [p, q, r, s]) = low32 (push_bit 24 (uint p)) OR low32 (push_bit 16 (uint q)) OR low32 (push_bit 8 (uint r)) OR uint s"
  by (simp add: low32_def unsigned_or_eq unsigned_push_bit_eq unsigned_ucast_eq)

lemma int_words_eq:
  "length block = 4 * n \<Longrightarrow> map (\<lambda>i. uint (be_word (take 4 (drop (4 * i) block)))) [0..<n] = int_words (map uint block)"
proof (induction n arbitrary: block)
  case (Suc n)
  then obtain p q r s rest where b: "block = p # q # r # s # rest" "length rest = 4 * n"
    by (auto simp: length_Suc_conv numeral_eq_Suc)
  have "drop (4 * Suc i) block = drop (4 * i) rest" for i by (simp add: b(1) numeral_eq_Suc)
  moreover have "take 4 (drop (4 * 0) block) = [p, q, r, s]" by (simp add: b(1))
  ultimately show ?case
    unfolding map_upt_Suc by (simp only: Suc.IH [OF b(2)] uint_be_word b(1) list.map int_words.simps)
qed simp

lemma int_schedule_eq:
  assumes "16 \<le> i" and "length w = i"
  shows "uint (schedule_word w i) = int_schedule_word (map uint w) i"
  using assms
  by (simp add: schedule_word_def int_schedule_word_def Let_def low32_add uint_rotate unsigned_xor_eq unsigned_drop_bit_eq add.assoc)

lemma int_schedule_fold:
  "16 \<le> i \<Longrightarrow> i \<le> j \<Longrightarrow> length w = i \<Longrightarrow>
     map uint (foldl (\<lambda>w i. w @ [schedule_word w i]) w [i..<j]) =
       foldl (\<lambda>w i. w @ [int_schedule_word w i]) (map uint w) [i..<j] \<and>
     length (foldl (\<lambda>w i. w @ [schedule_word w i]) w [i..<j]) = j"
proof (induction "j - i" arbitrary: i w)
  case (Suc n)
  then have "[i..<j] = i # [Suc i..<j]" by (simp add: upt_conv_Cons)
  with Suc.hyps(1) [of "Suc i" "w @ [schedule_word w i]"] Suc.hyps(2) Suc.prems int_schedule_eq [of i w]
  show ?case by simp
qed simp

lemma state_transform:
  assumes "length block = 64"
  shows "state_ints (transform st block) = int_transform (map uint kRoundConstants) (state_ints st) (map uint block)"
proof -
  have "map uint (block_words block) = int_words (map uint block)" "length (block_words block) = 16"
    using int_words_eq [of block 16] assms by (simp_all add: block_words_def comp_def)
  moreover have "map uint (message_schedule block) =
      foldl (\<lambda>w i. w @ [int_schedule_word w i]) (map uint (block_words block)) [16..<64]"
    unfolding message_schedule_def
    by (rule int_schedule_fold [THEN conjunct1]) (simp_all add: block_words_def)
  ultimately have "map uint (message_schedule block) = foldl (\<lambda>w i. w @ [int_schedule_word w i]) (int_words (map uint block)) [16..<64]"
    by (simp only:)
  then show ?thesis unfolding transform_def int_transform_def state_add state_rounds by (simp only:)
qed

section \<open>Digests\<close>

definition int_constants :: "int list" where
  "int_constants =
    [1116352408, 1899447441, 3049323471, 3921009573, 961987163, 1508970993,
     2453635748, 2870763221, 3624381080, 310598401, 607225278, 1426881987,
     1925078388, 2162078206, 2614888103, 3248222580, 3835390401, 4022224774,
     264347078, 604807628, 770255983, 1249150122, 1555081692, 1996064986,
     2554220882, 2821834349, 2952996808, 3210313671, 3336571891, 3584528711,
     113926993, 338241895, 666307205, 773529912, 1294757372, 1396182291,
     1695183700, 1986661051, 2177026350, 2456956037, 2730485921, 2820302411,
     3259730800, 3345764771, 3516065817, 3600352804, 4094571909, 275423344,
     430227734, 506948616, 659060556, 883997877, 958139571, 1322822218,
     1537002063, 1747873779, 1955562222, 2024104815, 2227730452, 2361852424,
     2428436474, 2756734187, 3204031479, 3329325298]"

lemma int_constants_words: "map uint kRoundConstants = int_constants"
  by (simp add: kRoundConstants_def int_constants_def)

definition int_start :: int_state where
  "int_start = (1779033703, 3144134277, 1013904242, 2773480762, 1359893119, 2600822924, 528734635, 1541459225)"

lemma int_start_words: "state_ints initial_state = int_start"
  by (simp add: initial_state_def int_start_def)

lemma state_blocks:
  "\<forall>b\<in>set bs. length b = 64 \<Longrightarrow>
     state_ints (foldl transform st bs) = foldl (int_transform int_constants) (state_ints st) (map (map uint) bs)"
  by (induction bs arbitrary: st) (simp_all add: state_transform int_constants_words)

text \<open>The digest of a text.\<close>

definition int_hex :: "int \<Rightarrow> string" where
  "int_hex b = [hex_digit (nat (b div 16)), hex_digit (nat (b mod 16))]"

fun hex_words :: "int_state \<Rightarrow> string" where
  "hex_words (a, b, c, d, e, f, g, h) =
     concat (map (\<lambda>w. concat (map (\<lambda>k. int_hex (take_bit 8 (drop_bit k w))) [24, 16, 8, 0])) [a, b, c, d, e, f, g, h])"

lemma hex_byte_int: "hex_byte b = int_hex (uint b)"
proof -
  have "unat b div 16 = nat (uint b div 16)" "unat b mod 16 = nat (uint b mod 16)"
    by (simp_all add: nat_div_distrib nat_mod_distrib)
  then show ?thesis by (simp add: hex_byte_def int_hex_def)
qed

lemma uint_low_byte: "uint (ucast (drop_bit k w AND 0xff) :: u8) = take_bit 8 (drop_bit k (uint w))" for w :: "'a :: len word"
proof -
  have "(0xff :: 'a word) = mask 8" by (simp add: mask_eq_exp_minus_1)
  then have "drop_bit k w AND 0xff = take_bit 8 (drop_bit k w)" by (simp only: take_bit_eq_mask)
  moreover have "ucast (take_bit 8 (drop_bit k w)) = (ucast (drop_bit k w) :: u8)"
    by (rule bit_word_eqI) (auto simp: bit_ucast_iff bit_take_bit_iff dest: bit_imp_le_length)
  moreover have "take_bit LENGTH('a) (uint w) = uint w" by (simp add: take_bit_int_eq_self unsigned_less)
  ultimately show ?thesis by (simp add: unsigned_ucast_eq unsigned_drop_bit_eq)
qed

lemma hex_word: "hex_digest (be_bytes32 w) = concat (map (\<lambda>k. int_hex (take_bit 8 (drop_bit k (uint w)))) [24, 16, 8, 0])"
  by (simp add: hex_digest_def be_bytes32_def hex_byte_int uint_low_byte uint_low_byte [of 0, simplified] unsigned_drop_bit_eq)

lemma hex_state: "hex_digest (digest_bytes st) = hex_words (state_ints st)"
proof (cases st)
  case (Working a b c d e f g h)
  have "hex_digest (xs @ ys) = hex_digest xs @ hex_digest ys" for xs ys by (simp add: hex_digest_def)
  then show ?thesis unfolding Working by (simp add: hex_word)
qed

definition int_pad :: "string \<Rightarrow> int list" where
  "int_pad t = map of_char t @ [128] @ replicate ((119 - length t mod 64) mod 64) 0 @
     map (\<lambda>k. take_bit 8 (drop_bit k (8 * int (length t)))) [56, 48, 40, 32, 24, 16, 8, 0]"

definition int_sha256 :: "string \<Rightarrow> string" where
  "int_sha256 t = hex_words (foldl (int_transform int_constants) int_start (read_blocks 64 (int_pad t)))"

lemma int_pad_eq:
  assumes "length t < 2 ^ 61"
  shows "map uint (fips_pad (as_bytes t)) = int_pad t"
proof -
  have c: "uint (byte_of_char c) = of_char c" for c
  proof -
    have "uint (word_of_nat n :: u8) = int n" if "n < 256" for n
      using that by (simp add: unsigned_of_nat take_bit_nat_eq_self flip: of_nat_take_bit)
    from this [of "of_char c"] show ?thesis by (simp add: byte_of_char_def of_nat_of_char)
  qed
  have "uint (word_of_nat m :: u64) = int m" if "m < 2 ^ 64" for m
    using that by (simp add: unsigned_of_nat take_bit_nat_eq_self flip: of_nat_take_bit)
  from this [of "length t * 8"] have n: "uint (of_nat (length t) * 8 :: u64) = 8 * int (length t)"
    using assms by simp
  have "uint (drop_bit k x) = drop_bit k (uint x)" for k and x :: u64
    by (simp add: unsigned_drop_bit_eq)
  then show ?thesis
    by (simp add: fips_pad_def as_bytes_def int_pad_def be_bytes64_def uint_low_byte uint_low_byte [of 0, simplified] c comp_def n)
qed

lemma map_read_blocks: "map (map f) (read_blocks n xs) = read_blocks n (map f xs)"
  by (induction n xs rule: read_blocks.induct) (subst (1 2) read_blocks.simps, simp add: take_map drop_map)

lemma read_blocks_length: "n dvd length xs \<Longrightarrow> \<forall>b\<in>set (read_blocks n xs). length b = n"
proof (induction n xs rule: read_blocks.induct)
  case (1 n xs)
  then have "xs \<noteq> [] \<Longrightarrow> n \<le> length xs" by (simp add: dvd_imp_le)
  moreover have "n dvd length (drop n xs)" using "1.prems" by (cases "n \<le> length xs") (simp_all add: dvd_diff_nat)
  ultimately show ?case using "1.IH" by (subst read_blocks.simps) auto
qed

lemma sha256_value:
  assumes "length t < 2 ^ 61"
  shows "sha256 t = int_sha256 t"
proof -
  let ?bs = "read_blocks 64 (fips_pad (as_bytes t))"
  have "sha256 t = hex_words (state_ints (foldl transform initial_state ?bs))"
    by (simp only: sha256_def sha256_bytes_fips fips_sha256_def hex_state)
  also have "state_ints (foldl transform initial_state ?bs) =
      foldl (int_transform int_constants) int_start (map (map uint) ?bs)"
    unfolding state_blocks [OF read_blocks_length [OF length_fips_pad]] int_start_words ..
  also have "map (map uint) ?bs = read_blocks 64 (int_pad t)"
    unfolding map_read_blocks int_pad_eq [OF assms] ..
  finally show ?thesis by (simp only: int_sha256_def)
qed

lemma sha256_abc: "sha256 ''abc'' = ''ba7816bf8f01cfea414140de5dae2223b00361a396177a9cb410ff61f20015ad''"
proof -
  have "int_sha256 ''abc'' = ''ba7816bf8f01cfea414140de5dae2223b00361a396177a9cb410ff61f20015ad''" by code_simp
  then show ?thesis by (simp add: sha256_value)
qed

end
