(* ===== verification/Endpoint_Example.thy ===== *)
theory Endpoint_Example
  imports Execution_Session Sha256_Value
begin

text \<open>
  The endpoint keys of a concrete controller and runtime monitor. A session needs their identities
  to differ, so both SHA-256 digests are computed here.
\<close>

lemma demo_digits: "char_of (48 :: nat) = CHR ''0''" "char_of (49 :: nat) = CHR ''1''"
  by code_simp+

lemma one_text: "format17 (f64_of_nat 1) = ''1''"
proof -
  note f = f64_of_nat_exact [of 1, simplified hidden_bit_def, simplified]
  have m: "magnitude (f64_of_nat 1) = 1" using f by (simp add: val_def)
  have "mag (f64_of_nat 1) \<noteq> 0"
  proof
    assume "mag (f64_of_nat 1) = 0"
    then have "magnitude (f64_of_nat 1) = 0" by (simp only: magnitude_def scaled_0 of_nat_0 mult_zero_left)
    with m show False by simp
  qed
  moreover have "floor_log10 1 = 0" by (simp add: floor_log10_def decimal.simps)
  then have "sig17 1 = (10 ^ 16, 0)" by (simp add: sig17_def Let_def round_half_even_def)
  moreover have "decimal (10 ^ 16) = ''10000000000000000''" by (simp add: decimal.simps digit_char_def demo_digits)
  ultimately show ?thesis using f m
    by (simp add: format17_def isnan_def isinf_def isfinite_def number_token_def strip_zeros_def)
qed

lemma zero_text: "format17 (f64_of_nat 0) = ''0''"
proof -
  note f = f64_of_nat_exact [of 0, simplified hidden_bit_def, simplified]
  then have "magnitude (f64_of_nat 0) = 0" by (simp add: val_def)
  then have "mag (f64_of_nat 0) = 0"
    using scaled_pos_iff [of "mag (f64_of_nat 0)"] by (simp add: magnitude_def less_imp_neq [OF ulp_min_pos, symmetric])
  then show ?thesis using f by (simp add: format17_def number_token_def isnan_def isinf_def inf_mag_def hidden_bit_def)
qed

definition demo_endpoint :: "string \<Rightarrow> endpoint_role \<Rightarrow> endpoint_key" where
  "demo_endpoint service role =
     (let k = \<lparr>ek_id = [], ek_service = service, ek_role = role, ek_algorithm = Ed25519, ek_public = replicate 32 1\<rparr>
      in k\<lparr>ek_id := execution_endpoint_key_identity k\<rparr>)"

definition endpoint_text :: "string \<Rightarrow> string \<Rightarrow> string" where
  "endpoint_text role service =
     ''{'' @ escape_json ''algorithm'' @ '':1,'' @ escape_json ''format'' @ '':'' @
     escape_json ''rbfsafe-execution-endpoint-key'' @ '','' @ escape_json ''public_key'' @ '':'' @
     escape_json (concat (replicate 32 ''01'')) @ '','' @ escape_json ''role'' @ '':'' @ role @ '','' @
     escape_json ''schema'' @ '':1,'' @ escape_json ''service_id'' @ '':'' @ escape_json service @ ''}''"

lemma endpoint_canonical:
  "canonical (json_object
     [(''algorithm'', json_int 1), (''format'', JStr ''rbfsafe-execution-endpoint-key''),
      (''public_key'', JStr (encode_hex (replicate 32 1))), (''role'', json_int r), (''schema'', json_int 1),
      (''service_id'', JStr s)]) = endpoint_text (format17 (f64_of_nat r)) s"
proof -
  have "sorted_wrt (<) [''algorithm'', ''format'', ''public_key'', ''role'', ''schema'', ''service_id'']" by code_simp
  moreover have "hex_byte 1 = ''01''" by (simp add: hex_byte_def hex_digit_def demo_digits)
  then have "encode_hex (replicate 32 1) = concat (replicate 32 ''01'')" by (simp add: encode_hex_def)
  ultimately show ?thesis
    by (simp add: canonical_def json_object_def mk_object_sorted json_int_def one_text [simplified] indent_def newline_def
        separator_def endpoint_text_def)
qed

lemma demo_endpoint_fields [simp]:
  "ek_service (demo_endpoint s r) = s" "ek_role (demo_endpoint s r) = r" "ek_algorithm (demo_endpoint s r) = Ed25519"
  "ek_public (demo_endpoint s r) = replicate 32 1"
  by (simp_all add: demo_endpoint_def Let_def)

lemma demo_endpoint_id:
  "ek_id (demo_endpoint s r) = sha256 (endpoint_text (format17 (f64_of_nat (endpoint_role_code r))) s)"
  unfolding demo_endpoint_def Let_def execution_endpoint_key_identity_def by (simp add: endpoint_canonical [simplified])

lemma controller_digest:
  "int_sha256 (endpoint_text ''0'' ''arm'') = ''f1b4a09e74a52a4116d224b07123b10776fe788bf71d712bff0cb17ce6923d28''"
  by code_simp

lemma monitor_digest:
  "int_sha256 (endpoint_text ''1'' ''eye'') = ''ce0ad6ec64f831518e940c9ca7c5a277a476c927cec2ccd20cf27b66774f4845''"
  by code_simp

lemma endpoint_text_lengths:
  "length (endpoint_text ''0'' ''arm'') = 176" "length (endpoint_text ''1'' ''eye'') = 176"
  by code_simp+

lemma demo_endpoints_differ: "ek_id (demo_endpoint ''arm'' ControllerRole) \<noteq> ek_id (demo_endpoint ''eye'' RuntimeMonitorRole)"
  by (simp add: demo_endpoint_id one_text [simplified] zero_text sha256_value endpoint_text_lengths controller_digest monitor_digest)

end
