(* ===== verification/Execution_Example.thy ===== *)
theory Execution_Example
  imports Execution_Signing_Laws Deployment_Example Endpoint_Example
begin

text \<open>
  A bounded session under the reviewed profile of the deployment example: two commands certified
  against an atlas, approved by both reviewers, acknowledged by the controller and the runtime
  monitor, and the authorization of its first command.
\<close>

section \<open>The commands\<close>

definition demo_view :: atlas_view where
  "demo_view = \<lparr>at_dimension = 1, at_id = sha256 ''atlas'', at_robot = sha256 ''robot'', at_scene = sha256 ''scene'',
     at_audit = \<lambda>_ _. Inr \<lparr>ta_status = AuditCertified, ta_regions = [7], ta_uncovered = 0\<rparr>,
     at_route = \<lambda>_ _. Inr (Some \<lparr>ar_level = CertifiedConnectivity, ar_id = sha256 ''route'', ar_identity = sha256 ''route''\<rparr>)\<rparr>"

definition demo_sequence :: command_sequence where
  "demo_sequence =
     (let s = \<lparr>sq_schema = 1, sq_id = [], sq_atlas = sha256 ''atlas'', sq_robot = sha256 ''robot'', sq_scene = sha256 ''scene'',
               sq_certificate = sha256 ''route'', sq_dimension = 1,
               sq_commands = [\<lparr>ec_index = 0, ec_offset = 0, ec_configuration = [f64_of_nat 0]\<rparr>,
                 \<lparr>ec_index = 1, ec_offset = 100, ec_configuration = [f64_of_nat 1]\<rparr>],
               sq_regions = [7]\<rparr>
      in s\<lparr>sq_id := execution_command_sequence_identity s\<rparr>)"

lemma demo_sequence_fields [simp]:
  "sq_schema demo_sequence = 1" "sq_atlas demo_sequence = sha256 ''atlas''" "sq_robot demo_sequence = sha256 ''robot''"
  "sq_scene demo_sequence = sha256 ''scene''" "sq_certificate demo_sequence = sha256 ''route''" "sq_dimension demo_sequence = 1"
  "sq_commands demo_sequence = [\<lparr>ec_index = 0, ec_offset = 0, ec_configuration = [f64_of_nat 0]\<rparr>,
     \<lparr>ec_index = 1, ec_offset = 100, ec_configuration = [f64_of_nat 1]\<rparr>]" "sq_regions demo_sequence = [7]"
  by (simp_all add: demo_sequence_def Let_def)

lemma sequence_identity_update [simp]:
  "execution_command_sequence_identity (s\<lparr>sq_id := i\<rparr>) = execution_command_sequence_identity s"
  "valid_sha256 (execution_command_sequence_identity s)"
  by (simp_all add: execution_command_sequence_identity_def)

lemma identified_sequence:
  "sequence_valid (s\<lparr>sq_id := execution_command_sequence_identity s\<rparr>) \<longleftrightarrow>
     sq_schema s = 1 \<and> valid_sha256 (sq_atlas s) \<and> valid_sha256 (sq_robot s) \<and> valid_sha256 (sq_scene s) \<and>
     valid_sha256 (sq_certificate s) \<and> sq_dimension s \<noteq> 0 \<and> sq_dimension s \<le> kMaximumDimension \<and>
     2 \<le> length (sq_commands s) \<and> length (sq_commands s) \<le> kMaximumCommands \<and> sq_regions s \<noteq> [] \<and>
     commands_valid (sq_dimension s) 0 None (sq_commands s)"
  by (auto simp: sequence_valid_def not_less)

lemma demo_finite: "isfinite (f64_of_nat 0)" "isfinite (f64_of_nat 1)"
  using f64_of_nat_exact [of 0, simplified hidden_bit_def, simplified] f64_of_nat_exact [of 1, simplified hidden_bit_def, simplified]
  by simp_all

lemma demo_sequence_valid [simp]: "sequence_valid demo_sequence"
  unfolding demo_sequence_def Let_def identified_sequence
  using demo_finite by (simp add: kMaximumDimension_def kMaximumCommands_def valid_configuration_def)

lemma demo_sequence_id [simp]: "valid_sha256 (sq_id demo_sequence)"
  by (simp add: demo_sequence_def Let_def)

lemma demo_compatible [simp]: "verify_compatible demo_sequence demo_view default_region_tests = Inr ()"
  by (simp add: verify_compatible_def default_region_tests_def demo_view_def certified_def route_certified_def)

section \<open>The request\<close>

definition demo_limits :: session_limits where
  "demo_limits = \<lparr>sl_start_delay = 100, sl_duration = 500, sl_commands = 2\<rparr>"

definition demo_request_input :: request_input where
  "demo_request_input = \<lparr>qi_nonce = sha256 ''nonce'', qi_controller = demo_endpoint ''arm'' ControllerRole,
     qi_monitor = demo_endpoint ''eye'' RuntimeMonitorRole, qi_limits = demo_limits\<rparr>"

definition demo_request :: session_request where
  "demo_request = projr (create_session_request demo_reviewed demo_sequence demo_request_input)"

lemma demo_service_names: "valid_text ''arm''" "valid_text ''eye''"
  by code_simp+

lemma demo_endpoint_valid:
  assumes "valid_text s"
  shows "valid_execution_endpoint_key (demo_endpoint s r)"
proof -
  have i: "execution_endpoint_key_identity (k\<lparr>ek_id := x\<rparr>) = execution_endpoint_key_identity k" for k x
    by (simp add: execution_endpoint_key_identity_def)
  have "valid_execution_endpoint_key (k\<lparr>ek_id := execution_endpoint_key_identity k\<rparr>)"
    if "valid_text (ek_service k)" "ek_algorithm k = Ed25519" for k
    using that by (cases "ek_role k") (simp_all add: valid_execution_endpoint_key_def valid_endpoint_role_def i)
  then show ?thesis unfolding demo_endpoint_def Let_def using assms by (metis endpoint_key.select_convs(2,4))
qed

lemma demo_request_created:
  "create_session_request demo_reviewed demo_sequence demo_request_input = Inr demo_request"
proof -
  have "has_value (create_session_request demo_reviewed demo_sequence demo_request_input)"
    using demo_endpoints_differ
    by (simp add: create_session_request_def demo_request_input_def Let_def demo_endpoint_valid demo_service_names
        demo_limits_def valid_execution_session_limits_def kMaximumBoundNanoseconds_def kMaximumCommands_def has_value_def)
  then show ?thesis
    by (cases "create_session_request demo_reviewed demo_sequence demo_request_input") (simp_all add: demo_request_def)
qed

lemmas demo_request_facts = created_request [OF demo_request_created]

lemma demo_request_valid [simp]: "request_valid demo_request"
  by (rule demo_request_facts(1))

lemma demo_request_fields [simp]:
  "rq_profile demo_request = dp_id demo_profile"
  "rq_approvals demo_request = ps_id demo_profile_set" "rq_trust_root demo_request = tb_id demo_root"
  "rq_trust_checkpoint demo_request = tc_id demo_checkpoint" "rq_trust_bundle demo_request = tb_id demo_root"
  "rq_trust_sequence demo_request = 1" "rq_sequence demo_request = sq_id demo_sequence"
  "rq_atlas demo_request = sha256 ''atlas''" "rq_robot demo_request = sha256 ''robot''"
  "rq_scene demo_request = sha256 ''scene''" "rq_count demo_request = 2"
  "rq_controller demo_request = demo_endpoint ''arm'' ControllerRole"
  "rq_monitor demo_request = demo_endpoint ''eye'' RuntimeMonitorRole" "rq_limits demo_request = demo_limits"
  by (simp_all add: demo_request_facts demo_request_input_def)

section \<open>Approvals and acknowledgements\<close>

definition demo_session_approval :: "string \<Rightarrow> review_role \<Rightarrow> session_approval" where
  "demo_session_approval s r = projr (sign_execution_session_approval demo_signer demo_request (demo_approval s r) trust_secret)"

definition demo_controller :: controller_acknowledgement where
  "demo_controller = projr (sign_execution_controller_acknowledgement demo_signer demo_request trust_secret)"

definition demo_observation :: runtime_observation where
  "demo_observation = projr (create_runtime_observation demo_request (demo_runtime 300) 1 1000 ArmedCertifiedSequence)"

definition demo_monitor :: monitor_acknowledgement where
  "demo_monitor = projr (sign_execution_monitor_acknowledgement demo_signer demo_request demo_observation trust_secret)"

lemma projr_value: "has_value x \<Longrightarrow> x = Inr (projr x)"
  by (cases x) simp_all

lemma demo_reviewer_pair:
  assumes "valid_text s"
  shows "has_value (verified_key_pair demo_signer s (sk_id (demo_key s KeyActive 0)) trust_secret None)"
  using demo_signing [OF assms] assms
  by (auto simp: verified_key_pair_def verify_signing_key_def result_simps failure_def split: if_splits)

lemma demo_endpoint_pair:
  assumes "valid_text s"
  shows "has_value (verified_key_pair demo_signer s (ek_id (demo_endpoint s r)) trust_secret (Some r))"
proof -
  have "make_execution_endpoint_key s r (replicate 32 1) = Inr (demo_endpoint s r)"
    using assms by (cases r) (simp_all add: make_execution_endpoint_key_def demo_endpoint_def valid_endpoint_role_def
        kEd25519PublicKeyBytes_def Let_def)
  moreover have "valid_sha256 (ek_id (demo_endpoint s r))"
    using demo_endpoint_valid [OF assms] by (simp add: valid_execution_endpoint_key_def)
  ultimately show ?thesis using assms
    by (simp add: verified_key_pair_def ed25519_key_pair_from_seed_def demo_signer_def trust_secret_def
        kEd25519SecretKeyBytes_def kEd25519SeedBytes_def)
qed

lemma demo_session_approval_signed:
  assumes "valid_text s"
  shows "sign_execution_session_approval demo_signer demo_request (demo_approval s r) trust_secret = Inr (demo_session_approval s r)"
  unfolding demo_session_approval_def
  by (rule projr_value)
    (use demo_reviewer_pair [OF assms] demo_approval_valid [OF assms] in
      \<open>auto simp: sign_execution_session_approval_def demo_ed25519_sign Let_def has_value_iff\<close>)

lemma demo_controller_signed:
  "sign_execution_controller_acknowledgement demo_signer demo_request trust_secret = Inr demo_controller"
  unfolding demo_controller_def
  by (rule projr_value)
    (use demo_endpoint_pair [OF demo_service_names(1), of ControllerRole] in
      \<open>auto simp: sign_execution_controller_acknowledgement_def demo_ed25519_sign Let_def has_value_iff\<close>)

lemma demo_observation_fields [simp]:
  "xo_request demo_observation = rq_id demo_request" "xo_command_sequence demo_observation = sq_id demo_sequence"
  "xo_runtime demo_observation = demo_runtime 300" "xo_observed demo_observation = 1000" "xo_sequence demo_observation = 1"
  "xo_monitor demo_observation = ArmedCertifiedSequence"
  by (simp_all add: demo_observation_def create_runtime_observation_def demo_runtime_valid valid_monitor_state_def Let_def)

lemma demo_observation_valid [simp]: "runtime_observation_valid demo_observation"
proof -
  have i: "valid_sha256 (execution_runtime_observation_identity x)" for x
    by (simp add: execution_runtime_observation_identity_def)
  have "xo_id demo_observation = execution_runtime_observation_identity demo_observation"
    by (simp add: demo_observation_def create_runtime_observation_def demo_runtime_valid valid_monitor_state_def Let_def
        execution_runtime_observation_identity_def)
  moreover have "valid_sha256 (rq_id demo_request)" using demo_request_valid unfolding request_valid_def by blast
  ultimately show ?thesis
    by (simp add: runtime_observation_valid_def i demo_runtime_valid valid_monitor_state_def)
qed

lemma demo_monitor_signed:
  "sign_execution_monitor_acknowledgement demo_signer demo_request demo_observation trust_secret = Inr demo_monitor"
  unfolding demo_monitor_def
  by (rule projr_value)
    (use demo_endpoint_pair [OF demo_service_names(2), of RuntimeMonitorRole] in
      \<open>auto simp: sign_execution_monitor_acknowledgement_def demo_ed25519_sign Let_def has_value_iff\<close>)

section \<open>The session\<close>

definition demo_session_approvals :: session_approval_set where
  "demo_session_approvals =
     (let s = \<lparr>ss_id = [], ss_request = rq_id demo_request,
               ss_approvals = [demo_session_approval ''alpha'' Safety, demo_session_approval ''beta'' Controls]\<rparr>
      in s\<lparr>ss_id := execution_session_approval_set_identity s\<rparr>)"

lemma demo_session_approvals_fields [simp]:
  "ss_request demo_session_approvals = rq_id demo_request"
  "ss_approvals demo_session_approvals = [demo_session_approval ''alpha'' Safety, demo_session_approval ''beta'' Controls]"
  "ss_id demo_session_approvals = execution_session_approval_set_identity demo_session_approvals"
  "valid_sha256 (execution_session_approval_set_identity x)"
  by (simp_all add: demo_session_approvals_def execution_session_approval_set_identity_def Let_def)

lemma demo_session_approval_facts:
  assumes "s = ''alpha'' \<or> s = ''beta''"
  shows "valid_execution_session_approval (demo_session_approval s r)" "sa_request (demo_session_approval s r) = rq_id demo_request"
    "sa_service (demo_session_approval s r) = s" "sa_key (demo_session_approval s r) = sk_id (demo_key s KeyActive 0)"
    "sa_role (demo_session_approval s r) = r" "verify_session_approval demo_signer demo_root 1 (demo_session_approval s r) = Inr ()"
proof -
  have s: "valid_text s" using assms demo_service_texts by auto
  have h: "honest_signer demo_signer trust_secret (sk_public (demo_key s KeyActive 0))" using trust_secret_honest by simp
  note a = signed_session_approval [OF demo_session_approval_signed [OF s, of r] h]
  show "valid_execution_session_approval (demo_session_approval s r)" "sa_request (demo_session_approval s r) = rq_id demo_request"
    "sa_service (demo_session_approval s r) = s" "sa_key (demo_session_approval s r) = sk_id (demo_key s KeyActive 0)"
    "sa_role (demo_session_approval s r) = r" "verify_session_approval demo_signer demo_root 1 (demo_session_approval s r) = Inr ()"
    using a demo_approval_valid [OF s] demo_trusted_key [OF assms] by simp_all
qed

lemmas demo_session_signers =
  demo_session_approval_facts [of "''alpha''" Safety, simplified] demo_session_approval_facts [of "''beta''" Controls, simplified]

lemma demo_session_approvals_valid [simp]: "valid_execution_session_approval_set demo_session_approvals"
  using demo_request_valid
  by (simp add: valid_execution_session_approval_set_def demo_session_signers session_approval_less_def
      session_approval_order_def less_prod_def' demo_service_order kMaximumApprovals_def not_less_iff_gr_or_eq request_valid_def)

lemma demo_session_policy:
  "validate_session_approval_policy demo_reviewed (ss_approvals demo_session_approvals) = Inr ()"
  by (simp add: session_policy_iff satisfies_review_def demo_session_signers matches_profile_approval_def demo_approvals)

lemma demo_session_approved:
  "verify_execution_session_approvals demo_signer demo_request demo_reviewed demo_session_approvals demo_root = Inr ()"
  using demo_session_policy
  by (simp add: verify_execution_session_approvals_def demo_bundles_valid demo_session_signers)

lemma demo_endpoint_honest:
  "honest_signer demo_signer trust_secret (ek_public (rq_controller demo_request))"
  "honest_signer demo_signer trust_secret (ek_public (rq_monitor demo_request))"
  using trust_secret_honest by simp_all

lemma demo_controller_verified: "verify_execution_controller_acknowledgement demo_signer demo_request demo_controller = Inr ()"
  by (rule signed_controller [OF demo_controller_signed demo_endpoint_honest(1)])

lemma demo_monitor_verified: "verify_execution_monitor_acknowledgement demo_signer demo_request demo_monitor = Inr ()"
  "ma_observation demo_monitor = demo_observation"
  by (fact signed_monitor [OF demo_monitor_signed demo_endpoint_honest(2)])+

lemma demo_acknowledged [simp]:
  "valid_execution_controller_acknowledgement demo_controller" "valid_execution_monitor_acknowledgement demo_monitor"
  using demo_controller_verified demo_monitor_verified(1)
  by (auto simp: verify_execution_controller_acknowledgement_def verify_execution_monitor_acknowledgement_def split: if_splits)

lemma demo_runtime_fields [simp]:
  "rs_observation_age (demo_runtime age) = age" "rs_command_latency (demo_runtime age) = 40"
  by (simp_all add: demo_runtime_def)

lemma demo_no_violations: "violations_of demo_profile (demo_runtime 300) = []"
  by (simp add: violations_of_def demo_runtime_def Let_def)

lemma demo_assessed:
  "\<exists>am. assess_snapshot demo_reviewed (demo_runtime 300) = Inr am \<and> am_status am = Conformant \<and> am_evidence am = Unknown"
  by (simp add: assess_snapshot_def demo_runtime_valid demo_no_violations Let_def)

definition demo_session :: execution_session where
  "demo_session =
     (let e = \<lparr>es_id = [], es_request = demo_request, es_sequence = demo_sequence, es_approvals = demo_session_approvals,
               es_controller = demo_controller, es_monitor = demo_monitor, es_from = 1000, es_deadline = 1100, es_through = 1500\<rparr>
      in e\<lparr>es_id := bounded_execution_session_identity e\<rparr>)"

lemma demo_session_fields [simp]:
  "es_request demo_session = demo_request" "es_sequence demo_session = demo_sequence"
  "es_approvals demo_session = demo_session_approvals" "es_controller demo_session = demo_controller"
  "es_monitor demo_session = demo_monitor" "es_from demo_session = 1000" "es_deadline demo_session = 1100"
  "es_through demo_session = 1500" "ma_observation demo_monitor = demo_observation"
  by (simp_all add: demo_session_def Let_def demo_monitor_verified(2))

lemma demo_session_id: "es_id demo_session = bounded_execution_session_identity demo_session"
  by (simp add: demo_session_def Let_def bounded_execution_session_identity_def)

lemma demo_session_valid [simp]: "session_valid demo_session"
  using verified_controller(1) [OF demo_controller_verified]
  by (simp add: session_valid_def demo_session_id) (simp add: bounded_execution_session_identity_def)

lemma demo_session_created:
  "create_session demo_signer demo_request demo_sequence demo_session_approvals demo_controller demo_monitor
     demo_reviewed demo_root demo_view = Inr demo_session"
proof -
  obtain am where am: "assess_snapshot demo_reviewed (demo_runtime 300) = Inr am" "am_status am = Conformant" "am_evidence am = Unknown"
    using demo_assessed by blast
  have t: "checked_add 1000 (sl_start_delay demo_limits) = Some 1100" "checked_add 1000 (sl_duration demo_limits) = Some 1500"
    by (simp_all add: checked_add_def demo_limits_def)
  show ?thesis
    using am demo_session_valid [unfolded demo_session_def Let_def]
    by (simp add: create_session_def demo_bundles_valid demo_session_approved demo_controller_verified demo_monitor_verified t
        demo_session_def Let_def) (simp add: demo_limits_def)
qed

section \<open>The first command\<close>

definition demo_authorized_command :: command_authorization where
  "demo_authorized_command =
     the (projr (session_authorize_command demo_session 0 [f64_of_nat 0] 1020))"

lemma f64_of_nat_eq: "f64_eq (f64_of_nat 0) (f64_of_nat 0)"
  using demo_finite by (simp add: f64_eq_def isfinite_def isnan_def)

lemma demo_command_authorized:
  "session_authorize_command demo_session 0 [f64_of_nat 0] 1020 = Inr (Some demo_authorized_command)"
proof -
  have "\<exists>u. session_authorize_command demo_session 0 [f64_of_nat 0] 1020 = Inr (Some u)"
    by (rule authorizes_in_window)
      (simp_all add: valid_configuration_def demo_finite same_configuration_def f64_of_nat_eq command_window_def)
  then show ?thesis by (auto simp: demo_authorized_command_def)
qed

end
