(* ===== verification/Ledger_Example.thy ===== *)
theory Ledger_Example
  imports Ledger_Grant Execution_Example
begin

text \<open>
  The ledger of the example session: created, the first command granted under the pinned
  checkpoint, and completed by the controller.
\<close>

section \<open>Creation\<close>

definition demo_ledger :: execution_ledger where
  "demo_ledger = created_ledger ''/ledger'' demo_session"

lemma demo_bound: "has_value (verify_bound_session demo_signer demo_session demo_reviewed demo_trust demo_view)"
proof -
  have a: "at_dimension demo_view = 1" "at_id demo_view = sha256 ''atlas''" "at_robot demo_view = sha256 ''robot''"
    "at_scene demo_view = sha256 ''scene''" by (simp_all add: demo_view_def)
  show ?thesis
    by (simp add: verify_bound_session_def demo_history_valid demo_bundle_found demo_session_created a Let_def)
qed

lemma demo_ledger_valid: "ledger_valid demo_ledger" "session_bound demo_ledger demo_session"
  unfolding demo_ledger_def by (rule created_ledger_valid; simp)+

lemma demo_ledger_fields [simp]:
  "el_records demo_ledger = [ledger_root demo_session]" "el_maximum demo_ledger = 1000000" "el_count demo_ledger = 2"
  "el_through demo_ledger = 1500"
  by (simp_all add: demo_ledger_def created_ledger_def default_maximum_records_def)

lemma demo_root_record [simp]:
  "lr_authorization (ledger_root demo_session) = None" "lr_completion (ledger_root demo_session) = None"
  "lr_checkpoint (ledger_root demo_session) = None" "lr_observed (ledger_root demo_session) = 1000"
  by (simp_all add: root_valid [OF demo_session_valid])

lemma demo_ledger_open: "lm_status (ledger_summary_of demo_ledger) = LedgerOpen" "lm_next (ledger_summary_of demo_ledger) = 0"
proof -
  obtain m where m: "ledger_replayed demo_ledger = Inr m" using demo_ledger_valid(1) by (rule ledger_valid_replayed)
  then have "lm_status m = LedgerOpen \<and> lm_next m = 0"
    by (auto simp: ledger_replayed_def build_ledger_summary_def fresh_summary_def failure_def split: if_splits)
  then show "lm_status (ledger_summary_of demo_ledger) = LedgerOpen" "lm_next (ledger_summary_of demo_ledger) = 0"
    by (simp_all add: ledger_summary_of_def m)
qed

lemma demo_ledger_reached: "ledger_reached demo_signer demo_session demo_reviewed demo_trust demo_view demo_ledger"
  unfolding demo_ledger_def by (rule Created [OF demo_bound]) simp_all

section \<open>The first command\<close>

definition demo_grant_input :: authorize_input where
  "demo_grant_input = \<lparr>zi_history = demo_trust, zi_checkpoint = demo_checkpoint, zi_expected_checkpoint = tc_id demo_checkpoint,
     zi_index = 0, zi_configuration = [f64_of_nat 0], zi_dispatch = 1020, zi_expected_record = el_current demo_ledger\<rparr>"

definition demo_disk :: "execution_ledger \<Rightarrow> ledger_disk" where
  "demo_disk l = \<lparr>ld_lock = Inr (), ld_open = Inr l, ld_append = \<lambda>_. Inr ()\<rparr>"

lemma demo_disk_fields [simp]: "ld_lock (demo_disk l) = Inr ()" "ld_open (demo_disk l) = Inr l" "ld_append (demo_disk l) r = Inr ()"
  by (simp_all add: demo_disk_def)

definition demo_granted_ledger :: execution_ledger where
  "demo_granted_ledger = extended demo_ledger (authorized_record demo_ledger demo_grant_input demo_authorized_command)"

lemma demo_context:
  "verify_current_context demo_signer demo_session demo_reviewed demo_trust demo_checkpoint (tc_id demo_checkpoint) demo_view = Inr demo_root"
proof -
  obtain b where "verify_bound_session demo_signer demo_session demo_reviewed demo_trust demo_view = Inr b"
    using demo_bound by (cases "verify_bound_session demo_signer demo_session demo_reviewed demo_trust demo_view") auto
  then show ?thesis
    by (simp add: verify_current_context_def demo_checkpoint_verified current_bundle_def demo_bundle_found demo_history_valid)
qed

lemma demo_reviewers_active: "inactive_reviewer_key demo_session demo_root = Inr None"
proof -
  have "bundle_key demo_root ''alpha'' (sk_id (demo_key ''alpha'' KeyActive 0)) = Inr (Some (demo_key ''alpha'' KeyActive 0))"
    "bundle_key demo_root ''beta'' (sk_id (demo_key ''beta'' KeyActive 0)) = Inr (Some (demo_key ''beta'' KeyActive 0))"
    by (rule demo_rotation_key; simp)+
  then show ?thesis
    unfolding inactive_reviewer_key_def
    by (simp add: demo_bundles_valid demo_session_signers reviewer_refused_def)
qed

lemma demo_command_granted:
  "\<exists>d. ledger_authorize_command demo_signer (demo_disk demo_ledger) demo_ledger demo_session demo_reviewed demo_view demo_grant_input =
     (Inr d, demo_granted_ledger) \<and> cd_authorization d = Some demo_authorized_command"
  unfolding demo_granted_ledger_def
  by (rule grants [OF demo_ledger_valid(1) demo_ledger_open(1), where b = demo_root])
    (simp_all add: demo_grant_input_def demo_ledger_open demo_context demo_reviewers_active demo_command_authorized
      rolled_back_def latest_checkpoint_def)

lemma demo_granted_ledger_reached: "ledger_reached demo_signer demo_session demo_reviewed demo_trust demo_view demo_granted_ledger"
  using demo_command_granted Authorized [OF demo_ledger_reached, of "demo_disk demo_ledger" demo_grant_input]
  by (auto simp: demo_grant_input_def)

lemma demo_trust_distinct: "distinct (map tb_id (th_bundles demo_trust))"
  by simp

section \<open>Its completion\<close>

definition demo_completion_input :: completion_input where
  "demo_completion_input = \<lparr>ci_outcome = OutcomeCompleted, ci_completed = 1030, ci_result = sha256 ''done''\<rparr>"

definition demo_completion :: controller_completion where
  "demo_completion =
     projr (sign_execution_controller_completion demo_signer demo_session demo_authorized_command demo_completion_input trust_secret)"

lemmas demo_authorized_facts = authorized_command [OF demo_command_authorized]

lemma demo_completion_signed:
  "sign_execution_controller_completion demo_signer demo_session demo_authorized_command demo_completion_input trust_secret =
     Inr demo_completion"
proof -
  have "make_execution_endpoint_key ''arm'' ControllerRole (replicate 32 1) = Inr (demo_endpoint ''arm'' ControllerRole)"
    using demo_service_names by (simp add: make_execution_endpoint_key_def demo_endpoint_def valid_endpoint_role_def
        kEd25519PublicKeyBytes_def Let_def)
  then have "has_value (verified_controller_key_pair demo_signer demo_session trust_secret)"
    by (simp add: verified_controller_key_pair_def ed25519_key_pair_from_seed_def demo_signer_def trust_secret_def
        kEd25519SecretKeyBytes_def kEd25519SeedBytes_def)
  then show ?thesis unfolding demo_completion_def
    by (intro projr_value)
      (use demo_authorized_facts in \<open>auto simp: sign_execution_controller_completion_def demo_ed25519_sign Let_def has_value_iff
        demo_completion_input_def valid_completion_outcome_def\<close>)
qed

lemma demo_completion_verified:
  "verify_execution_controller_completion demo_signer demo_session demo_authorized_command demo_completion = Inr ()"
  by (rule signed_completion [OF demo_completion_signed demo_endpoint_honest(1) [folded demo_session_fields(1)]])
    (simp add: demo_completion_input_def)

section \<open>A cancelled ledger\<close>

definition demo_cancelled :: execution_ledger where
  "demo_cancelled = extended demo_ledger (cancelled_record demo_ledger 1010 ''stop'')"

lemma demo_cancelled_ended: "terminal_status (lm_status (ledger_summary_of demo_cancelled))"
proof -
  have "ledger_text False ''stop''" by code_simp
  then have "lm_status (ledger_summary_of demo_cancelled) = LedgerCancelled"
    unfolding demo_cancelled_def
    by (intro cancels(3) [OF demo_ledger_valid(1), where disk = "demo_disk demo_ledger"])
      (simp_all add: demo_ledger_open terminal_status_def)
  then show ?thesis by (simp add: terminal_status_def)
qed

end
