(* ===== verification/Spec2Isabelle.thy ===== *)
theory Spec2Isabelle
  imports Memory_Store_Example Fleet_Example Transparency_Example Trust_Example Review_Example Ledger_Example
begin

text \<open>
  A verification library for RBF-Safe, a C++20 library of conservative geometric safety
  certificates for robots and of the records that make those certificates auditable. The model
  covers the record-keeping core: what is stored, under which identity, along which lifecycle,
  and what a third party can check of it.

  \<^bold>\<open>Parts and how they interact.\<close> Every record of the library has an identity, the SHA-256
  digest of its canonical JSON text. The safety memory (\<^verbatim>\<open>src/memory.cpp\<close>) registers certified
  artifacts under such identities and logs every change as an event; fleet schedules, in the
  same file, reserve windows of space and time against active artifacts of a memory, and the
  archive (\<^verbatim>\<open>src/fleet_schedule_archive.cpp\<close>) keeps published schedules in a version chain. The
  transparency log (\<^verbatim>\<open>src/transparency.cpp\<close>) publishes deployment anchors and attested runtime
  observations as leaves of a Merkle tree, with signed checkpoints and three kinds of proofs.
  Service trust bundles (\<^verbatim>\<open>src/identity.cpp\<close>) hold the public keys of the services; each bundle
  succeeds the one before it under the authorizations of a quorum of its rotation keys, and the
  history of bundles lives in a directory that is opened against a pinned root and head.

  \<^bold>\<open>Theories.\<close>
  \<^item> \<open>Prelude\<close>: status codes and results (\<^verbatim>\<open>include/rbfsafe/result.h\<close>; \<open>Error\<close> is a record,
    \<open>Result\<close> the sum of error and value, \<open>rbind\<close> the early return), sorting, binary search, and
    the locale \<open>append_only\<close> of states whose steps keep an invariant and only append entries.
  \<^item> \<open>Sha256\<close>: \<^verbatim>\<open>src/sha256.cpp\<close>, with FIPS 180-4 and RFC 2104 as reference definitions.
  \<^item> \<open>Text\<close>, \<open>Binary64\<close>, \<open>Float_Text\<close>: decimal and hexadecimal text (\<open>encode_hex\<close> and
    \<open>decode_hex\<close> of \<^verbatim>\<open>src/identity.cpp\<close>); IEEE 754 binary64 on its 64 bits, with values as
    rationals and round to nearest even; the 17-digit format and \<open>strtod\<close>.
  \<^item> \<open>Json\<close>, \<open>Json_Laws\<close>: \<^verbatim>\<open>src/json.cpp\<close>, writer and recursive-descent parser; the round trip
    and termination of the parser.
  \<^item> \<open>Binding\<close>: the locales \<open>codec\<close>, \<open>tagged_identity\<close> and \<open>content_identity\<close>, which state
    what an identity function promises: equal identities mean equal content, or the two
    canonical texts are a SHA-256 collision.
  \<^item> \<open>Types\<close>: \<^verbatim>\<open>include/rbfsafe/types.h\<close>, intervals and boxes, with the points of a box.
  \<^item> \<open>Memory\<close>, \<open>Memory_Laws\<close>: \<open>SafetyMemory\<close>. The state is the record \<open>safety_memory\<close> (sorted
    artifacts, events, next sequence number); each method is a function to a result with the
    new memory; \<open>memory_valid\<close> is \<open>SafetyMemory::valid\<close>, which replays the events.
  \<^item> \<open>Fleet\<close>, \<open>Fleet_Laws\<close>, \<open>Fleet_Margin\<close>: snapshots, reservations, the sweep of
    \<open>analyze_fleet_schedule\<close>, its re-check and the archive; the margin theory computes one
    pair of boxes exactly.
  \<^item> \<open>Ed25519\<close>: the wrappers \<open>ed25519_sign\<close> and \<open>ed25519_verify\<close> of \<^verbatim>\<open>src/identity.cpp\<close>.
  \<^item> \<open>Transparency\<close>, \<open>Transparency_Log\<close>, \<open>Merkle\<close>, \<open>Transparency_State\<close>: the records of the
    log and their validity, leaves and checkpoints and proofs with their verifiers, the Merkle
    tree and its incremental frontier, and \<open>TransparencyLog\<close> itself (record \<open>transparency_log\<close>).
  \<^item> \<open>Merkle_Laws\<close>, \<open>Frontier_Laws\<close>, \<open>Transparency_Laws\<close>, \<open>Proof_Laws\<close>, \<open>Compact_Laws\<close>,
    \<open>Compact_Complete\<close>, \<open>Compact_Sound\<close>, \<open>Publish_Laws\<close>: the tree binds its leaves; the
    frontier computes the root; a valid log has the right root at every size; each proof is
    produced, accepted and right; publication succeeds.
  \<^item> \<open>Json_Fields\<close>, \<open>Json_Size\<close>: the readers of the members of a record that every loader uses
    (strings, sizes, decimal numbers), and bounds on the length of written documents.
  \<^item> \<open>Memory_File\<close>, \<open>Memory_File_Laws\<close>: \<^verbatim>\<open>src/memory_persistence.cpp\<close>, the two files of a saved
    memory (\<open>memory_directory\<close>), saving and loading them.
  \<^item> \<open>Memory_Store\<close>, \<open>Memory_Store_Laws\<close>, \<open>Memory_Store_History\<close>: \<^verbatim>\<open>src/memory_store.cpp\<close>. The
    directory of a store is the record \<open>store_directory\<close>, an open store the record
    \<open>memory_store\<close>; \<open>represents\<close> relates a directory to the list of memories it keeps, which is
    the abstract store. A publication gives its result and the list of its writes.
  \<^item> \<open>Runtime_Records\<close>: the deployment and execution records that the transparency log and the
    trust theories refer to.
  \<^item> \<open>Trust\<close>, \<open>Trust_Laws\<close>: keys, bundles, rotations, authorizations and their sets
    (\<^verbatim>\<open>src/identity.cpp\<close>); what a rotation keeps (\<open>evolves\<close>, \<open>rotates\<close>) and what a quorum is.
  \<^item> \<open>Trust_File\<close>, \<open>Trust_File_Laws\<close>: \<^verbatim>\<open>src/identity_persistence.cpp\<close>, the file of one bundle.
  \<^item> \<open>Trust_Records\<close>, \<open>Trust_Record_Laws\<close>, \<open>Trust_History\<close>, \<open>Trust_History_Laws\<close>:
    \<^verbatim>\<open>src/identity_history.cpp\<close>. The directory is the record \<open>trust_directory\<close>, an open history
    \<open>trust_history\<close>; \<open>history_valid\<close> is \<open>ServiceTrustHistory::valid\<close>.
  \<^item> \<open>Trust_Store_Laws\<close>, \<open>Trust_Store_History\<close>: \<open>keeps\<close> relates a directory to the history it
    keeps; opening gives that history, and each prefix of the writes of a publication keeps the
    old history or the extended one.
  \<^item> \<open>Trust_Checkpoint\<close>, \<open>Trust_Checkpoint_Laws\<close>: \<^verbatim>\<open>src/identity_checkpoint.cpp\<close>, signed pins of a
    history.
  \<^item> \<open>Memory_Example\<close>, \<open>Memory_Store_Example\<close>, \<open>Fleet_Example\<close>, \<open>Transparency_Example\<close>,
    \<open>Trust_Example\<close>: concrete states for the instances below.

  \<^bold>\<open>Assumptions made explicit.\<close> Nothing is assumed of SHA-256: where the code relies on
  collision resistance, the conclusion offers the colliding texts (\<open>sha256_collision\<close>,
  \<open>texts_collide\<close>, \<open>logs_collide\<close>). Ed25519 (the vendored Monocypher) is the parameter
  \<open>ed25519\<close>, key derivation, a signing and a checking function; only the theorem that publication
  succeeds needs a property of it (\<open>honest_signer\<close>), and the instances use a toy signer. The text
  \<open>nonce\<close> stands for the clock in names of temporary files. File locks, the log on disk, the result of an append and
  the polls of a cancellation token are arguments. Of the file system: the store reads what
  exists without failure; a step that writes succeeds or fails as the argument \<open>io\<close> says; a crash
  leaves a prefix of the writes, where a file under its final name is put there by a rename.
  The text of the library version is an argument too.

  \<^bold>\<open>Bounds and fuel.\<close> The JSON parser of the model has the length of the text and one as fuel,
  which never runs out (\<open>json_parser_total\<close>). All other recursions are structural or have a measure.
  Sequence numbers, generations, tree sizes and indices are 64-bit words that wrap; counts of
  elements in memory are natural numbers. The Merkle frontier has 64 slots as in the code.

  \<^bold>\<open>Not modelled.\<close> The geometric kernel (collision, link envelopes, optimisation, inverse
  kinematics, planning) works on trigonometric functions of the C library; Python bindings, tools,
  plugins and vendored code are glue. The directory layouts of the other persistent stores, the offline
  verification of artifact transfers, execution sessions and ledgers, coordination records, gossip
  and provenance are further components of the same kind as those modelled here.
\<close>

section \<open>Safety memory\<close>





section \<open>The transparency log\<close>

text \<open>
  C3. Whatever sequence of publications a valid log goes through, each against the valid log
  on disk with the same head, it stays valid and its leaves are append-only. (A disk whose
  log has the same head but another history makes the two logs a SHA-256 collision.)
\<close>

theorem log_history:
  assumes "log_valid c l" and "log_typed l" and "(log_step c)\<^sup>*\<^sup>* l l'"
  shows "log_valid c l' \<and> log_typed l' \<and> take (length (leaf_ids l)) (leaf_ids l') = leaf_ids l"
  using published_log.reach_inv [OF assms(3)] published_log.reach_appends [OF assms(3)] assms(1,2) by auto

theorem log_history_witness: "log_valid demo_signer demo_log2 \<and> take 0 (leaf_ids demo_log2) = leaf_ids demo_empty_log"
  using log_history [OF demo_empty_valid demo_steps] by (simp add: demo_empty_log_def leaf_ids_def)

text \<open>
  C4. The root in the checkpoint of every record, kept through the incremental frontier, is
  the Merkle root of the leaves up to that record, and its tree size counts them.
\<close>

theorem log_roots:
  assumes "log_valid c l" and "log_typed l" and "k < length (tl_records l)"
  shows "cp_root (rc_checkpoint (tl_records l ! k)) = merkle_root (take (k + 1) (leaf_ids l)) \<and>
     unat (cp_size (rc_checkpoint (tl_records l ! k))) = k + 1"
  using record_checkpoint(1,2) [OF assms] by simp

theorem log_roots_witness:
  "cp_root (rc_checkpoint (tl_records demo_log2 ! 0)) = merkle_root (take 1 (leaf_ids demo_log2))"
  using log_roots [OF demo_log2_facts(1,2), of 0] demo_log2_facts(3) by simp

text \<open>
  C5. The head checkpoint identity commits to the whole history: two valid logs with one head
  have the same leaves in the same order, or their texts contain a SHA-256 collision.
\<close>

theorem head_commits:
  assumes "log_valid c l" "log_typed l" and "log_valid c' l'" "log_typed l'"
    and "tl_checkpoint_id l = tl_checkpoint_id l'"
  shows "leaf_ids l = leaf_ids l' \<or> logs_collide l l'"
  using assms by (rule head_binds)

theorem head_commits_witness: "leaf_ids demo_log2 = leaf_ids demo_copy \<or> logs_collide demo_log2 demo_copy"
  by (rule head_commits [OF demo_log2_facts(1,2) demo_copy_valid]) (simp add: demo_copy_def)

text \<open>
  C6. An accepted inclusion proof is right: if the checkpoint is that of a tree over the given
  leaf identities, the leaf is the one at its index, or the proof exhibits a collision.
\<close>

theorem inclusion_proof_sound:
  assumes "verify_transparency_inclusion c i cp l p = Inr ()"
    and "cp_root cp = merkle_root ids" and "unat (cp_size cp) = length ids" and "length ids < 2 ^ 64 - 1"
  shows "unat (lf_index l) < length ids \<and>
    (ids ! unat (lf_index l) = lf_id l
     \<or> texts_collide (path_texts (unat (lf_index l)) (length ids) (lf_id l) (ip_siblings p)) (tree_texts ids))"
  using assms by (rule inclusion_sound)

theorem inclusion_proof_sound_witness:
  "unat (lf_index (rc_leaf (tl_records demo_log2 ! 0))) < length (leaf_ids demo_log2)"
  using inclusion_proof_sound [OF demo_inclusion demo_head_root demo_head_size] demo_log2_facts(3) by simp

text \<open>
  C7. A valid log produces the inclusion proof of each of its leaves: its own verifier, which
  runs before the proof is returned, never refuses it.
\<close>

theorem inclusion_proof_produced:
  assumes "log_valid c l" and "log_typed l" and "unat i < length (tl_records l)"
    and "length (tl_records l) < 2 ^ 64 - 1"
  shows "log_inclusion_proof c l i = Inr (make_inclusion_proof l i)"
  using assms by (rule inclusion_complete)

theorem inclusion_proof_produced_witness:
  "log_inclusion_proof demo_signer demo_log2 1 = Inr (make_inclusion_proof demo_log2 1)"
  using inclusion_proof_produced [OF demo_log2_facts(1,2), of 1] demo_log2_facts(3) by simp

text \<open>
  C8. An accepted consistency witness is right: the old checkpoint is that of a prefix of the
  new tree, or the witness exhibits a collision.
\<close>

theorem consistency_witness_sound:
  assumes "verify_transparency_consistency c i old new w = Inr ()"
    and "cp_root new = merkle_root ids" and "unat (cp_size new) = length ids"
  shows "unat (cp_size old) < length ids \<and>
    (cp_root old = merkle_root (take (unat (cp_size old)) ids)
     \<or> texts_collide (tree_texts (cw_leaves w)) (tree_texts ids))"
  using assms by (rule consistency_sound)

theorem consistency_witness_sound_witness:
  "unat (cp_size (rc_checkpoint (tl_records demo_log2 ! 0))) < length (leaf_ids demo_log2)"
  using consistency_witness_sound [OF demo_consistency demo_head_root demo_head_size] by simp

text \<open>C9. A valid log produces the consistency witness of each of its earlier sizes.\<close>

theorem consistency_witness_produced:
  assumes "log_valid c l" and "log_typed l" and "0 < n" and "unat n < length (tl_records l)"
  shows "log_consistency_witness c l n = Inr (make_consistency_witness l n)"
  using assms by (rule consistency_complete)

theorem consistency_witness_produced_witness:
  "log_consistency_witness demo_signer demo_log2 1 = Inr (make_consistency_witness demo_log2 1)"
  using consistency_witness_produced [OF demo_log2_facts(1,2), of 1] demo_log2_facts(3) by simp

text \<open>
  C10. An accepted compact consistency proof is right: the old checkpoint is that of a prefix
  of the new tree, or the subtrees of the proof exhibit a collision.
\<close>

theorem compact_proof_sound:
  assumes "verify_transparency_compact_consistency c i old new p = Inr ()"
    and "cp_root new = merkle_root ids" and "unat (cp_size new) = length ids"
  shows "unat (cp_size old) < length ids \<and> (cp_root old = merkle_root (take (unat (cp_size old)) ids)
     \<or> texts_collide (compact_texts (frontier_of_subtrees (cc_frontier p)) (unat (cp_size old)) (cc_appended p))
         (compact_texts (frontier_at (take (unat (cp_size old)) ids)) (unat (cp_size old))
            (honest_blocks ids (unat (cp_size old)) (cc_appended p))))"
  using compact_sound [OF assms] .

theorem compact_proof_sound_witness:
  "unat (cp_size (rc_checkpoint (tl_records demo_log2 ! 0))) < length (leaf_ids demo_log2)"
  using compact_proof_sound [OF demo_compact demo_head_root demo_head_size] by simp

text \<open>
  C11. A valid log produces the compact consistency proof of each of its earlier sizes: the
  frontier of the old tree and the maximal aligned subtrees that extend it.
\<close>

theorem compact_proof_produced:
  assumes "log_valid c l" and "log_typed l" and "0 < n" and "unat n < length (tl_records l)"
  shows "log_compact_consistency_proof c l n = Inr (honest_proof l n)"
  using assms by (rule compact_complete)

theorem compact_proof_produced_witness:
  "log_compact_consistency_proof demo_signer demo_log2 1 = Inr (honest_proof demo_log2 1)"
  using compact_proof_produced [OF demo_log2_facts(1,2), of 1] demo_log2_facts(3) by simp

text \<open>
  C12. Publishing a valid deployment anchor on an up-to-date valid log with room, under a
  signing key whose signatures verify, succeeds, records that anchor and moves the root to
  that of the extended leaves.
\<close>

theorem publication_succeeds:
  assumes "log_valid c l" and "log_typed l"
    and "honest_signer c sk (ti_public_key (tl_identity l))"
    and "length (tl_records l) < lo_maximum_records (tl_options l)" and "length (tl_records l) < 2 ^ 64 - 1"
    and "deployment_anchor_valid a" and "\<forall>r. appended r = Inr ()"
  shows "\<exists>l' r. publish_deployment_anchor c (Inr ()) (Inr l) appended l a sk (tl_checkpoint_id l) = Inr (l', r)
    \<and> lf_anchor (rc_leaf r) = Some a \<and> tl_root_hash l' = merkle_root (leaf_ids l @ [lf_id (rc_leaf r)])"
  using assms by (rule publish_anchor_succeeds)

theorem publication_succeeds_witness:
  "\<exists>l' r. publish_deployment_anchor demo_signer (Inr ()) (Inr demo_empty_log) (\<lambda>_. Inr ()) demo_empty_log demo_anchor
     demo_secret (tl_checkpoint_id demo_empty_log) = Inr (l', r) \<and> lf_anchor (rc_leaf r) = Some demo_anchor"
  using publication_succeeds [OF demo_empty_valid _ _ _ demo_anchor_valid, of demo_secret "\<lambda>_. Inr ()"] demo_honest
  by (auto simp: demo_empty_log_def)

text \<open>
  C13. The quorum policy accepts an attestation set exactly when it has enough attestations,
  no two of one service and key, no two of one service if services must differ, and none of
  the controller's own service if that is excluded.
\<close>

theorem quorum_policy:
  "validate_attestation_set_policy controller s = Inr () \<longleftrightarrow>
     unat (rp_minimum (as_policy s)) \<le> length (as_attestations s) \<and>
     distinct (map (\<lambda>a. (ra_service a, ra_key a)) (as_attestations s)) \<and>
     (\<not> rp_distinct (as_policy s) \<or> distinct (map ra_service (as_attestations s))) \<and>
     (\<not> rp_exclude_controller (as_policy s) \<or> controller \<notin> set (map ra_service (as_attestations s)))"
  using policy_iff by auto

theorem quorum_policy_witness:
  "\<forall>ob. validate_attestation_set_policy ''plc'' \<lparr>as_schema = 1, as_id = [], as_observation = ob,
     as_policy = \<lparr>rp_minimum = 2, rp_distinct = True, rp_exclude_controller = True\<rparr>,
     as_attestations = [demo_attestation ''camera'', demo_attestation ''lidar'']\<rparr> = Inr ()"
  by (simp only: quorum_policy) (simp add: demo_attestation_def)

section \<open>Fleet schedules\<close>

text \<open>
  C14. A conflict-free report separates its reservations: any two whose windows overlap belong
  to different robots and their occupancy boxes have no point in common.
\<close>

theorem schedule_conflict_free:
  assumes "analyze_fleet_schedule f memory reservations mr mp c = Inr p"
    and "rep_status p = ConflictFreeUnderDeclaredEnvelopes"
  shows "sorted_wrt (\<lambda>a b. time_overlaps a b \<longrightarrow> res_deployment a \<noteq> res_deployment b \<and>
     (\<nexists>x. in_box (res_occupancy a) x \<and> in_box (res_occupancy b) x)) (rep_reservations p)"
proof (simp only: sorted_wrt_iff_nth_less, intro allI impI)
  fix i j assume i: "i < j" "j < length (rep_reservations p)"
    and "time_overlaps (rep_reservations p ! i) (rep_reservations p ! j)"
  then have s: "separated (rep_reservations p ! i) (rep_reservations p ! j)"
    using conflict_free_separated [OF assms] by blast
  have "\<forall>k \<in> {i, j}. workspace_valid (res_occupancy (rep_reservations p ! k))"
    using analyze_occupancy_valid [OF assms(1)] i by (auto intro: nth_mem)
  with s separated_points show "res_deployment (rep_reservations p ! i) \<noteq> res_deployment (rep_reservations p ! j) \<and>
     (\<nexists>x. in_box (res_occupancy (rep_reservations p ! i)) x \<and> in_box (res_occupancy (rep_reservations p ! j)) x)"
    by (auto simp: separated_def)
qed

theorem schedule_conflict_free_witness:
  "sorted_wrt (\<lambda>a b. time_overlaps a b \<longrightarrow> res_deployment a \<noteq> res_deployment b \<and>
     (\<nexists>x. in_box (res_occupancy a) x \<and> in_box (res_occupancy b) x)) demo_schedule"
  using schedule_conflict_free [OF demo_analyzed demo_report_free(1)] by (simp only: demo_report_free(2))

text \<open>
  C15. The independent re-check, which replays the sweep from the report alone, accepts every
  report the analysis produces.
\<close>

theorem schedule_report_rechecks:
  assumes "analyze_fleet_schedule f memory reservations mr mp c = Inr p"
  shows "validate_fleet_schedule_report f p (max (rep_pairs p) 1) = Inr ()"
  using assms by (rule analyze_rechecks)

theorem schedule_report_rechecks_witness:
  "validate_fleet_schedule_report demo_fleet demo_report (max (rep_pairs demo_report) 1) = Inr ()"
  using schedule_report_rechecks [OF demo_analyzed] .

text \<open>
  C16. The analysis returns a report for any reservations the memory still grants, if their
  identities differ, the limits admit them and it is not cancelled.
\<close>

theorem schedule_analysis_returns:
  assumes "valid_fleet_snapshot f" and "\<forall>r\<in>set rs. granted f memory r" and "distinct (map res_id rs)"
    and "length rs \<le> mr" "0 < mr" "0 < mp" and "length (window_pairs (sort_by reservation_less rs)) \<le> mp"
  shows "\<exists>p. analyze_fleet_schedule f memory rs mr mp (\<lambda>_. False) = Inr p"
  using assms by (rule analyze_accepts)

theorem schedule_analysis_returns_witness:
  "\<exists>p. analyze_fleet_schedule demo_fleet cell_memory [arm_reservation] 1 1 (\<lambda>_. False) = Inr p"
  using schedule_analysis_returns [OF demo_fleet_valid, of "[arm_reservation]" cell_memory 1 1]
    make_reservation_granted [OF reservations_made(1)] by simp

text \<open>
  C17. The separation margin is compared with a distance computed in round-to-nearest, so it
  is not a lower bound: two reservations with a required margin of 1 whose boxes hold points
  at distance \<open>1 - 2 ^ -60\<close> are not in conflict.
\<close>

theorem margin_not_lower_bound:
  "pair_conflict near_reservation far_reservation = [] \<and>
   res_margin near_reservation = f64_one \<and> res_margin far_reservation = f64_one \<and>
   (\<exists>x y. in_box (res_occupancy near_reservation) [x, 0, 0] \<and> in_box (res_occupancy far_reservation) [y, 0, 0] \<and>
      0 < y - x \<and> y - x < val f64_one)"
proof (intro conjI exI)
  show "pair_conflict near_reservation far_reservation = []" by (rule margin_accepted)
  show "in_box (res_occupancy near_reservation) [1 / 2 ^ 60, 0, 0]" "in_box (res_occupancy far_reservation) [1, 0, 0]"
    using close_points by (simp_all add: near_reservation_def far_reservation_def)
qed (simp_all add: one_val near_reservation_def far_reservation_def)

text \<open>
  C18. A fleet snapshot is created valid: sorted by deployment without duplicates, its
  identity the digest of its content, and with exactly the given members.
\<close>

theorem snapshot_created_valid:
  assumes "make_fleet_snapshot fleet scene members = Inr f"
  shows "valid_fleet_snapshot f \<and> snap_fleet f = fleet \<and> snap_scene f = scene \<and>
     set (snap_members f) = set members"
  using make_fleet_snapshot_valid [OF assms] by simp

theorem snapshot_created_valid_witness: "valid_fleet_snapshot demo_fleet"
  using snapshot_created_valid [OF demo_fleet_made] by simp



section \<open>Safety memory operations\<close>

text \<open>
  C20. An artifact is reusable directly exactly when deployment, robot and scene match, it is
  active with enough evidence and all required tags, and type and task are as asked.
\<close>

theorem reuse_direct_iff:
  assumes "memory_valid m" and "a \<in> set (artifacts m)"
  shows "cand_disposition (assess a q) = Direct \<longleftrightarrow>
     art_deployment a = q_deployment q \<and> art_robot a = q_robot q \<and> art_scene a = q_scene q \<and>
     art_state a = Active \<and> q_evidence q \<le> art_evidence a \<and> set (q_tags q) \<subseteq> set (art_tags a) \<and>
     (\<forall>t. q_type q = Some t \<longrightarrow> art_type a = t) \<and> (q_same_task q \<or> art_task a \<noteq> q_task q)"
  by (rule assess_Direct_iff) (rule valid_artifactD [OF valid_artifact_of_memory [OF assms]])

theorem reuse_direct_iff_witness: "cand_disposition (assess demo_artifact demo_query) = Direct"
proof -
  have "demo_artifact \<in> set (artifacts demo_memory)" by (simp add: demo_memory_def)
  from reuse_direct_iff [OF demo_memory_valid this, of demo_query] show ?thesis
    by (simp add: demo_query_def less_eq_evidence_level_def)
qed

text \<open>
  C21. A reuse query returns exactly the reusable assessments of the artifacts of the memory,
  in the order of preference, and no more than asked for.
\<close>

theorem query_complete:
  assumes "query_reuse m q = Inr cs"
  shows "set cs = {c. \<exists>a\<in>set (artifacts m). c = assess a q \<and> reusable q c} \<and>
     sorted (map candidate_key cs) \<and> length cs \<le> q_maximum q"
  using query_reuse_Inr [OF assms] by simp

theorem query_complete_witness: "\<exists>cs. query_reuse demo_memory demo_query = Inr cs \<and> assess demo_artifact demo_query \<in> set cs"
proof -
  obtain cs where cs: "query_reuse demo_memory demo_query = Inr cs" using demo_query_answered by blast
  have "reusable demo_query (assess demo_artifact demo_query)" by (simp add: reusable_def demo_direct)
  then show ?thesis using query_complete [OF cs] cs by (auto simp: demo_memory_def)
qed





text \<open>
  Registration binds the content: the artifact returned for an input, new or found by
  its identity, has the content of the input, or the two texts are a SHA-256 collision.
\<close>

theorem registration_binds:
  assumes "memory_valid m" and "register_artifact m i na ne = Inr (m', a)"
  shows "artifact_identity_json a = artifact_identity_json (new_artifact i (sort_unique (in_tags i)) (next_sequence m))
     \<or> sha256_collision (canonical (artifact_identity_json a))
          (canonical (artifact_identity_json (new_artifact i (sort_unique (in_tags i)) (next_sequence m))))"
  using assms by (rule register_content)

theorem registration_binds_witness: "artifact_identity_json demo_artifact = artifact_identity_json demo_artifact
    \<or> sha256_collision (canonical (artifact_identity_json demo_artifact)) (canonical (artifact_identity_json demo_artifact))"
proof -
  have n: "normalize_tags (in_tags demo_input) = Inr [''shelf'']" by (simp add: demo_input_def demo_texts)
  then have "sort_unique (in_tags demo_input) = [''shelf'']"
    by (simp add: normalize_tags_def split: if_splits)
  then have "new_artifact demo_input (sort_unique (in_tags demo_input)) (next_sequence empty_memory) = demo_artifact"
    by (simp add: demo_artifact_def empty_memory_def)
  with registration_binds [OF empty_memory_valid demo_register] show ?thesis by simp
qed

section \<open>Text, numbers and digests\<close>

text \<open>
  C24. JSON round trip: parsing what \<open>dump\<close> writes for a storable value, canonical or pretty,
  with any white space around it, gives the value back.
\<close>

theorem json_roundtrip:
  assumes "storable j" and "all_space w" and "all_space w'"
  shows "json_parse (w @ dump p 0 j @ w') = Inr j"
  using assms by (rule json_parse_dump)

theorem json_roundtrip_witness: "json_parse ('' '' @ dump True 0 (JArr [JBool True, JStr ''a'']) @ []) = Inr (JArr [JBool True, JStr ''a''])"
  by (rule json_roundtrip) (simp_all add: storable_def all_space_def is_space_def)

text \<open>
  C25. The parser terminates on every text with a value or an error of kind \<open>CorruptData\<close>: its
  fuel, the length of the text and one, never runs out.
\<close>

theorem json_parser_total:
  "case json_parse s of Inl e \<Rightarrow> code e = CorruptData | Inr j \<Rightarrow> True"
  using parse_fuel_enough by (auto split: sum.split)

text \<open>
  The canonical text of a value determines it, so an identity hashed from it binds the
  whole value up to collisions.
\<close>

theorem canonical_binds:
  assumes "storable a" and "storable b" and "sha256 (canonical a) = sha256 (canonical b)"
  shows "a = b \<or> sha256_collision (canonical a) (canonical b)"
  using sha256_eq_cases [OF assms(3)] canonical_inj [OF assms(1,2)] by auto

theorem canonical_binds_witness: "JArr [JNull] = JArr [JNull] \<or> sha256_collision (canonical (JArr [JNull])) (canonical (JArr [JNull]))"
  by (rule canonical_binds) (simp_all add: storable_def)


text \<open>
  The message authentication code is that of RFC 2104 over the standard hash, for keys
  of any length.
\<close>

theorem hmac_standard:
  "hmac_sha256 k m =
     (let kb = (if length k > 64 then fips_sha256 k else k);
          block = kb @ replicate (64 - length kb) 0
      in hex_digest (fips_sha256 (map (\<lambda>b. b XOR 0x5c) block @
           fips_sha256 (map (\<lambda>b. b XOR 0x36) block @ m))))"
  by (simp add: hmac_rfc2104)

text \<open>
  The comparison of two tags, which visits every position, decides equality.
\<close>

theorem tag_comparison: "constant_time_equal s t \<longleftrightarrow> s = t"
  by (rule constant_time_equal_eq)

text \<open>
  Every finite binary64 value survives its text: \<open>strtod\<close> reads what the 17-digit format
  writes back to the same bits.
\<close>

theorem number_text_roundtrip:
  assumes "isfinite v"
  shows "strtod (format17 v) = (v, [])"
  using assms by (rule strtod_format17)

theorem number_text_roundtrip_witness: "strtod (format17 f64_one) = (f64_one, [])"
  by (rule number_text_roundtrip) (rule one_finite)

text \<open>
  Hexadecimal keys and signatures survive their text, and a text of the wrong length is
  refused.
\<close>

theorem hex_roundtrip:
  "decode_hex (encode_hex bs) (length bs) = Inr bs \<and>
     (length (encode_hex bs) = 2 * n \<or> (\<exists>e. decode_hex (encode_hex bs) n = Inl e))"
  by (simp add: decode_encode_hex) (simp add: decode_hex_def failure_def)

text \<open>
  A box that contains another contains all of its points.
\<close>

theorem box_containment:
  assumes "workspace_valid a" and "workspace_valid b" and "contains_box a b" and "in_box b x"
  shows "in_box a x"
  using assms by (rule contains_box_points)

theorem box_containment_witness: "in_box unit_box [1 / 2 ^ 60, 0, 0]"
  by (rule box_containment [OF unit_boxes(1,2,4) close_points(1)])

section \<open>The safety memory on disk\<close>

text \<open>
  C27. A safety memory that was saved to a fresh directory is loaded back as it was, if the
  limits of the reader admit it.
\<close>

theorem memory_file_roundtrip:
  assumes "save_safety_memory version io m d False None = (Inr (), after)" and "loadable opts version m"
  shows "\<exists>dir. after = Some dir \<and> load_safety_memory opts d (read_directory dir) = Inr m"
proof -
  have "memory_valid m" using save_outcomes(2) [OF assms(1)] by simp
  from load_saved [OF this assms(2)] save_outcomes(3) [OF assms(1)] show ?thesis by simp
qed

theorem memory_file_roundtrip_witness:
  "\<exists>dir. load_safety_memory (so_load demo_options) ''/memory'' (read_directory dir) = Inr demo_memory"
  using memory_file_roundtrip [OF demo_saved demo_loadable(2)] by blast



text \<open>
  C29. Whatever a directory holds, a store that opens is a chain: revision \<open>k\<close> has sequence
  \<open>k\<close>, names its parent and is identified by its digest, there are no more than the limit,
  and the current one loads a memory with the registered identity.
\<close>

theorem store_open_sound:
  assumes "open_store opts d sd = Inr s"
  shows "chained (ms_revisions s) \<and> ms_revisions s \<noteq> [] \<and> length (ms_revisions s) \<le> so_maximum_revisions opts \<and>
     ms_current s = ri_id (last (ms_revisions s)) \<and>
     (\<exists>m r. load_current sd s = Inr m \<and> r \<in> set (ms_revisions s) \<and> ri_id r = ms_current s \<and>
        memory_identity m = ri_memory r)"
  using open_sound [OF assms] by simp

theorem store_open_sound_witness: "chained (ms_revisions (store_of demo_options ''/store'' [empty_memory]))"
  using store_open_sound [OF open_represents [OF demo_represents]] by simp

text \<open>
  C30. Publishing refines appending to a list of memories: when no step fails and the lock is
  free, the result is that of the specification, and opening the directory again gives the
  very store that was returned (the old one when the specification refuses).
\<close>

theorem store_publish_refines:
  assumes "ms_options s = opts" "ms_directory s = d" "d \<noteq> []" "\<forall>step. io step = None" "\<not> sd_locked sd"
    and "represents version opts sd ms" "publishable version opts sd ms m" "fresh_name sd ms m nonce"
    and "expected = ri_id (last (chain ms))" "length ms < maximum" "length ms < so_maximum_revisions opts"
  shows "\<exists>ws. publish_memory version nonce io s sd m expected maximum = (publish_spec opts d ms m, ws) \<and>
     open_store opts d (foldl apply_write sd ws) =
       Inr (case publish_spec opts d ms m of Inl _ \<Rightarrow> store_of opts d ms | Inr (s', _) \<Rightarrow> s')"
  using assms by (rule publish_refines)

theorem store_publish_refines_witness:
  "\<exists>ws. publish_memory ''1.0'' ''7'' (\<lambda>_. None) (store_of demo_options ''/store'' [empty_memory]) demo_store
     demo_memory (ri_id (last (chain [empty_memory]))) 10 = (publish_spec demo_options ''/store'' [empty_memory] demo_memory, ws)"
  using store_publish_refines [OF _ _ _ _ _ demo_represents demo_publishable demo_fresh_name,
      of "store_of demo_options ''/store'' [empty_memory]" "''/store''" "\<lambda>_. None" "ri_id (last (chain [empty_memory]))" 10]
  by (auto simp: demo_handle)

text \<open>
  C31. A crash anywhere in a publication, successful or not, leaves a directory that opens to
  the old revisions or to those with the new one, and every one of them loads its memory.
\<close>

theorem store_crash_safe:
  assumes "publish_memory version nonce io s sd m expected maximum = (res, ws)"
    and "ms_options s = opts" "ms_directory s = d" "d \<noteq> []"
    and "represents version opts sd ms" "publishable version opts sd ms m" "fresh_name sd ms m nonce"
  shows "\<exists>ms'. (ms' = ms \<or> ms' = ms @ [m]) \<and>
     open_store opts d (foldl apply_write sd (take k ws)) = Inr (store_of opts d ms') \<and>
     store_contents opts d (foldl apply_write sd (take k ws)) = zip (chain ms') (map Inr ms')"
proof -
  obtain ms' where m: "ms' \<in> {ms, ms @ [m]}" and r: "represents version opts (foldl apply_write sd (take k ws)) ms'"
    using publish_crash [OF assms, of k] by (elim bexE)
  show ?thesis
    by (rule exI [of _ ms'], use m in \<open>simp add: open_represents [OF r assms(4)] contents_represented [OF r assms(4)]\<close>)
qed

theorem store_crash_safe_witness:
  "\<forall>k. \<exists>ms'. store_contents demo_options ''/store'' (foldl apply_write demo_store (take k demo_writes)) =
     zip (chain ms') (map Inr ms')"
proof
  fix k
  from store_crash_safe [OF demo_publish demo_handle(1-3) demo_represents demo_publishable demo_fresh_name, of k]
  show "\<exists>ms'. store_contents demo_options ''/store'' (foldl apply_write demo_store (take k demo_writes)) =
     zip (chain ms') (map Inr ms')"
    by (elim exE conjE) (rule exI)
qed



section \<open>Trust histories\<close>

text \<open>
  C33. Whatever the directory holds, a history that opens has the pinned root and head and at most
  the allowed number of bundles, and each of its rotations keeps every key and was authorized by
  the quorum of active rotation keys that the policy of the bundle before it asks for.
\<close>

theorem trust_open_sound:
  assumes "open_history c d root_pin head_pin opts cancelled disk = Inr h"
  shows "tb_id (hd (th_bundles h)) = root_pin \<and> tb_id (last (th_bundles h)) = head_pin \<and>
     length (th_bundles h) \<le> to_bundles opts \<and>
     (\<forall>k. Suc k < length (th_bundles h) \<longrightarrow> rotates (th_bundles h ! k) (th_bundles h ! Suc k) \<and>
        authorized_step c (th_bundles h ! k) (th_bundles h ! Suc k) (th_records h ! Suc k))"
proof -
  note o = open_history_sound [OF assms]
  have "tb_id (hd (th_bundles h)) = th_root h" "tb_id (last (th_bundles h)) = th_current h"
    using o(1) by (simp_all add: history_valid_def)
  with o history_rotates [OF o(1)] show ?thesis by simp
qed

theorem trust_open_sound_witness:
  "authorized_step demo_signer demo_root demo_next demo_record"
proof -
  have "open_history demo_signer ''/trust'' (tb_id demo_root) (tb_id demo_next) default_trust_options (\<lambda>_. False)
      (Some (foldl apply_trust_write demo_trust_directory demo_trust_writes)) = Inr demo_trust_next"
    using open_kept [OF demo_keeps_next] by (simp add: demo_trust_next_def extend_history_def)
  from trust_open_sound [OF this] show ?thesis by (auto dest: spec [of _ 0])
qed

text \<open>
  C34. A key keeps its public key, window start and rights through a history; once it was retired
  or revoked in a bundle, no authorization recorded from then on is signed by it.
\<close>

theorem trust_key_lifecycle:
  assumes "history_valid c h" and "i \<le> j" and "j < length (th_bundles h)" and "k \<in> set (tb_keys (th_bundles h ! i))"
  shows "(\<exists>n\<in>set (tb_keys (th_bundles h ! j)). same_immutable_key_policy k n \<and>
       (sk_state k = KeyRevoked \<longrightarrow> sk_state n = KeyRevoked)) \<and>
     (sk_state k = KeyRetired \<or> sk_state k = KeyRevoked \<longrightarrow> Suc j < length (th_bundles h) \<longrightarrow>
       (\<forall>a\<in>set (signers (th_records h ! Suc j)). (ba_service a, ba_key a) \<noteq> (sk_service k, sk_id k)))"
proof -
  obtain n where "n \<in> set (tb_keys (th_bundles h ! j))" "evolves k n"
    using rotations_keys [OF history_rotations [OF assms(1,2,3)] assms(4)] by blast
  moreover have "same_immutable_key_policy k n" "sk_state k = KeyRevoked \<longrightarrow> sk_state n = KeyRevoked"
    using \<open>evolves k n\<close> revoked_key [of k n] by (simp add: evolves_def, blast)
  ultimately show ?thesis
    using ended_key_never_signs [OF assms(1,2) _ assms(4)] unfolding signer_name_def key_name_def by blast
qed

theorem trust_key_lifecycle_witness:
  "list_all (\<lambda>a. (ba_service a, ba_key a) \<noteq> (''gamma'', sk_id (demo_key ''gamma'' KeyRetired 5))) (signers demo_record)"
  using trust_key_lifecycle [OF demo_next_valid, of 0 0 "demo_key ''gamma'' KeyRetired 5"] by (simp add: list_all_iff)



text \<open>
  C36. A publication refines appending one entry: it succeeds only on the expected head, the result
  is the history with the new entry, and after any prefix of its writes the directory keeps the
  old history or the extended one, which opens to exactly that.
\<close>

theorem trust_publish_refines:
  assumes "publish_impl c version nonce io (\<lambda>_. False) h td b a s expected maximum = (res, ws)"
    and "keeps c version td h0"
    and "th_directory h = th_directory h0" and "th_root h = th_root h0" and "th_options h = th_options h0"
    and "th_schema h = th_schema h0"
    and "successor_fits version td h0 b (next_record h0 (th_schema h0) b a s)"
  defines "h' \<equiv> extend_history h0 b (next_record h0 (th_schema h0) b a s)"
  shows "(\<exists>h1\<in>{h0, h'}. keeps c version (foldl apply_trust_write td (take k ws)) h1) \<and>
     (case res of Inl _ \<Rightarrow> keeps c version (foldl apply_trust_write td ws) h0
      | Inr (h1, _) \<Rightarrow> h1 = h' \<and> expected = th_current h0 \<and> keeps c version (foldl apply_trust_write td ws) h')"
  using always_take [OF publish_keeps(1) [OF assms(1-7)], of k] publish_keeps(2) [OF assms(1-7)]
  unfolding h'_def by (auto simp: old_or_new_def split: sum.splits)

theorem trust_publish_refines_witness:
  "keeps demo_signer ''1.0'' (foldl apply_trust_write demo_trust_directory demo_trust_writes) demo_trust_next"
  using trust_publish_refines [OF demo_published demo_keeps refl refl refl refl, unfolded demo_record_next, OF demo_successor_fits]
  by (simp add: demo_trust_next_def)



text \<open>
  C38. A history opened against a pinned checkpoint has the root, head and length the checkpoint
  names, and distinct active rotation keys of its head bundle, as many as its policy asks for,
  signed those pins.
\<close>

theorem trust_checkpoint_pins:
  assumes "open_history_at_checkpoint c d root_pin t expected opts cancelled disk = Inr h"
  shows "history_valid c h \<and> tc_id t = expected \<and> th_root h = root_pin \<and> th_current h = tc_head t \<and>
     length (th_records h) = unat (tc_sequence t) \<and> checkpoint_quorum c (last (th_bundles h)) t"
  using open_at_checkpoint [OF assms] by simp

theorem trust_checkpoint_pins_witness: "checkpoint_quorum demo_signer demo_root demo_checkpoint"
proof -
  note a = assemble_checkpoint_accepts [OF demo_checkpoint_assembled]
  have "open_history demo_signer ''/trust'' (tb_id demo_root) (tb_id demo_root) default_trust_options (\<lambda>_. False)
      (Some demo_trust_directory) = Inr demo_trust"
    using open_kept [OF demo_keeps, of "tb_id demo_root"] by simp
  then have "open_history_at_checkpoint demo_signer ''/trust'' (tb_id demo_root) demo_checkpoint (tc_id demo_checkpoint)
      default_trust_options (\<lambda>_. False) (Some demo_trust_directory) = Inr demo_trust"
    using a(3-5) assembled_checkpoint_verifies [OF demo_checkpoint_assembled]
    by (simp add: open_history_at_checkpoint_def)
  from trust_checkpoint_pins [OF this] show ?thesis by simp
qed

text \<open>
  C39. A service trust bundle is loaded back from its document as it was, under every limit that it
  respects.
\<close>

theorem trust_bundle_roundtrip:
  assumes "trust_bundle_valid b" and "bundle_typed b" and "bundle_loadable maximum_keys maximum_payload version b"
    and "path \<noteq> []"
  shows "load_service_trust_bundle maximum_keys maximum_payload path
     (Some (service_trust_bundle_storage_document version b)) = Inr b"
  using assms by (rule load_saved_bundle)

theorem trust_bundle_roundtrip_witness:
  "load_service_trust_bundle 10 65536 ''bundle.json'' (Some (service_trust_bundle_storage_document ''1.0'' demo_root)) = Inr demo_root"
  using demo_documents_short(1)
  by (intro trust_bundle_roundtrip demo_bundles_valid)
    (auto simp: bundle_typed_def bundle_loadable_def stream_limit_def intro: order_trans)

section \<open>Deployment review\<close>

text \<open>
  C0. A profile that is loaded was reviewed: whatever the file holds, the loaded profile is bound to
  the root, checkpoint and head of the caller's trust history, and approvals under keys of that
  head, each a signature by a distinct signer with publication rights, satisfy its policy.
\<close>

theorem loaded_profile_reviewed:
  assumes "load_reviewed_deployment_profile c opts readable path h t expected f = Inr r"
  shows "reviewed_valid r \<and> verify_service_trust_checkpoint c h t expected = Inr () \<and>
     dp_trust_root (rd_profile r) = th_root h \<and> dp_trust_checkpoint (rd_profile r) = expected \<and>
     dp_trust_bundle (rd_profile r) = th_current h \<and>
     reviewed_under c (last (th_bundles h)) (rd_profile r) (ps_approvals (rd_approvals r))"
  using reviewed_created [OF loaded_reviewed [OF assms]] by simp

theorem loaded_profile_reviewed_witness:
  "reviewed_under demo_signer demo_root demo_profile (ps_approvals demo_profile_set)"
proof -
  have "load_reviewed_deployment_profile demo_signer default_review_options True ''profile.json'' demo_trust demo_checkpoint
      (tc_id demo_checkpoint) (Regular demo_review_file) = Inr demo_reviewed"
    unfolding demo_review_file_def by (rule reviewed_loads [OF demo_reviewed_created demo_review_loadable]) simp
  from loaded_profile_reviewed [OF this] show ?thesis by simp
qed

text \<open>
  C0. A reviewed profile is loaded back from its file as it was, under the checkpoint it was reviewed
  with and every limit that it respects.
\<close>

theorem reviewed_profile_roundtrip:
  assumes "create_reviewed_profile c p s h t expected = Inr r" and "reviewed_loadable opts version r" and "path \<noteq> []"
  shows "load_reviewed_deployment_profile c opts True path h t expected (Regular (document_text (reviewed_json version r))) = Inr r"
  using assms by (rule reviewed_loads)

theorem reviewed_profile_roundtrip_witness:
  "load_reviewed_deployment_profile demo_signer default_review_options True ''profile.json'' demo_trust demo_checkpoint
     (tc_id demo_checkpoint) (Regular demo_review_file) = Inr demo_reviewed"
  unfolding demo_review_file_def by (rule reviewed_profile_roundtrip [OF demo_reviewed_created demo_review_loadable]) simp

text \<open>
  C0. The assessment of a snapshot names exactly the constraints that the snapshot violates, each
  once in the fixed order, and calls it conformant exactly when there are none.
\<close>

theorem assessment_exact:
  assumes "assess_snapshot r s = Inr a"
  shows "assessment_valid a \<and> set (am_violations a) = {v. violated (rd_profile r) s v} \<and>
     successively (\<lambda>v w. violation_code v < violation_code w) (am_violations a) \<and>
     (am_status a = Conformant \<longleftrightarrow> am_violations a = [])"
  using assessed(1-3) [OF assms] violations_in_order [OF assms] by auto

theorem assessment_exact_witness:
  "\<exists>a. assess_snapshot demo_reviewed (demo_runtime 2000) = Inr a \<and> set (am_violations a) = {ObservationAgeExceeded}"
proof -
  have "has_value (assess_snapshot demo_reviewed (demo_runtime 2000))"
    by (simp add: assess_snapshot_def demo_runtime_valid Let_def)
  then obtain a where a: "assess_snapshot demo_reviewed (demo_runtime 2000) = Inr a" by (auto simp: has_value_iff)
  have "violated demo_profile (demo_runtime 2000) v \<longleftrightarrow> v = ObservationAgeExceeded" for v
    by (cases v) (simp_all add: demo_runtime_def)
  with assessment_exact [OF a] have "set (am_violations a) = {ObservationAgeExceeded}" by auto
  with a show ?thesis by blast
qed

section \<open>Bounded execution\<close>

text \<open>
  C0. A session exists only when everything it needs was checked: its commands replay the audit and
  the connectivity certificate of the atlas, reviewers that approved the profile signed the
  request, the controller signed the command sequence and the monitor an armed observation that
  violates no constraint, and the session ends while that observation is still fresh.
\<close>

theorem session_sound:
  assumes "create_session c q s as ca ma r b a = Inr e"
  shows "session_valid e \<and> es_request e = q \<and> es_sequence e = s \<and> verify_compatible s a default_region_tests = Inr () \<and>
     session_approved c b q r (ss_approvals as) \<and>
     endpoint_signs c (rq_controller q) (ca_tag ca) (execution_controller_acknowledgement_message ca) \<and>
     endpoint_signs c (rq_monitor q) (ma_tag ma) (execution_monitor_acknowledgement_message ma) \<and>
     xo_monitor (ma_observation ma) = ArmedCertifiedSequence \<and>
     violations_of (rd_profile r) (xo_runtime (ma_observation ma)) = [] \<and> session_window e r"
  using session_created [OF assms] by (simp add: no_violations)

theorem session_sound_witness: "session_approved demo_signer demo_root demo_request demo_reviewed (ss_approvals demo_session_approvals)"
  using session_sound [OF demo_session_created] by simp

text \<open>
  C0. Every command a session authorizes is the acknowledged one at its index, dispatched inside its
  own window of time, and at that moment the observation behind the session is not older than
  the reviewed profile allows.
\<close>

theorem authorized_in_window:
  assumes "create_session c q s as ca ma r b a = Inr e" and "session_authorize_command e i x t = Inr (Some u)"
  shows "authorization_valid u \<and> unat i < length (sq_commands s) \<and> au_index u = i \<and> au_dispatch u = t \<and>
     au_digest u = execution_command_digest (sq_commands s ! unat i) \<and>
     same_configuration x (ec_configuration (sq_commands s ! unat i)) \<and> command_window e (unat i) (unat t) \<and>
     unat (rs_observation_age (xo_runtime (ma_observation ma))) + (unat t - unat (xo_observed (ma_observation ma))) \<le>
       unat (cn_observation_age (dp_constraints (rd_profile r)))"
proof -
  note s = session_created [OF assms(1)] and a = authorized_command [OF assms(2)]
  from window_fresh(2) [OF s(13) a(9)] s(3,6) a show ?thesis by simp
qed

theorem authorized_in_window_witness: "command_window demo_session 0 1020"
  using authorized_in_window [OF demo_session_created demo_command_authorized] by simp

section \<open>The execution ledger\<close>

text \<open>
  C0. What a passed audit certifies: the records form one chain, commands are authorized in order
  from the first, one at a time, each cleared under a signed checkpoint while all reviewers were
  active; completions name them in the same order and are signed by the controller; checkpoints
  never go back.
\<close>

theorem audit_certifies:
  assumes "audit_ledger c l e r h a = Inr p"
  shows "session_bound l e \<and> ledger_chain (el_id l) (el_session l) (el_records l) \<and>
     ledger_order (el_count l) (el_records l) (ledger_summary_of l) \<and> lp_status p = lm_status (ledger_summary_of l) \<and>
     (\<forall>x\<in>set (el_records l). \<forall>u. lr_authorization x = Some u \<longrightarrow> (\<exists>t. lr_checkpoint x = Some t \<and> command_cleared c e h u t)) \<and>
     (\<forall>v\<in>set (completions (el_records l)). \<exists>u\<in>set (authorizations (el_records l)). completion_signed c e u v) \<and>
     sorted (map tc_sequence (checkpoints (el_records l)))"
  using audited [OF assms] by blast

theorem audit_certifies_witness:
  "command_cleared demo_signer demo_session demo_trust demo_authorized_command demo_checkpoint"
proof -
  obtain p where "audit_ledger demo_signer demo_granted_ledger demo_session demo_reviewed demo_trust demo_view = Inr p"
    using reached_audited [OF demo_granted_ledger_reached demo_trust_distinct] by (auto simp: has_value_iff)
  note c = audit_certifies [OF this]
  let ?x = "authorized_record demo_ledger demo_grant_input demo_authorized_command"
  have "?x \<in> set (el_records demo_granted_ledger)" by (simp add: demo_granted_ledger_def)
  moreover have "lr_authorization ?x = Some demo_authorized_command" "lr_checkpoint ?x = Some demo_checkpoint"
    by (simp_all add: demo_grant_input_def)
  ultimately show ?thesis using c by (metis option.inject)
qed

text \<open>
  C0. Every ledger that creation and any sequence of authorizations, completions, cancellations,
  expirations and revocations leads to passes the audit, whatever their arguments and whichever
  of them fail, if the bundles of the trust history have distinct identities.
\<close>

theorem ledger_passes_audit:
  assumes "ledger_reached c e r h a l" and "distinct (map tb_id (th_bundles h))"
  shows "ledger_valid l \<and> has_value (audit_ledger c l e r h a)"
  using reached_audited [OF assms] by (simp add: audit_passes_iff)

theorem ledger_passes_audit_witness: "ledger_valid demo_granted_ledger"
  using ledger_passes_audit [OF demo_granted_ledger_reached demo_trust_distinct] by simp

text \<open>
  C0. A decision that authorizes a command: the ledger was the one the caller pinned and open, the
  command is the next one and inside its window, the pinned current checkpoint verifies and is
  not behind the last one used, every reviewer is still active in the head bundle, and the
  record was appended before the decision was returned.
\<close>

theorem command_grant_sound:
  assumes "ledger_authorize_command c disk self e r a i = (Inr d, l')" and "cd_authorization d = Some u"
  shows "\<exists>l x. ld_open disk = Inr l \<and> el_current l = zi_expected_record i \<and> l' = extended l x \<and> ledger_valid l' \<and>
     ld_append disk x = Inr () \<and> lr_authorization x = Some u \<and> lr_checkpoint x = Some (zi_checkpoint i) \<and>
     lm_status (ledger_summary_of l) = LedgerOpen \<and> unat (zi_index i) = lm_next (ledger_summary_of l) \<and>
     session_authorize_command e (zi_index i) (zi_configuration i) (zi_dispatch i) = Inr (Some u) \<and>
     verify_service_trust_checkpoint c (zi_history i) (zi_checkpoint i) (zi_expected_checkpoint i) = Inr () \<and>
     \<not> rolled_back (zi_checkpoint i) (fst (latest_checkpoint (el_records l))) (snd (latest_checkpoint (el_records l))) \<and>
     reviewers_active e (last (th_bundles (zi_history i)))"
  by (rule command_granted [OF assms]) blast

theorem command_grant_sound_witness: "reviewers_active demo_session demo_root"
proof -
  obtain d where "ledger_authorize_command demo_signer (demo_disk demo_ledger) demo_ledger demo_session demo_reviewed demo_view
      demo_grant_input = (Inr d, demo_granted_ledger)" "cd_authorization d = Some demo_authorized_command"
    using demo_command_granted by blast
  from command_grant_sound [OF this] show ?thesis by (auto simp: demo_grant_input_def)
qed

text \<open>
  C0. The next command of an open ledger with room is granted when the dependencies of the session
  and the pinned checkpoint verify, no reviewer is inactive, it is inside its window and the
  append succeeds.
\<close>

theorem command_grant_complete:
  assumes "ledger_valid l" and "lm_status (ledger_summary_of l) = LedgerOpen" and "unat (zi_index i) = lm_next (ledger_summary_of l)"
    and "lr_observed (last (el_records l)) \<le> zi_dispatch i" and "length (el_records l) < min (el_maximum l) (2 ^ 64)"
    and "ld_lock disk = Inr ()" and "ld_open disk = Inr l" and "el_current l = zi_expected_record i"
    and "ld_append disk (authorized_record l i u) = Inr ()"
    and "verify_current_context c e r (zi_history i) (zi_checkpoint i) (zi_expected_checkpoint i) a = Inr b"
    and "\<not> rolled_back (zi_checkpoint i) (fst (latest_checkpoint (el_records l))) (snd (latest_checkpoint (el_records l)))"
    and "inactive_reviewer_key e b = Inr None"
    and "session_authorize_command e (zi_index i) (zi_configuration i) (zi_dispatch i) = Inr (Some u)"
  shows "\<exists>d. ledger_authorize_command c disk self e r a i = (Inr d, extended l (authorized_record l i u)) \<and>
     cd_authorization d = Some u"
  by (rule grants [OF assms(1-4) _ _ assms(6-13)]) (use assms(5) in simp_all)

theorem command_grant_complete_witness:
  "\<exists>d. ledger_authorize_command demo_signer (demo_disk demo_ledger) demo_ledger demo_session demo_reviewed demo_view demo_grant_input =
     (Inr d, demo_granted_ledger) \<and> cd_authorization d = Some demo_authorized_command"
  unfolding demo_granted_ledger_def
  by (rule command_grant_complete [OF demo_ledger_valid(1) demo_ledger_open(1), where b = demo_root])
    (simp_all add: demo_grant_input_def demo_ledger_open demo_context demo_reviewers_active demo_command_authorized
      rolled_back_def latest_checkpoint_def)

text \<open>
  C0. A ledger that has ended (completed, failed, cancelled, expired or revoked) is final: every
  operation on it fails and leaves it as it is.
\<close>

theorem ended_ledger_final:
  assumes "ld_open disk = Inr l" and "terminal_status (lm_status (ledger_summary_of l))"
  shows "(\<nexists>d. fst (ledger_authorize_command c disk l e r a i) = Inr d) \<and> snd (ledger_authorize_command c disk l e r a i) = l \<and>
     (\<nexists>x. fst (record_completion c disk l e v k) = Inr x) \<and> snd (record_completion c disk l e v k) = l \<and>
     (\<nexists>x. fst (cancel_ledger disk l t n k) = Inr x) \<and> snd (cancel_ledger disk l t n k) = l \<and>
     (\<nexists>x. fst (expire_ledger disk l e t k) = Inr x) \<and> snd (expire_ledger disk l e t k) = l \<and>
     (\<nexists>x. fst (revoke_dependency disk l e w z t n k) = Inr x) \<and> snd (revoke_dependency disk l e w z t n k) = l"
  using ended_authorize [OF assms] ended_completion [OF assms] ended_cancel [OF assms] ended_expire [OF assms] ended_revoke [OF assms]
  by (simp add: refused_step_def)

theorem ended_ledger_final_witness: "snd (cancel_ledger (demo_disk demo_cancelled) demo_cancelled 1030 ''stop'' (el_current demo_cancelled)) = demo_cancelled"
  using ended_ledger_final [OF demo_disk_fields(2) demo_cancelled_ended] by simp

end
